(* ===== verification/Prelude.thy ===== *)
theory Prelude
  imports Main "HOL-Library.Word"
begin

text \<open>
  Shared ground of the development: the exceptions of the Python sources as one datatype, the
  result type of fallible functions, the state-and-exception functions that model methods which
  mutate an object and may raise, the width predicates for the 16 and 32 bit fields of the wire
  format, and the list and bit lemmas the component theories share.

  Python integers are unbounded, so every integer of the sources is an \<^typ>\<open>int\<close> here and every
  range check of the sources is written out.  Exception messages are kept as literal strings; a
  message that the source formats with run-time values is represented by its fixed part.
\<close>

unbundle bit_operations_syntax

named_theorems wf_intros \<open>introduction rules for the well-formedness predicates of the wire data\<close>
named_theorems u_simps \<open>unfolding of the width predicates\<close>
named_theorems sm_simps \<open>evaluation of state-and-exception functions\<close>

section \<open>Exceptions and results\<close>

text \<open>The values of the dictionaries that results and errors carry.\<close>

datatype pyval =
    PNone
  | PBool bool
  | PInt int
  | PStr string
  | PList "pyval list"
  | PDict "(string \<times> pyval) list"

type_synonym pydict = "(string \<times> pyval) list"

datatype exc =
    ValueError string
  | FrameError string
  | FrameLengthError string
  | HeaderCrcError string
  | PayloadCrcError string
  | DataAlignmentError string
  | SequenceMismatchError string
  | ProtocolClientError string
  | ProtocolDecodeError string
  | ProtocolStatusError int int
  | ProtocolPayloadLimitError int int int "int option" "int option"
  | WorkflowError string
  | Sci8ParseError string
  | IoDeviceError string
  | IoTimeoutError string
  | IoDeviceNotOpenError string
  | TransportError string
  | TransportTimeoutError string
  | TransportClosedError string
  | UnsupportedOperationError string
  | OperationFailure string string string bool pydict
  | RuntimeError string
  | KeyError string
  | CliToolError string string string "string option"
  | CliConfigurationError string
  | RuntimeCommunicationError string
  | OtherError string string
  | AssertionError
  | Diverges

type_synonym 'a res = "exc + 'a"

text \<open>
  \<open>OtherError\<close> carries the class name and the message of an exception that no \<open>except\<close> clause of the
  modelled code names.
\<close>

text \<open>The \<open>except\<close> clauses of the sources match a class and its subclasses.\<close>

fun is_frame_error :: "exc \<Rightarrow> bool" where
  "is_frame_error (FrameError _) = True"
| "is_frame_error (FrameLengthError _) = True"
| "is_frame_error (HeaderCrcError _) = True"
| "is_frame_error (PayloadCrcError _) = True"
| "is_frame_error _ = False"

fun is_value_error :: "exc \<Rightarrow> bool" where
  "is_value_error (ValueError _) = True"
| "is_value_error (DataAlignmentError _) = True"
| "is_value_error (SequenceMismatchError _) = True"
| "is_value_error (Sci8ParseError _) = True"
| "is_value_error (CliConfigurationError _) = True"
| "is_value_error e = is_frame_error e"

fun exc_msg :: "exc \<Rightarrow> string" where
  "exc_msg (ValueError m) = m"
| "exc_msg (FrameError m) = m"
| "exc_msg (FrameLengthError m) = m"
| "exc_msg (HeaderCrcError m) = m"
| "exc_msg (PayloadCrcError m) = m"
| "exc_msg (DataAlignmentError m) = m"
| "exc_msg (SequenceMismatchError m) = m"
| "exc_msg (ProtocolClientError m) = m"
| "exc_msg (ProtocolDecodeError m) = m"
| "exc_msg (ProtocolStatusError _ _) = ''command failed''"
| "exc_msg (ProtocolPayloadLimitError _ _ _ _ _) = ''payload exceeds maximum''"
| "exc_msg (WorkflowError m) = m"
| "exc_msg (Sci8ParseError m) = m"
| "exc_msg (IoDeviceError m) = m"
| "exc_msg (IoTimeoutError m) = m"
| "exc_msg (IoDeviceNotOpenError m) = m"
| "exc_msg (TransportError m) = m"
| "exc_msg (TransportTimeoutError m) = m"
| "exc_msg (TransportClosedError m) = m"
| "exc_msg (UnsupportedOperationError m) = m"
| "exc_msg (OperationFailure _ m _ _ _) = m"
| "exc_msg (RuntimeError m) = m"
| "exc_msg (KeyError m) = m"
| "exc_msg (CliToolError _ m _ _) = m"
| "exc_msg (CliConfigurationError m) = m"
| "exc_msg (RuntimeCommunicationError m) = m"
| "exc_msg (OtherError cls m) = m"
| "exc_msg AssertionError = ''''"
| "exc_msg Diverges = ''''"

text \<open>\<open>Diverges\<close> stands for a call that does not return; no \<open>except\<close> clause matches it.\<close>

definition is_exception :: "exc \<Rightarrow> bool" where
  "is_exception e \<longleftrightarrow> e \<noteq> Diverges"

definition bindE :: "'a res \<Rightarrow> ('a \<Rightarrow> 'b res) \<Rightarrow> 'b res" where
  "bindE r f = (case r of Inl e \<Rightarrow> Inl e | Inr x \<Rightarrow> f x)"

lemma bindE_simps [simp]:
  "bindE (Inl e) f = Inl e"
  "bindE (Inr x) f = f x"
  by (simp_all add: bindE_def)

lemma bindE_Inr_iff: "bindE r f = Inr y \<longleftrightarrow> (\<exists>x. r = Inr x \<and> f x = Inr y)"
  by (cases r) simp_all

definition is_ok :: "'a res \<Rightarrow> bool" where
  "is_ok r = (case r of Inl _ \<Rightarrow> False | Inr _ \<Rightarrow> True)"

lemma is_ok_simps [simp]: "\<not> is_ok (Inl e)" "is_ok (Inr x)"
  by (simp_all add: is_ok_def)

lemma is_ok_iff: "is_ok r \<longleftrightarrow> (\<exists>x. r = Inr x)"
  by (cases r) simp_all

section \<open>Methods that mutate state and may raise\<close>

text \<open>
  A method is a function from the object's state to its result (a value or an exception) and the
  state it leaves, also when it raises.
\<close>

type_synonym ('s, 'a) sm = "'s \<Rightarrow> 'a res \<times> 's"

definition returnM :: "'a \<Rightarrow> ('s, 'a) sm" where
  "returnM x = (\<lambda>s. (Inr x, s))"

definition raiseM :: "exc \<Rightarrow> ('s, 'a) sm" where
  "raiseM e = (\<lambda>s. (Inl e, s))"

definition liftM :: "'a res \<Rightarrow> ('s, 'a) sm" where
  "liftM r = (\<lambda>s. (r, s))"

definition getM :: "('s \<Rightarrow> 'a) \<Rightarrow> ('s, 'a) sm" where
  "getM f = (\<lambda>s. (Inr (f s), s))"

definition modM :: "('s \<Rightarrow> 's) \<Rightarrow> ('s, unit) sm" where
  "modM f = (\<lambda>s. (Inr (), f s))"

definition bindM :: "('s, 'a) sm \<Rightarrow> ('a \<Rightarrow> ('s, 'b) sm) \<Rightarrow> ('s, 'b) sm" where
  "bindM m f = (\<lambda>s. case m s of (Inl e, s') \<Rightarrow> (Inl e, s') | (Inr x, s') \<Rightarrow> f x s')"

definition thenM :: "('s, 'a) sm \<Rightarrow> ('s, 'b) sm \<Rightarrow> ('s, 'b) sm" where
  "thenM m m' = bindM m (\<lambda>_. m')"

text \<open>\<open>try: m except e: h e\<close>\<close>

definition catchM :: "('s, 'a) sm \<Rightarrow> (exc \<Rightarrow> ('s, 'a) sm) \<Rightarrow> ('s, 'a) sm" where
  "catchM m h = (\<lambda>s. case m s of (Inl e, s') \<Rightarrow> h e s' | (Inr x, s') \<Rightarrow> (Inr x, s'))"

fun forM :: "'a list \<Rightarrow> ('a \<Rightarrow> ('s, unit) sm) \<Rightarrow> ('s, unit) sm" where
  "forM [] f = returnM ()"
| "forM (x # xs) f = thenM (f x) (forM xs f)"

lemma sm_basic [simp, sm_simps]:
  "returnM x s = (Inr x, s)"
  "raiseM e s = (Inl e, s)"
  "liftM r s = (r, s)"
  "getM f s = (Inr (f s), s)"
  "modM g s = (Inr (), g s)"
  by (simp_all add: returnM_def raiseM_def liftM_def getM_def modM_def)

lemma bindM_Inl: "m s = (Inl e, s') \<Longrightarrow> bindM m f s = (Inl e, s')"
  by (simp add: bindM_def)

lemma bindM_Inr: "m s = (Inr x, s') \<Longrightarrow> bindM m f s = f x s'"
  by (simp add: bindM_def)

lemma bindM_basic [simp, sm_simps]:
  "bindM (returnM x) f s = f x s"
  "bindM (raiseM e) f s = (Inl e, s)"
  "bindM (liftM (Inl e)) f s = (Inl e, s)"
  "bindM (liftM (Inr x)) f s = f x s"
  "bindM (getM h) f s = f (h s) s"
  "bindM (modM g) k s = k () (g s)"
  by (simp_all add: bindM_def)

lemma thenM_Inl: "m s = (Inl e, s') \<Longrightarrow> thenM m n s = (Inl e, s')"
  by (simp add: thenM_def bindM_def)

lemma thenM_Inr: "m s = (Inr x, s') \<Longrightarrow> thenM m n s = n s'"
  by (simp add: thenM_def bindM_def)

lemma thenM_basic [simp, sm_simps]:
  "thenM (modM g) n s = n (g s)"
  "thenM (returnM x) n s = n s"
  "thenM (raiseM e) n s = (Inl e, s)"
  by (simp_all add: thenM_def)

lemma catchM_Inl: "m s = (Inl e, s') \<Longrightarrow> catchM m h s = h e s'"
  by (simp add: catchM_def)

lemma catchM_Inr: "m s = (Inr x, s') \<Longrightarrow> catchM m h s = (Inr x, s')"
  by (simp add: catchM_def)

lemma bindM_Inr_iff: "bindM m f s = (Inr y, t) \<longleftrightarrow> (\<exists>x s'. m s = (Inr x, s') \<and> f x s' = (Inr y, t))"
  by (auto simp: bindM_def split: prod.splits sum.splits)

lemma thenM_Inr_iff: "thenM m n s = (Inr y, t) \<longleftrightarrow> (\<exists>x s'. m s = (Inr x, s') \<and> n s' = (Inr y, t))"
  by (simp add: thenM_def bindM_Inr_iff)

text \<open>The loop rule: an invariant kept by each successful iteration holds after the loop.\<close>

lemma forM_invariant:
  assumes "P s" and "forM xs f s = (Inr (), t)"
    and "\<And>x s t. x \<in> set xs \<Longrightarrow> P s \<Longrightarrow> f x s = (Inr (), t) \<Longrightarrow> P t"
  shows "P t"
  using assms
proof (induction xs arbitrary: s)
  case Nil
  then show ?case by simp
next
  case (Cons x xs)
  from Cons.prems(2) obtain s' where s': "f x s = (Inr (), s')" and rest: "forM xs f s' = (Inr (), t)"
    by (auto simp: thenM_Inr_iff)
  have "P s'"
    using Cons.prems(1,3) s' by auto
  then show ?case
    using rest Cons.prems(3) by (auto intro: Cons.IH)
qed

section \<open>Widths\<close>

definition u8 :: "int \<Rightarrow> bool" where
  "u8 b \<longleftrightarrow> 0 \<le> b \<and> b \<le> 0xFF"

definition u16 :: "int \<Rightarrow> bool" where
  "u16 w \<longleftrightarrow> 0 \<le> w \<and> w \<le> 0xFFFF"

definition u32 :: "int \<Rightarrow> bool" where
  "u32 v \<longleftrightarrow> 0 \<le> v \<and> v \<le> 0xFFFFFFFF"

abbreviation words16 :: "int list \<Rightarrow> bool" where
  "words16 \<equiv> list_all u16"

declare u8_def [u_simps] u16_def [u_simps] u32_def [u_simps]

lemma u16_imp_u32 [wf_intros]: "u16 w \<Longrightarrow> u32 w"
  by (simp add: u_simps)

lemma words16_take [wf_intros]: "words16 ws \<Longrightarrow> words16 (take n ws)"
  by (auto simp: list_all_iff dest: in_set_takeD)

lemma words16_drop [wf_intros]: "words16 ws \<Longrightarrow> words16 (drop n ws)"
  by (auto simp: list_all_iff dest: in_set_dropD)

lemma words16_nth: "words16 ws \<Longrightarrow> i < length ws \<Longrightarrow> u16 (ws ! i)"
  by (simp add: list_all_length)

lemma words16_upd [wf_intros]: "words16 ws \<Longrightarrow> u16 w \<Longrightarrow> words16 (ws[i := w])"
  by (auto simp: list_all_iff dest!: set_update_subset_insert [THEN subsetD])

section \<open>Bit masks\<close>

lemma and_FFFF: "(x::int) AND 0xFFFF = x mod 0x10000"
  using take_bit_eq_mask [of 16 x] by (simp add: take_bit_eq_mod mask_eq_exp_minus_1)

lemma and_FF: "(x::int) AND 0xFF = x mod 0x100"
  using take_bit_eq_mask [of 8 x] by (simp add: take_bit_eq_mod mask_eq_exp_minus_1)

lemma and_FFFFFFFF: "(x::int) AND 0xFFFFFFFF = x mod 0x100000000"
  using take_bit_eq_mask [of 32 x] by (simp add: take_bit_eq_mod mask_eq_exp_minus_1)

lemma or_push_bit_eq_add:
  fixes a b :: int
  assumes "0 \<le> a" "a < 2 ^ n"
  shows "a OR push_bit n b = a + b * 2 ^ n"
proof -
  have "a AND push_bit n b = take_bit n a AND push_bit n b"
    using assms by (simp add: take_bit_int_eq_self)
  also have "\<dots> = 0"
    by (rule bit_eqI) (simp add: bit_simps)
  finally show ?thesis
    by (simp add: push_bit_eq_mult flip: disjunctive_add_eq_or)
qed

section \<open>Slices and folds of the sources\<close>

text \<open>\<open>xs[i:j]\<close>, with the negative and out-of-range indices of Python.\<close>

definition slice_index :: "'a list \<Rightarrow> int \<Rightarrow> nat" where
  "slice_index xs k = nat (if k < 0 then max 0 (k + int (length xs)) else min k (int (length xs)))"

definition py_slice :: "'a list \<Rightarrow> int \<Rightarrow> int \<Rightarrow> 'a list" where
  "py_slice xs i j = take (slice_index xs j - slice_index xs i) (drop (slice_index xs i) xs)"

lemma slice_index_nonneg: "0 \<le> k \<Longrightarrow> slice_index xs k = min (nat k) (length xs)"
  by (auto simp: slice_index_def min_def)

lemma py_slice_nonneg:
  assumes "0 \<le> i" "0 \<le> n"
  shows "py_slice xs i (i + n) = take (nat n) (drop (nat i) xs)"
proof (cases "nat i < length xs")
  case True
  then have "min (nat (i + n)) (length xs) - nat i = min (nat n) (length xs - nat i)"
    using assms by (auto simp: nat_add_distrib min_def)
  moreover have "take (min n (length ys)) ys = take n ys" for n and ys :: "'a list"
    by (simp add: min_def)
  from this [of "nat n" "drop (nat i) xs"]
  have "take (min (nat n) (length xs - nat i)) (drop (nat i) xs) = take (nat n) (drop (nat i) xs)"
    by simp
  ultimately show ?thesis
    using assms True by (simp add: py_slice_def slice_index_nonneg)
qed (use assms in \<open>simp add: py_slice_def slice_index_nonneg\<close>)

lemma length_py_slice: "length (py_slice xs i j) \<le> length xs - slice_index xs i"
  by (simp add: py_slice_def)

text \<open>A loop that threads an accumulator and may raise.\<close>

fun foldE :: "('a \<Rightarrow> 's \<Rightarrow> 's res) \<Rightarrow> 'a list \<Rightarrow> 's \<Rightarrow> 's res" where
  "foldE f [] s = Inr s"
| "foldE f (x # xs) s = bindE (f x s) (foldE f xs)"

lemma foldE_Inr:
  "(\<And>x s. x \<in> set xs \<Longrightarrow> f x s = Inr (g x s)) \<Longrightarrow> foldE f xs s = Inr (fold g xs s)"
  by (induction xs arbitrary: s) simp_all

section \<open>Memory cells\<close>

text \<open>\<open>{address + index: word for index, word in enumerate(words)}\<close>\<close>

definition cells :: "int \<Rightarrow> 'a list \<Rightarrow> int \<rightharpoonup> 'a" where
  "cells a ws = (\<lambda>x. if a \<le> x \<and> x < a + int (length ws) then Some (ws ! nat (x - a)) else None)"

lemma cells_Nil [simp]: "cells a [] = Map.empty"
  by (simp add: cells_def fun_eq_iff)

lemma dom_cells: "dom (cells a ws) = {a ..< a + int (length ws)}"
  by (auto simp: cells_def dom_def)

lemma cells_Some_iff:
  "cells a ws x = Some w \<longleftrightarrow> a \<le> x \<and> x < a + int (length ws) \<and> w = ws ! nat (x - a)"
  by (auto simp: cells_def)

lemma cells_append: "cells a (u @ v) = cells a u ++ cells (a + int (length u)) v"
proof
  fix x
  show "cells a (u @ v) x = (cells a u ++ cells (a + int (length u)) v) x"
  proof (cases "x < a + int (length u)")
    case True
    then have "a \<le> x \<Longrightarrow> nat (x - a) < length u"
      by linarith
    then show ?thesis
      using True by (auto simp: cells_def map_add_def nth_append)
  next
    case False
    then have "a \<le> x \<Longrightarrow> \<not> nat (x - a) < length u" "nat (x - a) - length u = nat (x - (a + int (length u)))"
      by linarith+
    then show ?thesis
      using False by (auto simp: cells_def map_add_def nth_append)
  qed
qed

lemma cells_outside: "x \<notin> {a ..< a + int (length ws)} \<Longrightarrow> cells a ws x = None"
  by (auto simp: cells_def)

lemma cells_words16: "words16 ws \<Longrightarrow> cells a ws x = Some w \<Longrightarrow> u16 w"
proof -
  assume ws: "words16 ws" and c: "cells a ws x = Some w"
  from c have "nat (x - a) < length ws" "w = ws ! nat (x - a)"
    by (auto simp: cells_Some_iff)
  then show "u16 w"
    using words16_nth [OF ws] by simp
qed

lemma map_add_comm_disjoint: "dom m \<inter> dom n = {} \<Longrightarrow> m ++ n = n ++ m"
  by (rule map_add_comm)

end
