(* ===== verification/Crc.thy ===== *)
theory Crc
  imports Prelude
begin

text \<open>
  The two checksums: CRC-16/CCITT-FALSE of the frames (\<open>protocol/crc.py\<close>) and the IEEE CRC-32
  of images and metadata (\<open>firmware/crc32.py\<close>, whose \<open>zlib.crc32\<close> is written out bit by bit),
  with the little-endian byte order of 16 bit words.  The facts proved here: both results fit
  their width, the byte order can be inverted, and a CRC-16 changes whenever a single word of its
  input changes.
\<close>

section \<open>CRC-16/CCITT-FALSE\<close>

definition crc16_bit :: "int \<Rightarrow> int" where
  "crc16_bit crc =
     (if crc AND 0x8000 \<noteq> 0 then (push_bit 1 crc XOR 0x1021) AND 0xFFFF
      else push_bit 1 crc AND 0xFFFF)"

definition crc16_byte :: "int \<Rightarrow> int \<Rightarrow> int" where
  "crc16_byte crc byte = (crc16_bit ^^ 8) (crc XOR push_bit 8 byte)"

definition crc16_ccitt_false :: "int list \<Rightarrow> int" where
  "crc16_ccitt_false data = foldl crc16_byte 0xFFFF data"

fun words_to_little_endian_bytes :: "int list \<Rightarrow> int list res" where
  "words_to_little_endian_bytes [] = Inr []"
| "words_to_little_endian_bytes (word # words) =
     (if word < 0 \<or> word > 0xFFFF then Inl (ValueError ''word does not fit uint16'')
      else bindE (words_to_little_endian_bytes words)
        (\<lambda>result. Inr ((word AND 0xFF) # drop_bit 8 word # result)))"

definition crc16_words :: "int list \<Rightarrow> int res" where
  "crc16_words words =
     bindE (words_to_little_endian_bytes words) (\<lambda>data. Inr (crc16_ccitt_false data))"

text \<open>Reading little-endian words back from bytes, as the frame readers do.\<close>

fun words_of_bytes :: "int list \<Rightarrow> int list" where
  "words_of_bytes (lo # hi # rest) = (lo OR push_bit 8 hi) # words_of_bytes rest"
| "words_of_bytes _ = []"

section \<open>CRC-32/IEEE\<close>

definition crc32_bit :: "int \<Rightarrow> int" where
  "crc32_bit crc = (if crc AND 1 \<noteq> 0 then drop_bit 1 crc XOR 0xEDB88320 else drop_bit 1 crc)"

definition crc32_byte :: "int \<Rightarrow> int \<Rightarrow> int" where
  "crc32_byte crc byte = (crc32_bit ^^ 8) (crc XOR byte)"

definition crc32_bytes :: "int list \<Rightarrow> int" where
  "crc32_bytes data = (foldl crc32_byte 0xFFFFFFFF data XOR 0xFFFFFFFF) AND 0xFFFFFFFF"

fun crc32_word_bytes :: "int list \<Rightarrow> int list res" where
  "crc32_word_bytes [] = Inr []"
| "crc32_word_bytes (word # words) =
     (if word < 0 \<or> word > 0xFFFF then Inl (ValueError ''CRC32 word input must fit uint16'')
      else bindE (crc32_word_bytes words)
        (\<lambda>data. Inr ((word AND 0xFF) # (drop_bit 8 word AND 0xFF) # data)))"

definition crc32_words :: "int list \<Rightarrow> int res" where
  "crc32_words words = bindE (crc32_word_bytes words) (\<lambda>data. Inr (crc32_bytes data))"

section \<open>Bytes of words\<close>

definition le_bytes :: "int list \<Rightarrow> int list" where
  "le_bytes ws = concat (map (\<lambda>w. [w mod 0x100, w div 0x100]) ws)"

lemma le_bytes_simps [simp]:
  "le_bytes [] = []"
  "le_bytes (w # ws) = w mod 0x100 # w div 0x100 # le_bytes ws"
  "le_bytes (ws @ vs) = le_bytes ws @ le_bytes vs"
  by (simp_all add: le_bytes_def)

lemma length_le_bytes [simp]: "length (le_bytes ws) = 2 * length ws"
  by (induction ws) simp_all

lemma list_all_u8_le_bytes: "words16 ws \<Longrightarrow> list_all u8 (le_bytes ws)"
  by (induction ws) (auto simp: u_simps)

lemma words_to_bytes_Inr: "words16 ws \<Longrightarrow> words_to_little_endian_bytes ws = Inr (le_bytes ws)"
  by (induction ws) (auto simp: u_simps and_FF drop_bit_eq_div)

lemma words_to_bytes_Inr_iff:
  "words_to_little_endian_bytes ws = Inr bs \<longleftrightarrow> words16 ws \<and> bs = le_bytes ws"
proof
  show "words_to_little_endian_bytes ws = Inr bs \<Longrightarrow> words16 ws \<and> bs = le_bytes ws"
    by (induction ws arbitrary: bs)
      (auto simp: bindE_Inr_iff u_simps and_FF drop_bit_eq_div split: if_splits)
qed (simp add: words_to_bytes_Inr)

lemma crc16_words_Inr: "words16 ws \<Longrightarrow> crc16_words ws = Inr (crc16_ccitt_false (le_bytes ws))"
  by (simp add: crc16_words_def words_to_bytes_Inr)

lemma crc16_words_Inr_iff:
  "crc16_words ws = Inr c \<longleftrightarrow> words16 ws \<and> c = crc16_ccitt_false (le_bytes ws)"
  by (auto simp: crc16_words_def bindE_Inr_iff words_to_bytes_Inr_iff)

lemma crc16_words_Inl: "crc16_words ws = Inl e \<Longrightarrow> \<not> words16 ws"
  by (auto simp: crc16_words_Inr)

lemma word_of_le_byte: "u16 w \<Longrightarrow> (w mod 0x100) OR push_bit 8 (w div 0x100) = w"
  using or_push_bit_eq_add [of "w mod 256" 8 "w div 256"] by (simp add: u_simps)

lemma words_of_le_bytes: "words16 ws \<Longrightarrow> words_of_bytes (le_bytes ws) = ws"
  by (induction ws) (simp_all add: word_of_le_byte)

lemma words_of_bytes_append:
  "even (length xs) \<Longrightarrow> words_of_bytes (xs @ ys) = words_of_bytes xs @ words_of_bytes ys"
  by (induction xs rule: words_of_bytes.induct) simp_all

lemma length_words_of_bytes [simp]: "length (words_of_bytes bs) = length bs div 2"
  by (induction bs rule: words_of_bytes.induct) simp_all

lemma u16_of_bytes: "u8 lo \<Longrightarrow> u8 hi \<Longrightarrow> u16 (lo OR push_bit 8 hi)"
  by (subst or_push_bit_eq_add) (auto simp: u_simps)

lemma words16_words_of_bytes: "list_all u8 bs \<Longrightarrow> words16 (words_of_bytes bs)"
  by (induction bs rule: words_of_bytes.induct) (simp_all add: u16_of_bytes)

lemma le_bytes_words_of_bytes:
  "list_all u8 bs \<Longrightarrow> even (length bs) \<Longrightarrow> le_bytes (words_of_bytes bs) = bs"
proof (induction bs rule: words_of_bytes.induct)
  case (1 lo hi rest)
  then have "lo OR push_bit 8 hi = lo + hi * 256"
    using or_push_bit_eq_add [of lo 8 hi] by (simp add: u_simps)
  with 1 show ?case
    by (simp add: u_simps)
qed simp_all

section \<open>Widths of the checksums\<close>

lemma crc16_bit_u16: "u16 (crc16_bit crc)"
proof -
  have "u16 (x AND 0xFFFF)" for x :: int
    by (simp add: and_FFFF u_simps)
  then show ?thesis
    by (simp add: crc16_bit_def)
qed

lemma crc16_byte_u16: "u16 (crc16_byte crc b)"
  by (simp add: crc16_byte_def numeral_eq_Suc crc16_bit_u16)

lemma foldl_crc16_u16: "u16 c \<Longrightarrow> u16 (foldl crc16_byte c data)"
  by (induction data arbitrary: c) (simp_all add: crc16_byte_u16)

lemma crc16_u16 [simp]: "u16 (crc16_ccitt_false data)"
  unfolding crc16_ccitt_false_def by (rule foldl_crc16_u16) (simp add: u_simps)

lemma crc32_u32 [simp]: "u32 (crc32_bytes data)"
  unfolding crc32_bytes_def and_FFFFFFFF u32_def
  by (smt (verit) pos_mod_bound pos_mod_sign)

lemma crc32_word_bytes_Inr: "words16 ws \<Longrightarrow> crc32_word_bytes ws = Inr (le_bytes ws)"
  by (induction ws) (auto simp: u_simps and_FF drop_bit_eq_div)

lemma crc32_words_Inr: "words16 ws \<Longrightarrow> crc32_words ws = Inr (crc32_bytes (le_bytes ws))"
  by (simp add: crc32_words_def crc32_word_bytes_Inr)

lemma crc32_word_bytes_Inr_iff:
  "crc32_word_bytes ws = Inr bs \<longleftrightarrow> words16 ws \<and> bs = le_bytes ws"
proof
  show "crc32_word_bytes ws = Inr bs \<Longrightarrow> words16 ws \<and> bs = le_bytes ws"
    by (induction ws arbitrary: bs)
      (auto simp: bindE_Inr_iff u_simps and_FF drop_bit_eq_div split: if_splits)
qed (simp add: crc32_word_bytes_Inr)

lemma crc32_words_Inr_iff:
  "crc32_words ws = Inr c \<longleftrightarrow> words16 ws \<and> c = crc32_bytes (le_bytes ws)"
  by (auto simp: crc32_words_def bindE_Inr_iff crc32_word_bytes_Inr_iff)

section \<open>A changed word changes the CRC-16\<close>

text \<open>
  One bit step is linear over exclusive or and injective on 16 bit values; eight of them applied
  to a multiple of 256 give a multiple of 256 only for 0.  So the register after two bytes
  determines the two bytes, and later equal bytes keep different registers different.
\<close>

lemma and_0x8000: "(crc::int) AND 0x8000 \<noteq> 0 \<longleftrightarrow> bit crc 15"
  using and_exp_eq_0_iff_not_bit [of crc 15] by simp

lemma crc16_bit_alt:
  "crc16_bit a = take_bit 16 (push_bit 1 a XOR (if bit a 15 then 0x1021 else 0))"
  using take_bit_eq_mask [of 16 "push_bit 1 a XOR 0x1021"] take_bit_eq_mask [of 16 "push_bit 1 a"]
  by (simp add: crc16_bit_def and_0x8000 mask_eq_exp_minus_1)

lemma crc16_bit_linear: "crc16_bit (a XOR b) = crc16_bit a XOR crc16_bit b"
proof -
  have "take_bit 16 (push_bit 1 (a XOR b) XOR (if bit (a XOR b) 15 then p else 0)) =
        take_bit 16 (push_bit 1 a XOR (if bit a 15 then p else 0)) XOR
        take_bit 16 (push_bit 1 b XOR (if bit b 15 then p else 0))" for p :: int
    by (rule bit_eqI) (auto simp: bit_simps)
  then show ?thesis
    by (simp only: crc16_bit_alt)
qed

lemma crc16_bits_linear:
  "(crc16_bit ^^ n) (a XOR b) = (crc16_bit ^^ n) a XOR (crc16_bit ^^ n) b"
  by (induction n) (simp_all add: crc16_bit_linear)

lemma bit_15_iff: "u16 a \<Longrightarrow> bit a 15 \<longleftrightarrow> 0x8000 \<le> a"
proof -
  assume a: "u16 a"
  have "a div 0x8000 = (if 0x8000 \<le> a then 1 else 0)"
    using a unfolding u16_def by auto
  then show ?thesis
    by (simp add: bit_iff_odd)
qed

lemma crc16_bit_odd: "odd (crc16_bit a) \<longleftrightarrow> bit a 15"
proof -
  have "even (take_bit 16 (push_bit 1 a XOR p)) \<longleftrightarrow> even p" for p :: int
    by (simp add: even_take_bit_eq even_xor_iff)
  then show ?thesis
    by (simp only: crc16_bit_alt) simp
qed

lemma crc16_bit_even: "u16 a \<Longrightarrow> even (crc16_bit a) \<Longrightarrow> crc16_bit a = 2 * a"
proof -
  assume a: "u16 a" and "even (crc16_bit a)"
  then have b15: "\<not> bit a 15"
    using crc16_bit_odd by blast
  then have "2 * a < 2 ^ 16"
    using bit_15_iff [OF a] by simp
  then have "take_bit 16 (2 * a) = 2 * a"
    using a by (simp only: take_bit_int_eq_self_iff u16_def) simp
  then show ?thesis
    using b15 by (simp add: crc16_bit_alt push_bit_eq_mult mult.commute)
qed

lemma crc16_bits_u16: "u16 a \<Longrightarrow> u16 ((crc16_bit ^^ n) a)"
  by (cases n) (simp_all add: crc16_bit_u16)

lemma crc16_bits_multiple:
  "u16 a \<Longrightarrow> 2 ^ n dvd (crc16_bit ^^ n) a \<Longrightarrow> (crc16_bit ^^ n) a = 2 ^ n * a"
proof (induction n)
  case (Suc n)
  let ?y = "(crc16_bit ^^ n) a"
  have "even (crc16_bit ?y)"
    using Suc.prems(2) by (auto elim: dvd_trans [rotated])
  then have y: "crc16_bit ?y = 2 * ?y"
    using crc16_bit_even crc16_bits_u16 Suc.prems(1) by blast
  then have "2 ^ n dvd ?y"
    using Suc.prems(2) by simp
  then show ?case
    using Suc y by simp
qed simp

lemma crc16_bits_eq_0: "u16 a \<Longrightarrow> (crc16_bit ^^ n) a = 0 \<Longrightarrow> a = 0"
  using crc16_bits_multiple [of a n] by simp

lemma crc16_bits_byte_eq_0: "u8 h \<Longrightarrow> 0x100 dvd (crc16_bit ^^ 8) (h * 0x100) \<Longrightarrow> h = 0"
proof -
  assume h: "u8 h" and d: "0x100 dvd (crc16_bit ^^ 8) (h * 0x100)"
  have u: "u16 (h * 0x100)"
    using h by (simp add: u_simps)
  have "(crc16_bit ^^ 8) (h * 0x100) = 0x100 * (h * 0x100)"
    using crc16_bits_multiple [OF u, of 8] d by simp
  moreover have "u16 ((crc16_bit ^^ 8) (h * 0x100))"
    by (rule crc16_bits_u16 [OF u])
  ultimately show "h = 0"
    using h by (simp add: u_simps)
qed

lemma u16_xor: "u16 a \<Longrightarrow> u16 b \<Longrightarrow> u16 (a XOR b)"
  using XOR_upper [of a 16 b] by (simp add: u_simps)

lemma u8_xor: "u8 a \<Longrightarrow> u8 b \<Longrightarrow> u8 (a XOR b)"
  using XOR_upper [of a 8 b] by (simp add: u_simps)

lemma xor_eq_0_iff_int: "(a::int) XOR b = 0 \<longleftrightarrow> a = b"
  by (metis xor.assoc xor.left_neutral xor_self_eq xor.right_neutral)

lemma crc16_byte_inj:
  assumes "u16 c" "u16 d" "u8 b" "crc16_byte c b = crc16_byte d b"
  shows "c = d"
proof -
  have "(crc16_bit ^^ 8) ((c XOR push_bit 8 b) XOR (d XOR push_bit 8 b)) = 0"
    using assms(4) unfolding crc16_bits_linear crc16_byte_def by simp
  moreover have "(c XOR push_bit 8 b) XOR (d XOR push_bit 8 b) = c XOR d"
    by (rule bit_eqI) (auto simp: bit_simps)
  ultimately show ?thesis
    using crc16_bits_eq_0 [OF u16_xor [OF assms(1,2)]] by (simp add: xor_eq_0_iff_int)
qed

lemma foldl_crc16_inj:
  "u16 c \<Longrightarrow> u16 d \<Longrightarrow> list_all u8 bs \<Longrightarrow> foldl crc16_byte c bs = foldl crc16_byte d bs \<Longrightarrow> c = d"
  by (induction bs arbitrary: c d) (auto dest: crc16_byte_inj simp: crc16_byte_u16)

lemma crc16_two_bytes_inj:
  assumes c: "u16 c" and u: "u8 b0" "u8 b1" "u8 d0" "u8 d1"
    and eq: "crc16_byte (crc16_byte c b0) b1 = crc16_byte (crc16_byte c d0) d1"
  shows "b0 = d0 \<and> b1 = d1"
proof -
  let ?F = "crc16_bit ^^ 8"
  have push: "push_bit 8 b = b * 0x100" for b :: int
    by (simp add: push_bit_eq_mult)
  have push_xor: "push_bit 8 a XOR push_bit 8 b = push_bit 8 (a XOR b)" for a b :: int
    by (rule bit_eqI) (auto simp: bit_simps)
  have u16p: "u8 b \<Longrightarrow> u16 (push_bit 8 b)" for b
    by (simp add: push u_simps)
  let ?s = "crc16_byte c b0" and ?t = "crc16_byte c d0"
  have "?s XOR ?t = ?F ((c XOR push_bit 8 b0) XOR (c XOR push_bit 8 d0))"
    by (simp add: crc16_byte_def crc16_bits_linear)
  also have "(c XOR push_bit 8 b0) XOR (c XOR push_bit 8 d0) = push_bit 8 (b0 XOR d0)"
    unfolding push_xor [symmetric] by (rule bit_eqI) (auto simp: bit_simps)
  finally have st: "?s XOR ?t = ?F ((b0 XOR d0) * 0x100)"
    unfolding push [symmetric] .
  have "?F ((?s XOR push_bit 8 b1) XOR (?t XOR push_bit 8 d1)) = 0"
    using eq unfolding crc16_bits_linear [of 8 "?s XOR push_bit 8 b1"]
    by (simp add: crc16_byte_def)
  then have "(?s XOR push_bit 8 b1) XOR (?t XOR push_bit 8 d1) = 0"
    by (rule crc16_bits_eq_0 [rotated]) (intro u16_xor u16p u crc16_byte_u16)
  moreover have "(?s XOR push_bit 8 b1) XOR (?t XOR push_bit 8 d1) = (?s XOR ?t) XOR push_bit 8 (b1 XOR d1)"
    unfolding push_xor [symmetric] by (rule bit_eqI) (auto simp: bit_simps)
  ultimately have m: "?F ((b0 XOR d0) * 0x100) = (b1 XOR d1) * 0x100"
    using st push_xor [of b1 d1, unfolded push] by (simp add: xor_eq_0_iff_int push)
  then have h0: "b0 XOR d0 = 0"
    by (intro crc16_bits_byte_eq_0 u8_xor u) simp
  then have "?F 0 = (b1 XOR d1) * 0x100"
    using m by simp
  moreover have "?F 0 = ?F (0 XOR 0)" by simp
  then have "?F 0 = 0"
    unfolding crc16_bits_linear by simp
  ultimately show ?thesis
    using h0 by (simp add: xor_eq_0_iff_int)
qed

lemma crc16_single_word_change:
  assumes "words16 ws" "i < length ws" "u16 w" "w \<noteq> ws ! i"
  shows "crc16_ccitt_false (le_bytes (ws[i := w])) \<noteq> crc16_ccitt_false (le_bytes ws)"
proof
  assume eq: "crc16_ccitt_false (le_bytes (ws[i := w])) = crc16_ccitt_false (le_bytes ws)"
  let ?pre = "le_bytes (take i ws)" and ?post = "le_bytes (drop (Suc i) ws)"
  let ?c = "foldl crc16_byte 0xFFFF ?pre"
  let ?step = "\<lambda>v. crc16_byte (crc16_byte ?c (v mod 0x100)) (v div 0x100)"
  have split: "ws[i := v] = take i ws @ v # drop (Suc i) ws" for v
    by (rule upd_conv_take_nth_drop [OF assms(2)])
  have run: "crc16_ccitt_false (le_bytes (ws[i := v])) = foldl crc16_byte (?step v) ?post" for v
    unfolding split crc16_ccitt_false_def by simp
  have c: "u16 ?c"
    by (rule foldl_crc16_u16) (simp add: u_simps)
  have wi: "u16 (ws ! i)"
    by (rule words16_nth [OF assms(1,2)])
  have "foldl crc16_byte (?step w) ?post = foldl crc16_byte (?step (ws ! i)) ?post"
    using eq run [of w] run [of "ws ! i"] by simp
  then have "?step w = ?step (ws ! i)"
    by (rule foldl_crc16_inj [OF crc16_byte_u16 crc16_byte_u16, rotated])
      (intro list_all_u8_le_bytes words16_drop assms(1))
  then have "w mod 0x100 = ws ! i mod 0x100 \<and> w div 0x100 = ws ! i div 0x100"
    using wi assms(3) by (intro crc16_two_bytes_inj [OF c]) (auto simp: u_simps)
  then have "w = ws ! i"
    by (metis div_mult_mod_eq)
  then show False
    using assms(4) by simp
qed

end
