(* ===== verification/Constants.thy ===== *)
theory Constants
  imports Prelude
begin

text \<open>
  The constants of the wire protocol (\<open>protocol/constants.py\<close>) and the default command
  timeouts (\<open>protocol/command_timeouts.py\<close>).  Each \<open>IntEnum\<close> is a datatype with the source's
  members and a function to the member's integer; \<open>IntFlag\<close> members map to their bit value.
\<close>

section \<open>Frame and payload sizes\<close>

definition MAGIC0 :: int where
  "MAGIC0 = 0xA55A"

definition MAGIC1 :: int where
  "MAGIC1 = 0x5AA5"

definition PROTOCOL_VERSION :: int where
  "PROTOCOL_VERSION = 0x0001"

definition HEADER_WORDS :: int where
  "HEADER_WORDS = 10"

definition FLAG_NONE :: int where
  "FLAG_NONE = 0x0000"

definition CRC_TYPE_CCITT_FALSE :: int where
  "CRC_TYPE_CCITT_FALSE = 0x0001"

definition ENDIAN_LITTLE :: int where
  "ENDIAN_LITTLE = 0x0001"

definition DEVICE_INFO_WORDS :: int where
  "DEVICE_INFO_WORDS = 16"

definition PROTOCOL_INFO_WORDS :: int where
  "PROTOCOL_INFO_WORDS = 8"

definition ERROR_DETAIL_WORDS :: int where
  "ERROR_DETAIL_WORDS = 11"

definition METADATA_SUMMARY_WORDS :: int where
  "METADATA_SUMMARY_WORDS = 25"

definition SERVICE_STATUS_WORDS :: int where
  "SERVICE_STATUS_WORDS = 12"

definition SERVICE_HEADER_WORDS :: int where
  "SERVICE_HEADER_WORDS = 28"

definition SERVICE_HEADER_MAGIC :: int where
  "SERVICE_HEADER_MAGIC = 0x46534832"

definition SERVICE_HEADER_VERSION :: int where
  "SERVICE_HEADER_VERSION = 1"

definition SERVICE_IMAGE_CRC32_IEEE :: int where
  "SERVICE_IMAGE_CRC32_IEEE = 1"

definition SERVICE_PUBLISH_INVALID :: int where
  "SERVICE_PUBLISH_INVALID = 0x0000"

definition SERVICE_ABI_MAJOR :: int where
  "SERVICE_ABI_MAJOR = 2"

definition SERVICE_ABI_MINOR :: int where
  "SERVICE_ABI_MINOR = 0"

definition WRITE_DATA_ALIGNMENT_WORDS :: int where
  "WRITE_DATA_ALIGNMENT_WORDS = 8"

definition WRITE_DATA_PAD_WORD :: int where
  "WRITE_DATA_PAD_WORD = 0xFFFF"

lemmas const_defs =
  MAGIC0_def
  MAGIC1_def
  PROTOCOL_VERSION_def
  HEADER_WORDS_def
  FLAG_NONE_def
  CRC_TYPE_CCITT_FALSE_def
  ENDIAN_LITTLE_def
  DEVICE_INFO_WORDS_def
  PROTOCOL_INFO_WORDS_def
  ERROR_DETAIL_WORDS_def
  METADATA_SUMMARY_WORDS_def
  SERVICE_STATUS_WORDS_def
  SERVICE_HEADER_WORDS_def
  SERVICE_HEADER_MAGIC_def
  SERVICE_HEADER_VERSION_def
  SERVICE_IMAGE_CRC32_IEEE_def
  SERVICE_PUBLISH_INVALID_def
  SERVICE_ABI_MAJOR_def
  SERVICE_ABI_MINOR_def
  WRITE_DATA_ALIGNMENT_WORDS_def
  WRITE_DATA_PAD_WORD_def

section \<open>Enumerations\<close>

datatype packet_type =
    PKT_REQUEST
  | PKT_RESPONSE
  | PKT_ERROR_RESPONSE

fun packet_type_code :: "packet_type \<Rightarrow> int" where
  "packet_type_code PKT_REQUEST = 0x0001"
| "packet_type_code PKT_RESPONSE = 0x0002"
| "packet_type_code PKT_ERROR_RESPONSE = 0x0003"

datatype command =
    CMD_PING
  | CMD_GET_DEVICE_INFO
  | CMD_GET_PROTOCOL_INFO
  | CMD_GET_LAST_ERROR
  | CMD_GET_SERVICE_STATUS
  | CMD_SERVICE_ATTACH
  | CMD_RAM_LOAD_BEGIN
  | CMD_RAM_LOAD_DATA
  | CMD_RAM_LOAD_END
  | CMD_RAM_CHECK_CRC
  | CMD_RUN_RAM
  | CMD_ERASE
  | CMD_PROGRAM_BEGIN
  | CMD_PROGRAM_DATA
  | CMD_PROGRAM_END
  | CMD_VERIFY_BEGIN
  | CMD_VERIFY_DATA
  | CMD_VERIFY_END
  | CMD_MEMORY_READ
  | CMD_GET_METADATA_SUMMARY
  | CMD_METADATA_APPEND_RECORD
  | CMD_RUN
  | CMD_RESET

fun command_code :: "command \<Rightarrow> int" where
  "command_code CMD_PING = 0x0001"
| "command_code CMD_GET_DEVICE_INFO = 0x0002"
| "command_code CMD_GET_PROTOCOL_INFO = 0x0003"
| "command_code CMD_GET_LAST_ERROR = 0x0004"
| "command_code CMD_GET_SERVICE_STATUS = 0x0007"
| "command_code CMD_SERVICE_ATTACH = 0x0008"
| "command_code CMD_RAM_LOAD_BEGIN = 0x0101"
| "command_code CMD_RAM_LOAD_DATA = 0x0102"
| "command_code CMD_RAM_LOAD_END = 0x0103"
| "command_code CMD_RAM_CHECK_CRC = 0x0104"
| "command_code CMD_RUN_RAM = 0x0105"
| "command_code CMD_ERASE = 0x0201"
| "command_code CMD_PROGRAM_BEGIN = 0x0210"
| "command_code CMD_PROGRAM_DATA = 0x0211"
| "command_code CMD_PROGRAM_END = 0x0212"
| "command_code CMD_VERIFY_BEGIN = 0x0220"
| "command_code CMD_VERIFY_DATA = 0x0221"
| "command_code CMD_VERIFY_END = 0x0222"
| "command_code CMD_MEMORY_READ = 0x0230"
| "command_code CMD_GET_METADATA_SUMMARY = 0x0401"
| "command_code CMD_METADATA_APPEND_RECORD = 0x0402"
| "command_code CMD_RUN = 0x0301"
| "command_code CMD_RESET = 0x0302"

datatype status =
    ST_OK
  | ST_BAD_PAYLOAD_CRC
  | ST_UNSUPPORTED_PROTOCOL
  | ST_BAD_PACKET_TYPE
  | ST_BAD_PAYLOAD_LENGTH
  | ST_BAD_FLAGS
  | ST_UNKNOWN_COMMAND
  | ST_UNSUPPORTED_COMMAND
  | ST_INVALID_STATE
  | ST_BUSY
  | ST_MISSING_BEGIN
  | ST_UNEXPECTED_END
  | ST_BLOCK_INDEX_ERROR
  | ST_TOTAL_COUNT_MISMATCH
  | ST_BAD_ADDRESS
  | ST_ADDRESS_OUT_OF_RANGE
  | ST_BAD_ALIGNMENT
  | ST_BAD_WORD_COUNT
  | ST_PROTECTED_REGION
  | ST_ERASE_FAILED
  | ST_ERASE_FSM_ERROR
  | ST_BLANK_CHECK_FAILED
  | ST_PROGRAM_FAILED
  | ST_PROGRAM_FSM_ERROR
  | ST_PROGRAM_VERIFY_FAILED
  | ST_REPROGRAM_FORBIDDEN
  | ST_VERIFY_FAILED
  | ST_VERIFY_MISMATCH
  | ST_RAM_ADDRESS_ERROR
  | ST_RAM_WRITE_FAILED
  | ST_RAM_REGION_ERROR
  | ST_UNSUPPORTED_FEATURE
  | ST_DEVICE_INFO_UNAVAILABLE
  | ST_TARGET_MISMATCH
  | ST_METADATA_INVALID
  | ST_METADATA_FULL
  | ST_METADATA_WRITE_FAILED
  | ST_ATTEMPT_LIMIT_REACHED
  | ST_SECURITY_LOCKED
  | ST_UNLOCK_FAILED
  | ST_USER_ERROR_BASE

fun status_code :: "status \<Rightarrow> int" where
  "status_code ST_OK = 0x0000"
| "status_code ST_BAD_PAYLOAD_CRC = 0x0103"
| "status_code ST_UNSUPPORTED_PROTOCOL = 0x0104"
| "status_code ST_BAD_PACKET_TYPE = 0x0105"
| "status_code ST_BAD_PAYLOAD_LENGTH = 0x0106"
| "status_code ST_BAD_FLAGS = 0x0109"
| "status_code ST_UNKNOWN_COMMAND = 0x0201"
| "status_code ST_UNSUPPORTED_COMMAND = 0x0202"
| "status_code ST_INVALID_STATE = 0x0203"
| "status_code ST_BUSY = 0x0204"
| "status_code ST_MISSING_BEGIN = 0x0205"
| "status_code ST_UNEXPECTED_END = 0x0206"
| "status_code ST_BLOCK_INDEX_ERROR = 0x0207"
| "status_code ST_TOTAL_COUNT_MISMATCH = 0x0208"
| "status_code ST_BAD_ADDRESS = 0x0301"
| "status_code ST_ADDRESS_OUT_OF_RANGE = 0x0302"
| "status_code ST_BAD_ALIGNMENT = 0x0303"
| "status_code ST_BAD_WORD_COUNT = 0x0304"
| "status_code ST_PROTECTED_REGION = 0x0305"
| "status_code ST_ERASE_FAILED = 0x0401"
| "status_code ST_ERASE_FSM_ERROR = 0x0402"
| "status_code ST_BLANK_CHECK_FAILED = 0x0403"
| "status_code ST_PROGRAM_FAILED = 0x0501"
| "status_code ST_PROGRAM_FSM_ERROR = 0x0502"
| "status_code ST_PROGRAM_VERIFY_FAILED = 0x0503"
| "status_code ST_REPROGRAM_FORBIDDEN = 0x0504"
| "status_code ST_VERIFY_FAILED = 0x0601"
| "status_code ST_VERIFY_MISMATCH = 0x0602"
| "status_code ST_RAM_ADDRESS_ERROR = 0x0701"
| "status_code ST_RAM_WRITE_FAILED = 0x0702"
| "status_code ST_RAM_REGION_ERROR = 0x0703"
| "status_code ST_UNSUPPORTED_FEATURE = 0x0801"
| "status_code ST_DEVICE_INFO_UNAVAILABLE = 0x0802"
| "status_code ST_TARGET_MISMATCH = 0x0803"
| "status_code ST_METADATA_INVALID = 0x0804"
| "status_code ST_METADATA_FULL = 0x0805"
| "status_code ST_METADATA_WRITE_FAILED = 0x0806"
| "status_code ST_ATTEMPT_LIMIT_REACHED = 0x0807"
| "status_code ST_SECURITY_LOCKED = 0x0901"
| "status_code ST_UNLOCK_FAILED = 0x0902"
| "status_code ST_USER_ERROR_BASE = 0x7F00"

datatype feature =
    FEAT_ERASE
  | FEAT_PROGRAM
  | FEAT_VERIFY
  | FEAT_RUN
  | FEAT_RESET
  | FEAT_RAM_LOAD
  | FEAT_APP_UPLOAD
  | FEAT_METADATA
  | FEAT_UNLOCK_Z1
  | FEAT_UNLOCK_Z2
  | FEAT_MEMORY_READ

fun feature_code :: "feature \<Rightarrow> int" where
  "feature_code FEAT_ERASE = 1"
| "feature_code FEAT_PROGRAM = 2"
| "feature_code FEAT_VERIFY = 4"
| "feature_code FEAT_RUN = 8"
| "feature_code FEAT_RESET = 16"
| "feature_code FEAT_RAM_LOAD = 32"
| "feature_code FEAT_APP_UPLOAD = 64"
| "feature_code FEAT_METADATA = 128"
| "feature_code FEAT_UNLOCK_Z1 = 256"
| "feature_code FEAT_UNLOCK_Z2 = 512"
| "feature_code FEAT_MEMORY_READ = 1024"

datatype service_state =
    SVC_DETACHED
  | SVC_RAM_LOADED
  | SVC_ATTACHED
  | SVC_ERROR

fun service_state_code :: "service_state \<Rightarrow> int" where
  "service_state_code SVC_DETACHED = 0x0000"
| "service_state_code SVC_RAM_LOADED = 0x0001"
| "service_state_code SVC_ATTACHED = 0x0002"
| "service_state_code SVC_ERROR = 0x0003"

datatype service_capability =
    CAP_ERASE
  | CAP_PROGRAM
  | CAP_VERIFY
  | CAP_METADATA_WRITE

fun service_capability_code :: "service_capability \<Rightarrow> int" where
  "service_capability_code CAP_ERASE = 1"
| "service_capability_code CAP_PROGRAM = 2"
| "service_capability_code CAP_VERIFY = 4"
| "service_capability_code CAP_METADATA_WRITE = 8"

datatype device_id =
    DEV_UNKNOWN
  | DEV_F28377D

fun device_id_code :: "device_id \<Rightarrow> int" where
  "device_id_code DEV_UNKNOWN = 0x0000"
| "device_id_code DEV_F28377D = 0x377D"

datatype cpu_id =
    CPU_UNKNOWN
  | CPU_CPU1
  | CPU_CPU2

fun cpu_id_code :: "cpu_id \<Rightarrow> int" where
  "cpu_id_code CPU_UNKNOWN = 0x0000"
| "cpu_id_code CPU_CPU1 = 0x0001"
| "cpu_id_code CPU_CPU2 = 0x0002"

datatype boot_mode =
    BM_UNKNOWN
  | BM_RAM_KERNEL
  | BM_FLASH_KERNEL

fun boot_mode_code :: "boot_mode \<Rightarrow> int" where
  "boot_mode_code BM_UNKNOWN = 0x0000"
| "boot_mode_code BM_RAM_KERNEL = 0x0001"
| "boot_mode_code BM_FLASH_KERNEL = 0x0002"

datatype kernel_layout =
    KL_UNKNOWN
  | KL_MONOLITHIC
  | KL_CORE_RAM_LIB

fun kernel_layout_code :: "kernel_layout \<Rightarrow> int" where
  "kernel_layout_code KL_UNKNOWN = 0x0000"
| "kernel_layout_code KL_MONOLITHIC = 0x0001"
| "kernel_layout_code KL_CORE_RAM_LIB = 0x0002"

datatype target =
    TGT_FLASH_APP
  | TGT_RAM_APP

fun target_code :: "target \<Rightarrow> int" where
  "target_code TGT_FLASH_APP = 0x0001"
| "target_code TGT_RAM_APP = 0x0002"

datatype metadata_record_type =
    REC_IMAGE_VALID
  | REC_BOOT_ATTEMPT
  | REC_APP_CONFIRMED

fun metadata_record_type_code :: "metadata_record_type \<Rightarrow> int" where
  "metadata_record_type_code REC_IMAGE_VALID = 0x0001"
| "metadata_record_type_code REC_BOOT_ATTEMPT = 0x0002"
| "metadata_record_type_code REC_APP_CONFIRMED = 0x0003"

datatype boot_slot =
    SLOT_AUTO
  | SLOT_SLOT_A
  | SLOT_SLOT_B

fun boot_slot_code :: "boot_slot \<Rightarrow> int" where
  "boot_slot_code SLOT_AUTO = 0x0000"
| "boot_slot_code SLOT_SLOT_A = 0x0001"
| "boot_slot_code SLOT_SLOT_B = 0x0002"

datatype error_operation =
    OP_NONE
  | OP_FRAME
  | OP_ERASE
  | OP_PROGRAM
  | OP_VERIFY
  | OP_RAM_LOAD
  | OP_RUN
  | OP_RESET

fun error_operation_code :: "error_operation \<Rightarrow> int" where
  "error_operation_code OP_NONE = 0x0000"
| "error_operation_code OP_FRAME = 0x0001"
| "error_operation_code OP_ERASE = 0x0002"
| "error_operation_code OP_PROGRAM = 0x0003"
| "error_operation_code OP_VERIFY = 0x0004"
| "error_operation_code OP_RAM_LOAD = 0x0005"
| "error_operation_code OP_RUN = 0x0006"
| "error_operation_code OP_RESET = 0x0007"

datatype error_stage =
    STG_NONE
  | STG_HEADER
  | STG_PAYLOAD
  | STG_ADDRESS_CHECK
  | STG_API_CALL
  | STG_FSM
  | STG_VERIFY
  | STG_STATE

fun error_stage_code :: "error_stage \<Rightarrow> int" where
  "error_stage_code STG_NONE = 0x0000"
| "error_stage_code STG_HEADER = 0x0001"
| "error_stage_code STG_PAYLOAD = 0x0002"
| "error_stage_code STG_ADDRESS_CHECK = 0x0003"
| "error_stage_code STG_API_CALL = 0x0004"
| "error_stage_code STG_FSM = 0x0005"
| "error_stage_code STG_VERIFY = 0x0006"
| "error_stage_code STG_STATE = 0x0007"

text \<open>\<open>Command(value)\<close>: the member with that value, or \<open>ValueError\<close>.\<close>

definition all_commands :: "command list" where
  "all_commands = [CMD_PING, CMD_GET_DEVICE_INFO, CMD_GET_PROTOCOL_INFO, CMD_GET_LAST_ERROR,
     CMD_GET_SERVICE_STATUS, CMD_SERVICE_ATTACH, CMD_RAM_LOAD_BEGIN, CMD_RAM_LOAD_DATA,
     CMD_RAM_LOAD_END, CMD_RAM_CHECK_CRC, CMD_RUN_RAM, CMD_ERASE,
     CMD_PROGRAM_BEGIN, CMD_PROGRAM_DATA, CMD_PROGRAM_END, CMD_VERIFY_BEGIN,
     CMD_VERIFY_DATA, CMD_VERIFY_END, CMD_MEMORY_READ, CMD_GET_METADATA_SUMMARY,
     CMD_METADATA_APPEND_RECORD, CMD_RUN, CMD_RESET]"

definition Command_of :: "int \<Rightarrow> command option" where
  "Command_of n = List.find (\<lambda>c. command_code c = n) all_commands"

definition SERVICE_REQUIRED_CAPABILITIES :: int where
  "SERVICE_REQUIRED_CAPABILITIES =
     service_capability_code CAP_ERASE OR service_capability_code CAP_PROGRAM
     OR service_capability_code CAP_VERIFY OR service_capability_code CAP_METADATA_WRITE"

section \<open>Default command timeouts\<close>

fun DEFAULT_COMMAND_TIMEOUT_MS :: "command \<Rightarrow> int option" where
  "DEFAULT_COMMAND_TIMEOUT_MS CMD_ERASE = Some 60000"
| "DEFAULT_COMMAND_TIMEOUT_MS CMD_PROGRAM_BEGIN = Some 10000"
| "DEFAULT_COMMAND_TIMEOUT_MS CMD_PROGRAM_DATA = Some 10000"
| "DEFAULT_COMMAND_TIMEOUT_MS CMD_PROGRAM_END = Some 10000"
| "DEFAULT_COMMAND_TIMEOUT_MS CMD_VERIFY_BEGIN = Some 10000"
| "DEFAULT_COMMAND_TIMEOUT_MS CMD_VERIFY_DATA = Some 10000"
| "DEFAULT_COMMAND_TIMEOUT_MS CMD_VERIFY_END = Some 10000"
| "DEFAULT_COMMAND_TIMEOUT_MS CMD_METADATA_APPEND_RECORD = Some 10000"
| "DEFAULT_COMMAND_TIMEOUT_MS CMD_RUN = Some 5000"
| "DEFAULT_COMMAND_TIMEOUT_MS CMD_RESET = Some 5000"
| "DEFAULT_COMMAND_TIMEOUT_MS CMD_RAM_LOAD_BEGIN = Some 10000"
| "DEFAULT_COMMAND_TIMEOUT_MS CMD_RAM_LOAD_DATA = Some 10000"
| "DEFAULT_COMMAND_TIMEOUT_MS CMD_RAM_LOAD_END = Some 10000"
| "DEFAULT_COMMAND_TIMEOUT_MS CMD_RAM_CHECK_CRC = Some 10000"
| "DEFAULT_COMMAND_TIMEOUT_MS CMD_RUN_RAM = Some 5000"
| "DEFAULT_COMMAND_TIMEOUT_MS CMD_SERVICE_ATTACH = Some 10000"
| "DEFAULT_COMMAND_TIMEOUT_MS CMD_GET_SERVICE_STATUS = Some 5000"
| "DEFAULT_COMMAND_TIMEOUT_MS CMD_MEMORY_READ = Some 5000"
| "DEFAULT_COMMAND_TIMEOUT_MS _ = None"

section \<open>Facts\<close>

lemma all_commands_complete: "c \<in> set all_commands"
  by (cases c) (simp_all add: all_commands_def)

lemma command_code_inject: "command_code c = command_code d \<longleftrightarrow> c = d"
  by (cases c; cases d; simp)

lemma Command_of_code [simp]: "Command_of (command_code c) = Some c"
proof (cases "List.find (\<lambda>d. command_code d = command_code c) all_commands")
  case None
  then show ?thesis
    using all_commands_complete [of c] by (auto simp: find_None_iff)
next
  case (Some d)
  then have "command_code d = command_code c"
    by (auto simp: find_Some_iff)
  then show ?thesis
    using Some by (simp add: Command_of_def command_code_inject)
qed

lemma Command_of_SomeD: "Command_of n = Some c \<Longrightarrow> n = command_code c"
  by (auto simp: Command_of_def find_Some_iff)

lemma u16_command_code [wf_intros, simp]: "u16 (command_code c)"
  by (cases c) (simp_all add: u_simps)

lemma u16_status_code [wf_intros, simp]: "u16 (status_code st)"
  by (cases st) (simp_all add: u_simps)

lemma u16_packet_type_code [wf_intros, simp]: "u16 (packet_type_code p)"
  by (cases p) (simp_all add: u_simps)

lemma u16_error_operation_code [wf_intros, simp]: "u16 (error_operation_code oper)"
  by (cases oper) (simp_all add: u_simps)

lemma u16_error_stage_code [wf_intros, simp]: "u16 (error_stage_code stg)"
  by (cases stg) (simp_all add: u_simps)

lemma u16_service_state_code [wf_intros, simp]: "u16 (service_state_code sv)"
  by (cases sv) (simp_all add: u_simps)

lemma status_code_eq_0 [simp]: "status_code st = 0 \<longleftrightarrow> st = ST_OK"
  by (cases st) simp_all

lemma SERVICE_REQUIRED_CAPABILITIES_eq [simp]: "SERVICE_REQUIRED_CAPABILITIES = 15"
  by (simp add: SERVICE_REQUIRED_CAPABILITIES_def)

end
