(* ===== verification/Wire_Models.thy ===== *)
theory Wire_Models
  imports Constants
begin

text \<open>
  The typed payloads of the protocol (\<open>protocol/models.py\<close> and the \<open>ProtocolInfo\<close> of
  \<open>protocol/boot_protocol_client.py\<close>), request sequence numbers (\<open>protocol/sequence.py\<close>) and the
  alignment of write data (\<open>protocol/alignment.py\<close>).  A dataclass is a record and its
  \<open>__post_init__\<close> checks are a constructor that may fail.
\<close>

section \<open>32 bit values as word pairs\<close>

definition join_u32 :: "int \<Rightarrow> int \<Rightarrow> int" where
  "join_u32 low high = low OR push_bit 16 high"

definition split_u32 :: "int \<Rightarrow> (int \<times> int) res" where
  "split_u32 value =
     (if value < 0 \<or> value > 0xFFFFFFFF then Inl (ValueError ''value must fit uint32'')
      else Inr (value AND 0xFFFF, drop_bit 16 value))"

definition check_words :: "int list \<Rightarrow> nat \<Rightarrow> int list res" where
  "check_words words expected =
     (if length words \<noteq> expected then Inl (ValueError ''requires exactly expected words'')
      else if list_ex (\<lambda>word. word < 0 \<or> word > 0xFFFF) words
      then Inl (ValueError ''values must fit uint16'')
      else Inr words)"

definition lo16 :: "int \<Rightarrow> int" where "lo16 v = v mod 0x10000"
definition hi16 :: "int \<Rightarrow> int" where "hi16 v = v div 0x10000"

lemma split_u32_Inr [simp]: "u32 v \<Longrightarrow> split_u32 v = Inr (lo16 v, hi16 v)"
  by (simp add: split_u32_def u_simps and_FFFF lo16_def hi16_def drop_bit_eq_div)

lemma split_u32_Inr_iff: "split_u32 v = Inr p \<longleftrightarrow> u32 v \<and> p = (lo16 v, hi16 v)"
  by (auto simp: split_u32_def u_simps and_FFFF lo16_def hi16_def drop_bit_eq_div)

lemma split_u32_Inl: "\<not> u32 v \<Longrightarrow> split_u32 v = Inl (ValueError ''value must fit uint32'')"
  by (auto simp: split_u32_def u_simps)

lemma u16_halves [wf_intros, simp]: "u16 (lo16 v)" "u32 v \<Longrightarrow> u16 (hi16 v)"
  by (auto simp: u_simps lo16_def hi16_def)

lemma join_u32_add: "u16 low \<Longrightarrow> join_u32 low high = low + high * 0x10000"
  using or_push_bit_eq_add [of low 16 high] by (simp add: join_u32_def u_simps)

lemma join_split [simp]: "join_u32 (lo16 v) (hi16 v) = v"
  by (simp add: join_u32_add) (simp add: lo16_def hi16_def)

lemma join_u32_u32 [wf_intros, simp]: "u16 low \<Longrightarrow> u16 high \<Longrightarrow> u32 (join_u32 low high)"
  by (simp add: join_u32_add) (simp add: u_simps)

lemma split_join:
  assumes "u16 low" "u16 high"
  shows "lo16 (join_u32 low high) = low" "hi16 (join_u32 low high) = high"
  using assms by (auto simp: join_u32_add u_simps lo16_def hi16_def)

lemma check_words_Inr_iff: "check_words ws n = Inr vs \<longleftrightarrow> length ws = n \<and> words16 ws \<and> vs = ws"
  by (force simp: check_words_def list_ex_iff list_all_iff u_simps)

lemma check_words_Inr: "length ws = n \<Longrightarrow> words16 ws \<Longrightarrow> check_words ws n = Inr ws"
  by (simp add: check_words_Inr_iff)

section \<open>Device information\<close>

record device_info =
  di_device_id :: int
  di_cpu_id :: int
  di_kernel_ver_major :: int
  di_kernel_ver_minor :: int
  di_kernel_ver_patch :: int
  di_protocol_ver :: int
  di_feature_flags :: int
  di_max_payload_words :: int
  di_max_data_words :: int
  di_boot_mode :: int
  di_kernel_layout :: int
  di_revision_id :: int
  di_uid_unique :: int

definition device_info_check :: "device_info \<Rightarrow> device_info res" where
  "device_info_check d =
     (if \<not> list_all (\<lambda>v. 0 \<le> v \<and> v \<le> 0xFFFFFFFF)
          [di_feature_flags d, di_revision_id d, di_uid_unique d]
      then Inl (ValueError ''field must fit uint32'')
      else if list_ex (\<lambda>v. v < 0 \<or> v > 0xFFFF)
          [di_device_id d, di_cpu_id d, di_kernel_ver_major d, di_kernel_ver_minor d,
           di_kernel_ver_patch d, di_protocol_ver d, di_max_payload_words d,
           di_max_data_words d, di_boot_mode d, di_kernel_layout d]
      then Inl (ValueError ''field must fit uint16'')
      else if di_max_data_words d = 0 \<or> di_max_data_words d mod WRITE_DATA_ALIGNMENT_WORDS \<noteq> 0
      then Inl (ValueError ''max_data_words must be a positive multiple of 8'')
      else if di_max_data_words d + 5 > di_max_payload_words d
      then Inl (ValueError ''max_data_words plus 5 metadata words must fit max_payload_words'')
      else Inr d)"

definition device_info_from_words :: "int list \<Rightarrow> device_info res" where
  "device_info_from_words words =
     bindE (check_words words 16) (\<lambda>v.
       device_info_check
         \<lparr>di_device_id = v ! 0, di_cpu_id = v ! 1, di_kernel_ver_major = v ! 2,
          di_kernel_ver_minor = v ! 3, di_kernel_ver_patch = v ! 4, di_protocol_ver = v ! 5,
          di_feature_flags = join_u32 (v ! 6) (v ! 7),
          di_max_payload_words = v ! 8, di_max_data_words = v ! 9,
          di_boot_mode = v ! 10, di_kernel_layout = v ! 11,
          di_revision_id = join_u32 (v ! 12) (v ! 13),
          di_uid_unique = join_u32 (v ! 14) (v ! 15)\<rparr>)"

definition device_info_to_words :: "device_info \<Rightarrow> int list res" where
  "device_info_to_words d =
     bindE (split_u32 (di_feature_flags d)) (\<lambda>(feature_low, feature_high).
     bindE (split_u32 (di_revision_id d)) (\<lambda>(revision_low, revision_high).
     bindE (split_u32 (di_uid_unique d)) (\<lambda>(uid_low, uid_high).
       Inr [di_device_id d, di_cpu_id d, di_kernel_ver_major d, di_kernel_ver_minor d,
            di_kernel_ver_patch d, di_protocol_ver d, feature_low, feature_high,
            di_max_payload_words d, di_max_data_words d, di_boot_mode d, di_kernel_layout d,
            revision_low, revision_high, uid_low, uid_high])))"

definition device_info_wf :: "device_info \<Rightarrow> bool" where
  "device_info_wf d \<longleftrightarrow>
     list_all u32 [di_feature_flags d, di_revision_id d, di_uid_unique d] \<and>
     list_all u16 [di_device_id d, di_cpu_id d, di_kernel_ver_major d, di_kernel_ver_minor d,
       di_kernel_ver_patch d, di_protocol_ver d, di_max_payload_words d, di_max_data_words d,
       di_boot_mode d, di_kernel_layout d] \<and>
     0 < di_max_data_words d \<and> di_max_data_words d mod 8 = 0 \<and>
     di_max_data_words d + 5 \<le> di_max_payload_words d"

lemma device_info_check_Inr_iff: "device_info_check d = Inr e \<longleftrightarrow> device_info_wf d \<and> e = d"
  unfolding device_info_check_def device_info_wf_def
  by (auto simp: u_simps WRITE_DATA_ALIGNMENT_WORDS_def)

lemma device_info_to_words_Inr:
  "device_info_wf d \<Longrightarrow> device_info_to_words d =
     Inr [di_device_id d, di_cpu_id d, di_kernel_ver_major d, di_kernel_ver_minor d,
          di_kernel_ver_patch d, di_protocol_ver d,
          lo16 (di_feature_flags d), hi16 (di_feature_flags d),
          di_max_payload_words d, di_max_data_words d, di_boot_mode d, di_kernel_layout d,
          lo16 (di_revision_id d), hi16 (di_revision_id d),
          lo16 (di_uid_unique d), hi16 (di_uid_unique d)]"
  by (simp add: device_info_to_words_def device_info_wf_def)

section \<open>Error detail\<close>

record error_detail =
  ed_operation :: int
  ed_stage :: int
  ed_address :: int
  ed_length_words :: int
  ed_api_status :: int
  ed_fsm_status :: int
  ed_extra0 :: int
  ed_extra1 :: int

definition error_detail_check :: "error_detail \<Rightarrow> error_detail res" where
  "error_detail_check e =
     (if list_ex (\<lambda>v. v < 0 \<or> v > 0xFFFF)
          [ed_operation e, ed_stage e, ed_api_status e, ed_extra0 e, ed_extra1 e]
      then Inl (ValueError ''field must fit uint16'')
      else if list_ex (\<lambda>v. v < 0 \<or> v > 0xFFFFFFFF)
          [ed_address e, ed_length_words e, ed_fsm_status e]
      then Inl (ValueError ''field must fit uint32'')
      else Inr e)"

definition error_detail_from_words :: "int list \<Rightarrow> error_detail res" where
  "error_detail_from_words words =
     bindE (check_words words 11) (\<lambda>v.
       error_detail_check
         \<lparr>ed_operation = v ! 0, ed_stage = v ! 1, ed_address = join_u32 (v ! 2) (v ! 3),
          ed_length_words = join_u32 (v ! 4) (v ! 5), ed_api_status = v ! 6,
          ed_fsm_status = join_u32 (v ! 7) (v ! 8), ed_extra0 = v ! 9, ed_extra1 = v ! 10\<rparr>)"

definition error_detail_to_words :: "error_detail \<Rightarrow> int list res" where
  "error_detail_to_words e =
     bindE (split_u32 (ed_address e)) (\<lambda>(address_low, address_high).
     bindE (split_u32 (ed_length_words e)) (\<lambda>(length_low, length_high).
     bindE (split_u32 (ed_fsm_status e)) (\<lambda>(fsm_low, fsm_high).
       Inr [ed_operation e, ed_stage e, address_low, address_high, length_low, length_high,
            ed_api_status e, fsm_low, fsm_high, ed_extra0 e, ed_extra1 e])))"

definition error_detail_wf :: "error_detail \<Rightarrow> bool" where
  "error_detail_wf e \<longleftrightarrow>
     list_all u16 [ed_operation e, ed_stage e, ed_api_status e, ed_extra0 e, ed_extra1 e] \<and>
     list_all u32 [ed_address e, ed_length_words e, ed_fsm_status e]"

lemma error_detail_check_Inr_iff: "error_detail_check e = Inr f \<longleftrightarrow> error_detail_wf e \<and> f = e"
  unfolding error_detail_check_def error_detail_wf_def by (auto simp: u_simps)

lemma error_detail_to_words_Inr:
  "error_detail_wf e \<Longrightarrow> error_detail_to_words e =
     Inr [ed_operation e, ed_stage e, lo16 (ed_address e), hi16 (ed_address e),
          lo16 (ed_length_words e), hi16 (ed_length_words e), ed_api_status e,
          lo16 (ed_fsm_status e), hi16 (ed_fsm_status e), ed_extra0 e, ed_extra1 e]"
  by (simp add: error_detail_to_words_def error_detail_wf_def)

section \<open>Metadata summary, service status, protocol information\<close>

record metadata_summary =
  ms_metadata_valid :: int
  ms_active_slot :: int
  ms_latest_record_type :: int
  ms_boot_attempt_count :: int
  ms_app_confirmed :: int
  ms_boot_attempt_limit :: int
  ms_app_version_major :: int
  ms_app_version_minor :: int
  ms_app_version_patch :: int
  ms_app_version_build :: int
  ms_entry_point :: int
  ms_image_crc32 :: int
  ms_state :: int
  ms_valid_record_count :: int
  ms_invalid_record_count :: int
  ms_erased_record_count :: int
  ms_free_record_count :: int
  ms_next_record_index :: int
  ms_image_size_words :: int
  ms_target_device_id :: int
  ms_target_cpu_id :: int

definition metadata_summary_of_words :: "int list \<Rightarrow> metadata_summary" where
  "metadata_summary_of_words v =
     \<lparr>ms_metadata_valid = v ! 0, ms_active_slot = v ! 1, ms_latest_record_type = v ! 2,
      ms_boot_attempt_count = v ! 3, ms_app_confirmed = v ! 4, ms_boot_attempt_limit = v ! 5,
      ms_app_version_major = v ! 6, ms_app_version_minor = v ! 7, ms_app_version_patch = v ! 8,
      ms_app_version_build = join_u32 (v ! 9) (v ! 10),
      ms_entry_point = join_u32 (v ! 11) (v ! 12),
      ms_image_crc32 = join_u32 (v ! 13) (v ! 14),
      ms_state = v ! 15, ms_valid_record_count = v ! 16, ms_invalid_record_count = v ! 17,
      ms_erased_record_count = v ! 18, ms_free_record_count = v ! 19,
      ms_next_record_index = v ! 20,
      ms_image_size_words = join_u32 (v ! 21) (v ! 22),
      ms_target_device_id = v ! 23, ms_target_cpu_id = v ! 24\<rparr>"

definition metadata_summary_from_words :: "int list \<Rightarrow> metadata_summary res" where
  "metadata_summary_from_words words =
     bindE (check_words words (nat METADATA_SUMMARY_WORDS)) (\<lambda>v. Inr (metadata_summary_of_words v))"

record service_status =
  ss_service_state :: int
  ss_abi_major :: int
  ss_abi_minor :: int
  ss_reserved0 :: int
  ss_reserved1 :: int
  ss_capabilities :: int
  ss_last_attach_status :: int
  ss_loaded_image_crc32 :: int
  ss_loaded_image_words :: int

definition service_status_from_words :: "int list \<Rightarrow> service_status res" where
  "service_status_from_words words =
     bindE (check_words words (nat SERVICE_STATUS_WORDS)) (\<lambda>v. Inr
       \<lparr>ss_service_state = v ! 0, ss_abi_major = v ! 1, ss_abi_minor = v ! 2,
        ss_reserved0 = v ! 3, ss_reserved1 = v ! 4,
        ss_capabilities = join_u32 (v ! 5) (v ! 6), ss_last_attach_status = v ! 7,
        ss_loaded_image_crc32 = join_u32 (v ! 8) (v ! 9),
        ss_loaded_image_words = join_u32 (v ! 10) (v ! 11)\<rparr>)"

record protocol_info =
  pi_protocol_ver :: int
  pi_min_supported_ver :: int
  pi_max_supported_ver :: int
  pi_header_words :: int
  pi_crc_type :: int
  pi_endian :: int
  pi_max_payload_words :: int
  pi_flags :: int

definition protocol_info_from_words :: "int list \<Rightarrow> protocol_info res" where
  "protocol_info_from_words v =
     (if length v \<noteq> 8 then Inl (ProtocolDecodeError ''ProtocolInfo requires exactly 8 words'')
      else if list_ex (\<lambda>word. word < 0 \<or> word > 0xFFFF) v
      then Inl (ProtocolDecodeError ''ProtocolInfo values must fit uint16'')
      else let result =
        \<lparr>pi_protocol_ver = v ! 0, pi_min_supported_ver = v ! 1, pi_max_supported_ver = v ! 2,
         pi_header_words = v ! 3, pi_crc_type = v ! 4, pi_endian = v ! 5,
         pi_max_payload_words = v ! 6, pi_flags = v ! 7\<rparr> in
      if pi_max_payload_words result \<le> 0
      then Inl (ProtocolDecodeError ''ProtocolInfo max_payload_words must be positive'')
      else if pi_protocol_ver result \<noteq> PROTOCOL_VERSION
      then Inl (ProtocolDecodeError ''unsupported ProtocolInfo protocol_ver'')
      else if pi_min_supported_ver result > PROTOCOL_VERSION
        \<or> pi_max_supported_ver result < PROTOCOL_VERSION
      then Inl (ProtocolDecodeError ''host protocol version is outside the supported range'')
      else if pi_header_words result \<noteq> HEADER_WORDS
      then Inl (ProtocolDecodeError ''unsupported ProtocolInfo header_words'')
      else if pi_crc_type result \<noteq> CRC_TYPE_CCITT_FALSE
      then Inl (ProtocolDecodeError ''unsupported ProtocolInfo crc_type'')
      else if pi_endian result \<noteq> ENDIAN_LITTLE
      then Inl (ProtocolDecodeError ''unsupported ProtocolInfo endian'')
      else Inr result)"

section \<open>Request sequence numbers\<close>

definition next_sequence :: "int \<Rightarrow> int res" where
  "next_sequence previous =
     (if previous < 0 \<or> previous > 0xFFFF
      then Inl (ValueError ''previous sequence must fit uint16'')
      else if previous = 0 \<or> previous = 0xFFFF then Inr 1 else Inr (previous + 1))"

definition validate_response_sequence :: "int \<Rightarrow> int \<Rightarrow> unit res" where
  "validate_response_sequence request_sequence response_sequence =
     (if request_sequence = 0 \<or> request_sequence > 0xFFFF
      then Inl (ValueError ''request sequence must be in range 1..65535'')
      else if response_sequence \<noteq> request_sequence
      then Inl (SequenceMismatchError ''response sequence does not match request'')
      else Inr ())"

text \<open>The sequence number that follows a valid one, as a total function.\<close>

definition succ_sequence :: "int \<Rightarrow> int" where
  "succ_sequence q = (if q = 0 \<or> q = 0xFFFF then 1 else q + 1)"

lemma next_sequence_Inr: "u16 q \<Longrightarrow> next_sequence q = Inr (succ_sequence q)"
  by (simp add: next_sequence_def succ_sequence_def u_simps)

lemma succ_sequence_range:
  "u16 q \<Longrightarrow> u16 (succ_sequence q) \<and> succ_sequence q \<noteq> 0 \<and> succ_sequence q \<noteq> q"
  by (auto simp: succ_sequence_def u_simps)

section \<open>Alignment of write data\<close>

definition validate_write_data :: "int list \<Rightarrow> int option \<Rightarrow> unit res" where
  "validate_write_data words max_data_words =
     (let count = int (length words) in
      if count = 0 then Inl (DataAlignmentError ''write data must not be empty'')
      else if count mod WRITE_DATA_ALIGNMENT_WORDS \<noteq> 0
      then Inl (DataAlignmentError ''write data word count must be a multiple of 8'')
      else bindE
        (case max_data_words of
           None \<Rightarrow> Inr ()
         | Some m \<Rightarrow>
             if m \<le> 0 \<or> m mod WRITE_DATA_ALIGNMENT_WORDS \<noteq> 0
             then Inl (ValueError ''max_data_words must be a positive multiple of 8'')
             else if count > m
             then Inl (DataAlignmentError ''write data exceeds max_data_words'')
             else Inr ())
        (\<lambda>_. if list_ex (\<lambda>word. word < 0 \<or> word > 0xFFFF) words
             then Inl (ValueError ''write data values must fit uint16'')
             else Inr ()))"

definition pad_write_data :: "int list \<Rightarrow> int option \<Rightarrow> int list res" where
  "pad_write_data words max_data_words =
     (if words = [] then Inl (DataAlignmentError ''write data must not be empty'')
      else if list_ex (\<lambda>word. word < 0 \<or> word > 0xFFFF) words
      then Inl (ValueError ''write data values must fit uint16'')
      else let missing = (- int (length words)) mod WRITE_DATA_ALIGNMENT_WORDS;
               result = words @ replicate (nat missing) WRITE_DATA_PAD_WORD
           in bindE (validate_write_data result max_data_words) (\<lambda>_. Inr result))"

lemma not_list_ex_u16: "\<not> list_ex (\<lambda>word. word < 0 \<or> word > 0xFFFF) ws \<longleftrightarrow> words16 ws"
  by (force simp: list_ex_iff list_all_iff u_simps)

lemma validate_write_data_ok_iff:
  "validate_write_data ws (Some m) = Inr () \<longleftrightarrow>
     ws \<noteq> [] \<and> length ws mod 8 = 0 \<and> 0 < m \<and> m mod 8 = 0 \<and> int (length ws) \<le> m \<and> words16 ws"
proof -
  have "8 dvd int (length ws) \<longleftrightarrow> 8 dvd length ws"
    using int_dvd_int_iff [of 8 "length ws"] by simp
  then show ?thesis
    by (auto simp: validate_write_data_def WRITE_DATA_ALIGNMENT_WORDS_def bindE_Inr_iff Let_def
        not_list_ex_u16 [symmetric] mod_greater_zero_iff_not_dvd split: if_splits)
qed

definition pad_words :: "int list \<Rightarrow> int list" where
  "pad_words ws = ws @ replicate ((8 - length ws mod 8) mod 8) 0xFFFF"

lemma round_up_8:
  fixes n m :: nat
  shows "n + (8 - n mod 8) mod 8 = (n + 7) div 8 * 8"
    and "n \<le> (n + 7) div 8 * 8" and "(n + 7) div 8 * 8 < n + 8"
    and "n \<le> m \<Longrightarrow> m mod 8 = 0 \<Longrightarrow> (n + 7) div 8 * 8 \<le> m"
proof -
  define q r where "q = n div 8" and "r = n mod 8"
  have n: "n = 8 * q + r" and r: "r < 8"
    by (simp_all add: q_def r_def)
  have d: "(n + 7) div 8 = (if r = 0 then q else Suc q)"
    by (rule div_nat_eqI) (use n r in auto)
  show "n + (8 - n mod 8) mod 8 = (n + 7) div 8 * 8"
    unfolding d r_def [symmetric] using n r by simp
  show "n \<le> (n + 7) div 8 * 8" "(n + 7) div 8 * 8 < n + 8"
    unfolding d using n r by auto
  show "(n + 7) div 8 * 8 \<le> m" if "n \<le> m" "m mod 8 = 0"
  proof -
    obtain k where "m = 8 * k"
      using \<open>m mod 8 = 0\<close> by (auto elim: dvdE)
    then show ?thesis
      unfolding d using that(1) n r by auto
  qed
qed

lemma length_pad_words_eq: "length (pad_words ws) = (length ws + 7) div 8 * 8"
  by (simp only: pad_words_def length_append length_replicate round_up_8)

lemma length_pad_words: "length (pad_words ws) mod 8 = 0" "length ws \<le> length (pad_words ws)"
  "length (pad_words ws) < length ws + 8"
  unfolding length_pad_words_eq by (simp_all only: round_up_8 mod_mult_self2_is_0)

lemma length_pad_words_le: "length ws \<le> m \<Longrightarrow> m mod 8 = 0 \<Longrightarrow> length (pad_words ws) \<le> m"
  unfolding length_pad_words_eq by (rule round_up_8(4))

lemma words16_pad_words [wf_intros]: "words16 ws \<Longrightarrow> words16 (pad_words ws)"
  by (auto simp: pad_words_def list_all_iff u_simps)

lemma pad_missing: "nat ((- int n) mod 8) = (8 - n mod 8) mod 8"
proof (cases "n mod 8 = 0")
  case True
  then have "(- int n) mod 8 = 0"
    by presburger
  with True show ?thesis
    by simp
next
  case False
  have "(- int n) mod 8 = 8 - int n mod 8"
    using False by (simp add: zmod_zminus1_eq_if) presburger
  with False show ?thesis
    by (simp add: of_nat_mod nat_diff_distrib nat_mod_distrib)
qed

lemma pad_write_data_Inr:
  assumes "ws \<noteq> []" "words16 ws" "0 < m" "m mod 8 = 0" "int (length ws) \<le> m"
  shows "pad_write_data ws (Some m) = Inr (pad_words ws)"
proof -
  have "length (pad_words ws) \<le> nat m"
  proof (rule length_pad_words_le)
    show "length ws \<le> nat m" using assms by simp
    show "nat m mod 8 = 0" using assms(3,4) by (simp add: nat_mod_distrib [symmetric, where y = 8, simplified])
  qed
  then have "validate_write_data (pad_words ws) (Some m) = Inr ()"
    using assms words16_pad_words [of ws] length_pad_words(1) [of ws]
    by (subst validate_write_data_ok_iff) (auto simp: pad_words_def)
  then show ?thesis
    using assms(1,2) not_list_ex_u16 [of ws]
    by (simp add: pad_write_data_def WRITE_DATA_ALIGNMENT_WORDS_def WRITE_DATA_PAD_WORD_def
        pad_missing Let_def flip: pad_words_def)
qed

section \<open>Round trips\<close>

lemma device_info_of_16:
  assumes "words16 [a0, a1, a2, a3, a4, a5, a6, a7, a8, a9, a10, a11, a12, a13, a14, a15]"
  shows "device_info_from_words [a0, a1, a2, a3, a4, a5, a6, a7, a8, a9, a10, a11, a12, a13, a14, a15] =
    device_info_check
      \<lparr>di_device_id = a0, di_cpu_id = a1, di_kernel_ver_major = a2, di_kernel_ver_minor = a3,
       di_kernel_ver_patch = a4, di_protocol_ver = a5, di_feature_flags = join_u32 a6 a7,
       di_max_payload_words = a8, di_max_data_words = a9, di_boot_mode = a10,
       di_kernel_layout = a11, di_revision_id = join_u32 a12 a13, di_uid_unique = join_u32 a14 a15\<rparr>"
  using assms by (simp add: device_info_from_words_def check_words_Inr)

lemma list_of_16:
  "length ws = 16 \<Longrightarrow>
     ws = [ws ! 0, ws ! 1, ws ! 2, ws ! 3, ws ! 4, ws ! 5, ws ! 6, ws ! 7,
           ws ! 8, ws ! 9, ws ! 10, ws ! 11, ws ! 12, ws ! 13, ws ! 14, ws ! 15]"
  using map_nth [of ws] by (simp add: upt_rec numeral_eq_Suc)

lemma list_of_11:
  "length ws = 11 \<Longrightarrow>
     ws = [ws ! 0, ws ! 1, ws ! 2, ws ! 3, ws ! 4, ws ! 5,
           ws ! 6, ws ! 7, ws ! 8, ws ! 9, ws ! 10]"
  using map_nth [of ws] by (simp add: upt_rec numeral_eq_Suc)

lemma device_info_from_to:
  assumes "device_info_wf d" "device_info_to_words d = Inr ws"
  shows "device_info_from_words ws = Inr d"
proof -
  note ws = assms(2) [unfolded device_info_to_words_Inr [OF assms(1)], simplified, symmetric]
  show ?thesis
    unfolding ws using assms(1)
    by (subst device_info_of_16) (auto simp: device_info_check_Inr_iff device_info_wf_def)
qed

lemma device_info_to_from:
  assumes "device_info_from_words ws = Inr d"
  shows "device_info_wf d \<and> device_info_to_words d = Inr ws"
proof -
  from assms have "length ws = 16" and u: "words16 ws"
    by (auto simp: device_info_from_words_def bindE_Inr_iff check_words_Inr_iff)
  then obtain a0 a1 a2 a3 a4 a5 a6 a7 a8 a9 a10 a11 a12 a13 a14 a15 where
    ws: "ws = [a0, a1, a2, a3, a4, a5, a6, a7, a8, a9, a10, a11, a12, a13, a14, a15]"
    by (metis list_of_16)
  have "device_info_wf d"
    using assms by (auto simp: device_info_from_words_def bindE_Inr_iff device_info_check_Inr_iff)
  moreover from this have "device_info_to_words d = Inr ws"
    using assms u unfolding ws device_info_of_16 [OF u [unfolded ws]] device_info_check_Inr_iff
    by (auto simp: device_info_to_words_Inr split_join)
  ultimately show ?thesis
    by blast
qed

text \<open>
  C29.  The 16 word device information payload: \<open>from_words\<close> accepts exactly the serialisations
  of device descriptions that pass the \<open>__post_init__\<close> checks, and returns the description that
  \<open>to_words\<close> serialised.
\<close>

theorem device_info_roundtrip:
  "device_info_from_words ws = Inr d \<longleftrightarrow> device_info_wf d \<and> device_info_to_words d = Inr ws"
  using device_info_from_to device_info_to_from by blast

lemma error_detail_from_to:
  assumes "error_detail_wf e" "error_detail_to_words e = Inr ws"
  shows "error_detail_from_words ws = Inr e"
proof -
  note ws = assms(2) [unfolded error_detail_to_words_Inr [OF assms(1)], simplified, symmetric]
  show ?thesis
    unfolding ws using assms(1)
    by (simp add: error_detail_from_words_def check_words_Inr error_detail_check_Inr_iff
        error_detail_wf_def)
qed

lemma error_detail_to_from:
  assumes "error_detail_from_words ws = Inr e"
  shows "error_detail_wf e \<and> error_detail_to_words e = Inr ws"
proof -
  from assms have "length ws = 11" and u: "words16 ws"
    by (auto simp: error_detail_from_words_def bindE_Inr_iff check_words_Inr_iff)
  then obtain a0 a1 a2 a3 a4 a5 a6 a7 a8 a9 a10 where
    ws: "ws = [a0, a1, a2, a3, a4, a5, a6, a7, a8, a9, a10]"
    by (metis list_of_11)
  show ?thesis
    using assms u unfolding ws
    by (auto simp: error_detail_from_words_def check_words_Inr error_detail_check_Inr_iff
        error_detail_to_words_Inr split_join)
qed

text \<open>
  The 11 word error detail payload: \<open>from_words\<close> accepts exactly the serialisations of
  well-formed error details and inverts \<open>to_words\<close>.
\<close>

theorem error_detail_roundtrip:
  "error_detail_from_words ws = Inr e \<longleftrightarrow> error_detail_wf e \<and> error_detail_to_words e = Inr ws"
  using error_detail_from_to error_detail_to_from by blast

end
