(* ===== verification/Firmware.thy ===== *)
theory Firmware
  imports Crc Wire_Models
begin

text \<open>
  Firmware images (\<open>firmware/models.py\<close>), their address checks for the Flash application slot
  and for RAM (\<open>firmware/app_validation.py\<close>, \<open>firmware/ram_validation.py\<close>) and the sector masks
  of the CPU1 Flash (\<open>firmware/flash_layout.py\<close>).  The facts proved here: the mask computed for
  an image covers every word of the image, and the two erase masks of a firmware upgrade are
  disjoint, never contain the boot loader's sector and cover the image and the metadata.
\<close>

section \<open>Images\<close>

record address_range =
  ar_start :: int
  ar_end_exclusive :: int

definition AddressRange :: "int \<Rightarrow> int \<Rightarrow> address_range res" where
  "AddressRange start end_exclusive =
     (if start < 0 \<or> end_exclusive \<le> start then Inl (ValueError ''invalid address range'')
      else Inr \<lparr>ar_start = start, ar_end_exclusive = end_exclusive\<rparr>)"

record firmware_block =
  fb_address :: int
  fb_words :: "int list"

definition FirmwareBlock :: "int \<Rightarrow> int list \<Rightarrow> firmware_block res" where
  "FirmwareBlock address words =
     (if address < 0 \<or> address > 0xFFFFFFFF
      then Inl (ValueError ''block address must fit uint32'')
      else if words = [] then Inl (ValueError ''firmware block must contain data'')
      else if list_ex (\<lambda>word. word < 0 \<or> word > 0xFFFF) words
      then Inl (ValueError ''firmware data words must fit uint16'')
      else Inr \<lparr>fb_address = address, fb_words = words\<rparr>)"

definition fb_end_exclusive :: "firmware_block \<Rightarrow> int" where
  "fb_end_exclusive b = fb_address b + int (length (fb_words b))"

datatype format_value = Format_Text string | Format_Int int | Format_Ints "int list"

record firmware_image =
  fi_source_out_file :: string
  fi_generated_hex_file :: string
  fi_entry_point :: int
  fi_blocks :: "firmware_block list"
  fi_total_words :: int
  fi_address_ranges :: "address_range list"
  fi_file_checksum :: string
  fi_format_info :: "(string \<times> format_value) list"

text \<open>The test \<open>any(left.end > right.start)\<close> over neighbours.\<close>

fun neighbours_overlap :: "address_range list \<Rightarrow> bool" where
  "neighbours_overlap (left # right # rest) =
     (ar_end_exclusive left > ar_start right \<or> neighbours_overlap (right # rest))"
| "neighbours_overlap _ = False"

definition FirmwareImage ::
  "string \<Rightarrow> string \<Rightarrow> int \<Rightarrow> firmware_block list \<Rightarrow> string \<Rightarrow> (string \<times> format_value) list
   \<Rightarrow> firmware_image res" where
  "FirmwareImage source_out_file generated_hex_file entry_point blocks file_checksum format_info =
     (if entry_point < 0 \<or> entry_point > 0xFFFFFFFF
      then Inl (ValueError ''entry point must fit uint32'')
      else if blocks = []
      then Inl (ValueError ''firmware image must contain at least one block'')
      else let ranges = map (\<lambda>b. \<lparr>ar_start = fb_address b, ar_end_exclusive = fb_end_exclusive b\<rparr>) blocks
        in if neighbours_overlap (sort_key ar_start ranges)
        then Inl (ValueError ''firmware blocks overlap'')
        else Inr
          \<lparr>fi_source_out_file = source_out_file, fi_generated_hex_file = generated_hex_file,
           fi_entry_point = entry_point, fi_blocks = blocks,
           fi_total_words = sum_list (map (\<lambda>b. int (length (fb_words b))) blocks),
           fi_address_ranges = ranges, fi_file_checksum = file_checksum,
           fi_format_info = format_info\<rparr>)"

definition block_wf :: "firmware_block \<Rightarrow> bool" where
  "block_wf b \<longleftrightarrow> u32 (fb_address b) \<and> fb_words b \<noteq> [] \<and> words16 (fb_words b)"

lemma FirmwareBlock_Inr_iff:
  "FirmwareBlock a ws = Inr b \<longleftrightarrow> block_wf b \<and> b = \<lparr>fb_address = a, fb_words = ws\<rparr>"
  using not_list_ex_u16 [of ws] by (auto simp: FirmwareBlock_def block_wf_def u_simps)

lemma FirmwareBlock_Inr:
  "u32 a \<Longrightarrow> ws \<noteq> [] \<Longrightarrow> words16 ws \<Longrightarrow>
     FirmwareBlock a ws = Inr \<lparr>fb_address = a, fb_words = ws\<rparr>"
  by (simp add: FirmwareBlock_Inr_iff block_wf_def)

lemma fb_end_gt: "block_wf b \<Longrightarrow> fb_address b < fb_end_exclusive b"
  by (auto simp: block_wf_def fb_end_exclusive_def)

section \<open>Blocks in address order\<close>

definition block_range :: "firmware_block \<Rightarrow> address_range" where
  "block_range b = \<lparr>ar_start = fb_address b, ar_end_exclusive = fb_end_exclusive b\<rparr>"

definition blocks_before :: "firmware_block \<Rightarrow> firmware_block \<Rightarrow> bool" where
  "blocks_before a b \<longleftrightarrow> fb_end_exclusive a \<le> fb_address b"

definition image_wf :: "firmware_image \<Rightarrow> bool" where
  "image_wf i \<longleftrightarrow> u32 (fi_entry_point i) \<and> fi_blocks i \<noteq> [] \<and> list_all block_wf (fi_blocks i) \<and>
     sorted_wrt blocks_before (sort_key fb_address (fi_blocks i)) \<and>
     fi_total_words i = sum_list (map (\<lambda>b. int (length (fb_words b))) (fi_blocks i)) \<and>
     fi_address_ranges i = map block_range (fi_blocks i)"

lemma insort_key_map: "insort_key f (g x) (map g xs) = map g (insort_key (\<lambda>a. f (g a)) x xs)"
  by (induction xs) auto

lemma sort_key_map: "sort_key f (map g xs) = map g (sort_key (\<lambda>a. f (g a)) xs)"
  by (induction xs) (simp_all add: insort_key_map comp_def)

lemma not_neighbours_overlap:
  assumes "list_all block_wf bs"
  shows "\<not> neighbours_overlap (map block_range bs) \<longleftrightarrow> sorted_wrt blocks_before bs"
  using assms
proof (induction bs rule: induct_list012)
  case (3 a b bs)
  have "blocks_before a b \<Longrightarrow> blocks_before b c \<Longrightarrow> blocks_before a c" for c
    using 3(3) fb_end_gt [of b] by (auto simp: blocks_before_def)
  then show ?case
    using 3 by (auto simp: block_range_def blocks_before_def)
qed simp_all

lemma list_all_sort_key [simp]: "list_all P (sort_key f xs) = list_all P xs"
  by (simp add: list_all_iff)

lemma FirmwareImage_built:
  assumes "list_all block_wf blocks"
  shows "(is_ok (FirmwareImage src hex entry blocks checksum info) \<longleftrightarrow>
      u32 entry \<and> blocks \<noteq> [] \<and> sorted_wrt blocks_before (sort_key fb_address blocks)) \<and>
    (\<forall>i. FirmwareImage src hex entry blocks checksum info = Inr i \<longrightarrow> image_wf i)"
proof -
  have o: "(\<lambda>a. ar_start (block_range a)) = fb_address"
    by (simp add: fun_eq_iff block_range_def)
  have n: "\<not> neighbours_overlap (sort_key ar_start (map block_range blocks)) \<longleftrightarrow>
    sorted_wrt blocks_before (sort_key fb_address blocks)"
    using assms by (simp add: sort_key_map o not_neighbours_overlap)
  have r: "(\<lambda>b. \<lparr>ar_start = fb_address b, ar_end_exclusive = fb_end_exclusive b\<rparr>) = block_range"
    by (simp add: fun_eq_iff block_range_def)
  have "is_ok (FirmwareImage src hex entry blocks checksum info) \<longleftrightarrow>
      u32 entry \<and> blocks \<noteq> [] \<and> sorted_wrt blocks_before (sort_key fb_address blocks)"
    unfolding n [symmetric] by (auto simp: FirmwareImage_def r u32_def Let_def)
  moreover have "image_wf i" if "FirmwareImage src hex entry blocks checksum info = Inr i" for i
    using that assms n by (auto simp: FirmwareImage_def image_wf_def r u32_def Let_def split: if_splits)
  ultimately show ?thesis by blast
qed

text \<open>
  Building an image from parsed blocks succeeds exactly when there is a block, the entry point
  fits 32 bits and no two blocks share an address; the image then satisfies the invariant that the
  packet preparation relies on.
\<close>

theorem FirmwareImage_ok_iff:
  assumes "list_all block_wf blocks"
  shows "(is_ok (FirmwareImage src hex entry blocks checksum info) \<longleftrightarrow>
      u32 entry \<and> blocks \<noteq> [] \<and> sorted_wrt blocks_before (sort_key fb_address blocks)) \<and>
    (\<forall>i. FirmwareImage src hex entry blocks checksum info = Inr i \<longrightarrow> image_wf i)"
  by (rule FirmwareImage_built [OF assms])

lemma FirmwareImage_ok_iff_witness:
  "is_ok (FirmwareImage ''app.out'' ''app.hex'' 0x82400
     [\<lparr>fb_address = 0x82500, fb_words = [4]\<rparr>, \<lparr>fb_address = 0x82400, fb_words = [1, 2, 3]\<rparr>] '''' [])"
  using FirmwareImage_ok_iff [of
    "[\<lparr>fb_address = 0x82500, fb_words = [4]\<rparr>, \<lparr>fb_address = 0x82400, fb_words = [1, 2, 3]\<rparr>]"
    "''app.out''" "''app.hex''" "0x82400" "''''" "[]"]
  by (simp add: block_wf_def u_simps blocks_before_def fb_end_exclusive_def)

section \<open>Application slot and RAM checks\<close>

definition SLOT_A_METADATA_START :: int where "SLOT_A_METADATA_START = 0x082000"
definition SLOT_A_METADATA_WORDS :: int where "SLOT_A_METADATA_WORDS = 1024"
definition SLOT_A_METADATA_END :: int where "SLOT_A_METADATA_END = 0x082400"
definition APP_FLASH_START :: int where "APP_FLASH_START = 0x082400"
definition APP_FLASH_END_EXCLUSIVE :: int where "APP_FLASH_END_EXCLUSIVE = 0x0C0000"

lemmas slot_defs = SLOT_A_METADATA_START_def SLOT_A_METADATA_WORDS_def SLOT_A_METADATA_END_def
  APP_FLASH_START_def APP_FLASH_END_EXCLUSIVE_def

definition validate_app_firmware_image :: "firmware_image \<Rightarrow> unit res" where
  "validate_app_firmware_image img =
     (if list_ex (\<lambda>b. fb_address b < SLOT_A_METADATA_END
          \<and> fb_end_exclusive b > SLOT_A_METADATA_START) (fi_blocks img)
      then Inl (ValueError ''firmware block overlaps Slot A metadata area'')
      else if \<not> (APP_FLASH_START \<le> fi_entry_point img
          \<and> fi_entry_point img < APP_FLASH_END_EXCLUSIVE)
      then Inl (ValueError ''entry point is outside Slot A App range'')
      else if fi_entry_point img mod 8 \<noteq> 0
      then Inl (ValueError ''entry point is not 8-word aligned'')
      else if list_ex (\<lambda>b. fb_address b < APP_FLASH_START
          \<or> fb_end_exclusive b > APP_FLASH_END_EXCLUSIVE) (fi_blocks img)
      then Inl (ValueError ''firmware block is outside Slot A App range'')
      else Inr ())"

definition RAM_WRITE_RANGES :: "(int \<times> int) list" where
  "RAM_WRITE_RANGES =
     [(0x000000, 0x000002), (0x000123, 0x000400), (0x008000, 0x00C000), (0x010000, 0x01BFF8),
      (0x03F800, 0x040000), (0x049000, 0x049800), (0x04B000, 0x04B800)]"

definition inside_any :: "int \<Rightarrow> int \<Rightarrow> (int \<times> int) list \<Rightarrow> bool" where
  "inside_any start end_exclusive ranges =
     list_ex (\<lambda>(lo, hi). lo \<le> start \<and> end_exclusive \<le> hi) ranges"

definition validate_ram_firmware_image :: "firmware_image \<Rightarrow> unit res" where
  "validate_ram_firmware_image img =
     (if fi_total_words img \<le> 0 then Inl (ValueError ''RAM image must contain data'')
      else if \<not> inside_any (fi_entry_point img) (fi_entry_point img + 1) RAM_WRITE_RANGES
      then Inl (ValueError ''RAM entry point is outside allowed RAM write ranges'')
      else foldr (\<lambda>b rest.
        if fb_end_exclusive b > 0xFFFFFFFF
        then Inl (ValueError ''RAM image block address wraps uint32'')
        else if \<not> inside_any (fb_address b) (fb_end_exclusive b) RAM_WRITE_RANGES
        then Inl (ValueError ''RAM image block is outside allowed RAM write ranges'')
        else rest) (fi_blocks img) (Inr ()))"

lemma validate_app_ok_iff:
  "validate_app_firmware_image img = Inr () \<longleftrightarrow>
     0x082400 \<le> fi_entry_point img \<and> fi_entry_point img < 0x0C0000 \<and>
     fi_entry_point img mod 8 = 0 \<and>
     list_all (\<lambda>b. 0x082400 \<le> fb_address b \<and> fb_end_exclusive b \<le> 0x0C0000) (fi_blocks img)"
proof -
  have "list_all (\<lambda>b. 0x082400 \<le> fb_address b \<and> fb_end_exclusive b \<le> 0x0C0000) (fi_blocks img) \<longleftrightarrow>
    \<not> list_ex (\<lambda>b. fb_address b < 0x082400 \<and> fb_end_exclusive b > 0x082000) (fi_blocks img) \<and>
    \<not> list_ex (\<lambda>b. fb_address b < 0x082400 \<or> fb_end_exclusive b > 0x0C0000) (fi_blocks img)"
    by (auto simp: list_all_iff list_ex_iff not_less)
  then show ?thesis
    by (auto simp: validate_app_firmware_image_def slot_defs)
qed

lemma validate_ram_ok_iff:
  "validate_ram_firmware_image img = Inr () \<longleftrightarrow>
     0 < fi_total_words img \<and>
     inside_any (fi_entry_point img) (fi_entry_point img + 1) RAM_WRITE_RANGES \<and>
     list_all (\<lambda>b. fb_end_exclusive b \<le> 0xFFFFFFFF \<and>
       inside_any (fb_address b) (fb_end_exclusive b) RAM_WRITE_RANGES) (fi_blocks img)"
proof -
  have "foldr (\<lambda>b rest. if fb_end_exclusive b > 0xFFFFFFFF
        then Inl (ValueError ''RAM image block address wraps uint32'')
        else if \<not> inside_any (fb_address b) (fb_end_exclusive b) RAM_WRITE_RANGES
        then Inl (ValueError ''RAM image block is outside allowed RAM write ranges'')
        else rest) bs (Inr ()) = Inr () \<longleftrightarrow>
     list_all (\<lambda>b. fb_end_exclusive b \<le> 0xFFFFFFFF \<and>
       inside_any (fb_address b) (fb_end_exclusive b) RAM_WRITE_RANGES) bs" for bs
    by (induction bs) auto
  then show ?thesis
    by (auto simp: validate_ram_firmware_image_def)
qed

section \<open>Sector masks\<close>

definition ALLOWED_ERASE_MASK :: int where "ALLOWED_ERASE_MASK = 0x00003FFE"
definition METADATA_SECTOR_MASK :: int where "METADATA_SECTOR_MASK = 0x00000002"

definition SECTORS :: "(int \<times> int \<times> nat) list" where
  "SECTORS =
     [(0x080000, 0x082000, 0), (0x082000, 0x084000, 1), (0x084000, 0x086000, 2),
      (0x086000, 0x088000, 3), (0x088000, 0x090000, 4), (0x090000, 0x098000, 5),
      (0x098000, 0x0A0000, 6), (0x0A0000, 0x0A8000, 7), (0x0A8000, 0x0B0000, 8),
      (0x0B0000, 0x0B8000, 9), (0x0B8000, 0x0BA000, 10), (0x0BA000, 0x0BC000, 11),
      (0x0BC000, 0x0BE000, 12), (0x0BE000, 0x0C0000, 13)]"

definition image_sector_mask :: "firmware_image \<Rightarrow> int" where
  "image_sector_mask img =
     fold (\<lambda>block mask. fold (\<lambda>(start, end, b) mask.
         if fb_address block < end \<and> fb_end_exclusive block > start
         then mask OR push_bit b 1 else mask) SECTORS mask)
       (fi_blocks img) 0"

definition validate_manual_erase_mask :: "int \<Rightarrow> unit res" where
  "validate_manual_erase_mask sector_mask =
     (if sector_mask = 0 then Inl (ValueError ''sector-mask must be nonzero'')
      else if sector_mask AND 0x1 \<noteq> 0
      then Inl (ValueError ''sector-mask must not erase Sector A / bootloader'')
      else if sector_mask AND NOT ALLOWED_ERASE_MASK \<noteq> 0
      then Inl (ValueError ''sector-mask contains sectors outside Slot A App erase mask'')
      else Inr ())"

definition validate_sector_mask_for_image :: "int \<Rightarrow> firmware_image \<Rightarrow> unit res" where
  "validate_sector_mask_for_image sector_mask img =
     bindE (validate_app_firmware_image img) (\<lambda>_.
     bindE (validate_manual_erase_mask sector_mask) (\<lambda>_.
       let needed = image_sector_mask img in
       if needed = 0 \<or> needed AND NOT sector_mask \<noteq> 0
       then Inl (ValueError ''sector-mask does not cover image sectors'')
       else Inr ()))"

definition calculate_app_sector_mask :: "firmware_image \<Rightarrow> int res" where
  "calculate_app_sector_mask img =
     bindE (validate_app_firmware_image img) (\<lambda>_.
       let mask = image_sector_mask img in
       if mask = 0 then Inl (ValueError ''image does not touch any known Flash sector'')
       else bindE (validate_manual_erase_mask mask) (\<lambda>_. Inr mask))"

record manual_erase_masks =
  mem_requested_mask :: int
  mem_erased_masks :: "int list"

definition resolve_manual_erase_masks :: "int \<Rightarrow> manual_erase_masks res" where
  "resolve_manual_erase_masks sector_mask =
     bindE (validate_manual_erase_mask sector_mask) (\<lambda>_.
       let rest = sector_mask AND NOT METADATA_SECTOR_MASK in
       Inr \<lparr>mem_requested_mask = sector_mask,
            mem_erased_masks =
              (if sector_mask AND METADATA_SECTOR_MASK \<noteq> 0 then [METADATA_SECTOR_MASK] else [])
              @ (if rest \<noteq> 0 then [rest] else [])\<rparr>)"

record dfu_erase_masks =
  dem_app_image_mask :: int
  dem_requested_mask :: int
  dem_effective_mask :: int
  dem_first_erase_mask :: int
  dem_second_erase_mask :: int

definition resolve_dfu_erase_masks :: "firmware_image \<Rightarrow> int option \<Rightarrow> dfu_erase_masks res" where
  "resolve_dfu_erase_masks img requested_mask =
     bindE (calculate_app_sector_mask img) (\<lambda>app_mask.
       let mask = (case requested_mask of None \<Rightarrow> app_mask | Some m \<Rightarrow> m) in
       bindE (validate_sector_mask_for_image mask img) (\<lambda>_.
         let effective = mask OR METADATA_SECTOR_MASK in
         bindE (validate_manual_erase_mask effective) (\<lambda>_.
           Inr \<lparr>dem_app_image_mask = app_mask, dem_requested_mask = mask,
                dem_effective_mask = effective, dem_first_erase_mask = METADATA_SECTOR_MASK,
                dem_second_erase_mask = effective AND NOT METADATA_SECTOR_MASK\<rparr>)))"

section \<open>Facts about sector masks\<close>

definition touches :: "firmware_block \<Rightarrow> int \<times> int \<times> nat \<Rightarrow> bool" where
  "touches b sec \<longleftrightarrow> (case sec of (start, end, _) \<Rightarrow> fb_address b < end \<and> fb_end_exclusive b > start)"

lemma bit_fold_sectors:
  "bit (fold (\<lambda>(start, end, b) mask.
         if fb_address block < end \<and> fb_end_exclusive block > start
         then mask OR push_bit b 1 else mask) secs (m :: int)) n \<longleftrightarrow>
     bit m n \<or> (\<exists>sec \<in> set secs. snd (snd sec) = n \<and> touches block sec)"
  by (induction secs arbitrary: m) (auto simp: bit_simps touches_def split: if_splits)

lemma bit_image_sector_mask:
  "bit (image_sector_mask img) n \<longleftrightarrow>
     (\<exists>b \<in> set (fi_blocks img). \<exists>sec \<in> set SECTORS. snd (snd sec) = n \<and> touches b sec)"
proof -
  have "bit (fold (\<lambda>block mask. fold (\<lambda>(start, end, b) mask.
         if fb_address block < end \<and> fb_end_exclusive block > start
         then mask OR push_bit b 1 else mask) SECTORS mask) bs (m :: int)) n \<longleftrightarrow>
     bit m n \<or> (\<exists>b \<in> set bs. \<exists>sec \<in> set SECTORS. snd (snd sec) = n \<and> touches b sec)" for bs m
    by (induction bs arbitrary: m) (auto simp: bit_fold_sectors)
  then show ?thesis
    by (simp add: image_sector_mask_def)
qed

lemma SECTORS_cover:
  "0x080000 \<le> a \<Longrightarrow> a < 0x0C0000 \<Longrightarrow> \<exists>sec \<in> set SECTORS. fst sec \<le> a \<and> a < fst (snd sec)"
  by (simp add: SECTORS_def) linarith

lemma and_1_eq_0_iff: "(m :: int) AND 1 = 0 \<longleftrightarrow> \<not> bit m 0"
  by (simp add: and_one_eq bit_0 mod2_eq_if)

lemma and_not_eq_0_iff: "(m :: int) AND NOT k = 0 \<longleftrightarrow> (\<forall>n. bit m n \<longrightarrow> bit k n)"
  by (auto simp: bit_eq_iff bit_simps)

lemma validate_manual_ok_iff:
  "validate_manual_erase_mask m = Inr () \<longleftrightarrow>
     m \<noteq> 0 \<and> \<not> bit m 0 \<and> m AND NOT ALLOWED_ERASE_MASK = 0"
  by (auto simp: validate_manual_erase_mask_def and_1_eq_0_iff)

text \<open>
  C26.  The two masks with which a firmware upgrade erases the Flash: the metadata sector first, then
  the rest.  They are disjoint, together they are the effective mask, neither contains the sector of
  the boot loader or one outside the application slot, and every word of the image lies in a
  sector that is erased.
\<close>

theorem resolve_dfu_erase_masks_sound:
  assumes "resolve_dfu_erase_masks img requested = Inr m"
  shows "dem_first_erase_mask m = METADATA_SECTOR_MASK \<and>
    dem_first_erase_mask m OR dem_second_erase_mask m = dem_effective_mask m \<and>
    dem_first_erase_mask m AND dem_second_erase_mask m = 0 \<and>
    \<not> bit (dem_effective_mask m) 0 \<and>
    dem_effective_mask m AND NOT ALLOWED_ERASE_MASK = 0 \<and>
    (\<forall>b \<in> set (fi_blocks img). \<forall>a. fb_address b \<le> a \<and> a < fb_end_exclusive b \<longrightarrow>
       (\<exists>sec \<in> set SECTORS. fst sec \<le> a \<and> a < fst (snd sec) \<and>
          bit (dem_effective_mask m) (snd (snd sec))))"
proof -
  define k where "k = (case requested of None \<Rightarrow> image_sector_mask img | Some m \<Rightarrow> m)"
  have app: "validate_app_firmware_image img = Inr ()"
    and cover: "image_sector_mask img AND NOT k = 0"
    and eff: "validate_manual_erase_mask (k OR METADATA_SECTOR_MASK) = Inr ()"
    and m: "dem_first_erase_mask m = METADATA_SECTOR_MASK"
      "dem_effective_mask m = k OR METADATA_SECTOR_MASK"
      "dem_second_erase_mask m = (k OR METADATA_SECTOR_MASK) AND NOT METADATA_SECTOR_MASK"
    using assms
    by (auto simp: resolve_dfu_erase_masks_def calculate_app_sector_mask_def k_def Let_def
        validate_sector_mask_for_image_def bindE_Inr_iff split: if_splits option.splits)
  have "\<exists>sec \<in> set SECTORS. fst sec \<le> a \<and> a < fst (snd sec) \<and>
          bit (dem_effective_mask m) (snd (snd sec))"
    if b: "b \<in> set (fi_blocks img)" and a: "fb_address b \<le> a" "a < fb_end_exclusive b" for b a
  proof -
    have "0x082400 \<le> fb_address b" "fb_end_exclusive b \<le> 0x0C0000"
      using app b by (auto simp: validate_app_ok_iff list_all_iff)
    then obtain sec where sec: "sec \<in> set SECTORS" "fst sec \<le> a" "a < fst (snd sec)"
      using SECTORS_cover [of a] a by auto
    then have "touches b sec"
      using a by (auto simp: touches_def split: prod.splits)
    then have "bit (image_sector_mask img) (snd (snd sec))"
      using b sec bit_image_sector_mask by blast
    then have "bit k (snd (snd sec))"
      using cover by (auto simp: and_not_eq_0_iff)
    then show ?thesis
      using sec m by (auto simp: bit_simps)
  qed
  moreover have "METADATA_SECTOR_MASK OR (k OR METADATA_SECTOR_MASK) AND NOT METADATA_SECTOR_MASK =
      k OR METADATA_SECTOR_MASK"
    by (rule bit_eqI) (auto simp: bit_simps)
  moreover have "METADATA_SECTOR_MASK AND ((k OR METADATA_SECTOR_MASK) AND NOT METADATA_SECTOR_MASK) = 0"
    by (rule bit_eqI) (auto simp: bit_simps)
  ultimately show ?thesis
    using eff m by (simp add: validate_manual_ok_iff)
qed

definition example_image :: firmware_image where
  "example_image =
     \<lparr>fi_source_out_file = ''app.out'', fi_generated_hex_file = ''app.txt'',
      fi_entry_point = 0x82400, fi_blocks = [\<lparr>fb_address = 0x82400, fb_words = [1, 2, 3]\<rparr>],
      fi_total_words = 3,
      fi_address_ranges = [\<lparr>ar_start = 0x82400, ar_end_exclusive = 0x82403\<rparr>],
      fi_file_checksum = '''', fi_format_info = []\<rparr>"

lemma example_image_wf: "image_wf example_image"
  by (simp add: image_wf_def example_image_def u_simps block_wf_def block_range_def
      fb_end_exclusive_def)

lemma example_image_app: "validate_app_firmware_image example_image = Inr ()"
  by (simp add: validate_app_ok_iff example_image_def fb_end_exclusive_def)

lemma example_image_mask: "image_sector_mask example_image = 2"
  by (simp add: image_sector_mask_def example_image_def SECTORS_def fb_end_exclusive_def)

lemma example_image_masks:
  "resolve_dfu_erase_masks example_image (Some 6) =
     Inr \<lparr>dem_app_image_mask = 2, dem_requested_mask = 6, dem_effective_mask = 6,
       dem_first_erase_mask = 2, dem_second_erase_mask = 4\<rparr>"
  by (simp add: resolve_dfu_erase_masks_def calculate_app_sector_mask_def example_image_app
      example_image_mask validate_manual_erase_mask_def validate_sector_mask_for_image_def
      ALLOWED_ERASE_MASK_def METADATA_SECTOR_MASK_def)

lemma resolve_dfu_erase_masks_sound_witness:
  "\<exists>sec \<in> set SECTORS. fst sec \<le> 0x82402 \<and> (0x82402 :: int) < fst (snd sec) \<and>
     bit (6 :: int) (snd (snd sec))"
  using resolve_dfu_erase_masks_sound [OF example_image_masks]
  by (simp add: example_image_def fb_end_exclusive_def)

end
