(* ===== verification/Packets.thy ===== *)
theory Packets
  imports Firmware
begin

text \<open>
  Cutting a firmware image into the data packets of a transfer: \<open>_merge_contiguous\<close>,
  \<open>_prepare_packets\<close> and \<open>_prepare_ram_packets\<close> of \<open>core/workflow.py\<close> and
  \<open>prepare_service_ram_packets\<close> of \<open>firmware/service_image.py\<close>, with the CRCs and sizes computed
  from them.  Proved here: the packets are numbered from 0, respect the size and alignment limits,
  and written in order they produce the image, padding aside.
\<close>

section \<open>Definitions\<close>

record data_packet =
  dp_address :: int
  dp_words :: "int list"
  dp_index :: int

fun merge_loop :: "int \<Rightarrow> int list \<Rightarrow> firmware_block list \<Rightarrow> firmware_block list res" where
  "merge_loop address words [] = bindE (FirmwareBlock address words) (\<lambda>m. Inr [m])"
| "merge_loop address words (block # blocks) =
     (if address + int (length words) = fb_address block
      then merge_loop address (words @ fb_words block) blocks
      else bindE (FirmwareBlock address words) (\<lambda>m.
           bindE (merge_loop (fb_address block) (fb_words block) blocks) (\<lambda>ms.
             Inr (m # ms))))"

definition merge_contiguous :: "firmware_block list \<Rightarrow> firmware_block list res" where
  "merge_contiguous blocks =
     (case sort_key fb_address blocks of
        [] \<Rightarrow> Inr []
      | b # bs \<Rightarrow> merge_loop (fb_address b) (fb_words b) bs)"

function packet_loop ::
  "int \<Rightarrow> int list \<Rightarrow> int \<Rightarrow> int \<Rightarrow> data_packet list \<Rightarrow> data_packet list res" where
  "packet_loop address words max_data_words offset packets =
     (if offset < int (length words) then
        let raw = py_slice words offset (offset + max_data_words) in
        case pad_write_data raw (Some max_data_words) of
          Inl e \<Rightarrow> Inl e
        | Inr data \<Rightarrow> packet_loop address words max_data_words (offset + int (length raw))
            (packets @ [\<lparr>dp_address = address + offset, dp_words = data,
                         dp_index = int (length packets)\<rparr>])
      else Inr packets)"
  by pat_completeness auto
termination
  by (relation "measure (\<lambda>(a, ws, m, offset, ps). nat (int (length ws) - offset))")
    (auto simp: pad_write_data_def Let_def split: if_splits)

declare packet_loop.simps [simp del]

definition prepare_packets :: "firmware_image \<Rightarrow> int \<Rightarrow> data_packet list res" where
  "prepare_packets img max_data_words =
     bindE (merge_contiguous (fi_blocks img)) (\<lambda>blocks.
     bindE (foldE (\<lambda>block. packet_loop (fb_address block) (fb_words block) max_data_words 0)
              blocks []) (\<lambda>packets.
       if length packets > 0xFFFF
       then Inl (WorkflowError ''firmware requires more than 65535 protocol packets'')
       else Inr packets))"

definition calculate_programmed_image_crc32 :: "firmware_image \<Rightarrow> int \<Rightarrow> int res" where
  "calculate_programmed_image_crc32 img max_data_words =
     bindE (prepare_packets img max_data_words) (\<lambda>packets.
       crc32_words (concat (map dp_words packets)))"

text \<open>
  The loop of \<open>_prepare_ram_packets\<close> does not check its step: \<open>None\<close> is the value of the model for
  a loop that does not end.
\<close>

partial_function (option) ram_packet_loop ::
  "int \<Rightarrow> int list \<Rightarrow> int \<Rightarrow> int \<Rightarrow> data_packet list \<Rightarrow> data_packet list option" where
  "ram_packet_loop address words max_data_words offset packets =
     (if offset < int (length words) then
        let data = py_slice words offset (offset + max_data_words) in
        ram_packet_loop address words max_data_words (offset + int (length data))
          (packets @ [\<lparr>dp_address = address + offset, dp_words = data,
                       dp_index = int (length packets)\<rparr>])
      else Some packets)"

definition prepare_ram_packets :: "firmware_image \<Rightarrow> int \<Rightarrow> data_packet list res" where
  "prepare_ram_packets img max_data_words =
     bindE (merge_contiguous (fi_blocks img)) (\<lambda>blocks.
     bindE (foldE (\<lambda>block packets.
              case ram_packet_loop (fb_address block) (fb_words block) max_data_words 0 packets of
                None \<Rightarrow> Inl Diverges | Some ps \<Rightarrow> Inr ps) blocks []) (\<lambda>packets.
       if length packets > 0xFFFF
       then Inl (WorkflowError ''RAM image requires more than 65535 protocol packets'')
       else Inr packets))"

definition calculate_ram_image_crc32 :: "firmware_image \<Rightarrow> int \<Rightarrow> int res" where
  "calculate_ram_image_crc32 img max_data_words =
     bindE (prepare_ram_packets img max_data_words) (\<lambda>packets.
       crc32_words (concat (map dp_words packets)))"

definition programmed_image_size_and_end :: "firmware_image \<Rightarrow> int \<Rightarrow> (int \<times> int) res" where
  "programmed_image_size_and_end img max_data_words =
     bindE (prepare_packets img max_data_words) (\<lambda>packets.
       if packets = [] then Inl (WorkflowError ''firmware image has no programmable data'')
       else Inr (sum_list (map (\<lambda>p. int (length (dp_words p))) packets),
                 Max (set (map (\<lambda>p. dp_address p + int (length (dp_words p))) packets))))"

text \<open>\<open>prepare_service_ram_packets\<close>: the offsets are \<open>range(0, len(words), max_data_words)\<close>.\<close>

definition service_block_packets :: "int \<Rightarrow> firmware_block \<Rightarrow> data_packet list \<Rightarrow> data_packet list" where
  "service_block_packets max_data_words block packets =
     fold (\<lambda>k ps. ps @ [\<lparr>dp_address = fb_address block + int k * max_data_words,
         dp_words = py_slice (fb_words block) (int k * max_data_words)
           (int k * max_data_words + max_data_words),
         dp_index = int (length ps)\<rparr>])
       [0 ..< nat ((int (length (fb_words block)) + max_data_words - 1) div max_data_words)] packets"

definition prepare_service_ram_packets :: "firmware_image \<Rightarrow> int \<Rightarrow> data_packet list res" where
  "prepare_service_ram_packets img max_data_words =
     (if max_data_words \<le> 0 then Inl (ValueError ''max_data_words must be positive'')
      else let packets = fold (service_block_packets max_data_words)
             (sort_key fb_address (fi_blocks img)) []
        in if length packets > 0xFFFF
           then Inl (ValueError ''service image requires more than 65535 protocol packets'')
           else Inr packets)"

definition calculate_service_ram_load_crc32 :: "firmware_image \<Rightarrow> int \<Rightarrow> int res" where
  "calculate_service_ram_load_crc32 img max_data_words =
     bindE (prepare_service_ram_packets img max_data_words) (\<lambda>packets.
       crc32_words (concat (map dp_words packets)))"

section \<open>The packets in closed form\<close>

function block_chunks :: "nat \<Rightarrow> int \<Rightarrow> int list \<Rightarrow> (int \<times> int list) list" where
  "block_chunks n a ws =
     (if ws = [] \<or> n = 0 then [] else (a, take n ws) # block_chunks n (a + int n) (drop n ws))"
  by pat_completeness auto
termination
  by (relation "measure (\<lambda>(n, a, ws). length ws)") auto

declare block_chunks.simps [simp del]

lemma block_chunks_Nil [simp]: "block_chunks n a [] = []"
  by (simp add: block_chunks.simps)

definition packet_of :: "nat \<times> int \<times> int list \<Rightarrow> data_packet" where
  "packet_of x = (case x of (i, a, d) \<Rightarrow> \<lparr>dp_address = a, dp_words = d, dp_index = int i\<rparr>)"

definition number_packets :: "nat \<Rightarrow> (int \<times> int list) list \<Rightarrow> data_packet list" where
  "number_packets k cs = map packet_of (enumerate k cs)"

lemma number_packets_simps [simp]:
  "number_packets k [] = []"
  "number_packets k (c # cs) = \<lparr>dp_address = fst c, dp_words = snd c, dp_index = int k\<rparr> # number_packets (Suc k) cs"
  "number_packets k (cs @ ds) = number_packets k cs @ number_packets (k + length cs) ds"
  "length (number_packets k cs) = length cs"
  by (simp_all add: number_packets_def packet_of_def enumerate_append_eq split: prod.splits)

lemma map_number_packets:
  "map dp_words (number_packets k cs) = map snd cs"
  "map dp_address (number_packets k cs) = map fst cs"
  "map dp_index (number_packets k cs) = map int [k ..< k + length cs]"
  by (induction cs arbitrary: k) (simp_all add: upt_rec)

definition padded :: "int \<times> int list \<Rightarrow> int \<times> int list" where
  "padded c = (fst c, pad_words (snd c))"

lemma padded_simps [simp]: "fst (padded c) = fst c" "snd (padded c) = pad_words (snd c)"
  by (simp_all add: padded_def)

lemma block_chunks_step:
  assumes "0 < m" "0 \<le> off" "off < int (length ws)"
  shows "block_chunks (nat m) (a + off) (drop (nat off) ws) =
    (let raw = take (nat m) (drop (nat off) ws); next = off + int (length raw) in
      (a + off, raw) # block_chunks (nat m) (a + next) (drop (nat next) ws))"
    and "off + int (length (take (nat m) (drop (nat off) ws))) \<le> int (length ws)"
    and "take (nat m) (drop (nat off) ws) \<noteq> []"
proof -
  let ?raw = "take (nat m) (drop (nat off) ws)"
  show ne: "?raw \<noteq> []" and "off + int (length ?raw) \<le> int (length ws)"
    using assms by simp_all
  show "block_chunks (nat m) (a + off) (drop (nat off) ws) =
    (let raw = ?raw; next = off + int (length raw) in
      (a + off, raw) # block_chunks (nat m) (a + next) (drop (nat next) ws))"
  proof (cases "nat m \<le> length ws - nat off")
    case True
    then have "int (length ?raw) = m" "nat (off + m) = nat m + nat off"
      using assms by auto
    then show ?thesis
      using ne assms by (subst block_chunks.simps) (simp add: add.assoc Let_def)
  next
    case False
    then have "drop (nat (off + int (length ?raw))) ws = []" "drop (nat m) (drop (nat off) ws) = []"
      using assms by auto
    then show ?thesis
      using ne assms by (subst block_chunks.simps) (simp add: Let_def)
  qed
qed

lemma packet_loop_closed:
  assumes "words16 ws" "0 < m" "m mod 8 = 0" "0 \<le> off" "off \<le> int (length ws)"
  shows "packet_loop a ws m off ps = Inr (ps @ number_packets (length ps)
    (map padded (block_chunks (nat m) (a + off) (drop (nat off) ws))))"
  using assms
proof (induction a ws m off ps rule: packet_loop.induct)
  case (1 a ws m off ps)
  show ?case
  proof (cases "off < int (length ws)")
    case False
    then show ?thesis
      using 1(6) by (simp add: packet_loop.simps [of a])
  next
    case True
    let ?raw = "take (nat m) (drop (nat off) ws)"
    have raw: "py_slice ws off (off + m) = ?raw"
      using 1(3,5) by (simp add: py_slice_nonneg)
    note chunks = block_chunks_step [OF 1(3,5) True]
    have pad: "pad_write_data ?raw (Some m) = Inr (pad_words ?raw)"
      using chunks(3) 1(2-4) by (intro pad_write_data_Inr words16_take words16_drop) auto
    show ?thesis
      using True raw pad chunks 1(1) [OF True refl] 1(2-5)
      by (simp add: packet_loop.simps [of a ws m off ps] Let_def)
  qed
qed

lemma ram_packet_loop_closed:
  assumes "0 < m" "0 \<le> off" "off \<le> int (length ws)"
  shows "ram_packet_loop a ws m off ps =
    Some (ps @ number_packets (length ps) (block_chunks (nat m) (a + off) (drop (nat off) ws)))"
  using assms
proof (induction "nat (int (length ws) - off)" arbitrary: off ps rule: less_induct)
  case less
  show ?case
  proof (cases "off < int (length ws)")
    case False
    then show ?thesis
      using less.prems by (simp add: ram_packet_loop.simps [of a])
  next
    case True
    let ?raw = "take (nat m) (drop (nat off) ws)"
    have raw: "py_slice ws off (off + m) = ?raw"
      using less.prems by (simp add: py_slice_nonneg)
    note chunks = block_chunks_step [OF less.prems(1,2) True]
    have "nat (int (length ws) - (off + int (length ?raw))) < nat (int (length ws) - off)"
      using True less.prems by auto
    then show ?thesis
      using True raw chunks less
      by (simp add: ram_packet_loop.simps [of a ws m off ps] Let_def)
  qed
qed

section \<open>Facts about chunks\<close>

lemma block_chunks_Cons:
  "ws \<noteq> [] \<Longrightarrow> 0 < n \<Longrightarrow>
     block_chunks n a ws = (a, take n ws) # block_chunks n (a + int n) (drop n ws)"
  by (subst block_chunks.simps) simp

lemma block_chunks_concat: "0 < n \<Longrightarrow> concat (map snd (block_chunks n a ws)) = ws"
proof (induction n a ws rule: block_chunks.induct)
  case (1 n a ws)
  then show ?case
    by (cases "ws = []") (simp_all add: block_chunks_Cons)
qed

lemma block_chunks_range:
  assumes "c \<in> set (block_chunks n a ws)"
  shows "snd c \<noteq> [] \<and> length (snd c) \<le> n \<and> a \<le> fst c \<and>
    fst c + int (length (snd c)) \<le> a + int (length ws) \<and> set (snd c) \<subseteq> set ws"
  using assms
proof (induction n a ws rule: block_chunks.induct)
  case (1 n a ws)
  show ?case
  proof (cases "ws = [] \<or> n = 0")
    case True
    then show ?thesis
      using 1(2) by (simp add: block_chunks.simps [of n])
  next
    case False
    then consider "c = (a, take n ws)" | "c \<in> set (block_chunks n (a + int n) (drop n ws))"
      using 1(2) by (auto simp: block_chunks_Cons)
    then show ?thesis
    proof cases
      case 1
      then show ?thesis
        using False by (auto dest: in_set_takeD)
    next
      case 2
      then have "drop n ws \<noteq> []"
        by auto
      then show ?thesis
        using 1(1) [OF False 2] by (auto dest: in_set_dropD)
    qed
  qed
qed

definition chunk_before :: "int \<times> int list \<Rightarrow> int \<times> int list \<Rightarrow> bool" where
  "chunk_before c d \<longleftrightarrow> fst c + int (length (snd c)) \<le> fst d"

lemma block_chunks_sorted: "sorted_wrt chunk_before (block_chunks n a ws)"
proof (induction n a ws rule: block_chunks.induct)
  case (1 n a ws)
  show ?case
  proof (cases "ws = [] \<or> n = 0")
    case False
    moreover have "chunk_before (a, take n ws) c"
      if "c \<in> set (block_chunks n (a + int n) (drop n ws))" for c
      using block_chunks_range [OF that] by (auto simp: chunk_before_def min_def)
    ultimately show ?thesis
      using 1 by (simp add: block_chunks_Cons)
  qed (auto simp: block_chunks.simps [of n])
qed

lemma pad_words_take_drop:
  assumes "n mod 8 = 0" "n < length ws"
  shows "take n (pad_words ws) = take n ws" "drop n (pad_words ws) = pad_words (drop n ws)"
    "pad_words (take n ws) = take n ws"
proof -
  obtain d where d: "length ws = n + d"
    using assms(2) by (intro that [of "length ws - n"]) simp
  obtain q where q: "n = 8 * q"
    using assms(1) by (metis dvdE mod_0_imp_dvd)
  have r: "(length ws - n) mod 8 = length ws mod 8"
    unfolding d q by simp
  show "take n (pad_words ws) = take n ws"
    using assms(2) by (simp add: pad_words_def)
  show "drop n (pad_words ws) = pad_words (drop n ws)"
    unfolding pad_words_def length_drop r using assms(2) by simp
  have "length (take n ws) = n"
    using assms(2) by simp
  then show "pad_words (take n ws) = take n ws"
    unfolding pad_words_def using assms(1) by simp
qed

lemma map_padded_block_chunks:
  assumes "0 < n" "n mod 8 = 0"
  shows "map padded (block_chunks n a ws) = block_chunks n a (pad_words ws)"
  using assms
proof (induction n a ws rule: block_chunks.induct)
  case (1 n a ws)
  consider "ws = []" | "ws \<noteq> []" "n < length ws" | "ws \<noteq> []" "length ws \<le> n"
    by linarith
  then show ?case
  proof cases
    case 1
    then show ?thesis
      by (simp add: pad_words_def)
  next
    case 2
    moreover have "pad_words ws \<noteq> []"
      using 2 by (simp add: pad_words_def)
    ultimately show ?thesis
      using 1 by (simp add: block_chunks_Cons pad_words_take_drop padded_def)
  next
    case 3
    have "pad_words ws \<noteq> []" "length (pad_words ws) \<le> n"
      using 3 1(3) length_pad_words_le [of ws n] by (auto simp: pad_words_def)
    then show ?thesis
      using 3 1(2) by (simp add: block_chunks_Cons padded_def)
  qed
qed

definition chunk_writes :: "(int \<times> int list) list \<Rightarrow> (int \<rightharpoonup> int) \<Rightarrow> (int \<rightharpoonup> int)" where
  "chunk_writes cs = fold (\<lambda>c m. m ++ cells (fst c) (snd c)) cs"

lemma chunk_writes_simps [simp]:
  "chunk_writes [] m = m"
  "chunk_writes (c # cs) m = chunk_writes cs (m ++ cells (fst c) (snd c))"
  "chunk_writes (cs @ ds) m = chunk_writes ds (chunk_writes cs m)"
  by (simp_all add: chunk_writes_def)

lemma chunk_writes_block: "0 < n \<Longrightarrow> chunk_writes (block_chunks n a ws) m = m ++ cells a ws"
proof (induction n a ws arbitrary: m rule: block_chunks.induct)
  case (1 n a ws)
  show ?case
  proof (cases "n < length ws")
    case True
    then have "cells a ws = cells a (take n ws) ++ cells (a + int n) (drop n ws)"
      using cells_append [of a "take n ws" "drop n ws"] by simp
    moreover have "ws \<noteq> []"
      using True by auto
    ultimately show ?thesis
      using 1 by (simp add: block_chunks_Cons)
  next
    case False
    then show ?thesis
      using 1 by (cases "ws = []") (simp_all add: block_chunks_Cons)
  qed
qed

section \<open>Merging\<close>

definition block_cells :: "firmware_block \<Rightarrow> int \<rightharpoonup> int" where
  "block_cells b = cells (fb_address b) (fb_words b)"

fun image_cells :: "firmware_block list \<Rightarrow> int \<rightharpoonup> int" where
  "image_cells [] = Map.empty"
| "image_cells (b # bs) = block_cells b ++ image_cells bs"

definition gap_before :: "firmware_block \<Rightarrow> firmware_block \<Rightarrow> bool" where
  "gap_before a b \<longleftrightarrow> fb_end_exclusive a < fb_address b"

lemma block_cells_Some_range:
  "block_cells b x = Some w \<Longrightarrow> fb_address b \<le> x \<and> x < fb_end_exclusive b"
  by (simp add: block_cells_def cells_Some_iff fb_end_exclusive_def)

lemma block_eta: "\<lparr>fb_address = fb_address b, fb_words = fb_words b\<rparr> = b"
  by simp

lemma merge_loop_spec:
  assumes "block_wf \<lparr>fb_address = a, fb_words = ws\<rparr>" "list_all block_wf bs"
    and "sorted_wrt blocks_before (\<lparr>fb_address = a, fb_words = ws\<rparr> # bs)"
  shows "\<exists>ms. merge_loop a ws bs = Inr ms \<and> ms \<noteq> [] \<and> list_all block_wf ms \<and>
    (\<forall>m \<in> set ms. a \<le> fb_address m) \<and> sorted_wrt gap_before ms \<and>
    concat (map fb_words ms) = ws @ concat (map fb_words bs) \<and>
    image_cells ms = cells a ws ++ image_cells bs"
  using assms
proof (induction a ws bs rule: merge_loop.induct)
  case (1 a ws)
  then show ?case
    by (simp add: FirmwareBlock_Inr block_wf_def block_cells_def)
next
  case (2 a ws b bs)
  let ?c = "\<lparr>fb_address = a, fb_words = ws\<rparr>"
  have b: "block_wf b" and bs: "list_all block_wf bs" "sorted_wrt blocks_before (b # bs)"
    and ab: "blocks_before ?c b" "\<forall>x \<in> set bs. blocks_before ?c x"
    using 2(4,5) by auto
  show ?case
  proof (cases "a + int (length ws) = fb_address b")
    case True
    let ?d = "\<lparr>fb_address = a, fb_words = ws @ fb_words b\<rparr>"
    have "block_wf ?d" "sorted_wrt blocks_before (?d # bs)"
      using 2(3) b bs True by (auto simp: block_wf_def blocks_before_def fb_end_exclusive_def)
    from 2(1) [OF True this(1) bs(1) this(2)] show ?thesis
      using True by (simp add: cells_append block_cells_def)
  next
    case False
    have m: "FirmwareBlock a ws = Inr ?c"
      using 2(3) by (simp add: FirmwareBlock_Inr block_wf_def)
    obtain ms where ms: "merge_loop (fb_address b) (fb_words b) bs = Inr ms" "ms \<noteq> []"
      "list_all block_wf ms" "\<forall>m \<in> set ms. fb_address b \<le> fb_address m" "sorted_wrt gap_before ms"
      "concat (map fb_words ms) = fb_words b @ concat (map fb_words bs)"
      "image_cells ms = block_cells b ++ image_cells bs"
      using 2(2) [OF False] b bs by (auto simp: block_eta simp flip: block_cells_def)
    have lt: "fb_end_exclusive ?c < fb_address b"
      using ab(1) False by (simp add: blocks_before_def fb_end_exclusive_def)
    then have "a \<le> fb_address b"
      by (simp add: fb_end_exclusive_def)
    moreover have "\<forall>m \<in> set ms. gap_before ?c m"
      using ms(4) lt by (auto simp: gap_before_def)
    ultimately show ?thesis
      using False m ms 2(3)
      by (intro exI [of _ "?c # ms"]) (auto simp: block_cells_def)
  qed
qed

lemma image_cells_iff:
  assumes "\<And>b c v w. b \<in> set bs \<Longrightarrow> c \<in> set bs \<Longrightarrow> block_cells b x = Some v \<Longrightarrow>
    block_cells c x = Some w \<Longrightarrow> v = w"
  shows "image_cells bs x = Some w \<longleftrightarrow> (\<exists>b \<in> set bs. block_cells b x = Some w)"
  using assms
proof (induction bs arbitrary: w)
  case (Cons b bs)
  have ih: "image_cells bs x = Some w \<longleftrightarrow> (\<exists>b \<in> set bs. block_cells b x = Some w)" for w
    by (rule Cons.IH, rule Cons.prems) auto
  show ?case
  proof (cases "image_cells bs x")
    case None
    then show ?thesis
      using ih by (auto simp: map_add_Some_iff)
  next
    case (Some v)
    then obtain c where c: "c \<in> set bs" "block_cells c x = Some v"
      using ih by blast
    have "u = v" if "d \<in> set (b # bs)" "block_cells d x = Some u" for u d
      using Cons.prems [OF that(1) _ that(2) c(2)] c(1) by simp
    then show ?thesis
      using Some c by (auto simp: map_add_Some_iff)
  qed
qed simp

lemma sorted_before_unique:
  assumes "sorted_wrt blocks_before bs" "b \<in> set bs" "c \<in> set bs"
    and "block_cells b x = Some v" "block_cells c x = Some w"
  shows "v = w"
proof -
  obtain i j where ij: "i < length bs" "j < length bs" "b = bs ! i" "c = bs ! j"
    using assms(2,3) by (auto simp: in_set_conv_nth)
  have "\<not> blocks_before b c" "\<not> blocks_before c b"
    using assms(4,5) [THEN block_cells_Some_range] by (auto simp: blocks_before_def)
  then have "i = j"
    using ij assms(1) by (metis linorder_neqE_nat sorted_wrt_nth_less)
  then show ?thesis
    using ij assms(4,5) by simp
qed

lemma image_cells_sort:
  assumes "sorted_wrt blocks_before (sort_key f bs)"
  shows "image_cells (sort_key f bs) = image_cells bs"
proof
  fix x
  have u: "v = w" if "b \<in> set bs" "c \<in> set bs" "block_cells b x = Some v" "block_cells c x = Some w"
    for b c v w
    using sorted_before_unique [OF assms _ _ that(3,4)] that(1,2) by simp
  then have "image_cells (sort_key f bs) x = Some w \<longleftrightarrow> image_cells bs x = Some w" for w
    using image_cells_iff [of bs x w] image_cells_iff [of "sort_key f bs" x w] by simp
  then show "image_cells (sort_key f bs) x = image_cells bs x"
    by (metis not_Some_eq)
qed

definition merged_blocks :: "firmware_image \<Rightarrow> firmware_block list" where
  "merged_blocks img = (case merge_contiguous (fi_blocks img) of Inr ms \<Rightarrow> ms | Inl _ \<Rightarrow> [])"

lemma merge_contiguous_spec:
  assumes "image_wf img"
  shows "merge_contiguous (fi_blocks img) = Inr (merged_blocks img) \<and> merged_blocks img \<noteq> [] \<and>
    list_all block_wf (merged_blocks img) \<and> sorted_wrt gap_before (merged_blocks img) \<and>
    concat (map fb_words (merged_blocks img)) =
      concat (map fb_words (sort_key fb_address (fi_blocks img))) \<and>
    image_cells (merged_blocks img) = image_cells (fi_blocks img)"
proof -
  let ?s = "sort_key fb_address (fi_blocks img)"
  have s: "sorted_wrt blocks_before ?s" "list_all block_wf ?s"
    using assms by (simp_all add: image_wf_def)
  have "length ?s \<noteq> 0"
    using assms by (simp add: image_wf_def)
  then obtain b bs where b: "?s = b # bs"
    by (cases ?s) auto
  obtain ms where ms: "merge_loop (fb_address b) (fb_words b) bs = Inr ms" "ms \<noteq> []"
      "list_all block_wf ms" "sorted_wrt gap_before ms"
      "concat (map fb_words ms) = fb_words b @ concat (map fb_words bs)"
      "image_cells ms = block_cells b ++ image_cells bs"
    using merge_loop_spec [of "fb_address b" "fb_words b" bs] s b
    by (auto simp: block_eta simp flip: block_cells_def)
  have "merged_blocks img = ms" "merge_contiguous (fi_blocks img) = Inr ms"
    using ms b by (simp_all add: merged_blocks_def merge_contiguous_def)
  then show ?thesis
    using ms b image_cells_sort [OF s(1)] by simp
qed

section \<open>The prepared packets\<close>

definition pad_block :: "firmware_block \<Rightarrow> firmware_block" where
  "pad_block b = b\<lparr>fb_words := pad_words (fb_words b)\<rparr>"

lemma pad_block_simps [simp]:
  "fb_address (pad_block b) = fb_address b" "fb_words (pad_block b) = pad_words (fb_words b)"
  by (simp_all add: pad_block_def)

definition blocks_chunks :: "nat \<Rightarrow> firmware_block list \<Rightarrow> (int \<times> int list) list" where
  "blocks_chunks n bs = concat (map (\<lambda>b. block_chunks n (fb_address b) (fb_words b)) bs)"

lemma fold_number_packets:
  "fold (\<lambda>b ps. ps @ number_packets (length ps) (h b)) bs ps =
     ps @ number_packets (length ps) (concat (map h bs))"
  by (induction bs arbitrary: ps) simp_all

definition limit_packets :: "exc \<Rightarrow> data_packet list \<Rightarrow> data_packet list res" where
  "limit_packets e ps = (if length ps > 0xFFFF then Inl e else Inr ps)"

lemma prepare_packets_closed:
  assumes "image_wf img" "0 < m" "m mod 8 = 0"
  shows "prepare_packets img m =
    limit_packets (WorkflowError ''firmware requires more than 65535 protocol packets'')
      (number_packets 0 (blocks_chunks (nat m) (map pad_block (merged_blocks img))))"
proof -
  note ms = merge_contiguous_spec [OF assms(1)]
  have n: "nat m mod 8 = 0"
    using assms(2,3) by (simp add: nat_mod_distrib [symmetric, where y = 8, simplified])
  have "foldE (\<lambda>block. packet_loop (fb_address block) (fb_words block) m 0) (merged_blocks img) [] =
    Inr (fold (\<lambda>b ps. ps @ number_packets (length ps)
      (block_chunks (nat m) (fb_address b) (pad_words (fb_words b)))) (merged_blocks img) [])"
    using ms assms n
    by (intro foldE_Inr)
      (auto simp: packet_loop_closed map_padded_block_chunks list_all_iff block_wf_def)
  then show ?thesis
    using ms by (simp add: prepare_packets_def limit_packets_def fold_number_packets
        blocks_chunks_def comp_def)
qed

lemma prepare_ram_packets_closed:
  assumes "image_wf img" "0 < m"
  shows "prepare_ram_packets img m =
    limit_packets (WorkflowError ''RAM image requires more than 65535 protocol packets'')
      (number_packets 0 (blocks_chunks (nat m) (merged_blocks img)))"
proof -
  note ms = merge_contiguous_spec [OF assms(1)]
  have "foldE (\<lambda>block packets.
      case ram_packet_loop (fb_address block) (fb_words block) m 0 packets of
        None \<Rightarrow> Inl Diverges | Some ps \<Rightarrow> Inr ps) (merged_blocks img) [] =
    Inr (fold (\<lambda>b ps. ps @ number_packets (length ps)
      (block_chunks (nat m) (fb_address b) (fb_words b))) (merged_blocks img) [])"
    using assms by (intro foldE_Inr) (simp add: ram_packet_loop_closed)
  then show ?thesis
    using ms by (simp add: prepare_ram_packets_def limit_packets_def fold_number_packets
        blocks_chunks_def)
qed

lemma block_chunks_conv:
  assumes "0 < n"
  shows "block_chunks n a ws =
    map (\<lambda>k. (a + int (k * n), take n (drop (k * n) ws))) [0 ..< (length ws + n - 1) div n]"
  using assms
proof (induction n a ws rule: block_chunks.induct)
  case (1 n a ws)
  show ?case
  proof (cases "ws = []")
    case True
    then show ?thesis
      using 1(2) by simp
  next
    case False
    define k where "k = (length (drop n ws) + n - 1) div n"
    have "(length ws + n - 1) div n = Suc k"
    proof (cases "length ws \<le> n")
      case True
      then have "length ws + n - 1 = n + (length ws - 1)" "length ws - 1 < n"
        using False 1(2) by (auto simp flip: length_greater_0_conv)
      then have "(length ws + n - 1) div n = 1"
        using 1(2) by (simp only: div_add_self1) simp
      then show ?thesis
        using True 1(2) by (simp add: k_def)
    next
      case lt: False
      then have "length ws + n - 1 = (length (drop n ws) + n - 1) + n"
        by simp
      then have "(length ws + n - 1) div n = ((length (drop n ws) + n - 1) + n) div n"
        by (rule arg_cong)
      also have "\<dots> = Suc k"
        unfolding k_def Suc_eq_plus1 by (rule div_add_self2) (use 1(2) in simp)
      finally show ?thesis .
    qed
    moreover have "[0 ..< Suc k] = 0 # map Suc [0 ..< k]"
      by (simp add: upt_conv_Cons map_Suc_upt del: upt_Suc)
    moreover have "block_chunks n (a + int n) (drop n ws) =
      map (\<lambda>i. (a + int n + int (i * n), take n (drop (i * n) (drop n ws)))) [0 ..< k]"
      using 1 False by (simp add: k_def)
    moreover have "(a + int n + int (i * n), take n (drop (i * n) (drop n ws))) =
      (a + int (Suc i * n), take n (drop (Suc i * n) ws))" for i
      by (simp add: add.commute)
    moreover have "block_chunks n a ws = (a + int (0 * n), take n (drop (0 * n) ws)) #
        block_chunks n (a + int n) (drop n ws)"
      using False 1(2) by (simp add: block_chunks_Cons)
    ultimately show ?thesis
      by (simp only: list.map map_map comp_def)
  qed
qed

lemma fold_append_packets:
  "fold (\<lambda>k ps. ps @ [\<lparr>dp_address = f k, dp_words = g k, dp_index = int (length ps)\<rparr>]) ks ps =
     ps @ number_packets (length ps) (map (\<lambda>k. (f k, g k)) ks)"
  by (induction ks arbitrary: ps) simp_all

lemma service_block_packets_closed:
  assumes "0 < m"
  shows "service_block_packets m b ps =
    ps @ number_packets (length ps) (block_chunks (nat m) (fb_address b) (fb_words b))"
proof -
  define n where "n = nat m"
  then have m: "m = int n" and n: "0 < n"
    using assms by simp_all
  have "nat ((int (length ws) + m - 1) div m) = (length ws + n - 1) div n" for ws :: "int list"
  proof -
    have "int (length ws) + m - 1 = int (length ws + n - 1)"
      using n by (simp add: m)
    then show ?thesis
      by (simp only: m flip: zdiv_int)
  qed
  moreover have "py_slice ws (int k * m) (int k * m + m) = take n (drop (k * n) ws)"
    for k and ws :: "int list"
  proof -
    have "nat (int k * m) = k * n"
      by (simp add: m nat_mult_distrib)
    then show ?thesis
      using py_slice_nonneg [of "int k * m" m ws] by (simp add: m)
  qed
  ultimately show ?thesis
    by (simp add: service_block_packets_def fold_append_packets flip: n_def)
      (simp add: m block_chunks_conv [OF n])
qed

lemma prepare_service_packets_closed:
  assumes "0 < m"
  shows "prepare_service_ram_packets img m =
    limit_packets (ValueError ''service image requires more than 65535 protocol packets'')
      (number_packets 0 (blocks_chunks (nat m) (sort_key fb_address (fi_blocks img))))"
proof -
  have "service_block_packets m =
    (\<lambda>b ps. ps @ number_packets (length ps) (block_chunks (nat m) (fb_address b) (fb_words b)))"
    using service_block_packets_closed [OF assms] by (intro ext)
  then show ?thesis
    using assms by (simp add: prepare_service_ram_packets_def limit_packets_def
        fold_number_packets blocks_chunks_def Let_def)
qed

section \<open>What the packets write\<close>

definition packet_before :: "data_packet \<Rightarrow> data_packet \<Rightarrow> bool" where
  "packet_before p q \<longleftrightarrow> dp_address p + int (length (dp_words p)) \<le> dp_address q"

definition packet_cells :: "data_packet list \<Rightarrow> int \<rightharpoonup> int" where
  "packet_cells ps = fold (\<lambda>p m. m ++ cells (dp_address p) (dp_words p)) ps Map.empty"

definition packet_ok :: "int \<Rightarrow> data_packet \<Rightarrow> bool" where
  "packet_ok m p \<longleftrightarrow> dp_words p \<noteq> [] \<and> int (length (dp_words p)) \<le> m \<and> words16 (dp_words p)"

lemma sorted_number_packets:
  "sorted_wrt packet_before (number_packets k cs) \<longleftrightarrow> sorted_wrt chunk_before cs"
proof (induction cs arbitrary: k)
  case (Cons c cs)
  have "(\<forall>p \<in> set (number_packets (Suc k) cs). packet_before \<lparr>dp_address = fst c, dp_words = snd c, dp_index = int k\<rparr> p) \<longleftrightarrow>
    (\<forall>a \<in> set (map dp_address (number_packets (Suc k) cs)). fst c + int (length (snd c)) \<le> a)"
    by (simp add: packet_before_def)
  then show ?case
    using Cons by (simp add: map_number_packets chunk_before_def)
qed simp

lemma fold_number_cells:
  "fold (\<lambda>p m. m ++ cells (dp_address p) (dp_words p)) (number_packets k cs) m = chunk_writes cs m"
  by (induction cs arbitrary: k m) simp_all

lemma number_packets_ok:
  "p \<in> set (number_packets k cs) \<Longrightarrow> \<exists>c \<in> set cs. dp_address p = fst c \<and> dp_words p = snd c"
  by (induction cs arbitrary: k) auto

lemma chunk_writes_blocks:
  "0 < n \<Longrightarrow> chunk_writes (blocks_chunks n bs) m = fold (\<lambda>b m. m ++ block_cells b) bs m"
  by (induction bs arbitrary: m) (simp_all add: blocks_chunks_def chunk_writes_block block_cells_def)

lemma fold_block_cells:
  assumes "sorted_wrt blocks_before bs"
  shows "fold (\<lambda>b m. m ++ block_cells b) bs m = m ++ image_cells bs"
  using assms by (induction bs arbitrary: m) simp_all

lemma blocks_chunks_sorted:
  assumes "0 < n" "sorted_wrt blocks_before bs"
  shows "sorted_wrt chunk_before (blocks_chunks n bs)"
  using assms(2)
proof (induction bs)
  case (Cons b bs)
  have "chunk_before c d" if c: "c \<in> set (block_chunks n (fb_address b) (fb_words b))"
    and d: "d \<in> set (blocks_chunks n bs)" for c d
  proof -
    obtain b' where b': "b' \<in> set bs" "d \<in> set (block_chunks n (fb_address b') (fb_words b'))"
      using d by (auto simp: blocks_chunks_def)
    then have "blocks_before b b'"
      using Cons.prems by simp
    then show ?thesis
      using block_chunks_range [OF c] block_chunks_range [OF b'(2)]
      by (auto simp: chunk_before_def blocks_before_def fb_end_exclusive_def)
  qed
  then show ?case
    using Cons block_chunks_sorted by (simp add: blocks_chunks_def sorted_wrt_append)
qed (simp add: blocks_chunks_def)

lemma concat_blocks_chunks:
  "0 < n \<Longrightarrow> concat (map snd (blocks_chunks n bs)) = concat (map fb_words bs)"
  by (induction bs) (simp_all add: blocks_chunks_def block_chunks_concat)

lemma gap_imp_before: "sorted_wrt gap_before bs \<Longrightarrow> sorted_wrt blocks_before bs"
  by (rule sorted_wrt_mono_rel [where P = gap_before]) (auto simp: gap_before_def blocks_before_def)

lemma blocks_chunks_packets:
  assumes "0 < m" "sorted_wrt blocks_before bs" "list_all (\<lambda>b. words16 (fb_words b)) bs"
    and "ps = number_packets 0 (blocks_chunks (nat m) bs)"
  shows "map dp_index ps = map int [0 ..< length ps]" "list_all (packet_ok m) ps"
    "sorted_wrt packet_before ps" "packet_cells ps = image_cells bs"
    "concat (map dp_words ps) = concat (map fb_words bs)"
proof -
  have n: "0 < nat m"
    using assms(1) by simp
  show "map dp_index ps = map int [0 ..< length ps]"
    by (simp add: assms(4) map_number_packets)
  show "sorted_wrt packet_before ps"
    by (simp add: assms(4) sorted_number_packets blocks_chunks_sorted [OF n assms(2)])
  show "packet_cells ps = image_cells bs"
    by (simp add: assms(4) packet_cells_def fold_number_cells chunk_writes_blocks [OF n]
        fold_block_cells [OF assms(2)])
  show "concat (map dp_words ps) = concat (map fb_words bs)"
    by (simp add: assms(4) map_number_packets concat_blocks_chunks [OF n])
  show "list_all (packet_ok m) ps"
    unfolding list_all_iff
  proof
    fix p
    assume "p \<in> set ps"
    then obtain c b where "dp_words p = snd c" "b \<in> set bs"
      "c \<in> set (block_chunks (nat m) (fb_address b) (fb_words b))"
      using number_packets_ok [of p 0] assms(4) by (fastforce simp: blocks_chunks_def)
    then show "packet_ok m p"
      using block_chunks_range [of c] assms(1,3) by (fastforce simp: packet_ok_def list_all_iff)
  qed
qed

section \<open>Properties\<close>

text \<open>Whether the padding of each contiguous run ends before the next run begins.\<close>

definition padding_fits :: "firmware_image \<Rightarrow> bool" where
  "padding_fits img \<longleftrightarrow> sorted_wrt blocks_before (map pad_block (merged_blocks img))"

lemma cells_replicate: "cells a (replicate k v) x = Some w \<Longrightarrow> a \<le> x \<and> w = v"
  by (auto simp: cells_Some_iff)

lemma pad_block_cells:
  assumes "block_cells (pad_block b) x = Some w"
  shows "block_cells b x = Some w \<or> (fb_end_exclusive b \<le> x \<and> w = 0xFFFF)"
  using assms cells_replicate [of "fb_end_exclusive b" _ "0xFFFF" x w]
  by (auto simp: block_cells_def pad_words_def cells_append map_add_Some_iff fb_end_exclusive_def)

lemma pad_block_extends: "block_cells b \<subseteq>\<^sub>m block_cells (pad_block b)"
  by (auto simp: map_le_def block_cells_def cells_def pad_words_def nth_append)

lemma image_cells_sorted_iff:
  assumes "sorted_wrt blocks_before bs"
  shows "image_cells bs x = Some w \<longleftrightarrow> (\<exists>b \<in> set bs. block_cells b x = Some w)"
  using image_cells_iff [of bs x w] sorted_before_unique [OF assms] by blast

lemma padded_image_cells:
  assumes "image_wf img" "padding_fits img"
  shows "image_cells (fi_blocks img) \<subseteq>\<^sub>m image_cells (map pad_block (merged_blocks img))"
    and "image_cells (map pad_block (merged_blocks img)) x = Some w \<Longrightarrow>
      image_cells (fi_blocks img) x = None \<Longrightarrow> w = 0xFFFF"
proof -
  let ?ms = "merged_blocks img"
  have ms: "sorted_wrt blocks_before ?ms" "image_cells ?ms = image_cells (fi_blocks img)"
    using merge_contiguous_spec [OF assms(1)] gap_imp_before by auto
  have iff: "image_cells (map pad_block ?ms) x = Some w \<longleftrightarrow>
      (\<exists>b \<in> set ?ms. block_cells (pad_block b) x = Some w)" for x w
    using image_cells_sorted_iff [of "map pad_block ?ms"] assms(2) by (simp add: padding_fits_def)
  show "image_cells (fi_blocks img) \<subseteq>\<^sub>m image_cells (map pad_block ?ms)"
    unfolding map_le_def
  proof
    fix x
    assume "x \<in> dom (image_cells (fi_blocks img))"
    then obtain w where w: "image_cells ?ms x = Some w"
      using ms(2) by auto
    then obtain b where b: "b \<in> set ?ms" "block_cells b x = Some w"
      using image_cells_sorted_iff [OF ms(1)] by blast
    then have "image_cells (map pad_block ?ms) x = Some w"
      using iff pad_block_extends [of b] by (metis domI map_le_def)
    then show "image_cells (fi_blocks img) x = image_cells (map pad_block ?ms) x"
      using w ms(2) by simp
  qed
  show "w = 0xFFFF" if p: "image_cells (map pad_block ?ms) x = Some w"
    and none: "image_cells (fi_blocks img) x = None"
  proof -
    obtain b where b: "b \<in> set ?ms" "block_cells (pad_block b) x = Some w"
      using p iff by blast
    moreover have "block_cells b x \<noteq> Some w"
      using none b(1) image_cells_sorted_iff [OF ms(1), of x w] ms(2) by auto
    ultimately show ?thesis
      using pad_block_cells by blast
  qed
qed

lemma prepare_packets_spec:
  assumes "image_wf img" "0 < m" "m mod 8 = 0" "padding_fits img" "prepare_packets img m = Inr ps"
  shows "map dp_index ps = map int [0 ..< length ps] \<and> length ps \<le> 0xFFFF \<and>
    list_all (\<lambda>p. packet_ok m p \<and> length (dp_words p) mod 8 = 0) ps \<and>
    sorted_wrt packet_before ps \<and>
    image_cells (fi_blocks img) \<subseteq>\<^sub>m packet_cells ps \<and>
    (\<forall>x w. packet_cells ps x = Some w \<longrightarrow> image_cells (fi_blocks img) x = None \<longrightarrow> w = 0xFFFF)"
proof -
  let ?bs = "map pad_block (merged_blocks img)"
  have ps: "ps = number_packets 0 (blocks_chunks (nat m) ?bs)" "length ps \<le> 0xFFFF"
    using assms(5) prepare_packets_closed [OF assms(1-3)] by (auto simp: limit_packets_def split: if_splits)
  have sorted: "sorted_wrt blocks_before ?bs"
    using assms(4) by (simp add: padding_fits_def)
  have words: "list_all (\<lambda>b. words16 (fb_words b)) ?bs"
    using merge_contiguous_spec [OF assms(1)]
    by (auto simp: list_all_iff block_wf_def words16_pad_words [unfolded list_all_iff])
  note facts = blocks_chunks_packets [OF assms(2) sorted words ps(1)]
  have "length (dp_words p) mod 8 = 0" if p: "p \<in> set ps" for p
  proof -
    have "length (snd c) mod 8 = 0" if "c \<in> set (block_chunks (nat m) a (pad_words ws))" for c a ws
    proof -
      have "nat m mod 8 = 0"
        using assms(2,3) by (simp add: nat_mod_distrib [symmetric, where y = 8, simplified])
      then have "c \<in> set (map padded (block_chunks (nat m) a ws))"
        using that assms(2) by (simp add: map_padded_block_chunks)
      then show ?thesis
        by (auto simp: length_pad_words(1))
    qed
    then show ?thesis
      using number_packets_ok [of p 0] p ps(1) by (fastforce simp: blocks_chunks_def)
  qed
  then show ?thesis
    using facts ps(2) padded_image_cells [OF assms(1,4)] by (auto simp: list_all_iff)
qed

text \<open>
  C30.  The packets of a Flash transfer.  They are numbered 0, 1, 2, ... and at most 65535; each is
  non-empty, within the device's limit and a multiple of 8 words; they do not overlap; and written
  in order they store exactly the image, with 0xFFFF in the words the padding adds, provided the
  padding of each contiguous run ends before the next run.
\<close>

theorem prepare_packets_write_image:
  assumes "image_wf img" "0 < m" "m mod 8 = 0" "padding_fits img" "prepare_packets img m = Inr ps"
  shows "map dp_index ps = map int [0 ..< length ps] \<and> length ps \<le> 0xFFFF \<and>
    list_all (\<lambda>p. packet_ok m p \<and> length (dp_words p) mod 8 = 0) ps \<and>
    sorted_wrt packet_before ps \<and>
    image_cells (fi_blocks img) \<subseteq>\<^sub>m packet_cells ps \<and>
    (\<forall>x w. packet_cells ps x = Some w \<longrightarrow> image_cells (fi_blocks img) x = None \<longrightarrow> w = 0xFFFF)"
  using assms by (rule prepare_packets_spec)

text \<open>
  The packets of a RAM transfer, without padding: numbered, bounded, disjoint, and written in
  order they store exactly the image; the image CRC is computed over the image words in address
  order.
\<close>

theorem prepare_ram_packets_write_image:
  assumes "image_wf img" "0 < m" "prepare_ram_packets img m = Inr ps"
  shows "map dp_index ps = map int [0 ..< length ps] \<and> length ps \<le> 0xFFFF \<and>
    list_all (packet_ok m) ps \<and> sorted_wrt packet_before ps \<and>
    packet_cells ps = image_cells (fi_blocks img) \<and>
    concat (map dp_words ps) = concat (map fb_words (sort_key fb_address (fi_blocks img))) \<and>
    calculate_ram_image_crc32 img m =
      crc32_words (concat (map fb_words (sort_key fb_address (fi_blocks img))))"
proof -
  have ps: "ps = number_packets 0 (blocks_chunks (nat m) (merged_blocks img))" "length ps \<le> 0xFFFF"
    using assms(3) prepare_ram_packets_closed [OF assms(1,2)]
    by (auto simp: limit_packets_def split: if_splits)
  note ms = merge_contiguous_spec [OF assms(1)]
  have "sorted_wrt blocks_before (merged_blocks img)" "list_all (\<lambda>b. words16 (fb_words b)) (merged_blocks img)"
    using ms gap_imp_before by (auto simp: list_all_iff block_wf_def)
  from blocks_chunks_packets [OF assms(2) this ps(1)] show ?thesis
    using ps(2) ms assms(3) by (simp add: calculate_ram_image_crc32_def)
qed

text \<open>The packets of a service image are cut from its blocks without merging them.\<close>

lemma prepare_service_packets_write_image:
  assumes "image_wf img" "0 < m" "prepare_service_ram_packets img m = Inr ps"
  shows "map dp_index ps = map int [0 ..< length ps] \<and> length ps \<le> 0xFFFF \<and>
    list_all (packet_ok m) ps \<and> sorted_wrt packet_before ps \<and>
    packet_cells ps = image_cells (fi_blocks img) \<and>
    concat (map dp_words ps) = concat (map fb_words (sort_key fb_address (fi_blocks img)))"
proof -
  let ?s = "sort_key fb_address (fi_blocks img)"
  have ps: "ps = number_packets 0 (blocks_chunks (nat m) ?s)" "length ps \<le> 0xFFFF"
    using assms(3) prepare_service_packets_closed [OF assms(2)]
    by (auto simp: limit_packets_def split: if_splits)
  have s: "sorted_wrt blocks_before ?s" "list_all (\<lambda>b. words16 (fb_words b)) ?s"
    using assms(1) by (auto simp: image_wf_def list_all_iff block_wf_def)
  show ?thesis
    using blocks_chunks_packets [OF assms(2) s ps(1)] ps(2) image_cells_sort [OF s(1)] by simp
qed

section \<open>Where the preparation goes wrong\<close>

lemma ram_packet_loop_step_0:
  assumes "ram_packet_loop a ws m off ps = Some qs"
  shows "m = 0 \<longrightarrow> 0 \<le> off \<longrightarrow> int (length ws) \<le> off"
proof (rule ram_packet_loop.raw_induct [OF _ assms,
      where P = "\<lambda>a ws m off ps qs. m = 0 \<longrightarrow> 0 \<le> off \<longrightarrow> int (length ws) \<le> off"])
  fix loop :: "int \<Rightarrow> int list \<Rightarrow> int \<Rightarrow> int \<Rightarrow> data_packet list \<Rightarrow> data_packet list option"
    and a m off ps qs and ws :: "int list"
  assume ih: "\<And>a ws m off ps qs. loop a ws m off ps = Some qs \<Longrightarrow>
      m = 0 \<longrightarrow> 0 \<le> off \<longrightarrow> int (length ws) \<le> off"
    and step: "(if off < int (length ws) then
        let data = py_slice ws off (off + m) in
        loop a ws m (off + int (length data))
          (ps @ [\<lparr>dp_address = a + off, dp_words = data, dp_index = int (length ps)\<rparr>])
      else Some ps) = Some qs"
  show "m = 0 \<longrightarrow> 0 \<le> off \<longrightarrow> int (length ws) \<le> off"
  proof (intro impI)
    assume z: "m = 0" "0 \<le> off"
    then have "py_slice ws off (off + m) = []"
      using py_slice_nonneg [of off 0 ws] by simp
    then show "int (length ws) \<le> off"
      using step ih z by (auto simp: Let_def split: if_splits)
  qed
qed

text \<open>
  C31.  A step of 0 words: the loop of \<open>_prepare_ram_packets\<close> never ends for it, so
  \<open>calculate_ram_image_crc32 (image, 0)\<close> does not return for any valid image, where the Flash and
  the service variants raise an error.
\<close>

theorem ram_packets_step_0_diverges:
  assumes "image_wf img"
  shows "calculate_ram_image_crc32 img 0 = Inl Diverges \<and>
    prepare_service_ram_packets img 0 = Inl (ValueError ''max_data_words must be positive'') \<and>
    prepare_packets img 0 = Inl (DataAlignmentError ''write data must not be empty'')"
proof -
  obtain b bs where ms: "merge_contiguous (fi_blocks img) = Inr (b # bs)" "fb_words b \<noteq> []"
    using merge_contiguous_spec [OF assms] by (cases "merged_blocks img") (auto simp: block_wf_def)
  have "ram_packet_loop (fb_address b) (fb_words b) 0 0 [] = None"
    using ram_packet_loop_step_0 [of "fb_address b" "fb_words b" 0 0 "[]"] ms(2)
    by (cases "ram_packet_loop (fb_address b) (fb_words b) 0 0 []") auto
  moreover have "py_slice (fb_words b) 0 0 = []"
    using py_slice_nonneg [of 0 0 "fb_words b"] by simp
  ultimately show ?thesis
    using ms by (simp add: calculate_ram_image_crc32_def prepare_ram_packets_def
        prepare_service_ram_packets_def prepare_packets_def packet_loop.simps [of _ _ 0 0]
        pad_write_data_def)
qed

text \<open>A valid image with a gap of two words after an unaligned run.\<close>

definition gap_image :: firmware_image where
  "gap_image =
     \<lparr>fi_source_out_file = ''app.out'', fi_generated_hex_file = ''app.txt'',
      fi_entry_point = 0x82400,
      fi_blocks = [\<lparr>fb_address = 0x82400, fb_words = [1, 2, 3]\<rparr>,
                   \<lparr>fb_address = 0x82405, fb_words = [4]\<rparr>],
      fi_total_words = 4,
      fi_address_ranges = [\<lparr>ar_start = 0x82400, ar_end_exclusive = 0x82403\<rparr>,
                           \<lparr>ar_start = 0x82405, ar_end_exclusive = 0x82406\<rparr>],
      fi_file_checksum = '''', fi_format_info = []\<rparr>"

lemma gap_image_merged: "merge_contiguous (fi_blocks gap_image) = Inr (fi_blocks gap_image)"
  by (simp add: gap_image_def merge_contiguous_def FirmwareBlock_Inr u_simps)

lemma gap_image_wf: "image_wf gap_image"
  by (simp add: gap_image_def image_wf_def u_simps block_wf_def block_range_def blocks_before_def
      fb_end_exclusive_def)

lemma pad_words_short: "ws \<noteq> [] \<Longrightarrow> length ws < 8 \<Longrightarrow> pad_words ws = ws @ replicate (8 - length ws) 0xFFFF"
  by (cases "length ws") (auto simp: pad_words_def mod_less)

lemma gap_image_packets:
  "prepare_packets gap_image 8 = Inr
     [\<lparr>dp_address = 0x82400, dp_words = [1, 2, 3] @ replicate 5 0xFFFF, dp_index = 0\<rparr>,
      \<lparr>dp_address = 0x82405, dp_words = [4] @ replicate 7 0xFFFF, dp_index = 1\<rparr>]"
proof -
  have "merged_blocks gap_image = fi_blocks gap_image"
    by (simp add: merged_blocks_def gap_image_merged)
  then show ?thesis
    by (simp add: prepare_packets_closed gap_image_wf)
      (simp add: gap_image_def blocks_chunks_def block_chunks_Cons pad_words_short limit_packets_def)
qed

text \<open>
  Padding is not checked against the next run: for an image that every check of the tool
  accepts, the padding of the first run overlaps the second, so the two packets write the same
  addresses, and the first one stores 0xFFFF where the image has 4.
\<close>

theorem padding_overlaps_next_run:
  "validate_app_firmware_image gap_image = Inr () \<and> image_wf gap_image \<and>
   (\<exists>p q. prepare_packets gap_image 8 = Inr [p, q] \<and>
      dp_address q < dp_address p + int (length (dp_words p)) \<and>
      cells (dp_address p) (dp_words p) 0x82405 = Some 0xFFFF \<and>
      image_cells (fi_blocks gap_image) 0x82405 = Some 4)"
proof (intro conjI exI)
  show "prepare_packets gap_image 8 = Inr
     [\<lparr>dp_address = 0x82400, dp_words = [1, 2, 3] @ replicate 5 0xFFFF, dp_index = 0\<rparr>,
      \<lparr>dp_address = 0x82405, dp_words = [4] @ replicate 7 0xFFFF, dp_index = 1\<rparr>]"
    by (rule gap_image_packets)
qed (simp_all add: gap_image_wf validate_app_ok_iff,
  simp_all add: gap_image_def fb_end_exclusive_def cells_def block_cells_def map_add_def numeral_eq_Suc)

section \<open>Examples\<close>

lemma example_image_merged: "merged_blocks example_image = fi_blocks example_image"
  by (simp add: merged_blocks_def example_image_def merge_contiguous_def FirmwareBlock_Inr u_simps)

lemma example_image_packets:
  "prepare_packets example_image 8 =
     Inr [\<lparr>dp_address = 0x82400, dp_words = [1, 2, 3] @ replicate 5 0xFFFF, dp_index = 0\<rparr>]"
  by (simp add: prepare_packets_closed example_image_wf example_image_merged)
    (simp add: example_image_def blocks_chunks_def block_chunks_Cons pad_words_short limit_packets_def)

lemma prepare_packets_write_image_witness:
  "image_cells (fi_blocks example_image) \<subseteq>\<^sub>m
     packet_cells [\<lparr>dp_address = 0x82400, dp_words = [1, 2, 3] @ replicate 5 0xFFFF, dp_index = 0\<rparr>]"
  using prepare_packets_write_image [OF example_image_wf _ _ _ example_image_packets]
  by (simp add: padding_fits_def example_image_merged) (simp add: example_image_def)

lemma example_image_ram_packets:
  "prepare_ram_packets example_image 2 =
     Inr [\<lparr>dp_address = 0x82400, dp_words = [1, 2], dp_index = 0\<rparr>,
          \<lparr>dp_address = 0x82402, dp_words = [3], dp_index = 1\<rparr>]"
  by (simp add: prepare_ram_packets_closed example_image_wf example_image_merged)
    (simp add: example_image_def blocks_chunks_def block_chunks_Cons limit_packets_def)

lemma prepare_ram_packets_write_image_witness:
  "packet_cells [\<lparr>dp_address = 0x82400, dp_words = [1, 2], dp_index = 0\<rparr>,
       \<lparr>dp_address = 0x82402, dp_words = [3], dp_index = 1\<rparr>] = image_cells (fi_blocks example_image)"
  using prepare_ram_packets_write_image [OF example_image_wf _ example_image_ram_packets] by simp

lemma ram_packets_step_0_diverges_witness:
  "calculate_ram_image_crc32 example_image 0 = Inl Diverges"
  using ram_packets_step_0_diverges [OF example_image_wf] by simp

end
