(* ===== verification/Upgrade_Image.thy ===== *)
theory Upgrade_Image
  imports Packets
begin

text \<open>
  Images whose blocks start at multiples of eight words, as a Flash linker produces them: their
  padding fits, and every word a packet writes lies in an aligned group of eight that starts with
  an image word.  So whatever sector covers the image also covers the padding.
\<close>

definition aligned_image :: "firmware_image \<Rightarrow> bool" where
  "aligned_image img \<longleftrightarrow> list_all (\<lambda>b. fb_address b mod 8 = 0) (fi_blocks img)"

lemma merge_loop_addresses:
  "merge_loop a ws bs = Inr ms \<Longrightarrow> fb_address ` set ms \<subseteq> insert a (fb_address ` set bs)"
proof (induction a ws bs arbitrary: ms rule: merge_loop.induct)
  case (1 a ws)
  then show ?case
    by (auto simp: bindE_Inr_iff FirmwareBlock_Inr_iff)
next
  case (2 a ws b bs)
  then show ?case
    by (fastforce simp: bindE_Inr_iff FirmwareBlock_Inr_iff split: if_splits)
qed

lemma merged_addresses:
  assumes "image_wf img"
  shows "fb_address ` set (merged_blocks img) \<subseteq> fb_address ` set (fi_blocks img)"
proof -
  have m: "merge_contiguous (fi_blocks img) = Inr (merged_blocks img)"
    using merge_contiguous_spec [OF assms] by simp
  have s: "set (sort_key fb_address (fi_blocks img)) = set (fi_blocks img)"
    by simp
  show ?thesis
  proof (cases "sort_key fb_address (fi_blocks img)")
    case Nil
    then show ?thesis
      using m by (simp add: merge_contiguous_def)
  next
    case (Cons b bs)
    then show ?thesis
      using m merge_loop_addresses [of "fb_address b" "fb_words b" bs "merged_blocks img"] s
      by (auto simp: merge_contiguous_def)
  qed
qed

lemma merged_aligned:
  "image_wf img \<Longrightarrow> aligned_image img \<Longrightarrow> b \<in> set (merged_blocks img) \<Longrightarrow> fb_address b mod 8 = 0"
  using merged_addresses [of img] by (fastforce simp: aligned_image_def list_all_iff)

lemma length_pad_words_mod: "ws \<noteq> [] \<Longrightarrow> length (pad_words ws) mod 8 = 0 \<and> length (pad_words ws) < length ws + 8"
  by (simp add: length_pad_words)

lemma pad_before:
  assumes "gap_before a b" "fb_address a mod 8 = 0" "fb_address b mod 8 = 0" "fb_words a \<noteq> []"
  shows "blocks_before (pad_block a) (pad_block b)"
proof -
  have l: "length (pad_words (fb_words a)) mod 8 = 0" "length (pad_words (fb_words a)) < length (fb_words a) + 8"
    using length_pad_words_mod [OF assms(4)] by simp_all
  then have "int (length (pad_words (fb_words a))) mod 8 = 0"
    by presburger
  then show ?thesis
    using assms(1-3) l(2) by (simp add: blocks_before_def gap_before_def fb_end_exclusive_def) presburger
qed

lemma aligned_padding_fits:
  assumes "image_wf img" "aligned_image img"
  shows "padding_fits img"
proof -
  have "sorted_wrt gap_before (merged_blocks img)" "list_all block_wf (merged_blocks img)"
    using merge_contiguous_spec [OF assms(1)] by simp_all
  then have "sorted_wrt (\<lambda>a b. blocks_before (pad_block a) (pad_block b)) (merged_blocks img)"
    using merged_aligned [OF assms] pad_before
    by (auto simp: list_all_iff block_wf_def intro: sorted_wrt_mono_rel [rotated])
  then show ?thesis
    by (simp add: padding_fits_def sorted_wrt_map)
qed

text \<open>The words of the packets, packet by packet.\<close>

lemma fold_cells_dom:
  "fold (\<lambda>p m. m ++ cells (dp_address p) (dp_words p)) ps m = m ++ packet_cells ps"
proof (induction ps arbitrary: m)
  case (Cons p ps)
  have "packet_cells (p # ps) = cells (dp_address p) (dp_words p) ++ packet_cells ps"
    using Cons.IH [of "Map.empty ++ cells (dp_address p) (dp_words p)"] unfolding packet_cells_def by simp
  then show ?case
    using Cons.IH [of "m ++ cells (dp_address p) (dp_words p)"] by simp
qed (simp add: packet_cells_def)

lemma packet_cells_Cons: "packet_cells (p # ps) = cells (dp_address p) (dp_words p) ++ packet_cells ps"
  using fold_cells_dom [of ps "cells (dp_address p) (dp_words p)"] by (simp add: packet_cells_def)

lemma packet_cells_Nil: "packet_cells [] = Map.empty"
  by (simp add: packet_cells_def)

lemma packet_cells_dom:
  "packet_cells ps x \<noteq> None \<longleftrightarrow>
     (\<exists>p \<in> set ps. dp_address p \<le> x \<and> x < dp_address p + int (length (dp_words p)))"
proof (induction ps)
  case (Cons p ps)
  then show ?case
    by (auto simp: packet_cells_Cons map_add_def cells_def split: option.split)
qed (simp add: packet_cells_Nil)

lemma packet_cells_member:
  assumes "sorted_wrt packet_before ps" "p \<in> set ps" "i < length (dp_words p)"
  shows "packet_cells ps (dp_address p + int i) = Some (dp_words p ! i)"
  using assms
proof (induction ps)
  case (Cons q ps)
  show ?case
  proof (cases "p \<in> set ps")
    case True
    then show ?thesis
      using Cons by (simp add: packet_cells_Cons)
  next
    case False
    then have p: "p = q"
      using Cons.prems by simp
    have "packet_cells ps (dp_address p + int i) = None"
      using Cons.prems packet_cells_dom [of ps "dp_address p + int i"] p
      by (fastforce simp: packet_before_def)
    then show ?thesis
      using Cons.prems(3) p by (simp add: packet_cells_Cons map_add_def cells_def)
  qed
qed simp

section \<open>The packets of an aligned image\<close>

lemma padded_group:
  assumes "fb_words b \<noteq> []" "fb_address b mod 8 = 0"
    and "fb_address b \<le> x" "x < fb_end_exclusive (pad_block b)"
  shows "\<exists>g. fb_address b \<le> g \<and> g < fb_end_exclusive b \<and> g mod 8 = 0 \<and> g \<le> x \<and> x < g + 8"
proof -
  have l: "length (pad_words (fb_words b)) mod 8 = 0" "length (pad_words (fb_words b)) < length (fb_words b) + 8"
    using length_pad_words_mod [OF assms(1)] by simp_all
  let ?g = "8 * (x div 8)"
  have "x < fb_address b + int (length (pad_words (fb_words b)))"
    using assms(4) by (simp add: fb_end_exclusive_def)
  then have "?g < fb_address b + int (length (fb_words b))"
    using l assms(2) by presburger
  moreover have "fb_address b \<le> ?g"
    using assms(2,3) by presburger
  moreover have "?g \<le> x" "x < ?g + 8"
    by presburger+
  ultimately show ?thesis
    by (intro exI [of _ ?g]) (simp add: fb_end_exclusive_def)
qed

lemma image_cells_member: "image_cells bs x = Some v \<Longrightarrow> \<exists>b \<in> set bs. block_cells b x = Some v"
  by (induction bs) (auto simp: map_add_Some_iff)

lemma aligned_packet_group:
  assumes "image_wf img" "aligned_image img" "0 < m" "m mod 8 = 0" "prepare_packets img m = Inr ps"
    and "packet_cells ps x \<noteq> None"
  shows "\<exists>b \<in> set (fi_blocks img). \<exists>g. fb_address b \<le> g \<and> g < fb_end_exclusive b \<and> g mod 8 = 0 \<and> g \<le> x \<and> x < g + 8"
proof -
  note ms = merge_contiguous_spec [OF assms(1)]
  let ?bs = "map pad_block (merged_blocks img)"
  have ps: "ps = number_packets 0 (blocks_chunks (nat m) ?bs)"
    using assms(5) prepare_packets_closed [OF assms(1,3,4)] by (auto simp: limit_packets_def split: if_splits)
  have sorted: "sorted_wrt blocks_before ?bs"
    using aligned_padding_fits [OF assms(1,2)] by (simp add: padding_fits_def)
  have "list_all (\<lambda>b. words16 (fb_words b)) ?bs"
    using ms by (auto simp: list_all_iff block_wf_def words16_pad_words [unfolded list_all_iff])
  then have "packet_cells ps = image_cells ?bs"
    using blocks_chunks_packets(4) [OF assms(3) sorted _ ps] by simp
  then obtain w b where b: "b \<in> set (merged_blocks img)" "block_cells (pad_block b) x = Some w"
    using assms(6) image_cells_sorted_iff [OF sorted] by auto
  have "fb_words b \<noteq> []" "fb_address b mod 8 = 0"
    using b(1) ms merged_aligned [OF assms(1,2)] by (auto simp: list_all_iff block_wf_def)
  then obtain g where g: "fb_address b \<le> g" "g < fb_end_exclusive b" "g mod 8 = 0" "g \<le> x" "x < g + 8"
    using padded_group block_cells_Some_range [OF b(2)] by force
  have "block_cells b g \<noteq> None"
    using g(1,2) by (simp add: block_cells_def cells_def fb_end_exclusive_def)
  then have "image_cells (merged_blocks img) g \<noteq> None"
    using image_cells_sorted_iff [of "merged_blocks img" g] ms gap_imp_before b(1) by auto
  then have "image_cells (fi_blocks img) g \<noteq> None"
    using ms by simp
  then obtain c v where "c \<in> set (fi_blocks img)" "block_cells c g = Some v"
    using image_cells_member by blast
  then have "c \<in> set (fi_blocks img) \<and> fb_address c \<le> g \<and> g < fb_end_exclusive c"
    using block_cells_Some_range by simp
  then show ?thesis
    using g(3-5) by (intro bexI [of _ c] exI [of _ g]) simp_all
qed

lemma sorted_packets_words:
  assumes "sorted_wrt packet_before ps"
    and "\<forall>p \<in> set ps. lo \<le> dp_address p \<and> dp_address p + int (length (dp_words p)) \<le> hi" "lo \<le> hi"
  shows "sum_list (map (\<lambda>p. int (length (dp_words p))) ps) \<le> hi - lo"
  using assms
proof (induction ps arbitrary: lo)
  case (Cons p ps)
  let ?stop = "dp_address p + int (length (dp_words p))"
  have "sum_list (map (\<lambda>p. int (length (dp_words p))) ps) \<le> hi - ?stop"
    using Cons.prems by (intro Cons.IH) (auto simp: packet_before_def)
  then show ?case
    using Cons.prems(2) by auto
qed simp

text \<open>Everything a transfer needs to know about the packets of an aligned application image.\<close>

lemma app_packets:
  assumes "image_wf img" "aligned_image img" "validate_app_firmware_image img = Inr ()"
    and "0 < m" "m mod 8 = 0" "prepare_packets img m = Inr ps" "p \<in> set ps"
  shows "0x082400 \<le> dp_address p" "dp_address p + int (length (dp_words p)) \<le> 0x0C0000"
    "dp_words p \<noteq> []" "words16 (dp_words p)" "int (length (dp_words p)) \<le> m" "length (dp_words p) mod 8 = 0"
proof -
  note spec = prepare_packets_spec [OF assms(1,4,5) aligned_padding_fits [OF assms(1,2)] assms(6)]
  show p: "dp_words p \<noteq> []" "words16 (dp_words p)" "int (length (dp_words p)) \<le> m" "length (dp_words p) mod 8 = 0"
    using spec assms(7) by (auto simp: list_all_iff packet_ok_def)
  have blocks: "0x082400 \<le> fb_address b" "fb_end_exclusive b \<le> 0x0C0000" if "b \<in> set (fi_blocks img)" for b
    using that assms(3) by (auto simp: validate_app_ok_iff list_all_iff)
  have range: "0x082400 \<le> x \<and> x < 0x0C0000" if used: "packet_cells ps x \<noteq> None" for x
  proof -
    obtain b g where "b \<in> set (fi_blocks img)" "fb_address b \<le> g" "g < fb_end_exclusive b" "g mod 8 = 0"
      "g \<le> x" "x < g + 8"
      using aligned_packet_group [OF assms(1,2,4,5,6) used] by (elim bexE exE conjE) (rule that)
    moreover from this have "g + 8 \<le> 0x0C0000"
      using blocks(2) [of b] by presburger
    ultimately show ?thesis
      using blocks(1) [of b] by simp
  qed
  have "packet_cells ps (dp_address p) \<noteq> None"
    "packet_cells ps (dp_address p + int (length (dp_words p)) - 1) \<noteq> None"
    unfolding packet_cells_dom using assms(7) p(1) by force+
  then show "0x082400 \<le> dp_address p" "dp_address p + int (length (dp_words p)) \<le> 0x0C0000"
    using range by fastforce+
qed

end
