(* ===== verification/Frame.thy ===== *)
theory Frame
  imports Wire_Models Crc
begin

text \<open>
  Complete protocol frames (\<open>protocol/frame.py\<close>): ten header words (two magic words, protocol
  version, packet type, command, sequence, flags, status, payload length, header CRC), the payload
  and the payload CRC.  The codec is shown to be a bijection between well-formed frames and the
  word sequences it accepts, and to reject every frame with one damaged word.
\<close>

record frame =
  fr_packet_type :: int
  fr_command :: int
  fr_sequence :: int
  fr_payload :: "int list"
  fr_flags :: int
  fr_status :: int
  fr_protocol_version :: int

definition Frame :: "int \<Rightarrow> int \<Rightarrow> int \<Rightarrow> int list \<Rightarrow> int \<Rightarrow> int \<Rightarrow> int \<Rightarrow> frame res" where
  "Frame packet_type command sequence payload flags status protocol_version =
     (if list_ex (\<lambda>value. value < 0 \<or> value > 0xFFFF)
          [packet_type, command, sequence, flags, status, protocol_version]
      then Inl (ValueError ''field must fit uint16'')
      else if sequence = 0 then Inl (ValueError ''sequence 0 is reserved'')
      else if int (length payload) > 0xFFFF
      then Inl (ValueError ''payload is too large for frame header'')
      else if list_ex (\<lambda>value. value < 0 \<or> value > 0xFFFF) payload
      then Inl (ValueError ''payload word must fit uint16'')
      else Inr
        \<lparr>fr_packet_type = packet_type, fr_command = command, fr_sequence = sequence,
         fr_payload = payload, fr_flags = flags, fr_status = status,
         fr_protocol_version = protocol_version\<rparr>)"

definition header_without_crc :: "frame \<Rightarrow> int list" where
  "header_without_crc f =
     [MAGIC0, MAGIC1, fr_protocol_version f, fr_packet_type f, fr_command f, fr_sequence f,
      fr_flags f, fr_status f, int (length (fr_payload f))]"

definition encode_words :: "frame \<Rightarrow> int list res" where
  "encode_words f =
     bindE (crc16_words (header_without_crc f)) (\<lambda>header_crc.
     bindE (crc16_words (fr_payload f)) (\<lambda>payload_crc.
       Inr (header_without_crc f @ [header_crc] @ fr_payload f @ [payload_crc])))"

definition encode_bytes :: "frame \<Rightarrow> int list res" where
  "encode_bytes f = bindE (encode_words f) words_to_little_endian_bytes"

definition decode_frame :: "int list \<Rightarrow> int \<Rightarrow> frame res" where
  "decode_frame words max_payload_words =
     (if int (length words) < HEADER_WORDS + 1
      then Inl (FrameLengthError ''frame is shorter than header plus payload CRC'')
      else if take 2 words \<noteq> [MAGIC0, MAGIC1] then Inl (FrameError ''bad frame magic'')
      else bindE (crc16_words (take 9 words)) (\<lambda>header_crc.
        if header_crc \<noteq> words ! 9 then Inl (HeaderCrcError ''header CRC mismatch'')
        else let payload_words = words ! 8 in
          if payload_words > max_payload_words
          then Inl (FrameLengthError ''payload exceeds configured maximum'')
          else if int (length words) \<noteq> HEADER_WORDS + payload_words + 1
          then Inl (FrameLengthError ''frame has an unexpected number of words'')
          else let payload = butlast (drop (nat HEADER_WORDS) words) in
            bindE (crc16_words payload) (\<lambda>payload_crc.
              if payload_crc \<noteq> last words then Inl (PayloadCrcError ''payload CRC mismatch'')
              else case Frame (words ! 3) (words ! 4) (words ! 5) payload (words ! 6) (words ! 7)
                     (words ! 2) of
                Inl e \<Rightarrow> Inl (if is_value_error e then FrameError (exc_msg e) else e)
              | Inr f \<Rightarrow> Inr f)))"

section \<open>Well-formed frames\<close>

definition frame_wf :: "frame \<Rightarrow> bool" where
  "frame_wf f \<longleftrightarrow>
     u16 (fr_packet_type f) \<and> u16 (fr_command f) \<and> u16 (fr_sequence f) \<and> fr_sequence f \<noteq> 0 \<and>
     u16 (fr_flags f) \<and> u16 (fr_status f) \<and> u16 (fr_protocol_version f) \<and>
     int (length (fr_payload f)) \<le> 0xFFFF \<and> words16 (fr_payload f)"

lemma Frame_Inr_iff:
  "Frame p c q pl fl st v = Inr f \<longleftrightarrow>
     frame_wf f \<and> f = \<lparr>fr_packet_type = p, fr_command = c, fr_sequence = q, fr_payload = pl,
       fr_flags = fl, fr_status = st, fr_protocol_version = v\<rparr>"
  using not_list_ex_u16 [of pl]
  by (auto simp: Frame_def frame_wf_def u_simps)

lemma Frame_Inl: "Frame p c q pl fl st v = Inl e \<Longrightarrow> is_value_error e"
  by (auto simp: Frame_def split: if_splits)

lemma Frame_Inr:
  assumes "u16 p" "u16 c" "u16 q" "q \<noteq> 0" "u16 fl" "u16 st" "u16 v"
    "int (length pl) \<le> 0xFFFF" "words16 pl"
  shows "Frame p c q pl fl st v =
    Inr \<lparr>fr_packet_type = p, fr_command = c, fr_sequence = q, fr_payload = pl,
      fr_flags = fl, fr_status = st, fr_protocol_version = v\<rparr>"
  using assms by (simp add: Frame_Inr_iff frame_wf_def)

lemma length_header_without_crc [simp]: "length (header_without_crc f) = 9"
  by (simp add: header_without_crc_def)

lemma words16_header: "frame_wf f \<Longrightarrow> words16 (header_without_crc f)"
  by (simp add: frame_wf_def header_without_crc_def MAGIC0_def MAGIC1_def u_simps)

definition frame_words :: "frame \<Rightarrow> int list" where
  "frame_words f =
     header_without_crc f @ [crc16_ccitt_false (le_bytes (header_without_crc f))] @
     fr_payload f @ [crc16_ccitt_false (le_bytes (fr_payload f))]"

lemma encode_words_Inr: "frame_wf f \<Longrightarrow> encode_words f = Inr (frame_words f)"
  by (simp add: encode_words_def crc16_words_Inr words16_header frame_words_def)
    (simp add: frame_wf_def crc16_words_Inr)

lemma words16_frame_words: "frame_wf f \<Longrightarrow> words16 (frame_words f)"
  by (simp add: frame_words_def words16_header) (simp add: frame_wf_def)

lemma length_frame_words [simp]: "length (frame_words f) = length (fr_payload f) + 11"
  by (simp add: frame_words_def)

lemma frame_words_nonempty [simp]: "frame_words f \<noteq> []"
  by (simp add: frame_words_def)

lemma encode_bytes_Inr: "frame_wf f \<Longrightarrow> encode_bytes f = Inr (le_bytes (frame_words f))"
  by (simp add: encode_bytes_def encode_words_Inr words_to_bytes_Inr words16_frame_words)

lemma frame_words_parts:
  "take 2 (frame_words f) = [MAGIC0, MAGIC1]"
  "take 9 (frame_words f) = header_without_crc f"
  "frame_words f ! 9 = crc16_ccitt_false (le_bytes (header_without_crc f))"
  "frame_words f ! 8 = int (length (fr_payload f))"
  "butlast (drop 10 (frame_words f)) = fr_payload f"
  "last (frame_words f) = crc16_ccitt_false (le_bytes (fr_payload f))"
  by (simp_all add: frame_words_def header_without_crc_def butlast_append)

lemma frame_words_fields:
  "frame_words f ! 0 = MAGIC0" "frame_words f ! 1 = MAGIC1"
  "frame_words f ! 2 = fr_protocol_version f" "frame_words f ! 3 = fr_packet_type f"
  "frame_words f ! 4 = fr_command f" "frame_words f ! 5 = fr_sequence f"
  "frame_words f ! 6 = fr_flags f" "frame_words f ! 7 = fr_status f"
  by (simp_all add: frame_words_def header_without_crc_def)

lemma Frame_of_fields: "frame_wf f \<Longrightarrow>
  Frame (fr_packet_type f) (fr_command f) (fr_sequence f) (fr_payload f) (fr_flags f)
    (fr_status f) (fr_protocol_version f) = Inr f"
  by (simp add: Frame_Inr_iff)

lemma decode_encode:
  assumes "frame_wf f" "int (length (fr_payload f)) \<le> m"
  shows "decode_frame (frame_words f) m = Inr f"
proof -
  have p: "words16 (fr_payload f)"
    using assms(1) by (simp add: frame_wf_def)
  show ?thesis
    using assms
    by (simp add: decode_frame_def HEADER_WORDS_def frame_words_parts frame_words_fields
        crc16_words_Inr words16_header p Frame_of_fields)
qed

lemma words_of_frame_parts:
  assumes "11 \<le> length ws"
  shows "ws = take 9 ws @ [ws ! 9] @ butlast (drop 10 ws) @ [last ws]"
proof -
  have ne: "drop 10 ws \<noteq> []"
    using assms by simp
  have "ws = take 9 ws @ ws ! 9 # drop 10 ws"
    using id_take_nth_drop [of 9 ws] assms by simp
  also have "drop 10 ws = butlast (drop 10 ws) @ [last (drop 10 ws)]"
    using ne by (rule append_butlast_last_id [symmetric])
  also have "last (drop 10 ws) = last ws"
    using assms by (simp add: last_drop)
  finally show ?thesis
    by simp
qed

lemma take_9_conv:
  assumes "9 \<le> length ws"
  shows "take 9 ws = take 2 ws @ [ws ! 2, ws ! 3, ws ! 4, ws ! 5, ws ! 6, ws ! 7, ws ! 8]"
  using assms by (simp add: numeral_eq_Suc take_Suc_conv_app_nth)

lemma decode_encode_conv:
  assumes "decode_frame ws m = Inr f"
  shows "frame_wf f \<and> int (length (fr_payload f)) \<le> m \<and> ws = frame_words f"
proof -
  let ?p = "butlast (drop 10 ws)"
  from assms have len: "11 \<le> length ws" and magic: "take 2 ws = [MAGIC0, MAGIC1]"
    and hcrc: "crc16_words (take 9 ws) = Inr (ws ! 9)"
    and max: "ws ! 8 \<le> m" and total: "int (length ws) = 11 + ws ! 8"
    and pcrc: "crc16_words ?p = Inr (last ws)"
    and fr: "Frame (ws ! 3) (ws ! 4) (ws ! 5) ?p (ws ! 6) (ws ! 7) (ws ! 2) = Inr f"
    by (auto simp: decode_frame_def HEADER_WORDS_def bindE_Inr_iff Let_def
        split: if_splits sum.splits)
  have wf: "frame_wf f" and fields: "f = \<lparr>fr_packet_type = ws ! 3, fr_command = ws ! 4,
      fr_sequence = ws ! 5, fr_payload = ?p, fr_flags = ws ! 6, fr_status = ws ! 7,
      fr_protocol_version = ws ! 2\<rparr>"
    using fr unfolding Frame_Inr_iff by blast+
  have n: "int (length ?p) = ws ! 8"
    using total len by simp
  have hdr: "header_without_crc f = take 9 ws"
    using take_9_conv [of ws] len magic n by (simp add: header_without_crc_def fields)
  have "frame_words f = take 9 ws @ [ws ! 9] @ ?p @ [last ws]"
    using hcrc pcrc unfolding frame_words_def hdr by (simp add: crc16_words_Inr_iff fields)
  also have "\<dots> = ws"
    by (rule words_of_frame_parts [OF len, symmetric])
  finally show ?thesis
    using wf n max by (simp add: fields)
qed

text \<open>
  C16.  The frame codec: \<open>decode_frame\<close> accepts a sequence of words exactly when it is the encoding
  of a well-formed frame whose payload respects the configured maximum, and returns that frame.
\<close>

theorem decode_frame_iff_encode:
  "decode_frame ws m = Inr f \<longleftrightarrow>
     frame_wf f \<and> int (length (fr_payload f)) \<le> m \<and> encode_words f = Inr ws"
  using decode_encode decode_encode_conv by (auto simp: encode_words_Inr)

section \<open>Damaged frames\<close>

lemma words16_decode_no_value_error:
  assumes "words16 ws" "decode_frame ws m = Inl e"
  shows "is_frame_error e"
proof -
  have "words16 (take 9 ws)" "words16 (butlast (drop 10 ws))"
    using assms(1) by (auto simp: list_all_iff dest: in_set_takeD in_set_butlastD in_set_dropD)
  then show ?thesis
    using assms(2) Frame_Inl
    by (auto simp: decode_frame_def HEADER_WORDS_def Let_def crc16_words_Inr
        split: if_splits sum.splits)
qed

lemma damaged_header_crc:
  assumes "frame_wf f" "i < 9" "u16 w" "w \<noteq> frame_words f ! i"
  shows "crc16_ccitt_false (le_bytes (take 9 ((frame_words f)[i := w]))) \<noteq> frame_words f ! 9"
proof -
  have "take 9 ((frame_words f)[i := w]) = (header_without_crc f)[i := w]"
    by (simp add: take_update_swap frame_words_parts)
  moreover have "frame_words f ! i = header_without_crc f ! i"
    using assms(2) by (simp add: frame_words_def nth_append)
  ultimately show ?thesis
    using crc16_single_word_change [OF words16_header [OF assms(1)], of i w] assms
    by (simp add: frame_words_parts)
qed

lemma damaged_payload_part:
  assumes "10 \<le> i" "i < length (frame_words f)"
  shows "butlast (drop 10 ((frame_words f)[i := w])) = (fr_payload f)[i - 10 := w]"
    and "last ((frame_words f)[i := w]) =
      (if i = length (frame_words f) - 1 then w else last (frame_words f))"
proof -
  have "drop 10 ((frame_words f)[i := w]) = (drop 10 (frame_words f))[i - 10 := w]"
    using assms by (simp add: drop_update_swap)
  also have "drop 10 (frame_words f) = fr_payload f @ [last (frame_words f)]"
    by (simp add: frame_words_def)
  finally show "butlast (drop 10 ((frame_words f)[i := w])) = (fr_payload f)[i - 10 := w]"
    using assms by (simp add: list_update_append butlast_append list_update_beyond split: nat.split)
  show "last ((frame_words f)[i := w]) =
      (if i = length (frame_words f) - 1 then w else last (frame_words f))"
    using assms frame_words_nonempty [of f] by (auto simp: last_conv_nth nth_list_update)
qed

lemma damaged_payload_crc:
  assumes "frame_wf f" "10 \<le> i" "i < length (frame_words f)" "u16 w" "w \<noteq> frame_words f ! i"
  shows "crc16_ccitt_false (le_bytes (butlast (drop 10 ((frame_words f)[i := w])))) \<noteq>
    last ((frame_words f)[i := w])"
proof (cases "i = length (frame_words f) - 1")
  case True
  then have "(fr_payload f)[i - 10 := w] = fr_payload f"
    by (simp add: list_update_beyond)
  moreover have "frame_words f ! i = crc16_ccitt_false (le_bytes (fr_payload f))"
    unfolding True by (metis frame_words_parts(6) last_conv_nth length_0_conv length_frame_words
        add_is_0 zero_neq_numeral)
  ultimately show ?thesis
    using True assms(5) unfolding damaged_payload_part [OF assms(2,3)] by simp
next
  case False
  then have i: "i - 10 < length (fr_payload f)"
    using assms(2,3) by simp
  have "frame_words f ! i = fr_payload f ! (i - 10)"
    using assms(2) i by (simp add: frame_words_def nth_append)
  moreover have "words16 (fr_payload f)"
    using assms(1) by (simp add: frame_wf_def)
  ultimately show ?thesis
    using crc16_single_word_change [OF _ i assms(4)] assms(5) False
    unfolding damaged_payload_part [OF assms(2,3)] by (simp add: frame_words_parts)
qed

text \<open>
  C17.  Damage in transit: whichever single word of an encoded frame is replaced by a different
  16 bit value, the decoder rejects the result, with the magic error for the first two words, the
  header CRC error up to the header CRC and the payload CRC error from there on.
\<close>

theorem single_word_damage_detected:
  assumes "frame_wf f" "encode_words f = Inr ws" "int (length (fr_payload f)) \<le> m"
    and "i < length ws" "u16 w" "w \<noteq> ws ! i"
  shows "decode_frame (ws[i := w]) m =
    Inl (if i < 2 then FrameError ''bad frame magic''
         else if i < 10 then HeaderCrcError ''header CRC mismatch''
         else PayloadCrcError ''payload CRC mismatch'')"
proof -
  have ws: "ws = frame_words f"
    using assms(1,2) by (simp add: encode_words_Inr)
  let ?d = "(frame_words f)[i := w]"
  have u: "words16 ?d"
    using assms(1,5) by (intro words16_upd words16_frame_words)
  have magic: "take 2 ?d = [MAGIC0, MAGIC1] \<longleftrightarrow> \<not> i < 2"
    using assms(6) frame_words_fields(1,2) [of f] unfolding ws take_update_swap frame_words_parts
    by (auto simp: less_2_cases_iff split: nat.split)
  have u9: "words16 (take 9 ?d)" "words16 (butlast (drop 10 ?d))"
    using u by (auto simp: list_all_iff dest: in_set_takeD in_set_butlastD in_set_dropD)
  have hcrc: "crc16_ccitt_false (le_bytes (take 9 ?d)) = ?d ! 9 \<longleftrightarrow> \<not> i < 10"
  proof (cases "i < 9")
    case True
    then show ?thesis
      using damaged_header_crc [OF assms(1) _ assms(5)] assms(6) ws by auto
  next
    case False
    then have "take 9 ?d = take 9 (frame_words f)"
      by simp
    then show ?thesis
      using False assms(4,6) ws by (cases "i = 9") (auto simp: frame_words_parts)
  qed
  have pcrc: "10 \<le> i \<Longrightarrow> crc16_ccitt_false (le_bytes (butlast (drop 10 ?d))) \<noteq> last ?d"
    using damaged_payload_crc [OF assms(1) _ _ assms(5)] assms(4,6) ws by blast
  show ?thesis
    unfolding ws decode_frame_def
    using magic hcrc pcrc assms(3) u9
    by (simp add: HEADER_WORDS_def crc16_words_Inr frame_words_parts Let_def)
qed

text \<open>A small frame: the response to the first \<open>PING\<close>.\<close>

definition ping_frame :: frame where
  "ping_frame = \<lparr>fr_packet_type = 2, fr_command = 1, fr_sequence = 1, fr_payload = [],
     fr_flags = 0, fr_status = 0, fr_protocol_version = 1\<rparr>"

lemma ping_frame_wf: "frame_wf ping_frame"
  by (simp add: ping_frame_def frame_wf_def u_simps)

lemma ping_frame_payload [simp]: "fr_payload ping_frame = []"
  by (simp add: ping_frame_def)

lemma single_word_damage_detected_witness:
  "decode_frame ((frame_words ping_frame)[3 := 7]) 256 =
     Inl (HeaderCrcError ''header CRC mismatch'')"
  using single_word_damage_detected [of ping_frame "frame_words ping_frame" 256 3 7]
    frame_words_fields(4) [of ping_frame]
  by (simp add: ping_frame_wf encode_words_Inr u_simps) (simp add: ping_frame_def)

end
