(* ===== verification/Frame_Reader.thy ===== *)
theory Frame_Reader
  imports Frame
begin

text \<open>
  Reading one response frame from a byte stream: the inner loop shared by \<open>FrameReader.read_frame\<close>
  (\<open>protocol/frame_reader.py\<close>) and \<open>ProtocolClient._read_response_frame\<close> (\<open>core/client.py\<close>), and
  the polling loop around it.  The deadline of the sources is the number of iterations the loop
  makes before the clock passes it; it is a parameter, so every statement holds for all of them.
\<close>

section \<open>Scanning the buffer\<close>

definition magic_bytes :: "int list" where
  "magic_bytes = [0x5A, 0xA5, 0xA5, 0x5A]"

text \<open>\<open>buffer.find(magic)\<close>, returning the rest of the buffer from the match on.\<close>

fun find_bytes :: "int list \<Rightarrow> int list option" where
  "find_bytes [] = None"
| "find_bytes (b # rest) =
     (if take 4 (b # rest) = magic_bytes then Some (b # rest) else find_bytes rest)"

datatype scan_result = Scan_More | Scan_Frame frame | Scan_Error exc

lemma find_bytes_SomeD:
  "find_bytes b = Some c \<Longrightarrow> take 4 c = magic_bytes \<and> (\<exists>n. b = n @ c)"
proof (induction b)
  case (Cons x b)
  then show ?case
    by (auto split: if_splits)
qed simp

lemma find_bytes_length:
  assumes "find_bytes b = Some c"
  shows "c \<noteq> []" "4 \<le> length c" "length c \<le> length b" "length (tl c) < length b"
proof -
  obtain n where c: "take 4 c = magic_bytes" and b: "b = n @ c"
    using find_bytes_SomeD [OF assms] by blast
  from arg_cong [OF c, of length] show "4 \<le> length c"
    by (simp add: magic_bytes_def)
  then show "c \<noteq> []"
    by auto
  then show "length c \<le> length b" "length (tl c) < length b"
    using b by (auto simp: neq_Nil_conv)
qed

function scan_frames :: "int \<Rightarrow> int list \<Rightarrow> scan_result \<times> int list" where
  "scan_frames max_payload_words buffer =
     (case find_bytes buffer of
        None \<Rightarrow> (Scan_More, if length buffer > 3 then drop (length buffer - 3) buffer else buffer)
      | Some b \<Rightarrow>
          if length b < 20 then (Scan_More, b)
          else let header = words_of_bytes (take 20 b) in
            case crc16_words (take 9 header) of
              Inl e \<Rightarrow> (Scan_Error e, b)
            | Inr crc \<Rightarrow>
                if crc \<noteq> header ! 9 then scan_frames max_payload_words (tl b)
                else if header ! 8 > max_payload_words
                then (Scan_Error (FrameError ''response payload exceeds configured maximum''), b)
                else let frame_size = (10 + nat (header ! 8) + 1) * 2 in
                  if length b < frame_size then (Scan_More, b)
                  else case decode_frame (words_of_bytes (take frame_size b)) max_payload_words of
                    Inr f \<Rightarrow> (Scan_Frame f, drop frame_size b)
                  | Inl e \<Rightarrow> (Scan_Error e, drop frame_size b))"
  by pat_completeness auto
termination
  by (relation "measure (\<lambda>(m, b). length b)") (auto dest: find_bytes_length)

declare scan_frames.simps [simp del]

lemma take_4_append: "4 \<le> length b \<Longrightarrow> take 4 (b @ w) = take 4 b"
  by simp

lemma find_bytes_append_Some: "find_bytes b = Some c \<Longrightarrow> find_bytes (b @ w) = Some (c @ w)"
proof (induction b)
  case (Cons x b)
  have "take 4 ((x # b) @ w) = take 4 (x # b)"
    using find_bytes_length [OF Cons.prems] by (intro take_4_append) linarith
  then show ?case
    using Cons by (auto split: if_splits)
qed simp

lemma find_bytes_append_None:
  "find_bytes b = None \<Longrightarrow> find_bytes (b @ w) = find_bytes (drop (length b - 3) b @ w)"
proof (induction b)
  case (Cons x b)
  show ?case
  proof (cases "length b < 3")
    case False
    then have "take 4 ((x # b) @ w) = take 4 (x # b)"
      by (intro take_4_append) simp
    then have "take 4 ((x # b) @ w) \<noteq> magic_bytes"
      using Cons.prems by (metis find_bytes.simps(2) option.distinct(1))
    then have "find_bytes ((x # b) @ w) = find_bytes (b @ w)"
      by simp
    moreover have "drop (length (x # b) - 3) (x # b) = drop (length b - 3) b"
      using False by (simp add: drop_Cons' Suc_diff_le)
    ultimately show ?thesis
      using Cons by (simp split: if_splits)
  qed simp
qed simp

lemma drop_last_3_append:
  "drop (length (drop (length b - 3) b @ w) - 3) (drop (length b - 3) b @ w) =
   drop (length (b @ w) - 3) (b @ w)"
proof (cases "3 \<le> length b")
  case True
  then show ?thesis
    by (simp add: add.commute)
qed simp

text \<open>One round of the scan.\<close>

datatype scan_step = Scan_Wait "int list" | Scan_Skip "int list" | Scan_Done scan_result "int list"

definition scan_round :: "int \<Rightarrow> int list \<Rightarrow> scan_step" where
  "scan_round m buffer =
     (case find_bytes buffer of
        None \<Rightarrow> Scan_Wait (drop (length buffer - 3) buffer)
      | Some b \<Rightarrow>
          if length b < 20 then Scan_Wait b
          else let header = words_of_bytes (take 20 b) in
            case crc16_words (take 9 header) of
              Inl e \<Rightarrow> Scan_Done (Scan_Error e) b
            | Inr crc \<Rightarrow>
                if crc \<noteq> header ! 9 then Scan_Skip (tl b)
                else if header ! 8 > m
                then Scan_Done (Scan_Error (FrameError ''response payload exceeds configured maximum'')) b
                else let frame_size = (10 + nat (header ! 8) + 1) * 2 in
                  if length b < frame_size then Scan_Wait b
                  else case decode_frame (words_of_bytes (take frame_size b)) m of
                    Inr f \<Rightarrow> Scan_Done (Scan_Frame f) (drop frame_size b)
                  | Inl e \<Rightarrow> Scan_Done (Scan_Error e) (drop frame_size b))"

lemma scan_frames_round:
  "scan_frames m b =
    (case scan_round m b of Scan_Wait c \<Rightarrow> (Scan_More, c) | Scan_Skip c \<Rightarrow> scan_frames m c
     | Scan_Done r c \<Rightarrow> (r, c))"
  unfolding scan_frames.simps [of m b] scan_round_def
  by (cases "find_bytes b") (auto simp: Let_def split: sum.split)

lemma scan_round_shrinks:
  "scan_round m b = Scan_Skip c \<Longrightarrow> length c < length b"
  "scan_round m b = Scan_Wait c \<Longrightarrow> length c \<le> length b"
  by (auto simp: scan_round_def Let_def find_bytes_length(3) dest: find_bytes_length(4)
      split: option.splits if_splits sum.splits)

lemma scan_round_append_Some:
  assumes "find_bytes b = Some c"
  shows "scan_round m (b @ w) =
    (case scan_round m b of Scan_Wait d \<Rightarrow> scan_round m (d @ w)
     | Scan_Skip d \<Rightarrow> Scan_Skip (d @ w) | Scan_Done r d \<Rightarrow> Scan_Done r (d @ w))"
proof -
  have ne: "c \<noteq> []" and c4: "find_bytes c = Some c"
    using find_bytes_SomeD [OF assms] find_bytes_length(1) [OF assms] by (auto simp: neq_Nil_conv)
  have bw: "find_bytes (b @ w) = Some (c @ w)" and cw: "find_bytes (c @ w) = Some (c @ w)"
    using find_bytes_append_Some assms c4 by blast+
  have eq: "scan_round m (b @ w) = scan_round m (c @ w)"
    unfolding scan_round_def bw cw by (simp only: option.case)
  have tl: "tl (c @ w) = tl c @ w"
    using ne by (simp add: tl_append split: list.split)
  let ?h = "words_of_bytes (take 20 c)"
  let ?n = "(10 + nat (?h ! 8) + 1) * 2"
  show ?thesis
  proof (cases "length c < 20 \<or> (\<exists>crc. crc16_words (take 9 ?h) = Inr crc \<and> crc = ?h ! 9 \<and>
      \<not> ?h ! 8 > m \<and> length c < ?n)")
    case True
    then have "scan_round m b = Scan_Wait c"
      unfolding scan_round_def assms by (auto simp: Let_def)
    then show ?thesis
      using eq by simp
  next
    case False
    then have t: "take 20 (c @ w) = take 20 c" "\<not> length c < 20" "\<not> length (c @ w) < 20"
      by simp_all
    show ?thesis
    proof (cases "length c < ?n")
      case True
      then show ?thesis
        using False t unfolding scan_round_def assms bw
        by (cases "crc16_words (take 9 ?h)") (auto simp: Let_def tl)
    next
      case False
      then have "take ?n (c @ w) = take ?n c" "drop ?n (c @ w) = drop ?n c @ w"
        "\<not> length c < ?n" "\<not> length (c @ w) < ?n"
        by simp_all
      then show ?thesis
        using t unfolding scan_round_def assms bw option.case Let_def
        by (auto simp: tl simp del: take_append drop_append length_append split: sum.splits)
    qed
  qed
qed

lemma scan_round_append:
  "scan_round m (b @ w) =
    (case scan_round m b of Scan_Wait d \<Rightarrow> scan_round m (d @ w)
     | Scan_Skip d \<Rightarrow> Scan_Skip (d @ w) | Scan_Done r d \<Rightarrow> Scan_Done r (d @ w))"
proof (cases "find_bytes b")
  case None
  let ?d = "drop (length b - 3) b"
  have "scan_round m (b @ w) = scan_round m (?d @ w)"
    unfolding scan_round_def drop_last_3_append [of b w] find_bytes_append_None [OF None, of w] ..
  then show ?thesis
    by (simp add: scan_round_def [of m b] None)
qed (rule scan_round_append_Some)

text \<open>The scan resumes where it stopped when more bytes arrive.\<close>

lemma scan_frames_append:
  "scan_frames m (b @ w) =
    (case scan_frames m b of
       (Scan_More, c) \<Rightarrow> scan_frames m (c @ w) | (r, c) \<Rightarrow> (r, c @ w))"
proof (induction "length b" arbitrary: b rule: less_induct)
  case less
  show ?case
  proof (cases "scan_round m b")
    case (Scan_Wait c)
    then have "scan_frames m (b @ w) = scan_frames m (c @ w)"
      unfolding scan_frames_round [of m "b @ w"] scan_frames_round [of m "c @ w"] scan_round_append [of m b]
      by simp
    then show ?thesis
      unfolding scan_frames_round [of m b] Scan_Wait by simp
  next
    case (Scan_Skip c)
    then show ?thesis
      using less.hyps [OF scan_round_shrinks(1) [OF Scan_Skip]]
      unfolding scan_frames_round [of m "b @ w"] scan_frames_round [of m b] scan_round_append [of m b]
      by simp
  next
    case (Scan_Done r c)
    moreover have "r \<noteq> Scan_More"
      using Scan_Done by (auto simp: scan_round_def Let_def split: option.splits if_splits sum.splits)
    ultimately show ?thesis
      unfolding scan_frames_round [of m "b @ w"] scan_frames_round [of m b] scan_round_append [of m b]
      by (simp split: scan_result.split)
  qed
qed

section \<open>The polling loop\<close>

text \<open>
  \<open>read_loop timed_out read max polls buffer\<close>: the first argument is the exception raised when the
  deadline has passed, \<open>read\<close> the call that returns the bytes available now, \<open>polls\<close> the number
  of iterations that find the deadline not reached.
\<close>

fun read_loop ::
  "exc \<Rightarrow> ('t, int list) sm \<Rightarrow> int \<Rightarrow> nat \<Rightarrow> int list \<Rightarrow> 't \<Rightarrow> frame res \<times> int list \<times> 't" where
  "read_loop timed_out read m 0 buffer t = (Inl timed_out, buffer, t)"
| "read_loop timed_out read m (Suc polls) buffer t =
     (case read t of
        (Inl e, t') \<Rightarrow> (Inl e, buffer, t')
      | (Inr chunk, t') \<Rightarrow>
          if chunk = [] then read_loop timed_out read m polls buffer t'
          else (case scan_frames m (buffer @ chunk) of
                  (Scan_More, b) \<Rightarrow> read_loop timed_out read m polls b t'
                | (Scan_Frame f, b) \<Rightarrow> (Inr f, b, t')
                | (Scan_Error e, b) \<Rightarrow> (Inl e, b, t')))"

text \<open>
  \<open>FrameReader.read_frame\<close>: the state is the reader's buffer and the transport, whose
  \<open>read_some\<close> is a parameter.
\<close>

definition read_frame ::
  "(int \<Rightarrow> ('t, int list) sm) \<Rightarrow> int \<Rightarrow> int \<Rightarrow> nat \<Rightarrow> int list \<times> 't \<Rightarrow> frame res \<times> int list \<times> 't" where
  "read_frame read_some timeout_ms max_payload_words polls = (\<lambda>(buffer, t).
     if timeout_ms \<le> 0 then (Inl (ValueError ''timeout_ms must be positive''), buffer, t)
     else read_loop (TransportTimeoutError ''response byte read timed out'') (read_some 4096)
            max_payload_words polls buffer t)"

text \<open>What the transport delivers in \<open>n\<close> reads.\<close>

fun reads :: "('t, int list) sm \<Rightarrow> nat \<Rightarrow> 't \<Rightarrow> int list res list" where
  "reads rd 0 t = []"
| "reads rd (Suc n) t = (case rd t of (r, t') \<Rightarrow> r # reads rd n t')"

lemma take_20_le: "take 20 (le_bytes (frame_words f) @ w) = le_bytes (take 10 (frame_words f))"
proof -
  have f: "frame_words f = take 10 (frame_words f) @ drop 10 (frame_words f)"
    by simp
  have l: "length (le_bytes (take 10 (frame_words f))) = 20"
    by simp
  have "take 20 (le_bytes (frame_words f) @ w) =
    take 20 (le_bytes (take 10 (frame_words f)) @ le_bytes (drop 10 (frame_words f)) @ w)"
    by (subst f, simp only: le_bytes_simps append_assoc)
  also have "\<dots> = le_bytes (take 10 (frame_words f))"
    using l by (simp only: take_append) simp
  finally show ?thesis .
qed

lemma find_bytes_noise:
  "0x5A \<notin> set n \<Longrightarrow> find_bytes (n @ magic_bytes @ w) = Some (magic_bytes @ w)"
  by (induction n) (auto simp: magic_bytes_def)

lemma le_bytes_frame_magic: "\<exists>w. le_bytes (frame_words f) = magic_bytes @ w"
  by (simp add: frame_words_def header_without_crc_def MAGIC0_def MAGIC1_def magic_bytes_def)

lemma scan_frames_frame:
  assumes "frame_wf f" "int (length (fr_payload f)) \<le> m" "0x5A \<notin> set n"
  shows "scan_frames m (n @ le_bytes (frame_words f) @ w) = (Scan_Frame f, w)"
proof -
  let ?b = "le_bytes (frame_words f)"
  obtain v where v: "?b = magic_bytes @ v"
    using le_bytes_frame_magic by blast
  have fb: "find_bytes (n @ ?b @ w) = Some (?b @ w)"
    unfolding v using find_bytes_noise [OF assms(3), of "v @ w"] by simp
  have u: "words16 (frame_words f)"
    by (rule words16_frame_words [OF assms(1)])
  then have h: "words_of_bytes (take 20 (?b @ w)) = take 10 (frame_words f)"
    unfolding take_20_le by (intro words_of_le_bytes words16_take)
  have parts: "take 9 (take 10 (frame_words f)) = header_without_crc f"
    "take 10 (frame_words f) ! 9 = crc16_ccitt_false (le_bytes (header_without_crc f))"
    "take 10 (frame_words f) ! 8 = int (length (fr_payload f))"
    by (simp_all add: min_def frame_words_parts)
  have n: "(10 + nat (int (length (fr_payload f))) + 1) * 2 = length ?b"
    by simp
  have d: "decode_frame (words_of_bytes ?b) m = Inr f"
    using decode_encode [OF assms(1,2)] by (simp only: words_of_le_bytes [OF u])
  have "scan_round m (n @ ?b @ w) = Scan_Done (Scan_Frame f) w"
    unfolding scan_round_def fb option.case Let_def h parts n
    using assms(1,2) words16_header [OF assms(1)]
    by (simp add: crc16_words_Inr d)
  then show ?thesis
    by (simp add: scan_frames_round)
qed

lemma scan_frames_prefix:
  assumes "frame_wf f" "int (length (fr_payload f)) \<le> m" "0x5A \<notin> set n"
    and "b @ w = n @ le_bytes (frame_words f)" "w \<noteq> []"
  shows "fst (scan_frames m b) = Scan_More"
proof -
  have full: "scan_frames m (b @ w) = (Scan_Frame f, [])"
    using scan_frames_frame [OF assms(1-3), of "[]"] assms(4) by simp
  show ?thesis
    using full assms(5) scan_frames_append [of m b w]
    by (cases "scan_frames m b") (auto split: scan_result.splits)
qed

lemma read_loop_frame:
  assumes "frame_wf f" "int (length (fr_payload f)) \<le> m" "0x5A \<notin> set n"
    and "reads rd polls t = map Inr chunks"
    and "seen @ concat chunks = n @ le_bytes (frame_words f)" "concat chunks \<noteq> []"
    and "\<And>w. scan_frames m (buffer @ w) = scan_frames m (seen @ w)"
  shows "\<exists>t'. read_loop timed_out rd m polls buffer t = (Inr f, [], t')"
  using assms(4-7)
proof (induction polls arbitrary: chunks seen buffer t)
  case (Suc polls)
  then obtain c cs where chunks: "chunks = c # cs"
    by (cases chunks) auto
  obtain r t' where rt: "rd t = (r, t')"
    by (cases "rd t")
  with Suc.prems(1) have r: "r = Inr c" and cs: "reads rd polls t' = map Inr cs"
    by (auto simp: chunks)
  show ?case
  proof (cases "c = []")
    case True
    then show ?thesis
      using Suc.IH [OF cs, of seen buffer] Suc.prems by (simp add: rt r chunks)
  next
    case False
    obtain s b where sb: "scan_frames m (buffer @ c) = (s, b)"
      by (cases "scan_frames m (buffer @ c)")
    have sc: "scan_frames m (seen @ c) = (s, b)"
      using sb Suc.prems(4) by simp
    show ?thesis
    proof (cases "concat cs = []")
      case True
      then have "seen @ c = n @ le_bytes (frame_words f)"
        using Suc.prems(2) by (simp only: chunks concat.simps append_Nil2)
      then have "(s, b) = (Scan_Frame f, [])"
        using scan_frames_frame [OF assms(1-3), of "[]"] sc by simp
      then show ?thesis
        using False sb by (simp add: rt r)
    next
      case rest: False
      then have s: "s = Scan_More"
        using scan_frames_prefix [OF assms(1-3), of "seen @ c" "concat cs"] Suc.prems(2) sc
        by (simp add: chunks)
      have "scan_frames m (b @ w) = scan_frames m ((seen @ c) @ w)" for w
        using scan_frames_append [of m "seen @ c" w] sc s by simp
      then have "\<exists>t''. read_loop timed_out rd m polls b t' = (Inr f, [], t'')"
        using Suc.IH [OF cs, of "seen @ c" b] Suc.prems(2) rest by (simp add: chunks)
      then show ?thesis
        using False sb s by (simp add: rt r)
    qed
  qed
qed simp

text \<open>
  C20.  Receiving a response: when the reads made before the deadline deliver, in any number of
  pieces (empty ones included), bytes without \<open>0x5A\<close> followed by the encoding of a well-formed
  frame that respects the configured maximum, \<open>read_frame\<close> returns exactly that frame and leaves
  nothing in its buffer.
\<close>

theorem read_frame_any_chunks:
  assumes "frame_wf f" "int (length (fr_payload f)) \<le> m" "0 < timeout_ms"
    and "reads (read_some 4096) polls t = map Inr chunks"
    and "0x5A \<notin> set n" "encode_bytes f = Inr bs" "concat chunks = n @ bs"
  shows "\<exists>t'. read_frame read_some timeout_ms m polls ([], t) = (Inr f, [], t')"
proof -
  have bs: "bs = le_bytes (frame_words f)"
    using assms(1,6) by (simp add: encode_bytes_Inr)
  then have "bs \<noteq> []"
    using le_bytes_frame_magic [of f] by (auto simp: magic_bytes_def)
  then show ?thesis
    using read_loop_frame [OF assms(1,2,5,4), of "[]" "[]"] assms(3,7) bs
    by (simp add: read_frame_def)
qed

section \<open>An oversized response stays in the buffer\<close>

lemma scan_frames_oversized:
  assumes "frame_wf f" "m < int (length (fr_payload f))"
  shows "scan_frames m (le_bytes (frame_words f) @ w) =
    (Scan_Error (FrameError ''response payload exceeds configured maximum''),
     le_bytes (frame_words f) @ w)"
proof -
  let ?b = "le_bytes (frame_words f)"
  obtain v where v: "?b = magic_bytes @ v"
    using le_bytes_frame_magic by blast
  have fb: "find_bytes (?b @ w) = Some (?b @ w)"
    unfolding v using find_bytes_noise [of "[]" "v @ w"] by simp
  have h: "words_of_bytes (take 20 (?b @ w)) = take 10 (frame_words f)"
    unfolding take_20_le using words16_frame_words [OF assms(1)]
    by (intro words_of_le_bytes words16_take)
  have parts: "take 9 (take 10 (frame_words f)) = header_without_crc f"
    "take 10 (frame_words f) ! 9 = crc16_ccitt_false (le_bytes (header_without_crc f))"
    "take 10 (frame_words f) ! 8 = int (length (fr_payload f))"
    by (simp_all add: min_def frame_words_parts)
  have "scan_round m (?b @ w) =
      Scan_Done (Scan_Error (FrameError ''response payload exceeds configured maximum'')) (?b @ w)"
    unfolding scan_round_def fb option.case Let_def h parts
    using assms(2) words16_header [OF assms(1)] by (simp add: crc16_words_Inr)
  then show ?thesis
    by (simp add: scan_frames_round)
qed

text \<open>
  An oversized response is never discarded: once the buffer of a \<open>FrameReader\<close> starts with a
  valid frame whose payload exceeds the caller's maximum, every later \<open>read_frame\<close> that receives
  any byte raises the same \<open>FrameError\<close>, and the buffer only grows.
\<close>

theorem oversized_response_sticks:
  assumes "frame_wf f" "m < int (length (fr_payload f))" "encode_bytes f = Inr bs"
    and "read_some 4096 t = (Inr chunk, t')" "chunk \<noteq> []" "0 < timeout_ms"
  shows "read_frame read_some timeout_ms m (Suc polls) (bs @ rest, t) =
    (Inl (FrameError ''response payload exceeds configured maximum''), bs @ rest @ chunk, t')"
proof -
  have bs: "bs = le_bytes (frame_words f)"
    using assms(1,3) by (simp add: encode_bytes_Inr)
  show ?thesis
    using assms(4-6) scan_frames_oversized [OF assms(1,2), of "rest @ chunk"]
    by (simp add: read_frame_def bs)
qed

section \<open>Examples\<close>

text \<open>A transport that delivers a list of chunks, one per read, and nothing after them.\<close>

fun chunk_read :: "int \<Rightarrow> (int list list, int list) sm" where
  "chunk_read n [] = (Inr [], [])"
| "chunk_read n (c # cs) = (Inr c, cs)"

lemma read_frame_any_chunks_witness:
  "\<exists>t'. read_frame chunk_read 5000 256 2
      ([], [take 5 (le_bytes (frame_words ping_frame)), drop 5 (le_bytes (frame_words ping_frame))]) =
    (Inr ping_frame, [], t')"
  by (rule read_frame_any_chunks [of _ _ _ _ _ _
        "[take 5 (le_bytes (frame_words ping_frame)), drop 5 (le_bytes (frame_words ping_frame))]"
        "[]" "le_bytes (frame_words ping_frame)"])
    (simp_all add: ping_frame_wf encode_bytes_Inr numeral_2_eq_2)

definition long_frame :: frame where
  "long_frame = ping_frame\<lparr>fr_payload := [1, 2, 3]\<rparr>"

lemma long_frame_wf: "frame_wf long_frame"
  by (simp add: long_frame_def ping_frame_def frame_wf_def u_simps)

lemma oversized_response_sticks_witness:
  "read_frame chunk_read 5000 2 4 (le_bytes (frame_words long_frame) @ [], [[1], [2]]) =
    (Inl (FrameError ''response payload exceeds configured maximum''),
     le_bytes (frame_words long_frame) @ [] @ [1], [[2]])"
  using oversized_response_sticks [of long_frame 2 "le_bytes (frame_words long_frame)" chunk_read
      "[[1], [2]]" "[1]" "[[2]]" 5000 3 "[]"]
  by (simp add: long_frame_wf encode_bytes_Inr) (simp add: long_frame_def numeral_eq_Suc)

end
