(* ===== verification/Io_Device.thy ===== *)
theory Io_Device
  imports Frame_Reader
begin

text \<open>
  The device boundary \<open>PcIoDevice\<close> (\<open>io/base.py\<close>): its methods as a record of functions on the
  device's own state, the default \<open>write_bytes\<close> built from \<open>write_word\<close>, the argument checks, and
  what it means that a device delivers some bytes within a number of reads.
\<close>

section \<open>The interface\<close>

text \<open>
  \<open>io_polls\<close> stands for the clock: the number of times a reader finds the deadline, the given number
  of milliseconds away, not reached.
\<close>

record 'd pc_io_device =
  io_open :: "('d, unit) sm"
  io_wait_slave :: "int option \<Rightarrow> ('d, unit) sm"
  io_clear_input :: "('d, unit) sm"
  io_write_bytes :: "int list \<Rightarrow> ('d, int) sm"
  io_read_available :: "('d, int list) sm"
  io_input_bytes_pending :: "'d \<Rightarrow> int option"
  io_close :: "('d, unit) sm"
  io_polls :: "int \<Rightarrow> nat"

definition validate_timeout :: "int \<Rightarrow> unit res" where
  "validate_timeout timeout_ms =
     (if timeout_ms \<le> 0 then Inl (ValueError ''timeout_ms must be positive'') else Inr ())"

definition validate_word :: "int \<Rightarrow> int res" where
  "validate_word word =
     (if word < 0 \<or> word > 0xFFFF then Inl (ValueError ''word must fit uint16'') else Inr word)"

fun write_words :: "(int \<Rightarrow> ('d, unit) sm) \<Rightarrow> int list \<Rightarrow> ('d, unit) sm" where
  "write_words write_word (low # high # rest) =
     thenM (write_word (low OR push_bit 8 high)) (write_words write_word rest)"
| "write_words write_word _ = returnM ()"

definition write_bytes :: "(int \<Rightarrow> ('d, unit) sm) \<Rightarrow> int list \<Rightarrow> ('d, int) sm" where
  "write_bytes write_word data =
     (if length data mod 2 \<noteq> 0
      then raiseM (ValueError ''word-stream byte writes must contain complete words'')
      else thenM (write_words write_word data) (returnM (int (length data))))"

lemma validate_word_Inr [simp]: "u16 w \<Longrightarrow> validate_word w = Inr w"
  by (simp add: validate_word_def u_simps)

lemma validate_timeout_Inr [simp]: "0 < t \<Longrightarrow> validate_timeout t = Inr ()"
  by (simp add: validate_timeout_def)

lemma byte_pair: "u16 w \<Longrightarrow> (w mod 0x100) OR push_bit 8 (w div 0x100) = w"
  using or_push_bit_eq_add [of "w mod 0x100" 8 "w div 0x100"] by simp

lemma write_words_le_bytes: "words16 ws \<Longrightarrow> write_words write_word (le_bytes ws) = forM ws write_word"
  by (induction ws) (simp_all add: byte_pair)

lemma write_bytes_le_bytes:
  "words16 ws \<Longrightarrow> write_bytes write_word (le_bytes ws) =
     thenM (forM ws write_word) (returnM (int (2 * length ws)))"
  by (simp add: write_bytes_def write_words_le_bytes)

section \<open>Delivery\<close>

text \<open>
  Within at most \<open>n\<close> reads the device hands over exactly the given bytes, in pieces (some possibly
  empty), and is then in state \<open>d'\<close>.
\<close>

fun delivers :: "('d, int list) sm \<Rightarrow> nat \<Rightarrow> 'd \<Rightarrow> int list \<Rightarrow> 'd \<Rightarrow> bool" where
  "delivers rd 0 d bytes d' \<longleftrightarrow> False"
| "delivers rd (Suc n) d bytes d' \<longleftrightarrow>
     (case rd d of (Inl e, _) \<Rightarrow> False
      | (Inr chunk, d1) \<Rightarrow>
          (if chunk = bytes then d' = d1
           else take (length chunk) bytes = chunk \<and> delivers rd n d1 (drop (length chunk) bytes) d'))"

text \<open>
  The polling loop of \<open>ProtocolClient._read_response_frame\<close>: it is the loop of \<open>Frame_Reader\<close> that
  also records the raw bytes and forgets its buffer.
\<close>

fun response_loop ::
  "('d, int list) sm \<Rightarrow> int \<Rightarrow> nat \<Rightarrow> int list \<Rightarrow> int list \<Rightarrow> 'd \<Rightarrow> (frame res \<times> int list) \<times> 'd" where
  "response_loop rd m 0 buffer raw d = ((Inl (IoTimeoutError ''response byte read timed out''), raw), d)"
| "response_loop rd m (Suc polls) buffer raw d =
     (case rd d of
        (Inl e, d') \<Rightarrow> ((Inl e, raw), d')
      | (Inr chunk, d') \<Rightarrow>
          if chunk = [] then response_loop rd m polls buffer raw d'
          else (case scan_frames m (buffer @ chunk) of
                  (Scan_More, b) \<Rightarrow> response_loop rd m polls b (raw @ chunk) d'
                | (Scan_Frame f, b) \<Rightarrow> ((Inr f, raw @ chunk), d')
                | (Scan_Error e, b) \<Rightarrow> ((Inl e, raw @ chunk), d')))"

lemma response_loop_read_loop:
  "fst (fst (response_loop rd m polls buffer raw d)) =
     fst (read_loop (IoTimeoutError ''response byte read timed out'') rd m polls buffer d)"
  by (induction rd m polls buffer raw d rule: response_loop.induct)
    (auto split: prod.splits sum.splits scan_result.splits)

lemma response_loop_delivers:
  assumes "frame_wf f" "int (length (fr_payload f)) \<le> m"
    and "delivers rd polls d bytes d'"
    and "seen @ bytes = le_bytes (frame_words f)" "bytes \<noteq> []"
    and "\<And>w. scan_frames m (buffer @ w) = scan_frames m (seen @ w)"
  shows "response_loop rd m polls buffer raw d = ((Inr f, raw @ bytes), d')"
  using assms(3-6)
proof (induction polls arbitrary: d bytes seen buffer raw)
  case (Suc polls)
  note frame = scan_frames_frame [OF assms(1,2), of "[]"]
  obtain c d1 where c: "rd d = (Inr c, d1)"
    using Suc.prems(1) by (auto split: prod.splits sum.splits)
  obtain s b where sb: "scan_frames m (buffer @ c) = (s, b)"
    by (cases "scan_frames m (buffer @ c)")
  have sc: "scan_frames m (seen @ c) = (s, b)"
    using sb Suc.prems(4) by simp
  show ?case
  proof (cases "c = bytes")
    case True
    then have "(s, b) = (Scan_Frame f, [])"
      using frame [of "[]"] sc Suc.prems(2) by simp
    then show ?thesis
      using True sb Suc.prems by (auto simp: c)
  next
    case False
    then have rest: "take (length c) bytes = c" "delivers rd polls d1 (drop (length c) bytes) d'"
      using Suc.prems(1) by (auto simp: c)
    have bytes: "bytes = c @ drop (length c) bytes"
      using rest(1) by (metis append_take_drop_id)
    then have ne: "drop (length c) bytes \<noteq> []"
      using False by auto
    show ?thesis
    proof (cases "c = []")
      case True
      then show ?thesis
        using Suc.IH [of d1 bytes seen buffer raw] Suc.prems rest by (simp add: c)
    next
      case nonempty: False
      have all: "(seen @ c) @ drop (length c) bytes = le_bytes (frame_words f)"
        using Suc.prems(2) bytes by simp
      then have s: "s = Scan_More"
        using scan_frames_prefix [OF assms(1,2), of "[]" "seen @ c" "drop (length c) bytes"] ne sc by simp
      have "scan_frames m (b @ w) = scan_frames m ((seen @ c) @ w)" for w
        using scan_frames_append [of m "seen @ c" w] sc s by simp
      then have "response_loop rd m polls b (raw @ c) d1 =
          ((Inr f, (raw @ c) @ drop (length c) bytes), d')"
        using Suc.IH [OF rest(2) all ne, of b] by simp
      then show ?thesis
        using nonempty sb s bytes by (simp add: c)
    qed
  qed
qed simp

lemma response_loop_frame:
  assumes "frame_wf f" "int (length (fr_payload f)) \<le> m"
    and "delivers rd polls d (le_bytes (frame_words f)) d'"
  shows "response_loop rd m polls [] [] d = ((Inr f, le_bytes (frame_words f)), d')"
proof -
  have "le_bytes (frame_words f) \<noteq> []"
    using le_bytes_frame_magic [of f] by (auto simp: magic_bytes_def)
  then show ?thesis
    using response_loop_delivers [OF assms, of "[]" "[]" "[]"] by simp
qed

text \<open>A device that stays silent makes the loop end in a timeout.\<close>

lemma response_loop_silent:
  "rd d = (Inr [], d) \<Longrightarrow>
     response_loop rd m polls buffer raw d = ((Inl (IoTimeoutError ''response byte read timed out''), raw), d)"
  by (induction polls) simp_all

end
