(* ===== verification/Client.thy ===== *)
theory Client
  imports Io_Device
begin

text \<open>
  The synchronous request/response client \<open>ProtocolClient\<close> (\<open>core/client.py\<close>), over an abstract
  device: the state of the client contains the device's state, and a call of a device method is a
  step on that part.  \<open>time.sleep\<close> has no effect on either; the trace callback records its calls.
\<close>

section \<open>State\<close>

datatype trace_label = Trace_TX int int | Trace_RX int | Trace_Decode_Error int | Trace_Timeout int

record 'd client =
  cl_device :: 'd
  cl_default_timeout_ms :: int
  cl_post_write_delay_ms :: int
  cl_clear_input_before_request :: bool
  cl_sequence :: int
  cl_device_info :: "device_info option"
  cl_trace_bytes :: "(trace_label \<times> int list) list option"

definition ProtocolClient :: "'d \<Rightarrow> int \<Rightarrow> int \<Rightarrow> bool \<Rightarrow> 'd client res" where
  "ProtocolClient device default_timeout_ms post_write_delay_ms clear_input_before_request =
     (if default_timeout_ms \<le> 0 then Inl (ValueError ''default_timeout_ms must be positive'')
      else if post_write_delay_ms < 0
      then Inl (ValueError ''post_write_delay_ms must be non-negative'')
      else Inr
        \<lparr>cl_device = device, cl_default_timeout_ms = default_timeout_ms,
         cl_post_write_delay_ms = post_write_delay_ms,
         cl_clear_input_before_request = clear_input_before_request,
         cl_sequence = 0, cl_device_info = None, cl_trace_bytes = None\<rparr>)"

definition on_device :: "('d, 'a) sm \<Rightarrow> ('d client, 'a) sm" where
  "on_device m c = (case m (cl_device c) of (r, d) \<Rightarrow> (r, c\<lparr>cl_device := d\<rparr>))"

definition trace :: "trace_label \<Rightarrow> int list \<Rightarrow> ('d client, unit) sm" where
  "trace label data =
     modM (\<lambda>c. c\<lparr>cl_trace_bytes := map_option (\<lambda>log. log @ [(label, data)]) (cl_trace_bytes c)\<rparr>)"

section \<open>One exchange\<close>

definition read_response_frame :: "'d pc_io_device \<Rightarrow> int \<Rightarrow> ('d client, frame res \<times> int list) sm" where
  "read_response_frame dev timeout_ms =
     (if timeout_ms \<le> 0 then returnM (Inl (ValueError ''timeout_ms must be positive''), [])
      else bindM (getM (\<lambda>c. case cl_device_info c of Some info \<Rightarrow> di_max_payload_words info | None \<Rightarrow> 0xFFFF))
        (\<lambda>max_payload. on_device (\<lambda>d.
          case response_loop (io_read_available dev) max_payload (io_polls dev timeout_ms) [] [] d of
            (outcome, d') \<Rightarrow> (Inr outcome, d'))))"

definition response_payload :: "frame \<Rightarrow> frame \<Rightarrow> int list res" where
  "response_payload request response =
     (case validate_response_sequence (fr_sequence request) (fr_sequence response) of
        Inl (SequenceMismatchError m) \<Rightarrow> Inl (ProtocolDecodeError m)
      | Inl e \<Rightarrow> Inl e
      | Inr _ \<Rightarrow>
          if fr_command response \<noteq> fr_command request
          then Inl (ProtocolDecodeError ''response command does not match request'')
          else if fr_packet_type response \<notin>
              {packet_type_code PKT_RESPONSE, packet_type_code PKT_ERROR_RESPONSE}
          then Inl (ProtocolDecodeError ''unexpected response packet type'')
          else if fr_status response \<noteq> status_code ST_OK
          then Inl (ProtocolStatusError (fr_command response) (fr_status response))
          else if fr_packet_type response \<noteq> packet_type_code PKT_RESPONSE
          then Inl (ProtocolDecodeError ''OK status requires a normal response packet'')
          else Inr (fr_payload response))"

definition bump_sequence :: "('d client, int) sm" where
  "bump_sequence = bindM (getM (\<lambda>c. next_sequence (cl_sequence c))) (\<lambda>r. bindM (liftM r) (\<lambda>q.
     thenM (modM (\<lambda>c. c\<lparr>cl_sequence := q\<rparr>)) (returnM q)))"

definition request_of :: "int \<Rightarrow> int list \<Rightarrow> int \<Rightarrow> frame res" where
  "request_of command payload sequence =
     Frame (packet_type_code PKT_REQUEST) command sequence payload 0 0 PROTOCOL_VERSION"

definition await_response ::
  "'d pc_io_device \<Rightarrow> int \<Rightarrow> int \<Rightarrow> ('d client, frame) sm" where
  "await_response dev command timeout =
     bindM (read_response_frame dev timeout) (\<lambda>(outcome, raw).
       case outcome of
         Inr response \<Rightarrow> thenM (trace (Trace_RX command) raw) (returnM response)
       | Inl e \<Rightarrow>
           if is_frame_error e
           then thenM (trace (Trace_Decode_Error command) raw) (raiseM (ProtocolDecodeError (exc_msg e)))
           else (case e of
             IoTimeoutError _ \<Rightarrow>
               thenM (trace (Trace_Timeout command) raw) (raiseM (IoTimeoutError ''response timed out''))
           | _ \<Rightarrow> raiseM e))"

definition client_transact ::
  "'d pc_io_device \<Rightarrow> int \<Rightarrow> int list \<Rightarrow> int option \<Rightarrow> ('d client, int list) sm" where
  "client_transact dev command payload timeout_ms =
     bindM (getM cl_clear_input_before_request) (\<lambda>clear.
     thenM (if clear then on_device (io_clear_input dev) else returnM ())
     (bindM bump_sequence (\<lambda>q.
      bindM (liftM (request_of command payload q)) (\<lambda>request.
      bindM (liftM (encode_bytes request)) (\<lambda>request_bytes.
      thenM (trace (Trace_TX command q) request_bytes)
      (bindM (on_device (io_write_bytes dev request_bytes)) (\<lambda>_.
       bindM (getM (\<lambda>c. case timeout_ms of None \<Rightarrow> cl_default_timeout_ms c | Some t \<Rightarrow> t)) (\<lambda>timeout.
       bindM (await_response dev command timeout) (\<lambda>response.
         liftM (response_payload request response))))))))))"

section \<open>Connecting\<close>

definition client_close :: "'d pc_io_device \<Rightarrow> ('d client, unit) sm" where
  "client_close dev = on_device (io_close dev)"

text \<open>\<open>except Exception: self.device.close(); raise\<close>\<close>

definition close_on :: "'d pc_io_device \<Rightarrow> (exc \<Rightarrow> bool) \<Rightarrow> (exc \<Rightarrow> exc) \<Rightarrow> ('d client, 'a) sm \<Rightarrow> ('d client, 'a) sm" where
  "close_on dev caught raised m =
     catchM m (\<lambda>e. if caught e then thenM (client_close dev) (raiseM (raised e)) else raiseM e)"

definition connect :: "'d pc_io_device \<Rightarrow> int option \<Rightarrow> ('d client, unit) sm" where
  "connect dev wait_slave_timeout_ms =
     thenM (on_device (io_open dev))
     (thenM (close_on dev is_exception id (on_device (io_wait_slave dev wait_slave_timeout_ms)))
       (modM (\<lambda>c. c\<lparr>cl_sequence := 0, cl_device_info := None\<rparr>)))"

definition timeout_or :: "int \<Rightarrow> int option \<Rightarrow> int option" where
  "timeout_or preset timeout_ms = Some (case timeout_ms of None \<Rightarrow> preset | Some t \<Rightarrow> t)"

definition get_device_info :: "'d pc_io_device \<Rightarrow> int option \<Rightarrow> ('d client, device_info) sm" where
  "get_device_info dev timeout_ms =
     bindM (client_transact dev (command_code CMD_GET_DEVICE_INFO) [] (timeout_or 5000 timeout_ms)) (\<lambda>words.
     bindM (liftM (device_info_from_words words)) (\<lambda>info.
     thenM (modM (\<lambda>c. c\<lparr>cl_device_info := Some info\<rparr>)) (returnM info)))"

definition is_io_timeout :: "exc \<Rightarrow> bool" where
  "is_io_timeout e = (case e of IoTimeoutError _ \<Rightarrow> True | _ \<Rightarrow> False)"

definition client_open :: "'d pc_io_device \<Rightarrow> int option \<Rightarrow> int \<Rightarrow> ('d client, device_info) sm" where
  "client_open dev wait_slave_timeout_ms device_info_timeout_ms =
     thenM (connect dev wait_slave_timeout_ms)
       (close_on dev is_io_timeout (\<lambda>_. IoTimeoutError ''GetDeviceInfo response timed out'')
         (get_device_info dev (Some device_info_timeout_ms)))"

section \<open>Typed commands\<close>

definition issue :: "'d pc_io_device \<Rightarrow> command \<Rightarrow> int list \<Rightarrow> int option \<Rightarrow> ('d client, unit) sm" where
  "issue dev cmd payload timeout_ms =
     thenM (client_transact dev (command_code cmd) payload timeout_ms) (returnM ())"

definition ping :: "'d pc_io_device \<Rightarrow> int option \<Rightarrow> ('d client, unit) sm" where
  "ping dev timeout_ms = issue dev CMD_PING [] (timeout_or 5000 timeout_ms)"

definition get_last_error :: "'d pc_io_device \<Rightarrow> ('d client, error_detail) sm" where
  "get_last_error dev =
     bindM (client_transact dev (command_code CMD_GET_LAST_ERROR) [] (Some 5000)) (\<lambda>words.
       liftM (error_detail_from_words words))"

definition get_metadata_summary :: "'d pc_io_device \<Rightarrow> int option \<Rightarrow> ('d client, metadata_summary) sm" where
  "get_metadata_summary dev timeout_ms =
     catchM
       (bindM (client_transact dev (command_code CMD_GET_METADATA_SUMMARY) [] (timeout_or 5000 timeout_ms))
         (\<lambda>words. liftM (metadata_summary_from_words words)))
       (\<lambda>e. raiseM (if is_value_error e then ProtocolDecodeError (exc_msg e) else e))"

definition metadata_append_image_valid ::
  "'d pc_io_device \<Rightarrow> int \<Rightarrow> int \<Rightarrow> int \<Rightarrow> int \<Rightarrow> int \<Rightarrow> int \<Rightarrow> int \<Rightarrow> int \<Rightarrow> int option \<Rightarrow>
     ('d client, unit) sm" where
  "metadata_append_image_valid dev entry_point image_size_words image_crc32 app_end
     app_version_major app_version_minor app_version_patch app_version_build timeout_ms =
     bindM (liftM (split_u32 entry_point)) (\<lambda>(entry_low, entry_high).
     bindM (liftM (split_u32 image_size_words)) (\<lambda>(size_low, size_high).
     bindM (liftM (split_u32 image_crc32)) (\<lambda>(crc_low, crc_high).
     bindM (liftM (split_u32 app_version_build)) (\<lambda>(build_low, build_high).
     bindM (liftM (split_u32 app_end)) (\<lambda>(end_low, end_high).
       issue dev CMD_METADATA_APPEND_RECORD
         [metadata_record_type_code REC_IMAGE_VALID, boot_slot_code SLOT_SLOT_A, entry_low, entry_high,
          size_low, size_high, crc_low, crc_high, app_version_major, app_version_minor,
          app_version_patch, build_low, build_high, end_low, end_high, 0] timeout_ms)))))"

definition metadata_append_boot_attempt ::
  "'d pc_io_device \<Rightarrow> int \<Rightarrow> int \<Rightarrow> int \<Rightarrow> int option \<Rightarrow> ('d client, unit) sm" where
  "metadata_append_boot_attempt dev entry_point image_size_words image_crc32 timeout_ms =
     bindM (liftM (split_u32 entry_point)) (\<lambda>(entry_low, entry_high).
     bindM (liftM (split_u32 image_size_words)) (\<lambda>(size_low, size_high).
     bindM (liftM (split_u32 image_crc32)) (\<lambda>(crc_low, crc_high).
       issue dev CMD_METADATA_APPEND_RECORD
         [metadata_record_type_code REC_BOOT_ATTEMPT, boot_slot_code SLOT_SLOT_A, entry_low, entry_high,
          size_low, size_high, crc_low, crc_high, 0, 0, 0, 0, 0, 0, 0, 0] timeout_ms)))"

definition metadata_append_app_confirmed ::
  "'d pc_io_device \<Rightarrow> int \<Rightarrow> int \<Rightarrow> int \<Rightarrow> int option \<Rightarrow> ('d client, unit) sm" where
  "metadata_append_app_confirmed dev entry_point image_size_words image_crc32 timeout_ms =
     bindM (liftM (split_u32 entry_point)) (\<lambda>(entry_low, entry_high).
     bindM (liftM (split_u32 image_size_words)) (\<lambda>(size_low, size_high).
     bindM (liftM (split_u32 image_crc32)) (\<lambda>(crc_low, crc_high).
       issue dev CMD_METADATA_APPEND_RECORD
         [metadata_record_type_code REC_APP_CONFIRMED, boot_slot_code SLOT_SLOT_A, entry_low, entry_high,
          size_low, size_high, crc_low, crc_high, 0, 0, 0, 0, 0, 0, 0, 0] timeout_ms)))"

definition ram_load_begin ::
  "'d pc_io_device \<Rightarrow> int \<Rightarrow> int \<Rightarrow> int \<Rightarrow> int \<Rightarrow> int option \<Rightarrow> ('d client, unit) sm" where
  "ram_load_begin dev packet_count total_words entry_point image_crc32 timeout_ms =
     bindM (liftM (split_u32 total_words)) (\<lambda>(total_low, total_high).
     bindM (liftM (split_u32 entry_point)) (\<lambda>(entry_low, entry_high).
     bindM (liftM (split_u32 image_crc32)) (\<lambda>(crc_low, crc_high).
       issue dev CMD_RAM_LOAD_BEGIN
         [target_code TGT_RAM_APP, packet_count, total_low, total_high, entry_low, entry_high,
          crc_low, crc_high, 0] timeout_ms)))"

definition ram_load_data ::
  "'d pc_io_device \<Rightarrow> int \<Rightarrow> int list \<Rightarrow> int \<Rightarrow> int option \<Rightarrow> ('d client, unit) sm" where
  "ram_load_data dev address words packet_index timeout_ms =
     bindM (liftM (split_u32 address)) (\<lambda>(address_low, address_high).
     bindM (liftM (split_u32 packet_index)) (\<lambda>(index_low, index_high).
       issue dev CMD_RAM_LOAD_DATA
         ([address_low, address_high, int (length words), index_low, index_high] @ words) timeout_ms))"

definition ram_load_end ::
  "'d pc_io_device \<Rightarrow> int \<Rightarrow> int \<Rightarrow> int \<Rightarrow> int option \<Rightarrow> ('d client, unit) sm" where
  "ram_load_end dev packet_count total_words image_crc32 timeout_ms =
     bindM (liftM (split_u32 packet_count)) (\<lambda>(packet_low, packet_high).
     bindM (liftM (split_u32 total_words)) (\<lambda>(total_low, total_high).
     bindM (liftM (split_u32 image_crc32)) (\<lambda>(crc_low, crc_high).
       issue dev CMD_RAM_LOAD_END
         [packet_low, packet_high, total_low, total_high, crc_low, crc_high] timeout_ms)))"

definition ram_check_crc ::
  "'d pc_io_device \<Rightarrow> int \<Rightarrow> int \<Rightarrow> int option \<Rightarrow> ('d client, unit) sm" where
  "ram_check_crc dev expected_crc32 expected_total_words timeout_ms =
     bindM (liftM (split_u32 expected_crc32)) (\<lambda>(crc_low, crc_high).
     bindM (liftM (split_u32 expected_total_words)) (\<lambda>(words_low, words_high).
       issue dev CMD_RAM_CHECK_CRC [crc_low, crc_high, words_low, words_high, 0] timeout_ms))"

definition run_ram :: "'d pc_io_device \<Rightarrow> int \<Rightarrow> int option \<Rightarrow> ('d client, unit) sm" where
  "run_ram dev entry_point timeout_ms =
     bindM (liftM (split_u32 entry_point)) (\<lambda>(entry_low, entry_high).
       issue dev CMD_RUN_RAM [entry_low, entry_high, 0] timeout_ms)"

definition get_service_status :: "'d pc_io_device \<Rightarrow> int option \<Rightarrow> ('d client, service_status) sm" where
  "get_service_status dev timeout_ms =
     bindM (client_transact dev (command_code CMD_GET_SERVICE_STATUS) [] timeout_ms) (\<lambda>payload.
       liftM (service_status_from_words payload))"

definition service_attach ::
  "'d pc_io_device \<Rightarrow> int \<Rightarrow> int \<Rightarrow> int \<Rightarrow> int option \<Rightarrow> ('d client, unit) sm" where
  "service_attach dev header_address expected_crc32 expected_total_words timeout_ms =
     bindM (liftM (split_u32 header_address)) (\<lambda>(header_low, header_high).
     bindM (liftM (split_u32 expected_crc32)) (\<lambda>(crc_low, crc_high).
     bindM (liftM (split_u32 expected_total_words)) (\<lambda>(words_low, words_high).
       issue dev CMD_SERVICE_ATTACH
         [header_low, header_high, crc_low, crc_high, words_low, words_high, 0] timeout_ms)))"

section \<open>The diagnostic query\<close>

record debug_result =
  dbg_request_words :: "int list"
  dbg_request_bytes :: "int list"
  dbg_bytes_written :: int
  dbg_flush_done :: bool
  dbg_rx_bytes :: "int list"
  dbg_pending_before_clear :: "int option"
  dbg_device_info :: "device_info option"
  dbg_error :: "(string \<times> string) option"

definition attempt :: "('s, 'a) sm \<Rightarrow> ('s, 'a res) sm" where
  "attempt m s = (case m s of (Inl e, s') \<Rightarrow> if is_exception e then (Inr (Inl e), s') else (Inl e, s')
     | (Inr x, s') \<Rightarrow> (Inr (Inr x), s'))"

definition get_device_info_debug :: "'d pc_io_device \<Rightarrow> int \<Rightarrow> ('d client, debug_result) sm" where
  "get_device_info_debug dev timeout_ms =
     (if timeout_ms \<le> 0 then raiseM (ValueError ''timeout_ms must be positive'')
      else
        bindM (getM (\<lambda>c. io_input_bytes_pending dev (cl_device c))) (\<lambda>pending.
        thenM (on_device (io_clear_input dev))
        (bindM bump_sequence (\<lambda>q.
         bindM (liftM (request_of (command_code CMD_GET_DEVICE_INFO) [] q)) (\<lambda>request.
         bindM (liftM (encode_words request)) (\<lambda>request_words.
         bindM (liftM (encode_bytes request)) (\<lambda>request_bytes.
         bindM (attempt (on_device (io_write_bytes dev request_bytes))) (\<lambda>written.
         let result = (\<lambda>n done raw info error. returnM
           \<lparr>dbg_request_words = request_words, dbg_request_bytes = request_bytes,
            dbg_bytes_written = n, dbg_flush_done = done, dbg_rx_bytes = raw,
            dbg_pending_before_clear = pending, dbg_device_info = info, dbg_error = error\<rparr>) in
         case written of
           Inl e \<Rightarrow> result 0 False [] None (Some (''writing_request'', exc_msg e))
         | Inr n \<Rightarrow>
             bindM (read_response_frame dev timeout_ms) (\<lambda>(outcome, raw).
             case outcome of
               Inl e \<Rightarrow>
                 if \<not> is_exception e then raiseM e
                 else result n True raw None
                   (Some (if raw = []
                          then (''waiting_for_response'',
                                ''No response bytes received after writing and flushing request.'')
                          else (''receiving_response'', exc_msg e)))
             | Inr response \<Rightarrow>
                 (case bindE (response_payload request response) device_info_from_words of
                    Inl e \<Rightarrow> result n True raw None (Some (''decoding_response'', exc_msg e))
                  | Inr info \<Rightarrow>
                      thenM (modM (\<lambda>c. c\<lparr>cl_device_info := Some info\<rparr>))
                        (result n True raw (Some info) None)))))))))))"

end
