(* ===== verification/Workflow.thy ===== *)
theory Workflow
  imports Client Packets
begin

text \<open>
  The upgrade workflow \<open>UpgradeWorkflow\<close> (\<open>core/workflow.py\<close>): erase, program, verify, the whole
  upgrade, starting the application, loading and starting RAM images and attaching the Flash
  service, as sequences of client calls; with the bookkeeping the workflow keeps about the device
  (\<open>state\<close>, \<open>flash_modified\<close>, \<open>verify_succeeded\<close>, the last error and probe).
\<close>

section \<open>State\<close>

datatype workflow_state = WS_READY | WS_UNKNOWN

record 'd workflow =
  wf_client :: "'d client"
  wf_allowed_flash_ranges :: "address_range list"
  wf_progress :: "(string \<times> int \<times> int) list"
  wf_state :: workflow_state
  wf_flash_modified :: bool
  wf_verify_succeeded :: bool
  wf_last_probe_succeeded :: "bool option"
  wf_last_error_detail :: "error_detail option"

text \<open>The progress callback records its calls.\<close>

definition UpgradeWorkflow :: "'d client \<Rightarrow> address_range list \<Rightarrow> 'd workflow" where
  "UpgradeWorkflow client allowed_flash_ranges =
     \<lparr>wf_client = client, wf_allowed_flash_ranges = allowed_flash_ranges, wf_progress = [],
      wf_state = WS_READY, wf_flash_modified = False, wf_verify_succeeded = False,
      wf_last_probe_succeeded = None, wf_last_error_detail = None\<rparr>"

fun WORKFLOW_TIMEOUT_MS :: "command \<Rightarrow> int option" where
  "WORKFLOW_TIMEOUT_MS CMD_ERASE = Some 60000"
| "WORKFLOW_TIMEOUT_MS CMD_PROGRAM_BEGIN = Some 10000"
| "WORKFLOW_TIMEOUT_MS CMD_PROGRAM_DATA = Some 10000"
| "WORKFLOW_TIMEOUT_MS CMD_PROGRAM_END = Some 10000"
| "WORKFLOW_TIMEOUT_MS CMD_VERIFY_BEGIN = Some 10000"
| "WORKFLOW_TIMEOUT_MS CMD_VERIFY_DATA = Some 10000"
| "WORKFLOW_TIMEOUT_MS CMD_VERIFY_END = Some 10000"
| "WORKFLOW_TIMEOUT_MS CMD_METADATA_APPEND_RECORD = Some 10000"
| "WORKFLOW_TIMEOUT_MS CMD_RUN = Some 5000"
| "WORKFLOW_TIMEOUT_MS CMD_RESET = Some 5000"
| "WORKFLOW_TIMEOUT_MS CMD_RAM_LOAD_BEGIN = Some 10000"
| "WORKFLOW_TIMEOUT_MS CMD_RAM_LOAD_DATA = Some 10000"
| "WORKFLOW_TIMEOUT_MS CMD_RAM_LOAD_END = Some 10000"
| "WORKFLOW_TIMEOUT_MS CMD_RAM_CHECK_CRC = Some 10000"
| "WORKFLOW_TIMEOUT_MS CMD_RUN_RAM = Some 5000"
| "WORKFLOW_TIMEOUT_MS CMD_SERVICE_ATTACH = Some 10000"
| "WORKFLOW_TIMEOUT_MS CMD_GET_SERVICE_STATUS = Some 5000"
| "WORKFLOW_TIMEOUT_MS _ = None"

definition on_client :: "('d client, 'a) sm \<Rightarrow> ('d workflow, 'a) sm" where
  "on_client m w = (case m (wf_client w) of (r, c) \<Rightarrow> (r, w\<lparr>wf_client := c\<rparr>))"

definition progress :: "string \<Rightarrow> int \<Rightarrow> int \<Rightarrow> ('d workflow, unit) sm" where
  "progress operation current count =
     modM (\<lambda>w. w\<lparr>wf_progress := wf_progress w @ [(operation, current, count)]\<rparr>)"

text \<open>\<open>self.client.device_info\<close>, required by every transfer.\<close>

definition known_info :: "('d workflow, device_info) sm" where
  "known_info =
     bindM (getM (\<lambda>w. cl_device_info (wf_client w))) (\<lambda>info. case info of
       None \<Rightarrow> raiseM (WorkflowError ''device information is not available; connect first'')
     | Some i \<Rightarrow> returnM i)"

section \<open>Guarded requests\<close>

definition note_timeout :: "bool \<Rightarrow> 'd workflow \<Rightarrow> 'd workflow" where
  "note_timeout modifying w =
     (if modifying
      then w\<lparr>wf_state := WS_UNKNOWN, wf_flash_modified := True, wf_verify_succeeded := False\<rparr>
      else w\<lparr>wf_state := WS_UNKNOWN\<rparr>)"

definition wf_transact ::
  "'d pc_io_device \<Rightarrow> command \<Rightarrow> int list \<Rightarrow> bool \<Rightarrow> ('d workflow, int list) sm" where
  "wf_transact dev cmd payload modifying =
     catchM
       (case WORKFLOW_TIMEOUT_MS cmd of
          None \<Rightarrow> raiseM (KeyError ''command'')
        | Some t \<Rightarrow> on_client (client_transact dev (command_code cmd) payload (Some t)))
       (\<lambda>e. case e of
          ProtocolStatusError _ _ \<Rightarrow>
            bindM (attempt (on_client (get_last_error dev))) (\<lambda>r.
            thenM (modM (\<lambda>w. w\<lparr>wf_last_error_detail := (case r of Inr detail \<Rightarrow> Some detail | Inl _ \<Rightarrow> None)\<rparr>))
              (raiseM e))
        | IoTimeoutError _ \<Rightarrow>
            thenM (modM (note_timeout modifying))
            (bindM (attempt (on_client (ping dev (Some 5000)))) (\<lambda>r.
             thenM (modM (\<lambda>w. w\<lparr>wf_last_probe_succeeded := Some (is_ok r)\<rparr>)) (raiseM e)))
        | _ \<Rightarrow> raiseM e)"

definition modify_flash :: "('d workflow, unit) sm" where
  "modify_flash = modM (\<lambda>w. w\<lparr>wf_flash_modified := True, wf_verify_succeeded := False\<rparr>)"

definition wf_erase :: "'d pc_io_device \<Rightarrow> int \<Rightarrow> ('d workflow, unit) sm" where
  "wf_erase dev sector_mask =
     (if sector_mask \<le> 0 \<or> sector_mask > 0xFFFFFFFF
      then raiseM (ValueError ''sector_mask must be a nonzero uint32'')
      else thenM modify_flash
        (bindM (liftM (split_u32 sector_mask)) (\<lambda>(low, high).
         thenM (wf_transact dev CMD_ERASE [low, high, 0] True) (returnM ()))))"

section \<open>Transfers\<close>

definition send_packet ::
  "'d pc_io_device \<Rightarrow> command \<Rightarrow> string \<Rightarrow> bool \<Rightarrow> int \<Rightarrow> data_packet \<Rightarrow> ('d workflow, unit) sm" where
  "send_packet dev data_command operation modifying count packet =
     bindM (liftM (split_u32 (dp_address packet))) (\<lambda>(address_low, address_high).
     bindM (liftM (split_u32 (dp_index packet))) (\<lambda>(index_low, index_high).
     thenM (wf_transact dev data_command
       ([address_low, address_high, int (length (dp_words packet)), index_low, index_high] @ dp_words packet)
       modifying)
       (progress operation (dp_index packet + 1) count)))"

definition packet_words :: "data_packet list \<Rightarrow> int" where
  "packet_words packets = sum_list (map (\<lambda>p. int (length (dp_words p))) packets)"

definition transfer ::
  "'d pc_io_device \<Rightarrow> firmware_image \<Rightarrow> command \<Rightarrow> command \<Rightarrow> command \<Rightarrow> string \<Rightarrow> bool \<Rightarrow>
     ('d workflow, unit) sm" where
  "transfer dev img begin_command data_command end_command operation modifying =
     bindM known_info (\<lambda>info.
     bindM (liftM (prepare_packets img (di_max_data_words info))) (\<lambda>packets.
     bindM (liftM (split_u32 (packet_words packets))) (\<lambda>(total_low, total_high).
     bindM (liftM (split_u32 (fi_entry_point img))) (\<lambda>(entry_low, entry_high).
     thenM (wf_transact dev begin_command
       [target_code TGT_FLASH_APP, int (length packets), total_low, total_high, entry_low, entry_high, 0, 0, 0]
       modifying)
     (thenM (forM packets (send_packet dev data_command operation modifying (int (length packets))))
       (bindM (liftM (split_u32 (int (length packets)))) (\<lambda>(packet_low, packet_high).
        thenM (wf_transact dev end_command
          [packet_low, packet_high, total_low, total_high, 0, 0] modifying) (returnM ()))))))))"

definition wf_program :: "'d pc_io_device \<Rightarrow> firmware_image \<Rightarrow> ('d workflow, unit) sm" where
  "wf_program dev img =
     thenM (liftM (validate_app_firmware_image img))
     (thenM modify_flash
       (transfer dev img CMD_PROGRAM_BEGIN CMD_PROGRAM_DATA CMD_PROGRAM_END ''Program'' True))"

definition wf_verify :: "'d pc_io_device \<Rightarrow> firmware_image \<Rightarrow> ('d workflow, unit) sm" where
  "wf_verify dev img =
     thenM (liftM (validate_app_firmware_image img))
     (thenM (modM (\<lambda>w. w\<lparr>wf_verify_succeeded := False\<rparr>))
     (thenM (transfer dev img CMD_VERIFY_BEGIN CMD_VERIFY_DATA CMD_VERIFY_END ''Verify'' False)
       (modM (\<lambda>w. w\<lparr>wf_verify_succeeded := True, wf_state := WS_READY\<rparr>))))"

section \<open>The upgrade\<close>

definition append_valid_record :: "'d pc_io_device \<Rightarrow> firmware_image \<Rightarrow> int \<Rightarrow> int \<Rightarrow> int \<Rightarrow> ('d workflow, unit) sm" where
  "append_valid_record dev img max_data_words image_size_words app_end =
     catchM
       (bindM (liftM (calculate_programmed_image_crc32 img max_data_words)) (\<lambda>image_crc32.
          on_client (metadata_append_image_valid dev (fi_entry_point img) image_size_words image_crc32
            app_end 0 0 0 0 (WORKFLOW_TIMEOUT_MS CMD_METADATA_APPEND_RECORD))))
       (\<lambda>e. if is_exception e
            then thenM (modM (\<lambda>w. w\<lparr>wf_verify_succeeded := False\<rparr>)) (raiseM e) else raiseM e)"

definition dfu :: "'d pc_io_device \<Rightarrow> int \<Rightarrow> firmware_image \<Rightarrow> ('d workflow, unit) sm" where
  "dfu dev sector_mask img =
     thenM (liftM (validate_app_firmware_image img))
     (thenM (wf_erase dev sector_mask)
     (thenM (wf_program dev img)
     (thenM (wf_verify dev img)
     (bindM known_info (\<lambda>info.
      bindM (liftM (programmed_image_size_and_end img (di_max_data_words info))) (\<lambda>(image_size_words, app_end).
      thenM (append_valid_record dev img (di_max_data_words info) image_size_words app_end)
        (progress ''Metadata'' 1 1)))))))"

definition entry_allowed :: "address_range list \<Rightarrow> firmware_image \<Rightarrow> bool" where
  "entry_allowed allowed img =
     (let ranges = (if allowed \<noteq> [] then allowed else fi_address_ranges img) in
      list_ex (\<lambda>item. ar_start item \<le> fi_entry_point img \<and> fi_entry_point img < ar_end_exclusive item) ranges)"

definition record_attempt :: "'d pc_io_device \<Rightarrow> metadata_summary \<Rightarrow> ('d workflow, unit) sm" where
  "record_attempt dev summary =
     (if ms_app_confirmed summary \<noteq> 0 then returnM ()
      else if ms_boot_attempt_count summary \<ge> ms_boot_attempt_limit summary
      then raiseM (WorkflowError ''boot attempt limit reached'')
      else thenM (on_client (metadata_append_boot_attempt dev (ms_entry_point summary)
             (ms_image_size_words summary) (ms_image_crc32 summary)
             (WORKFLOW_TIMEOUT_MS CMD_METADATA_APPEND_RECORD)))
           (progress ''BootAttempt'' 1 1))"

definition wf_run :: "'d pc_io_device \<Rightarrow> firmware_image \<Rightarrow> ('d workflow, unit) sm" where
  "wf_run dev img =
     thenM (liftM (validate_app_firmware_image img)) (\<lambda>w.
       if fi_entry_point img mod 8 \<noteq> 0
       then (Inl (WorkflowError ''FLASH_APP entry point must be 8-word aligned''), w)
       else if \<not> entry_allowed (wf_allowed_flash_ranges w) img
       then (Inl (WorkflowError ''FLASH_APP entry point is outside the allowed Flash range''), w)
       else if wf_flash_modified w \<and> \<not> wf_verify_succeeded w
       then (Inl (WorkflowError ''Verify must succeed after Erase/Program/DFU before Run''), w)
       else bindM (on_client (get_metadata_summary dev None)) (\<lambda>summary.
         if ms_metadata_valid summary = 0
         then raiseM (WorkflowError ''valid IMAGE_VALID metadata is required before Run'')
         else if ms_entry_point summary \<noteq> fi_entry_point img
         then raiseM (WorkflowError ''metadata entry point does not match firmware image'')
         else thenM (record_attempt dev summary)
           (bindM (liftM (split_u32 (fi_entry_point img))) (\<lambda>(entry_low, entry_high).
            thenM (wf_transact dev CMD_RUN [target_code TGT_FLASH_APP, entry_low, entry_high, 0] False)
              (returnM ())))) w)"

definition wf_reset :: "'d pc_io_device \<Rightarrow> ('d workflow, unit) sm" where
  "wf_reset dev = thenM (wf_transact dev CMD_RESET [] False) (returnM ())"

section \<open>RAM images\<close>

definition load_ram_packets ::
  "'d pc_io_device \<Rightarrow> data_packet list \<Rightarrow> int \<Rightarrow> int \<Rightarrow> int \<Rightarrow> ('d workflow, unit) sm" where
  "load_ram_packets dev packets total_words entry_point image_crc32 =
     thenM (on_client (ram_load_begin dev (int (length packets)) total_words entry_point image_crc32
       (WORKFLOW_TIMEOUT_MS CMD_RAM_LOAD_BEGIN)))
     (thenM (forM packets (\<lambda>packet.
        thenM (on_client (ram_load_data dev (dp_address packet) (dp_words packet) (dp_index packet)
          (WORKFLOW_TIMEOUT_MS CMD_RAM_LOAD_DATA)))
          (progress ''RamLoad'' (dp_index packet + 1) (int (length packets)))))
       (on_client (ram_load_end dev (int (length packets)) total_words image_crc32
          (WORKFLOW_TIMEOUT_MS CMD_RAM_LOAD_END))))"

definition ram_load :: "'d pc_io_device \<Rightarrow> firmware_image \<Rightarrow> ('d workflow, int) sm" where
  "ram_load dev img =
     thenM (liftM (validate_ram_firmware_image img))
     (bindM known_info (\<lambda>info.
      bindM (liftM (prepare_ram_packets img (di_max_data_words info))) (\<lambda>packets.
      bindM (liftM (calculate_ram_image_crc32 img (di_max_data_words info))) (\<lambda>image_crc32.
      thenM (load_ram_packets dev packets (packet_words packets) (fi_entry_point img) image_crc32)
        (returnM image_crc32)))))"

definition check_ram_crc :: "'d pc_io_device \<Rightarrow> int \<Rightarrow> int \<Rightarrow> ('d workflow, unit) sm" where
  "check_ram_crc dev image_crc32 total_words =
     thenM (on_client (ram_check_crc dev image_crc32 total_words (WORKFLOW_TIMEOUT_MS CMD_RAM_CHECK_CRC)))
       (progress ''RamCheckCrc'' 1 1)"

definition wf_ram_check_crc :: "'d pc_io_device \<Rightarrow> firmware_image \<Rightarrow> ('d workflow, int) sm" where
  "wf_ram_check_crc dev img =
     thenM (liftM (validate_ram_firmware_image img))
     (bindM known_info (\<lambda>info.
      bindM (liftM (calculate_ram_image_crc32 img (di_max_data_words info))) (\<lambda>image_crc32.
      thenM (check_ram_crc dev image_crc32 (fi_total_words img)) (returnM image_crc32))))"

definition wf_run_ram :: "'d pc_io_device \<Rightarrow> firmware_image \<Rightarrow> int option \<Rightarrow> ('d workflow, unit) sm" where
  "wf_run_ram dev img entry_point =
     thenM (liftM (validate_ram_firmware_image img))
       (on_client (run_ram dev (case entry_point of None \<Rightarrow> fi_entry_point img | Some e \<Rightarrow> e)
          (WORKFLOW_TIMEOUT_MS CMD_RUN_RAM)))"

definition run_ram_image :: "'d pc_io_device \<Rightarrow> firmware_image \<Rightarrow> ('d workflow, int) sm" where
  "run_ram_image dev img =
     bindM (ram_load dev img) (\<lambda>image_crc32.
     thenM (wf_ram_check_crc dev img) (thenM (wf_run_ram dev img None) (returnM image_crc32)))"

definition attached_as_expected :: "service_status \<Rightarrow> int \<Rightarrow> int \<Rightarrow> bool" where
  "attached_as_expected st image_crc32 total_words \<longleftrightarrow>
     ss_service_state st = service_state_code SVC_ATTACHED \<and>
     ss_abi_major st = SERVICE_ABI_MAJOR \<and> ss_abi_minor st = SERVICE_ABI_MINOR \<and>
     ss_capabilities st AND SERVICE_REQUIRED_CAPABILITIES = SERVICE_REQUIRED_CAPABILITIES \<and>
     ss_loaded_image_crc32 st = image_crc32 \<and> ss_loaded_image_words st = total_words"

definition load_and_attach_service ::
  "'d pc_io_device \<Rightarrow> firmware_image \<Rightarrow> int \<Rightarrow> ('d workflow, service_status) sm" where
  "load_and_attach_service dev service_image header_address =
     thenM (liftM (validate_ram_firmware_image service_image))
     (bindM known_info (\<lambda>info.
      bindM (liftM (prepare_service_ram_packets service_image (di_max_data_words info))) (\<lambda>packets.
      let total_words = packet_words packets in
      bindM (liftM (calculate_service_ram_load_crc32 service_image (di_max_data_words info))) (\<lambda>image_crc32.
      thenM (load_ram_packets dev packets total_words (fi_entry_point service_image) image_crc32)
      (thenM (check_ram_crc dev image_crc32 total_words)
      (thenM (on_client (service_attach dev header_address image_crc32 total_words
         (WORKFLOW_TIMEOUT_MS CMD_SERVICE_ATTACH)))
      (bindM (on_client (get_service_status dev (WORKFLOW_TIMEOUT_MS CMD_GET_SERVICE_STATUS))) (\<lambda>st.
       if \<not> attached_as_expected st image_crc32 total_words
       then raiseM (WorkflowError ''attached service status does not match loaded image'')
       else thenM (progress ''ServiceAttach'' 1 1) (returnM st)))))))))"

end
