(* ===== verification/Resync.thy ===== *)
theory Resync
  imports Frame
begin

text \<open>
  The word-stream reader of \<open>protocol/resync.py\<close>: it collects words, looks for the magic pair,
  drops malformed candidates one word at a time and returns the frames it completes.  Proved here:
  the reader does not depend on how the stream is cut into pieces, it returns exactly the frames
  of a stream of encoded frames, it skips noise, and its buffer is bounded.
\<close>

record resync =
  rs_max_payload_words :: int
  rs_buffer :: "int list"
  rs_errors :: "exc list"

definition ResyncReader :: "int \<Rightarrow> resync res" where
  "ResyncReader max_payload_words =
     (if max_payload_words < 0 \<or> max_payload_words > 0xFFFF
      then Inl (ValueError ''max_payload_words must fit uint16'')
      else Inr \<lparr>rs_max_payload_words = max_payload_words, rs_buffer = [], rs_errors = []\<rparr>)"

text \<open>The suffix of the buffer that starts at the first magic pair.\<close>

fun find_magic :: "int list \<Rightarrow> int list option" where
  "find_magic (x # y # rest) =
     (if x = MAGIC0 \<and> y = MAGIC1 then Some (x # y # rest) else find_magic (y # rest))"
| "find_magic _ = None"

definition seek_magic :: "int list \<Rightarrow> bool \<times> int list" where
  "seek_magic buffer =
     (case find_magic buffer of
        Some found \<Rightarrow> (True, found)
      | None \<Rightarrow> (False, if buffer \<noteq> [] \<and> last buffer = MAGIC0 then [MAGIC0] else []))"

lemma find_magic_SomeD:
  "find_magic b = Some c \<Longrightarrow> \<exists>rest. c = MAGIC0 # MAGIC1 # rest \<and> length c \<le> length b"
  by (induction b rule: find_magic.induct) (auto split: if_splits)

lemma seek_magic_length: "seek_magic b = (True, c) \<Longrightarrow>
  c \<noteq> [] \<and> length c \<le> length b \<and> length (tl c) < length b"
  by (auto simp: seek_magic_def split: option.splits dest!: find_magic_SomeD)

function resync_extract ::
  "int \<Rightarrow> int list \<Rightarrow> exc list \<Rightarrow> frame list \<Rightarrow> frame list res \<times> int list \<times> exc list" where
  "resync_extract m buffer errors frames =
     (case seek_magic buffer of
        (False, b) \<Rightarrow> (Inr frames, b, errors)
      | (True, b) \<Rightarrow>
          if int (length b) < HEADER_WORDS then (Inr frames, b, errors)
          else case crc16_words (take 9 b) of
            Inl e \<Rightarrow> (Inl e, b, errors)
          | Inr crc \<Rightarrow>
              if crc \<noteq> b ! 9
              then resync_extract m (tl b)
                     (errors @ [FrameError ''header CRC mismatch during resync'']) frames
              else if b ! 8 > m
              then resync_extract m (tl b)
                     (errors @ [FrameError ''payload exceeds configured maximum during resync'']) frames
              else let total_words = nat HEADER_WORDS + nat (b ! 8) + 1 in
                if length b < total_words then (Inr frames, b, errors)
                else case decode_frame (take total_words b) m of
                  Inr f \<Rightarrow> resync_extract m (drop total_words b) errors (frames @ [f])
                | Inl e \<Rightarrow>
                    if is_frame_error e
                    then resync_extract m (drop total_words b) (errors @ [e]) frames
                    else (Inl e, drop total_words b, errors))"
  by pat_completeness auto
termination
  by (relation "measure (\<lambda>(m, b, errors, frames). length b)")
    (auto simp: Let_def dest!: sym [where t = "seek_magic _"] seek_magic_length)

declare resync_extract.simps [simp del]

text \<open>
  \<open>feed\<close> appends the words up to the first one that does not fit 16 bits, which raises before the
  extraction.
\<close>

definition feed :: "int list \<Rightarrow> resync \<Rightarrow> frame list res \<times> resync" where
  "feed words r =
     (let good = takeWhile u16 words;
          buffer = rs_buffer r @ good
      in if good \<noteq> words
         then (Inl (ValueError ''stream words must fit uint16''), r\<lparr>rs_buffer := buffer\<rparr>)
         else (case resync_extract (rs_max_payload_words r) buffer (rs_errors r) [] of
                 (frames, b, errors) \<Rightarrow> (frames, r\<lparr>rs_buffer := b, rs_errors := errors\<rparr>)))"

section \<open>Cutting the stream\<close>

lemma find_magic_append_Some: "find_magic b = Some c \<Longrightarrow> find_magic (b @ w) = Some (c @ w)"
  by (induction b rule: find_magic.induct) (auto split: if_splits)

lemma find_magic_skip: "x \<noteq> MAGIC0 \<Longrightarrow> find_magic (x # w) = find_magic w"
  by (cases w) auto

lemma find_magic_append_None:
  "find_magic b = None \<Longrightarrow>
     find_magic (b @ w) = find_magic ((if b \<noteq> [] \<and> last b = MAGIC0 then [MAGIC0] else []) @ w)"
proof (induction b rule: find_magic.induct)
  case (1 x y rest)
  then show ?case by (auto split: if_splits)
qed (simp_all add: find_magic_skip)

lemma seek_magic_append_False:
  "seek_magic b = (False, c) \<Longrightarrow> seek_magic (b @ w) = seek_magic (c @ w)"
proof -
  assume a: "seek_magic b = (False, c)"
  then have fb: "find_magic b = None" and c: "c = (if b \<noteq> [] \<and> last b = MAGIC0 then [MAGIC0] else [])"
    by (auto simp: seek_magic_def split: option.splits)
  have n: "find_magic (b @ w) = find_magic (c @ w)"
    using find_magic_append_None [OF fb, of w] c by simp
  have l: "b @ w \<noteq> [] \<and> last (b @ w) = MAGIC0 \<longleftrightarrow> c @ w \<noteq> [] \<and> last (c @ w) = MAGIC0"
    using c by (cases "w = []") auto
  show ?thesis
    unfolding seek_magic_def n l ..
qed

lemma find_magic_idem: "find_magic b = Some c \<Longrightarrow> find_magic c = Some c"
  by (auto dest!: find_magic_SomeD)

lemma seek_magic_append_True:
  "seek_magic b = (True, c) \<Longrightarrow> seek_magic (b @ w) = (True, c @ w)"
  by (auto simp: seek_magic_def find_magic_append_Some split: option.splits)

lemma seek_magic_True_idem: "seek_magic b = (True, c) \<Longrightarrow> seek_magic c = (True, c)"
proof -
  assume "seek_magic b = (True, c)"
  then have "find_magic b = Some c"
    by (simp add: seek_magic_def split: option.splits)
  then show ?thesis
    using find_magic_idem by (simp add: seek_magic_def)
qed

lemma seek_magic_append:
  assumes "seek_magic b = (p, c)"
  shows "seek_magic (b @ w) = seek_magic (c @ w)"
proof (cases p)
  case True
  then have b: "seek_magic b = (True, c)"
    using assms by simp
  have "seek_magic (b @ w) = (True, c @ w)" "seek_magic (c @ w) = (True, c @ w)"
    using seek_magic_append_True [OF b] seek_magic_append_True [OF seek_magic_True_idem [OF b]]
    by simp_all
  then show ?thesis
    by simp
next
  case False
  then have "seek_magic b = (False, c)"
    using assms by simp
  then show ?thesis
    by (rule seek_magic_append_False)
qed

lemma find_magic_set: "find_magic b = Some c \<Longrightarrow> set c \<subseteq> set b"
  by (induction b rule: find_magic.induct) (auto split: if_splits)

lemma seek_magic_words16: "words16 b \<Longrightarrow> seek_magic b = (p, c) \<Longrightarrow> words16 c"
  by (auto simp: seek_magic_def list_all_iff MAGIC0_def u_simps
      split: option.splits if_splits dest: find_magic_set)

text \<open>One round of the extraction, for a buffer of 16 bit words.\<close>

datatype round = Wait "int list" | Skip "int list" exc | Take "int list" frame

definition resync_round :: "int \<Rightarrow> int list \<Rightarrow> round" where
  "resync_round m buffer =
     (case seek_magic buffer of
        (False, b) \<Rightarrow> Wait b
      | (True, b) \<Rightarrow>
          if length b < 10 then Wait b
          else if crc16_ccitt_false (le_bytes (take 9 b)) \<noteq> b ! 9
          then Skip (tl b) (FrameError ''header CRC mismatch during resync'')
          else if b ! 8 > m
          then Skip (tl b) (FrameError ''payload exceeds configured maximum during resync'')
          else if length b < 11 + nat (b ! 8) then Wait b
          else case decode_frame (take (11 + nat (b ! 8)) b) m of
            Inr f \<Rightarrow> Take (drop (11 + nat (b ! 8)) b) f
          | Inl e \<Rightarrow> Skip (drop (11 + nat (b ! 8)) b) e)"

lemma resync_extract_round:
  assumes "words16 b"
  shows "resync_extract m b es fs =
    (case resync_round m b of
       Wait c \<Rightarrow> (Inr fs, c, es)
     | Skip c e \<Rightarrow> resync_extract m c (es @ [e]) fs
     | Take c f \<Rightarrow> resync_extract m c es (fs @ [f]))"
proof -
  obtain p c where pc: "seek_magic b = (p, c)"
    by (cases "seek_magic b")
  have c: "words16 c"
    by (rule seek_magic_words16 [OF assms pc])
  have u: "words16 (take n c)" for n
    using c by (rule words16_take)
  have fe: "decode_frame (take n c) m = Inl e \<Longrightarrow> is_frame_error e" for n e
    by (rule words16_decode_no_value_error [OF u])
  show ?thesis
    unfolding resync_extract.simps [of m b es fs] resync_round_def pc
    by (cases p) (auto simp: HEADER_WORDS_def crc16_words_Inr [OF u] Let_def fe split: sum.splits)
qed

lemma resync_round_words16:
  assumes "words16 b"
  shows "case resync_round m b of Wait c \<Rightarrow> words16 c \<and> length c \<le> length b
    | Skip c e \<Rightarrow> words16 c \<and> length c < length b | Take c f \<Rightarrow> words16 c \<and> length c < length b"
proof -
  obtain p c where pc: "seek_magic b = (p, c)"
    by (cases "seek_magic b")
  have c: "words16 c"
    by (rule seek_magic_words16 [OF assms pc])
  then have t: "words16 (tl c)"
    by (cases c) simp_all
  have l: "p \<Longrightarrow> 0 < length c \<and> length c \<le> length b" "length c \<le> length b"
    using pc seek_magic_length [of b c]
    by (auto simp: seek_magic_def Suc_le_eq split: option.splits if_splits)
  show ?thesis
    unfolding resync_round_def pc using c t l
    by (cases p) (auto simp: words16_drop split: sum.splits)
qed

lemma resync_round_append:
  assumes "words16 b"
  shows "resync_round m (b @ w) =
    (case resync_round m b of Wait c \<Rightarrow> resync_round m (c @ w)
     | Skip c e \<Rightarrow> Skip (c @ w) e | Take c f \<Rightarrow> Take (c @ w) f)"
proof -
  obtain p c where pc: "seek_magic b = (p, c)"
    by (cases "seek_magic b")
  have eq: "resync_round m (b @ w) = resync_round m (c @ w)"
    unfolding resync_round_def seek_magic_append [OF pc] ..
  show ?thesis
  proof (cases p)
    case False
    then show ?thesis
      using eq by (simp add: resync_round_def [of m b] pc)
  next
    case True
    then have s: "seek_magic (b @ w) = (True, c @ w)" and ne: "c \<noteq> []"
      using pc seek_magic_append_True seek_magic_length by auto
    show ?thesis
      using eq s ne True unfolding resync_round_def pc
      by (auto simp: nth_append tl_append split: sum.splits list.splits)
  qed
qed

text \<open>Extraction, then more words, then extraction: the same as with all words at once.\<close>

lemma resync_extract_total: "words16 b \<Longrightarrow> \<exists>fs' c es'. resync_extract m b es fs = (Inr fs', c, es')"
proof (induction "length b" arbitrary: b es fs rule: less_induct)
  case less
  then show ?case
    using resync_round_words16 [OF less.prems, of m] resync_extract_round [OF less.prems, of m es fs]
    by (auto split: round.splits)
qed

lemma resync_extract_append:
  assumes "words16 b" "words16 w"
  shows "resync_extract m (b @ w) es fs =
    (case resync_extract m b es fs of
       (Inr fs', c, es') \<Rightarrow> resync_extract m (c @ w) es' fs'
     | (Inl e, c, es') \<Rightarrow> (Inl e, c, es'))"
  using assms(1)
proof (induction "length b" arbitrary: b es fs rule: less_induct)
  case less
  have bw: "words16 (b @ w)"
    using less.prems assms(2) by simp
  show ?case
  proof (cases "resync_round m b")
    case (Wait c)
    then have "words16 (c @ w)"
      using resync_round_words16 [OF less.prems, of m] assms(2) by simp
    then have "resync_extract m (b @ w) es fs = resync_extract m (c @ w) es fs"
      unfolding resync_extract_round [OF bw] resync_round_append [OF less.prems]
      by (simp add: Wait resync_extract_round)
    then show ?thesis
      by (simp add: resync_extract_round [OF less.prems] Wait)
  next
    case (Skip c e)
    then show ?thesis
      using less.hyps [of c "es @ [e]" fs] resync_round_words16 [OF less.prems, of m]
      unfolding resync_extract_round [OF bw] resync_extract_round [OF less.prems]
      by (simp add: resync_round_append [OF less.prems])
  next
    case (Take c f)
    then show ?thesis
      using less.hyps [of c es "fs @ [f]"] resync_round_words16 [OF less.prems, of m]
      unfolding resync_extract_round [OF bw] resync_extract_round [OF less.prems]
      by (simp add: resync_round_append [OF less.prems])
  qed
qed

lemma resync_extract_acc:
  "words16 b \<Longrightarrow> resync_extract m b es (fs @ gs) =
    (case resync_extract m b es gs of
       (Inr fs', c, es') \<Rightarrow> (Inr (fs @ fs'), c, es') | (Inl e, c, es') \<Rightarrow> (Inl e, c, es'))"
proof (induction "length b" arbitrary: b es gs rule: less_induct)
  case less
  then show ?case
    using resync_round_words16 [OF less.prems, of m]
    unfolding resync_extract_round [OF less.prems]
    by (auto split: round.splits)
qed

lemma feed_words16: "words16 ws \<Longrightarrow> feed ws r =
  (case resync_extract (rs_max_payload_words r) (rs_buffer r @ ws) (rs_errors r) [] of
     (frames, b, errors) \<Rightarrow> (frames, r\<lparr>rs_buffer := b, rs_errors := errors\<rparr>))"
  by (simp add: feed_def takeWhile_eq_all_conv [THEN iffD2] list_all_iff)

lemma resync_extract_words16:
  "words16 b \<Longrightarrow> resync_extract m b es fs = (x, c, es') \<Longrightarrow>
     words16 c \<and> (length c \<le> 10 \<or> int (length c) \<le> 10 + m)"
proof (induction "length b" arbitrary: b es fs rule: less_induct)
  case less
  have w: "resync_round m b = Wait c \<Longrightarrow> length c \<le> 10 \<or> int (length c) \<le> 10 + m" for c
    by (auto simp: resync_round_def seek_magic_def split: option.splits if_splits sum.splits)
  show ?case
    using less w resync_round_words16 [OF less.prems(1), of m]
    unfolding resync_extract_round [OF less.prems(1)]
    by (auto split: round.splits)
qed

lemma feed_ok:
  assumes "words16 (rs_buffer r)" "words16 ws"
  obtains fs c es where "feed ws r = (Inr fs, r\<lparr>rs_buffer := c, rs_errors := es\<rparr>)" "words16 c"
    "resync_extract (rs_max_payload_words r) (rs_buffer r @ ws) (rs_errors r) [] = (Inr fs, c, es)"
proof -
  have b: "words16 (rs_buffer r @ ws)"
    using assms by simp
  obtain fs c es where
    x: "resync_extract (rs_max_payload_words r) (rs_buffer r @ ws) (rs_errors r) [] = (Inr fs, c, es)"
    using resync_extract_total [OF b] by blast
  then show ?thesis
    using that resync_extract_words16 [OF b x] by (simp add: feed_words16 [OF assms(2)])
qed

lemma feed_append:
  assumes "words16 (rs_buffer r)" "words16 xs" "words16 ys"
  shows "feed (xs @ ys) r =
    bindM (feed xs) (\<lambda>f1. bindM (feed ys) (\<lambda>f2. returnM (f1 @ f2))) r"
proof -
  let ?m = "rs_max_payload_words r"
  obtain f1 c1 e1 where x: "feed xs r = (Inr f1, r\<lparr>rs_buffer := c1, rs_errors := e1\<rparr>)"
    and c1: "words16 c1"
    and ex: "resync_extract ?m (rs_buffer r @ xs) (rs_errors r) [] = (Inr f1, c1, e1)"
    using feed_ok [OF assms(1,2)] .
  let ?r1 = "r\<lparr>rs_buffer := c1, rs_errors := e1\<rparr>"
  have c1': "words16 (rs_buffer ?r1)"
    using c1 by simp
  obtain f2 c2 e2 where y: "feed ys ?r1 = (Inr f2, ?r1\<lparr>rs_buffer := c2, rs_errors := e2\<rparr>)"
    and "words16 c2"
    and "resync_extract (rs_max_payload_words ?r1) (rs_buffer ?r1 @ ys) (rs_errors ?r1) [] = (Inr f2, c2, e2)"
    using feed_ok [OF c1' assms(3)] .
  then have ey: "resync_extract ?m (c1 @ ys) e1 [] = (Inr f2, c2, e2)"
    by simp
  have "resync_extract ?m (rs_buffer r @ xs @ ys) (rs_errors r) [] = resync_extract ?m (c1 @ ys) e1 f1"
    using resync_extract_append [of "rs_buffer r @ xs" ys] assms ex by simp
  also have "\<dots> = (Inr (f1 @ f2), c2, e2)"
    using resync_extract_acc [of "c1 @ ys" ?m e1 f1 "[]"] c1 assms(3) ey by simp
  finally have "feed (xs @ ys) r = (Inr (f1 @ f2), r\<lparr>rs_buffer := c2, rs_errors := e2\<rparr>)"
    using assms(2,3) by (simp add: feed_words16)
  then show ?thesis
    by (simp add: bindM_def x y)
qed

text \<open>A caller that passes the stream on in pieces, collecting the frames.\<close>

fun feed_all :: "int list list \<Rightarrow> (resync, frame list) sm" where
  "feed_all [] = returnM []"
| "feed_all (chunk # chunks) = bindM (feed chunk) (\<lambda>f1. bindM (feed_all chunks) (\<lambda>f2. returnM (f1 @ f2)))"

text \<open>
  The reader settled: it does not hold back anything it could have extracted.
\<close>

definition resync_idle :: "resync \<Rightarrow> bool" where
  "resync_idle r \<longleftrightarrow> words16 (rs_buffer r) \<and> feed [] r = (Inr [], r)"

lemma resync_extract_settled:
  "words16 b \<Longrightarrow> resync_extract m b es fs = (Inr fs', c, es') \<Longrightarrow>
     resync_extract m c es' gs = (Inr gs, c, es')"
proof (induction "length b" arbitrary: b es fs rule: less_induct)
  case less
  show ?case
  proof (cases "resync_round m b")
    case (Wait d)
    then have "resync_round m d = Wait d"
      using resync_round_append [OF less.prems(1), of m "[]"] by simp
    then show ?thesis
      using less.prems Wait resync_round_words16 [OF less.prems(1), of m]
      by (simp add: resync_extract_round)
  next
    case (Skip d e)
    then have "resync_extract m d (es @ [e]) fs = (Inr fs', c, es')"
      using less.prems(2) unfolding resync_extract_round [OF less.prems(1)] by simp
    then show ?thesis
      using Skip resync_round_words16 [OF less.prems(1), of m] by (auto intro: less.hyps)
  next
    case (Take d f)
    then have "resync_extract m d es (fs @ [f]) = (Inr fs', c, es')"
      using less.prems(2) unfolding resync_extract_round [OF less.prems(1)] by simp
    then show ?thesis
      using Take resync_round_words16 [OF less.prems(1), of m] by (auto intro: less.hyps)
  qed
qed

lemma feed_idle:
  assumes "words16 (rs_buffer r)" "words16 ws" "feed ws r = (Inr fs, r')"
  shows "resync_idle r'"
proof -
  obtain fs' c es where f: "feed ws r = (Inr fs', r\<lparr>rs_buffer := c, rs_errors := es\<rparr>)" and c: "words16 c"
    and x: "resync_extract (rs_max_payload_words r) (rs_buffer r @ ws) (rs_errors r) [] = (Inr fs', c, es)"
    using feed_ok [OF assms(1,2)] .
  have "resync_extract (rs_max_payload_words r) c es [] = (Inr [], c, es)"
    by (rule resync_extract_settled [OF _ x]) (use assms in simp)
  then show ?thesis
    using f c assms(3) by (auto simp: resync_idle_def feed_words16)
qed

lemma feed_pieces:
  assumes "resync_idle r" "list_all words16 chunks"
  shows "feed_all chunks r = feed (concat chunks) r"
  using assms
proof (induction chunks arbitrary: r)
  case Nil
  then show ?case by (simp add: resync_idle_def)
next
  case (Cons x xs)
  then have b: "words16 (rs_buffer r)" and x: "words16 x" and xs: "words16 (concat xs)"
    by (auto simp: resync_idle_def list_all_iff)
  obtain f1 r1 where f1: "feed x r = (Inr f1, r1)"
    using feed_ok [OF b x] .
  then have "feed_all xs r1 = feed (concat xs) r1"
    using Cons feed_idle [OF b x f1] by simp
  then show ?case
    using f1 unfolding concat.simps feed_append [OF b x xs] by (simp add: bindM_def)
qed

text \<open>
  C18.  Incremental reading: however a stream of 16 bit words is cut into pieces for successive
  calls of \<open>feed\<close>, an idle reader returns the same frames, records the same errors and keeps the
  same buffer as when the whole stream is fed at once.
\<close>

theorem feed_all_concat:
  assumes "resync_idle r" "list_all words16 chunks"
  shows "feed_all chunks r = feed (concat chunks) r"
  using assms by (rule feed_pieces)

section \<open>Streams of frames\<close>

lemma list_all_concat: "list_all P (concat xss) \<longleftrightarrow> list_all (list_all P) xss"
  by (induction xss) simp_all

lemma find_magic_noise: "MAGIC0 \<notin> set n \<Longrightarrow> find_magic (n @ MAGIC0 # MAGIC1 # w) = Some (MAGIC0 # MAGIC1 # w)"
proof (induction n)
  case (Cons x n)
  then show ?case by (cases n) auto
qed simp

lemma resync_round_frame:
  assumes "frame_wf f" "int (length (fr_payload f)) \<le> m" "MAGIC0 \<notin> set n" "words16 n" "words16 w"
  shows "resync_round m (n @ frame_words f @ w) = Take w f"
proof -
  obtain t where t: "frame_words f = MAGIC0 # MAGIC1 # t"
    by (simp add: frame_words_def header_without_crc_def)
  have s: "seek_magic (n @ frame_words f @ w) = (True, frame_words f @ w)"
    using find_magic_noise [OF assms(3), of "t @ w"] by (simp add: seek_magic_def t)
  have i: "(frame_words f @ w) ! 8 = int (length (fr_payload f))"
    "(frame_words f @ w) ! 9 = crc16_ccitt_false (le_bytes (header_without_crc f))"
    by (simp_all add: nth_append frame_words_parts)
  have total: "11 + nat (int (length (fr_payload f))) = length (frame_words f)"
    by simp
  show ?thesis
    unfolding resync_round_def s using assms(1,2)
    by (simp add: i total frame_words_parts decode_encode)
qed

lemma feed_stream:
  assumes "list_all (\<lambda>(n, f). words16 n \<and> MAGIC0 \<notin> set n \<and> frame_wf f \<and>
      int (length (fr_payload f)) \<le> rs_max_payload_words r) stream"
    and "concat chunks = concat (map (\<lambda>(n, f). n @ frame_words f) stream)"
    and "rs_buffer r = []"
  shows "feed_all chunks r = (Inr (map snd stream), r)"
proof -
  let ?m = "rs_max_payload_words r" and ?words = "\<lambda>(n, f). n @ frame_words f"
  have ws: "words16 (concat (map ?words st))" if "list_all (\<lambda>(n, f). words16 n \<and> MAGIC0 \<notin> set n \<and>
      frame_wf f \<and> int (length (fr_payload f)) \<le> ?m) st" for st
    using that by (induction st) (auto simp: words16_frame_words)
  have x: "resync_extract ?m (concat (map ?words stream)) es fs = (Inr (fs @ map snd stream), [], es)" for es fs
    using assms(1)
  proof (induction stream arbitrary: fs)
    case Nil
    then show ?case by (simp add: resync_extract_round resync_round_def seek_magic_def)
  next
    case (Cons a st)
    obtain n f where a: "a = (n, f)" by (cases a)
    have "resync_round ?m (n @ frame_words f @ concat (map ?words st)) = Take (concat (map ?words st)) f"
      using Cons.prems by (intro resync_round_frame ws) (auto simp: a)
    then show ?case
      using Cons ws [OF Cons.prems] by (simp add: resync_extract_round a)
  qed
  have all: "feed (concat chunks) r = (Inr (map snd stream), r)"
    using ws [OF assms(1)] x [of "rs_errors r" "[]"] assms(2,3) by (simp add: feed_words16)
  have "list_all words16 chunks"
    using ws [OF assms(1)] unfolding assms(2) [symmetric] by (simp add: list_all_concat)
  moreover have "resync_idle r"
    using assms(3) by (simp add: resync_idle_def feed_words16 resync_extract_round resync_round_def
        seek_magic_def)
  ultimately show ?thesis
    using all feed_pieces by simp
qed

text \<open>
  C19.  Streams of frames: however the words of a sequence of encoded frames, separated by noise
  that does not contain the first magic word, are cut into pieces, a fresh reader returns exactly
  these frames in order and ends with an empty buffer and no recorded error.
\<close>

theorem feed_all_frames:
  assumes "list_all (\<lambda>(n, f). words16 n \<and> MAGIC0 \<notin> set n \<and> frame_wf f \<and>
      int (length (fr_payload f)) \<le> rs_max_payload_words r) stream"
    and "concat chunks = concat (map (\<lambda>(n, f). n @ frame_words f) stream)"
    and "rs_buffer r = []"
  shows "feed_all chunks r = (Inr (map snd stream), r)"
  using assms by (rule feed_stream)

text \<open>
  Bounded memory: after any accepted \<open>feed\<close> the reader holds fewer words than the largest
  frame it is configured for (ten header words, the maximal payload and the payload CRC).
\<close>

theorem feed_buffer_bound:
  assumes "words16 (rs_buffer r)" "0 \<le> rs_max_payload_words r" "feed ws r = (Inr fs, r')"
  shows "int (length (rs_buffer r')) < HEADER_WORDS + rs_max_payload_words r + 1"
proof -
  have ws: "words16 ws"
    using assms(3) by (auto simp: feed_def Let_def list_all_iff dest: set_takeWhileD split: if_splits)
  have b: "words16 (rs_buffer r @ ws)"
    using assms(1) ws by simp
  obtain c es where r': "r' = r\<lparr>rs_buffer := c, rs_errors := es\<rparr>"
    and x: "resync_extract (rs_max_payload_words r) (rs_buffer r @ ws) (rs_errors r) [] = (Inr fs, c, es)"
    using feed_ok [OF assms(1) ws] assms(3) by (metis Inr_inject Pair_inject)
  show ?thesis
    using resync_extract_words16 [OF b x] assms(2) by (auto simp: r' HEADER_WORDS_def)
qed

section \<open>Examples\<close>

definition fresh_reader :: resync where
  "fresh_reader = \<lparr>rs_max_payload_words = 256, rs_buffer = [], rs_errors = []\<rparr>"

lemma feed_nothing: "feed [] fresh_reader = (Inr [], fresh_reader)"
  by (simp add: feed_def fresh_reader_def resync_extract.simps [of _ "[]"] seek_magic_def Let_def)

lemma fresh_reader_idle: "resync_idle fresh_reader"
  by (simp add: resync_idle_def feed_nothing) (simp add: fresh_reader_def)

lemma feed_all_concat_witness:
  "feed_all [[1, 2], [3]] fresh_reader = feed [1, 2, 3] fresh_reader"
  using feed_all_concat [OF fresh_reader_idle, of "[[1, 2], [3]]"] by (simp add: u_simps)

lemma concat_singletons: "concat (map (\<lambda>w. [w]) ws) = ws"
  by (induction ws) simp_all

lemma feed_all_frames_witness:
  "feed_all (map (\<lambda>w. [w]) (7 # frame_words ping_frame)) fresh_reader =
     (Inr [ping_frame], fresh_reader)"
  using feed_all_frames [of fresh_reader "[([7], ping_frame)]"
      "map (\<lambda>w. [w]) (7 # frame_words ping_frame)"] concat_singletons [of "frame_words ping_frame"]
  by (simp add: ping_frame_wf u_simps fresh_reader_def MAGIC0_def)

lemma feed_magic: "feed [MAGIC0] fresh_reader = (Inr [], fresh_reader\<lparr>rs_buffer := [MAGIC0]\<rparr>)"
  by (simp add: feed_def fresh_reader_def resync_extract.simps [of _ "[42330]"] seek_magic_def
      Let_def MAGIC0_def u_simps)

lemma feed_buffer_bound_witness:
  "int (length (rs_buffer (fresh_reader\<lparr>rs_buffer := [MAGIC0]\<rparr>))) < 267"
  using feed_buffer_bound [OF _ _ feed_magic] by (simp add: fresh_reader_def HEADER_WORDS_def)

end
