(* ===== verification/Sim_State.thy ===== *)
theory Sim_State
  imports Packets Frame
begin

text \<open>
  The state of the device simulator \<open>SimulatorCore\<close> (\<open>simulator/core.py\<close>): Flash sectors, the
  sparse Flash and RAM contents, the transfer sessions, the attached service and the fault
  switches; its constructor, the two ways it answers (\<open>_response\<close>, \<open>_fail\<close>) and its address
  checks.  A dict from addresses to words is a partial function, a method is a function of the
  request and the state that returns the response, or the exception it raises, and the new state.
\<close>

section \<open>State\<close>

definition METADATA_MAGIC0 :: int where "METADATA_MAGIC0 = 0x4D42"
definition METADATA_MAGIC1 :: int where "METADATA_MAGIC1 = 0x4453"
definition METADATA_RECORD_VERSION :: int where "METADATA_RECORD_VERSION = 1"
definition METADATA_RECORD_WORDS :: int where "METADATA_RECORD_WORDS = 64"
definition METADATA_RECORD_COUNT :: int where "METADATA_RECORD_COUNT = 16"
definition METADATA_BOOT_ATTEMPT_LIMIT :: int where "METADATA_BOOT_ATTEMPT_LIMIT = 3"
definition FLASH_SERVICE_START :: int where "FLASH_SERVICE_START = 0x013000"
definition FLASH_SERVICE_PUBLISH :: int where "FLASH_SERVICE_PUBLISH = 0x013020"
definition FLASH_SERVICE_END_EXCLUSIVE :: int where "FLASH_SERVICE_END_EXCLUSIVE = 0x016000"

lemmas sim_const_defs = METADATA_MAGIC0_def METADATA_MAGIC1_def METADATA_RECORD_VERSION_def
  METADATA_RECORD_WORDS_def METADATA_RECORD_COUNT_def METADATA_BOOT_ATTEMPT_LIMIT_def
  FLASH_SERVICE_START_def FLASH_SERVICE_PUBLISH_def FLASH_SERVICE_END_EXCLUSIVE_def

record flash_sector =
  fs_name :: string
  fs_start :: int
  fs_length_words :: int

definition FlashSector :: "string \<Rightarrow> int \<Rightarrow> int \<Rightarrow> flash_sector res" where
  "FlashSector name start length_words =
     (if name = [] \<or> start < 0 \<or> length_words \<le> 0
      then Inl (ValueError ''invalid Flash sector'')
      else Inr \<lparr>fs_name = name, fs_start = start, fs_length_words = length_words\<rparr>)"

definition fs_end_exclusive :: "flash_sector \<Rightarrow> int" where
  "fs_end_exclusive s = fs_start s + fs_length_words s"

definition fs_contains :: "flash_sector \<Rightarrow> int \<Rightarrow> bool" where
  "fs_contains s address \<longleftrightarrow> fs_start s \<le> address \<and> address < fs_end_exclusive s"

record sim_faults =
  flt_erase_fail :: bool
  flt_program_fail_at_address :: "int option"
  flt_verify_fail_at_address :: "int option"
  flt_bad_payload_crc :: bool
  flt_no_response :: bool
  flt_illegal_address :: bool
  flt_sequence_mismatch :: bool
  flt_bad_block_index :: bool

definition no_faults :: sim_faults where
  "no_faults =
     \<lparr>flt_erase_fail = False, flt_program_fail_at_address = None,
      flt_verify_fail_at_address = None, flt_bad_payload_crc = False, flt_no_response = False,
      flt_illegal_address = False, flt_sequence_mismatch = False, flt_bad_block_index = False\<rparr>"

datatype sim_action = ACT_NONE | ACT_RUN_APP | ACT_RUN_RAM | ACT_RESET_DEVICE

record session =
  ses_block_count :: int
  ses_total_words :: int
  ses_entry_point :: int
  ses_crc_words :: "int list"
  ses_expected_index :: int
  ses_packet_count :: int
  ses_received_words :: int
  ses_start :: "int option"
  ses_end_exclusive :: "int option"

definition Session :: "int \<Rightarrow> int \<Rightarrow> int \<Rightarrow> int list \<Rightarrow> session" where
  "Session block_count total_words entry_point crc_words =
     \<lparr>ses_block_count = block_count, ses_total_words = total_words,
      ses_entry_point = entry_point, ses_crc_words = crc_words, ses_expected_index = 0,
      ses_packet_count = 0, ses_received_words = 0, ses_start = None, ses_end_exclusive = None\<rparr>"

record sim =
  sim_sectors :: "flash_sector list"
  sim_device_info :: device_info
  sim_faults :: sim_faults
  sim_require_service :: bool
  sim_flash :: "int \<rightharpoonup> int"
  sim_programmed :: "int set"
  sim_last_error :: error_detail
  sim_program_session :: "session option"
  sim_verify_session :: "session option"
  sim_ram_load_session :: "session option"
  sim_ram_loaded :: "session option"
  sim_ram_crc_ok :: bool
  sim_ram :: "int \<rightharpoonup> int"
  sim_service_state :: service_state
  sim_service_last_attach_status :: status
  sim_service_capabilities :: int
  sim_service_header_address :: int
  sim_service_loaded_crc32 :: int
  sim_service_loaded_words :: int
  sim_pending_action :: sim_action
  sim_verify_succeeded :: bool

section \<open>Construction\<close>

definition sector :: "string \<times> int \<times> int \<Rightarrow> flash_sector" where
  "sector x = (case x of (name, start, len) \<Rightarrow>
     \<lparr>fs_name = name, fs_start = start, fs_length_words = len\<rparr>)"

definition default_sectors :: "flash_sector list" where
  "default_sectors = map sector
     [(''FLASHA'', 0x080000, 0x002000), (''FLASHB'', 0x082000, 0x002000),
      (''FLASHC'', 0x084000, 0x002000), (''FLASHD'', 0x086000, 0x002000),
      (''FLASHE'', 0x088000, 0x008000), (''FLASHF'', 0x090000, 0x008000),
      (''FLASHG'', 0x098000, 0x008000), (''FLASHH'', 0x0A0000, 0x008000),
      (''FLASHI'', 0x0A8000, 0x008000), (''FLASHJ'', 0x0B0000, 0x008000),
      (''FLASHK'', 0x0B8000, 0x002000), (''FLASHL'', 0x0BA000, 0x002000),
      (''FLASHM'', 0x0BC000, 0x002000), (''FLASHN'', 0x0BE000, 0x002000)]"

definition default_device_info :: device_info where
  "default_device_info =
     \<lparr>di_device_id = device_id_code DEV_F28377D, di_cpu_id = cpu_id_code CPU_CPU1,
      di_kernel_ver_major = 0, di_kernel_ver_minor = 1, di_kernel_ver_patch = 0,
      di_protocol_ver = PROTOCOL_VERSION,
      di_feature_flags =
        feature_code FEAT_ERASE OR feature_code FEAT_PROGRAM OR feature_code FEAT_VERIFY OR
        feature_code FEAT_RUN OR feature_code FEAT_RESET OR feature_code FEAT_RAM_LOAD OR
        feature_code FEAT_MEMORY_READ,
      di_max_payload_words = 256, di_max_data_words = 248,
      di_boot_mode = boot_mode_code BM_FLASH_KERNEL,
      di_kernel_layout = kernel_layout_code KL_MONOLITHIC,
      di_revision_id = 0, di_uid_unique = 0\<rparr>"

definition no_error :: error_detail where
  "no_error = \<lparr>ed_operation = 0, ed_stage = 0, ed_address = 0, ed_length_words = 0,
     ed_api_status = 0, ed_fsm_status = 0, ed_extra0 = 0, ed_extra1 = 0\<rparr>"

text \<open>An empty sequence of sectors selects the default ones, as \<open>sectors or (...)\<close> does.\<close>

definition SimulatorCore ::
  "flash_sector list \<Rightarrow> device_info option \<Rightarrow> sim_faults option \<Rightarrow> bool \<Rightarrow> sim res" where
  "SimulatorCore sectors device_info faults require_service =
     (let sectors = (if sectors = [] then default_sectors else sectors) in
      if length sectors > 32
      then Inl (ValueError ''MVP sector mask supports at most 32 sectors'')
      else Inr
        \<lparr>sim_sectors = sectors,
         sim_device_info = (case device_info of Some d \<Rightarrow> d | None \<Rightarrow> default_device_info),
         sim_faults = (case faults of Some f \<Rightarrow> f | None \<Rightarrow> no_faults),
         sim_require_service = require_service, sim_flash = Map.empty, sim_programmed = {},
         sim_last_error = no_error, sim_program_session = None, sim_verify_session = None,
         sim_ram_load_session = None, sim_ram_loaded = None, sim_ram_crc_ok = False,
         sim_ram = Map.empty, sim_service_state = SVC_DETACHED,
         sim_service_last_attach_status = ST_OK, sim_service_capabilities = 0,
         sim_service_header_address = 0, sim_service_loaded_crc32 = 0,
         sim_service_loaded_words = 0, sim_pending_action = ACT_NONE,
         sim_verify_succeeded = False\<rparr>)"

section \<open>Answers\<close>

definition respond :: "frame \<Rightarrow> status \<Rightarrow> int list \<Rightarrow> (sim, frame) sm" where
  "respond request st payload = liftM
     (Frame (packet_type_code (if st = ST_OK then PKT_RESPONSE else PKT_ERROR_RESPONSE))
        (fr_command request) (fr_sequence request) payload FLAG_NONE (status_code st)
        PROTOCOL_VERSION)"

definition fail_at ::
  "frame \<Rightarrow> status \<Rightarrow> error_operation \<Rightarrow> error_stage \<Rightarrow> int \<Rightarrow> int \<Rightarrow> int \<Rightarrow> (sim, frame) sm" where
  "fail_at request st operation stage address length_words extra0 =
     (if operation \<noteq> OP_FRAME then
        bindM (liftM (error_detail_check
          \<lparr>ed_operation = error_operation_code operation, ed_stage = error_stage_code stage,
           ed_address = address, ed_length_words = length_words, ed_api_status = 0,
           ed_fsm_status = 0, ed_extra0 = extra0, ed_extra1 = 0\<rparr>)) (\<lambda>detail.
        thenM (modM (\<lambda>s. s\<lparr>sim_last_error := detail\<rparr>)) (respond request st []))
      else respond request st [])"

abbreviation fail :: "frame \<Rightarrow> status \<Rightarrow> error_operation \<Rightarrow> error_stage \<Rightarrow> (sim, frame) sm" where
  "fail request st operation stage \<equiv> fail_at request st operation stage 0 0 0"

section \<open>Address checks\<close>

definition in_sectors :: "sim \<Rightarrow> int \<Rightarrow> bool" where
  "in_sectors s x \<longleftrightarrow> list_ex (\<lambda>sec. fs_contains sec x) (sim_sectors s)"

definition addresses_allowed :: "sim \<Rightarrow> int \<Rightarrow> int \<Rightarrow> bool" where
  "addresses_allowed s address count =
     (if flt_illegal_address (sim_faults s) \<or> count \<le> 0 then False
      else let end = address + count in
        APP_FLASH_START \<le> address \<and> end \<le> APP_FLASH_END_EXCLUSIVE
        \<and> \<not> (address < SLOT_A_METADATA_END \<and> end > SLOT_A_METADATA_START)
        \<and> list_all (in_sectors s) [address .. end - 1])"

definition ram_allowed :: "int \<Rightarrow> int \<Rightarrow> bool" where
  "ram_allowed address count =
     (if count \<le> 0 then False
      else let end = address + count in
        if end < address then False
        else list_ex (\<lambda>(start, stop). start \<le> address \<and> end \<le> stop)
          [(0x000000, 0x000002), (0x000123, 0x000400), (0x008000, 0x00C000),
           (0x010000, 0x01BFF8), (0x03F800, 0x040000), (0x049000, 0x049800),
           (0x04B000, 0x04B800)])"

definition sim_protocol_info :: "sim \<Rightarrow> int list" where
  "sim_protocol_info s =
     [PROTOCOL_VERSION, PROTOCOL_VERSION, PROTOCOL_VERSION, 10, 1, 1,
      di_max_payload_words (sim_device_info s), 0]"

definition mem_get :: "(int \<rightharpoonup> int) \<Rightarrow> int \<Rightarrow> int" where
  "mem_get m x = (case m x of Some w \<Rightarrow> w | None \<Rightarrow> 0xFFFF)"

end
