(* ===== verification/Sim_Ram.thy ===== *)
theory Sim_Ram
  imports Sim_State
begin

text \<open>
  The simulator's handlers for queries and for loading, checking and running a RAM image
  (\<open>simulator/core.py\<close>), one definition per method.
\<close>

section \<open>Queries\<close>

definition require_empty :: "frame \<Rightarrow> error_operation \<Rightarrow> (sim, frame option) sm" where
  "require_empty request operation =
     (if fr_payload request \<noteq> []
      then bindM (fail request ST_BAD_PAYLOAD_LENGTH operation STG_PAYLOAD) (\<lambda>r. returnM (Some r))
      else returnM None)"

text \<open>\<open>self._require_empty(...) or ...\<close> and \<open>if error: return error\<close>.\<close>

definition unless_error :: "(sim, frame option) sm \<Rightarrow> (sim, frame) sm \<Rightarrow> (sim, frame) sm" where
  "unless_error check rest =
     bindM check (\<lambda>error. case error of Some r \<Rightarrow> returnM r | None \<Rightarrow> rest)"

definition h_ping :: "frame \<Rightarrow> (sim, frame) sm" where
  "h_ping request =
     unless_error (require_empty request OP_FRAME) (respond request ST_OK [])"

definition h_get_device_info :: "frame \<Rightarrow> (sim, frame) sm" where
  "h_get_device_info request =
     unless_error (require_empty request OP_FRAME)
       (bindM (getM sim_device_info) (\<lambda>d.
        bindM (liftM (device_info_to_words d)) (\<lambda>words. respond request ST_OK words)))"

definition h_get_protocol_info :: "frame \<Rightarrow> (sim, frame) sm" where
  "h_get_protocol_info request =
     unless_error (require_empty request OP_FRAME)
       (bindM (getM sim_protocol_info) (\<lambda>words. respond request ST_OK words))"

definition h_get_last_error :: "frame \<Rightarrow> (sim, frame) sm" where
  "h_get_last_error request =
     unless_error (require_empty request OP_FRAME)
       (bindM (getM sim_last_error) (\<lambda>e.
        bindM (liftM (error_detail_to_words e)) (\<lambda>words. respond request ST_OK words)))"

definition h_get_service_status :: "frame \<Rightarrow> (sim, frame) sm" where
  "h_get_service_status request =
     unless_error (require_empty request OP_FRAME)
       (\<lambda>s. bindM (liftM (split_u32 (sim_service_capabilities s))) (\<lambda>(cap_low, cap_high).
        bindM (liftM (split_u32 (sim_service_loaded_crc32 s))) (\<lambda>(crc_low, crc_high).
        bindM (liftM (split_u32 (sim_service_loaded_words s))) (\<lambda>(words_low, words_high).
          respond request ST_OK
            [service_state_code (sim_service_state s), SERVICE_ABI_MAJOR, SERVICE_ABI_MINOR, 0, 0,
             cap_low, cap_high, status_code (sim_service_last_attach_status s),
             crc_low, crc_high, words_low, words_high]))) s)"

section \<open>RAM loading\<close>

definition h_ram_load_begin :: "frame \<Rightarrow> (sim, frame) sm" where
  "h_ram_load_begin request s =
     (let p = fr_payload request in
      if length p \<noteq> 9 then fail request ST_BAD_PAYLOAD_LENGTH OP_RAM_LOAD STG_PAYLOAD s
      else let target = p ! 0; block_count = p ! 1; total_words = join_u32 (p ! 2) (p ! 3);
               entry_point = join_u32 (p ! 4) (p ! 5) in
      if p ! 8 \<noteq> 0 then fail request ST_BAD_FLAGS OP_RAM_LOAD STG_PAYLOAD s
      else if sim_ram_load_session s \<noteq> None then fail request ST_BUSY OP_RAM_LOAD STG_STATE s
      else if target \<noteq> target_code TGT_RAM_APP
      then fail request ST_TARGET_MISMATCH OP_RAM_LOAD STG_STATE s
      else if block_count = 0 \<or> total_words = 0
      then fail request ST_BAD_WORD_COUNT OP_RAM_LOAD STG_PAYLOAD s
      else if \<not> ram_allowed entry_point 1
      then fail_at request ST_RAM_REGION_ERROR OP_RAM_LOAD STG_ADDRESS_CHECK entry_point 0 0 s
      else respond request ST_OK []
        (s\<lparr>sim_ram_load_session := Some (Session block_count total_words entry_point []),
           sim_ram_loaded := None, sim_ram_crc_ok := False\<rparr>))"

definition overlaps_service :: "int \<Rightarrow> int \<Rightarrow> bool" where
  "overlaps_service address word_count \<longleftrightarrow>
     address < FLASH_SERVICE_END_EXCLUSIVE \<and> address + word_count > FLASH_SERVICE_START"

definition clear_publish :: "(int \<rightharpoonup> int) \<Rightarrow> (int \<rightharpoonup> int)" where
  "clear_publish ram = ram(FLASH_SERVICE_PUBLISH \<mapsto> 0, FLASH_SERVICE_PUBLISH + 1 \<mapsto> 0)"

definition ram_store :: "int \<Rightarrow> int list \<Rightarrow> sim \<Rightarrow> sim" where
  "ram_store address data s =
     (if overlaps_service address (int (length data))
      then s\<lparr>sim_service_state := SVC_DETACHED, sim_service_capabilities := 0,
             sim_service_header_address := 0,
             sim_ram := clear_publish (clear_publish (sim_ram s) ++ cells address data)\<rparr>
      else s\<lparr>sim_ram := sim_ram s ++ cells address data\<rparr>)"

definition ram_advance :: "int \<Rightarrow> int list \<Rightarrow> session \<Rightarrow> session" where
  "ram_advance address data session = session
     \<lparr>ses_crc_words := ses_crc_words session @ data,
      ses_expected_index := ses_expected_index session + 1,
      ses_packet_count := ses_packet_count session + 1,
      ses_received_words := ses_received_words session + int (length data),
      ses_start := Some (case ses_start session of None \<Rightarrow> address | Some v \<Rightarrow> min v address),
      ses_end_exclusive :=
        Some (case ses_end_exclusive session of None \<Rightarrow> address + int (length data)
              | Some v \<Rightarrow> max v (address + int (length data)))\<rparr>"

definition h_ram_load_data :: "frame \<Rightarrow> (sim, frame) sm" where
  "h_ram_load_data request s =
     (case sim_ram_load_session s of
        None \<Rightarrow> fail request ST_MISSING_BEGIN OP_RAM_LOAD STG_STATE s
      | Some session \<Rightarrow>
        let p = fr_payload request; closed = s\<lparr>sim_ram_load_session := None\<rparr> in
        if length p < 5 then fail request ST_BAD_PAYLOAD_LENGTH OP_RAM_LOAD STG_PAYLOAD closed
        else let address = join_u32 (p ! 0) (p ! 1); word_count = p ! 2;
                 block_index = join_u32 (p ! 3) (p ! 4); data = drop 5 p in
        if int (length data) \<noteq> word_count
        then fail_at request ST_BAD_PAYLOAD_LENGTH OP_RAM_LOAD STG_PAYLOAD address word_count 0 closed
        else if word_count = 0
        then fail_at request ST_BAD_WORD_COUNT OP_RAM_LOAD STG_PAYLOAD address 0 0 closed
        else if block_index \<noteq> ses_expected_index session
        then fail_at request ST_BLOCK_INDEX_ERROR OP_RAM_LOAD STG_STATE address word_count
               (ses_expected_index session) closed
        else if ses_packet_count session \<ge> ses_block_count session
             \<or> ses_received_words session + word_count > ses_total_words session
        then fail_at request ST_TOTAL_COUNT_MISMATCH OP_RAM_LOAD STG_STATE address word_count 0 closed
        else if \<not> ram_allowed address word_count
        then fail_at request ST_RAM_REGION_ERROR OP_RAM_LOAD STG_ADDRESS_CHECK address word_count 0
               closed
        else respond request ST_OK []
          ((ram_store address data s)
             \<lparr>sim_ram_load_session := Some (ram_advance address data session)\<rparr>))"

definition ram_complete :: "int \<Rightarrow> int \<Rightarrow> session \<Rightarrow> bool" where
  "ram_complete packets words session \<longleftrightarrow>
     packets = ses_block_count session \<and> packets = ses_packet_count session \<and>
     words = ses_total_words session \<and> words = ses_received_words session \<and>
     (case (ses_start session, ses_end_exclusive session) of
        (Some start, Some end) \<Rightarrow> start \<le> ses_entry_point session \<and> ses_entry_point session < end
      | _ \<Rightarrow> False)"

definition h_ram_load_end :: "frame \<Rightarrow> (sim, frame) sm" where
  "h_ram_load_end request s =
     (case sim_ram_load_session s of
        None \<Rightarrow> fail request ST_MISSING_BEGIN OP_RAM_LOAD STG_STATE s
      | Some session \<Rightarrow>
        let p = fr_payload request; closed = s\<lparr>sim_ram_load_session := None\<rparr> in
        if length p \<noteq> 6 then fail request ST_BAD_PAYLOAD_LENGTH OP_RAM_LOAD STG_PAYLOAD closed
        else if \<not> ram_complete (join_u32 (p ! 0) (p ! 1)) (join_u32 (p ! 2) (p ! 3)) session
        then fail request ST_TOTAL_COUNT_MISMATCH OP_RAM_LOAD STG_STATE closed
        else respond request ST_OK []
          (closed\<lparr>sim_ram_loaded := Some session, sim_ram_crc_ok := False\<rparr>))"

definition h_ram_check_crc :: "frame \<Rightarrow> (sim, frame) sm" where
  "h_ram_check_crc request s =
     (let p = fr_payload request in
      if length p \<noteq> 5 then fail request ST_BAD_PAYLOAD_LENGTH OP_RAM_LOAD STG_PAYLOAD s
      else if p ! 4 \<noteq> 0 then fail request ST_BAD_FLAGS OP_RAM_LOAD STG_PAYLOAD s
      else case sim_ram_loaded s of
        None \<Rightarrow> fail request ST_INVALID_STATE OP_RAM_LOAD STG_STATE s
      | Some session \<Rightarrow>
          (case crc32_words (ses_crc_words session) of
             Inl e \<Rightarrow> (Inl e, s)
           | Inr actual_crc \<Rightarrow>
               if join_u32 (p ! 2) (p ! 3) \<noteq> ses_total_words session
                  \<or> join_u32 (p ! 0) (p ! 1) \<noteq> actual_crc
               then fail_at request ST_VERIFY_MISMATCH OP_RAM_LOAD STG_VERIFY 0
                      (ses_total_words session) (actual_crc AND 0xFFFF) (s\<lparr>sim_ram_crc_ok := False\<rparr>)
               else respond request ST_OK [] (s\<lparr>sim_ram_crc_ok := True\<rparr>)))"

definition h_run_ram :: "frame \<Rightarrow> (sim, frame) sm" where
  "h_run_ram request s =
     (let p = fr_payload request in
      if length p \<noteq> 3 then fail request ST_BAD_PAYLOAD_LENGTH OP_RUN STG_PAYLOAD s
      else if p ! 2 \<noteq> 0 then fail request ST_BAD_FLAGS OP_RUN STG_PAYLOAD s
      else case sim_ram_loaded s of
        None \<Rightarrow> fail request ST_INVALID_STATE OP_RUN STG_STATE s
      | Some session \<Rightarrow>
          if \<not> sim_ram_crc_ok s then fail request ST_INVALID_STATE OP_RUN STG_STATE s
          else let given = join_u32 (p ! 0) (p ! 1);
                   entry_point = (if given \<noteq> 0 then given else ses_entry_point session) in
          if (case (ses_start session, ses_end_exclusive session) of
                (Some start, Some end) \<Rightarrow> start \<le> entry_point \<and> entry_point < end
              | _ \<Rightarrow> False) \<and> ram_allowed entry_point 1
          then respond request ST_OK [] (s\<lparr>sim_pending_action := ACT_RUN_RAM\<rparr>)
          else fail_at request ST_RAM_REGION_ERROR OP_RUN STG_ADDRESS_CHECK entry_point 0 0 s)"

end
