(* ===== verification/Sim_Flash.thy ===== *)
theory Sim_Flash
  imports Sim_Ram
begin

text \<open>
  The simulator's handlers for erasing, programming, verifying and reading memory
  (\<open>simulator/core.py\<close>), one definition per method.
\<close>

section \<open>Erase\<close>

definition selected_sectors :: "int \<Rightarrow> flash_sector list \<Rightarrow> flash_sector list" where
  "selected_sectors m sectors =
     map snd (filter (\<lambda>(index, sec). m AND push_bit index 1 \<noteq> 0) (enumerate 0 sectors))"

definition erase_flash :: "flash_sector list \<Rightarrow> (int \<rightharpoonup> int) \<Rightarrow> (int \<rightharpoonup> int)" where
  "erase_flash selected flash =
     (\<lambda>x. if list_ex (\<lambda>sec. fs_contains sec x) selected then None else flash x)"

definition h_erase :: "frame \<Rightarrow> (sim, frame) sm" where
  "h_erase request s =
     (let p = fr_payload request in
      if length p \<noteq> 3 then fail request ST_BAD_PAYLOAD_LENGTH OP_ERASE STG_PAYLOAD s
      else let m = join_u32 (p ! 0) (p ! 1) in
      if p ! 2 \<noteq> 0 then fail request ST_BAD_FLAGS OP_ERASE STG_PAYLOAD s
      else let valid_mask = push_bit (length (sim_sectors s)) 1 - 1 in
      if m = 0 \<or> m AND NOT valid_mask \<noteq> 0
      then fail request ST_BAD_ADDRESS OP_ERASE STG_ADDRESS_CHECK s
      else if flt_erase_fail (sim_faults s) then fail request ST_ERASE_FAILED OP_ERASE STG_API_CALL s
      else let selected = selected_sectors m (sim_sectors s) in
        respond request ST_OK []
          (s\<lparr>sim_flash := erase_flash selected (sim_flash s),
             sim_programmed := {x \<in> sim_programmed s. \<not> list_ex (\<lambda>sec. fs_contains sec x) selected},
             sim_program_session := None, sim_verify_session := None,
             sim_verify_succeeded := False\<rparr>))"

section \<open>Transfers\<close>

text \<open>
  \<open>_begin\<close>, \<open>_data\<close> and \<open>_end\<close> return an error response or go on: \<open>Inl\<close> is the error response.
\<close>

definition begin_transfer :: "frame \<Rightarrow> error_operation \<Rightarrow> (sim, frame + session) sm" where
  "begin_transfer request operation s =
     (let p = fr_payload request;
          refuse = (\<lambda>st stage address.
            bindM (fail_at request st operation stage address 0 0) (\<lambda>r. returnM (Inl r)) s) in
      if length p \<noteq> 9 then refuse ST_BAD_PAYLOAD_LENGTH STG_PAYLOAD 0
      else let target = p ! 0; block_count = p ! 1; total_words = join_u32 (p ! 2) (p ! 3);
               entry_point = join_u32 (p ! 4) (p ! 5) in
      if p ! 8 \<noteq> 0 then refuse ST_BAD_FLAGS STG_PAYLOAD 0
      else if target \<noteq> target_code TGT_FLASH_APP then refuse ST_TARGET_MISMATCH STG_STATE 0
      else if block_count = 0 \<or> total_words = 0 then refuse ST_BAD_WORD_COUNT STG_PAYLOAD 0
      else if \<not> addresses_allowed s entry_point 1
      then refuse ST_ADDRESS_OUT_OF_RANGE STG_ADDRESS_CHECK entry_point
      else (Inr (Inr (Session block_count total_words entry_point [])), s))"

definition transfer_data ::
  "frame \<Rightarrow> session option \<Rightarrow> error_operation \<Rightarrow> (sim, frame + (int \<times> int list \<times> int)) sm" where
  "transfer_data request session operation s =
     (let p = fr_payload request;
          refuse = (\<lambda>st stage address length_words extra0.
            bindM (fail_at request st operation stage address length_words extra0)
              (\<lambda>r. returnM (Inl r)) s) in
      case session of None \<Rightarrow> refuse ST_MISSING_BEGIN STG_STATE 0 0 0
      | Some session \<Rightarrow>
        if length p < 5 then refuse ST_BAD_PAYLOAD_LENGTH STG_PAYLOAD 0 0 0
        else let address = join_u32 (p ! 0) (p ! 1); data_words = p ! 2;
                 block_index = join_u32 (p ! 3) (p ! 4); data = drop 5 p in
        if int (length p) \<noteq> 5 + data_words
        then refuse ST_BAD_PAYLOAD_LENGTH STG_PAYLOAD address data_words 0
        else case validate_write_data data (Some (di_max_data_words (sim_device_info s))) of
          Inl (DataAlignmentError _) \<Rightarrow> refuse ST_BAD_WORD_COUNT STG_PAYLOAD address data_words 0
        | Inl e \<Rightarrow> (Inl e, s)
        | Inr _ \<Rightarrow>
          if flt_bad_block_index (sim_faults s) \<or> block_index \<noteq> ses_expected_index session
          then refuse ST_BLOCK_INDEX_ERROR STG_STATE address data_words
                 (ses_expected_index session AND 0xFFFF)
          else if \<not> addresses_allowed s address data_words
          then refuse ST_ADDRESS_OUT_OF_RANGE STG_ADDRESS_CHECK address data_words 0
          else (Inr (Inr (address, data, block_index)), s))"

definition end_transfer :: "frame \<Rightarrow> session option \<Rightarrow> error_operation \<Rightarrow> (sim, frame) sm" where
  "end_transfer request session operation =
     (case session of None \<Rightarrow> fail request ST_MISSING_BEGIN operation STG_STATE
      | Some session \<Rightarrow>
        let p = fr_payload request in
        if length p \<noteq> 6 then fail request ST_BAD_PAYLOAD_LENGTH operation STG_PAYLOAD
        else let packets = join_u32 (p ! 0) (p ! 1); words = join_u32 (p ! 2) (p ! 3) in
        if packets \<noteq> ses_block_count session \<or> packets \<noteq> ses_packet_count session
           \<or> words \<noteq> ses_total_words session \<or> words \<noteq> ses_received_words session
        then fail request ST_TOTAL_COUNT_MISMATCH operation STG_STATE
        else respond request ST_OK [])"

definition advance :: "int \<Rightarrow> session \<Rightarrow> session" where
  "advance data_words session = session
     \<lparr>ses_expected_index := ses_expected_index session + 1,
      ses_packet_count := ses_packet_count session + 1,
      ses_received_words := ses_received_words session + data_words\<rparr>"

section \<open>Program\<close>

definition h_program_begin :: "frame \<Rightarrow> (sim, frame) sm" where
  "h_program_begin request s =
     (if sim_program_session s \<noteq> None then fail request ST_BUSY OP_PROGRAM STG_STATE s
      else bindM (begin_transfer request OP_PROGRAM) (\<lambda>x. case x of
        Inl error \<Rightarrow> returnM error
      | Inr session \<Rightarrow> thenM (modM (\<lambda>s. s\<lparr>sim_program_session := Some session\<rparr>))
                         (respond request ST_OK [])) s)"

definition h_program_data :: "frame \<Rightarrow> (sim, frame) sm" where
  "h_program_data request s =
     (let session = sim_program_session s;
          closing = (\<lambda>s. s\<lparr>sim_program_session := None\<rparr>) in
      bindM (transfer_data request session OP_PROGRAM) (\<lambda>x. case x of
        Inl error \<Rightarrow> thenM (modM closing) (returnM error)
      | Inr (address, data, _) \<Rightarrow> (\<lambda>s.
          let n = int (length data) in
          if (case flt_program_fail_at_address (sim_faults s) of None \<Rightarrow> False
              | Some x \<Rightarrow> address \<le> x \<and> x < address + n)
          then fail_at request ST_PROGRAM_FAILED OP_PROGRAM STG_API_CALL
                 (the (flt_program_fail_at_address (sim_faults s))) n 0 (closing s)
          else if list_ex (\<lambda>index. address + int index \<in> sim_programmed s) [0 ..< length data]
          then fail_at request ST_REPROGRAM_FORBIDDEN OP_PROGRAM STG_ADDRESS_CHECK address n 0
                 (closing s)
          else respond request ST_OK []
            (s\<lparr>sim_flash := sim_flash s ++ cells address data,
               sim_programmed := sim_programmed s \<union> {address ..< address + n},
               sim_program_session := map_option (advance n) session,
               sim_verify_succeeded := False\<rparr>))) s)"

definition h_program_end :: "frame \<Rightarrow> (sim, frame) sm" where
  "h_program_end request s =
     bindM (end_transfer request (sim_program_session s) OP_PROGRAM) (\<lambda>response.
     thenM (modM (\<lambda>s. s\<lparr>sim_program_session := None,
              sim_verify_succeeded :=
                (if fr_status response = status_code ST_OK then False else sim_verify_succeeded s)\<rparr>))
       (returnM response)) s"

section \<open>Verify\<close>

definition h_verify_begin :: "frame \<Rightarrow> (sim, frame) sm" where
  "h_verify_begin request s =
     (if sim_verify_session s \<noteq> None then fail request ST_BUSY OP_VERIFY STG_STATE s
      else bindM (begin_transfer request OP_VERIFY) (\<lambda>x. case x of
        Inl error \<Rightarrow> returnM error
      | Inr session \<Rightarrow> thenM (modM (\<lambda>s. s\<lparr>sim_verify_session := Some session\<rparr>))
                         (respond request ST_OK [])) s)"

text \<open>The first address of the data at which the comparison fails.\<close>

fun verify_mismatch :: "sim \<Rightarrow> int \<Rightarrow> int list \<Rightarrow> int option" where
  "verify_mismatch s current [] = None"
| "verify_mismatch s current (expected # rest) =
     (if flt_verify_fail_at_address (sim_faults s) = Some current
         \<or> mem_get (sim_flash s) current \<noteq> expected
      then Some current else verify_mismatch s (current + 1) rest)"

definition h_verify_data :: "frame \<Rightarrow> (sim, frame) sm" where
  "h_verify_data request s =
     (let session = sim_verify_session s;
          closing = (\<lambda>s. s\<lparr>sim_verify_session := None, sim_verify_succeeded := False\<rparr>) in
      bindM (transfer_data request session OP_VERIFY) (\<lambda>x. case x of
        Inl error \<Rightarrow> thenM (modM closing) (returnM error)
      | Inr (address, data, _) \<Rightarrow> (\<lambda>s.
          case verify_mismatch s address data of
            Some current \<Rightarrow> fail_at request ST_VERIFY_MISMATCH OP_VERIFY STG_VERIFY current 1
                              (mem_get (sim_flash s) current) (closing s)
          | None \<Rightarrow> respond request ST_OK []
              (s\<lparr>sim_verify_session := map_option (advance (int (length data))) session\<rparr>))) s)"

definition h_verify_end :: "frame \<Rightarrow> (sim, frame) sm" where
  "h_verify_end request s =
     bindM (end_transfer request (sim_verify_session s) OP_VERIFY) (\<lambda>response.
     thenM (modM (\<lambda>s. s\<lparr>sim_verify_session := None,
              sim_verify_succeeded := (fr_status response = status_code ST_OK)\<rparr>))
       (returnM response)) s"

section \<open>Memory read\<close>

definition h_memory_read :: "frame \<Rightarrow> (sim, frame) sm" where
  "h_memory_read request s =
     (let p = fr_payload request in
      if length p \<noteq> 4 then fail request ST_BAD_PAYLOAD_LENGTH OP_FRAME STG_PAYLOAD s
      else let address = join_u32 (p ! 0) (p ! 1); word_count = p ! 2 in
      if p ! 3 \<noteq> 0 then fail request ST_BAD_FLAGS OP_FRAME STG_PAYLOAD s
      else if word_count = 0 \<or> word_count > di_max_payload_words (sim_device_info s) - 3
      then fail request ST_BAD_WORD_COUNT OP_FRAME STG_PAYLOAD s
      else respond request ST_OK
        ([p ! 0, p ! 1, word_count] @
         map (\<lambda>index. case sim_ram s (address + int index) of
               Some w \<Rightarrow> w | None \<Rightarrow> mem_get (sim_flash s) (address + int index))
           [0 ..< nat word_count]) s)"

definition h_reset :: "frame \<Rightarrow> (sim, frame) sm" where
  "h_reset request =
     unless_error (require_empty request OP_RESET)
       (thenM (modM (\<lambda>s. s\<lparr>sim_pending_action := ACT_RESET_DEVICE\<rparr>)) (respond request ST_OK []))"

end
