(* ===== verification/Sim_Metadata.thy ===== *)
theory Sim_Metadata
  imports Sim_Flash
begin

text \<open>
  The simulator's metadata area (\<open>simulator/core.py\<close>): sixteen records of 64 words at the start of
  sector B, their summary, the three record builders, and the handlers that append a record, report
  the summary and start the application.
\<close>

section \<open>Records and their summary\<close>

definition record_base :: "nat \<Rightarrow> int" where
  "record_base index = SLOT_A_METADATA_START + int index * METADATA_RECORD_WORDS"

definition metadata_record :: "(int \<rightharpoonup> int) \<Rightarrow> nat \<Rightarrow> int list" where
  "metadata_record flash index =
     map (\<lambda>word. mem_get flash (record_base index + int word)) [0 ..< nat METADATA_RECORD_WORDS]"

definition metadata_erased :: "int list \<Rightarrow> bool" where
  "metadata_erased rec \<longleftrightarrow> list_all (\<lambda>word. word = 0xFFFF) rec"

definition record_sequence :: "int list \<Rightarrow> int" where
  "record_sequence rec = join_u32 (rec ! 5) (rec ! 6)"

record metadata_scan =
  sc_erased :: int
  sc_invalid :: int
  sc_first_free :: int
  sc_latest :: "int list option"
  sc_latest_image :: "int list option"
  sc_valid_records :: "int list list"

definition header_bad :: "int list \<Rightarrow> bool" where
  "header_bad rec \<longleftrightarrow>
     rec ! 0 \<noteq> METADATA_MAGIC0 \<or> rec ! 1 \<noteq> METADATA_MAGIC1 \<or>
     rec ! 2 \<noteq> METADATA_RECORD_VERSION \<or> rec ! 3 \<noteq> METADATA_RECORD_WORDS \<or>
     rec ! 4 \<notin> {metadata_record_type_code REC_IMAGE_VALID,
                  metadata_record_type_code REC_BOOT_ATTEMPT,
                  metadata_record_type_code REC_APP_CONFIRMED}"

definition later :: "int list \<Rightarrow> int list option \<Rightarrow> int list option" where
  "later rec best =
     (case best of None \<Rightarrow> Some rec
      | Some b \<Rightarrow> if record_sequence rec > record_sequence b then Some rec else Some b)"

definition scan_record :: "(int \<rightharpoonup> int) \<Rightarrow> nat \<Rightarrow> metadata_scan \<Rightarrow> metadata_scan res" where
  "scan_record flash index sc =
     (let rec = metadata_record flash index;
          bad = Inr (sc\<lparr>sc_invalid := sc_invalid sc + 1\<rparr>) in
      if metadata_erased rec
      then Inr (sc\<lparr>sc_erased := sc_erased sc + 1,
                  sc_first_free := (if sc_first_free sc = 0xFFFF then int index else sc_first_free sc)\<rparr>)
      else if header_bad rec then bad
      else bindE (crc32_words (take 62 rec)) (\<lambda>crc.
        if crc \<noteq> join_u32 (rec ! 62) (rec ! 63) then bad
        else Inr (sc\<lparr>sc_valid_records := sc_valid_records sc @ [rec],
                     sc_latest := later rec (sc_latest sc),
                     sc_latest_image :=
                       (if rec ! 4 = metadata_record_type_code REC_IMAGE_VALID
                        then later rec (sc_latest_image sc) else sc_latest_image sc)\<rparr>)))"

definition empty_scan :: metadata_scan where
  "empty_scan = \<lparr>sc_erased = 0, sc_invalid = 0, sc_first_free = 0xFFFF, sc_latest = None,
     sc_latest_image = None, sc_valid_records = []\<rparr>"

definition metadata_scan_of :: "(int \<rightharpoonup> int) \<Rightarrow> metadata_scan res" where
  "metadata_scan_of flash =
     foldE (scan_record flash) [0 ..< nat METADATA_RECORD_COUNT] empty_scan"

definition matches_image :: "int list \<Rightarrow> int list \<Rightarrow> bool" where
  "matches_image img rec \<longleftrightarrow>
     rec ! 7 = img ! 7 \<and> rec ! 14 = img ! 14 \<and> rec ! 15 = img ! 15 \<and> rec ! 16 = img ! 16 \<and>
     rec ! 17 = img ! 17 \<and> rec ! 18 = img ! 18 \<and> rec ! 19 = img ! 19"

text \<open>A record of the given kind that was written after the image record and belongs to it.\<close>

definition record_of :: "metadata_record_type \<Rightarrow> int list \<Rightarrow> int list \<Rightarrow> bool" where
  "record_of kind img rec \<longleftrightarrow>
     rec ! 4 = metadata_record_type_code kind \<and> record_sequence rec > record_sequence img \<and>
     matches_image img rec"

definition summary_payload_of :: "metadata_scan \<Rightarrow> int list res" where
  "summary_payload_of sc =
     (case sc_latest_image sc of
        None \<Rightarrow> Inr
          [0, 0, 0, 0, 0, 3, 0, 0, 0, 0, 0, 0, 0, 0, 0, (if sc_invalid sc = 0 then 0 else 2),
           0, sc_invalid sc, sc_erased sc, sc_erased sc, sc_first_free sc, 0, 0, 0, 0]
      | Some img \<Rightarrow>
          (case sc_latest sc of
             None \<Rightarrow> Inl AssertionError
           | Some latest \<Rightarrow>
               let attempts = int (length (filter (record_of REC_BOOT_ATTEMPT img) (sc_valid_records sc)));
                   confirmed = list_ex (record_of REC_APP_CONFIRMED img) (sc_valid_records sc)
               in Inr
                 [1, boot_slot_code SLOT_SLOT_A, latest ! 4, attempts, (if confirmed then 1 else 0), 3,
                  img ! 20, img ! 21, img ! 22, img ! 23, img ! 24,
                  img ! 14, img ! 15, img ! 18, img ! 19, 1,
                  int (length (sc_valid_records sc)), sc_invalid sc, sc_erased sc, sc_erased sc,
                  sc_first_free sc, img ! 16, img ! 17, img ! 25, img ! 26]))"

definition metadata_summary_payload :: "sim \<Rightarrow> int list res" where
  "metadata_summary_payload s = bindE (metadata_scan_of (sim_flash s)) summary_payload_of"

definition sim_summary :: "sim \<Rightarrow> metadata_summary res" where
  "sim_summary s = bindE (metadata_summary_payload s) metadata_summary_from_words"

definition h_get_metadata_summary :: "frame \<Rightarrow> (sim, frame) sm" where
  "h_get_metadata_summary request =
     unless_error (require_empty request OP_FRAME)
       (bindM (getM metadata_summary_payload) (\<lambda>r.
        bindM (liftM r) (\<lambda>words. respond request ST_OK words)))"

section \<open>Record builders\<close>

definition seal_record :: "int list \<Rightarrow> int list res" where
  "seal_record rec =
     bindE (crc32_words (take 62 rec)) (\<lambda>crc.
     bindE (split_u32 crc) (\<lambda>(crc_low, crc_high). Inr (rec[62 := crc_low, 63 := crc_high])))"

definition build_image_valid_record :: "int list \<Rightarrow> int \<Rightarrow> device_info \<Rightarrow> int list res" where
  "build_image_valid_record payload sequence device =
     bindE (split_u32 sequence) (\<lambda>(seq_low, seq_high).
     bindE (split_u32 APP_FLASH_START) (\<lambda>(start_low, start_high).
       seal_record
         ([METADATA_MAGIC0, METADATA_MAGIC1, METADATA_RECORD_VERSION, METADATA_RECORD_WORDS,
           metadata_record_type_code REC_IMAGE_VALID, seq_low, seq_high,
           boot_slot_code SLOT_SLOT_A, boot_slot_code SLOT_SLOT_A, 0, start_low, start_high,
           payload ! 13, payload ! 14, payload ! 2, payload ! 3, payload ! 4, payload ! 5,
           payload ! 6, payload ! 7, payload ! 8, payload ! 9, payload ! 10, payload ! 11,
           payload ! 12, di_device_id device, di_cpu_id device, METADATA_BOOT_ATTEMPT_LIMIT, 0]
          @ replicate 35 0xFFFF)))"

definition build_boot_attempt_record :: "metadata_summary \<Rightarrow> int \<Rightarrow> int list res" where
  "build_boot_attempt_record summary sequence =
     bindE (split_u32 sequence) (\<lambda>(seq_low, seq_high).
     bindE (split_u32 APP_FLASH_START) (\<lambda>(start_low, start_high).
     bindE (split_u32 APP_FLASH_END_EXCLUSIVE) (\<lambda>(end_low, end_high).
     bindE (split_u32 (ms_entry_point summary)) (\<lambda>(entry_low, entry_high).
     bindE (split_u32 (ms_image_size_words summary)) (\<lambda>(size_low, size_high).
     bindE (split_u32 (ms_image_crc32 summary)) (\<lambda>(crc_low, crc_high).
     bindE (split_u32 (ms_app_version_build summary)) (\<lambda>(build_low, build_high).
       seal_record
         ([METADATA_MAGIC0, METADATA_MAGIC1, METADATA_RECORD_VERSION, METADATA_RECORD_WORDS,
           metadata_record_type_code REC_BOOT_ATTEMPT, seq_low, seq_high,
           boot_slot_code SLOT_SLOT_A, boot_slot_code SLOT_SLOT_A, 0, start_low, start_high,
           end_low, end_high, entry_low, entry_high, size_low, size_high, crc_low, crc_high,
           ms_app_version_major summary, ms_app_version_minor summary,
           ms_app_version_patch summary, build_low, build_high,
           ms_target_device_id summary, ms_target_cpu_id summary,
           ms_boot_attempt_limit summary, ms_boot_attempt_count summary + 1]
          @ replicate 35 0xFFFF))))))))"

definition build_app_confirmed_record :: "metadata_summary \<Rightarrow> int \<Rightarrow> int list res" where
  "build_app_confirmed_record summary sequence =
     bindE (build_boot_attempt_record summary sequence) (\<lambda>rec.
       seal_record (rec[4 := metadata_record_type_code REC_APP_CONFIRMED,
                        28 := ms_boot_attempt_count summary]))"

section \<open>Appending a record\<close>

definition first_free_record :: "(int \<rightharpoonup> int) \<Rightarrow> nat option" where
  "first_free_record flash =
     List.find (\<lambda>index. metadata_erased (metadata_record flash index))
       [0 ..< nat METADATA_RECORD_COUNT]"

definition next_record_sequence :: "(int \<rightharpoonup> int) \<Rightarrow> int" where
  "next_record_sequence flash =
     (let seqs = map (\<lambda>index. record_sequence (metadata_record flash index))
        (filter (\<lambda>index. \<not> metadata_erased (metadata_record flash index))
          [0 ..< nat METADATA_RECORD_COUNT])
      in 1 + (if seqs = [] then 0 else Max (set seqs)))"

definition store_record :: "nat \<Rightarrow> int list \<Rightarrow> sim \<Rightarrow> sim" where
  "store_record index rec s = s\<lparr>sim_flash := sim_flash s ++ cells (record_base index) rec\<rparr>"

definition append_boot_record :: "frame \<Rightarrow> (sim, frame) sm" where
  "append_boot_record request s =
     (let p = fr_payload request; boot_attempt = (p ! 0 = metadata_record_type_code REC_BOOT_ATTEMPT) in
      if list_ex (\<lambda>index. p ! index \<noteq> 0) [8 ..< 15]
      then fail request ST_BAD_PAYLOAD_LENGTH OP_PROGRAM STG_PAYLOAD s
      else bindM (liftM (sim_summary s)) (\<lambda>summary s.
        if ms_metadata_valid summary = 0 then fail request ST_METADATA_INVALID OP_PROGRAM STG_STATE s
        else if \<not> boot_attempt \<and> ms_boot_attempt_count summary = 0
        then fail request ST_INVALID_STATE OP_PROGRAM STG_STATE s
        else if ms_app_confirmed summary \<noteq> 0 then respond request ST_OK [] s
        else if boot_attempt \<and> ms_boot_attempt_count summary \<ge> ms_boot_attempt_limit summary
        then fail request ST_ATTEMPT_LIMIT_REACHED OP_PROGRAM STG_STATE s
        else if join_u32 (p ! 2) (p ! 3) \<noteq> ms_entry_point summary
             \<or> join_u32 (p ! 4) (p ! 5) \<noteq> ms_image_size_words summary
             \<or> join_u32 (p ! 6) (p ! 7) \<noteq> ms_image_crc32 summary
        then fail request ST_METADATA_INVALID OP_PROGRAM STG_STATE s
        else case first_free_record (sim_flash s) of
          None \<Rightarrow> fail request ST_METADATA_FULL OP_PROGRAM STG_STATE s
        | Some first_free \<Rightarrow>
            bindM (liftM
              (if boot_attempt
               then build_boot_attempt_record summary (next_record_sequence (sim_flash s))
               else build_app_confirmed_record summary (next_record_sequence (sim_flash s)))) (\<lambda>rec.
            thenM (modM (store_record first_free rec)) (respond request ST_OK [])) s) s)"

definition append_image_valid :: "frame \<Rightarrow> (sim, frame) sm" where
  "append_image_valid request s =
     (let p = fr_payload request; entry_point = join_u32 (p ! 2) (p ! 3);
          image_size_words = join_u32 (p ! 4) (p ! 5); app_end = join_u32 (p ! 13) (p ! 14) in
      if image_size_words = 0 then fail request ST_BAD_WORD_COUNT OP_PROGRAM STG_PAYLOAD s
      else if entry_point < APP_FLASH_START \<or> entry_point \<ge> APP_FLASH_END_EXCLUSIVE
           \<or> entry_point mod 8 \<noteq> 0
      then fail request ST_BAD_ADDRESS OP_PROGRAM STG_ADDRESS_CHECK s
      else if app_end \<le> APP_FLASH_START \<or> app_end > APP_FLASH_END_EXCLUSIVE
      then fail request ST_BAD_ADDRESS OP_PROGRAM STG_ADDRESS_CHECK s
      else if \<not> sim_verify_succeeded s then fail request ST_INVALID_STATE OP_PROGRAM STG_STATE s
      else case first_free_record (sim_flash s) of
        None \<Rightarrow> fail request ST_METADATA_FULL OP_PROGRAM STG_STATE s
      | Some first_free \<Rightarrow>
          bindM (liftM (build_image_valid_record p (next_record_sequence (sim_flash s))
                   (sim_device_info s))) (\<lambda>rec.
          thenM (modM (\<lambda>s. (store_record first_free rec s)\<lparr>sim_verify_succeeded := False\<rparr>))
            (respond request ST_OK [])) s)"

definition h_metadata_append_record :: "frame \<Rightarrow> (sim, frame) sm" where
  "h_metadata_append_record request s =
     (let p = fr_payload request in
      if length p \<noteq> 16 then fail request ST_BAD_PAYLOAD_LENGTH OP_PROGRAM STG_PAYLOAD s
      else if p ! 0 \<notin> {metadata_record_type_code REC_IMAGE_VALID,
                       metadata_record_type_code REC_BOOT_ATTEMPT,
                       metadata_record_type_code REC_APP_CONFIRMED}
      then fail request ST_UNSUPPORTED_FEATURE OP_PROGRAM STG_PAYLOAD s
      else if p ! 1 \<noteq> boot_slot_code SLOT_SLOT_A
      then fail request ST_UNSUPPORTED_FEATURE OP_PROGRAM STG_PAYLOAD s
      else if p ! 15 \<noteq> 0 then fail request ST_BAD_FLAGS OP_PROGRAM STG_PAYLOAD s
      else if p ! 0 = metadata_record_type_code REC_IMAGE_VALID then append_image_valid request s
      else append_boot_record request s)"

section \<open>Starting the application\<close>

definition h_run :: "frame \<Rightarrow> (sim, frame) sm" where
  "h_run request s =
     (let p = fr_payload request in
      if length p \<noteq> 4 then fail request ST_BAD_PAYLOAD_LENGTH OP_RUN STG_PAYLOAD s
      else let entry_point = join_u32 (p ! 1) (p ! 2) in
      if p ! 3 \<noteq> 0 then fail request ST_BAD_FLAGS OP_RUN STG_PAYLOAD s
      else if p ! 0 \<noteq> target_code TGT_FLASH_APP then fail request ST_TARGET_MISMATCH OP_RUN STG_STATE s
      else if entry_point mod 8 \<noteq> 0
      then fail_at request ST_BAD_ALIGNMENT OP_RUN STG_ADDRESS_CHECK entry_point 0 0 s
      else if \<not> addresses_allowed s entry_point 1
      then fail_at request ST_ADDRESS_OUT_OF_RANGE OP_RUN STG_ADDRESS_CHECK entry_point 0 0 s
      else bindM (liftM (sim_summary s)) (\<lambda>summary s.
        if ms_metadata_valid summary = 0 \<or> ms_entry_point summary \<noteq> entry_point
        then fail request ST_METADATA_INVALID OP_RUN STG_STATE s
        else if ms_app_confirmed summary = 0 \<and> ms_boot_attempt_count summary = 0
        then fail request ST_INVALID_STATE OP_RUN STG_STATE s
        else if ms_app_confirmed summary = 0
             \<and> ms_boot_attempt_count summary > ms_boot_attempt_limit summary
        then fail request ST_ATTEMPT_LIMIT_REACHED OP_RUN STG_STATE s
        else respond request ST_OK [] (s\<lparr>sim_pending_action := ACT_RUN_APP\<rparr>)) s)"

end
