(* ===== verification/Sim_Core.thy ===== *)
theory Sim_Core
  imports Sim_Metadata
begin

text \<open>
  The simulator's \<open>SERVICE_ATTACH\<close> handler and the dispatcher \<open>SimulatorCore.transact\<close>
  (\<open>simulator/core.py\<close>).
\<close>

section \<open>Attaching a service\<close>

definition service_fail :: "frame \<Rightarrow> status \<Rightarrow> int \<Rightarrow> (sim, frame) sm" where
  "service_fail request st address s =
     fail_at request st OP_RAM_LOAD STG_STATE address 0 0
       (s\<lparr>sim_service_state :=
            (if sim_service_state s \<noteq> SVC_ATTACHED then SVC_ERROR else sim_service_state s),
          sim_service_last_attach_status := st\<rparr>)"

text \<open>\<open>None\<close> also stands for the \<open>KeyError\<close> of a missing word.\<close>

definition read_words :: "(int \<rightharpoonup> int) \<Rightarrow> int \<Rightarrow> nat \<Rightarrow> int list option" where
  "read_words ram address count =
     those (map (\<lambda>index. ram (address + int index)) [0 ..< count])"

definition read_ram_words :: "sim \<Rightarrow> int \<Rightarrow> int \<Rightarrow> int list option" where
  "read_ram_words s address count =
     (case sim_ram_loaded s of
        None \<Rightarrow> None
      | Some session \<Rightarrow>
          (case (ses_start session, ses_end_exclusive session) of
             (Some start, Some end) \<Rightarrow>
               if count \<le> 0 \<or> address < start \<or> address + count > end then None
               else read_words (sim_ram s) address (nat count)
           | _ \<Rightarrow> None))"

definition h_service_attach :: "frame \<Rightarrow> (sim, frame) sm" where
  "h_service_attach request s =
     (let p = fr_payload request in
      if length p \<noteq> 7 then service_fail request ST_BAD_PAYLOAD_LENGTH 0 s
      else if p ! 6 \<noteq> 0 then service_fail request ST_BAD_FLAGS 0 s
      else let header_address = join_u32 (p ! 0) (p ! 1); expected_crc = join_u32 (p ! 2) (p ! 3);
               expected_words = join_u32 (p ! 4) (p ! 5) in
      case sim_ram_loaded s of None \<Rightarrow> service_fail request ST_INVALID_STATE header_address s
      | Some session \<Rightarrow>
      if \<not> sim_ram_crc_ok s then service_fail request ST_INVALID_STATE header_address s
      else bindM (liftM (crc32_words (ses_crc_words session))) (\<lambda>actual_crc s.
      if expected_crc \<noteq> actual_crc \<or> expected_words \<noteq> ses_total_words session
      then service_fail request ST_VERIFY_MISMATCH header_address s
      else case read_ram_words s header_address SERVICE_HEADER_WORDS of
        None \<Rightarrow> service_fail request ST_RAM_REGION_ERROR header_address s
      | Some header \<Rightarrow>
      if join_u32 (header ! 0) (header ! 1) \<noteq> SERVICE_HEADER_MAGIC
         \<or> header ! 2 \<noteq> SERVICE_HEADER_VERSION \<or> header ! 3 \<noteq> SERVICE_HEADER_WORDS
      then service_fail request ST_METADATA_INVALID header_address s
      else bindM (liftM (crc32_words (take 26 header))) (\<lambda>header_crc s.
      if header_crc \<noteq> join_u32 (header ! 26) (header ! 27)
      then service_fail request ST_METADATA_INVALID header_address s
      else if header ! 4 \<noteq> SERVICE_ABI_MAJOR \<or> header ! 5 > SERVICE_ABI_MINOR
         \<or> header ! 22 \<noteq> SERVICE_IMAGE_CRC32_IEEE
      then service_fail request ST_UNSUPPORTED_PROTOCOL header_address s
      else
        let immutable_start = join_u32 (header ! 6) (header ! 7);
            immutable_end = join_u32 (header ! 8) (header ! 9);
            boot_init = join_u32 (header ! 16) (header ! 17);
            command_handler = join_u32 (header ! 18) (header ! 19);
            capabilities = join_u32 (header ! 20) (header ! 21);
            immutable_crc = join_u32 (header ! 24) (header ! 25);
            required = SERVICE_REQUIRED_CAPABILITIES in
        case read_ram_words s immutable_start (immutable_end - immutable_start) of
          None \<Rightarrow> service_fail request ST_RAM_REGION_ERROR header_address s
        | Some immutable \<Rightarrow>
        if immutable_end \<le> immutable_start
           \<or> \<not> (immutable_start \<le> boot_init \<and> boot_init < immutable_end)
           \<or> \<not> (immutable_start \<le> command_handler \<and> command_handler < immutable_end)
        then service_fail request ST_RAM_REGION_ERROR header_address s
        else if capabilities AND required \<noteq> required
        then service_fail request ST_UNSUPPORTED_FEATURE header_address s
        else bindM (liftM (crc32_words immutable)) (\<lambda>actual_immutable_crc s.
        if actual_immutable_crc \<noteq> immutable_crc
        then service_fail request ST_VERIFY_MISMATCH header_address s
        else respond request ST_OK []
          (s\<lparr>sim_service_state := SVC_ATTACHED, sim_service_last_attach_status := ST_OK,
             sim_service_capabilities := capabilities,
             sim_service_header_address := header_address,
             sim_service_loaded_crc32 := actual_crc,
             sim_service_loaded_words := ses_total_words session\<rparr>)) s) s) s)"

section \<open>Dispatch\<close>

definition service_commands :: "command list" where
  "service_commands =
     [CMD_ERASE, CMD_PROGRAM_BEGIN, CMD_PROGRAM_DATA, CMD_PROGRAM_END, CMD_VERIFY_BEGIN,
      CMD_VERIFY_DATA, CMD_VERIFY_END, CMD_METADATA_APPEND_RECORD]"

fun handler :: "command \<Rightarrow> frame \<Rightarrow> (sim, frame) sm" where
  "handler CMD_PING = h_ping"
| "handler CMD_GET_DEVICE_INFO = h_get_device_info"
| "handler CMD_GET_PROTOCOL_INFO = h_get_protocol_info"
| "handler CMD_GET_LAST_ERROR = h_get_last_error"
| "handler CMD_GET_SERVICE_STATUS = h_get_service_status"
| "handler CMD_SERVICE_ATTACH = h_service_attach"
| "handler CMD_RAM_LOAD_BEGIN = h_ram_load_begin"
| "handler CMD_RAM_LOAD_DATA = h_ram_load_data"
| "handler CMD_RAM_LOAD_END = h_ram_load_end"
| "handler CMD_RAM_CHECK_CRC = h_ram_check_crc"
| "handler CMD_RUN_RAM = h_run_ram"
| "handler CMD_ERASE = h_erase"
| "handler CMD_PROGRAM_BEGIN = h_program_begin"
| "handler CMD_PROGRAM_DATA = h_program_data"
| "handler CMD_PROGRAM_END = h_program_end"
| "handler CMD_VERIFY_BEGIN = h_verify_begin"
| "handler CMD_VERIFY_DATA = h_verify_data"
| "handler CMD_VERIFY_END = h_verify_end"
| "handler CMD_MEMORY_READ = h_memory_read"
| "handler CMD_GET_METADATA_SUMMARY = h_get_metadata_summary"
| "handler CMD_METADATA_APPEND_RECORD = h_metadata_append_record"
| "handler CMD_RUN = h_run"
| "handler CMD_RESET = h_reset"

definition transact :: "frame \<Rightarrow> (sim, frame) sm" where
  "transact request s =
     (if fr_packet_type request \<noteq> packet_type_code PKT_REQUEST
      then fail request ST_BAD_PACKET_TYPE OP_FRAME STG_HEADER s
      else if fr_protocol_version request \<noteq> PROTOCOL_VERSION
      then fail request ST_UNSUPPORTED_PROTOCOL OP_FRAME STG_HEADER s
      else if fr_flags request \<noteq> 0 then fail request ST_BAD_FLAGS OP_FRAME STG_HEADER s
      else case Command_of (fr_command request) of
        None \<Rightarrow> fail request ST_UNKNOWN_COMMAND OP_FRAME STG_STATE s
      | Some cmd \<Rightarrow>
          if sim_require_service s \<and> cmd \<in> set service_commands
             \<and> sim_service_state s \<noteq> SVC_ATTACHED
          then fail request ST_UNSUPPORTED_FEATURE OP_FRAME STG_STATE s
          else handler cmd request s)"

end
