(* ===== verification/Sim_Invariant.thy ===== *)
theory Sim_Invariant
  imports Sim_Core
begin

text \<open>
  The invariant of the simulator's state and the proof that every request of every well-formed
  frame keeps it and is answered: \<open>transact\<close> never raises, and its response carries the command and
  the sequence number of the request.  One lemma per handler, then the dispatcher.
\<close>

section \<open>Responses\<close>

definition reply_frame :: "frame \<Rightarrow> status \<Rightarrow> int list \<Rightarrow> frame" where
  "reply_frame request st payload =
     \<lparr>fr_packet_type = packet_type_code (if st = ST_OK then PKT_RESPONSE else PKT_ERROR_RESPONSE),
      fr_command = fr_command request, fr_sequence = fr_sequence request, fr_payload = payload,
      fr_flags = FLAG_NONE, fr_status = status_code st, fr_protocol_version = PROTOCOL_VERSION\<rparr>"

definition failed :: "error_operation \<Rightarrow> error_stage \<Rightarrow> int \<Rightarrow> int \<Rightarrow> int \<Rightarrow> sim \<Rightarrow> sim" where
  "failed operation stage address length_words extra0 s =
     (if operation = OP_FRAME then s else s\<lparr>sim_last_error :=
        \<lparr>ed_operation = error_operation_code operation, ed_stage = error_stage_code stage,
         ed_address = address, ed_length_words = length_words, ed_api_status = 0,
         ed_fsm_status = 0, ed_extra0 = extra0, ed_extra1 = 0\<rparr>\<rparr>)"

lemma respond_eq:
  assumes "frame_wf request" "words16 payload" "length payload \<le> 0xFFFF"
  shows "respond request st payload s = (Inr (reply_frame request st payload), s)"
proof -
  have "u16 (packet_type_code (if st = ST_OK then PKT_RESPONSE else PKT_ERROR_RESPONSE))"
    by (rule u16_packet_type_code)
  moreover have "u16 (status_code st)"
    by (rule u16_status_code)
  ultimately show ?thesis
    using assms
    by (simp add: respond_def reply_frame_def Frame_Inr frame_wf_def FLAG_NONE_def
        PROTOCOL_VERSION_def u16_def)
qed

lemma fail_at_eq:
  assumes "frame_wf request" "u32 address" "u32 length_words" "u16 extra0"
  shows "fail_at request st operation stage address length_words extra0 s =
    (Inr (reply_frame request st []), failed operation stage address length_words extra0 s)"
proof -
  have "error_detail_check
          \<lparr>ed_operation = error_operation_code operation, ed_stage = error_stage_code stage,
           ed_address = address, ed_length_words = length_words, ed_api_status = 0,
           ed_fsm_status = 0, ed_extra0 = extra0, ed_extra1 = 0\<rparr> =
        Inr \<lparr>ed_operation = error_operation_code operation, ed_stage = error_stage_code stage,
           ed_address = address, ed_length_words = length_words, ed_api_status = 0,
           ed_fsm_status = 0, ed_extra0 = extra0, ed_extra1 = 0\<rparr>"
    using assms u16_error_operation_code [of operation] u16_error_stage_code [of stage]
    by (simp add: error_detail_check_Inr_iff error_detail_wf_def) (simp add: u_simps)
  then show ?thesis
    using assms(1) by (simp add: fail_at_def respond_eq failed_def)
qed

definition reply_to :: "frame \<Rightarrow> frame \<Rightarrow> bool" where
  "reply_to request r \<longleftrightarrow>
     (\<exists>st payload. r = reply_frame request st payload \<and> words16 payload \<and>
        length payload \<le> 0xFFFF \<and> (st \<noteq> ST_OK \<longrightarrow> payload = []))"

section \<open>The invariant\<close>

definition session_wf :: "session \<Rightarrow> bool" where
  "session_wf ses \<longleftrightarrow>
     u16 (ses_block_count ses) \<and> u32 (ses_total_words ses) \<and> u32 (ses_entry_point ses) \<and>
     words16 (ses_crc_words ses) \<and> 0 \<le> ses_expected_index ses \<and>
     ses_expected_index ses = ses_packet_count ses"

text \<open>A RAM session never counts more packets or words than its begin announced.\<close>

definition ram_session_wf :: "session \<Rightarrow> bool" where
  "ram_session_wf ses \<longleftrightarrow>
     session_wf ses \<and> ses_packet_count ses \<le> ses_block_count ses \<and>
     ses_received_words ses = int (length (ses_crc_words ses)) \<and>
     ses_received_words ses \<le> ses_total_words ses \<and>
     (ses_start ses = None \<longleftrightarrow> ses_end_exclusive ses = None)"

definition words_wf :: "(int \<rightharpoonup> int) \<Rightarrow> bool" where
  "words_wf m \<longleftrightarrow> (\<forall>x w. m x = Some w \<longrightarrow> u16 w)"

definition metadata_area :: "int set" where
  "metadata_area = {SLOT_A_METADATA_START ..< SLOT_A_METADATA_END}"

definition sector_ok :: "flash_sector \<Rightarrow> bool" where
  "sector_ok sec \<longleftrightarrow>
     (\<forall>x \<in> metadata_area. fs_contains sec x) \<or> (\<forall>x \<in> metadata_area. \<not> fs_contains sec x)"

definition used_records :: "(int \<rightharpoonup> int) \<Rightarrow> nat list" where
  "used_records flash = filter (\<lambda>i. \<not> metadata_erased (metadata_record flash i)) [0 ..< 16]"

definition record_valid :: "int list \<Rightarrow> bool" where
  "record_valid rec \<longleftrightarrow>
     \<not> metadata_erased rec \<and> \<not> header_bad rec \<and>
     crc32_bytes (le_bytes (take 62 rec)) = join_u32 (rec ! 62) (rec ! 63)"

text \<open>
  Every used record was completed by one of the builders, and no sequence number exceeds the number
  of used records.
\<close>

definition metadata_ok :: "(int \<rightharpoonup> int) \<Rightarrow> bool" where
  "metadata_ok flash \<longleftrightarrow>
     (\<forall>i \<in> set (used_records flash).
        record_valid (metadata_record flash i) \<and>
        metadata_record flash i ! 7 = boot_slot_code SLOT_SLOT_A \<and>
        record_sequence (metadata_record flash i) \<le> int (length (used_records flash)))"

text \<open>Application words in the Flash were programmed, so they cannot be programmed again.\<close>

definition programmed_ok :: "sim \<Rightarrow> bool" where
  "programmed_ok s \<longleftrightarrow>
     (\<forall>x. APP_FLASH_START \<le> x \<and> sim_flash s x \<noteq> None \<longrightarrow> x \<in> sim_programmed s)"

definition optional :: "('a \<Rightarrow> bool) \<Rightarrow> 'a option \<Rightarrow> bool" where
  "optional P x = (case x of None \<Rightarrow> True | Some y \<Rightarrow> P y)"

lemma optional_simps [simp]: "optional P None" "optional P (Some y) \<longleftrightarrow> P y"
  by (simp_all add: optional_def)

definition sim_wf :: "sim \<Rightarrow> bool" where
  "sim_wf s \<longleftrightarrow>
     device_info_wf (sim_device_info s) \<and> list_all sector_ok (sim_sectors s) \<and>
     error_detail_wf (sim_last_error s) \<and>
     words_wf (sim_flash s) \<and> words_wf (sim_ram s) \<and> metadata_ok (sim_flash s) \<and>
     programmed_ok s \<and>
     optional session_wf (sim_program_session s) \<and> optional session_wf (sim_verify_session s) \<and>
     optional ram_session_wf (sim_ram_load_session s) \<and>
     optional ram_session_wf (sim_ram_loaded s) \<and>
     u32 (sim_service_capabilities s) \<and> u32 (sim_service_loaded_crc32 s) \<and>
     u32 (sim_service_loaded_words s)"

definition good :: "frame \<Rightarrow> frame res \<times> sim \<Rightarrow> bool" where
  "good request x \<longleftrightarrow> (\<exists>r s'. x = (Inr r, s') \<and> reply_to request r \<and> sim_wf s')"

lemma good_pair [simp]: "good request (Inr r, s') \<longleftrightarrow> reply_to request r \<and> sim_wf s'"
  by (simp add: good_def)

lemma reply_to_reply_frame:
  "words16 payload \<Longrightarrow> length payload \<le> 0xFFFF \<Longrightarrow> (st \<noteq> ST_OK \<Longrightarrow> payload = []) \<Longrightarrow>
     reply_to request (reply_frame request st payload)"
  by (auto simp: reply_to_def)

lemma good_respond:
  assumes "frame_wf request" "words16 payload" "length payload \<le> 0xFFFF" "sim_wf s"
  shows "good request (respond request ST_OK payload s)"
  using assms by (auto simp: respond_eq intro!: reply_to_reply_frame)

lemma sim_wf_failed:
  assumes "sim_wf s" "u32 address" "u32 length_words" "u16 extra0"
  shows "sim_wf (failed operation stage address length_words extra0 s)"
  using assms u16_error_operation_code [of operation] u16_error_stage_code [of stage]
  by (auto simp: sim_wf_def failed_def error_detail_wf_def programmed_ok_def u16_def u32_def)

lemma good_fail:
  assumes "frame_wf request" "u32 address" "u32 length_words" "u16 extra0" "sim_wf s"
  shows "good request (fail_at request st operation stage address length_words extra0 s)"
  using assms by (simp add: fail_at_eq reply_to_reply_frame sim_wf_failed)

lemma u_0 [simp]: "u16 0" "u32 0" "u16 1" "u32 1"
  by (simp_all add: u_simps)

lemma payload_u16: "frame_wf request \<Longrightarrow> i < length (fr_payload request) \<Longrightarrow> u16 (fr_payload request ! i)"
  by (simp add: frame_wf_def words16_nth)

lemma payload_u32:
  "frame_wf request \<Longrightarrow> i < length (fr_payload request) \<Longrightarrow> j < length (fr_payload request) \<Longrightarrow>
     u32 (join_u32 (fr_payload request ! i) (fr_payload request ! j))"
  by (simp add: payload_u16 join_u32_u32)

lemma good_if:
  "(c \<Longrightarrow> good request x) \<Longrightarrow> (\<not> c \<Longrightarrow> good request y) \<Longrightarrow> good request (if c then x else y)"
  by simp

lemmas good_intros = good_respond good_fail payload_u16 payload_u32

section \<open>Queries and RAM handlers\<close>

lemma good_unless_error:
  assumes "frame_wf request" "sim_wf s" "fr_payload request = [] \<Longrightarrow> good request (rest s)"
  shows "good request (unless_error (require_empty request operation) rest s)"
  using assms by (auto simp: unless_error_def require_empty_def bindM_def fail_at_eq
      reply_to_reply_frame sim_wf_failed)

lemma good_ping: "frame_wf request \<Longrightarrow> sim_wf s \<Longrightarrow> good request (h_ping request s)"
  by (auto simp: h_ping_def intro!: good_unless_error good_respond)

lemma good_get_device_info:
  assumes "frame_wf request" "sim_wf s"
  shows "good request (h_get_device_info request s)"
proof -
  have "device_info_wf (sim_device_info s)"
    using assms(2) by (simp add: sim_wf_def)
  then show ?thesis
    unfolding h_get_device_info_def using assms
    by (intro good_unless_error)
      (auto simp: device_info_to_words_Inr device_info_wf_def intro!: good_respond)
qed

lemma good_get_protocol_info:
  assumes "frame_wf request" "sim_wf s"
  shows "good request (h_get_protocol_info request s)"
proof -
  have "words16 (sim_protocol_info s)"
    using assms(2)
    by (auto simp: sim_wf_def sim_protocol_info_def device_info_wf_def PROTOCOL_VERSION_def u16_def)
  then show ?thesis
    unfolding h_get_protocol_info_def using assms
    by (intro good_unless_error) (auto intro!: good_respond simp: sim_protocol_info_def)
qed

lemma good_get_last_error:
  assumes "frame_wf request" "sim_wf s"
  shows "good request (h_get_last_error request s)"
proof -
  have "error_detail_wf (sim_last_error s)"
    using assms(2) by (simp add: sim_wf_def)
  then show ?thesis
    unfolding h_get_last_error_def using assms
    by (intro good_unless_error)
      (auto simp: error_detail_to_words_Inr error_detail_wf_def intro!: good_respond)
qed

lemma good_get_service_status:
  assumes "frame_wf request" "sim_wf s"
  shows "good request (h_get_service_status request s)"
proof -
  have "u32 (sim_service_capabilities s)" "u32 (sim_service_loaded_crc32 s)"
    "u32 (sim_service_loaded_words s)"
    using assms(2) by (simp_all add: sim_wf_def)
  moreover have "u16 SERVICE_ABI_MAJOR" "u16 SERVICE_ABI_MINOR"
    by (simp_all add: SERVICE_ABI_MAJOR_def SERVICE_ABI_MINOR_def u16_def)
  ultimately show ?thesis
    unfolding h_get_service_status_def using assms
    by (intro good_unless_error)
      (auto intro!: good_respond u16_service_state_code u16_status_code)
qed

lemma good_reset: "frame_wf request \<Longrightarrow> sim_wf s \<Longrightarrow> good request (h_reset request s)"
  unfolding h_reset_def
  by (intro good_unless_error) (auto intro!: good_respond simp: sim_wf_def programmed_ok_def)

lemma session_wf_Session:
  "u16 bc \<Longrightarrow> u32 tw \<Longrightarrow> u32 ep \<Longrightarrow> session_wf (Session bc tw ep []) \<and> ram_session_wf (Session bc tw ep [])"
  by (auto simp: session_wf_def ram_session_wf_def Session_def u_simps)

lemma sim_wf_simps [simp]:
  "sim_wf (s\<lparr>sim_ram_crc_ok := b\<rparr>) = sim_wf s"
  "sim_wf (s\<lparr>sim_pending_action := act\<rparr>) = sim_wf s"
  "sim_wf (s\<lparr>sim_verify_succeeded := b\<rparr>) = sim_wf s"
  "sim_wf (s\<lparr>sim_service_state := v\<rparr>) = sim_wf s"
  "sim_wf (s\<lparr>sim_service_last_attach_status := st\<rparr>) = sim_wf s"
  "sim_wf (s\<lparr>sim_service_header_address := a\<rparr>) = sim_wf s"
  by (simp_all add: sim_wf_def programmed_ok_def)

lemma sim_wf_upd [wf_intros]:
  "sim_wf s \<Longrightarrow> optional ram_session_wf x \<Longrightarrow> sim_wf (s\<lparr>sim_ram_load_session := x\<rparr>)"
  "sim_wf s \<Longrightarrow> optional ram_session_wf x \<Longrightarrow> sim_wf (s\<lparr>sim_ram_loaded := x\<rparr>)"
  "sim_wf s \<Longrightarrow> optional session_wf x \<Longrightarrow> sim_wf (s\<lparr>sim_program_session := x\<rparr>)"
  "sim_wf s \<Longrightarrow> optional session_wf x \<Longrightarrow> sim_wf (s\<lparr>sim_verify_session := x\<rparr>)"
  "sim_wf s \<Longrightarrow> u32 v \<Longrightarrow> sim_wf (s\<lparr>sim_service_capabilities := v\<rparr>)"
  "sim_wf s \<Longrightarrow> u32 v \<Longrightarrow> sim_wf (s\<lparr>sim_service_loaded_crc32 := v\<rparr>)"
  "sim_wf s \<Longrightarrow> u32 v \<Longrightarrow> sim_wf (s\<lparr>sim_service_loaded_words := v\<rparr>)"
  "sim_wf s \<Longrightarrow> words_wf m \<Longrightarrow> sim_wf (s\<lparr>sim_ram := m\<rparr>)"
  by (simp_all add: sim_wf_def programmed_ok_def)

lemma words_wf_cells: "words_wf m \<Longrightarrow> words16 ws \<Longrightarrow> words_wf (m ++ cells a ws)"
  by (auto simp: words_wf_def map_add_Some_iff dest: cells_words16)

lemma words_wf_clear: "words_wf m \<Longrightarrow> words_wf (clear_publish m)"
  by (simp add: words_wf_def clear_publish_def)

lemma words_wf_get: "words_wf m \<Longrightarrow> u16 (mem_get m x)"
  by (auto simp: words_wf_def mem_get_def u_simps split: option.split)

lemma sim_wf_ram_store [wf_intros]: "sim_wf s \<Longrightarrow> words16 ws \<Longrightarrow> sim_wf (ram_store a ws s)"
  unfolding ram_store_def
  by (auto intro!: sim_wf_upd words_wf_cells words_wf_clear) (simp_all add: sim_wf_def)

lemma payload_drop: "frame_wf request \<Longrightarrow> words16 (drop n (fr_payload request))"
  by (simp add: frame_wf_def words16_drop)

lemma good_ram_load_begin:
  assumes "frame_wf request" "sim_wf s"
  shows "good request (h_ram_load_begin request s)"
  unfolding h_ram_load_begin_def Let_def using assms
  by (auto intro!: good_intros sim_wf_upd session_wf_Session [THEN conjunct2])

lemma ram_session_advance:
  assumes "ram_session_wf ses" "words16 data" "ses_packet_count ses < ses_block_count ses"
    and "ses_received_words ses + int (length data) \<le> ses_total_words ses"
  shows "ram_session_wf (ram_advance a data ses)"
  using assms by (auto simp: ram_session_wf_def session_wf_def ram_advance_def)

lemma ram_session_index_u16: "ram_session_wf ses \<Longrightarrow> u16 (ses_expected_index ses)"
  by (auto simp: ram_session_wf_def session_wf_def u_simps)

lemma good_ram_load_data:
  assumes "frame_wf request" "sim_wf s"
  shows "good request (h_ram_load_data request s)"
proof (cases "sim_ram_load_session s")
  case None
  then show ?thesis
    using assms by (auto simp: h_ram_load_data_def intro!: good_fail)
next
  case (Some ses)
  then have ses: "ram_session_wf ses"
    using assms(2) by (simp add: sim_wf_def)
  have "ram_session_wf (ram_advance a (drop 5 (fr_payload request)) ses)"
    if "\<not> ses_packet_count ses \<ge> ses_block_count ses"
      "\<not> ses_received_words ses + int (length (drop 5 (fr_payload request))) > ses_total_words ses" for a
    using that ses payload_drop [OF assms(1)] by (intro ram_session_advance) auto
  moreover have "u32 (fr_payload request ! 2)" if "\<not> length (fr_payload request) < 5"
    using that by (intro u16_imp_u32 payload_u16 [OF assms(1)]) linarith
  moreover have "u32 (join_u32 (fr_payload request ! 0) (fr_payload request ! 1))"
    if "\<not> length (fr_payload request) < 5"
    using that by (intro payload_u32 [OF assms(1)]) linarith+
  ultimately show ?thesis
    unfolding h_ram_load_data_def Let_def Some option.case
    using assms ses ram_session_index_u16 [OF ses] payload_drop [OF assms(1)]
    by (intro good_if good_respond good_fail sim_wf_upd sim_wf_ram_store) simp_all
qed

lemma good_ram_load_end:
  assumes "frame_wf request" "sim_wf s"
  shows "good request (h_ram_load_end request s)"
proof -
  have "optional ram_session_wf (sim_ram_load_session s)"
    using assms(2) by (simp add: sim_wf_def)
  then show ?thesis
    unfolding h_ram_load_end_def Let_def using assms
    by (auto intro!: good_intros sim_wf_upd split: option.splits)
qed

lemma crc_words_Inr: "optional ram_session_wf (Some ses) \<Longrightarrow>
  crc32_words (ses_crc_words ses) = Inr (crc32_bytes (le_bytes (ses_crc_words ses)))"
  by (simp add: ram_session_wf_def session_wf_def crc32_words_Inr)

lemma u16_and_FFFF: "u16 (x AND 0xFFFF)"
  by (simp add: u_simps and_FFFF)

lemma good_ram_check_crc:
  assumes "frame_wf request" "sim_wf s"
  shows "good request (h_ram_check_crc request s)"
proof -
  have ses: "optional ram_session_wf (sim_ram_loaded s)"
    using assms(2) by (simp add: sim_wf_def)
  then have "sim_ram_loaded s = Some ses \<Longrightarrow> u32 (ses_total_words ses)" for ses
    by (simp add: ram_session_wf_def session_wf_def)
  then show ?thesis
    unfolding h_ram_check_crc_def Let_def using assms ses
    by (auto intro!: good_intros u16_and_FFFF simp: crc_words_Inr split: option.splits)
qed

lemma good_run_ram:
  assumes "frame_wf request" "sim_wf s"
  shows "good request (h_run_ram request s)"
proof -
  have "optional ram_session_wf (sim_ram_loaded s)"
    using assms(2) by (simp add: sim_wf_def)
  then have "sim_ram_loaded s = Some ses \<Longrightarrow> u32 (ses_entry_point ses)" for ses
    by (simp add: ram_session_wf_def session_wf_def)
  then show ?thesis
    unfolding h_run_ram_def Let_def using assms
    by (auto intro!: good_intros split: option.splits)
qed

section \<open>The metadata area\<close>

lemma metadata_area_records:
  assumes "i < 16" "k < 64"
  shows "record_base i + int k \<in> metadata_area"
proof -
  have "i * 64 + k < 1024"
    using assms by linarith
  then show ?thesis
    by (simp add: metadata_area_def record_base_def slot_defs METADATA_RECORD_WORDS_def)
qed

lemma metadata_record_cong:
  assumes "\<And>x. x \<in> metadata_area \<Longrightarrow> f x = g x" "i < 16"
  shows "metadata_record f i = metadata_record g i"
  using assms metadata_area_records [of i]
  by (simp add: metadata_record_def METADATA_RECORD_WORDS_def mem_get_def)

lemma used_records_cong:
  assumes "\<And>x. x \<in> metadata_area \<Longrightarrow> f x = g x"
  shows "used_records f = used_records g"
  unfolding used_records_def using metadata_record_cong [of f g, OF assms]
  by (intro filter_cong) auto

lemma used_records_lt: "i \<in> set (used_records f) \<Longrightarrow> i < 16"
  by (simp add: used_records_def)

lemma metadata_ok_cong:
  assumes "\<And>x. x \<in> metadata_area \<Longrightarrow> f x = g x" "metadata_ok f"
  shows "metadata_ok g"
proof -
  have "used_records f = used_records g"
    by (rule used_records_cong) (rule assms(1))
  moreover have "metadata_record f i = metadata_record g i" if "i \<in> set (used_records g)" for i
    by (rule metadata_record_cong) (auto intro: assms(1) used_records_lt [OF that])
  ultimately show ?thesis
    using assms(2) by (simp add: metadata_ok_def)
qed

lemma metadata_record_empty:
  assumes "\<And>x. x \<in> metadata_area \<Longrightarrow> f x = None" "i < 16"
  shows "metadata_erased (metadata_record f i)"
  using assms metadata_area_records [of i]
  by (simp add: metadata_erased_def metadata_record_def METADATA_RECORD_WORDS_def mem_get_def
      list_all_iff)

lemma metadata_ok_erased:
  assumes "\<And>x. x \<in> metadata_area \<Longrightarrow> f x = None"
  shows "metadata_ok f"
  using metadata_record_empty [OF assms] by (simp add: metadata_ok_def used_records_def)

lemma metadata_ok_erase:
  assumes "metadata_ok f" "list_all sector_ok secs"
  shows "metadata_ok (erase_flash secs f)"
proof (cases "\<exists>sec \<in> set secs. \<forall>x \<in> metadata_area. fs_contains sec x")
  case True
  then have "erase_flash secs f x = None" if "x \<in> metadata_area" for x
    using that by (auto simp: erase_flash_def list_ex_iff)
  then show ?thesis
    by (rule metadata_ok_erased)
next
  case False
  then have "f x = erase_flash secs f x" if "x \<in> metadata_area" for x
    using that assms(2) by (auto simp: erase_flash_def list_ex_iff list_all_iff sector_ok_def)
  then show ?thesis
    using assms(1) by (rule metadata_ok_cong)
qed

section \<open>Flash handlers\<close>

lemma selected_sectors_subset: "set (selected_sectors m secs) \<subseteq> set secs"
  by (auto simp: selected_sectors_def enumerate_eq_zip dest: set_zip_rightD)

lemma words_wf_erase: "words_wf f \<Longrightarrow> words_wf (erase_flash secs f)"
  by (auto simp: words_wf_def erase_flash_def)

lemma good_erase:
  assumes "frame_wf request" "sim_wf s"
  shows "good request (h_erase request s)"
proof -
  have "sim_wf (s\<lparr>sim_flash := erase_flash (selected_sectors m (sim_sectors s)) (sim_flash s),
             sim_programmed := {x \<in> sim_programmed s.
               \<not> list_ex (\<lambda>sec. fs_contains sec x) (selected_sectors m (sim_sectors s))},
             sim_program_session := None, sim_verify_session := None,
             sim_verify_succeeded := False\<rparr>)" for m
  proof -
    have "list_all sector_ok (selected_sectors m (sim_sectors s))"
      using assms(2) selected_sectors_subset [of m "sim_sectors s"]
      by (auto simp: sim_wf_def list_all_iff)
    moreover have "\<forall>x. APP_FLASH_START \<le> x \<and> erase_flash (selected_sectors m (sim_sectors s)) (sim_flash s) x \<noteq> None \<longrightarrow>
        x \<in> sim_programmed s \<and> \<not> list_ex (\<lambda>sec. fs_contains sec x) (selected_sectors m (sim_sectors s))"
      using assms(2) by (auto simp: sim_wf_def programmed_ok_def erase_flash_def)
    ultimately show ?thesis
      using assms(2) by (simp add: sim_wf_def programmed_ok_def words_wf_erase metadata_ok_erase)
  qed
  then show ?thesis
    unfolding h_erase_def Let_def using assms
    by (intro good_if good_respond good_fail) auto
qed

lemma addresses_allowedD:
  assumes "addresses_allowed s a n"
  shows "0 < n" "0x082400 \<le> a" "a + n \<le> 0x0C0000" "u32 a" "u32 n"
    "x \<in> metadata_area \<Longrightarrow> x < a" "x < a + n \<Longrightarrow> a \<le> x \<Longrightarrow> in_sectors s x"
  using assms by (auto simp: addresses_allowed_def Let_def slot_defs u_simps metadata_area_def list_all_iff
      split: if_splits)

lemma begin_transfer_cases:
  assumes "frame_wf request" "sim_wf s"
  shows "(\<exists>r s'. begin_transfer request operation s = (Inr (Inl r), s') \<and> good request (Inr r, s')) \<or>
    (\<exists>ses. begin_transfer request operation s = (Inr (Inr ses), s) \<and> session_wf ses)"
proof -
  let ?p = "fr_payload request"
  have refuse: "\<exists>r s'. bindM (fail_at request st operation stage a 0 0) (\<lambda>r. returnM (Inl r)) s =
      (Inr (Inl r :: frame + session), s') \<and> good request (Inr r, s')" if "u32 a" for st stage a
    using that assms by (simp add: bindM_def fail_at_eq reply_to_reply_frame sim_wf_failed)
  show ?thesis
  proof (cases "length ?p = 9")
    case False
    then show ?thesis
      using refuse [of 0] by (simp add: begin_transfer_def)
  next
    case True
    then have p: "u32 (join_u32 (?p ! 4) (?p ! 5))" "u32 (join_u32 (?p ! 2) (?p ! 3))" "u16 (?p ! 1)"
      using payload_u32 [OF assms(1)] payload_u16 [OF assms(1)] by simp_all
    then show ?thesis
      using True refuse [of 0] refuse [OF p(1)] session_wf_Session [OF p(3,2,1)]
      by (auto simp: begin_transfer_def Let_def)
  qed
qed

definition data_accepted :: "frame \<Rightarrow> session \<Rightarrow> sim \<Rightarrow> int \<Rightarrow> int list \<Rightarrow> bool" where
  "data_accepted request ses s a d \<longleftrightarrow>
     (let p = fr_payload request in
        5 \<le> length p \<and> a = join_u32 (p ! 0) (p ! 1) \<and> d = drop 5 p \<and> p ! 2 = int (length d) \<and>
        join_u32 (p ! 3) (p ! 4) = ses_expected_index ses \<and>
        validate_write_data d (Some (di_max_data_words (sim_device_info s))) = Inr () \<and>
        addresses_allowed s a (int (length d)))"

lemma validate_write_data_cases:
  assumes "words16 d" "0 < m" "m mod 8 = 0"
  shows "(\<exists>x. validate_write_data d (Some m) = Inl (DataAlignmentError x)) \<or>
    validate_write_data d (Some m) = Inr ()"
  using assms not_list_ex_u16 [of d]
  by (auto simp: validate_write_data_def Let_def WRITE_DATA_ALIGNMENT_WORDS_def)

lemma transfer_data_cases:
  assumes "frame_wf request" "sim_wf s" "optional session_wf session"
  shows "(\<exists>r s'. transfer_data request session operation s = (Inr (Inl r), s') \<and> good request (Inr r, s')) \<or>
    (\<exists>ses a d i. session = Some ses \<and> transfer_data request session operation s = (Inr (Inr (a, d, i)), s) \<and>
       data_accepted request ses s a d)"
proof -
  let ?p = "fr_payload request"
  have refuse: "\<exists>r s'. bindM (fail_at request st operation stage a l x) (\<lambda>r. returnM (Inl r)) s =
      (Inr (Inl r :: frame + (int \<times> int list \<times> int)), s') \<and> good request (Inr r, s')"
    if "u32 a" "u32 l" "u16 x" for st stage a l x
    using that assms by (simp add: bindM_def fail_at_eq reply_to_reply_frame sim_wf_failed)
  show ?thesis
  proof (cases "session = None \<or> length ?p < 5")
    case True
    then show ?thesis
      using refuse [of 0 0 0] by (auto simp: transfer_data_def Let_def split: option.split)
  next
    case False
    then obtain ses where ses: "session = Some ses" and l: "5 \<le> length ?p"
      by auto
    have a: "u32 (join_u32 (?p ! 0) (?p ! 1))"
      using l by (intro payload_u32 [OF assms(1)]) linarith+
    have n: "u32 (?p ! 2)"
      using l by (intro u16_imp_u32 payload_u16 [OF assms(1)]) linarith
    let ?m = "di_max_data_words (sim_device_info s)"
    have m: "0 < ?m" "?m mod 8 = 0"
      using assms(2) by (auto simp: sim_wf_def device_info_wf_def u_simps)
    have count: "int (length ?p) \<noteq> 5 + ?p ! 2 \<longleftrightarrow> ?p ! 2 \<noteq> int (length (drop 5 ?p))"
      using l by auto
    consider "?p ! 2 \<noteq> int (length (drop 5 ?p))"
      | x where "?p ! 2 = int (length (drop 5 ?p))"
          "validate_write_data (drop 5 ?p) (Some ?m) = Inl (DataAlignmentError x)"
      | "?p ! 2 = int (length (drop 5 ?p))" "validate_write_data (drop 5 ?p) (Some ?m) = Inr ()"
      using validate_write_data_cases [OF payload_drop [OF assms(1)] m] by blast
    then show ?thesis
    proof cases
      case 1
      then show ?thesis
        using l refuse [OF a n u_0(1)] by (auto simp: transfer_data_def Let_def ses count)
    next
      case 2
      then show ?thesis
        using l refuse [OF a n u_0(1)] by (auto simp: transfer_data_def Let_def ses count)
    next
      case 3
      then show ?thesis
        using l refuse [OF a n u_0(1)] refuse [OF a n u16_and_FFFF]
        by (auto simp: transfer_data_def Let_def ses count data_accepted_def)
    qed
  qed
qed

lemma session_wf_advance: "session_wf ses \<Longrightarrow> session_wf (advance n ses)"
  by (simp add: session_wf_def advance_def)

lemma sim_wf_sessions:
  assumes "sim_wf s"
  shows "optional session_wf (sim_program_session s)" "optional session_wf (sim_verify_session s)"
    "optional ram_session_wf (sim_ram_load_session s)" "optional ram_session_wf (sim_ram_loaded s)"
  using assms by (simp_all add: sim_wf_def)

lemma good_program_begin:
  assumes "frame_wf request" "sim_wf s"
  shows "good request (h_program_begin request s)"
  using begin_transfer_cases [OF assms, of OP_PROGRAM] assms
  by (auto simp: h_program_begin_def bindM_def intro!: good_fail good_respond sim_wf_upd)

lemma good_verify_begin:
  assumes "frame_wf request" "sim_wf s"
  shows "good request (h_verify_begin request s)"
  using begin_transfer_cases [OF assms, of OP_VERIFY] assms
  by (auto simp: h_verify_begin_def bindM_def intro!: good_fail good_respond sim_wf_upd)

lemma good_end_transfer:
  assumes "frame_wf request" "sim_wf s"
  shows "good request (end_transfer request session operation s)"
  using assms by (cases session) (auto simp: end_transfer_def Let_def intro!: good_fail good_respond)

lemma good_program_end:
  assumes "frame_wf request" "sim_wf s"
  shows "good request (h_program_end request s)"
  using good_end_transfer [OF assms, of "sim_program_session s" OP_PROGRAM] sim_wf_upd(3) [of _ None]
  by (auto simp: h_program_end_def good_def bindM_def thenM_def)

lemma good_verify_end:
  assumes "frame_wf request" "sim_wf s"
  shows "good request (h_verify_end request s)"
  using good_end_transfer [OF assms, of "sim_verify_session s" OP_VERIFY] sim_wf_upd(4) [of _ None]
  by (auto simp: h_verify_end_def good_def bindM_def thenM_def)

lemma sim_wf_program:
  assumes "sim_wf s" "words16 d" "addresses_allowed s a (int (length d))"
  shows "sim_wf (s\<lparr>sim_flash := sim_flash s ++ cells a d,
               sim_programmed := sim_programmed s \<union> {a ..< a + int (length d)}\<rparr>)"
proof -
  have "metadata_ok (sim_flash s ++ cells a d)"
  proof (rule metadata_ok_cong)
    show "sim_flash s x = (sim_flash s ++ cells a d) x" if "x \<in> metadata_area" for x
      using addresses_allowedD(6) [OF assms(3) that] by (simp add: map_add_def cells_outside)
    show "metadata_ok (sim_flash s)"
      using assms(1) by (simp add: sim_wf_def)
  qed
  moreover have "\<forall>x. APP_FLASH_START \<le> x \<and> (sim_flash s ++ cells a d) x \<noteq> None \<longrightarrow>
      x \<in> sim_programmed s \<union> {a ..< a + int (length d)}"
    using assms(1) by (auto simp: sim_wf_def programmed_ok_def map_add_Some_iff cells_Some_iff)
  ultimately show ?thesis
    using assms(1,2) by (simp add: sim_wf_def programmed_ok_def words_wf_cells)
qed

lemma data_acceptedD:
  assumes "data_accepted request ses s a d" "frame_wf request"
  shows "words16 d" "addresses_allowed s a (int (length d))" "d \<noteq> []"
  using assms payload_drop [OF assms(2)]
  by (auto simp: data_accepted_def Let_def validate_write_data_ok_iff)

lemma good_program_data:
  assumes "frame_wf request" "sim_wf s"
  shows "good request (h_program_data request s)"
proof -
  let ?ses = "sim_program_session s"
  consider r s' where "transfer_data request ?ses OP_PROGRAM s = (Inr (Inl r), s')" "good request (Inr r, s')"
    | ses a d i where "?ses = Some ses" "transfer_data request ?ses OP_PROGRAM s = (Inr (Inr (a, d, i)), s)"
        "data_accepted request ses s a d"
    using transfer_data_cases [OF assms sim_wf_sessions(1) [OF assms(2)], of OP_PROGRAM] by blast
  then show ?thesis
  proof cases
    case 1
    then show ?thesis
      using sim_wf_upd(3) [of s' None] by (simp add: h_program_data_def bindM_def)
  next
    case 2
    note d = data_acceptedD [OF 2(3) assms(1)]
    note a = addresses_allowedD [OF d(2)]
    have "u32 x" if "a \<le> x" "x < a + int (length d)" for x
      using that a by (simp add: u_simps)
    moreover have "sim_wf (s\<lparr>sim_flash := sim_flash s ++ cells a d,
               sim_programmed := sim_programmed s \<union> {a ..< a + int (length d)},
               sim_program_session := Some (advance (int (length d)) ses),
               sim_verify_succeeded := False\<rparr>)"
      using sim_wf_upd(3) [OF sim_wf_program [OF assms(2) d(1,2)], of "Some (advance (int (length d)) ses)"]
        sim_wf_sessions(1) [OF assms(2)] 2(1) by (simp add: session_wf_advance)
    ultimately show ?thesis
      using 2(1,2) a assms sim_wf_upd(3) [OF assms(2), of None]
      by (auto simp: h_program_data_def bindM_def Let_def split: option.splits
          intro!: good_if good_fail good_respond)
  qed
qed

lemma good_verify_data:
  assumes "frame_wf request" "sim_wf s"
  shows "good request (h_verify_data request s)"
proof -
  let ?ses = "sim_verify_session s"
  consider r s' where "transfer_data request ?ses OP_VERIFY s = (Inr (Inl r), s')" "good request (Inr r, s')"
    | ses a d i where "?ses = Some ses" "transfer_data request ?ses OP_VERIFY s = (Inr (Inr (a, d, i)), s)"
        "data_accepted request ses s a d"
    using transfer_data_cases [OF assms sim_wf_sessions(2) [OF assms(2)], of OP_VERIFY] by blast
  then show ?thesis
  proof cases
    case 1
    then show ?thesis
      using sim_wf_upd(4) [of s' None] by (simp add: h_verify_data_def bindM_def)
  next
    case 2
    note d = data_acceptedD [OF 2(3) assms(1)]
    note a = addresses_allowedD [OF d(2)]
    have mm: "verify_mismatch s x ws = Some y \<Longrightarrow> x \<le> y \<and> y < x + int (length ws)" for x y ws
      by (induction s x ws rule: verify_mismatch.induct) (auto split: if_splits)
    have "u32 y" if "verify_mismatch s a d = Some y" for y
      using mm [OF that] a by (simp add: u_simps)
    moreover have "u16 (mem_get (sim_flash s) y)" for y
      using assms(2) by (simp add: sim_wf_def words_wf_get)
    moreover have "sim_wf (s\<lparr>sim_verify_session := Some (advance (int (length d)) ses)\<rparr>)"
      using sim_wf_upd(4) [OF assms(2), of "Some (advance (int (length d)) ses)"]
        sim_wf_sessions(2) [OF assms(2)] 2(1) by (simp add: session_wf_advance)
    ultimately show ?thesis
      using 2(1,2) assms sim_wf_upd(4) [OF assms(2), of None]
      by (auto simp: h_verify_data_def bindM_def Let_def split: option.splits
          intro!: good_fail good_respond)
  qed
qed

lemma good_memory_read:
  assumes "frame_wf request" "sim_wf s"
  shows "good request (h_memory_read request s)"
proof -
  let ?p = "fr_payload request"
  have w: "u16 (case sim_ram s x of Some w \<Rightarrow> w | None \<Rightarrow> mem_get (sim_flash s) x)" for x
    using assms(2) words_wf_get [of "sim_flash s" x]
    by (auto simp: sim_wf_def words_wf_def split: option.split)
  have "di_max_payload_words (sim_device_info s) \<le> 0xFFFF"
    using assms(2) by (simp add: sim_wf_def device_info_wf_def u_simps)
  moreover have "u16 (?p ! 0)" "u16 (?p ! 1)" "u16 (?p ! 2)" if "length ?p = 4"
    using that payload_u16 [OF assms(1)] by simp_all
  ultimately show ?thesis
    unfolding h_memory_read_def Let_def using assms w
    by (intro good_if good_fail good_respond) (auto simp: list_all_iff simp del: One_nat_def)
qed

end
