(* ===== verification/Sim_Summary.thy ===== *)
theory Sim_Summary
  imports Sim_Invariant
begin

text \<open>
  What the scan of the metadata area computes, in closed form: the valid records, the latest of
  them, the latest image record, and the counters.  From it follow the well-formedness of the
  summary, that the metadata handlers keep the invariant, and the facts about appended records that
  the upgrade theorems use.
\<close>

section \<open>The scan in closed form\<close>

definition records :: "(int \<rightharpoonup> int) \<Rightarrow> int list list" where
  "records flash = map (metadata_record flash) [0 ..< 16]"

definition image_records :: "int list list \<Rightarrow> int list list" where
  "image_records recs =
     filter (\<lambda>r. record_valid r \<and> r ! 4 = metadata_record_type_code REC_IMAGE_VALID) recs"

definition latest_of :: "int list list \<Rightarrow> int list option" where
  "latest_of recs = fold later recs None"

lemma length_metadata_record [simp]: "length (metadata_record flash i) = 64"
  by (simp add: metadata_record_def METADATA_RECORD_WORDS_def)

lemma words16_metadata_record: "words_wf flash \<Longrightarrow> words16 (metadata_record flash i)"
  by (simp add: metadata_record_def list_all_iff words_wf_get)

lemma foldE_append: "foldE f (xs @ ys) s = bindE (foldE f xs s) (foldE f ys)"
  by (induction xs arbitrary: s) (simp_all add: bindE_def split: sum.split)

definition scan_upto :: "(int \<rightharpoonup> int) \<Rightarrow> nat \<Rightarrow> metadata_scan" where
  "scan_upto flash n =
     (let recs = map (metadata_record flash) [0 ..< n] in
      \<lparr>sc_erased = int (length (filter metadata_erased recs)),
       sc_invalid = int (length (filter (\<lambda>r. \<not> metadata_erased r \<and> \<not> record_valid r) recs)),
       sc_first_free = (case List.find (\<lambda>i. metadata_erased (metadata_record flash i)) [0 ..< n] of
          None \<Rightarrow> 0xFFFF | Some i \<Rightarrow> int i),
       sc_latest = latest_of (filter record_valid recs),
       sc_latest_image = latest_of (image_records recs),
       sc_valid_records = filter record_valid recs\<rparr>)"

lemma find_append: "List.find P (xs @ ys) = (case List.find P xs of None \<Rightarrow> List.find P ys | Some x \<Rightarrow> Some x)"
  by (induction xs) simp_all

lemma find_upt_lt: "List.find P [0 ..< n] = Some i \<Longrightarrow> i < n \<and> P i"
  by (auto simp: find_Some_iff)

lemma scan_record_upto:
  assumes "words_wf flash" "n < 16"
  shows "scan_record flash n (scan_upto flash n) = Inr (scan_upto flash (Suc n))"
proof -
  let ?r = "metadata_record flash n"
  have crc: "crc32_words (take 62 ?r) = Inr (crc32_bytes (le_bytes (take 62 ?r)))"
    by (simp add: crc32_words_Inr words16_take words16_metadata_record assms(1))
  have nf: "List.find (\<lambda>i. metadata_erased (metadata_record flash i)) [0 ..< n] \<noteq> Some 65535"
    using find_upt_lt [of _ n 65535] assms(2) by auto
  consider "metadata_erased ?r" | "\<not> metadata_erased ?r" "\<not> record_valid ?r"
    | "record_valid ?r" by blast
  then show ?thesis
  proof cases
    case 1
    then have "\<not> record_valid ?r"
      by (simp add: record_valid_def)
    with 1 show ?thesis
      using nf by (auto simp: scan_record_def scan_upto_def Let_def find_append image_records_def
          split: option.split)
  next
    case 2
    then show ?thesis
      by (auto simp: scan_record_def scan_upto_def Let_def crc record_valid_def find_append
          image_records_def split: option.split)
  next
    case 3
    then have "\<not> metadata_erased ?r" "\<not> header_bad ?r"
      "crc32_bytes (le_bytes (take 62 ?r)) = join_u32 (?r ! 62) (?r ! 63)"
      by (simp_all add: record_valid_def)
    with 3 show ?thesis
      by (simp add: scan_record_def scan_upto_def Let_def crc find_append image_records_def
          latest_of_def split: option.split)
  qed
qed

lemma metadata_scan_eq:
  assumes "words_wf flash"
  shows "metadata_scan_of flash = Inr (scan_upto flash 16)"
proof -
  have "n \<le> 16 \<Longrightarrow> foldE (scan_record flash) [0 ..< n] empty_scan = Inr (scan_upto flash n)" for n
  proof (induction n)
    case 0
    then show ?case
      by (simp add: scan_upto_def empty_scan_def latest_of_def image_records_def)
  next
    case (Suc n)
    then show ?case
      by (simp add: foldE_append scan_record_upto [OF assms])
  qed
  from this [of 16] show ?thesis
    by (simp add: metadata_scan_of_def METADATA_RECORD_COUNT_def)
qed

section \<open>The latest record\<close>

lemma later_simps:
  "later rec None = Some rec"
  "later rec (Some b) = (if record_sequence rec > record_sequence b then Some rec else Some b)"
  by (simp_all add: later_def)

lemma fold_later_Some:
  "fold later recs (Some b) = Some r \<Longrightarrow>
     r \<in> insert b (set recs) \<and> (\<forall>x \<in> insert b (set recs). record_sequence x \<le> record_sequence r)"
proof (induction recs arbitrary: b)
  case (Cons c recs)
  show ?case
  proof (cases "record_sequence c > record_sequence b")
    case True
    then have "fold later recs (Some c) = Some r"
      using Cons.prems by (simp add: later_simps)
    from Cons.IH [OF this] show ?thesis
      using True by auto
  next
    case False
    then have "fold later recs (Some b) = Some r"
      using Cons.prems by (simp add: later_simps)
    from Cons.IH [OF this] show ?thesis
      using False by auto
  qed
qed simp

lemma fold_later_not_None: "fold later recs (Some b) \<noteq> None"
  by (induction recs arbitrary: b) (auto simp: later_simps)

lemma latest_of_None_iff: "latest_of recs = None \<longleftrightarrow> recs = []"
  using fold_later_not_None by (cases recs) (simp_all add: latest_of_def later_simps)

lemma latest_of_Some:
  assumes "latest_of recs = Some r"
  shows "r \<in> set recs" "x \<in> set recs \<Longrightarrow> record_sequence x \<le> record_sequence r"
proof -
  obtain b bs where "recs = b # bs"
    using assms by (cases recs) (simp_all add: latest_of_def)
  then have "r \<in> set recs \<and> (\<forall>x \<in> set recs. record_sequence x \<le> record_sequence r)"
    using assms fold_later_Some [of bs b r] by (simp add: latest_of_def later_simps)
  then show "r \<in> set recs" "x \<in> set recs \<Longrightarrow> record_sequence x \<le> record_sequence r"
    by auto
qed

section \<open>The summary\<close>

definition image_record :: "(int \<rightharpoonup> int) \<Rightarrow> int list option" where
  "image_record flash = latest_of (image_records (records flash))"

definition boot_attempts :: "(int \<rightharpoonup> int) \<Rightarrow> int list \<Rightarrow> nat" where
  "boot_attempts flash img =
     length (filter (record_of REC_BOOT_ATTEMPT img) (filter record_valid (records flash)))"

definition app_confirmed :: "(int \<rightharpoonup> int) \<Rightarrow> int list \<Rightarrow> bool" where
  "app_confirmed flash img \<longleftrightarrow>
     list_ex (record_of REC_APP_CONFIRMED img) (filter record_valid (records flash))"

text \<open>The fields of the summary the tool and the handlers act on.\<close>

definition summary_matches :: "(int \<rightharpoonup> int) \<Rightarrow> metadata_summary \<Rightarrow> bool" where
  "summary_matches flash sm \<longleftrightarrow>
     (case image_record flash of
        None \<Rightarrow> ms_metadata_valid sm = 0
      | Some img \<Rightarrow>
          ms_metadata_valid sm = 1 \<and> ms_boot_attempt_count sm = int (boot_attempts flash img) \<and>
          ms_app_confirmed sm = (if app_confirmed flash img then 1 else 0) \<and>
          ms_entry_point sm = join_u32 (img ! 14) (img ! 15) \<and>
          ms_image_size_words sm = join_u32 (img ! 16) (img ! 17) \<and>
          ms_image_crc32 sm = join_u32 (img ! 18) (img ! 19)) \<and>
     ms_boot_attempt_limit sm = 3"

definition summary_wf :: "metadata_summary \<Rightarrow> bool" where
  "summary_wf sm \<longleftrightarrow>
     list_all u16 [ms_app_version_major sm, ms_app_version_minor sm, ms_app_version_patch sm,
       ms_target_device_id sm, ms_target_cpu_id sm] \<and>
     list_all u32 [ms_app_version_build sm, ms_entry_point sm, ms_image_crc32 sm,
       ms_image_size_words sm] \<and>
     0 \<le> ms_boot_attempt_count sm \<and> ms_boot_attempt_count sm \<le> 16 \<and> ms_boot_attempt_limit sm = 3"

lemma set_records: "r \<in> set (records flash) \<Longrightarrow> length r = 64"
  by (auto simp: records_def)

lemma words16_records: "words_wf flash \<Longrightarrow> r \<in> set (records flash) \<Longrightarrow> words16 r"
  by (auto simp: records_def words16_metadata_record)

lemma image_recordD:
  assumes "image_record flash = Some img"
  shows "img \<in> set (records flash)" "record_valid img"
    "img ! 4 = metadata_record_type_code REC_IMAGE_VALID"
    "x \<in> set (image_records (records flash)) \<Longrightarrow> record_sequence x \<le> record_sequence img"
  using latest_of_Some [of "image_records (records flash)" img] assms
  by (auto simp: image_record_def image_records_def)

lemma length_filter_records: "length (filter P (filter Q (records flash))) \<le> 16"
proof -
  have "length (filter P (filter Q (records flash))) \<le> length (filter Q (records flash))"
    by (rule length_filter_le)
  also have "\<dots> \<le> length (records flash)"
    by (rule length_filter_le)
  finally show ?thesis
    by (simp add: records_def)
qed

lemma length_filter_records1: "length (filter P (records flash)) \<le> 16"
  using length_filter_le [of P "records flash"] by (simp add: records_def)

lemma scan_upto_16:
  "scan_upto flash 16 =
     \<lparr>sc_erased = int (length (filter metadata_erased (records flash))),
      sc_invalid = int (length (filter (\<lambda>r. \<not> metadata_erased r \<and> \<not> record_valid r) (records flash))),
      sc_first_free = (case List.find (\<lambda>i. metadata_erased (metadata_record flash i)) [0 ..< 16] of
          None \<Rightarrow> 0xFFFF | Some i \<Rightarrow> int i),
      sc_latest = latest_of (filter record_valid (records flash)),
      sc_latest_image = image_record flash,
      sc_valid_records = filter record_valid (records flash)\<rparr>"
  by (simp add: scan_upto_def records_def image_record_def Let_def del: upt_Suc)

lemma u16_small: "n \<le> 16 \<Longrightarrow> u16 (int n)"
  by (simp add: u_simps)

lemma latest_exists:
  assumes "image_record flash = Some img"
  shows "\<exists>r. latest_of (filter record_valid (records flash)) = Some r \<and> r \<in> set (records flash)"
proof -
  have "img \<in> set (filter record_valid (records flash))"
    using image_recordD [OF assms] by simp
  then have "latest_of (filter record_valid (records flash)) \<noteq> None"
    unfolding latest_of_None_iff by (metis empty_iff empty_set)
  then obtain r where r: "latest_of (filter record_valid (records flash)) = Some r"
    by blast
  then show ?thesis
    using latest_of_Some(1) [OF r] by auto
qed

lemma first_free_u16:
  "u16 (case List.find P [0 ..< 16] of None \<Rightarrow> 0xFFFF | Some i \<Rightarrow> int i)"
  using find_upt_lt [of P 16] by (auto simp: u_simps split: option.split)

lemma summary_payload:
  assumes "words_wf (sim_flash s)"
  shows "\<exists>pl. metadata_summary_payload s = Inr pl \<and> length pl = 25 \<and> words16 pl \<and>
    summary_matches (sim_flash s) (metadata_summary_of_words pl) \<and>
    summary_wf (metadata_summary_of_words pl)"
proof -
  let ?f = "sim_flash s"
  have counts: "u16 (int (length (filter P (records ?f))))" "u16 (int (length (filter P (filter Q (records ?f)))))"
    for P Q
    using length_filter_records length_filter_records1 by (auto intro!: u16_small)
  show ?thesis
  proof (cases "image_record ?f")
    case None
    then show ?thesis
      using counts first_free_u16
      by (simp add: metadata_summary_payload_def metadata_scan_eq [OF assms] scan_upto_16
          summary_payload_of_def summary_matches_def metadata_summary_of_words_def summary_wf_def)
        (simp add: u_simps join_u32_def)
  next
    case (Some img)
    obtain r where r: "latest_of (filter record_valid (records ?f)) = Some r" "r \<in> set (records ?f)"
      using latest_exists [OF Some] by blast
    have w: "u16 (img ! k)" "u16 (r ! k)" if "k < 64" for k
      using that r(2) image_recordD(1) [OF Some] words16_records [OF assms] set_records
      by (auto intro: words16_nth)
    show ?thesis
      using Some r counts first_free_u16 w length_filter_records
      by (simp add: metadata_summary_payload_def metadata_scan_eq [OF assms] scan_upto_16
          summary_payload_of_def summary_matches_def metadata_summary_of_words_def summary_wf_def
          Let_def boot_attempts_def app_confirmed_def)
        (simp add: u_simps)
  qed
qed

lemma sim_summary_eq:
  assumes "words_wf (sim_flash s)"
  obtains sm where "sim_summary s = Inr sm" "summary_matches (sim_flash s) sm" "summary_wf sm"
proof -
  obtain pl where "metadata_summary_payload s = Inr pl" "length pl = 25" "words16 pl"
    "summary_matches (sim_flash s) (metadata_summary_of_words pl)"
    "summary_wf (metadata_summary_of_words pl)"
    using summary_payload [OF assms] by blast
  then show thesis
    by (intro that [of "metadata_summary_of_words pl"])
      (simp_all add: sim_summary_def metadata_summary_from_words_def METADATA_SUMMARY_WORDS_def
        check_words_Inr_iff bindE_Inr_iff)
qed

section \<open>The record builders\<close>

text \<open>What the builders promise of a record.\<close>

definition record_built :: "metadata_record_type \<Rightarrow> int \<Rightarrow> int list \<Rightarrow> bool" where
  "record_built kind sequence rec \<longleftrightarrow>
     length rec = 64 \<and> words16 rec \<and> record_valid rec \<and> record_sequence rec = sequence \<and>
     rec ! 4 = metadata_record_type_code kind \<and> rec ! 7 = boot_slot_code SLOT_SLOT_A"

lemma seal_record_Inr:
  assumes "words16 rec" "length rec = 64"
  shows "seal_record rec = Inr (rec[62 := lo16 (crc32_bytes (le_bytes (take 62 rec))),
    63 := hi16 (crc32_bytes (le_bytes (take 62 rec)))])"
  by (simp add: seal_record_def crc32_words_Inr words16_take assms(1) crc32_u32)

lemma sealed_record:
  assumes "words16 rec" "length rec = 64" "\<not> header_bad rec" "seal_record rec = Inr r"
  shows "record_valid r" "length r = 64" "words16 r" "i < 62 \<Longrightarrow> r ! i = rec ! i"
proof -
  let ?c = "crc32_bytes (le_bytes (take 62 rec))"
  have r: "r = rec[62 := lo16 ?c, 63 := hi16 ?c]"
    using assms by (simp add: seal_record_Inr)
  show "i < 62 \<Longrightarrow> r ! i = rec ! i"
    by (simp add: r)
  show "length r = 64"
    by (simp add: r assms(2))
  show "words16 r"
    by (simp add: r words16_upd assms(1) crc32_u32)
  have "take 62 r = take 62 rec"
    by (simp add: r)
  moreover have "r ! 62 = lo16 ?c" "r ! 63 = hi16 ?c"
    using assms(2) by (simp_all add: r)
  moreover have "\<not> header_bad r"
    using assms(3) by (simp add: header_bad_def r)
  moreover have "\<not> metadata_erased r"
  proof -
    have "r ! 0 \<noteq> 0xFFFF" "r \<noteq> []"
      using assms(2,3) by (auto simp: header_bad_def METADATA_MAGIC0_def r)
    then show ?thesis
      by (cases r) (auto simp: metadata_erased_def)
  qed
  ultimately show "record_valid r"
    by (simp add: record_valid_def)
qed

lemma build_image_valid_record_ok:
  assumes "words16 p" "length p = 16" "u32 sequence" "device_info_wf d"
  shows "\<exists>rec. build_image_valid_record p sequence d = Inr rec \<and>
    record_built REC_IMAGE_VALID sequence rec \<and> rec ! 14 = p ! 2 \<and> rec ! 15 = p ! 3 \<and>
    rec ! 16 = p ! 4 \<and> rec ! 17 = p ! 5 \<and> rec ! 18 = p ! 6 \<and> rec ! 19 = p ! 7"
proof -
  define rec where "rec =
    [METADATA_MAGIC0, METADATA_MAGIC1, METADATA_RECORD_VERSION, METADATA_RECORD_WORDS,
           metadata_record_type_code REC_IMAGE_VALID, lo16 sequence, hi16 sequence,
           boot_slot_code SLOT_SLOT_A, boot_slot_code SLOT_SLOT_A, 0,
           lo16 APP_FLASH_START, hi16 APP_FLASH_START,
           p ! 13, p ! 14, p ! 2, p ! 3, p ! 4, p ! 5,
           p ! 6, p ! 7, p ! 8, p ! 9, p ! 10, p ! 11,
           p ! 12, di_device_id d, di_cpu_id d, METADATA_BOOT_ATTEMPT_LIMIT, 0] @ replicate 35 0xFFFF"
  have p: "u16 (p ! k)" if "k < 16" for k
    using that assms by (simp add: words16_nth)
  have w: "words16 rec" and l: "length rec = 64" and h: "\<not> header_bad rec"
    using p assms(3,4) unfolding rec_def
    by (simp_all add: device_info_wf_def sim_const_defs header_bad_def slot_defs list_all_iff)
      (simp add: u_simps hi16_def)
  have b: "build_image_valid_record p sequence d = seal_record rec"
    using assms(3) unfolding build_image_valid_record_def rec_def
    by (simp add: slot_defs u_simps)
  obtain r where r: "seal_record rec = Inr r"
    using seal_record_Inr [OF w l] by blast
  have nth: "r ! 4 = metadata_record_type_code REC_IMAGE_VALID" "r ! 5 = lo16 sequence"
    "r ! 6 = hi16 sequence" "r ! 7 = boot_slot_code SLOT_SLOT_A" "r ! 14 = p ! 2" "r ! 15 = p ! 3"
    "r ! 16 = p ! 4" "r ! 17 = p ! 5" "r ! 18 = p ! 6" "r ! 19 = p ! 7"
    using sealed_record(4) [OF w l h r] by (simp_all add: rec_def)
  show ?thesis
    using sealed_record [OF w l h r] nth
    by (simp add: b r record_built_def record_sequence_def)
qed

lemma build_boot_attempt_record_ok:
  assumes "summary_wf sm" "u32 sequence"
  shows "\<exists>rec. build_boot_attempt_record sm sequence = Inr rec \<and>
    record_built REC_BOOT_ATTEMPT sequence rec \<and>
    rec ! 14 = lo16 (ms_entry_point sm) \<and> rec ! 15 = hi16 (ms_entry_point sm) \<and>
    rec ! 16 = lo16 (ms_image_size_words sm) \<and> rec ! 17 = hi16 (ms_image_size_words sm) \<and>
    rec ! 18 = lo16 (ms_image_crc32 sm) \<and> rec ! 19 = hi16 (ms_image_crc32 sm)"
proof -
  define rec where "rec =
    [METADATA_MAGIC0, METADATA_MAGIC1, METADATA_RECORD_VERSION, METADATA_RECORD_WORDS,
           metadata_record_type_code REC_BOOT_ATTEMPT, lo16 sequence, hi16 sequence,
           boot_slot_code SLOT_SLOT_A, boot_slot_code SLOT_SLOT_A, 0,
           lo16 APP_FLASH_START, hi16 APP_FLASH_START,
           lo16 APP_FLASH_END_EXCLUSIVE, hi16 APP_FLASH_END_EXCLUSIVE,
           lo16 (ms_entry_point sm), hi16 (ms_entry_point sm),
           lo16 (ms_image_size_words sm), hi16 (ms_image_size_words sm),
           lo16 (ms_image_crc32 sm), hi16 (ms_image_crc32 sm),
           ms_app_version_major sm, ms_app_version_minor sm, ms_app_version_patch sm,
           lo16 (ms_app_version_build sm), hi16 (ms_app_version_build sm),
           ms_target_device_id sm, ms_target_cpu_id sm,
           ms_boot_attempt_limit sm, ms_boot_attempt_count sm + 1] @ replicate 35 0xFFFF"
  have w: "words16 rec" and l: "length rec = 64" and h: "\<not> header_bad rec"
    using assms unfolding rec_def
    by (simp_all add: summary_wf_def sim_const_defs header_bad_def slot_defs list_all_iff)
      (simp add: u_simps hi16_def)
  have b: "build_boot_attempt_record sm sequence = seal_record rec"
    using assms unfolding build_boot_attempt_record_def rec_def
    by (simp add: summary_wf_def slot_defs u_simps)
  obtain r where r: "seal_record rec = Inr r"
    using seal_record_Inr [OF w l] by blast
  have nth: "r ! 4 = metadata_record_type_code REC_BOOT_ATTEMPT" "r ! 5 = lo16 sequence"
    "r ! 6 = hi16 sequence" "r ! 7 = boot_slot_code SLOT_SLOT_A"
    "r ! 14 = lo16 (ms_entry_point sm)" "r ! 15 = hi16 (ms_entry_point sm)"
    "r ! 16 = lo16 (ms_image_size_words sm)" "r ! 17 = hi16 (ms_image_size_words sm)"
    "r ! 18 = lo16 (ms_image_crc32 sm)" "r ! 19 = hi16 (ms_image_crc32 sm)"
    using sealed_record(4) [OF w l h r] by (simp_all add: rec_def)
  show ?thesis
    using sealed_record [OF w l h r] nth
    by (simp add: b r record_built_def record_sequence_def)
qed

lemma build_app_confirmed_record_ok:
  assumes "summary_wf sm" "u32 sequence"
  shows "\<exists>rec. build_app_confirmed_record sm sequence = Inr rec \<and>
    record_built REC_APP_CONFIRMED sequence rec \<and>
    rec ! 14 = lo16 (ms_entry_point sm) \<and> rec ! 15 = hi16 (ms_entry_point sm) \<and>
    rec ! 16 = lo16 (ms_image_size_words sm) \<and> rec ! 17 = hi16 (ms_image_size_words sm) \<and>
    rec ! 18 = lo16 (ms_image_crc32 sm) \<and> rec ! 19 = hi16 (ms_image_crc32 sm)"
proof -
  obtain b where b: "build_boot_attempt_record sm sequence = Inr b"
    "record_built REC_BOOT_ATTEMPT sequence b"
    "b ! 14 = lo16 (ms_entry_point sm)" "b ! 15 = hi16 (ms_entry_point sm)"
    "b ! 16 = lo16 (ms_image_size_words sm)" "b ! 17 = hi16 (ms_image_size_words sm)"
    "b ! 18 = lo16 (ms_image_crc32 sm)" "b ! 19 = hi16 (ms_image_crc32 sm)"
    using build_boot_attempt_record_ok [OF assms] by blast
  define rec where "rec = b[4 := metadata_record_type_code REC_APP_CONFIRMED, 28 := ms_boot_attempt_count sm]"
  have "u16 (ms_boot_attempt_count sm)" "u16 (metadata_record_type_code REC_APP_CONFIRMED)"
    using assms(1) by (auto simp: summary_wf_def u_simps)
  then have w: "words16 rec"
    using b(2) unfolding rec_def by (intro words16_upd) (simp_all add: record_built_def)
  have l: "length rec = 64"
    using b(2) by (simp add: rec_def record_built_def)
  have h: "\<not> header_bad rec"
    using b(2) by (simp add: rec_def record_built_def record_valid_def header_bad_def)
  obtain r where r: "seal_record rec = Inr r"
    using seal_record_Inr [OF w l] by blast
  have "r ! 4 = metadata_record_type_code REC_APP_CONFIRMED" "r ! 5 = b ! 5" "r ! 6 = b ! 6"
    "r ! 7 = b ! 7" "r ! 14 = b ! 14" "r ! 15 = b ! 15" "r ! 16 = b ! 16" "r ! 17 = b ! 17"
    "r ! 18 = b ! 18" "r ! 19 = b ! 19"
    using sealed_record(4) [OF w l h r] b(2) by (simp_all add: rec_def record_built_def)
  moreover have "build_app_confirmed_record sm sequence = Inr r"
    by (simp only: build_app_confirmed_record_def b(1) bindE_simps rec_def [symmetric] r)
  ultimately show ?thesis
    using sealed_record [OF w l h r] b by (simp add: record_built_def record_sequence_def)
qed

section \<open>Storing a record\<close>

lemma metadata_record_store:
  assumes "length rec = 64"
  shows "metadata_record (f ++ cells (record_base k) rec) i =
    (if i = k then rec else metadata_record f i)"
proof (cases "i = k")
  case True
  then show ?thesis
    using assms by (simp add: metadata_record_def METADATA_RECORD_WORDS_def mem_get_def
        map_add_def cells_def list_eq_iff_nth_eq)
next
  case False
  have "cells (record_base k) rec (record_base i + int w) = None" if "w < 64" for w
  proof (rule cells_outside)
    have "i < k \<or> k < i"
      using False by linarith
    then show "record_base i + int w \<notin> {record_base k ..< record_base k + int (length rec)}"
      using that assms by (auto simp: record_base_def METADATA_RECORD_WORDS_def)
  qed
  then show ?thesis
    using False by (simp add: metadata_record_def METADATA_RECORD_WORDS_def mem_get_def map_add_def)
qed

lemma record_built_used: "record_built kind q rec \<Longrightarrow> \<not> metadata_erased rec"
  by (simp add: record_built_def record_valid_def)

lemma first_free_SomeD:
  "first_free_record f = Some k \<Longrightarrow> k < 16 \<and> metadata_erased (metadata_record f k)"
  using find_upt_lt [of "\<lambda>i. metadata_erased (metadata_record f i)" 16 k]
  by (simp add: first_free_record_def METADATA_RECORD_COUNT_def)

lemma first_free_NoneD:
  "first_free_record f = None \<Longrightarrow> i < 16 \<Longrightarrow> \<not> metadata_erased (metadata_record f i)"
  by (simp add: first_free_record_def METADATA_RECORD_COUNT_def find_None_iff)

lemma length_used_records: "length (used_records f) = card {i. i < 16 \<and> \<not> metadata_erased (metadata_record f i)}"
proof -
  have "distinct (used_records f)"
    by (simp add: used_records_def)
  moreover have "set (used_records f) = {i. i < 16 \<and> \<not> metadata_erased (metadata_record f i)}"
    by (auto simp: used_records_def)
  ultimately show ?thesis
    by (metis distinct_card)
qed

lemma used_records_store:
  assumes "first_free_record f = Some k" "record_built kind q rec"
  shows "set (used_records (f ++ cells (record_base k) rec)) = insert k (set (used_records f))"
    "length (used_records (f ++ cells (record_base k) rec)) = Suc (length (used_records f))"
    "k \<notin> set (used_records f)"
proof -
  have l: "length rec = 64" "\<not> metadata_erased rec"
    using assms(2) record_built_used by (auto simp: record_built_def)
  show k: "k \<notin> set (used_records f)"
    using first_free_SomeD [OF assms(1)] by (simp add: used_records_def)
  show s: "set (used_records (f ++ cells (record_base k) rec)) = insert k (set (used_records f))"
    using first_free_SomeD [OF assms(1)] l
    by (auto simp: used_records_def metadata_record_store split: if_splits)
  have "distinct (used_records g)" for g
    by (simp add: used_records_def)
  then show "length (used_records (f ++ cells (record_base k) rec)) = Suc (length (used_records f))"
    using s k by (metis card_insert_disjoint distinct_card List.finite_set)
qed

lemma next_record_sequence_bounds:
  assumes "metadata_ok f" "words_wf f"
  shows "1 \<le> next_record_sequence f" "next_record_sequence f \<le> int (length (used_records f)) + 1"
    "i \<in> set (used_records f) \<Longrightarrow> record_sequence (metadata_record f i) < next_record_sequence f"
    "u32 (next_record_sequence f)"
proof -
  let ?S = "(\<lambda>i. record_sequence (metadata_record f i)) ` set (used_records f)"
  have u: "filter (\<lambda>index. \<not> metadata_erased (metadata_record f index)) [0 ..< nat METADATA_RECORD_COUNT] =
    used_records f"
    by (simp add: used_records_def METADATA_RECORD_COUNT_def del: upt_Suc)
  have q: "next_record_sequence f = 1 + (if used_records f = [] then 0 else Max ?S)"
    by (simp add: next_record_sequence_def Let_def u)
  have pos: "0 \<le> record_sequence (metadata_record f i)" for i
  proof -
    have "u32 (record_sequence (metadata_record f i))"
      unfolding record_sequence_def using words16_metadata_record [OF assms(2), of i]
      by (intro join_u32_u32) (simp_all add: words16_nth)
    then show ?thesis
      by (simp add: u_simps)
  qed
  show lt: "record_sequence (metadata_record f i) < next_record_sequence f"
    if "i \<in> set (used_records f)" for i
  proof -
    have "record_sequence (metadata_record f i) \<le> Max ?S"
      using that by (intro Max_ge) auto
    moreover have "used_records f \<noteq> []"
      using that by auto
    ultimately show ?thesis
      by (simp add: q)
  qed
  have max: "Max ?S \<in> ?S" if "used_records f \<noteq> []"
    using that by (intro Max_in) auto
  have "0 \<le> Max ?S" if "used_records f \<noteq> []"
    using max [OF that] pos by (elim imageE) simp
  then show "1 \<le> next_record_sequence f"
    by (simp add: q)
  show le: "next_record_sequence f \<le> int (length (used_records f)) + 1"
    using max assms(1) by (auto simp: q metadata_ok_def)
  have "length (used_records f) \<le> 16"
    using length_filter_le [of _ "[0 ..< 16]"] by (simp add: used_records_def del: upt_Suc)
  then show "u32 (next_record_sequence f)"
    using le \<open>1 \<le> next_record_sequence f\<close> by (simp add: u_simps)
qed

lemma metadata_ok_store:
  assumes "metadata_ok f" "words_wf f" "first_free_record f = Some k"
    and "record_built kind (next_record_sequence f) rec"
  shows "metadata_ok (f ++ cells (record_base k) rec)"
proof -
  have l: "length rec = 64"
    using assms(4) by (simp add: record_built_def)
  show ?thesis
    using assms(1,4) used_records_store [OF assms(3,4)] next_record_sequence_bounds [OF assms(1,2)]
    by (auto simp: metadata_ok_def metadata_record_store [OF l] record_built_def)
qed

lemma record_cells_area:
  assumes "cells (record_base k) rec x = Some w" "length rec = 64" "k < 16"
  shows "x \<in> metadata_area"
proof -
  have "k * 64 + 64 \<le> 1024"
    using assms(3) by linarith
  then show ?thesis
    using assms by (auto simp: cells_Some_iff record_base_def metadata_area_def slot_defs
        METADATA_RECORD_WORDS_def)
qed

lemma sim_wf_store_record:
  assumes "sim_wf s" "first_free_record (sim_flash s) = Some k"
    and "record_built kind (next_record_sequence (sim_flash s)) rec"
  shows "sim_wf (store_record k rec s)"
proof -
  have rec: "length rec = 64" "words16 rec"
    using assms(3) by (simp_all add: record_built_def)
  have "metadata_ok (sim_flash s ++ cells (record_base k) rec)"
    using assms by (intro metadata_ok_store) (auto simp: sim_wf_def)
  moreover have "\<forall>x. APP_FLASH_START \<le> x \<and> (sim_flash s ++ cells (record_base k) rec) x \<noteq> None \<longrightarrow>
      x \<in> sim_programmed s"
    using assms(1) record_cells_area [OF _ rec(1)] first_free_SomeD [OF assms(2)]
    by (fastforce simp: sim_wf_def programmed_ok_def map_add_Some_iff metadata_area_def slot_defs)
  ultimately show ?thesis
    using assms(1) rec(2)
    by (simp add: sim_wf_def store_record_def programmed_ok_def words_wf_cells)
qed

section \<open>The metadata handlers keep the invariant\<close>

lemma good_bindM_liftM: "r = Inr x \<Longrightarrow> good request (f x s) \<Longrightarrow> good request (bindM (liftM r) f s)"
  by simp

lemma good_option:
  "(x = None \<Longrightarrow> good request a) \<Longrightarrow> (\<And>y. x = Some y \<Longrightarrow> good request (b y)) \<Longrightarrow>
     good request (case x of None \<Rightarrow> a | Some y \<Rightarrow> b y)"
  by (cases x) simp_all

lemma good_get_metadata_summary:
  assumes "frame_wf request" "sim_wf s"
  shows "good request (h_get_metadata_summary request s)"
proof -
  have "words_wf (sim_flash s)"
    using assms(2) by (simp add: sim_wf_def)
  then obtain pl where "metadata_summary_payload s = Inr pl" "length pl = 25" "words16 pl"
    using summary_payload by blast
  then show ?thesis
    unfolding h_get_metadata_summary_def using assms
    by (intro good_unless_error) (auto intro!: good_respond)
qed

lemma good_append_image_valid:
  assumes "frame_wf request" "sim_wf s" "length (fr_payload request) = 16"
  shows "good request (append_image_valid request s)"
proof (cases "first_free_record (sim_flash s)")
  case None
  then show ?thesis
    unfolding append_image_valid_def Let_def using assms
    by (auto intro!: good_if good_fail)
next
  case (Some k)
  have f: "metadata_ok (sim_flash s)" "words_wf (sim_flash s)" "device_info_wf (sim_device_info s)"
    using assms(2) by (simp_all add: sim_wf_def)
  obtain rec where "build_image_valid_record (fr_payload request) (next_record_sequence (sim_flash s))
      (sim_device_info s) = Inr rec"
    "record_built REC_IMAGE_VALID (next_record_sequence (sim_flash s)) rec"
    using build_image_valid_record_ok [OF _ assms(3) next_record_sequence_bounds(4) [OF f(1,2)] f(3)]
      assms(1) by (auto simp: frame_wf_def)
  then show ?thesis
    unfolding append_image_valid_def Let_def using assms Some
    by (auto intro!: good_if good_fail good_respond sim_wf_store_record)
qed

lemma good_append_boot_record:
  assumes "frame_wf request" "sim_wf s"
  shows "good request (append_boot_record request s)"
proof -
  have f: "metadata_ok (sim_flash s)" "words_wf (sim_flash s)"
    using assms(2) by (simp_all add: sim_wf_def)
  note q = next_record_sequence_bounds(4) [OF f]
  obtain sm where sm: "sim_summary s = Inr sm" "summary_wf sm"
    using sim_summary_eq [OF f(2)] by blast
  obtain a c where rec:
    "build_boot_attempt_record sm (next_record_sequence (sim_flash s)) = Inr a"
    "record_built REC_BOOT_ATTEMPT (next_record_sequence (sim_flash s)) a"
    "build_app_confirmed_record sm (next_record_sequence (sim_flash s)) = Inr c"
    "record_built REC_APP_CONFIRMED (next_record_sequence (sim_flash s)) c"
    using build_boot_attempt_record_ok [OF sm(2) q] build_app_confirmed_record_ok [OF sm(2) q] by blast
  show ?thesis
    unfolding append_boot_record_def Let_def
    using assms rec sim_wf_store_record [OF assms(2)]
    by (intro good_if good_fail good_respond good_bindM_liftM [OF sm(1)] good_option)
      (auto intro!: good_respond)
qed

lemma good_metadata_append_record:
  assumes "frame_wf request" "sim_wf s"
  shows "good request (h_metadata_append_record request s)"
  unfolding h_metadata_append_record_def Let_def
  using assms good_append_boot_record good_append_image_valid
  by (intro good_if good_fail) auto

lemma good_run:
  assumes "frame_wf request" "sim_wf s"
  shows "good request (h_run request s)"
proof -
  have "words_wf (sim_flash s)"
    using assms(2) by (simp add: sim_wf_def)
  then obtain sm where sm: "sim_summary s = Inr sm"
    using sim_summary_eq by blast
  have "u32 (join_u32 (fr_payload request ! 1) (fr_payload request ! 2))"
    if "length (fr_payload request) = 4"
    using that payload_u32 [OF assms(1)] by simp
  then show ?thesis
    unfolding h_run_def Let_def using assms
    by (intro good_if good_fail good_respond good_bindM_liftM [OF sm]) auto
qed

end
