(* ===== verification/Sim_Frame_Rules.thy ===== *)
theory Sim_Frame_Rules
  imports Sim_Core
begin

text \<open>
  Which parts of the simulator's state a handler leaves alone.  The rules are proved once, for every
  view of the state that an error response does not change (the locale \<open>state_view\<close>), and used for
  two views: the configuration of the device, which no handler changes, and the Flash with the
  configuration, which only three handlers change.
\<close>

definition kept :: "(sim \<Rightarrow> 'a) \<Rightarrow> sim \<Rightarrow> 'b \<times> sim \<Rightarrow> bool" where
  "kept view s x \<longleftrightarrow> view (snd x) = view s"

lemma kept_pair [simp]: "kept view s (r, t) \<longleftrightarrow> view t = view s"
  by (simp add: kept_def)

lemma kept_if:
  "(c \<Longrightarrow> kept view s x) \<Longrightarrow> (\<not> c \<Longrightarrow> kept view s y) \<Longrightarrow> kept view s (if c then x else y)"
  by simp

lemma kept_option:
  "(x = None \<Longrightarrow> kept view s a) \<Longrightarrow> (\<And>y. x = Some y \<Longrightarrow> kept view s (b y)) \<Longrightarrow>
     kept view s (case x of None \<Rightarrow> a | Some y \<Rightarrow> b y)"
  by (cases x) simp_all

lemma kept_sum:
  "(\<And>e. x = Inl e \<Longrightarrow> kept view s (a e)) \<Longrightarrow> (\<And>y. x = Inr y \<Longrightarrow> kept view s (b y)) \<Longrightarrow>
     kept view s (case x of Inl e \<Rightarrow> a e | Inr y \<Rightarrow> b y)"
  by (cases x) simp_all

lemma kept_cases_app:
  "(x = None \<Longrightarrow> kept view s (a t)) \<Longrightarrow> (\<And>y. x = Some y \<Longrightarrow> kept view s (b y t)) \<Longrightarrow>
     kept view s ((case x of None \<Rightarrow> a | Some y \<Rightarrow> b y) t)"
  "(\<And>e. z = Inl e \<Longrightarrow> kept view s (c e t)) \<Longrightarrow> (\<And>y. z = Inr y \<Longrightarrow> kept view s (d y t)) \<Longrightarrow>
     kept view s ((case z of Inl e \<Rightarrow> c e | Inr y \<Rightarrow> d y) t)"
  "(\<And>u v. p = (u, v) \<Longrightarrow> kept view s (f u v t)) \<Longrightarrow> kept view s ((case p of (u, v) \<Rightarrow> f u v) t)"
  by (cases x; cases z; cases p; simp)+

lemma kept_bindM:
  assumes "kept view s (m t)" "\<And>x u. view u = view s \<Longrightarrow> kept view s (f x u)"
  shows "kept view s (bindM m f t)"
  using assms by (cases "m t") (auto simp: bindM_def kept_def split: sum.split)

lemma kept_thenM:
  assumes "kept view s (m t)" "\<And>u. view u = view s \<Longrightarrow> kept view s (n u)"
  shows "kept view s (thenM m n t)"
  unfolding thenM_def using assms by (intro kept_bindM) auto

lemma kept_basic:
  "view t = view s \<Longrightarrow> kept view s (liftM r t)"
  "view t = view s \<Longrightarrow> kept view s (returnM x t)"
  "view t = view s \<Longrightarrow> kept view s (getM h t)"
  "view (g t) = view s \<Longrightarrow> kept view s (modM g t)"
  by simp_all

lemma kept_respond: "view t = view s \<Longrightarrow> kept view s (respond request st payload t)"
  by (simp add: respond_def)

locale state_view =
  fixes view :: "sim \<Rightarrow> 'a"
  assumes view_last_error: "view (s\<lparr>sim_last_error := e\<rparr>) = view s"
begin

lemma kept_fail:
  "view t = view s \<Longrightarrow> kept view s (fail_at request st operation stage address length_words extra0 t)"
  unfolding fail_at_def
  by (auto intro!: kept_bindM kept_thenM kept_respond kept_basic simp: view_last_error)

lemma kept_require_empty:
  "view t = view s \<Longrightarrow> kept view s (require_empty request operation t)"
  unfolding require_empty_def by (auto intro!: kept_bindM kept_fail kept_basic)

lemma kept_unless_error:
  assumes "view t = view s" "\<And>u. view u = view s \<Longrightarrow> kept view s (rest u)"
  shows "kept view s (unless_error (require_empty request operation) rest t)"
  unfolding unless_error_def using assms
  by (auto intro!: kept_bindM kept_require_empty kept_basic split: option.split)

lemma kept_begin: "view t = view s \<Longrightarrow> kept view s (begin_transfer request operation t)"
  unfolding begin_transfer_def Let_def
  by (auto intro!: kept_if kept_bindM kept_fail kept_basic)

lemma kept_data: "view t = view s \<Longrightarrow> kept view s (transfer_data request session operation t)"
  unfolding transfer_data_def Let_def
  by (auto intro!: kept_if kept_bindM kept_fail kept_basic split: option.split sum.split exc.split)

lemma kept_end: "view t = view s \<Longrightarrow> kept view s (end_transfer request session operation t)"
  unfolding end_transfer_def Let_def
  by (auto intro!: kept_fail kept_respond split: option.split)

lemmas kept_rules = kept_if kept_option kept_sum kept_cases_app kept_bindM kept_thenM kept_basic kept_respond
  kept_fail kept_unless_error kept_begin kept_data kept_end

lemma kept_queries:
  "view t = view s \<Longrightarrow> kept view s (h_ping request t)"
  "view t = view s \<Longrightarrow> kept view s (h_get_device_info request t)"
  "view t = view s \<Longrightarrow> kept view s (h_get_protocol_info request t)"
  "view t = view s \<Longrightarrow> kept view s (h_get_last_error request t)"
  "view t = view s \<Longrightarrow> kept view s (h_get_service_status request t)"
  "view t = view s \<Longrightarrow> kept view s (h_get_metadata_summary request t)"
  "view t = view s \<Longrightarrow> kept view s (h_memory_read request t)"
  unfolding h_ping_def h_get_device_info_def h_get_protocol_info_def h_get_last_error_def
    h_get_service_status_def h_get_metadata_summary_def h_memory_read_def Let_def
  by (auto intro!: kept_rules)

end

definition configuration :: "sim \<Rightarrow> flash_sector list \<times> device_info \<times> sim_faults \<times> bool" where
  "configuration s =
     (sim_sectors s, sim_device_info s, sim_faults s, sim_require_service s)"

definition flash_view ::
  "sim \<Rightarrow> (flash_sector list \<times> device_info \<times> sim_faults \<times> bool) \<times> (int \<rightharpoonup> int) \<times> int set" where
  "flash_view s = (configuration s, sim_flash s, sim_programmed s)"

interpretation cv: state_view configuration
  by unfold_locales (simp add: configuration_def)

interpretation fv: state_view flash_view
  by unfold_locales (simp add: flash_view_def configuration_def)

lemma flash_view_simps [simp]:
  "flash_view (s\<lparr>sim_program_session := a\<rparr>) = flash_view s"
  "flash_view (s\<lparr>sim_verify_session := a\<rparr>) = flash_view s"
  "flash_view (s\<lparr>sim_ram_load_session := a\<rparr>) = flash_view s"
  "flash_view (s\<lparr>sim_ram_loaded := a\<rparr>) = flash_view s"
  "flash_view (s\<lparr>sim_ram_crc_ok := b\<rparr>) = flash_view s"
  "flash_view (s\<lparr>sim_ram := m\<rparr>) = flash_view s"
  "flash_view (s\<lparr>sim_service_state := v\<rparr>) = flash_view s"
  "flash_view (s\<lparr>sim_service_last_attach_status := st\<rparr>) = flash_view s"
  "flash_view (s\<lparr>sim_service_capabilities := c\<rparr>) = flash_view s"
  "flash_view (s\<lparr>sim_service_header_address := c\<rparr>) = flash_view s"
  "flash_view (s\<lparr>sim_service_loaded_crc32 := c\<rparr>) = flash_view s"
  "flash_view (s\<lparr>sim_service_loaded_words := c\<rparr>) = flash_view s"
  "flash_view (s\<lparr>sim_pending_action := act\<rparr>) = flash_view s"
  "flash_view (s\<lparr>sim_verify_succeeded := b\<rparr>) = flash_view s"
  by (simp_all add: flash_view_def configuration_def)

lemma flash_view_imp_configuration: "flash_view t = flash_view s \<Longrightarrow> configuration t = configuration s"
  by (simp add: flash_view_def)

lemma configuration_flash [simp]:
  "configuration (s\<lparr>sim_flash := m\<rparr>) = configuration s"
  "configuration (s\<lparr>sim_programmed := p\<rparr>) = configuration s"
  "configuration (s\<lparr>sim_program_session := a\<rparr>) = configuration s"
  "configuration (s\<lparr>sim_verify_session := a\<rparr>) = configuration s"
  "configuration (s\<lparr>sim_verify_succeeded := b\<rparr>) = configuration s"
  by (simp_all add: configuration_def)

section \<open>The handlers that leave the Flash alone\<close>

lemma kept_service_fail: "flash_view t = flash_view s \<Longrightarrow> kept flash_view s (service_fail request st address t)"
  unfolding service_fail_def by (rule fv.kept_fail) simp

lemma flash_view_ram_store [simp]: "flash_view (ram_store a d s) = flash_view s"
  by (simp add: ram_store_def)

lemma kept_flash_view_ram:
  "kept flash_view s (h_ram_load_begin request s)"
  "kept flash_view s (h_ram_load_data request s)"
  "kept flash_view s (h_ram_load_end request s)"
  "kept flash_view s (h_ram_check_crc request s)"
  "kept flash_view s (h_run_ram request s)"
  unfolding h_ram_load_begin_def h_ram_load_data_def h_ram_load_end_def h_ram_check_crc_def
    h_run_ram_def Let_def
  by (intro fv.kept_rules; simp)+

lemma kept_flash_view_service: "kept flash_view s (h_service_attach request s)"
  unfolding h_service_attach_def Let_def
  by (intro kept_service_fail fv.kept_rules; simp)

lemma kept_flash_view_sessions:
  "kept flash_view s (h_program_begin request s)"
  "kept flash_view s (h_program_end request s)"
  "kept flash_view s (h_verify_begin request s)"
  "kept flash_view s (h_verify_data request s)"
  "kept flash_view s (h_verify_end request s)"
  "kept flash_view s (h_run request s)"
  "kept flash_view s (h_reset request s)"
  unfolding h_program_begin_def h_program_end_def h_verify_begin_def h_verify_data_def
    h_verify_end_def h_run_def h_reset_def Let_def
  by (auto intro!: fv.kept_rules split: sum.split prod.split option.split)

lemma kept_configuration_erase: "kept configuration s (h_erase request s)"
  unfolding h_erase_def Let_def by (intro cv.kept_rules; simp)

lemma kept_configuration_program: "kept configuration s (h_program_data request s)"
  unfolding h_program_data_def Let_def by (intro cv.kept_rules; simp)

lemma kept_configuration_append:
  "kept configuration s (append_image_valid request s)"
  "kept configuration s (append_boot_record request s)"
  "kept configuration s (h_metadata_append_record request s)"
  unfolding h_metadata_append_record_def append_image_valid_def append_boot_record_def
    store_record_def Let_def
  by (intro cv.kept_rules; simp)+

text \<open>No command changes the device's configuration.\<close>

lemma transact_configuration: "configuration (snd (transact request s)) = configuration s"
proof -
  have h: "kept configuration s (handler cmd request s)" for cmd
    using kept_flash_view_ram kept_flash_view_service kept_flash_view_sessions
      kept_configuration_erase kept_configuration_program kept_configuration_append(3) fv.kept_queries [OF refl]
    by (cases cmd) (auto simp: kept_def intro: flash_view_imp_configuration)
  have "kept configuration s (transact request s)"
    unfolding transact_def by (intro kept_if kept_option cv.kept_fail h refl)
  then show ?thesis
    by (simp add: kept_def)
qed

end
