(* ===== verification/Sim_Effects.thy ===== *)
theory Sim_Effects
  imports Sim_Transact
begin

text \<open>
  The effects of the handlers that change the Flash, as equations: what an accepted erase, program,
  verify or append request does to the state, and that a refused one leaves the Flash alone.
\<close>

lemma respond_status: "respond request st payload s = (Inr r, s') \<Longrightarrow> fr_status r = status_code st \<and> s' = s"
  by (auto simp: respond_def Frame_Inr_iff)

lemma fail_at_status:
  "fail_at request st operation stage a l x s = (Inr r, s') \<Longrightarrow> fr_status r = status_code st"
  by (auto simp: fail_at_def bindM_Inr_iff thenM_Inr_iff dest!: respond_status split: if_splits)

lemma fail_at_view: "flash_view (snd (fail_at request st operation stage a l x s)) = flash_view s"
  using fv.kept_fail [of s s] by (simp add: kept_def)

definition refused :: "frame \<Rightarrow> sim \<Rightarrow> frame res \<times> sim \<Rightarrow> bool" where
  "refused request s x \<longleftrightarrow>
     flash_view (snd x) = flash_view s \<and> (\<forall>r. fst x = Inr r \<longrightarrow> fr_status r \<noteq> 0)"

lemma refused_fail:
  assumes "st \<noteq> ST_OK" "flash_view t = flash_view s"
  shows "refused request s (fail_at request st operation stage a l x t)"
proof -
  have "fr_status r \<noteq> 0" if "fst (fail_at request st operation stage a l x t) = Inr r" for r
    using fail_at_status [of request st operation stage a l x t r] that assms(1)
    by (cases "fail_at request st operation stage a l x t") auto
  then show ?thesis
    using assms(2) fail_at_view [of request st operation stage a l x t] by (auto simp: refused_def)
qed

section \<open>Erase\<close>

definition erased_state :: "int \<Rightarrow> sim \<Rightarrow> sim" where
  "erased_state m s =
     (let selected = selected_sectors m (sim_sectors s) in
      s\<lparr>sim_flash := erase_flash selected (sim_flash s),
        sim_programmed := {x \<in> sim_programmed s. \<not> list_ex (\<lambda>sec. fs_contains sec x) selected},
        sim_program_session := None, sim_verify_session := None, sim_verify_succeeded := False\<rparr>)"

definition erase_accepted :: "frame \<Rightarrow> sim \<Rightarrow> int \<Rightarrow> bool" where
  "erase_accepted request s m \<longleftrightarrow>
     (let p = fr_payload request in
        length p = 3 \<and> m = join_u32 (p ! 0) (p ! 1) \<and> p ! 2 = 0 \<and> m \<noteq> 0 \<and>
        m AND NOT (push_bit (length (sim_sectors s)) 1 - 1) = 0 \<and> \<not> flt_erase_fail (sim_faults s))"

lemma erase_effect:
  assumes "frame_wf request"
  shows "erase_accepted request s m \<Longrightarrow>
      h_erase request s = (Inr (reply_frame request ST_OK []), erased_state m s)"
    and "(\<nexists>m. erase_accepted request s m) \<Longrightarrow> refused request s (h_erase request s)"
proof -
  show "h_erase request s = (Inr (reply_frame request ST_OK []), erased_state m s)"
    if "erase_accepted request s m"
    using that assms
    by (auto simp: erase_accepted_def Let_def h_erase_def respond_eq erased_state_def)
  show "refused request s (h_erase request s)" if "\<nexists>m. erase_accepted request s m"
    using that by (auto simp: erase_accepted_def Let_def h_erase_def intro!: refused_fail)
qed

section \<open>Program\<close>

definition program_accepted :: "frame \<Rightarrow> session \<Rightarrow> sim \<Rightarrow> int \<Rightarrow> int list \<Rightarrow> bool" where
  "program_accepted request ses s a d \<longleftrightarrow>
     sim_program_session s = Some ses \<and> data_accepted request ses s a d \<and>
     \<not> flt_bad_block_index (sim_faults s) \<and>
     (\<forall>x. flt_program_fail_at_address (sim_faults s) = Some x \<longrightarrow> x \<notin> {a ..< a + int (length d)}) \<and>
     sim_programmed s \<inter> {a ..< a + int (length d)} = {}"

definition programmed_state :: "session \<Rightarrow> int \<Rightarrow> int list \<Rightarrow> sim \<Rightarrow> sim" where
  "programmed_state ses a d s =
     s\<lparr>sim_flash := sim_flash s ++ cells a d,
       sim_programmed := sim_programmed s \<union> {a ..< a + int (length d)},
       sim_program_session := Some (advance (int (length d)) ses), sim_verify_succeeded := False\<rparr>"

lemma transfer_data_accepted:
  assumes "data_accepted request ses s a d" "\<not> flt_bad_block_index (sim_faults s)"
  shows "\<exists>i. transfer_data request (Some ses) operation s = (Inr (Inr (a, d, i)), s)"
proof -
  let ?p = "fr_payload request"
  have "5 \<le> length ?p" "?p ! 2 = int (length (drop 5 ?p))" "a = join_u32 (?p ! 0) (?p ! 1)" "d = drop 5 ?p"
    "join_u32 (?p ! 3) (?p ! 4) = ses_expected_index ses" "addresses_allowed s a (int (length d))"
    "validate_write_data d (Some (di_max_data_words (sim_device_info s))) = Inr ()"
    using assms(1) by (auto simp: data_accepted_def Let_def)
  then show ?thesis
    using assms(2) by (auto simp: transfer_data_def Let_def)
qed

lemma transfer_data_Inr:
  assumes "transfer_data request session operation s = (Inr (Inr (a, d, i)), s')"
  shows "s' = s \<and> \<not> flt_bad_block_index (sim_faults s) \<and> (\<exists>ses. session = Some ses \<and> data_accepted request ses s a d)"
  using assms
  by (auto simp: transfer_data_def Let_def bindM_Inr_iff data_accepted_def
      split: option.splits if_splits sum.splits exc.splits)

lemma transfer_data_Inl:
  assumes "transfer_data request session operation s = (Inr (Inl r), s')"
  shows "fr_status r \<noteq> 0 \<and> flash_view s' = flash_view s"
proof -
  have "fr_status r \<noteq> 0"
    using assms
    by (auto simp: transfer_data_def Let_def bindM_Inr_iff dest!: fail_at_status
        split: option.splits if_splits sum.splits exc.splits)
  moreover have "flash_view s' = flash_view s"
    using fv.kept_data [of s s request session operation] assms by (simp add: kept_def)
  ultimately show ?thesis by simp
qed

lemma list_ex_range: "list_ex (\<lambda>index. a + int index \<in> S) [0 ..< n] \<longleftrightarrow> S \<inter> {a ..< a + int n} \<noteq> {}"
proof -
  have "x \<in> S \<Longrightarrow> a \<le> x \<Longrightarrow> x < a + int n \<Longrightarrow> \<exists>k < n. a + int k \<in> S" for x
    by (rule exI [of _ "nat (x - a)"]) auto
  then show ?thesis
    by (fastforce simp: list_ex_iff)
qed

lemma program_data_effect:
  assumes "frame_wf request"
  shows "program_accepted request ses s a d \<Longrightarrow>
      h_program_data request s = (Inr (reply_frame request ST_OK []), programmed_state ses a d s)"
    and "(\<nexists>ses a d. program_accepted request ses s a d) \<Longrightarrow> refused request s (h_program_data request s)"
proof -
  assume a: "program_accepted request ses s a d"
  then obtain i where i: "transfer_data request (Some ses) OP_PROGRAM s = (Inr (Inr (a, d, i)), s)"
    using transfer_data_accepted unfolding program_accepted_def by blast
  then show "h_program_data request s = (Inr (reply_frame request ST_OK []), programmed_state ses a d s)"
    using a assms by (auto simp: h_program_data_def program_accepted_def bindM_def Let_def list_ex_range
        respond_eq programmed_state_def split: option.split)
next
  assume n: "\<nexists>ses a d. program_accepted request ses s a d"
  show "refused request s (h_program_data request s)"
  proof (cases "transfer_data request (sim_program_session s) OP_PROGRAM s")
    case (Pair y s')
    consider e where "y = Inl e" | r where "y = Inr (Inl r)" | a d i where "y = Inr (Inr (a, d, i))"
      by (metis prod_cases3 sum.exhaust_sel)
    then show ?thesis
    proof cases
      case 1
      have "flash_view s' = flash_view s"
        using fv.kept_data [of s s request "sim_program_session s" OP_PROGRAM] Pair by (simp add: kept_def)
      then show ?thesis
        using 1 Pair by (simp add: h_program_data_def bindM_def refused_def)
    next
      case 2
      then show ?thesis
        using transfer_data_Inl [of request "sim_program_session s" OP_PROGRAM s r s'] Pair
        by (simp add: h_program_data_def bindM_def refused_def)
    next
      case 3
      then obtain ses where ses: "sim_program_session s = Some ses" "data_accepted request ses s a d"
        "s' = s" "\<not> flt_bad_block_index (sim_faults s)"
        using transfer_data_Inr [of request "sim_program_session s" OP_PROGRAM s a d i s'] Pair by auto
      then have "(\<exists>x. flt_program_fail_at_address (sim_faults s) = Some x \<and> x \<in> {a ..< a + int (length d)}) \<or>
          sim_programmed s \<inter> {a ..< a + int (length d)} \<noteq> {}"
        using n by (auto simp: program_accepted_def)
      then show ?thesis
        using 3 Pair ses by (auto simp: h_program_data_def bindM_def Let_def list_ex_range
            split: option.split intro!: refused_fail)
    qed
  qed
qed

section \<open>Begin and end of a transfer\<close>

definition begin_accepted :: "frame \<Rightarrow> sim \<Rightarrow> session \<Rightarrow> bool" where
  "begin_accepted request s ses \<longleftrightarrow>
     (let p = fr_payload request in
        length p = 9 \<and> p ! 0 = target_code TGT_FLASH_APP \<and> p ! 8 = 0 \<and> p ! 1 \<noteq> 0 \<and>
        join_u32 (p ! 2) (p ! 3) \<noteq> 0 \<and> addresses_allowed s (join_u32 (p ! 4) (p ! 5)) 1 \<and>
        ses = Session (p ! 1) (join_u32 (p ! 2) (p ! 3)) (join_u32 (p ! 4) (p ! 5)) [])"

lemma begin_transfer_accepted:
  "begin_accepted request s ses \<Longrightarrow> begin_transfer request operation s = (Inr (Inr ses), s)"
  by (auto simp: begin_accepted_def begin_transfer_def Let_def)

lemma program_begin_ok:
  assumes "frame_wf request" "sim_program_session s = None" "begin_accepted request s ses"
  shows "h_program_begin request s =
    (Inr (reply_frame request ST_OK []), s\<lparr>sim_program_session := Some ses\<rparr>)"
  using assms by (simp add: h_program_begin_def bindM_def begin_transfer_accepted respond_eq)

lemma verify_begin_ok:
  assumes "frame_wf request" "sim_verify_session s = None" "begin_accepted request s ses"
  shows "h_verify_begin request s =
    (Inr (reply_frame request ST_OK []), s\<lparr>sim_verify_session := Some ses\<rparr>)"
  using assms by (simp add: h_verify_begin_def bindM_def begin_transfer_accepted respond_eq)

definition end_accepted :: "frame \<Rightarrow> session \<Rightarrow> bool" where
  "end_accepted request ses \<longleftrightarrow>
     (let p = fr_payload request in
        length p = 6 \<and> join_u32 (p ! 0) (p ! 1) = ses_block_count ses \<and>
        ses_packet_count ses = ses_block_count ses \<and>
        join_u32 (p ! 2) (p ! 3) = ses_total_words ses \<and>
        ses_received_words ses = ses_total_words ses)"

lemma program_end_ok:
  assumes "frame_wf request" "sim_program_session s = Some ses" "end_accepted request ses"
  shows "h_program_end request s = (Inr (reply_frame request ST_OK []),
    s\<lparr>sim_program_session := None, sim_verify_succeeded := False\<rparr>)"
  using assms by (auto simp: h_program_end_def end_transfer_def end_accepted_def Let_def bindM_def
      respond_eq reply_frame_def)

lemma verify_end_ok:
  assumes "frame_wf request" "sim_verify_session s = Some ses" "end_accepted request ses"
  shows "h_verify_end request s = (Inr (reply_frame request ST_OK []),
    s\<lparr>sim_verify_session := None, sim_verify_succeeded := True\<rparr>)"
  using assms by (auto simp: h_verify_end_def end_transfer_def end_accepted_def Let_def bindM_def
      respond_eq reply_frame_def)

section \<open>Verify\<close>

lemma verify_mismatch_None_iff:
  "verify_mismatch s a d = None \<longleftrightarrow>
     (\<forall>i < length d. mem_get (sim_flash s) (a + int i) = d ! i \<and>
        flt_verify_fail_at_address (sim_faults s) \<noteq> Some (a + int i))"
proof (induction s a d rule: verify_mismatch.induct)
  case (2 s a e rest)
  then show ?case
    by (auto simp: less_Suc_eq_0_disj algebra_simps)
qed simp

definition verify_accepted :: "frame \<Rightarrow> session \<Rightarrow> sim \<Rightarrow> int \<Rightarrow> int list \<Rightarrow> bool" where
  "verify_accepted request ses s a d \<longleftrightarrow>
     sim_verify_session s = Some ses \<and> data_accepted request ses s a d \<and>
     \<not> flt_bad_block_index (sim_faults s) \<and> verify_mismatch s a d = None"

lemma verify_data_ok:
  assumes "frame_wf request" "verify_accepted request ses s a d"
  shows "h_verify_data request s = (Inr (reply_frame request ST_OK []),
    s\<lparr>sim_verify_session := Some (advance (int (length d)) ses)\<rparr>)"
proof -
  obtain i where "transfer_data request (Some ses) OP_VERIFY s = (Inr (Inr (a, d, i)), s)"
    using transfer_data_accepted assms(2) unfolding verify_accepted_def by blast
  then show ?thesis
    using assms by (simp add: h_verify_data_def verify_accepted_def bindM_def respond_eq)
qed

section \<open>Appending records\<close>

definition image_valid_accepted :: "frame \<Rightarrow> sim \<Rightarrow> nat \<Rightarrow> int list \<Rightarrow> bool" where
  "image_valid_accepted request s k rec \<longleftrightarrow>
     (let p = fr_payload request; entry_point = join_u32 (p ! 2) (p ! 3);
          app_end = join_u32 (p ! 13) (p ! 14) in
        length p = 16 \<and> p ! 0 = metadata_record_type_code REC_IMAGE_VALID \<and>
        p ! 1 = boot_slot_code SLOT_SLOT_A \<and> p ! 15 = 0 \<and> join_u32 (p ! 4) (p ! 5) \<noteq> 0 \<and>
        APP_FLASH_START \<le> entry_point \<and> entry_point < APP_FLASH_END_EXCLUSIVE \<and>
        entry_point mod 8 = 0 \<and> APP_FLASH_START < app_end \<and> app_end \<le> APP_FLASH_END_EXCLUSIVE \<and>
        sim_verify_succeeded s \<and> first_free_record (sim_flash s) = Some k \<and>
        build_image_valid_record p (next_record_sequence (sim_flash s)) (sim_device_info s) = Inr rec)"

lemma append_image_valid_ok:
  assumes "frame_wf request" "image_valid_accepted request s k rec"
  shows "h_metadata_append_record request s = (Inr (reply_frame request ST_OK []),
    (store_record k rec s)\<lparr>sim_verify_succeeded := False\<rparr>)"
  using assms
  by (auto simp: h_metadata_append_record_def append_image_valid_def image_valid_accepted_def
      Let_def respond_eq)

text \<open>What an append request does to the Flash and to the verification flag.\<close>

definition append_effect :: "sim \<Rightarrow> frame res \<times> sim \<Rightarrow> bool" where
  "append_effect s x \<longleftrightarrow>
     (flash_view (snd x) = flash_view s \<or>
      (\<exists>k kind rec. first_free_record (sim_flash s) = Some k \<and>
         record_built kind (next_record_sequence (sim_flash s)) rec \<and>
         sim_flash (snd x) = sim_flash s ++ cells (record_base k) rec \<and>
         sim_programmed (snd x) = sim_programmed s \<and>
         (\<forall>r. fst x = Inr r \<longrightarrow> fr_status r = 0) \<and>
         (kind = REC_IMAGE_VALID \<longrightarrow> sim_verify_succeeded s) \<and>
         (kind = REC_BOOT_ATTEMPT \<longrightarrow>
            (\<forall>img. image_record (sim_flash s) = Some img \<longrightarrow> boot_attempts (sim_flash s) img < 3))))"

lemma append_effect_kept: "flash_view (snd x) = flash_view s \<Longrightarrow> append_effect s x"
  by (simp add: append_effect_def)

lemma append_effect_fail: "append_effect s (fail_at request st operation stage a l v s)"
  by (rule append_effect_kept, rule fail_at_view)

lemma append_effect_respond: "append_effect s (respond request st p s)"
  by (rule append_effect_kept) (simp add: respond_def)

lemma append_effect_store:
  assumes "first_free_record (sim_flash s) = Some k"
    "record_built kind (next_record_sequence (sim_flash s)) rec"
    "kind = REC_IMAGE_VALID \<longrightarrow> sim_verify_succeeded s"
    "kind = REC_BOOT_ATTEMPT \<longrightarrow>
      (\<forall>img. image_record (sim_flash s) = Some img \<longrightarrow> boot_attempts (sim_flash s) img < 3)"
    "t = store_record k rec s \<or> t = (store_record k rec s)\<lparr>sim_verify_succeeded := False\<rparr>"
  shows "append_effect s (respond request ST_OK [] t)"
proof -
  have "snd (respond request ST_OK [] t) = t"
    by (simp add: respond_def)
  moreover have "fr_status r = 0" if "fst (respond request ST_OK [] t) = Inr r" for r
    using that respond_status [of request ST_OK "[]" t r t] by (simp add: respond_def)
  ultimately show ?thesis
    unfolding append_effect_def using assms
    by (intro disjI2 exI [of _ k] exI [of _ kind] exI [of _ rec]) (auto simp: store_record_def)
qed

lemma append_effect_if:
  "(c \<Longrightarrow> append_effect s x) \<Longrightarrow> (\<not> c \<Longrightarrow> append_effect s y) \<Longrightarrow> append_effect s (if c then x else y)"
  by simp

lemma append_effect_option:
  "(x = None \<Longrightarrow> append_effect s a) \<Longrightarrow> (\<And>y. x = Some y \<Longrightarrow> append_effect s (b y)) \<Longrightarrow>
     append_effect s (case x of None \<Rightarrow> a | Some y \<Rightarrow> b y)"
  by (cases x) simp_all

lemma append_effect_bindM:
  "r = Inr x \<Longrightarrow> append_effect s (f x s) \<Longrightarrow> append_effect s (bindM (liftM r) f s)"
  by simp

lemma metadata_append_effect:
  assumes "frame_wf request" "sim_wf s"
  shows "append_effect s (h_metadata_append_record request s)"
proof -
  have f: "metadata_ok (sim_flash s)" "words_wf (sim_flash s)" "device_info_wf (sim_device_info s)"
    using assms(2) by (simp_all add: sim_wf_def)
  note q = next_record_sequence_bounds(4) [OF f(1,2)]
  obtain sm where sm: "sim_summary s = Inr sm" "summary_wf sm" "summary_matches (sim_flash s) sm"
    using sim_summary_eq [OF f(2)] by blast
  obtain a c where rec:
    "build_boot_attempt_record sm (next_record_sequence (sim_flash s)) = Inr a"
    "record_built REC_BOOT_ATTEMPT (next_record_sequence (sim_flash s)) a"
    "build_app_confirmed_record sm (next_record_sequence (sim_flash s)) = Inr c"
    "record_built REC_APP_CONFIRMED (next_record_sequence (sim_flash s)) c"
    using build_boot_attempt_record_ok [OF sm(2) q] build_app_confirmed_record_ok [OF sm(2) q] by blast
  have boot: "append_effect s (append_boot_record request s)"
  proof -
    have "boot_attempts (sim_flash s) img < 3"
      if "image_record (sim_flash s) = Some img" "ms_boot_attempt_count sm < ms_boot_attempt_limit sm" for img
      using that sm(3) by (simp add: summary_matches_def)
    moreover have A: "append_effect s (respond request ST_OK [] (store_record k a s))"
      if "first_free_record (sim_flash s) = Some k"
        "\<forall>img. image_record (sim_flash s) = Some img \<longrightarrow> boot_attempts (sim_flash s) img < 3" for k
      using append_effect_store [OF that(1) rec(2)] that(2) by auto
    moreover have C: "append_effect s (respond request ST_OK [] (store_record k c s))"
      if "first_free_record (sim_flash s) = Some k" for k
      using append_effect_store [OF that rec(4)] by auto
    ultimately show ?thesis
      unfolding append_boot_record_def Let_def
      by (intro append_effect_if append_effect_fail append_effect_respond append_effect_bindM [OF sm(1)]
          append_effect_option)
        (auto simp: rec intro: A C)
  qed
  have img: "append_effect s (append_image_valid request s)" if l: "length (fr_payload request) = 16"
  proof -
    obtain b where b: "build_image_valid_record (fr_payload request) (next_record_sequence (sim_flash s))
        (sim_device_info s) = Inr b"
      "record_built REC_IMAGE_VALID (next_record_sequence (sim_flash s)) b"
      using build_image_valid_record_ok [OF _ l q f(3)] assms(1) by (auto simp: frame_wf_def)
    show ?thesis
      unfolding append_image_valid_def Let_def
      by (intro append_effect_if append_effect_fail append_effect_option append_effect_bindM [OF b(1)])
        (auto intro!: append_effect_store [OF _ b(2)])
  qed
  show ?thesis
    unfolding h_metadata_append_record_def Let_def using boot img
    by (intro append_effect_if append_effect_fail) auto
qed

end
