(* ===== verification/Sim_Safety.thy ===== *)
theory Sim_Safety
  imports Sim_Effects
begin

text \<open>
  Safety properties of the simulated device over its reachable states: what may change in the
  Flash, how many boot attempts a record chain can hold, and when the application is started or a
  service attached.
\<close>

section \<open>From a request to its handler\<close>

lemma transact_handler:
  assumes "transact request s = (Inr r, s')" "fr_status r = 0 \<or> flash_view s' \<noteq> flash_view s"
  obtains cmd where "fr_command request = command_code cmd" "handler cmd request s = (Inr r, s')"
    "\<not> (sim_require_service s \<and> cmd \<in> set service_commands \<and> sim_service_state s \<noteq> SVC_ATTACHED)"
proof -
  have no_fail: "(Inr r, s') \<noteq> fail request st operation stage s" if "st \<noteq> ST_OK" for st operation stage
  proof
    assume "(Inr r, s') = fail request st operation stage s"
    then show False
      using refused_fail [OF that refl, of request s operation stage 0 0 0] assms(2)
      by (simp add: refused_def flip: \<open>(Inr r, s') = fail request st operation stage s\<close>)
  qed
  show thesis
    using assms(1) no_fail that
    by (auto simp: transact_def dest!: Command_of_SomeD split: if_splits option.splits)
      (metis status.distinct)+
qed

lemma handler_keeps_flash:
  assumes "handler cmd request s = (r, s')"
    and "cmd \<notin> {CMD_ERASE, CMD_PROGRAM_DATA, CMD_METADATA_APPEND_RECORD}"
  shows "flash_view s' = flash_view s"
proof -
  have "kept flash_view s (handler cmd request s)"
    using assms(2) kept_flash_view_ram kept_flash_view_service kept_flash_view_sessions
      fv.kept_queries [OF refl]
    by (cases cmd) auto
  then show ?thesis
    using assms(1) by (simp add: kept_def)
qed

text \<open>
  C37.  The Flash discipline.  Whenever a request changes the word at an address, it succeeded and was
  one of three: an erase, which leaves the word erased; a program packet, and then the address lies
  in the application slot and the word was erased and not programmed since; or a metadata append,
  and then the address lies in the metadata area and the word was erased.  So no programmed word is
  ever overwritten and the sector of the boot loader is never programmed.
\<close>

theorem flash_discipline:
  assumes "sim_reachable s" "frame_wf request" "transact request s = (Inr r, s')"
    and "sim_flash s' x \<noteq> sim_flash s x"
  shows "fr_status r = 0 \<and>
    (fr_command request = command_code CMD_ERASE \<and> sim_flash s' x = None \<or>
     fr_command request = command_code CMD_PROGRAM_DATA \<and> APP_FLASH_START \<le> x \<and>
       x < APP_FLASH_END_EXCLUSIVE \<and> x \<notin> sim_programmed s \<and> sim_flash s x = None \<or>
     fr_command request = command_code CMD_METADATA_APPEND_RECORD \<and>
       SLOT_A_METADATA_START \<le> x \<and> x < SLOT_A_METADATA_END \<and> mem_get (sim_flash s) x = 0xFFFF)"
proof -
  have wf: "sim_wf s"
    using assms(1) by (rule sim_reachable_wf)
  have changed: "flash_view s' \<noteq> flash_view s"
    using assms(4) by (auto simp: flash_view_def)
  obtain cmd where cmd: "fr_command request = command_code cmd" "handler cmd request s = (Inr r, s')"
    using transact_handler [OF assms(3)] changed by blast
  consider "cmd = CMD_ERASE" | "cmd = CMD_PROGRAM_DATA" | "cmd = CMD_METADATA_APPEND_RECORD"
    using handler_keeps_flash [OF cmd(2)] changed by blast
  then show ?thesis
  proof cases
    case 1
    then obtain m where "erase_accepted request s m"
      using erase_effect(2) [OF assms(2), of s] changed cmd by (auto simp: refused_def)
    then have "r = reply_frame request ST_OK []" "s' = erased_state m s"
      using erase_effect(1) [OF assms(2)] 1 cmd by auto
    then show ?thesis
      using assms(4) 1 cmd(1)
      by (auto simp: reply_frame_def erased_state_def erase_flash_def Let_def split: if_splits)
  next
    case 2
    then obtain ses a d where acc: "program_accepted request ses s a d"
      using program_data_effect(2) [OF assms(2), of s] changed cmd by (auto simp: refused_def)
    then have r: "r = reply_frame request ST_OK []" "s' = programmed_state ses a d s"
      using program_data_effect(1) [OF assms(2)] 2 cmd by auto
    then have x: "a \<le> x" "x < a + int (length d)"
      using assms(4) by (auto simp: programmed_state_def map_add_def cells_def split: if_splits)
    have "addresses_allowed s a (int (length d))"
      using acc data_acceptedD(2) assms(2) by (auto simp: program_accepted_def)
    note a = addresses_allowedD(2,3) [OF this]
    have "x \<notin> sim_programmed s"
      using acc x by (auto simp: program_accepted_def)
    moreover from this have "sim_flash s x = None"
      using wf a x by (cases "sim_flash s x") (auto simp: sim_wf_def programmed_ok_def slot_defs)
    ultimately show ?thesis
      using r a x 2 cmd(1) by (simp add: reply_frame_def slot_defs)
  next
    case 3
    then have "append_effect s (Inr r, s')"
      using metadata_append_effect [OF assms(2) wf] cmd by simp
    then obtain k kind rec where k: "first_free_record (sim_flash s) = Some k"
      "record_built kind (next_record_sequence (sim_flash s)) rec"
      "sim_flash s' = sim_flash s ++ cells (record_base k) rec" "fr_status r = 0"
      using changed by (auto simp: append_effect_def)
    have l: "length rec = 64"
      using k(2) by (simp add: record_built_def)
    have k16: "k < 16" "metadata_erased (metadata_record (sim_flash s) k)"
      using first_free_SomeD [OF k(1)] by simp_all
    obtain w where w: "cells (record_base k) rec x = Some w"
      using assms(4) k(3) by (cases "cells (record_base k) rec x") (auto simp: map_add_def)
    then have x: "x = record_base k + int (nat (x - record_base k))" "nat (x - record_base k) < 64"
      using l by (auto simp: cells_Some_iff)
    have "mem_get (sim_flash s) (record_base k + int j) = 0xFFFF" if "j < 64" for j
      using k16(2) that
      by (auto simp: metadata_erased_def metadata_record_def METADATA_RECORD_WORDS_def list_all_iff)
    then have "mem_get (sim_flash s) x = 0xFFFF"
      using x by metis
    then show ?thesis
      using record_cells_area [OF w l k16(1)] 3 cmd(1) k(4) by (simp add: metadata_area_def)
  qed
qed

section \<open>Boot attempts\<close>

lemma records_store: "length rec = 64 \<Longrightarrow> records (f ++ cells (record_base k) rec) = (records f)[k := rec]"
  by (rule nth_equalityI) (auto simp: records_def metadata_record_store nth_list_update)

lemma records_cong:
  assumes "\<And>x. x \<in> metadata_area \<Longrightarrow> f x = g x"
  shows "records f = records g"
  unfolding records_def using metadata_record_cong [of f g, OF assms] by (auto simp del: upt_Suc)

lemma length_filter_update:
  "k < length xs \<Longrightarrow> \<not> P (xs ! k) \<Longrightarrow>
     length (filter P (xs[k := r])) = length (filter P xs) + (if P r then 1 else 0)"
proof (induction xs arbitrary: k)
  case (Cons x xs)
  then show ?case by (cases k) auto
qed simp

lemma filter_update:
  "k < length xs \<Longrightarrow> \<not> P (xs ! k) \<Longrightarrow> \<not> P r \<Longrightarrow> filter P (xs[k := r]) = filter P xs"
proof (induction xs arbitrary: k)
  case (Cons x xs)
  then show ?case by (cases k) auto
qed simp

lemma boot_attempts_alt:
  "boot_attempts f img = length (filter (\<lambda>r. record_valid r \<and> record_of REC_BOOT_ATTEMPT img r) (records f))"
  by (simp add: boot_attempts_def conj_commute)

lemma free_record_invalid:
  assumes "first_free_record f = Some k"
  shows "k < length (records f)" "\<not> record_valid (records f ! k)"
  using first_free_SomeD [OF assms] by (auto simp: records_def record_valid_def)

lemma boot_attempts_store:
  assumes "first_free_record f = Some k" "record_built kind q rec"
  shows "boot_attempts (f ++ cells (record_base k) rec) img =
    boot_attempts f img + (if record_of REC_BOOT_ATTEMPT img rec then 1 else 0)"
  using free_record_invalid [OF assms(1)] assms(2)
  by (simp add: boot_attempts_alt records_store length_filter_update record_built_def)

lemma image_record_store_other:
  assumes "first_free_record f = Some k" "record_built kind q rec" "kind \<noteq> REC_IMAGE_VALID"
  shows "image_record (f ++ cells (record_base k) rec) = image_record f"
proof -
  have "rec ! 4 \<noteq> metadata_record_type_code REC_IMAGE_VALID"
    using assms(2,3) by (cases kind) (auto simp: record_built_def)
  then show ?thesis
    using free_record_invalid [OF assms(1)] assms(2)
    by (simp add: image_record_def image_records_def records_store filter_update record_built_def)
qed

lemma record_sequence_lt_next:
  assumes "metadata_ok f" "words_wf f" "r \<in> set (records f)" "record_valid r"
  shows "record_sequence r < next_record_sequence f"
proof -
  obtain i where "i < 16" "r = metadata_record f i"
    using assms(3) by (auto simp: records_def)
  then show ?thesis
    using assms(4) next_record_sequence_bounds(3) [OF assms(1,2), of i]
    by (simp add: used_records_def record_valid_def)
qed

lemma image_record_store_image:
  assumes "metadata_ok f" "words_wf f" "first_free_record f = Some k"
    and "record_built REC_IMAGE_VALID (next_record_sequence f) rec"
  shows "image_record (f ++ cells (record_base k) rec) = Some rec"
    "boot_attempts (f ++ cells (record_base k) rec) rec = 0"
    "\<not> app_confirmed (f ++ cells (record_base k) rec) rec"
proof -
  let ?f = "f ++ cells (record_base k) rec"
  note free = free_record_invalid [OF assms(3)]
  have l: "length rec = 64" and rec: "record_valid rec" "record_sequence rec = next_record_sequence f"
    "rec ! 4 = metadata_record_type_code REC_IMAGE_VALID"
    using assms(4) by (simp_all add: record_built_def)
  have lt: "record_sequence r < record_sequence rec" if "r \<in> set (records ?f)" "record_valid r" "r \<noteq> rec" for r
  proof -
    have "r \<in> insert rec (set (records f))"
      using that(1) set_update_subset_insert [of "records f" k rec] by (auto simp: records_store l)
    then show ?thesis
      using record_sequence_lt_next [OF assms(1,2) _ that(2)] that(3) rec(2) by simp
  qed
  have mem: "rec \<in> set (image_records (records ?f))"
    using rec free(1) by (simp add: image_records_def records_store l set_update_memI)
  then obtain m where m: "image_record ?f = Some m"
    by (cases "image_record ?f") (auto simp: image_record_def latest_of_None_iff)
  show "image_record ?f = Some rec"
  proof (cases "m = rec")
    case False
    then have "record_sequence m < record_sequence rec"
      using lt [of m] image_recordD [OF m] by simp
    then show ?thesis
      using image_recordD(4) [OF m mem] by simp
  qed (use m in simp)
  have none: "\<not> record_of kind rec r" if "r \<in> set (records ?f)" "record_valid r" for r kind
    using lt [OF that] by (cases "r = rec") (auto simp: record_of_def)
  then show "boot_attempts ?f rec = 0" "\<not> app_confirmed ?f rec"
    by (auto simp: boot_attempts_alt filter_empty_conv app_confirmed_def list_ex_iff)
qed

definition attempts_bounded :: "(int \<rightharpoonup> int) \<Rightarrow> bool" where
  "attempts_bounded f \<longleftrightarrow> (\<forall>img. image_record f = Some img \<longrightarrow> boot_attempts f img \<le> 3)"

lemma attempts_bounded_cong:
  "(\<And>x. x \<in> metadata_area \<Longrightarrow> f x = g x) \<Longrightarrow> attempts_bounded f = attempts_bounded g"
  using records_cong [of f g] by (simp add: attempts_bounded_def image_record_def boot_attempts_def)

lemma attempts_bounded_erased:
  assumes "\<And>x. x \<in> metadata_area \<Longrightarrow> f x = None"
  shows "attempts_bounded f"
proof -
  have "\<not> record_valid r" if "r \<in> set (records f)" for r
    using that metadata_record_empty [OF assms] by (auto simp: records_def record_valid_def)
  then have "image_records (records f) = []"
    by (auto simp: image_records_def filter_empty_conv)
  then show ?thesis
    by (simp add: attempts_bounded_def image_record_def latest_of_def)
qed

lemma attempts_bounded_append:
  assumes "append_effect s x" "sim_wf s" "attempts_bounded (sim_flash s)"
  shows "attempts_bounded (sim_flash (snd x))"
proof (cases "flash_view (snd x) = flash_view s")
  case True
  then show ?thesis
    using assms(3) by (simp add: flash_view_def)
next
  case False
  have f: "metadata_ok (sim_flash s)" "words_wf (sim_flash s)"
    using assms(2) by (simp_all add: sim_wf_def)
  obtain k kind rec where k: "first_free_record (sim_flash s) = Some k"
    "record_built kind (next_record_sequence (sim_flash s)) rec"
    "sim_flash (snd x) = sim_flash s ++ cells (record_base k) rec"
    "kind = REC_BOOT_ATTEMPT \<longrightarrow>
       (\<forall>img. image_record (sim_flash s) = Some img \<longrightarrow> boot_attempts (sim_flash s) img < 3)"
    using assms(1) False by (auto simp: append_effect_def)
  show ?thesis
  proof (cases "kind = REC_IMAGE_VALID")
    case True
    then show ?thesis
      using image_record_store_image [OF f k(1)] k(2,3) by (simp add: attempts_bounded_def)
  next
    case False
    have "rec ! 4 \<noteq> metadata_record_type_code REC_BOOT_ATTEMPT" if "kind \<noteq> REC_BOOT_ATTEMPT"
      using that k(2) by (cases kind) (auto simp: record_built_def)
    then have "\<not> record_of REC_BOOT_ATTEMPT img rec" if "kind \<noteq> REC_BOOT_ATTEMPT" for img
      using that by (simp add: record_of_def)
    then show ?thesis
      using assms(3) k(4) image_record_store_other [OF k(1,2) False] boot_attempts_store [OF k(1,2)]
      by (cases "kind = REC_BOOT_ATTEMPT") (force simp: attempts_bounded_def k(3))+
  qed
qed

lemma attempts_bounded_transact:
  assumes "sim_wf s" "frame_wf request" "transact request s = (Inr r, s')" "attempts_bounded (sim_flash s)"
  shows "attempts_bounded (sim_flash s')"
proof (cases "flash_view s' = flash_view s")
  case True
  then show ?thesis
    using assms(4) by (simp add: flash_view_def)
next
  case False
  then obtain cmd where cmd: "handler cmd request s = (Inr r, s')"
    using transact_handler [OF assms(3)] by blast
  consider "cmd = CMD_ERASE" | "cmd = CMD_PROGRAM_DATA" | "cmd = CMD_METADATA_APPEND_RECORD"
    using handler_keeps_flash [OF cmd] False by blast
  then show ?thesis
  proof cases
    case 1
    then obtain m where "erase_accepted request s m"
      using erase_effect(2) [OF assms(2), of s] False cmd by (auto simp: refused_def)
    then have s': "s' = erased_state m s"
      using erase_effect(1) [OF assms(2)] 1 cmd by auto
    let ?sel = "selected_sectors m (sim_sectors s)"
    have ok: "list_all sector_ok ?sel"
      using assms(1) selected_sectors_subset [of m "sim_sectors s"] by (auto simp: sim_wf_def list_all_iff)
    have fl: "sim_flash s' = erase_flash ?sel (sim_flash s)"
      by (simp add: s' erased_state_def Let_def)
    show ?thesis
    proof (cases "\<exists>sec \<in> set ?sel. \<forall>x \<in> metadata_area. fs_contains sec x")
      case True
      then show ?thesis
        unfolding fl by (intro attempts_bounded_erased) (auto simp: erase_flash_def list_ex_iff)
    next
      case False
      then have "erase_flash ?sel (sim_flash s) x = sim_flash s x" if "x \<in> metadata_area" for x
        using that ok by (auto simp: erase_flash_def list_ex_iff list_all_iff sector_ok_def)
      then show ?thesis
        unfolding fl using attempts_bounded_cong assms(4) by blast
    qed
  next
    case 2
    then obtain ses a d where acc: "program_accepted request ses s a d"
      using program_data_effect(2) [OF assms(2), of s] False cmd by (auto simp: refused_def)
    then have s': "s' = programmed_state ses a d s"
      using program_data_effect(1) [OF assms(2)] 2 cmd by auto
    have "addresses_allowed s a (int (length d))"
      using acc data_acceptedD(2) assms(2) by (auto simp: program_accepted_def)
    then have "sim_flash s' x = sim_flash s x" if "x \<in> metadata_area" for x
      using addresses_allowedD(6) that
      by (fastforce simp: s' programmed_state_def map_add_def cells_def)
    then show ?thesis
      using attempts_bounded_cong assms(4) by blast
  next
    case 3
    then show ?thesis
      using attempts_bounded_append [OF metadata_append_effect [OF assms(2,1)] assms(1,4)] cmd by simp
  qed
qed

lemma attempts_bounded_reachable: "sim_reachable s \<Longrightarrow> attempts_bounded (sim_flash s)"
proof (induction rule: sim_reachable.induct)
  case (construct info faults require s)
  then have "sim_flash s = Map.empty"
    by (auto simp: SimulatorCore_def Let_def split: if_splits)
  then show ?case
    by (intro attempts_bounded_erased) simp
next
  case (request s request r s')
  then obtain r' where "transact request s = (Inr r', s')"
    using good_transact [OF _ sim_reachable_wf, of request s] by (auto simp: good_def)
  then show ?case
    using attempts_bounded_transact sim_reachable_wf request by blast
qed

text \<open>
  C40.  At most three boot attempts: in every reachable state, the metadata area holds at most three
  boot-attempt records for its current image, so the limit the summary reports is never exceeded.
\<close>

theorem boot_attempts_bounded:
  assumes "sim_reachable s" "image_record (sim_flash s) = Some img"
  shows "boot_attempts (sim_flash s) img \<le> 3"
  using attempts_bounded_reachable [OF assms(1)] assms(2) by (simp add: attempts_bounded_def)

end
