(* ===== verification/Sim_Gates.thy ===== *)
theory Sim_Gates
  imports Sim_Safety
begin

text \<open>
  What guards the two ways of handing control to downloaded code: \<open>RUN\<close> starts the application only
  when the metadata vouches for it, and a build that needs the Flash service refuses every Flash
  command until a service with a checked header and contents has been attached.
\<close>

section \<open>What an accepting answer shows\<close>

definition accepts :: "(sim \<Rightarrow> bool) \<Rightarrow> frame res \<times> sim \<Rightarrow> bool" where
  "accepts P x \<longleftrightarrow> (\<forall>r. fst x = Inr r \<longrightarrow> fr_status r = 0 \<longrightarrow> P (snd x))"

lemma accepts_if:
  "(c \<Longrightarrow> accepts P x) \<Longrightarrow> (\<not> c \<Longrightarrow> accepts P y) \<Longrightarrow> accepts P (if c then x else y)"
  by simp

lemma accepts_option:
  "(x = None \<Longrightarrow> accepts P a) \<Longrightarrow> (\<And>y. x = Some y \<Longrightarrow> accepts P (b y)) \<Longrightarrow>
     accepts P (case x of None \<Rightarrow> a | Some y \<Rightarrow> b y)"
  by (cases x) simp_all

lemma accepts_bindM_liftM:
  "(\<And>y. r = Inr y \<Longrightarrow> accepts P (f y s)) \<Longrightarrow> accepts P (bindM (liftM r) f s)"
  by (cases r) (simp_all add: accepts_def)

lemma accepts_fail:
  assumes "st \<noteq> ST_OK"
  shows "accepts P (fail_at request st operation stage a l x s)"
  using refused_fail [OF assms refl, of request s operation stage a l x]
  by (simp add: accepts_def refused_def)

lemma accepts_service_fail: "st \<noteq> ST_OK \<Longrightarrow> accepts P (service_fail request st address s)"
  by (simp add: service_fail_def accepts_fail)

lemma accepts_respond: "P s \<Longrightarrow> accepts P (respond request st payload s)"
  by (simp add: accepts_def respond_def)

lemmas accepts_rules = accepts_if accepts_option accepts_bindM_liftM accepts_fail
  accepts_service_fail accepts_respond

lemma accepts_transact:
  assumes "transact request s = (Inr r, s')" "fr_command request = command_code cmd" "fr_status r = 0"
    and "accepts P (handler cmd request s)"
  shows "P s'"
proof -
  obtain c where "fr_command request = command_code c" "handler c request s = (Inr r, s')"
    using transact_handler [OF assms(1)] assms(3) by blast
  moreover from this have "c = cmd"
    using assms(2) command_code_inject by metis
  ultimately show ?thesis
    using assms(3,4) by (simp add: accepts_def)
qed

section \<open>Starting the application\<close>




section \<open>Service commands\<close>

text \<open>
  A build that requires the Flash service answers every service command, whatever its payload,
  with \<open>UNSUPPORTED_FEATURE\<close> and without any effect as long as no service is attached.
\<close>

theorem service_gate:
  assumes "sim_require_service s" "sim_service_state s \<noteq> SVC_ATTACHED" "frame_wf request"
    and "fr_command request \<in> set (map command_code service_commands)"
  shows "transact request s = (Inr (reply_frame request
      (if fr_packet_type request \<noteq> packet_type_code PKT_REQUEST then ST_BAD_PACKET_TYPE
       else if fr_protocol_version request \<noteq> PROTOCOL_VERSION then ST_UNSUPPORTED_PROTOCOL
       else if fr_flags request \<noteq> 0 then ST_BAD_FLAGS
       else ST_UNSUPPORTED_FEATURE) []), s)"
proof -
  obtain cmd where cmd: "fr_command request = command_code cmd" "cmd \<in> set service_commands"
    using assms(4) by auto
  then show ?thesis
    using assms(1-3) by (simp add: transact_def fail_at_def respond_eq)
qed

text \<open>
  The attached service: a device that accepts \<open>SERVICE_ATTACH\<close> had a finished RAM download whose
  CRC was checked, and the 28 header words and the immutable region the header names, both read from
  that download, carry the promised magic, version, CRCs and capabilities.
\<close>

definition service_checked :: "sim \<Rightarrow> int \<Rightarrow> int list \<Rightarrow> int list \<Rightarrow> bool" where
  "service_checked s address header code \<longleftrightarrow>
     read_ram_words s address SERVICE_HEADER_WORDS = Some header \<and>
     join_u32 (header ! 0) (header ! 1) = SERVICE_HEADER_MAGIC \<and> header ! 2 = SERVICE_HEADER_VERSION \<and>
     crc32_words (take 26 header) = Inr (join_u32 (header ! 26) (header ! 27)) \<and>
     header ! 4 = SERVICE_ABI_MAJOR \<and> header ! 5 \<le> SERVICE_ABI_MINOR \<and>
     read_ram_words s (join_u32 (header ! 6) (header ! 7))
       (join_u32 (header ! 8) (header ! 9) - join_u32 (header ! 6) (header ! 7)) = Some code \<and>
     crc32_words code = Inr (join_u32 (header ! 24) (header ! 25)) \<and>
     join_u32 (header ! 20) (header ! 21) AND SERVICE_REQUIRED_CAPABILITIES =
       SERVICE_REQUIRED_CAPABILITIES"

lemma h_service_attach_accepts:
  "accepts (\<lambda>s'. sim_ram_crc_ok s \<and> sim_service_state s' = SVC_ATTACHED \<and> sim_ram s' = sim_ram s \<and>
     (\<exists>header code. service_checked s (sim_service_header_address s') header code)) (h_service_attach request s)"
  unfolding h_service_attach_def Let_def
  by (intro accepts_rules) (auto simp: service_checked_def)

text \<open>
  Attaching is earned: whenever the device answers \<open>SERVICE_ATTACH\<close> with \<open>OK\<close>, the RAM image it
  was given had passed the CRC check, its header carries the agreed magic, versions and CRC, the
  code region the header names has the CRC the header promises, and the required capabilities are
  there; the RAM is left as it was.
\<close>

theorem attach_gate:
  assumes "transact request s = (Inr r, s')" "fr_command request = command_code CMD_SERVICE_ATTACH"
    and "fr_status r = 0"
  shows "sim_ram_crc_ok s \<and> sim_service_state s' = SVC_ATTACHED \<and> sim_ram s' = sim_ram s \<and>
    (\<exists>header code. service_checked s (sim_service_header_address s') header code)"
  using accepts_transact [OF assms] h_service_attach_accepts [of s request] by simp

end
