(* ===== verification/Client_Spec.thy ===== *)
theory Client_Spec
  imports Client
begin

text \<open>
  The client against a device that answers: the locale \<open>request_device\<close> names what the client
  relies on (a written request frame is served once, and its response can be read before the
  deadline), and the client is shown to be a remote procedure call on the server behind the wire:
  the frame codec, the stream reader, the sequence numbers and the chunking disappear.
\<close>

section \<open>The call behind the wire\<close>

text \<open>The frame the client sends for a command, given the sequence number it used last.\<close>

definition client_request :: "int \<Rightarrow> int \<Rightarrow> int list \<Rightarrow> frame" where
  "client_request q cmd payload =
     \<lparr>fr_packet_type = packet_type_code PKT_REQUEST, fr_command = cmd, fr_sequence = succ_sequence q,
      fr_payload = payload, fr_flags = 0, fr_status = 0, fr_protocol_version = PROTOCOL_VERSION\<rparr>"

lemma client_request_wf:
  "u16 q \<Longrightarrow> u16 cmd \<Longrightarrow> words16 payload \<Longrightarrow> int (length payload) \<le> 0xFFFF \<Longrightarrow>
     frame_wf (client_request q cmd payload)"
  using succ_sequence_range [of q]
  by (simp add: client_request_def frame_wf_def PROTOCOL_VERSION_def u16_def [of 1] u16_def [of 0])

lemma request_of_Inr:
  "u16 q \<Longrightarrow> u16 cmd \<Longrightarrow> words16 payload \<Longrightarrow> int (length payload) \<le> 0xFFFF \<Longrightarrow>
     request_of cmd payload (succ_sequence q) = Inr (client_request q cmd payload)"
  using client_request_wf [of q cmd payload]
  by (simp add: request_of_def Frame_Inr_iff client_request_def)

text \<open>What the client makes of a response that echoes the request.\<close>

definition reply_result :: "frame \<Rightarrow> int list res" where
  "reply_result r =
     (if fr_status r = status_code ST_OK then Inr (fr_payload r)
      else Inl (ProtocolStatusError (fr_command r) (fr_status r)))"

definition echoes :: "frame \<Rightarrow> frame \<Rightarrow> bool" where
  "echoes q r \<longleftrightarrow>
     fr_sequence r = fr_sequence q \<and> fr_command r = fr_command q \<and>
     fr_packet_type r = packet_type_code
       (if fr_status r = status_code ST_OK then PKT_RESPONSE else PKT_ERROR_RESPONSE)"

lemma response_payload_echo:
  assumes "frame_wf q" "echoes q r"
  shows "response_payload q r = reply_result r"
  using assms by (auto simp: response_payload_def echoes_def frame_wf_def u_simps
      validate_response_sequence_def reply_result_def)

section \<open>The device interface\<close>

text \<open>The largest response the client accepts: what the device announced, once it is known.\<close>

definition client_limit :: "'d client \<Rightarrow> int" where
  "client_limit c = (case cl_device_info c of Some info \<Rightarrow> di_max_payload_words info | None \<Rightarrow> 0xFFFF)"

locale request_device =
  fixes dev :: "'d pc_io_device"
    and ready :: "'d \<Rightarrow> bool"
    and server :: "'d \<Rightarrow> 's"
    and serve :: "frame \<Rightarrow> 's \<Rightarrow> frame \<times> 's"
    and accepts_words :: "'s \<Rightarrow> int"
  assumes exchange: "ready d \<Longrightarrow> frame_wf q \<Longrightarrow> int (length (fr_payload q)) \<le> accepts_words (server d) \<Longrightarrow> 0 < t \<Longrightarrow>
      \<exists>n d1 d2. io_write_bytes dev (le_bytes (frame_words q)) d = (Inr n, d1) \<and>
        delivers (io_read_available dev) (io_polls dev t) d1
          (le_bytes (frame_words (fst (serve q (server d))))) d2 \<and>
        ready d2 \<and> server d2 = snd (serve q (server d))"
    and answer_wf: "ready d \<Longrightarrow> frame_wf q \<Longrightarrow> frame_wf (fst (serve q (server d))) \<and> echoes q (fst (serve q (server d)))"
    and clear_input: "ready d \<Longrightarrow> \<exists>d'. io_clear_input dev d = (Inr (), d') \<and> ready d' \<and> server d' = server d"
begin

definition client_ready :: "'d client \<Rightarrow> bool" where
  "client_ready c \<longleftrightarrow> ready (cl_device c) \<and> u16 (cl_sequence c) \<and> 0 < cl_default_timeout_ms c"

text \<open>The client's state after a call that ended with the device in state \<open>d\<close>, up to its trace.\<close>

definition called :: "'d client \<Rightarrow> 'd client \<Rightarrow> bool" where
  "called c c' \<longleftrightarrow>
     client_ready c' \<and> cl_device_info c' = cl_device_info c \<and>
     cl_sequence c' = succ_sequence (cl_sequence c) \<and>
     cl_default_timeout_ms c' = cl_default_timeout_ms c"

lemma await_response_ok:
  assumes "0 < t" "frame_wf r" "int (length (fr_payload r)) \<le> client_limit c"
    and "delivers (io_read_available dev) (io_polls dev t) (cl_device c) (le_bytes (frame_words r)) d2"
  shows "\<exists>log. await_response dev cmd t c = (Inr r, c\<lparr>cl_device := d2, cl_trace_bytes := log\<rparr>)"
  using assms response_loop_frame [OF assms(2,3,4)]
  by (intro exI [of _ "map_option (\<lambda>log. log @ [(Trace_RX cmd, le_bytes (frame_words r))]) (cl_trace_bytes c)"])
    (simp add: await_response_def bindM_def read_response_frame_def on_device_def client_limit_def
      thenM_def trace_def)

lemma client_call:
  assumes "client_ready c" "u16 cmd" "words16 payload"
    and "int (length payload) \<le> accepts_words (server (cl_device c))" "int (length payload) \<le> 0xFFFF"
    and "case timeout of None \<Rightarrow> True | Some t \<Rightarrow> 0 < t"
    and "serve (client_request (cl_sequence c) cmd payload) (server (cl_device c)) = (r, s')"
    and "int (length (fr_payload r)) \<le> client_limit c"
  shows "\<exists>c'. client_transact dev cmd payload timeout c = (reply_result r, c') \<and> called c c' \<and>
    server (cl_device c') = s'"
proof -
  let ?q = "client_request (cl_sequence c) cmd payload"
  let ?t = "case timeout of None \<Rightarrow> cl_default_timeout_ms c | Some t \<Rightarrow> t"
  have t: "0 < ?t"
    using assms(1,6) by (cases timeout) (simp_all add: client_ready_def)
  have c: "ready (cl_device c)" "u16 (cl_sequence c)"
    using assms(1) by (simp_all add: client_ready_def)
  note q = client_request_wf [OF c(2) assms(2,3,5)] request_of_Inr [OF c(2) assms(2,3,5)]
  obtain d0 where d0: "(if cl_clear_input_before_request c then on_device (io_clear_input dev) else returnM ()) c =
      (Inr (), c\<lparr>cl_device := d0\<rparr>)" "ready d0" "server d0 = server (cl_device c)"
    using clear_input [OF c(1)] c(1) that [of "cl_device c"]
    by (cases "cl_clear_input_before_request c") (auto simp: on_device_def)
  have len: "int (length (fr_payload ?q)) \<le> accepts_words (server d0)"
    using assms(4) d0(3) by (simp add: client_request_def)
  obtain n d1 d2 where ex: "io_write_bytes dev (le_bytes (frame_words ?q)) d0 = (Inr n, d1)"
    "delivers (io_read_available dev) (io_polls dev ?t) d1 (le_bytes (frame_words r)) d2"
    "ready d2" "server d2 = s'"
    using exchange [OF d0(2) q(1) len t] assms(7) d0(3) by auto
  have r: "frame_wf r" "echoes ?q r"
    using answer_wf [OF c(1) q(1)] assms(7) by simp_all
  let ?c1 = "c\<lparr>cl_sequence := succ_sequence (cl_sequence c),
    cl_trace_bytes := map_option (\<lambda>log. log @ [(Trace_TX cmd (succ_sequence (cl_sequence c)), le_bytes (frame_words ?q))])
      (cl_trace_bytes c), cl_device := d1\<rparr>"
  obtain log where a: "await_response dev cmd ?t ?c1 = (Inr r, ?c1\<lparr>cl_device := d2, cl_trace_bytes := log\<rparr>)"
    using await_response_ok [OF t r(1), of ?c1 d2 cmd] assms(8) ex(2) by (auto simp: client_limit_def)
  have "client_transact dev cmd payload timeout c =
      (response_payload ?q r, ?c1\<lparr>cl_device := d2, cl_trace_bytes := log\<rparr>)"
    using d0(1) q a ex(1) c(2)
    by (cases timeout) (simp_all add: client_transact_def bindM_def thenM_def bump_sequence_def
        next_sequence_Inr encode_bytes_Inr trace_def on_device_def)
  moreover have "called c (?c1\<lparr>cl_device := d2, cl_trace_bytes := log\<rparr>)"
    using assms(1) ex(3) succ_sequence_range [OF c(2)] by (simp add: called_def client_ready_def)
  ultimately show ?thesis
    using response_payload_echo [OF q(1) r(2)] ex(4)
    by (intro exI [of _ "?c1\<lparr>cl_device := d2, cl_trace_bytes := log\<rparr>"]) simp
qed

end

end
