(* ===== verification/Sim_Device.thy ===== *)
theory Sim_Device
  imports Resync Sim_Gates Client_Spec
begin

text \<open>
  The adapter \<open>SimulatorIoDevice\<close> (\<open>io/simulator_device.py\<close>) between the device boundary and the
  simulator: words written to it pass the resynchronising reader, each completed frame is answered
  by the simulator, and the encoded answers wait to be read.  It provides the interface the client
  relies on, as long as no communication fault is switched on.
\<close>

section \<open>State and methods\<close>

record sim_device =
  sd_core :: sim
  sd_open :: bool
  sd_reader :: resync
  sd_response_words :: "int list"
  sd_pending_high_byte :: "int option"

definition new_reader :: "sim \<Rightarrow> resync res" where
  "new_reader core = ResyncReader (di_max_payload_words (sim_device_info core))"

definition SimulatorIoDevice :: "sim \<Rightarrow> sim_device res" where
  "SimulatorIoDevice core =
     bindE (new_reader core) (\<lambda>reader. Inr
       \<lparr>sd_core = core, sd_open = False, sd_reader = reader, sd_response_words = [],
        sd_pending_high_byte = None\<rparr>)"

definition forget_input :: "sim_device \<Rightarrow> sim_device" where
  "forget_input d = d\<lparr>sd_response_words := [], sd_pending_high_byte := None\<rparr>"

definition sd_do_open :: "(sim_device, unit) sm" where
  "sd_do_open d =
     (if \<not> sd_open d then
        bindM (getM (\<lambda>d. new_reader (sd_core d))) (\<lambda>r. bindM (liftM r) (\<lambda>reader.
          modM (\<lambda>d. (forget_input (d\<lparr>sd_reader := reader\<rparr>))\<lparr>sd_open := True\<rparr>))) d
      else (Inr (), d\<lparr>sd_open := True\<rparr>))"

definition require_open :: "(sim_device, unit) sm" where
  "require_open d =
     (if \<not> sd_open d then (Inl (IoDeviceNotOpenError ''simulator device is not open''), d) else (Inr (), d))"

definition sd_wait_slave :: "int option \<Rightarrow> (sim_device, unit) sm" where
  "sd_wait_slave timeout_ms =
     thenM require_open
       (liftM (case timeout_ms of None \<Rightarrow> Inr () | Some t \<Rightarrow> validate_timeout t))"

text \<open>
  Nothing else fills the queue while \<open>read_word\<close> waits: on an empty queue it ends at its deadline.
\<close>

definition sd_read_word :: "int \<Rightarrow> (sim_device, int) sm" where
  "sd_read_word timeout_ms =
     thenM require_open (thenM (liftM (validate_timeout timeout_ms)) (\<lambda>d.
       case sd_response_words d of
         [] \<Rightarrow> (Inl (IoTimeoutError ''simulator response timed out''), d)
       | w # rest \<Rightarrow> (Inr w, d\<lparr>sd_response_words := rest\<rparr>)))"

definition sd_clear_input :: "(sim_device, unit) sm" where
  "sd_clear_input = thenM require_open (modM forget_input)"

definition sd_read_byte :: "int \<Rightarrow> (sim_device, int) sm" where
  "sd_read_byte timeout_ms d =
     (case sd_pending_high_byte d of
        Some b \<Rightarrow> (Inr b, d\<lparr>sd_pending_high_byte := None\<rparr>)
      | None \<Rightarrow>
          bindM (sd_read_word timeout_ms) (\<lambda>word.
          thenM (modM (\<lambda>d. d\<lparr>sd_pending_high_byte := Some (drop_bit 8 word)\<rparr>))
            (returnM (word AND 0xFF))) d)"

definition sd_read_available :: "(sim_device, int list) sm" where
  "sd_read_available = thenM require_open (\<lambda>d.
     (Inr ((case sd_pending_high_byte d of Some b \<Rightarrow> [b] | None \<Rightarrow> []) @
           concat (map (\<lambda>word. [word AND 0xFF, drop_bit 8 word]) (sd_response_words d))),
      forget_input d))"

definition sd_input_bytes_pending :: "sim_device \<Rightarrow> int" where
  "sd_input_bytes_pending d =
     int (length (sd_response_words d)) * 2 + (if sd_pending_high_byte d = None then 0 else 1)"

text \<open>The body of the loop over the frames that a written word completes.\<close>

definition faulty_response :: "sim_faults \<Rightarrow> frame \<Rightarrow> int list res" where
  "faulty_response faults response =
     bindE
       (if flt_sequence_mismatch faults then
          bindE (next_sequence (fr_sequence response)) (\<lambda>q.
            Frame (fr_packet_type response) (fr_command response) q (fr_payload response)
              (fr_flags response) (fr_status response) (fr_protocol_version response))
        else Inr response) (\<lambda>response.
     bindE (encode_words response) (\<lambda>encoded. Inr
       (if flt_bad_payload_crc faults then butlast encoded @ [last encoded XOR 1] else encoded)))"

definition serve_frame :: "frame \<Rightarrow> (sim_device, unit) sm" where
  "serve_frame request d =
     (case transact request (sd_core d) of
        (Inl e, core) \<Rightarrow> (Inl e, d\<lparr>sd_core := core\<rparr>)
      | (Inr response, core) \<Rightarrow>
          let d = d\<lparr>sd_core := core\<rparr> in
          if flt_no_response (sim_faults core) then (Inr (), d)
          else (case faulty_response (sim_faults core) response of
              Inl e \<Rightarrow> (Inl e, d)
            | Inr encoded \<Rightarrow> (Inr (), d\<lparr>sd_response_words := sd_response_words d @ encoded\<rparr>)))"

definition sd_feed :: "int \<Rightarrow> (sim_device, frame list) sm" where
  "sd_feed word d =
     (case feed [word] (sd_reader d) of (r, reader) \<Rightarrow> (r, d\<lparr>sd_reader := reader\<rparr>))"

definition sd_write_word :: "int \<Rightarrow> (sim_device, unit) sm" where
  "sd_write_word word =
     thenM require_open
     (bindM (liftM (validate_word word)) (\<lambda>word.
      bindM (sd_feed word) (\<lambda>frames. forM frames serve_frame)))"

definition sd_close :: "(sim_device, unit) sm" where
  "sd_close = modM (\<lambda>d. (forget_input d)\<lparr>sd_open := False\<rparr>)"

definition simulator_io :: "(int \<Rightarrow> nat) \<Rightarrow> sim_device pc_io_device" where
  "simulator_io polls =
     \<lparr>io_open = sd_do_open, io_wait_slave = sd_wait_slave, io_clear_input = sd_clear_input,
      io_write_bytes = write_bytes sd_write_word, io_read_available = sd_read_available,
      io_input_bytes_pending = (\<lambda>d. Some (sd_input_bytes_pending d)), io_close = sd_close,
      io_polls = polls\<rparr>"

section \<open>Writing a request\<close>

lemma forM_append: "forM (xs @ ys) f = thenM (forM xs f) (forM ys f)"
  by (induction xs) (auto simp: fun_eq_iff thenM_def bindM_def split: prod.split sum.split)

lemma serve_frame_reader:
  "serve_frame q (d\<lparr>sd_reader := r\<rparr>) = map_prod id (\<lambda>d. d\<lparr>sd_reader := r\<rparr>) (serve_frame q d)"
  by (auto simp: serve_frame_def Let_def split: prod.splits sum.splits)

lemma serve_frames_reader:
  "forM qs serve_frame (d\<lparr>sd_reader := r\<rparr>) = map_prod id (\<lambda>d. d\<lparr>sd_reader := r\<rparr>) (forM qs serve_frame d)"
  by (induction qs arbitrary: d)
    (auto simp: thenM_def bindM_def serve_frame_reader split: prod.split sum.split)

lemma serve_frames_open: "forM qs serve_frame d = (x, d') \<Longrightarrow> sd_open d' = sd_open d"
  by (induction qs arbitrary: d)
    (auto simp: thenM_def bindM_def serve_frame_def Let_def split: prod.splits sum.splits if_splits)

text \<open>
  Writing word by word is: let the reader extract the frames of the whole stream, then serve them
  in order.
\<close>

lemma write_word_stream:
  assumes "feed_all (map (\<lambda>w. [w]) ws) (sd_reader d) = (Inr fs, reader)" "words16 ws" "sd_open d"
    and "forM fs serve_frame d = (Inr (), d')"
  shows "forM ws sd_write_word d = (Inr (), d'\<lparr>sd_reader := reader\<rparr>)"
  using assms
proof (induction ws arbitrary: d fs d')
  case (Cons w ws)
  obtain f1 r1 f2 where f: "feed [w] (sd_reader d) = (Inr f1, r1)"
    "feed_all (map (\<lambda>w. [w]) ws) r1 = (Inr f2, reader)" "fs = f1 @ f2"
    using Cons.prems(1) by (auto simp: bindM_Inr_iff)
  obtain d1 where d1: "forM f1 serve_frame d = (Inr (), d1)" "forM f2 serve_frame d1 = (Inr (), d')"
    using Cons.prems(4) by (auto simp: f(3) forM_append thenM_Inr_iff)
  have "sd_open d1"
    using serve_frames_open [OF d1(1)] Cons.prems(3) by simp
  then have "forM ws sd_write_word (d1\<lparr>sd_reader := r1\<rparr>) = (Inr (), d'\<lparr>sd_reader := reader\<rparr>)"
    using Cons.IH [of "d1\<lparr>sd_reader := r1\<rparr>" f2 "d'\<lparr>sd_reader := r1\<rparr>"] Cons.prems(2) f(2) d1(2)
    by (simp add: serve_frames_reader)
  moreover have "sd_write_word w d = (Inr (), d1\<lparr>sd_reader := r1\<rparr>)"
    using Cons.prems(2,3) f(1) d1(1)
    by (simp add: sd_write_word_def thenM_def bindM_def require_open_def sd_feed_def serve_frames_reader)
  ultimately show ?case
    by (simp add: thenM_def bindM_def)
qed simp

section \<open>The interface of the client\<close>

definition wire_faults :: "sim_faults \<Rightarrow> bool" where
  "wire_faults faults \<longleftrightarrow>
     flt_no_response faults \<or> flt_sequence_mismatch faults \<or> flt_bad_payload_crc faults"

text \<open>An open device with nothing in flight on either side.\<close>

definition idle_device :: "sim_device \<Rightarrow> bool" where
  "idle_device d \<longleftrightarrow>
     sd_open d \<and> rs_buffer (sd_reader d) = [] \<and>
     rs_max_payload_words (sd_reader d) = di_max_payload_words (sim_device_info (sd_core d)) \<and>
     sd_response_words d = [] \<and> sd_pending_high_byte d = None \<and> sim_reachable (sd_core d)"

definition sd_ready :: "sim_device \<Rightarrow> bool" where
  "sd_ready d \<longleftrightarrow> idle_device d \<and> \<not> wire_faults (sim_faults (sd_core d))"

definition sim_serve :: "frame \<Rightarrow> sim \<Rightarrow> frame \<times> sim" where
  "sim_serve q s = (case transact q s of (r, s') \<Rightarrow> (projr r, s'))"

definition sim_accepts :: "sim \<Rightarrow> int" where
  "sim_accepts s = di_max_payload_words (sim_device_info s)"

lemma sim_serve_transact:
  assumes "sim_reachable s" "frame_wf q"
  shows "transact q s = (Inr (fst (sim_serve q s)), snd (sim_serve q s))"
    "sim_reachable (snd (sim_serve q s))" "frame_wf (fst (sim_serve q s))" "echoes q (fst (sim_serve q s))"
    "configuration (snd (sim_serve q s)) = configuration s"
proof -
  obtain r s' where t: "transact q s = (Inr r, s')" "reply_to q r"
    using good_transact [OF assms(2) sim_reachable_wf [OF assms(1)]] by (auto simp: good_def)
  show "transact q s = (Inr (fst (sim_serve q s)), snd (sim_serve q s))"
    by (simp add: sim_serve_def t)
  show "sim_reachable (snd (sim_serve q s))"
    using sim_reachable.request [OF assms t(1)] by (simp add: sim_serve_def t)
  show "frame_wf (fst (sim_serve q s))" "echoes q (fst (sim_serve q s))"
    using t(2) reply_frame_wf [OF assms(2)] status_code_eq_0
    by (auto simp: sim_serve_def t(1) reply_to_def echoes_def reply_frame_def)
  show "configuration (snd (sim_serve q s)) = configuration s"
    using transact_configuration [of q s] by (simp add: sim_serve_def t)
qed

lemma write_request:
  assumes "idle_device d" "frame_wf q" "int (length (fr_payload q)) \<le> sim_accepts (sd_core d)"
    and "serve_frame q d = (Inr (), d1)"
  shows "io_write_bytes (simulator_io polls) (le_bytes (frame_words q)) d =
    (Inr (int (2 * length (frame_words q))), d1)"
proof -
  have r: "rs_buffer (sd_reader d) = []" "sd_open d"
    "int (length (fr_payload q)) \<le> rs_max_payload_words (sd_reader d)"
    using assms(1,3) by (simp_all add: idle_device_def sim_accepts_def)
  have "feed_all (map (\<lambda>w. [w]) (frame_words q)) (sd_reader d) = (Inr [q], sd_reader d)"
    using feed_stream [of "sd_reader d" "[([], q)]" "map (\<lambda>w. [w]) (frame_words q)"] assms(2) r
    by (simp add: concat_singletons)
  then have "forM (frame_words q) sd_write_word d = (Inr (), d1\<lparr>sd_reader := sd_reader d\<rparr>)"
    using write_word_stream words16_frame_words [OF assms(2)] r(2) assms(4)
    by (simp add: thenM_def bindM_def)
  moreover have "sd_reader d1 = sd_reader d"
    using assms(4) by (auto simp: serve_frame_def Let_def split: prod.splits sum.splits if_splits)
  ultimately show ?thesis
    using words16_frame_words [OF assms(2)]
    by (simp add: simulator_io_def write_bytes_le_bytes thenM_def bindM_def)
qed

lemma read_available_words:
  "sd_open d \<Longrightarrow> sd_pending_high_byte d = None \<Longrightarrow> words16 (sd_response_words d) \<Longrightarrow>
     sd_read_available d = (Inr (le_bytes (sd_response_words d)), forget_input d)"
  by (simp add: sd_read_available_def thenM_def bindM_def require_open_def le_bytes_def
      and_FF drop_bit_eq_div)

lemma sd_exchange:
  assumes "sd_ready d" "frame_wf q" "int (length (fr_payload q)) \<le> sim_accepts (sd_core d)"
    and "0 < n"
  shows "\<exists>k d1 d2. io_write_bytes (simulator_io polls) (le_bytes (frame_words q)) d = (Inr k, d1) \<and>
    delivers (io_read_available (simulator_io polls)) n d1
      (le_bytes (frame_words (fst (sim_serve q (sd_core d))))) d2 \<and>
    sd_ready d2 \<and> sd_core d2 = snd (sim_serve q (sd_core d))"
proof -
  have d: "idle_device d" "\<not> wire_faults (sim_faults (sd_core d))" "sim_reachable (sd_core d)"
    using assms(1) by (simp_all add: sd_ready_def idle_device_def)
  note t = sim_serve_transact [OF d(3) assms(2)]
  let ?r = "fst (sim_serve q (sd_core d))" and ?s = "snd (sim_serve q (sd_core d))"
  have c: "sim_faults ?s = sim_faults (sd_core d)" "sim_device_info ?s = sim_device_info (sd_core d)"
    using t(5) by (simp_all add: configuration_def)
  let ?d1 = "d\<lparr>sd_core := ?s, sd_response_words := frame_words ?r\<rparr>"
  have s1: "serve_frame q d = (Inr (), ?d1)"
    using d(1,2) c(1) t(1,3)
    by (simp add: serve_frame_def wire_faults_def faulty_response_def encode_words_Inr idle_device_def)
  have "delivers (io_read_available (simulator_io polls)) n ?d1 (le_bytes (frame_words ?r)) (forget_input ?d1)"
    using assms(4) d(1) read_available_words [of ?d1] words16_frame_words [OF t(3)]
    by (cases n) (simp_all add: simulator_io_def idle_device_def)
  moreover have "sd_ready (forget_input ?d1)"
    using d(1,2) c t(2) by (simp add: sd_ready_def idle_device_def forget_input_def)
  ultimately show ?thesis
    using write_request [OF d(1) assms(2,3) s1] by (auto simp: forget_input_def)
qed

text \<open>
  The clock leaves time for at least one look at the input: \<open>extra\<close> counts the further ones.
\<close>

interpretation simdev: request_device "simulator_io (\<lambda>t. Suc (extra t))" sd_ready sd_core sim_serve sim_accepts
  for extra :: "int \<Rightarrow> nat"
proof
  show "\<exists>n d1 d2. io_write_bytes (simulator_io (\<lambda>t. Suc (extra t))) (le_bytes (frame_words q)) d = (Inr n, d1) \<and>
        delivers (io_read_available (simulator_io (\<lambda>t. Suc (extra t)))) (io_polls (simulator_io (\<lambda>t. Suc (extra t))) t) d1
          (le_bytes (frame_words (fst (sim_serve q (sd_core d))))) d2 \<and>
        sd_ready d2 \<and> sd_core d2 = snd (sim_serve q (sd_core d))"
    if "sd_ready d" "frame_wf q" "int (length (fr_payload q)) \<le> sim_accepts (sd_core d)" "0 < t" for d q t
    using sd_exchange [OF that(1-3), of "Suc (extra t)" "\<lambda>t. Suc (extra t)"] by (simp add: simulator_io_def)
  show "frame_wf (fst (sim_serve q (sd_core d))) \<and> echoes q (fst (sim_serve q (sd_core d)))"
    if "sd_ready d" "frame_wf q" for d q
    using sim_serve_transact(3,4) [OF _ that(2)] that(1) by (simp add: sd_ready_def idle_device_def)
  show "\<exists>d'. io_clear_input (simulator_io (\<lambda>t. Suc (extra t))) d = (Inr (), d') \<and> sd_ready d' \<and> sd_core d' = sd_core d"
    if "sd_ready d" for d
    using that by (simp add: simulator_io_def sd_clear_input_def thenM_def bindM_def require_open_def
        sd_ready_def idle_device_def forget_input_def)
qed

section \<open>The client on the device\<close>

text \<open>
  The client on the simulated device: a remote procedure call on the simulator when the wire works,
  and a timeout after the request took effect when the device's answers are lost.
\<close>

text \<open>
  C15.  The client refines a direct call of the simulator: without communication faults,
  encoding, word-wise writing, resynchronising, serving, polling and decoding together do what
  \<open>transact\<close> does with the request frame; the client returns the payload of the response or raises
  its status, and the device is ready for the next call.
\<close>

theorem client_refines_transact:
  assumes "sd_ready (cl_device c)" "u16 (cl_sequence c)" "0 < cl_default_timeout_ms c"
    and "u16 cmd" "words16 payload" "int (length payload) \<le> 0xFFFF"
    and "int (length payload) \<le> di_max_payload_words (sim_device_info (sd_core (cl_device c)))"
    and "case timeout of None \<Rightarrow> True | Some t \<Rightarrow> 0 < t"
    and "transact (client_request (cl_sequence c) cmd payload) (sd_core (cl_device c)) = (Inr r, s')"
    and "int (length (fr_payload r)) \<le> client_limit c"
  shows "\<exists>c'. client_transact (simulator_io (\<lambda>t. Suc (extra t))) cmd payload timeout c = (reply_result r, c') \<and>
    sd_core (cl_device c') = s' \<and> sd_ready (cl_device c') \<and> cl_sequence c' = succ_sequence (cl_sequence c)"
proof -
  have "sim_serve (client_request (cl_sequence c) cmd payload) (sd_core (cl_device c)) = (r, s')"
    using assms(9) by (simp add: sim_serve_def)
  moreover have "simdev.client_ready c"
    using assms(1-3) by (simp add: simdev.client_ready_def)
  ultimately show ?thesis
    using simdev.client_call [where extra = extra, OF _ assms(4,5) _ assms(6,8) _ assms(10)] assms(7)
    by (auto simp: sim_accepts_def simdev.called_def simdev.client_ready_def)
qed

section \<open>Lost answers\<close>

lemma serve_frame_lost:
  assumes "sim_reachable (sd_core d)" "frame_wf q" "flt_no_response (sim_faults (sd_core d))"
  shows "serve_frame q d = (Inr (), d\<lparr>sd_core := snd (transact q (sd_core d))\<rparr>)"
  using sim_serve_transact(1,5) [OF assms(1,2)] assms(3) by (simp add: serve_frame_def configuration_def)

lemma read_response_lost:
  assumes "0 < t" "idle_device (cl_device c)"
  shows "await_response (simulator_io polls) cmd t c =
    (Inl (IoTimeoutError ''response timed out''),
     c\<lparr>cl_trace_bytes := map_option (\<lambda>log. log @ [(Trace_Timeout cmd, [])]) (cl_trace_bytes c)\<rparr>)"
proof -
  let ?d = "cl_device c"
  have "sd_read_available ?d = (Inr [], ?d)"
    using read_available_words [of ?d] assms(2) by (simp add: idle_device_def forget_input_def)
  then have "response_loop (io_read_available (simulator_io polls)) m n [] [] ?d =
      ((Inl (IoTimeoutError ''response byte read timed out''), []), ?d)" for m n
    using response_loop_silent [of "io_read_available (simulator_io polls)" ?d] by (simp add: simulator_io_def)
  then show ?thesis
    using assms(1) by (simp add: await_response_def read_response_frame_def bindM_def on_device_def trace_def thenM_def
        sm_basic)
qed

text \<open>
  Lost answers.  When the device answers nothing, a request still takes effect on it, and the
  client raises a timeout; the device is idle again, so a further request can be sent.
\<close>

theorem lost_answer_times_out:
  assumes "idle_device (cl_device c)" "flt_no_response (sim_faults (sd_core (cl_device c)))"
    and "u16 (cl_sequence c)" "u16 cmd" "words16 payload" "int (length payload) \<le> 0xFFFF" "0 < t"
    and "int (length payload) \<le> di_max_payload_words (sim_device_info (sd_core (cl_device c)))"
  shows "\<exists>c'. client_transact (simulator_io polls) cmd payload (Some t) c =
      (Inl (IoTimeoutError ''response timed out''), c') \<and>
    sd_core (cl_device c') =
      snd (transact (client_request (cl_sequence c) cmd payload) (sd_core (cl_device c))) \<and>
    idle_device (cl_device c')"
proof -
  let ?d = "cl_device c" and ?q = "client_request (cl_sequence c) cmd payload"
  let ?d1 = "?d\<lparr>sd_core := snd (transact ?q (sd_core ?d))\<rparr>"
  note q = client_request_wf [OF assms(3-6)] request_of_Inr [OF assms(3-6)]
  have reach: "sim_reachable (sd_core ?d)"
    using assms(1) by (simp add: idle_device_def)
  have clear: "sd_clear_input ?d = (Inr (), ?d)"
    using assms(1) by (simp add: sd_clear_input_def thenM_def bindM_def require_open_def idle_device_def forget_input_def)
  have w: "io_write_bytes (simulator_io polls) (le_bytes (frame_words ?q)) ?d = (Inr (int (2 * length (frame_words ?q))), ?d1)"
    using write_request [OF assms(1) q(1) _ serve_frame_lost [OF reach q(1) assms(2)]] assms(8)
    by (simp add: sim_accepts_def client_request_def)
  have idle: "idle_device ?d1"
    using assms(1) sim_serve_transact [OF reach q(1)] by (simp add: idle_device_def configuration_def)
  let ?c1 = "c\<lparr>cl_sequence := succ_sequence (cl_sequence c),
    cl_trace_bytes := map_option (\<lambda>log. log @ [(Trace_TX cmd (succ_sequence (cl_sequence c)), le_bytes (frame_words ?q))])
      (cl_trace_bytes c), cl_device := ?d1\<rparr>"
  have "(if cl_clear_input_before_request c then on_device (io_clear_input (simulator_io polls)) else returnM ()) c = (Inr (), c)"
    using clear by (simp add: on_device_def simulator_io_def)
  then have "client_transact (simulator_io polls) cmd payload (Some t) c =
      (Inl (IoTimeoutError ''response timed out''),
       ?c1\<lparr>cl_trace_bytes := map_option (\<lambda>log. log @ [(Trace_Timeout cmd, [])]) (cl_trace_bytes ?c1)\<rparr>)"
    using q w assms(3) read_response_lost [OF assms(7), of ?c1 polls cmd] idle
    by (simp add: client_transact_def bindM_def thenM_def bump_sequence_def next_sequence_Inr encode_bytes_Inr
        trace_def on_device_def)
  then show ?thesis
    using idle by simp
qed

end
