(* ===== verification/Sim_Boot.thy ===== *)
theory Sim_Boot
  imports Sim_Gates
begin

text \<open>
  The life cycle of an installed image: recording a boot attempt, confirming the application and
  starting it, as equations between the metadata before and after the request.
\<close>

definition app_request :: "command \<Rightarrow> int list \<Rightarrow> frame \<Rightarrow> bool" where
  "app_request cmd payload request \<longleftrightarrow>
     frame_wf request \<and> fr_packet_type request = packet_type_code PKT_REQUEST \<and>
     fr_command request = command_code cmd \<and> fr_payload request = payload \<and>
     fr_flags request = 0 \<and> fr_protocol_version request = PROTOCOL_VERSION"

text \<open>The device takes service commands: it needs no service, or one is attached.\<close>

definition service_ready :: "sim \<Rightarrow> bool" where
  "service_ready s \<longleftrightarrow> sim_require_service s \<longrightarrow> sim_service_state s = SVC_ATTACHED"

lemma transact_app_request:
  assumes "app_request cmd payload request" "cmd \<in> set service_commands \<Longrightarrow> service_ready s"
  shows "transact request s = handler cmd request s"
  using assms by (auto simp: transact_def app_request_def service_ready_def)

text \<open>
  The payload of the two requests that name the current image: its entry point, size and CRC.
\<close>

definition image_fields :: "int list \<Rightarrow> int list" where
  "image_fields img = map ((!) img) [14 ..< 20]"

definition append_payload :: "metadata_record_type \<Rightarrow> int list \<Rightarrow> int list" where
  "append_payload kind img =
     [metadata_record_type_code kind, boot_slot_code SLOT_SLOT_A] @ image_fields img @ replicate 8 0"

lemma image_record_words:
  assumes "image_record f = Some img" "words_wf f"
  shows "words16 img" "length img = 64"
proof -
  have "img \<in> set (records f)"
    using assms(1) by (rule image_recordD)
  then show "words16 img" "length img = 64"
    using assms(2) set_records words16_metadata_record by (auto simp: records_def)
qed


section \<open>Recording a boot attempt\<close>

lemma record_of_built:
  assumes "image_record f = Some img" "words_wf f" "metadata_ok f" "summary_matches f sm"
    and "record_built kind (next_record_sequence f) rec"
    and "rec ! 14 = lo16 (ms_entry_point sm)" "rec ! 15 = hi16 (ms_entry_point sm)"
    "rec ! 16 = lo16 (ms_image_size_words sm)" "rec ! 17 = hi16 (ms_image_size_words sm)"
    "rec ! 18 = lo16 (ms_image_crc32 sm)" "rec ! 19 = hi16 (ms_image_crc32 sm)"
  shows "record_of kind img rec"
proof -
  note img = image_recordD [OF assms(1)] image_record_words [OF assms(1,2)]
  have slot: "img ! 7 = boot_slot_code SLOT_SLOT_A"
    using img(1,2) assms(3) by (auto simp: metadata_ok_def records_def record_valid_def used_records_def)
  have "record_sequence img < record_sequence rec"
    using record_sequence_lt_next [OF assms(3,2) img(1,2)] assms(5) by (simp add: record_built_def)
  then show ?thesis
    using assms(1,4-) slot img(5,6)
    by (simp add: record_of_def matches_image_def record_built_def summary_matches_def words16_nth split_join)
qed

definition append_ok :: "metadata_record_type \<Rightarrow> int list \<Rightarrow> sim \<Rightarrow> sim \<Rightarrow> bool" where
  "append_ok kind img s s' \<longleftrightarrow>
     (\<exists>k rec. first_free_record (sim_flash s) = Some k \<and> s' = store_record k rec s \<and>
        record_built kind (next_record_sequence (sim_flash s)) rec \<and> record_of kind img rec)"

lemma append_boot_ok:
  assumes "sim_wf s"
    and "kind = REC_BOOT_ATTEMPT \<or> kind = REC_APP_CONFIRMED \<and> boot_attempts (sim_flash s) img \<noteq> 0"
    and "image_record (sim_flash s) = Some img" "\<not> app_confirmed (sim_flash s) img"
    and "kind = REC_BOOT_ATTEMPT \<longrightarrow> boot_attempts (sim_flash s) img < 3"
    and "first_free_record (sim_flash s) \<noteq> None"
  shows "\<exists>s'. append_ok kind img s s' \<and>
    (\<forall>request. app_request CMD_METADATA_APPEND_RECORD (append_payload kind img) request \<longrightarrow>
       h_metadata_append_record request s = (Inr (reply_frame request ST_OK []), s'))"
proof -
  have f: "metadata_ok (sim_flash s)" "words_wf (sim_flash s)"
    using assms(1) by (simp_all add: sim_wf_def)
  note q = next_record_sequence_bounds(4) [OF f(1,2)]
  obtain sm where sm: "sim_summary s = Inr sm" "summary_wf sm" "summary_matches (sim_flash s) sm"
    using sim_summary_eq [OF f(2)] by blast
  obtain k where k: "first_free_record (sim_flash s) = Some k"
    using assms(6) by blast
  define build where "build =
    (if kind = REC_BOOT_ATTEMPT then build_boot_attempt_record else build_app_confirmed_record)"
  obtain rec where rec: "build sm (next_record_sequence (sim_flash s)) = Inr rec"
    "record_built kind (next_record_sequence (sim_flash s)) rec" "record_of kind img rec"
    using build_boot_attempt_record_ok [OF sm(2) q] build_app_confirmed_record_ok [OF sm(2) q]
      record_of_built [OF assms(3) f(2,1) sm(3)] assms(2) unfolding build_def
    by (cases "kind = REC_BOOT_ATTEMPT") fastforce+
  have p: "append_payload kind img = [metadata_record_type_code kind, boot_slot_code SLOT_SLOT_A,
      img ! 14, img ! 15, img ! 16, img ! 17, img ! 18, img ! 19, 0, 0, 0, 0, 0, 0, 0, 0]"
    by (simp add: append_payload_def image_fields_def upt_rec numeral_eq_Suc)
  have "h_metadata_append_record request s = (Inr (reply_frame request ST_OK []), store_record k rec s)"
    if "app_request CMD_METADATA_APPEND_RECORD (append_payload kind img) request" for request
  proof -
    have rq: "frame_wf request" "fr_payload request = append_payload kind img"
      using that by (simp_all add: app_request_def)
    have "h_metadata_append_record request s = append_boot_record request s"
      using assms(2) by (auto simp: h_metadata_append_record_def rq(2) p Let_def)
    also have "\<dots> = (Inr (reply_frame request ST_OK []), store_record k rec s)"
      using assms(2-5) sm(1,3) k rec(1) rq(1)
      by (auto simp: append_boot_record_def rq(2) p Let_def build_def summary_matches_def respond_eq
          list_ex_iff nth_Cons' less_Suc_eq)
    finally show ?thesis .
  qed
  then show ?thesis
    using k rec by (intro exI [of _ "store_record k rec s"]) (auto simp: append_ok_def)
qed

lemma ex_update:
  "k < length xs \<Longrightarrow> \<not> P (xs ! k) \<Longrightarrow> (\<exists>x \<in> set (xs[k := r]). P x) \<longleftrightarrow> P r \<or> (\<exists>x \<in> set xs. P x)"
proof (induction xs arbitrary: k)
  case (Cons x xs)
  then show ?case by (cases k) auto
qed simp

lemma append_ok_flash:
  assumes "append_ok kind img s s'" "kind \<noteq> REC_IMAGE_VALID"
    and "image_record (sim_flash s) = Some img"
  shows "image_record (sim_flash s') = Some img"
    and "boot_attempts (sim_flash s') img =
      boot_attempts (sim_flash s) img + (if kind = REC_BOOT_ATTEMPT then 1 else 0)"
    and "app_confirmed (sim_flash s') img \<longleftrightarrow> kind = REC_APP_CONFIRMED \<or> app_confirmed (sim_flash s) img"
proof -
  obtain k rec where k: "first_free_record (sim_flash s) = Some k" "s' = store_record k rec s"
    and rec: "record_built kind (next_record_sequence (sim_flash s)) rec" "record_of kind img rec"
    using assms(1) by (auto simp: append_ok_def)
  have kinds: "record_of kind' img rec \<longleftrightarrow> kind' = kind" for kind'
    using rec by (cases kind; cases kind') (auto simp: record_built_def record_of_def)
  have l: "length rec = 64" "record_valid rec"
    using rec(1) by (simp_all add: record_built_def)
  note free = free_record_invalid [OF k(1)]
  show "image_record (sim_flash s') = Some img"
    using image_record_store_other [OF k(1) rec(1) assms(2)] assms(3) by (simp add: k(2) store_record_def)
  show "boot_attempts (sim_flash s') img =
      boot_attempts (sim_flash s) img + (if kind = REC_BOOT_ATTEMPT then 1 else 0)"
    using boot_attempts_store [OF k(1) rec(1)] kinds by (simp add: k(2) store_record_def)
  have "app_confirmed (sim_flash s') img \<longleftrightarrow>
      (\<exists>r \<in> set ((records (sim_flash s))[k := rec]). record_valid r \<and> record_of REC_APP_CONFIRMED img r)"
    by (auto simp: app_confirmed_def list_ex_iff k(2) store_record_def records_store l)
  also have "\<dots> \<longleftrightarrow> kind = REC_APP_CONFIRMED \<or> app_confirmed (sim_flash s) img"
    using free l kinds
    by (subst ex_update) (auto simp: app_confirmed_def list_ex_iff)
  finally show "app_confirmed (sim_flash s') img \<longleftrightarrow> kind = REC_APP_CONFIRMED \<or> app_confirmed (sim_flash s) img" .
qed

lemma append_ok_outside:
  assumes "append_ok kind img s s'" "x \<notin> metadata_area"
  shows "sim_flash s' x = sim_flash s x"
proof -
  obtain k rec where k: "first_free_record (sim_flash s) = Some k" "s' = store_record k rec s"
    "length rec = 64"
    using assms(1) by (auto simp: append_ok_def record_built_def)
  then show ?thesis
    using assms(2) record_cells_area [of k rec x] first_free_SomeD [OF k(1)]
    by (auto simp: store_record_def map_add_def split: option.split)
qed

text \<open>Appending writes the 64 cells of the first free record, and nothing else of the device.\<close>

lemma append_ok_frame:
  assumes "append_ok kind img s s'"
  shows "s' = s\<lparr>sim_flash := sim_flash s'\<rparr> \<and> (\<exists>k. first_free_record (sim_flash s) = Some k \<and>
    record_of kind img (metadata_record (sim_flash s') k) \<and>
    (\<forall>x. sim_flash s' x \<noteq> sim_flash s x \<longrightarrow> record_base k \<le> x \<and> x < record_base k + 64))"
proof -
  obtain k rec where k: "first_free_record (sim_flash s) = Some k" "s' = store_record k rec s"
    "length rec = 64" "record_of kind img rec"
    using assms by (auto simp: append_ok_def record_built_def)
  have "sim_flash s' x \<noteq> sim_flash s x \<longrightarrow> record_base k \<le> x \<and> x < record_base k + 64" for x
    using k(3) by (auto simp: k(2) store_record_def map_add_def cells_Some_iff split: option.splits)
  moreover have "record_of kind img (metadata_record (sim_flash s') k)"
    using k(4) by (simp add: k(2) store_record_def metadata_record_store [OF k(3)])
  ultimately show ?thesis
    using k(1) by (auto simp: k(2) store_record_def)
qed

lemma fail_result:
  assumes "st \<noteq> ST_OK"
  shows "sim_flash (snd (fail_at request st operation stage a l x s)) = sim_flash s"
    "fst (fail_at request st operation stage a l x s) \<noteq> Inr (reply_frame request ST_OK [])"
  using refused_fail [OF assms refl [of "flash_view s"], where request = request and operation = operation and stage = stage and a = a and l = l and x = x]
  by (auto simp: refused_def flash_view_def reply_frame_def)

text \<open>The device answers a boot attempt it does not record: the image is confirmed, the three attempts
  are used, or no record is free.\<close>

lemma boot_attempt_not_written:
  assumes "sim_wf s" "image_record (sim_flash s) = Some img"
    and "app_confirmed (sim_flash s) img \<or> 3 \<le> boot_attempts (sim_flash s) img \<or> first_free_record (sim_flash s) = None"
    and "app_request CMD_METADATA_APPEND_RECORD (append_payload REC_BOOT_ATTEMPT img) request"
  shows "if app_confirmed (sim_flash s) img
    then h_metadata_append_record request s = (Inr (reply_frame request ST_OK []), s)
    else sim_flash (snd (h_metadata_append_record request s)) = sim_flash s \<and>
      fst (h_metadata_append_record request s) \<noteq> Inr (reply_frame request ST_OK [])"
proof -
  have "words_wf (sim_flash s)"
    using assms(1) by (simp add: sim_wf_def)
  then obtain sm where sm: "sim_summary s = Inr sm" "summary_wf sm" "summary_matches (sim_flash s) sm"
    using sim_summary_eq by blast
  have rq: "frame_wf request" "fr_payload request = append_payload REC_BOOT_ATTEMPT img"
    using assms(4) by (simp_all add: app_request_def)
  have p: "append_payload REC_BOOT_ATTEMPT img = [metadata_record_type_code REC_BOOT_ATTEMPT, boot_slot_code SLOT_SLOT_A,
      img ! 14, img ! 15, img ! 16, img ! 17, img ! 18, img ! 19, 0, 0, 0, 0, 0, 0, 0, 0]"
    by (simp add: append_payload_def image_fields_def upt_rec numeral_eq_Suc)
  have "h_metadata_append_record request s = append_boot_record request s"
    by (auto simp: h_metadata_append_record_def rq(2) p Let_def)
  then show ?thesis
    using assms(2,3) sm(1,3) rq(1)
    by (auto simp: append_boot_record_def rq(2) p Let_def summary_matches_def respond_eq
        list_ex_iff nth_Cons' less_Suc_eq fail_result split: option.splits)
qed

text \<open>
  C39.  Counting a boot attempt.  What the device does with the append request of a boot attempt for the image its
  metadata names.  If the image is confirmed the request is accepted and nothing changes; if it is not, has fewer than
  three attempts and a record is free, the request is accepted, the image stays the current unconfirmed one and
  its number of attempts is raised by exactly one: the first free record of the journal becomes a boot attempt
  of the image, and every other word of the Flash, the other records included, and all other state of the
  device stay as they were.  In all other cases the request is not accepted and the Flash does not change.
\<close>

theorem boot_attempt_recorded:
  assumes "app_request CMD_METADATA_APPEND_RECORD (append_payload REC_BOOT_ATTEMPT img) request"
    and "sim_reachable s" "service_ready s" "image_record (sim_flash s) = Some img" "transact request s = (reply, s')"
  shows "if app_confirmed (sim_flash s) img then reply = Inr (reply_frame request ST_OK []) \<and> s' = s
    else if boot_attempts (sim_flash s) img < 3 \<and> first_free_record (sim_flash s) \<noteq> None
    then reply = Inr (reply_frame request ST_OK []) \<and>
      image_record (sim_flash s') = Some img \<and> \<not> app_confirmed (sim_flash s') img \<and>
      boot_attempts (sim_flash s') img = boot_attempts (sim_flash s) img + 1 \<and> s' = s\<lparr>sim_flash := sim_flash s'\<rparr> \<and>
      (\<exists>k. first_free_record (sim_flash s) = Some k \<and>
        record_of REC_BOOT_ATTEMPT img (metadata_record (sim_flash s') k) \<and>
        (\<forall>x. sim_flash s' x \<noteq> sim_flash s x \<longrightarrow> record_base k \<le> x \<and> x < record_base k + 64))
    else reply \<noteq> Inr (reply_frame request ST_OK []) \<and> sim_flash s' = sim_flash s"
proof (cases "\<not> app_confirmed (sim_flash s) img \<and> boot_attempts (sim_flash s) img < 3 \<and> first_free_record (sim_flash s) \<noteq> None")
  case True
  then obtain s2 where s2: "h_metadata_append_record request s = (Inr (reply_frame request ST_OK []), s2)"
    "append_ok REC_BOOT_ATTEMPT img s s2"
    using append_boot_ok [OF sim_reachable_wf [OF assms(2)] _ assms(4)] assms(1) by blast
  then have "reply = Inr (reply_frame request ST_OK [])" "s' = s2"
    using transact_app_request [OF assms(1), of s] assms(3,5) by simp_all
  then show ?thesis
    using append_ok_flash [OF s2(2) _ assms(4)] append_ok_frame [OF s2(2)] True by simp
next
  case False
  then have "app_confirmed (sim_flash s) img \<or> 3 \<le> boot_attempts (sim_flash s) img \<or> first_free_record (sim_flash s) = None"
    by auto
  note written = boot_attempt_not_written [OF sim_reachable_wf [OF assms(2)] assms(4) this assms(1)]
  have "h_metadata_append_record request s = (reply, s')"
    using transact_app_request [OF assms(1), of s] assms(3,5) by simp
  then show ?thesis
    using written False by (auto split: if_splits)
qed

text \<open>
  Confirming the application: after at least one boot attempt the confirmation of the current
  image is accepted and from then on the image counts as confirmed.
\<close>

theorem app_confirmation_recorded:
  assumes "app_request CMD_METADATA_APPEND_RECORD (append_payload REC_APP_CONFIRMED img) request"
    and "sim_reachable s" "service_ready s" "image_record (sim_flash s) = Some img"
    and "boot_attempts (sim_flash s) img \<noteq> 0" "\<not> app_confirmed (sim_flash s) img"
    and "first_free_record (sim_flash s) \<noteq> None"
  shows "\<exists>s'. transact request s = (Inr (reply_frame request ST_OK []), s') \<and>
    image_record (sim_flash s') = Some img \<and> app_confirmed (sim_flash s') img"
proof -
  obtain s' where s': "h_metadata_append_record request s = (Inr (reply_frame request ST_OK []), s')"
    "append_ok REC_APP_CONFIRMED img s s'"
    using append_boot_ok [OF sim_reachable_wf [OF assms(2)] _ assms(4,6) _ assms(7)] assms(1,5) by blast
  then show ?thesis
    using append_ok_flash [OF s'(2) _ assms(4)] assms(1,3) transact_app_request [OF assms(1), of s] by auto
qed

section \<open>Starting the application\<close>

definition run_payload :: "int list \<Rightarrow> int list" where
  "run_payload img = [target_code TGT_FLASH_APP, img ! 14, img ! 15, 0]"

lemma transact_run_ok:
  assumes "app_request CMD_RUN (run_payload img) request" "sim_reachable s"
    and "image_record (sim_flash s) = Some img" "join_u32 (img ! 14) (img ! 15) mod 8 = 0"
    and "addresses_allowed s (join_u32 (img ! 14) (img ! 15)) 1"
    and "app_confirmed (sim_flash s) img \<or> boot_attempts (sim_flash s) img \<noteq> 0"
  shows "transact request s =
    (Inr (reply_frame request ST_OK []), s\<lparr>sim_pending_action := ACT_RUN_APP\<rparr>)"
proof -
  have "words_wf (sim_flash s)"
    using sim_reachable_wf [OF assms(2)] by (simp add: sim_wf_def)
  then obtain sm where sm: "sim_summary s = Inr sm" "summary_matches (sim_flash s) sm"
    using sim_summary_eq by blast
  have a: "boot_attempts (sim_flash s) img \<le> 3"
    using attempts_bounded_reachable [OF assms(2)] assms(3) by (simp add: attempts_bounded_def)
  have rq: "frame_wf request" "fr_payload request = run_payload img"
    using assms(1) by (simp_all add: app_request_def)
  have "transact request s = h_run request s"
    using transact_app_request [OF assms(1)] by (simp add: service_commands_def)
  then show ?thesis
    using assms(3-) sm a rq
    by (auto simp: h_run_def Let_def run_payload_def summary_matches_def respond_eq)
qed

text \<open>
  The converse of the gate: an image whose entry point is aligned and addressable is started as
  soon as it is confirmed or has a recorded attempt.
\<close>

theorem run_starts:
  assumes "app_request CMD_RUN (run_payload img) request" "sim_reachable s"
    and "image_record (sim_flash s) = Some img" "join_u32 (img ! 14) (img ! 15) mod 8 = 0"
    and "addresses_allowed s (join_u32 (img ! 14) (img ! 15)) 1"
    and "app_confirmed (sim_flash s) img \<or> boot_attempts (sim_flash s) img \<noteq> 0"
  shows "transact request s =
    (Inr (reply_frame request ST_OK []), s\<lparr>sim_pending_action := ACT_RUN_APP\<rparr>)"
  using transact_run_ok [OF assms] .

end
