(* ===== verification/Upgrade_Steps.thy ===== *)
theory Upgrade_Steps
  imports Workflow Sim_Device Sim_Boot
begin

text \<open>
  The workflow on a simulated device, one request at a time: a request the simulator answers with
  \<open>OK\<close> is a step of the workflow that changes nothing but the device; and a begin/data/end transfer
  (the locale \<open>transfer_phase\<close>, used for program and verify) runs through when each of its packets
  is acceptable.
\<close>

abbreviation sim_io :: "(int \<Rightarrow> nat) \<Rightarrow> sim_device pc_io_device" where
  "sim_io extra \<equiv> simulator_io (\<lambda>t. Suc (extra t))"

section \<open>Requests that are answered with OK\<close>

definition answers :: "sim \<Rightarrow> command \<Rightarrow> int list \<Rightarrow> int list \<Rightarrow> sim \<Rightarrow> bool" where
  "answers s cmd payload result s' \<longleftrightarrow>
     (\<forall>q. app_request cmd payload q \<longrightarrow> transact q s = (Inr (reply_frame q ST_OK result), s'))"

lemma answersI:
  assumes "cmd \<in> set service_commands \<Longrightarrow> service_ready s"
    and "\<And>q. app_request cmd payload q \<Longrightarrow> handler cmd q s = (Inr (reply_frame q ST_OK result), s')"
  shows "answers s cmd payload result s'"
  using assms transact_app_request by (auto simp: answers_def)

definition wf_core :: "sim_device workflow \<Rightarrow> sim" where
  "wf_core w = sd_core (cl_device (wf_client w))"

definition wf_info :: "sim_device workflow \<Rightarrow> device_info option" where
  "wf_info w = cl_device_info (wf_client w)"

text \<open>The bookkeeping of the workflow.\<close>

definition wf_flags :: "'d workflow \<Rightarrow>
    address_range list \<times> workflow_state \<times> bool \<times> bool \<times> bool option \<times> error_detail option" where
  "wf_flags w = (wf_allowed_flash_ranges w, wf_state w, wf_flash_modified w, wf_verify_succeeded w,
     wf_last_probe_succeeded w, wf_last_error_detail w)"

definition wf_ready :: "sim_device workflow \<Rightarrow> bool" where
  "wf_ready w \<longleftrightarrow> simdev.client_ready (wf_client w)"

definition wf_moved :: "sim_device workflow \<Rightarrow> sim \<Rightarrow> sim_device workflow \<Rightarrow> bool" where
  "wf_moved w s w' \<longleftrightarrow>
     wf_ready w' \<and> wf_core w' = s \<and> wf_info w' = wf_info w \<and> wf_flags w' = wf_flags w"

lemma wf_moved_trans: "wf_moved w s w' \<Longrightarrow> wf_moved w' s' w'' \<Longrightarrow> wf_moved w s' w''"
  by (simp add: wf_moved_def)

lemma wf_ready_reachable: "wf_ready w \<Longrightarrow> sim_reachable (wf_core w)"
  by (simp add: wf_ready_def simdev.client_ready_def sd_ready_def idle_device_def wf_core_def)

text \<open>The size a response may have: what the device announced, once it is known.\<close>

definition wf_limit :: "sim_device workflow \<Rightarrow> int" where
  "wf_limit w = (case wf_info w of Some info \<Rightarrow> di_max_payload_words info | None \<Rightarrow> 0xFFFF)"

lemma sim_accepts_u16: "wf_ready w \<Longrightarrow> u16 (sim_accepts (wf_core w))"
  using sim_reachable_wf [OF wf_ready_reachable [of w]]
  by (simp add: sim_wf_def device_info_wf_def sim_accepts_def)

lemma reply_frame_result: "reply_result (reply_frame q ST_OK result) = Inr result"
  by (simp add: reply_result_def reply_frame_def)

lemma client_step:
  assumes "wf_ready w" "answers (wf_core w) cmd payload result s'" "0 < t"
    and "words16 payload" "int (length payload) \<le> sim_accepts (wf_core w)"
    and "int (length result) \<le> wf_limit w"
  shows "\<exists>c. client_transact (sim_io extra) (command_code cmd) payload (Some t) (wf_client w) =
      (Inr result, c) \<and> wf_moved w s' (w\<lparr>wf_client := c\<rparr>)"
proof -
  let ?c = "wf_client w" and ?q = "client_request (cl_sequence (wf_client w)) (command_code cmd) payload"
  have r: "sd_ready (cl_device ?c)" "u16 (cl_sequence ?c)" "simdev.client_ready ?c"
    using assms(1) by (simp_all add: wf_ready_def simdev.client_ready_def)
  have l: "int (length payload) \<le> 0xFFFF"
    using sim_accepts_u16 [OF assms(1)] assms(5) by (simp add: u16_def)
  have q: "app_request cmd payload ?q"
    using client_request_wf [OF r(2) _ assms(4) l, of "command_code cmd"]
    by (simp add: app_request_def client_request_def)
  have serve: "sim_serve ?q (sd_core (cl_device ?c)) = (reply_frame ?q ST_OK result, s')"
    using assms(2) q by (simp add: answers_def sim_serve_def wf_core_def)
  have fits: "int (length (fr_payload (reply_frame ?q ST_OK result))) \<le> client_limit ?c"
    using assms(6) by (simp add: reply_frame_def client_limit_def wf_limit_def wf_info_def)
  obtain c where c: "client_transact (sim_io extra) (command_code cmd) payload (Some t) ?c =
      (reply_result (reply_frame ?q ST_OK result), c)" "simdev.called ?c c" "sd_core (cl_device c) = s'"
    using simdev.client_call [where extra = extra and timeout = "Some t", OF r(3) _ assms(4) _ l _ serve fits]
      assms(3,5) by (auto simp: wf_core_def)
  then show ?thesis
    by (intro exI [of _ c])
      (simp add: wf_moved_def wf_ready_def wf_core_def wf_info_def wf_flags_def simdev.called_def
        reply_frame_result)
qed

lemma wf_transact_step:
  assumes "wf_ready w" "answers (wf_core w) cmd payload result s'" "WORKFLOW_TIMEOUT_MS cmd = Some t" "0 < t"
    and "words16 payload" "int (length payload) \<le> sim_accepts (wf_core w)"
    and "int (length result) \<le> wf_limit w"
  shows "\<exists>w'. wf_transact (sim_io extra) cmd payload modifying w = (Inr result, w') \<and>
    wf_moved w s' w'"
  using client_step [OF assms(1,2,4-7), of extra] assms(3)
  by (auto simp: wf_transact_def catchM_def on_client_def)

section \<open>Transfers\<close>

definition packet_payload :: "data_packet \<Rightarrow> int list" where
  "packet_payload p =
     [lo16 (dp_address p), hi16 (dp_address p), int (length (dp_words p)),
      lo16 (dp_index p), hi16 (dp_index p)] @ dp_words p"

text \<open>A packet the device takes next: well-formed, addressable and with the expected number.\<close>

definition packet_sound :: "sim \<Rightarrow> session \<Rightarrow> data_packet \<Rightarrow> bool" where
  "packet_sound s ses p \<longleftrightarrow>
     words16 (dp_words p) \<and> u32 (dp_address p) \<and> u32 (dp_index p) \<and>
     dp_index p = ses_expected_index ses \<and>
     validate_write_data (dp_words p) (Some (di_max_data_words (sim_device_info s))) = Inr () \<and>
     addresses_allowed s (dp_address p) (int (length (dp_words p)))"

lemma packet_sound_payload:
  assumes "packet_sound s ses p" "app_request cmd (packet_payload p) q"
  shows "data_accepted q ses s (dp_address p) (dp_words p)"
  using assms by (simp add: data_accepted_def app_request_def packet_payload_def packet_sound_def Let_def)

lemma addresses_allowed_cong:
  assumes "configuration s = configuration t"
  shows "addresses_allowed s a n = addresses_allowed t a n"
proof -
  have "in_sectors s = in_sectors t"
    using assms by (simp add: fun_eq_iff in_sectors_def configuration_def)
  then show ?thesis
    using assms by (simp add: addresses_allowed_def configuration_def)
qed

lemma packet_sound_cong:
  "configuration s = configuration t \<Longrightarrow> packet_sound s ses p = packet_sound t ses p"
  using addresses_allowed_cong [of s t] by (simp add: packet_sound_def configuration_def)

definition deliverable :: "sim \<Rightarrow> data_packet \<Rightarrow> bool" where
  "deliverable s p \<longleftrightarrow>
     words16 (dp_words p) \<and> u32 (dp_address p) \<and> u32 (dp_index p) \<and>
     validate_write_data (dp_words p) (Some (di_max_data_words (sim_device_info s))) = Inr () \<and>
     addresses_allowed s (dp_address p) (int (length (dp_words p))) \<and>
     int (length (dp_words p)) + 5 \<le> sim_accepts s"

lemma deliverable_cong: "configuration s = configuration t \<Longrightarrow> deliverable s p = deliverable t p"
  using addresses_allowed_cong [of s t] by (simp add: deliverable_def configuration_def sim_accepts_def)

lemma packet_payload_wf:
  assumes "deliverable s p" "u16 (sim_accepts s)"
  shows "words16 (packet_payload p)" "int (length (packet_payload p)) \<le> sim_accepts s"
proof -
  have "u16 (int (length (dp_words p)))"
    using assms by (simp add: deliverable_def u16_def)
  then show "words16 (packet_payload p)" "int (length (packet_payload p)) \<le> sim_accepts s"
    using assms by (simp_all add: deliverable_def packet_payload_def)
qed

text \<open>The session after the packets were taken.\<close>

definition advance_all :: "data_packet list \<Rightarrow> session \<Rightarrow> session" where
  "advance_all ps ses = fold (\<lambda>p. advance (int (length (dp_words p)))) ps ses"

lemma advance_all_simps [simp]:
  "advance_all [] ses = ses"
  "advance_all (p # ps) ses = advance_all ps (advance (int (length (dp_words p))) ses)"
  by (simp_all add: advance_all_def)

lemma advance_all_fields:
  "ses_block_count (advance_all ps ses) = ses_block_count ses"
  "ses_total_words (advance_all ps ses) = ses_total_words ses"
  "ses_packet_count (advance_all ps ses) = ses_packet_count ses + int (length ps)"
  "ses_received_words (advance_all ps ses) = ses_received_words ses + packet_words ps"
  by (induction ps arbitrary: ses) (simp_all add: advance_def packet_words_def)

text \<open>
  A phase of a transfer: the three commands, where its session is kept, what an accepted packet and
  the end do besides advancing and closing the session, and which packets are acceptable.
\<close>

locale transfer_phase =
  fixes begin_cmd data_cmd end_cmd :: command
    and session_of :: "sim \<Rightarrow> session option"
    and put :: "session option \<Rightarrow> sim \<Rightarrow> sim"
    and acceptable :: "sim \<Rightarrow> int \<Rightarrow> int list \<Rightarrow> bool"
    and store :: "int \<Rightarrow> int list \<Rightarrow> sim \<Rightarrow> sim"
    and finish :: "sim \<Rightarrow> sim"
  assumes timeouts: "\<exists>t > 0. WORKFLOW_TIMEOUT_MS begin_cmd = Some t"
      "\<exists>t > 0. WORKFLOW_TIMEOUT_MS data_cmd = Some t" "\<exists>t > 0. WORKFLOW_TIMEOUT_MS end_cmd = Some t"
    and begins: "service_ready s \<Longrightarrow> session_of s = None \<Longrightarrow>
      (\<And>q. app_request begin_cmd payload q \<Longrightarrow> begin_accepted q s ses) \<Longrightarrow>
      answers s begin_cmd payload [] (put (Some ses) s)"
    and takes: "service_ready s \<Longrightarrow> session_of s = Some ses \<Longrightarrow> \<not> flt_bad_block_index (sim_faults s) \<Longrightarrow>
      packet_sound s ses p \<Longrightarrow> acceptable s (dp_address p) (dp_words p) \<Longrightarrow>
      answers s data_cmd (packet_payload p) []
        (put (Some (advance (int (length (dp_words p))) ses)) (store (dp_address p) (dp_words p) s))"
    and ends: "service_ready s \<Longrightarrow> session_of s = Some ses \<Longrightarrow>
      (\<And>q. app_request end_cmd payload q \<Longrightarrow> end_accepted q ses) \<Longrightarrow>
      answers s end_cmd payload [] (finish (put None s))"
    and session_put [simp]: "session_of (put x s) = x"
    and session_store: "session_of (store a d s) = session_of s"
    and put_put [simp]: "put x (put y s) = put x s"
    and put_session: "session_of s = x \<Longrightarrow> put x s = s"
    and put_store: "store a d (put x s) = put x (store a d s)"
    and acceptable_put [simp]: "acceptable (put x s) a d = acceptable s a d"
    and put_configuration [simp]: "configuration (put x s) = configuration s"
    and put_service [simp]: "service_ready (put x s) = service_ready s"
    and store_configuration: "configuration (store a d s) = configuration s"
    and store_service: "service_ready (store a d s) = service_ready s"
begin

lemmas store_keeps = session_store store_configuration store_service

definition store_all :: "data_packet list \<Rightarrow> sim \<Rightarrow> sim" where
  "store_all ps s = fold (\<lambda>p. store (dp_address p) (dp_words p)) ps s"

fun acceptable_all :: "data_packet list \<Rightarrow> sim \<Rightarrow> bool" where
  "acceptable_all [] s = True"
| "acceptable_all (p # ps) s =
     (acceptable s (dp_address p) (dp_words p) \<and> acceptable_all ps (store (dp_address p) (dp_words p) s))"

lemma acceptable_all_put [simp]: "acceptable_all ps (put x s) = acceptable_all ps s"
  by (induction ps arbitrary: s) (simp_all add: put_store)

lemma store_all_put: "store_all ps (put x s) = put x (store_all ps s)"
  by (induction ps arbitrary: s) (simp_all add: store_all_def put_store)

lemma store_all_keeps:
  "configuration (store_all ps s) = configuration s"
  "service_ready (store_all ps s) = service_ready s"
  by (induction ps arbitrary: s) (simp_all add: store_all_def store_keeps)

text \<open>The packets are numbered from the expected number on.\<close>

definition numbered :: "session \<Rightarrow> data_packet list \<Rightarrow> bool" where
  "numbered ses ps \<longleftrightarrow> map dp_index ps = map (\<lambda>k. ses_expected_index ses + int k) [0 ..< length ps]"

lemma numbered_Cons:
  "numbered ses (p # ps) \<longleftrightarrow> dp_index p = ses_expected_index ses \<and> numbered (advance n ses) ps"
  by (simp add: numbered_def upt_conv_Cons map_Suc_upt [symmetric] advance_def algebra_simps comp_def
      del: upt_Suc map_Suc_upt)

lemma send_packets:
  assumes "wf_ready w" "service_ready (wf_core w)" "session_of (wf_core w) = Some ses"
    and "\<not> flt_bad_block_index (sim_faults (wf_core w))" "0 \<le> wf_limit w"
    and "numbered ses ps" "list_all (deliverable (wf_core w)) ps" "acceptable_all ps (wf_core w)"
  shows "\<exists>w'. forM ps (send_packet (sim_io extra) data_cmd operation modifying n) w = (Inr (), w') \<and>
    wf_moved w (put (Some (advance_all ps ses)) (store_all ps (wf_core w))) w'"
  using assms
proof (induction ps arbitrary: w ses)
  case Nil
  have "put (Some ses) (wf_core w) = wf_core w"
    using Nil.prems(3) put_session by blast
  then show ?case
    using Nil.prems by (simp add: store_all_def wf_moved_def)
next
  case (Cons p ps)
  let ?s = "wf_core w" and ?d = "data_cmd"
  let ?t = "put (Some (advance (int (length (dp_words p))) ses)) (store (dp_address p) (dp_words p) ?s)"
  have p: "deliverable ?s p" "acceptable ?s (dp_address p) (dp_words p)" "dp_index p = ses_expected_index ses"
    using Cons.prems by (simp_all add: numbered_Cons [of ses p ps 0])
  then have sound: "packet_sound ?s ses p"
    by (simp add: packet_sound_def deliverable_def)
  note payload = packet_payload_wf [OF p(1) sim_accepts_u16 [OF Cons.prems(1)]]
  obtain t where t: "WORKFLOW_TIMEOUT_MS ?d = Some t" "0 < t"
    using timeouts(2) by auto
  have a: "answers ?s ?d (packet_payload p) [] ?t"
    using takes [OF Cons.prems(2-4) sound p(2)] .
  have fits: "int (length ([] :: int list)) \<le> wf_limit w"
    using Cons.prems(5) by simp
  obtain w1 where w1: "wf_transact (sim_io extra) ?d (packet_payload p) modifying w = (Inr [], w1)"
    "wf_moved w ?t w1"
    using wf_transact_step [OF Cons.prems(1) a t payload fits] by blast
  let ?w1 = "w1\<lparr>wf_progress := wf_progress w1 @ [(operation, dp_index p + 1, n)]\<rparr>"
  have m1: "wf_moved w ?t ?w1"
    using w1(2) by (simp add: wf_moved_def wf_ready_def wf_core_def wf_info_def wf_flags_def)
  then have core: "wf_core ?w1 = ?t" "wf_ready ?w1" "wf_limit ?w1 = wf_limit w"
    by (simp_all add: wf_moved_def wf_limit_def)
  have conf: "configuration ?t = configuration ?s"
    by (simp add: store_keeps)
  have "\<exists>w'. forM ps (send_packet (sim_io extra) ?d operation modifying n) ?w1 = (Inr (), w') \<and>
      wf_moved ?w1 (put (Some (advance_all ps (advance (int (length (dp_words p))) ses)))
        (store_all ps (wf_core ?w1))) w'"
  proof (rule Cons.IH)
    show "list_all (deliverable (wf_core ?w1)) ps"
      using Cons.prems(7) deliverable_cong [OF conf] by (simp add: core list_all_iff)
    show "numbered (advance (int (length (dp_words p))) ses) ps"
      using Cons.prems(6) numbered_Cons by blast
    show "\<not> flt_bad_block_index (sim_faults (wf_core ?w1))"
      using Cons.prems(4) conf by (simp add: core configuration_def)
  qed (use Cons.prems core in \<open>simp_all add: store_keeps\<close>)
  then obtain w' where w': "forM ps (send_packet (sim_io extra) ?d operation modifying n) ?w1 = (Inr (), w')"
    "wf_moved ?w1 (put (Some (advance_all ps (advance (int (length (dp_words p))) ses))) (store_all ps ?t)) w'"
    by (auto simp: core)
  have "send_packet (sim_io extra) ?d operation modifying n p w = (Inr (), ?w1)"
    using p(1) w1(1) by (simp add: send_packet_def deliverable_def thenM_def bindM_def packet_payload_def
        progress_def)
  then show ?case
    using w' wf_moved_trans [OF m1] by (simp add: thenM_def bindM_def store_all_put) (simp add: store_all_def)
qed

lemma acceptable_numbered:
  "map dp_index ps = map int [0 ..< length ps] \<Longrightarrow> numbered (Session n m e c) ps"
  by (simp add: numbered_def Session_def)

lemma deliverable_words: "deliverable s p \<Longrightarrow> 0 < length (dp_words p)"
  by (auto simp: deliverable_def addresses_allowed_def)

lemma packet_words_pos: "list_all (deliverable s) ps \<Longrightarrow> ps \<noteq> [] \<Longrightarrow> 0 < packet_words ps"
proof (induction ps)
  case (Cons p ps)
  have "0 \<le> packet_words ps"
    by (induction ps) (simp_all add: packet_words_def)
  then show ?case
    using deliverable_words [of s p] Cons.prems(1) by (simp add: packet_words_def add_pos_nonneg)
qed simp

lemma transfer_ok:
  assumes "wf_ready w" "wf_info w = Some info" "0 \<le> di_max_payload_words info"
    and "service_ready (wf_core w)" "session_of (wf_core w) = None"
    and "\<not> flt_bad_block_index (sim_faults (wf_core w))" "9 \<le> sim_accepts (wf_core w)"
    and "prepare_packets img (di_max_data_words info) = Inr ps" "ps \<noteq> []" "length ps \<le> 0xFFFF"
    and "u32 (packet_words ps)" "u32 (fi_entry_point img)" "addresses_allowed (wf_core w) (fi_entry_point img) 1"
    and "map dp_index ps = map int [0 ..< length ps]"
    and "list_all (deliverable (wf_core w)) ps" "acceptable_all ps (wf_core w)"
  shows "\<exists>w'. transfer (sim_io extra) img begin_cmd data_cmd end_cmd operation modifying w = (Inr (), w') \<and>
    wf_moved w (finish (put None (store_all ps (wf_core w)))) w'"
proof -
  let ?s = "wf_core w" and ?n = "int (length ps)" and ?total = "packet_words ps"
  let ?opening = "[target_code TGT_FLASH_APP, ?n, lo16 ?total, hi16 ?total, lo16 (fi_entry_point img),
    hi16 (fi_entry_point img), 0, 0, 0]"
  let ?closing = "[lo16 ?n, hi16 ?n, lo16 ?total, hi16 ?total, 0, 0]"
  let ?ses = "Session ?n ?total (fi_entry_point img) []"
  have n: "u16 ?n" "u32 ?n" and u0: "u16 0"
    using assms(10) by (simp_all add: u_simps)
  have pos: "0 < ?total"
    using packet_words_pos [OF assms(15,9)] .
  have limit: "int (length ([] :: int list)) \<le> wf_limit v" if "wf_info v = Some info" for v
    using assms(3) that by (simp add: wf_limit_def)
  obtain tb te where t: "WORKFLOW_TIMEOUT_MS begin_cmd = Some tb" "0 < tb"
    "WORKFLOW_TIMEOUT_MS end_cmd = Some te" "0 < te"
    using timeouts(1,3) by auto
  have "answers ?s begin_cmd ?opening [] (put (Some ?ses) ?s)"
    using assms(9,13) pos by (intro begins assms) (auto simp: begin_accepted_def app_request_def)
  moreover have "words16 ?opening" "int (length ?opening) \<le> sim_accepts ?s"
    using n u0 assms(7,11,12) by (simp_all add: u16_def [of "target_code TGT_FLASH_APP"])
  ultimately obtain w1 where w1: "wf_transact (sim_io extra) begin_cmd ?opening modifying w = (Inr [], w1)"
    "wf_moved w (put (Some ?ses) ?s) w1"
    using wf_transact_step [OF assms(1) _ t(1,2) _ _ limit [OF assms(2)]] by blast
  then have s1: "wf_ready w1" "wf_core w1 = put (Some ?ses) ?s" "wf_info w1 = Some info"
    using assms(2) by (simp_all add: wf_moved_def)
  have c1: "configuration (wf_core w1) = configuration ?s"
    by (simp add: s1)
  obtain w2 where w2: "forM ps (send_packet (sim_io extra) data_cmd operation modifying ?n) w1 = (Inr (), w2)"
    "wf_moved w1 (put (Some (advance_all ps ?ses)) (store_all ps (wf_core w1))) w2"
  proof -
    have "\<exists>w'. forM ps (send_packet (sim_io extra) data_cmd operation modifying ?n) w1 = (Inr (), w') \<and>
        wf_moved w1 (put (Some (advance_all ps ?ses)) (store_all ps (wf_core w1))) w'"
    proof (rule send_packets [OF s1(1)])
      show "list_all (deliverable (wf_core w1)) ps"
        using assms(15) deliverable_cong [OF c1] by (simp add: list_all_iff)
      show "\<not> flt_bad_block_index (sim_faults (wf_core w1))"
        using assms(6) c1 by (simp add: configuration_def)
      show "0 \<le> wf_limit w1"
        using limit [OF s1(3)] by simp
      show "numbered ?ses ps"
        using assms(14) by (rule acceptable_numbered)
    qed (use assms s1 in simp_all)
    then show thesis
      using that by blast
  qed
  let ?s2 = "put (Some (advance_all ps ?ses)) (store_all ps ?s)"
  have s2: "wf_ready w2" "wf_core w2 = ?s2" "wf_info w2 = Some info"
    using w2(2) s1 by (simp_all add: wf_moved_def store_all_put)
  have "answers ?s2 end_cmd ?closing [] (finish (put None ?s2))"
    using assms(4) by (intro ends) (auto simp: end_accepted_def app_request_def advance_all_fields
        store_all_keeps Session_def n)
  then have "answers (wf_core w2) end_cmd ?closing [] (finish (put None (store_all ps ?s)))"
    by (simp add: s2)
  moreover have "configuration ?s2 = configuration ?s"
    by (simp add: store_all_keeps)
  then have "words16 ?closing" "int (length ?closing) \<le> sim_accepts (wf_core w2)"
    using n u0 assms(7,11) by (simp_all add: s2 sim_accepts_def configuration_def)
  ultimately obtain w3 where w3: "wf_transact (sim_io extra) end_cmd ?closing modifying w2 = (Inr [], w3)"
    "wf_moved w2 (finish (put None (store_all ps ?s))) w3"
    using wf_transact_step [OF s2(1) _ t(3,4) _ _ limit [OF s2(3)]] by blast
  have "transfer (sim_io extra) img begin_cmd data_cmd end_cmd operation modifying w = (Inr (), w3)"
    using w1(1) w2(1) w3(1) assms(2,8,11,12) n
    by (simp add: transfer_def known_info_def wf_info_def thenM_def bindM_def)
  then show ?thesis
    using wf_moved_trans [OF wf_moved_trans [OF w1(2) w2(2)] w3(2)] by blast
qed

end

section \<open>Programming and verifying\<close>

definition prog_acceptable :: "sim \<Rightarrow> int \<Rightarrow> int list \<Rightarrow> bool" where
  "prog_acceptable s a d \<longleftrightarrow>
     (\<forall>x. flt_program_fail_at_address (sim_faults s) = Some x \<longrightarrow> x \<notin> {a ..< a + int (length d)}) \<and>
     sim_programmed s \<inter> {a ..< a + int (length d)} = {}"

definition prog_store :: "int \<Rightarrow> int list \<Rightarrow> sim \<Rightarrow> sim" where
  "prog_store a d s =
     s\<lparr>sim_flash := sim_flash s ++ cells a d,
       sim_programmed := sim_programmed s \<union> {a ..< a + int (length d)}, sim_verify_succeeded := False\<rparr>"

interpretation prog: transfer_phase CMD_PROGRAM_BEGIN CMD_PROGRAM_DATA CMD_PROGRAM_END
  sim_program_session "\<lambda>x s. s\<lparr>sim_program_session := x\<rparr>" prog_acceptable prog_store
  "\<lambda>s. s\<lparr>sim_verify_succeeded := False\<rparr>"
proof
  show "answers s CMD_PROGRAM_BEGIN payload [] (s\<lparr>sim_program_session := Some ses\<rparr>)"
    if "service_ready s" "sim_program_session s = None"
      "\<And>q. app_request CMD_PROGRAM_BEGIN payload q \<Longrightarrow> begin_accepted q s ses" for s payload ses
    using that program_begin_ok by (intro answersI) (auto simp: app_request_def)
  show "answers s CMD_PROGRAM_DATA (packet_payload p) []
      (prog_store (dp_address p) (dp_words p) s\<lparr>sim_program_session := Some (advance (int (length (dp_words p))) ses)\<rparr>)"
    if "service_ready s" "sim_program_session s = Some ses" "\<not> flt_bad_block_index (sim_faults s)"
      "packet_sound s ses p" "prog_acceptable s (dp_address p) (dp_words p)" for s ses p
  proof (rule answersI)
    fix q
    assume q: "app_request CMD_PROGRAM_DATA (packet_payload p) q"
    have "program_accepted q ses s (dp_address p) (dp_words p)"
      using packet_sound_payload [OF that(4) q] that by (simp add: program_accepted_def prog_acceptable_def)
    moreover have "programmed_state ses (dp_address p) (dp_words p) s =
        prog_store (dp_address p) (dp_words p) s\<lparr>sim_program_session := Some (advance (int (length (dp_words p))) ses)\<rparr>"
      by (simp add: programmed_state_def prog_store_def)
    ultimately show "handler CMD_PROGRAM_DATA q s = (Inr (reply_frame q ST_OK []),
        prog_store (dp_address p) (dp_words p) s\<lparr>sim_program_session := Some (advance (int (length (dp_words p))) ses)\<rparr>)"
      using program_data_effect(1) q by (simp add: app_request_def)
  qed (rule that(1))
  show "answers s CMD_PROGRAM_END payload [] (s\<lparr>sim_program_session := None\<rparr>\<lparr>sim_verify_succeeded := False\<rparr>)"
    if "service_ready s" "sim_program_session s = Some ses"
      "\<And>q. app_request CMD_PROGRAM_END payload q \<Longrightarrow> end_accepted q ses" for s payload ses
    using that program_end_ok by (intro answersI) (auto simp: app_request_def)
qed (simp_all add: prog_store_def prog_acceptable_def service_ready_def)

interpretation vrfy: transfer_phase CMD_VERIFY_BEGIN CMD_VERIFY_DATA CMD_VERIFY_END
  sim_verify_session "\<lambda>x s. s\<lparr>sim_verify_session := x\<rparr>" "\<lambda>s a d. verify_mismatch s a d = None" "\<lambda>a d s. s"
  "\<lambda>s. s\<lparr>sim_verify_succeeded := True\<rparr>"
proof
  show "answers s CMD_VERIFY_BEGIN payload [] (s\<lparr>sim_verify_session := Some ses\<rparr>)"
    if "service_ready s" "sim_verify_session s = None"
      "\<And>q. app_request CMD_VERIFY_BEGIN payload q \<Longrightarrow> begin_accepted q s ses" for s payload ses
    using that verify_begin_ok by (intro answersI) (auto simp: app_request_def)
  show "answers s CMD_VERIFY_DATA (packet_payload p) []
      (s\<lparr>sim_verify_session := Some (advance (int (length (dp_words p))) ses)\<rparr>)"
    if "service_ready s" "sim_verify_session s = Some ses" "\<not> flt_bad_block_index (sim_faults s)"
      "packet_sound s ses p" "verify_mismatch s (dp_address p) (dp_words p) = None" for s ses p
  proof (rule answersI)
    fix q
    assume q: "app_request CMD_VERIFY_DATA (packet_payload p) q"
    have "verify_accepted q ses s (dp_address p) (dp_words p)"
      using packet_sound_payload [OF that(4) q] that by (simp add: verify_accepted_def)
    then show "handler CMD_VERIFY_DATA q s = (Inr (reply_frame q ST_OK []),
        s\<lparr>sim_verify_session := Some (advance (int (length (dp_words p))) ses)\<rparr>)"
      using verify_data_ok q by (simp add: app_request_def)
  qed (rule that(1))
  show "answers s CMD_VERIFY_END payload [] (s\<lparr>sim_verify_session := None\<rparr>\<lparr>sim_verify_succeeded := True\<rparr>)"
    if "service_ready s" "sim_verify_session s = Some ses"
      "\<And>q. app_request CMD_VERIFY_END payload q \<Longrightarrow> end_accepted q ses" for s payload ses
    using that verify_end_ok by (intro answersI) (auto simp: app_request_def)
  show "(verify_mismatch (s\<lparr>sim_verify_session := x\<rparr>) a d = None) = (verify_mismatch s a d = None)" for s x a d
    by (simp add: verify_mismatch_None_iff)
qed (simp_all add: service_ready_def configuration_def)

end
