(* ===== verification/Workflow_Safety.thy ===== *)
theory Workflow_Safety
  imports Workflow
begin

text \<open>
  The workflow on an arbitrary device, working or not: an upgrade that fails after the first erase
  request leaves the workflow in a state in which it refuses to start the application.
\<close>

section \<open>Preservation\<close>

definition preserves :: "('s \<Rightarrow> bool) \<Rightarrow> ('s, 'a) sm \<Rightarrow> bool" where
  "preserves P m \<longleftrightarrow> (\<forall>s. P s \<longrightarrow> P (snd (m s)))"

lemma preservesD: "preserves P m \<Longrightarrow> P s \<Longrightarrow> m s = (r, s') \<Longrightarrow> P s'"
  by (metis preserves_def snd_conv)

lemma preserves_bindM:
  assumes "preserves P m" "\<And>x. preserves P (f x)"
  shows "preserves P (bindM m f)"
  unfolding preserves_def
proof (intro allI impI)
  fix s
  assume P: "P s"
  obtain r s' where m: "m s = (r, s')"
    by (cases "m s")
  have "P s'"
    using preservesD [OF assms(1) P m] .
  then show "P (snd (bindM m f s))"
    using assms(2) by (cases r) (simp_all add: bindM_def m preserves_def)
qed

lemma preserves_thenM: "preserves P m \<Longrightarrow> preserves P n \<Longrightarrow> preserves P (thenM m n)"
  unfolding thenM_def by (rule preserves_bindM)

lemma preserves_catchM:
  assumes "preserves P m" "\<And>e. preserves P (h e)"
  shows "preserves P (catchM m h)"
  unfolding preserves_def
proof (intro allI impI)
  fix s
  assume P: "P s"
  obtain r s' where m: "m s = (r, s')"
    by (cases "m s")
  have "P s'"
    using preservesD [OF assms(1) P m] .
  then show "P (snd (catchM m h s))"
    using assms(2) by (cases r) (simp_all add: catchM_def m preserves_def)
qed

lemma preserves_forM: "(\<And>x. preserves P (f x)) \<Longrightarrow> preserves P (forM xs f)"
  by (induction xs) (auto intro: preserves_thenM simp: preserves_def [of P "returnM ()"])

lemma preserves_basic:
  "preserves P (returnM x)" "preserves P (raiseM e)" "preserves P (liftM r)" "preserves P (getM g)"
  "(\<And>s. P s \<Longrightarrow> P (f s)) \<Longrightarrow> preserves P (modM f)"
  by (simp_all add: preserves_def)

lemma preserves_attempt: "preserves P m \<Longrightarrow> preserves P (attempt m)"
  by (auto simp: attempt_def preserves_def split: prod.splits sum.splits)

lemma preserves_if: "preserves P m \<Longrightarrow> preserves P n \<Longrightarrow> preserves P (if c then m else n)"
  by simp

lemmas preserves_rules = preserves_bindM preserves_thenM preserves_catchM preserves_forM preserves_basic
  preserves_attempt preserves_if

section \<open>What the calls leave alone\<close>

text \<open>A property of the workflow that a client call, a progress report or a timeout note keeps.\<close>

definition call_safe :: "'d pc_io_device \<Rightarrow> ('d workflow \<Rightarrow> bool) \<Rightarrow> bool" where
  "call_safe dev P \<longleftrightarrow>
     (\<forall>cmd payload t. preserves P (on_client (client_transact dev cmd payload t))) \<and>
     (\<forall>w l. P (w\<lparr>wf_progress := l\<rparr>) = P w) \<and>
     (\<forall>w d. P (w\<lparr>wf_last_error_detail := d\<rparr>) = P w) \<and>
     (\<forall>w d. P (w\<lparr>wf_last_probe_succeeded := d\<rparr>) = P w) \<and>
     (\<forall>w b. P w \<longrightarrow> P (note_timeout b w))"

lemma on_client_bindM: "on_client (bindM m f) = bindM (on_client m) (\<lambda>x. on_client (f x))"
  by (auto simp: fun_eq_iff on_client_def bindM_def split: prod.split sum.split)

lemma on_client_catchM: "on_client (catchM m h) = catchM (on_client m) (\<lambda>e. on_client (h e))"
  by (auto simp: fun_eq_iff on_client_def catchM_def split: prod.split sum.split)

lemma on_client_basic:
  "on_client (liftM r) = liftM r" "on_client (returnM x) = returnM x" "on_client (raiseM e) = raiseM e"
  by (simp_all add: fun_eq_iff on_client_def)

lemma preserves_issue:
  "call_safe dev P \<Longrightarrow> preserves P (on_client (issue dev cmd payload t))"
  unfolding issue_def thenM_def on_client_bindM on_client_basic call_safe_def
  by (intro preserves_rules) blast

lemma preserves_get_last_error: "call_safe dev P \<Longrightarrow> preserves P (on_client (get_last_error dev))"
  unfolding get_last_error_def on_client_bindM on_client_basic call_safe_def
  by (intro preserves_rules) blast

lemma preserves_progress: "call_safe dev P \<Longrightarrow> preserves P (progress operation k n)"
  by (simp add: progress_def preserves_def call_safe_def)

lemma preserves_wf_transact:
  assumes "call_safe dev P"
  shows "preserves P (wf_transact dev cmd payload modifying)"
proof -
  have c: "preserves P (on_client (client_transact dev cmd payload t))" for cmd payload t
    using assms by (simp add: call_safe_def)
  have keep: "preserves P (modM (\<lambda>w. w\<lparr>wf_last_error_detail := f\<rparr>))"
    "preserves P (modM (\<lambda>w. w\<lparr>wf_last_probe_succeeded := g\<rparr>))" "preserves P (modM (note_timeout b))" for f g b
    using assms by (simp_all add: call_safe_def preserves_def)
  have ping: "preserves P (on_client (ping dev t))" for t
    unfolding ping_def by (rule preserves_issue [OF assms])
  show ?thesis
    unfolding wf_transact_def
    by (rule preserves_catchM)
      (auto split: option.split exc.split
        intro!: preserves_rules(1,2,5,6,10) c keep ping preserves_get_last_error [OF assms])
qed

lemma preserves_send_packet:
  "call_safe dev P \<Longrightarrow> preserves P (send_packet dev cmd operation modifying n p)"
  unfolding send_packet_def
  by (intro preserves_bindM preserves_basic)
    (auto intro!: preserves_rules preserves_wf_transact preserves_progress)

lemma preserves_known_info: "preserves P known_info"
  unfolding known_info_def by (auto intro!: preserves_rules split: option.split)

lemma preserves_transfer:
  "call_safe dev P \<Longrightarrow> preserves P (transfer dev img b d e operation modifying)"
  unfolding transfer_def
  by (auto intro!: preserves_bindM preserves_thenM preserves_forM preserves_basic(1-3) preserves_known_info
      preserves_wf_transact preserves_send_packet)

lemma preserves_append_image_valid:
  "call_safe dev P \<Longrightarrow> preserves P (on_client (metadata_append_image_valid dev e n c z v1 v2 v3 v4 t))"
  unfolding metadata_append_image_valid_def on_client_bindM
  by (auto simp: on_client_basic on_client_bindM intro!: preserves_bindM preserves_basic(1-3) preserves_issue)

text \<open>The Flash was modified and not verified since.\<close>

definition stale :: "'d workflow \<Rightarrow> bool" where
  "stale w \<longleftrightarrow> wf_flash_modified w \<and> \<not> wf_verify_succeeded w"

lemma stale_call_safe: "call_safe dev stale"
  by (auto simp: call_safe_def preserves_def stale_def note_timeout_def on_client_def split: prod.splits)

text \<open>No exchange changes what the client knows about the device.\<close>

lemma preserves_on_device: "(\<And>c d. P (c\<lparr>cl_device := d\<rparr>) = P c) \<Longrightarrow> preserves P (on_device m)"
  by (auto simp: preserves_def on_device_def split: prod.splits)

lemma client_transact_info: "preserves (\<lambda>c. cl_device_info c = i) (client_transact dev cmd payload t)"
  unfolding client_transact_def await_response_def read_response_frame_def trace_def bump_sequence_def
  by (auto intro!: preserves_bindM preserves_thenM preserves_basic preserves_if preserves_on_device
      split: sum.split exc.split)

lemma info_call_safe: "call_safe dev (\<lambda>w. cl_device_info (wf_client w) = i)"
proof -
  have "preserves (\<lambda>w. cl_device_info (wf_client w) = i) (on_client (client_transact dev cmd payload t))" for cmd payload t
    using client_transact_info [of i dev cmd payload t]
    by (auto simp: preserves_def on_client_def split: prod.splits)
  then show ?thesis
    by (simp add: call_safe_def note_timeout_def)
qed

section \<open>The packets of an image\<close>

lemma image_cells_nonempty:
  "b \<in> set bs \<Longrightarrow> fb_words b \<noteq> [] \<Longrightarrow> image_cells bs \<noteq> Map.empty"
proof (induction bs)
  case (Cons c bs)
  show ?case
  proof (cases "fb_words c = []")
    case True
    then show ?thesis
      using Cons by (auto simp: block_cells_def)
  next
    case False
    then have "block_cells c (fb_address c) \<noteq> None"
      by (simp add: block_cells_def cells_def)
    then show ?thesis
      by (metis image_cells.simps(2) map_add_None)
  qed
qed simp

lemma packet_loop_longer:
  "packet_loop a ws m k ps = Inr qs \<Longrightarrow> length ps + (if k < int (length ws) then 1 else 0) \<le> length qs"
proof (induction a ws m k ps rule: packet_loop.induct)
  case (1 a ws m k ps)
  show ?case
  proof (cases "k < int (length ws)")
    case True
    then show ?thesis
      using 1 packet_loop.simps [of a ws m k ps] by (fastforce simp: Let_def split: sum.splits if_splits)
  next
    case False
    then show ?thesis
      using 1(2) packet_loop.simps [of a ws m k ps] by simp
  qed
qed

lemma packet_loops_longer:
  "foldE (\<lambda>block. packet_loop (fb_address block) (fb_words block) m 0) bs ps = Inr qs \<Longrightarrow> length ps \<le> length qs"
proof (induction bs arbitrary: ps)
  case (Cons b bs)
  then show ?case
    using packet_loop_longer by (fastforce simp: bindE_Inr_iff)
qed simp

lemma prepare_packets_nonempty:
  assumes "image_wf img" "prepare_packets img m = Inr ps"
  shows "ps \<noteq> []"
proof -
  note ms = merge_contiguous_spec [OF assms(1)]
  have "fi_blocks img \<noteq> []"
    using assms(1) by (simp add: image_wf_def)
  then obtain c where c: "c \<in> set (fi_blocks img)" "fb_words c \<noteq> []"
    using assms(1) by (cases "fi_blocks img") (auto simp: image_wf_def block_wf_def)
  have "image_cells (fi_blocks img) \<noteq> Map.empty"
    using image_cells_nonempty [OF c] .
  then obtain b bs where b: "merged_blocks img = b # bs"
    using ms by (cases "merged_blocks img") auto
  then have "fb_words b \<noteq> []"
    using ms by (simp add: block_wf_def)
  then show ?thesis
    using assms(2) ms packet_loop_longer [of "fb_address b" "fb_words b" m 0 "[]"] packet_loops_longer [of m bs]
    by (fastforce simp: prepare_packets_def b bindE_Inr_iff split: if_splits)
qed

section \<open>The upgrade\<close>

lemma erase_stale:
  assumes "0 < k" "k \<le> 0xFFFFFFFF" "wf_erase dev k w = (r, w')"
  shows "stale w'"
proof -
  have eq: "wf_erase dev k w = thenM (wf_transact dev CMD_ERASE [lo16 k, hi16 k, 0] True) (returnM ())
      (w\<lparr>wf_flash_modified := True, wf_verify_succeeded := False\<rparr>)"
    using assms(1,2) by (simp add: wf_erase_def modify_flash_def u_simps)
  have "preserves stale (thenM (wf_transact dev CMD_ERASE [lo16 k, hi16 k, 0] True) (returnM ()))"
    by (intro preserves_rules preserves_wf_transact stale_call_safe)
  moreover have "stale (w\<lparr>wf_flash_modified := True, wf_verify_succeeded := False\<rparr>)"
    by (simp add: stale_def)
  ultimately show ?thesis
    using preservesD eq assms(3) by metis
qed

lemma program_stale: "preserves stale (wf_program dev img)"
  unfolding wf_program_def modify_flash_def
  by (intro preserves_thenM preserves_basic preserves_transfer [OF stale_call_safe]) (simp add: stale_def)

lemma verify_cases:
  assumes "wf_verify dev img w = (r, w')" "stale w" "image_wf img"
  shows "(\<exists>e. r = Inl e) \<and> stale w' \<or>
    r = Inr () \<and> wf_flash_modified w' \<and>
    (\<exists>info x. known_info w' = (Inr info, w') \<and>
       programmed_image_size_and_end img (di_max_data_words info) = Inr x)"
proof (cases "validate_app_firmware_image img")
  case (Inl e)
  then have "wf_verify dev img w = (Inl e, w)"
    by (simp add: wf_verify_def thenM_def)
  then show ?thesis
    using assms(1,2) by simp
next
  case (Inr u)
  let ?w = "w\<lparr>wf_verify_succeeded := False\<rparr>" and ?m = "transfer dev img CMD_VERIFY_BEGIN CMD_VERIFY_DATA CMD_VERIFY_END
      ''Verify'' False"
  obtain t w1 where t: "?m ?w = (t, w1)"
    by (cases "?m ?w")
  have st: "stale ?w"
    using assms(2) by (simp add: stale_def)
  note keeps = preservesD [OF preserves_transfer _ t]
  have w1: "stale w1" "cl_device_info (wf_client w1) = cl_device_info (wf_client w)"
    using keeps [OF stale_call_safe st] keeps [OF info_call_safe [of dev "cl_device_info (wf_client w)"]] by simp_all
  have v: "wf_verify dev img w = (case t of Inl e \<Rightarrow> (Inl e, w1)
      | Inr _ \<Rightarrow> (Inr (), w1\<lparr>wf_verify_succeeded := True, wf_state := WS_READY\<rparr>))"
    using t Inr by (simp add: wf_verify_def thenM_def bindM_def split: sum.split)
  show ?thesis
  proof (cases t)
    case (Inl e)
    then show ?thesis
      using v assms(1) w1(1) by auto
  next
    case ok: (Inr y)
    obtain info ps where info: "cl_device_info (wf_client w) = Some info"
      "prepare_packets img (di_max_data_words info) = Inr ps"
      using t unfolding ok transfer_def known_info_def
      by (auto simp: bindM_Inr_iff split: option.splits)
    have "\<exists>x. programmed_image_size_and_end img (di_max_data_words info) = Inr x"
      using prepare_packets_nonempty [OF assms(3) info(2)] by (simp add: programmed_image_size_and_end_def info(2))
    then show ?thesis
      using v assms(1) w1 ok info(1) by (auto simp: known_info_def stale_def)
  qed
qed

lemma append_valid_failed:
  assumes "append_valid_record dev img m n z w = (Inl e, w')" "is_exception e" "wf_flash_modified w"
  shows "stale w'"
proof -
  let ?m = "bindM (liftM (calculate_programmed_image_crc32 img m)) (\<lambda>image_crc32.
    on_client (metadata_append_image_valid dev (fi_entry_point img) n image_crc32 z 0 0 0 0
      (WORKFLOW_TIMEOUT_MS CMD_METADATA_APPEND_RECORD)))"
  have safe: "call_safe dev wf_flash_modified"
    by (auto simp: call_safe_def preserves_def note_timeout_def on_client_def split: prod.splits)
  have "preserves wf_flash_modified ?m"
    by (intro preserves_rules preserves_append_image_valid [OF safe])
  then have "wf_flash_modified w1" if "?m w = (r, w1)" for r w1
    using preservesD [of wf_flash_modified ?m w r w1] assms(3) that by blast
  then show ?thesis
    using assms(1,2)
    by (auto simp: append_valid_record_def catchM_def stale_def split: prod.splits sum.splits if_splits)
qed

lemma dfu_failed_stale:
  assumes "dfu dev k img w = (Inl e, w')" "is_exception e" "image_wf img"
    and "validate_app_firmware_image img = Inr ()" "0 < k" "k \<le> 0xFFFFFFFF"
  shows "stale w'"
proof -
  obtain r1 w1 where e1: "wf_erase dev k w = (r1, w1)"
    by (cases "wf_erase dev k w")
  obtain r2 w2 where e2: "wf_program dev img w1 = (r2, w2)"
    by (cases "wf_program dev img w1")
  obtain r3 w3 where e3: "wf_verify dev img w2 = (r3, w3)"
    by (cases "wf_verify dev img w2")
  have s1: "stale w1"
    using erase_stale [OF assms(5,6) e1] .
  have s2: "stale w2"
    using preservesD [OF program_stale s1 e2] .
  note v = verify_cases [OF e3 s2 assms(3)]
  show ?thesis
  proof (cases "(\<exists>e. r1 = Inl e) \<or> (\<exists>e. r2 = Inl e) \<or> (\<exists>e. r3 = Inl e)")
    case True
    then show ?thesis
      using assms(1,4) e1 e2 e3 s1 s2 v
      by (cases r1; cases r2; cases r3) (auto simp: dfu_def thenM_def bindM_def)
  next
    case False
    then obtain info x where ok: "r1 = Inr ()" "r2 = Inr ()" "r3 = Inr ()" "wf_flash_modified w3"
      "known_info w3 = (Inr info, w3)" "programmed_image_size_and_end img (di_max_data_words info) = Inr x"
      using v by (cases r1; cases r2; cases r3) auto
    obtain n z where x: "x = (n, z)"
      by (cases x)
    have "append_valid_record dev img (di_max_data_words info) n z w3 = (Inl e, w')"
      using assms(1,4) e1 e2 e3 ok x
      by (auto simp: dfu_def thenM_def bindM_def progress_def split: prod.splits sum.splits)
    then show ?thesis
      using append_valid_failed assms(2) ok(4) by blast
  qed
qed

lemma stale_refuses_run:
  assumes "stale w"
  shows "\<exists>e. wf_run dev img w = (Inl e, w)"
  using assms by (cases "validate_app_firmware_image img") (auto simp: wf_run_def stale_def thenM_def)

text \<open>
  C3.  A failed upgrade blocks the start.  Whatever the device answers or fails to answer, an
  upgrade that raises an exception after its first request leaves a workflow in which \<open>run\<close>, for any
  image, raises an error and sends nothing.
\<close>

theorem failed_upgrade_blocks_run:
  assumes "dfu dev k img w = (Inl e, w')" "is_exception e" "image_wf img"
    and "validate_app_firmware_image img = Inr ()" "0 < k" "k \<le> 0xFFFFFFFF"
  shows "\<exists>e'. wf_run dev' other w' = (Inl e', w')"
  using stale_refuses_run [OF dfu_failed_stale [OF assms]] .

text \<open>A device that is not open.\<close>

definition dead_io :: "unit pc_io_device" where
  "dead_io = \<lparr>io_open = returnM (), io_wait_slave = (\<lambda>_. returnM ()), io_clear_input = raiseM (IoDeviceNotOpenError ''closed''),
     io_write_bytes = (\<lambda>_. raiseM (IoDeviceNotOpenError ''closed'')), io_read_available = returnM [],
     io_input_bytes_pending = (\<lambda>_. None), io_close = returnM (), io_polls = (\<lambda>_. 1)\<rparr>"

definition dead_workflow :: "unit workflow" where
  "dead_workflow = UpgradeWorkflow (projr (ProtocolClient () 1000 0 True)) []"

lemma failed_upgrade_blocks_run_witness:
  "\<exists>w' e'. dfu dead_io 2 example_image dead_workflow = (Inl (IoDeviceNotOpenError ''closed''), w') \<and>
     wf_run dead_io example_image w' = (Inl e', w')"
proof -
  have "fst (dfu dead_io 2 example_image dead_workflow) = Inl (IoDeviceNotOpenError ''closed'')"
    using example_image_app
    by (simp add: dfu_def wf_erase_def modify_flash_def wf_transact_def client_transact_def thenM_def bindM_def
        catchM_def on_client_def on_device_def dead_io_def dead_workflow_def UpgradeWorkflow_def ProtocolClient_def
        u_simps bump_sequence_def request_of_def encode_bytes_Inr)
  then obtain w' where d: "dfu dead_io 2 example_image dead_workflow = (Inl (IoDeviceNotOpenError ''closed''), w')"
    by (metis prod.collapse)
  show ?thesis
    using d failed_upgrade_blocks_run [OF d _ example_image_wf example_image_app, of dead_io example_image]
    by (simp add: is_exception_def)
qed

end
