(* ===== verification/Upgrade.thy ===== *)
theory Upgrade
  imports Upgrade_Image Upgrade_Steps Workflow_Safety
begin

text \<open>
  The whole upgrade on the simulated device: \<open>UpgradeWorkflow.dfu\<close> erases, programs, verifies and
  records an image, and when it returns the device's Flash holds the image and the metadata vouches
  for it; \<open>UpgradeWorkflow.run\<close> then starts it.
\<close>

section \<open>Sectors\<close>

lemma and_push_bit_1: "(m :: int) AND push_bit n 1 \<noteq> 0 \<longleftrightarrow> bit m n"
proof -
  have "bit (m AND push_bit n 1) k \<longleftrightarrow> k = n \<and> bit m n" for k
    by (auto simp: bit_simps)
  then show ?thesis
    by (auto simp: bit_eq_iff)
qed

lemma selected_sectors_iff:
  "sec \<in> set (selected_sectors m secs) \<longleftrightarrow> (\<exists>n < length secs. secs ! n = sec \<and> bit m n)"
  unfolding selected_sectors_def enumerate_eq_zip
proof -
  have "(\<lambda>(index, sec). m AND push_bit index 1 \<noteq> 0) = (\<lambda>(index, sec :: flash_sector). bit m index)"
    by (simp only: and_push_bit_1)
  then show "sec \<in> set (map snd (filter (\<lambda>(index, sec). m AND push_bit index 1 \<noteq> 0) (zip [0 ..< 0 + length secs] secs))) \<longleftrightarrow>
      (\<exists>n < length secs. secs ! n = sec \<and> bit m n)"
    by (force simp: set_zip image_iff)
qed

lemma SECTORS_default:
  "\<forall>(s, e, n) \<in> set SECTORS. n < length default_sectors \<and> fs_start (default_sectors ! n) = s \<and>
     fs_end_exclusive (default_sectors ! n) = e \<and> e mod 8 = 0"
  by (simp add: SECTORS_def default_sectors_def sector_def fs_end_exclusive_def)

lemma in_default_sectors:
  assumes "sim_sectors s = default_sectors" "0x080000 \<le> x" "x < 0x0C0000"
  shows "in_sectors s x"
proof -
  obtain sec where "sec \<in> set SECTORS" "fst sec \<le> x" "x < fst (snd sec)"
    using SECTORS_cover [OF assms(2,3)] by blast
  then have "snd (snd sec) < length default_sectors" "fs_contains (default_sectors ! snd (snd sec)) x"
    using SECTORS_default by (auto simp: fs_contains_def)
  then show ?thesis
    using assms(1) nth_mem by (auto simp: in_sectors_def list_ex_iff)
qed

lemma app_addresses_allowed:
  assumes "sim_sectors s = default_sectors" "\<not> flt_illegal_address (sim_faults s)"
    and "0 < n" "0x082400 \<le> a" "a + n \<le> 0x0C0000"
  shows "addresses_allowed s a n"
  using assms in_default_sectors [OF assms(1)]
  by (simp add: addresses_allowed_def Let_def slot_defs list_all_iff)

text \<open>A mask that covers the image selects the sectors of all packets of an aligned image.\<close>

lemma packets_selected:
  assumes "image_wf img" "aligned_image img" "0 < m" "m mod 8 = 0" "prepare_packets img m = Inr ps"
    and "validate_sector_mask_for_image k img = Inr ()" "packet_cells ps x \<noteq> None"
  shows "list_ex (\<lambda>sec. fs_contains sec x) (selected_sectors k default_sectors)"
proof -
  have app: "validate_app_firmware_image img = Inr ()" and cover: "image_sector_mask img AND NOT k = 0"
    using assms(6) by (auto simp: validate_sector_mask_for_image_def bindE_Inr_iff Let_def split: if_splits)
  obtain b g where b: "b \<in> set (fi_blocks img)" "fb_address b \<le> g" "g < fb_end_exclusive b"
    and g: "g mod 8 = 0" "g \<le> x" "x < g + 8"
    using aligned_packet_group [OF assms(1-5,7)] by (elim bexE exE conjE) (rule that)
  have "0x082400 \<le> fb_address b" "fb_end_exclusive b \<le> 0x0C0000"
    using app b by (auto simp: validate_app_ok_iff list_all_iff)
  then obtain sec where sec: "sec \<in> set SECTORS" "fst sec \<le> g" "g < fst (snd sec)"
    using SECTORS_cover [of g] b by auto
  then have "touches b sec"
    using b by (auto simp: touches_def split: prod.splits)
  then have "bit k (snd (snd sec))"
    using b(1) sec(1) bit_image_sector_mask [of img] cover by (auto simp: and_not_eq_0_iff)
  moreover have "fst (snd sec) mod 8 = 0" "snd (snd sec) < length default_sectors"
    "fs_start (default_sectors ! snd (snd sec)) = fst sec"
    "fs_end_exclusive (default_sectors ! snd (snd sec)) = fst (snd sec)"
    using sec(1) SECTORS_default by auto
  moreover from this have "x < fst (snd sec)"
    using sec(3) g by presburger
  ultimately show ?thesis
    using sec(2) g(2) selected_sectors_iff [of "default_sectors ! snd (snd sec)" k default_sectors]
    by (auto simp: list_ex_iff fs_contains_def intro!: bexI [of _ "default_sectors ! snd (snd sec)"])
qed

section \<open>The state after each phase\<close>

lemma prog_store_all:
  "prog.store_all ps s = s\<lparr>sim_flash := sim_flash s ++ packet_cells ps,
     sim_programmed := sim_programmed s \<union> dom (packet_cells ps),
     sim_verify_succeeded := ps = [] \<and> sim_verify_succeeded s\<rparr>"
proof (induction ps arbitrary: s)
  case Nil
  then show ?case
    by (simp add: prog.store_all_def packet_cells_Nil)
next
  case (Cons p ps)
  have "dom (packet_cells (p # ps)) =
      {dp_address p ..< dp_address p + int (length (dp_words p))} \<union> dom (packet_cells ps)"
    by (auto simp: packet_cells_Cons cells_def split: if_splits)
  moreover have "prog.store_all (p # ps) s = prog.store_all ps (prog_store (dp_address p) (dp_words p) s)"
    by (simp add: prog.store_all_def)
  ultimately show ?case
    unfolding \<open>prog.store_all (p # ps) s = _\<close> Cons.IH
    by (simp add: prog_store_def packet_cells_Cons Un_assoc)
qed

lemma prog_acceptable_all:
  assumes "flt_program_fail_at_address (sim_faults s) = None" "sorted_wrt packet_before ps"
    and "sim_programmed s \<inter> dom (packet_cells ps) = {}"
  shows "prog.acceptable_all ps s"
  using assms
proof (induction ps arbitrary: s)
  case (Cons p ps)
  let ?r = "{dp_address p ..< dp_address p + int (length (dp_words p))}"
  have d: "dom (packet_cells (p # ps)) = ?r \<union> dom (packet_cells ps)"
    by (auto simp: packet_cells_Cons cells_def split: if_splits)
  have "?r \<inter> dom (packet_cells ps) = {}"
  proof -
    have "packet_cells ps x = None" if "x \<in> ?r" for x
    proof (rule ccontr)
      assume "packet_cells ps x \<noteq> None"
      then obtain q where "q \<in> set ps" "dp_address q \<le> x"
        using packet_cells_dom [of ps x] by blast
      then show False
        using Cons.prems(2) that by (auto simp: packet_before_def)
    qed
    then show ?thesis
      by auto
  qed
  then have "prog.acceptable_all ps (prog_store (dp_address p) (dp_words p) s)"
    using Cons.prems d by (intro Cons.IH) (auto simp: prog_store_def)
  moreover have "prog_acceptable s (dp_address p) (dp_words p)"
    using Cons.prems d by (auto simp: prog_acceptable_def)
  ultimately show ?case
    by (simp only: prog.acceptable_all.simps)
qed (simp only: prog.acceptable_all.simps)

lemma vrfy_store_all: "vrfy.store_all ps s = s"
  by (induction ps) (simp_all add: vrfy.store_all_def)

lemma vrfy_acceptable_all:
  assumes "flt_verify_fail_at_address (sim_faults s) = None"
    and "\<And>p i. p \<in> set ps \<Longrightarrow> i < length (dp_words p) \<Longrightarrow> sim_flash s (dp_address p + int i) = Some (dp_words p ! i)"
  shows "vrfy.acceptable_all ps s"
  using assms(2)
proof (induction ps)
  case Nil
  then show ?case
    by (simp only: vrfy.acceptable_all.simps)
next
  case (Cons p ps)
  have "verify_mismatch s (dp_address p) (dp_words p) = None"
    using Cons.prems [of p] assms(1) by (simp add: verify_mismatch_None_iff mem_get_def)
  moreover have "vrfy.acceptable_all ps s"
    using Cons.prems by (intro Cons.IH) simp
  ultimately show ?case
    by (simp only: vrfy.acceptable_all.simps)
qed

section \<open>Erasing\<close>

text \<open>A simulator with the standard sectors, no faults and its service commands open.\<close>

definition plain_sim :: "sim \<Rightarrow> bool" where
  "plain_sim s \<longleftrightarrow> sim_sectors s = default_sectors \<and> sim_faults s = no_faults \<and> service_ready s"

definition plain_workflow :: "sim_device workflow \<Rightarrow> bool" where
  "plain_workflow w \<longleftrightarrow>
     wf_ready w \<and> plain_sim (wf_core w) \<and> wf_info w = Some (sim_device_info (wf_core w))"

lemma plain_faults:
  assumes "plain_sim s"
  shows "\<not> flt_erase_fail (sim_faults s)" "\<not> flt_illegal_address (sim_faults s)"
    "\<not> flt_bad_block_index (sim_faults s)" "flt_program_fail_at_address (sim_faults s) = None"
    "flt_verify_fail_at_address (sim_faults s) = None"
proof -
  have "sim_faults s = no_faults"
    using assms by (simp only: plain_sim_def)
  then show "\<not> flt_erase_fail (sim_faults s)" "\<not> flt_illegal_address (sim_faults s)"
    "\<not> flt_bad_block_index (sim_faults s)" "flt_program_fail_at_address (sim_faults s) = None"
    "flt_verify_fail_at_address (sim_faults s) = None"
    by (simp_all add: no_faults_def)
qed

lemma plain_workflowD:
  assumes "plain_workflow w"
  shows "wf_ready w" "plain_sim (wf_core w)" "wf_info w = Some (sim_device_info (wf_core w))"
    "service_ready (wf_core w)" "sim_sectors (wf_core w) = default_sectors"
  using assms by (simp_all only: plain_workflow_def plain_sim_def)

lemma plain_info:
  assumes "plain_workflow w"
  shows "device_info_wf (sim_device_info (wf_core w))" "0 < di_max_data_words (sim_device_info (wf_core w))"
    "di_max_data_words (sim_device_info (wf_core w)) mod 8 = 0"
    "di_max_data_words (sim_device_info (wf_core w)) + 5 \<le> sim_accepts (wf_core w)"
    "wf_limit w = sim_accepts (wf_core w)" "13 \<le> sim_accepts (wf_core w)"
proof -
  note w = plain_workflowD [OF assms]
  show d: "device_info_wf (sim_device_info (wf_core w))"
    using sim_reachable_wf [OF wf_ready_reachable [OF w(1)]] by (simp only: sim_wf_def)
  then show p: "0 < di_max_data_words (sim_device_info (wf_core w))"
    "di_max_data_words (sim_device_info (wf_core w)) mod 8 = 0"
    by (simp_all only: device_info_wf_def)
  show l: "di_max_data_words (sim_device_info (wf_core w)) + 5 \<le> sim_accepts (wf_core w)"
    using d by (simp only: device_info_wf_def sim_accepts_def)
  show "wf_limit w = sim_accepts (wf_core w)"
    by (simp only: w(3) wf_limit_def sim_accepts_def option.case)
  show "13 \<le> sim_accepts (wf_core w)"
    using p l by presburger
qed

lemma plain_moved:
  assumes "plain_workflow w" "wf_moved v s w'" "wf_info v = wf_info w"
    and "configuration s = configuration (wf_core w)" "service_ready s"
  shows "plain_workflow w'"
proof -
  note w = plain_workflowD [OF assms(1)]
  have c: "sim_sectors s = default_sectors" "sim_faults s = no_faults"
    "sim_device_info s = sim_device_info (wf_core w)"
    using assms(4) w(2) unfolding configuration_def plain_sim_def prod.inject by metis+
  have m: "wf_ready w'" "wf_core w' = s" "wf_info w' = Some (sim_device_info s)"
    using assms(2) unfolding wf_moved_def assms(3) w(3) c(3) by blast+
  show ?thesis
    unfolding plain_workflow_def plain_sim_def m(2) using m(1,3) c(1,2) assms(5) by blast
qed

lemma erase_mask_bounds:
  assumes "validate_manual_erase_mask k = Inr ()"
  shows "0 < k" "k \<le> 0x3FFE" "k AND NOT 0x3FFF = 0"
proof -
  have k: "k \<noteq> 0" "k AND NOT 0x3FFE = 0"
    using assms unfolding validate_manual_ok_iff ALLOWED_ERASE_MASK_def by blast+
  have n: "bit k n \<Longrightarrow> bit (0x3FFE :: int) n" for n
    using k(2) unfolding and_not_eq_0_iff by blast
  have eq: "k = k AND 0x3FFE"
    by (rule bit_eqI) (use n in \<open>auto simp only: bit_and_iff\<close>)
  have "0 \<le> k AND 0x3FFE" "k AND 0x3FFE \<le> 0x3FFE"
    by (simp_all only: AND_upper2 and_nonnegative_int_iff) simp_all
  then show "0 < k" "k \<le> 0x3FFE"
    using eq k(1) by linarith+
  have "bit (0x3FFF :: int) n" if "bit (0x3FFE :: int) n" for n
  proof -
    have "(0x3FFF :: int) = 0x3FFE OR 1"
      by simp
    then show ?thesis
      using that by (simp only: bit_or_iff simp_thms)
  qed
  then show "k AND NOT 0x3FFF = 0"
    unfolding and_not_eq_0_iff using n by blast
qed

definition modified :: "'d workflow \<Rightarrow> 'd workflow" where
  "modified w = w\<lparr>wf_flash_modified := True, wf_verify_succeeded := False\<rparr>"

lemma modified_simps [simp]:
  "wf_client (modified w) = wf_client w" "wf_flags (modified w) = (wf_allowed_flash_ranges w, wf_state w,
     True, False, wf_last_probe_succeeded w, wf_last_error_detail w)"
  by (simp_all add: modified_def wf_flags_def)

lemma modified_keeps [simp]:
  "wf_ready (modified w) = wf_ready w" "wf_core (modified w) = wf_core w" "wf_info (modified w) = wf_info w"
  "wf_limit (modified w) = wf_limit w"
  by (simp_all only: wf_ready_def wf_core_def wf_info_def wf_limit_def modified_simps)

lemma modified_plain: "plain_workflow (modified w) = plain_workflow w"
  by (simp only: plain_workflow_def modified_keeps)

lemma length_default_sectors: "length default_sectors = 14"
  by (simp add: default_sectors_def)

lemma erase_accepted_payload:
  assumes "fr_payload q = [lo16 k, hi16 k, 0]" "length (sim_sectors s) = 14" "0 < k" "k AND NOT 0x3FFF = 0"
    and "\<not> flt_erase_fail (sim_faults s)"
  shows "erase_accepted q s k"
proof -
  have n: "push_bit 14 1 - 1 = (0x3FFF :: int)"
    by simp
  show ?thesis
    unfolding erase_accepted_def Let_def assms(1,2) n using assms(3-5) by (simp del: not_numeral_eq)
qed

lemma erase_answers:
  assumes "plain_sim s" "validate_manual_erase_mask k = Inr ()"
  shows "answers s CMD_ERASE [lo16 k, hi16 k, 0] [] (erased_state k s)"
proof (rule answersI)
  note k = erase_mask_bounds [OF assms(2)]
  have "sim_sectors s = default_sectors"
    using assms(1) by (simp only: plain_sim_def)
  then have "length (sim_sectors s) = 14"
    by (simp only: length_default_sectors)
  fix q
  assume q: "app_request CMD_ERASE [lo16 k, hi16 k, 0] q"
  then have p: "fr_payload q = [lo16 k, hi16 k, 0]" "frame_wf q"
    by (simp_all only: app_request_def)
  then have "erase_accepted q s k"
    using erase_accepted_payload [OF p(1) \<open>length (sim_sectors s) = 14\<close> k(1,3) plain_faults(1) [OF assms(1)]]
    by blast
  then show "handler CMD_ERASE q s = (Inr (reply_frame q ST_OK []), erased_state k s)"
    using erase_effect(1) p by simp
next
  show "service_ready s"
    using assms(1) by (simp only: plain_sim_def)
qed

lemma erase_step:
  assumes "plain_workflow w" "validate_manual_erase_mask k = Inr ()"
  shows "\<exists>w'. wf_erase (sim_io extra) k w = (Inr (), w') \<and>
    wf_moved (modified w) (erased_state k (wf_core w)) w'"
proof -
  note w = plain_workflowD [OF assms(1)]
  note k = erase_mask_bounds [OF assms(2)]
  have u: "u32 k"
    using k(1,2) by (simp add: u_simps)
  then have u: "u32 k" "words16 [lo16 k, hi16 k, 0]"
    by simp_all
  have a: "answers (wf_core (modified w)) CMD_ERASE [lo16 k, hi16 k, 0] [] (erased_state k (wf_core w))"
    using erase_answers [OF w(2) assms(2)] by simp
  have fits: "int (length [lo16 k, hi16 k, 0]) \<le> sim_accepts (wf_core (modified w))"
    "int (length ([] :: int list)) \<le> wf_limit (modified w)" "wf_ready (modified w)"
    using plain_info(5,6) [OF assms(1)] w(1) by simp_all
  obtain w' where "wf_transact (sim_io extra) CMD_ERASE [lo16 k, hi16 k, 0] True (modified w) = (Inr [], w')"
    "wf_moved (modified w) (erased_state k (wf_core w)) w'"
    using wf_transact_step [OF fits(3) a _ _ u(2) fits(1,2), of 60000] by auto
  then show ?thesis
    using k u by (simp add: wf_erase_def modify_flash_def thenM_def bindM_def modified_def)
qed

section \<open>Programming\<close>

text \<open>An application image whose packets fit the connected device.\<close>

definition uploads :: "sim \<Rightarrow> firmware_image \<Rightarrow> data_packet list \<Rightarrow> bool" where
  "uploads s img ps \<longleftrightarrow>
     image_wf img \<and> aligned_image img \<and> validate_app_firmware_image img = Inr () \<and>
     prepare_packets img (di_max_data_words (sim_device_info s)) = Inr ps"

lemma uploads_packets:
  assumes "plain_workflow w" "uploads (wf_core w) img ps"
  shows "map dp_index ps = map int [0 ..< length ps]" "length ps \<le> 0xFFFF" "sorted_wrt packet_before ps"
    "image_cells (fi_blocks img) \<subseteq>\<^sub>m packet_cells ps"
    "\<forall>x v. packet_cells ps x = Some v \<longrightarrow> image_cells (fi_blocks img) x = None \<longrightarrow> v = 0xFFFF"
    "ps \<noteq> []" "0 < packet_words ps" "packet_words ps \<le> 0x3DC00" "list_all (deliverable (wf_core w)) ps"
    "\<And>x. packet_cells ps x \<noteq> None \<Longrightarrow> 0x082400 \<le> x \<and> x < 0x0C0000"
proof -
  let ?m = "di_max_data_words (sim_device_info (wf_core w))"
  note w = plain_workflowD [OF assms(1)]
  note info = plain_info [OF assms(1)]
  have img: "image_wf img" "aligned_image img" "validate_app_firmware_image img = Inr ()"
    "prepare_packets img ?m = Inr ps"
    using assms(2) by (simp_all only: uploads_def)
  note spec = prepare_packets_spec [OF img(1) info(2,3) aligned_padding_fits [OF img(1,2)] img(4)]
  note app = app_packets [OF img(1,2,3) info(2,3) img(4)]
  show indices: "map dp_index ps = map int [0 ..< length ps]" and len: "length ps \<le> 0xFFFF"
    and sorted: "sorted_wrt packet_before ps"
    and cells: "image_cells (fi_blocks img) \<subseteq>\<^sub>m packet_cells ps"
    and fill: "\<forall>x v. packet_cells ps x = Some v \<longrightarrow> image_cells (fi_blocks img) x = None \<longrightarrow> v = 0xFFFF"
    using spec by blast+
  obtain b where b: "b \<in> set (fi_blocks img)" "fb_words b \<noteq> []"
    using img(1) by (cases "fi_blocks img") (auto simp: image_wf_def block_wf_def)
  have "image_cells (fi_blocks img) \<noteq> Map.empty"
    using b image_cells_nonempty by blast
  then show ne: "ps \<noteq> []"
    using cells packet_cells_Nil by (metis map_le_empty map_le_antisym)
  show range: "0x082400 \<le> x \<and> x < 0x0C0000" if "packet_cells ps x \<noteq> None" for x
    using that app(1,2) unfolding packet_cells_dom by fastforce
  have "packet_words ps \<le> 0x0C0000 - 0x082400"
    unfolding packet_words_def using app(1,2) by (intro sorted_packets_words [OF sorted]) simp_all
  then show "packet_words ps \<le> 0x3DC00"
    by simp
  have index: "0 \<le> dp_index p \<and> dp_index p < int (length ps)" if "p \<in> set ps" for p
  proof -
    have "dp_index p \<in> set (map dp_index ps)"
      using that by simp
    then show ?thesis
      unfolding indices by auto
  qed
  show d: "list_all (deliverable (wf_core w)) ps"
    unfolding list_all_iff
  proof
    fix p
    assume p: "p \<in> set ps"
    have "addresses_allowed (wf_core w) (dp_address p) (int (length (dp_words p)))"
      using app(1-3) [OF p] plain_faults(2) [OF w(2)] by (intro app_addresses_allowed [OF w(5)]) simp_all
    moreover have "validate_write_data (dp_words p) (Some ?m) = Inr ()"
      using app(3-6) [OF p] info(2,3) by (simp only: validate_write_data_ok_iff simp_thms)
    moreover have "u32 (dp_address p)" "u32 (dp_index p)"
      using app(1,2) [OF p] index [OF p] len by (simp_all add: u_simps)
    ultimately show "deliverable (wf_core w) p"
      using app(4,5) [OF p] info(4) by (simp add: deliverable_def)
  qed
  show "0 < packet_words ps"
    using prog.packet_words_pos [OF d ne] .
qed

definition programmed_with :: "data_packet list \<Rightarrow> sim \<Rightarrow> sim" where
  "programmed_with ps s =
     s\<lparr>sim_flash := sim_flash s ++ packet_cells ps, sim_programmed := sim_programmed s \<union> dom (packet_cells ps),
       sim_program_session := None, sim_verify_succeeded := False\<rparr>"

lemma upload_transfer_premises:
  assumes "plain_workflow w" "uploads (wf_core w) img ps"
  shows "0 \<le> di_max_payload_words (sim_device_info (wf_core w))" "9 \<le> sim_accepts (wf_core w)"
    "prepare_packets img (di_max_data_words (sim_device_info (wf_core w))) = Inr ps" "u32 (packet_words ps)"
    "u32 (fi_entry_point img)" "addresses_allowed (wf_core w) (fi_entry_point img) 1"
proof -
  note w = plain_workflowD [OF assms(1)] and info = plain_info [OF assms(1)]
  have img: "image_wf img" "validate_app_firmware_image img = Inr ()"
    using assms(2) by (simp_all only: uploads_def)
  show "0 \<le> di_max_payload_words (sim_device_info (wf_core w))" "9 \<le> sim_accepts (wf_core w)"
    using info(6) by (simp_all add: sim_accepts_def)
  show "prepare_packets img (di_max_data_words (sim_device_info (wf_core w))) = Inr ps"
    using assms(2) by (simp only: uploads_def)
  show "u32 (packet_words ps)"
    using uploads_packets(7,8) [OF assms] by (simp add: u_simps)
  show "u32 (fi_entry_point img)"
    using img(1) by (simp only: image_wf_def)
  have "0x082400 \<le> fi_entry_point img" "fi_entry_point img + 1 \<le> 0x0C0000"
    using img(2) unfolding validate_app_ok_iff by simp_all
  then show "addresses_allowed (wf_core w) (fi_entry_point img) 1"
    using plain_faults(2) [OF w(2)] by (intro app_addresses_allowed [OF w(5)]) simp_all
qed

lemma program_step:
  assumes "plain_workflow w" "uploads (wf_core w) img ps" "sim_program_session (wf_core w) = None"
    and "sim_programmed (wf_core w) \<inter> dom (packet_cells ps) = {}"
  shows "\<exists>w'. wf_program (sim_io extra) img w = (Inr (), w') \<and>
    wf_moved (modified w) (programmed_with ps (wf_core w)) w'"
proof -
  note w = plain_workflowD [OF assms(1)]
  note f = plain_faults [OF w(2)] and pk = uploads_packets [OF assms(1,2)]
  note pre = upload_transfer_premises [OF assms(1,2)]
  have acc: "prog.acceptable_all ps (wf_core w)"
    using prog_acceptable_all [OF f(4) pk(3) assms(4)] .
  obtain w' where t: "transfer (sim_io extra) img CMD_PROGRAM_BEGIN CMD_PROGRAM_DATA CMD_PROGRAM_END
      ''Program'' True (modified w) = (Inr (), w')"
    "wf_moved (modified w)
      (prog.store_all ps (wf_core w)\<lparr>sim_program_session := None\<rparr>\<lparr>sim_verify_succeeded := False\<rparr>) w'"
    using prog.transfer_ok [of "modified w" "sim_device_info (wf_core w)" img ps extra "''Program''" True]
      w(1,3,4) pre pk(1,2,6,9) assms(3) f(3) acc
    unfolding modified_keeps by blast
  have "prog.store_all ps (wf_core w)\<lparr>sim_program_session := None\<rparr>\<lparr>sim_verify_succeeded := False\<rparr> =
      programmed_with ps (wf_core w)"
    unfolding prog_store_all programmed_with_def by simp
  moreover have "validate_app_firmware_image img = Inr ()"
    using assms(2) by (simp only: uploads_def)
  ultimately show ?thesis
    using t by (simp add: wf_program_def thenM_def bindM_def modify_flash_def modified_def)
qed

section \<open>Verifying\<close>

lemma verify_step:
  assumes "plain_workflow w" "uploads (wf_core w) img ps" "sim_verify_session (wf_core w) = None"
    and "packet_cells ps \<subseteq>\<^sub>m sim_flash (wf_core w)"
  shows "\<exists>w'. wf_verify (sim_io extra) img w = (Inr (), w') \<and>
    wf_moved (w\<lparr>wf_verify_succeeded := True, wf_state := WS_READY\<rparr>)
      (wf_core w\<lparr>sim_verify_session := None, sim_verify_succeeded := True\<rparr>) w'"
proof -
  let ?w = "w\<lparr>wf_verify_succeeded := False\<rparr>"
  note w = plain_workflowD [OF assms(1)]
  note f = plain_faults [OF w(2)] and pk = uploads_packets [OF assms(1,2)]
  note pre = upload_transfer_premises [OF assms(1,2)]
  have same: "wf_ready ?w = wf_ready w" "wf_core ?w = wf_core w" "wf_info ?w = wf_info w"
    by (simp_all add: wf_ready_def wf_core_def wf_info_def)
  have acc: "vrfy.acceptable_all ps (wf_core w)"
  proof (rule vrfy_acceptable_all [OF f(5)])
    show "sim_flash (wf_core w) (dp_address p + int i) = Some (dp_words p ! i)"
      if "p \<in> set ps" "i < length (dp_words p)" for p i
      using packet_cells_member [OF pk(3) that] assms(4) by (simp add: map_le_def dom_def)
  qed
  obtain w' where t: "transfer (sim_io extra) img CMD_VERIFY_BEGIN CMD_VERIFY_DATA CMD_VERIFY_END
      ''Verify'' False ?w = (Inr (), w')"
    "wf_moved ?w
      (vrfy.store_all ps (wf_core w)\<lparr>sim_verify_session := None\<rparr>\<lparr>sim_verify_succeeded := True\<rparr>) w'"
    using vrfy.transfer_ok [of ?w "sim_device_info (wf_core w)" img ps extra "''Verify''" False]
      w(1,3,4) pre pk(1,2,6,9) assms(3) f(3) acc
    unfolding same by blast
  have "validate_app_firmware_image img = Inr ()"
    using assms(2) by (simp only: uploads_def)
  then have "wf_verify (sim_io extra) img w = (Inr (), w'\<lparr>wf_verify_succeeded := True, wf_state := WS_READY\<rparr>)"
    using t(1) by (simp add: wf_verify_def thenM_def bindM_def)
  moreover have "wf_moved (w\<lparr>wf_verify_succeeded := True, wf_state := WS_READY\<rparr>)
      (wf_core w\<lparr>sim_verify_session := None, sim_verify_succeeded := True\<rparr>)
      (w'\<lparr>wf_verify_succeeded := True, wf_state := WS_READY\<rparr>)"
    using t(2) unfolding vrfy_store_all
    by (simp add: wf_moved_def wf_ready_def wf_core_def wf_info_def wf_flags_def)
  ultimately show ?thesis
    by blast
qed

end
