(* ===== verification/Installation.thy ===== *)
theory Installation
  imports Upgrade
begin

text \<open>
  The end of the upgrade: recording the verified image in the metadata, the theorem about
  \<open>UpgradeWorkflow.dfu\<close> as a whole, and the start of the installed application by
  \<open>UpgradeWorkflow.run\<close>.
\<close>

section \<open>The metadata record\<close>

lemma first_free_none:
  assumes "\<And>x. x \<in> metadata_area \<Longrightarrow> f x = None"
  shows "first_free_record f = Some 0"
proof -
  have "mem_get f (record_base 0 + int i) = 0xFFFF" if "i < 64" for i
    using assms [of "record_base 0 + int i"] that
    by (simp add: mem_get_def record_base_def metadata_area_def slot_defs)
  then have "metadata_erased (metadata_record f 0)"
    by (simp add: metadata_erased_def metadata_record_def list_all_iff METADATA_RECORD_WORDS_def)
  then show ?thesis
    by (simp add: first_free_record_def METADATA_RECORD_COUNT_def upt_conv_Cons)
qed

text \<open>What the metadata says about an installed image that has not been started yet.\<close>

definition recorded_image :: "sim \<Rightarrow> int list \<Rightarrow> int \<Rightarrow> int \<Rightarrow> int \<Rightarrow> bool" where
  "recorded_image s rec entry_point total_words crc \<longleftrightarrow>
     image_record (sim_flash s) = Some rec \<and>
     join_u32 (rec ! 14) (rec ! 15) = entry_point \<and> join_u32 (rec ! 16) (rec ! 17) = total_words \<and>
     join_u32 (rec ! 18) (rec ! 19) = crc"

definition image_valid_payload :: "int \<Rightarrow> int \<Rightarrow> int \<Rightarrow> int \<Rightarrow> int list" where
  "image_valid_payload entry_point total_words crc app_end =
     [metadata_record_type_code REC_IMAGE_VALID, boot_slot_code SLOT_SLOT_A, lo16 entry_point,
      hi16 entry_point, lo16 total_words, hi16 total_words, lo16 crc, hi16 crc, 0, 0, 0, lo16 0, hi16 0, lo16 app_end,
      hi16 app_end, 0]"

lemma image_valid_payload_nth:
  "length (image_valid_payload e n c z) = 16"
  "image_valid_payload e n c z ! 0 = metadata_record_type_code REC_IMAGE_VALID"
  "image_valid_payload e n c z ! 1 = boot_slot_code SLOT_SLOT_A"
  "image_valid_payload e n c z ! 2 = lo16 e" "image_valid_payload e n c z ! 3 = hi16 e"
  "image_valid_payload e n c z ! 4 = lo16 n" "image_valid_payload e n c z ! 5 = hi16 n"
  "image_valid_payload e n c z ! 6 = lo16 c" "image_valid_payload e n c z ! 7 = hi16 c"
  "image_valid_payload e n c z ! 13 = lo16 z" "image_valid_payload e n c z ! 14 = hi16 z"
  "image_valid_payload e n c z ! 15 = 0"
  by (simp_all add: image_valid_payload_def)

lemma image_valid_payload_words:
  "u32 e \<Longrightarrow> u32 n \<Longrightarrow> u32 c \<Longrightarrow> u32 z \<Longrightarrow> words16 (image_valid_payload e n c z)"
  by (simp add: image_valid_payload_def u16_def [of 0] u16_def [of 1])

text \<open>The arguments of an image record that the device takes after a verification.\<close>

definition recordable :: "int \<Rightarrow> int \<Rightarrow> int \<Rightarrow> int \<Rightarrow> bool" where
  "recordable entry_point total_words crc app_end \<longleftrightarrow>
     APP_FLASH_START \<le> entry_point \<and> entry_point < APP_FLASH_END_EXCLUSIVE \<and> entry_point mod 8 = 0 \<and>
     0 < total_words \<and> u32 total_words \<and> u32 crc \<and> APP_FLASH_START < app_end \<and> app_end \<le> APP_FLASH_END_EXCLUSIVE"

lemma recordable_u32: "recordable e n c z \<Longrightarrow> u32 e \<and> u32 n \<and> u32 c \<and> u32 z"
  by (simp add: recordable_def slot_defs u_simps)

lemma image_valid_accepted_payload:
  assumes "fr_payload q = image_valid_payload e n c z" "recordable e n c z" "sim_verify_succeeded s"
    and "first_free_record (sim_flash s) = Some k"
    and "build_image_valid_record (image_valid_payload e n c z) (next_record_sequence (sim_flash s))
      (sim_device_info s) = Inr rec"
  shows "image_valid_accepted q s k rec"
  unfolding image_valid_accepted_def assms(1,4,5) image_valid_payload_nth Let_def join_split
  using assms(2,3) by (simp only: recordable_def) simp

lemma append_valid_answers:
  assumes "sim_reachable s" "service_ready s" "sim_verify_succeeded s"
    and "\<And>x. x \<in> metadata_area \<Longrightarrow> sim_flash s x = None" "recordable e n c z"
  shows "\<exists>rec. length rec = 64 \<and>
    answers s CMD_METADATA_APPEND_RECORD (image_valid_payload e n c z) []
      ((store_record 0 rec s)\<lparr>sim_verify_succeeded := False\<rparr>) \<and>
    recorded_image (store_record 0 rec s) rec e n c \<and>
    boot_attempts (sim_flash (store_record 0 rec s)) rec = 0 \<and>
    \<not> app_confirmed (sim_flash (store_record 0 rec s)) rec"
proof -
  let ?p = "image_valid_payload e n c z"
  have wf: "metadata_ok (sim_flash s)" "words_wf (sim_flash s)" "device_info_wf (sim_device_info s)"
    using sim_reachable_wf [OF assms(1)] by (simp_all add: sim_wf_def)
  have u: "u32 e" "u32 n" "u32 c" "u32 z"
    using recordable_u32 [OF assms(5)] by simp_all
  obtain rec where rec: "build_image_valid_record ?p (next_record_sequence (sim_flash s)) (sim_device_info s) = Inr rec"
    "record_built REC_IMAGE_VALID (next_record_sequence (sim_flash s)) rec"
    "rec ! 14 = lo16 e" "rec ! 15 = hi16 e" "rec ! 16 = lo16 n" "rec ! 17 = hi16 n" "rec ! 18 = lo16 c"
    "rec ! 19 = hi16 c"
    using build_image_valid_record_ok [OF image_valid_payload_words [OF u] image_valid_payload_nth(1)
        next_record_sequence_bounds(4) [OF wf(1,2)] wf(3)] unfolding image_valid_payload_nth
    by (elim exE conjE) (rule that)
  have free: "first_free_record (sim_flash s) = Some 0"
    using assms(4) by (rule first_free_none)
  have "answers s CMD_METADATA_APPEND_RECORD ?p [] ((store_record 0 rec s)\<lparr>sim_verify_succeeded := False\<rparr>)"
  proof (rule answersI)
    fix q
    assume "app_request CMD_METADATA_APPEND_RECORD ?p q"
    then have q: "frame_wf q" "fr_payload q = ?p"
      by (simp_all only: app_request_def)
    have "image_valid_accepted q s 0 rec"
      using image_valid_accepted_payload [OF q(2) assms(5,3) free rec(1)] .
    from append_image_valid_ok [OF q(1) this]
    show "handler CMD_METADATA_APPEND_RECORD q s = (Inr (reply_frame q ST_OK []),
        (store_record 0 rec s)\<lparr>sim_verify_succeeded := False\<rparr>)"
      by (simp only: handler.simps)
  qed (rule assms(2))
  moreover have "length rec = 64"
    using rec(2) by (simp only: record_built_def)
  moreover have "recorded_image (store_record 0 rec s) rec e n c"
    "boot_attempts (sim_flash (store_record 0 rec s)) rec = 0"
    "\<not> app_confirmed (sim_flash (store_record 0 rec s)) rec"
    using image_record_store_image [OF wf(1,2) free rec(2)] rec(3-)
    by (simp_all add: recorded_image_def store_record_def)
  ultimately show ?thesis
    by (intro exI [of _ rec] conjI)
qed

section \<open>The upgrade\<close>

definition packets_crc :: "data_packet list \<Rightarrow> int" where
  "packets_crc ps = crc32_bytes (le_bytes (concat (map dp_words ps)))"

definition packets_end :: "data_packet list \<Rightarrow> int" where
  "packets_end ps = Max (set (map (\<lambda>p. dp_address p + int (length (dp_words p))) ps))"

lemma uploads_record:
  assumes "plain_workflow w" "uploads (wf_core w) img ps"
  shows "calculate_programmed_image_crc32 img (di_max_data_words (sim_device_info (wf_core w))) = Inr (packets_crc ps)"
    "programmed_image_size_and_end img (di_max_data_words (sim_device_info (wf_core w))) =
      Inr (packet_words ps, packets_end ps)"
    "recordable (fi_entry_point img) (packet_words ps) (packets_crc ps) (packets_end ps)"
proof -
  have img: "validate_app_firmware_image img = Inr ()"
    "prepare_packets img (di_max_data_words (sim_device_info (wf_core w))) = Inr ps"
    using assms(2) by (simp_all only: uploads_def)
  note pk = uploads_packets [OF assms]
  have d: "p \<in> set ps \<Longrightarrow> words16 (dp_words p)" "p \<in> set ps \<Longrightarrow> dp_words p \<noteq> []" for p
    using pk(9) prog.deliverable_words by (auto simp: list_all_iff deliverable_def)
  have "words16 (concat (map dp_words ps))"
    using d(1) by (auto simp: list_all_iff)
  then show "calculate_programmed_image_crc32 img (di_max_data_words (sim_device_info (wf_core w))) =
      Inr (packets_crc ps)"
    by (simp add: calculate_programmed_image_crc32_def img(2) packets_crc_def crc32_words_Inr)
  show "programmed_image_size_and_end img (di_max_data_words (sim_device_info (wf_core w))) =
      Inr (packet_words ps, packets_end ps)"
    using pk(6) by (simp add: programmed_image_size_and_end_def img(2) packet_words_def packets_end_def)
  have "packets_end ps \<in> set (map (\<lambda>p. dp_address p + int (length (dp_words p))) ps)"
    unfolding packets_end_def using pk(6) by (intro Max_in) simp_all
  then obtain p where p: "p \<in> set ps" "packets_end ps = dp_address p + int (length (dp_words p))"
    by auto
  then have "packet_cells ps (packets_end ps - 1) \<noteq> None"
    unfolding packet_cells_dom using d(2) [OF p(1)] by (intro bexI [of _ p]) auto
  then have "0x082400 < packets_end ps" "packets_end ps \<le> 0x0C0000"
    using pk(10) by fastforce+
  moreover have "u32 (packet_words ps)"
    using pk(7,8) by (simp add: u_simps)
  ultimately show "recordable (fi_entry_point img) (packet_words ps) (packets_crc ps) (packets_end ps)"
    using img(1) pk(7) by (simp add: recordable_def validate_app_ok_iff slot_defs packets_crc_def)
qed

lemma append_step:
  assumes "plain_workflow w" "16 \<le> sim_accepts (wf_core w)" "uploads (wf_core w) img ps"
    and "sim_verify_succeeded (wf_core w)" "\<And>x. x \<in> metadata_area \<Longrightarrow> sim_flash (wf_core w) x = None"
  shows "\<exists>w' rec. append_valid_record (sim_io extra) img (di_max_data_words (sim_device_info (wf_core w)))
        (packet_words ps) (packets_end ps) w = (Inr (), w') \<and>
    wf_moved w ((store_record 0 rec (wf_core w))\<lparr>sim_verify_succeeded := False\<rparr>) w' \<and> length rec = 64 \<and>
    recorded_image (store_record 0 rec (wf_core w)) rec (fi_entry_point img) (packet_words ps) (packets_crc ps) \<and>
    boot_attempts (sim_flash (store_record 0 rec (wf_core w))) rec = 0 \<and>
    \<not> app_confirmed (sim_flash (store_record 0 rec (wf_core w))) rec"
proof -
  let ?p = "image_valid_payload (fi_entry_point img) (packet_words ps) (packets_crc ps) (packets_end ps)"
  note w = plain_workflowD [OF assms(1)] and info = plain_info [OF assms(1)]
  note r = uploads_record [OF assms(1,3)]
  have u: "u32 (fi_entry_point img)" "u32 (packet_words ps)" "u32 (packets_crc ps)" "u32 (packets_end ps)"
    using recordable_u32 [OF r(3)] by simp_all
  obtain rec where rec: "length rec = 64"
    "answers (wf_core w) CMD_METADATA_APPEND_RECORD ?p [] ((store_record 0 rec (wf_core w))\<lparr>sim_verify_succeeded := False\<rparr>)"
    "recorded_image (store_record 0 rec (wf_core w)) rec (fi_entry_point img) (packet_words ps) (packets_crc ps)"
    "boot_attempts (sim_flash (store_record 0 rec (wf_core w))) rec = 0"
    "\<not> app_confirmed (sim_flash (store_record 0 rec (wf_core w))) rec"
    using append_valid_answers [OF wf_ready_reachable [OF w(1)] w(4) assms(4,5) r(3)] by blast
  have fits: "int (length ?p) \<le> sim_accepts (wf_core w)" "int (length ([] :: int list)) \<le> wf_limit w"
    using assms(2) info(5) by (simp_all add: image_valid_payload_nth(1))
  obtain c where c: "client_transact (sim_io extra) (command_code CMD_METADATA_APPEND_RECORD) ?p (Some 10000) (wf_client w) =
      (Inr [], c)"
    "wf_moved w ((store_record 0 rec (wf_core w))\<lparr>sim_verify_succeeded := False\<rparr>) (w\<lparr>wf_client := c\<rparr>)"
    using client_step [OF w(1) rec(2) _ image_valid_payload_words [OF u] fits, of 10000 extra] by auto
  have "metadata_append_image_valid (sim_io extra) (fi_entry_point img) (packet_words ps) (packets_crc ps)
      (packets_end ps) 0 0 0 0 (Some 10000) (wf_client w) = (Inr (), c)"
    using c(1) u by (simp add: metadata_append_image_valid_def issue_def thenM_def bindM_def image_valid_payload_def
        split_u32_Inr_iff u32_def [of 0])
  then have "append_valid_record (sim_io extra) img (di_max_data_words (sim_device_info (wf_core w)))
        (packet_words ps) (packets_end ps) w = (Inr (), w\<lparr>wf_client := c\<rparr>)"
    by (simp add: append_valid_record_def catchM_def r(1) on_client_def)
  then show ?thesis
    using c(2) rec by blast
qed

text \<open>The application and the metadata after an upgrade with sector mask \<open>k\<close>.\<close>

definition upgraded :: "int \<Rightarrow> firmware_image \<Rightarrow> data_packet list \<Rightarrow> sim \<Rightarrow> int list \<Rightarrow> sim \<Rightarrow> bool" where
  "upgraded k img ps s rec s' \<longleftrightarrow>
     packet_cells ps \<subseteq>\<^sub>m sim_flash s' \<and> image_cells (fi_blocks img) \<subseteq>\<^sub>m sim_flash s' \<and>
     recorded_image s' rec (fi_entry_point img) (packet_words ps) (packets_crc ps) \<and>
     boot_attempts (sim_flash s') rec = 0 \<and> \<not> app_confirmed (sim_flash s') rec \<and>
     first_free_record (sim_flash s') \<noteq> None \<and>
     (\<forall>x. \<not> list_ex (\<lambda>sec. fs_contains sec x) (selected_sectors k default_sectors) \<longrightarrow>
        sim_flash s' x = sim_flash s x)"

lemma metadata_selected:
  assumes "bit k 1" "x \<in> metadata_area"
  shows "list_ex (\<lambda>sec. fs_contains sec x) (selected_sectors k default_sectors)"
proof -
  have "default_sectors ! 1 \<in> set (selected_sectors k default_sectors)"
    unfolding selected_sectors_iff using assms(1)
    by (intro exI [of _ 1]) (simp add: length_default_sectors)
  moreover have "fs_contains (default_sectors ! 1) x"
    using assms(2) by (simp add: metadata_area_def slot_defs default_sectors_def sector_def fs_contains_def
        fs_end_exclusive_def)
  ultimately show ?thesis
    by (auto simp: list_ex_iff)
qed

text \<open>A step that leaves the workflow ready for the next one.\<close>

definition reached :: "sim_device workflow \<Rightarrow> sim \<Rightarrow> sim_device workflow \<Rightarrow> bool" where
  "reached w s w' \<longleftrightarrow> plain_workflow w' \<and> wf_core w' = s \<and> configuration s = configuration (wf_core w) \<and>
     wf_allowed_flash_ranges w' = wf_allowed_flash_ranges w"

lemma reachedI:
  assumes "plain_workflow w" "wf_moved v s w'" "wf_info v = wf_info w"
    and "configuration s = configuration (wf_core w)" "service_ready s"
    and "wf_allowed_flash_ranges v = wf_allowed_flash_ranges w"
  shows "reached w s w'"
  using plain_moved [OF assms(1-5)] assms(2,4,6) by (simp add: reached_def wf_moved_def wf_flags_def)

lemma reached_trans: "reached w s w' \<Longrightarrow> reached w' t w'' \<Longrightarrow> reached w t w''"
  by (simp add: reached_def)

lemma reached_uploads: "reached w s w' \<Longrightarrow> uploads (wf_core w') img ps = uploads (wf_core w) img ps"
  by (simp add: reached_def uploads_def configuration_def)

lemma reached_device:
  "reached w s w' \<Longrightarrow> sim_device_info s = sim_device_info (wf_core w)"
  "reached w s w' \<Longrightarrow> sim_accepts s = sim_accepts (wf_core w)"
  by (simp_all add: reached_def configuration_def sim_accepts_def)

lemma modified_ranges [simp]: "wf_allowed_flash_ranges (modified w) = wf_allowed_flash_ranges w"
  by (simp add: modified_def)

lemma erase_phase:
  assumes "plain_workflow w" "validate_manual_erase_mask k = Inr ()"
  shows "\<exists>w'. wf_erase (sim_io extra) k w = (Inr (), w') \<and> reached w (erased_state k (wf_core w)) w'"
proof -
  obtain w' where w': "wf_erase (sim_io extra) k w = (Inr (), w')"
    "wf_moved (modified w) (erased_state k (wf_core w)) w'"
    using erase_step [OF assms] by blast
  have "reached w (erased_state k (wf_core w)) w'"
    using plain_workflowD(4) [OF assms(1)]
    by (intro reachedI [OF assms(1) w'(2)])
      (simp_all add: erased_state_def Let_def configuration_def service_ready_def)
  then show ?thesis
    using w'(1) by blast
qed

lemma program_phase:
  assumes "plain_workflow w" "uploads (wf_core w) img ps" "sim_program_session (wf_core w) = None"
    and "sim_programmed (wf_core w) \<inter> dom (packet_cells ps) = {}"
  shows "\<exists>w'. wf_program (sim_io extra) img w = (Inr (), w') \<and> reached w (programmed_with ps (wf_core w)) w'"
proof -
  obtain w' where w': "wf_program (sim_io extra) img w = (Inr (), w')"
    "wf_moved (modified w) (programmed_with ps (wf_core w)) w'"
    using program_step [OF assms] by blast
  have "reached w (programmed_with ps (wf_core w)) w'"
    using plain_workflowD(4) [OF assms(1)]
    by (intro reachedI [OF assms(1) w'(2)]) (simp_all add: programmed_with_def configuration_def service_ready_def)
  then show ?thesis
    using w'(1) by blast
qed

definition verified_state :: "sim \<Rightarrow> sim" where
  "verified_state s = s\<lparr>sim_verify_session := None, sim_verify_succeeded := True\<rparr>"

lemma verify_phase:
  assumes "plain_workflow w" "uploads (wf_core w) img ps" "sim_verify_session (wf_core w) = None"
    and "packet_cells ps \<subseteq>\<^sub>m sim_flash (wf_core w)"
  shows "\<exists>w'. wf_verify (sim_io extra) img w = (Inr (), w') \<and> reached w (verified_state (wf_core w)) w' \<and>
    wf_verify_succeeded w' \<and> wf_state w' = WS_READY"
proof -
  obtain w' where w': "wf_verify (sim_io extra) img w = (Inr (), w')"
    "wf_moved (w\<lparr>wf_verify_succeeded := True, wf_state := WS_READY\<rparr>) (verified_state (wf_core w)) w'"
    using verify_step [OF assms] unfolding verified_state_def by blast
  have "reached w (verified_state (wf_core w)) w'"
    using plain_workflowD(4) [OF assms(1)]
    by (intro reachedI [OF assms(1) w'(2)])
      (simp_all add: verified_state_def configuration_def service_ready_def wf_info_def)
  then show ?thesis
    using w' by (auto simp: wf_moved_def wf_flags_def)
qed

definition recorded_state :: "int list \<Rightarrow> sim \<Rightarrow> sim" where
  "recorded_state rec s = (store_record 0 rec s)\<lparr>sim_verify_succeeded := False\<rparr>"

lemma append_phase:
  assumes "plain_workflow w" "16 \<le> sim_accepts (wf_core w)" "uploads (wf_core w) img ps"
    and "sim_verify_succeeded (wf_core w)" "\<And>x. x \<in> metadata_area \<Longrightarrow> sim_flash (wf_core w) x = None"
  shows "\<exists>w' rec. append_valid_record (sim_io extra) img (di_max_data_words (sim_device_info (wf_core w)))
        (packet_words ps) (packets_end ps) w = (Inr (), w') \<and>
    reached w (recorded_state rec (wf_core w)) w' \<and> wf_flags w' = wf_flags w \<and> length rec = 64 \<and>
    recorded_image (wf_core w') rec (fi_entry_point img) (packet_words ps) (packets_crc ps) \<and>
    boot_attempts (sim_flash (wf_core w')) rec = 0 \<and> \<not> app_confirmed (sim_flash (wf_core w')) rec"
proof -
  obtain w' rec where w': "append_valid_record (sim_io extra) img (di_max_data_words (sim_device_info (wf_core w)))
        (packet_words ps) (packets_end ps) w = (Inr (), w')"
    "wf_moved w (recorded_state rec (wf_core w)) w'" "length rec = 64"
    "recorded_image (store_record 0 rec (wf_core w)) rec (fi_entry_point img) (packet_words ps) (packets_crc ps)"
    "boot_attempts (sim_flash (store_record 0 rec (wf_core w))) rec = 0"
    "\<not> app_confirmed (sim_flash (store_record 0 rec (wf_core w))) rec"
    using append_step [OF assms] unfolding recorded_state_def by blast
  have "reached w (recorded_state rec (wf_core w)) w'"
    using plain_workflowD(4) [OF assms(1)]
    by (intro reachedI [OF assms(1) w'(2)])
      (simp_all add: recorded_state_def store_record_def configuration_def service_ready_def)
  then show ?thesis
    using w' by (intro exI [of _ w'] exI [of _ rec])
      (simp add: wf_moved_def recorded_state_def recorded_image_def)
qed

text \<open>The Flash after the four phases.\<close>

definition after_dfu :: "int \<Rightarrow> data_packet list \<Rightarrow> int list \<Rightarrow> sim \<Rightarrow> sim" where
  "after_dfu k ps rec s = recorded_state rec (verified_state (programmed_with ps (erased_state k s)))"

lemma after_dfu_flash:
  assumes "sim_sectors s = default_sectors" "length rec = 64" "bit k 1"
    and "\<And>x. packet_cells ps x \<noteq> None \<Longrightarrow> 0x082400 \<le> x \<and> x < 0x0C0000"
    and "\<And>x. packet_cells ps x \<noteq> None \<Longrightarrow>
      list_ex (\<lambda>sec. fs_contains sec x) (selected_sectors k default_sectors)"
  shows "packet_cells ps \<subseteq>\<^sub>m sim_flash (after_dfu k ps rec s)"
    "\<not> list_ex (\<lambda>sec. fs_contains sec x) (selected_sectors k default_sectors) \<Longrightarrow>
       sim_flash (after_dfu k ps rec s) x = sim_flash s x"
    "x \<in> metadata_area \<Longrightarrow> sim_flash (verified_state (programmed_with ps (erased_state k s))) x = None"
    "first_free_record (sim_flash (after_dfu k ps rec s)) \<noteq> None"
proof -
  have flash: "sim_flash (verified_state (programmed_with ps (erased_state k s))) x =
      (if packet_cells ps x \<noteq> None then packet_cells ps x
       else if list_ex (\<lambda>sec. fs_contains sec x) (selected_sectors k default_sectors) then None
       else sim_flash s x)" for x
    by (auto simp: verified_state_def programmed_with_def erased_state_def Let_def erase_flash_def assms(1)
        map_add_def split: option.split)
  have new: "sim_flash (after_dfu k ps rec s) x = (case cells (record_base 0) rec x of
      None \<Rightarrow> sim_flash (verified_state (programmed_with ps (erased_state k s))) x | Some v \<Rightarrow> Some v)" for x
    by (simp add: after_dfu_def recorded_state_def store_record_def map_add_def)
  have area: "x \<in> metadata_area" if "cells (record_base 0) rec x = Some v" for x v
    using that record_cells_area [of 0 rec x] assms(2) by auto
  show "packet_cells ps \<subseteq>\<^sub>m sim_flash (after_dfu k ps rec s)"
    unfolding map_le_def new flash using area assms(4)
    by (fastforce simp: metadata_area_def slot_defs split: option.split)
  show "sim_flash (after_dfu k ps rec s) x = sim_flash s x"
    if "\<not> list_ex (\<lambda>sec. fs_contains sec x) (selected_sectors k default_sectors)"
    unfolding new flash using that assms(5) metadata_selected [OF assms(3)] area by (auto split: option.split)
  have empty: "sim_flash (verified_state (programmed_with ps (erased_state k s))) y = None"
    if "y \<in> metadata_area" for y
    unfolding flash using that assms(4) [of y] metadata_selected [OF assms(3) that]
    by (auto simp: metadata_area_def slot_defs)
  then show "x \<in> metadata_area \<Longrightarrow> sim_flash (verified_state (programmed_with ps (erased_state k s))) x = None" .
  have "mem_get (sim_flash (after_dfu k ps rec s)) (record_base 1 + int i) = 0xFFFF" if "i < 64" for i
    using that assms(2) empty [of "record_base 1 + int i"]
    by (simp add: mem_get_def new cells_def record_base_def metadata_area_def slot_defs
        METADATA_RECORD_WORDS_def)
  then have "metadata_erased (metadata_record (sim_flash (after_dfu k ps rec s)) 1)"
    by (simp add: metadata_erased_def metadata_record_def list_all_iff METADATA_RECORD_WORDS_def)
  then show "first_free_record (sim_flash (after_dfu k ps rec s)) \<noteq> None"
    by (auto simp: first_free_record_def METADATA_RECORD_COUNT_def find_None_iff intro!: exI [of _ 1])
qed

text \<open>The device after the first three phases.\<close>

lemma erased_state_fields:
  "sim_program_session (erased_state k s) = None" "sim_verify_session (erased_state k s) = None"
  "sim_programmed (erased_state k s) =
     {x \<in> sim_programmed s. \<not> list_ex (\<lambda>sec. fs_contains sec x) (selected_sectors k (sim_sectors s))}"
  by (simp_all add: erased_state_def Let_def)

lemma dfu_phases:
  assumes w: "plain_workflow w" and up: "uploads (wf_core w) img ps"
    and manual: "validate_manual_erase_mask k = Inr ()"
    and sel: "\<And>x. packet_cells ps x \<noteq> None \<Longrightarrow>
      list_ex (\<lambda>sec. fs_contains sec x) (selected_sectors k default_sectors)"
  shows "\<exists>w1 w2 w3. wf_erase (sim_io extra) k w = (Inr (), w1) \<and> wf_program (sim_io extra) img w1 = (Inr (), w2) \<and>
    wf_verify (sim_io extra) img w2 = (Inr (), w3) \<and> wf_verify_succeeded w3 \<and> wf_state w3 = WS_READY \<and>
    reached w (verified_state (programmed_with ps (erased_state k (wf_core w)))) w3"
proof -
  obtain w1 where w1: "wf_erase (sim_io extra) k w = (Inr (), w1)" "reached w (erased_state k (wf_core w)) w1"
    using erase_phase [OF w manual] by blast
  have c1: "plain_workflow w1" "wf_core w1 = erased_state k (wf_core w)"
    using w1(2) by (simp_all only: reached_def)
  have u1: "uploads (wf_core w1) img ps"
    using up reached_uploads [OF w1(2)] by simp
  have "sim_programmed (wf_core w1) \<inter> dom (packet_cells ps) = {}"
    using sel plain_workflowD(5) [OF w] by (auto simp: c1(2) erased_state_fields)
  then obtain w2 where w2: "wf_program (sim_io extra) img w1 = (Inr (), w2)"
    "reached w1 (programmed_with ps (wf_core w1)) w2"
    using program_phase [OF c1(1) u1, of extra] by (auto simp: c1(2) erased_state_fields)
  have c2: "plain_workflow w2" "wf_core w2 = programmed_with ps (erased_state k (wf_core w))"
    using w2(2) c1(2) by (simp_all add: reached_def)
  have u2: "uploads (wf_core w2) img ps"
    using u1 reached_uploads [OF w2(2)] by simp
  have "packet_cells ps \<subseteq>\<^sub>m sim_flash (wf_core w2)" "sim_verify_session (wf_core w2) = None"
    by (simp_all add: c2(2) programmed_with_def erased_state_fields)
  then obtain w3 where w3: "wf_verify (sim_io extra) img w2 = (Inr (), w3)"
    "reached w2 (verified_state (wf_core w2)) w3" "wf_verify_succeeded w3" "wf_state w3 = WS_READY"
    using verify_phase [OF c2(1) u2, of extra] by auto
  then have "reached w (verified_state (programmed_with ps (erased_state k (wf_core w)))) w3"
    using reached_trans [OF reached_trans [OF w1(2) w2(2)] w3(2)] by (simp add: c2(2))
  then show ?thesis
    using w1(1) w2(1) w3 by blast
qed

lemma dfu_installs:
  assumes w: "plain_workflow w" "16 \<le> sim_accepts (wf_core w)" and up: "uploads (wf_core w) img ps"
    and mask: "validate_sector_mask_for_image k img = Inr ()" "bit k 1"
  shows "\<exists>w' rec. dfu (sim_io extra) k img w = (Inr (), w') \<and> reached w (wf_core w') w' \<and>
    upgraded k img ps (wf_core w) rec (wf_core w') \<and> wf_verify_succeeded w' \<and> wf_state w' = WS_READY"
proof -
  have manual: "validate_manual_erase_mask k = Inr ()" and app: "validate_app_firmware_image img = Inr ()"
    using mask(1) by (auto simp: validate_sector_mask_for_image_def bindE_Inr_iff)
  have image: "image_wf img" "aligned_image img"
    "prepare_packets img (di_max_data_words (sim_device_info (wf_core w))) = Inr ps"
    using up by (simp_all only: uploads_def)
  note pk = uploads_packets [OF w(1) up] and info = plain_info [OF w(1)]
  have sel: "list_ex (\<lambda>sec. fs_contains sec x) (selected_sectors k default_sectors)"
    if "packet_cells ps x \<noteq> None" for x
    using packets_selected [OF image(1,2) info(2,3) image(3) mask(1) that] .
  obtain w1 w2 w3 where w3: "wf_erase (sim_io extra) k w = (Inr (), w1)" "wf_program (sim_io extra) img w1 = (Inr (), w2)"
    "wf_verify (sim_io extra) img w2 = (Inr (), w3)" "wf_verify_succeeded w3" "wf_state w3 = WS_READY"
    "reached w (verified_state (programmed_with ps (erased_state k (wf_core w)))) w3"
    using dfu_phases [OF w(1) up manual sel] by blast
  then have c3: "plain_workflow w3" "wf_core w3 = verified_state (programmed_with ps (erased_state k (wf_core w)))"
    by (simp_all only: reached_def)
  have u3: "uploads (wf_core w3) img ps"
    using up reached_uploads [OF w3(6)] by simp
  note flash = after_dfu_flash [OF plain_workflowD(5) [OF w(1)] _ mask(2) pk(10) sel]
  have "16 \<le> sim_accepts (wf_core w3)" "sim_verify_succeeded (wf_core w3)"
    using w(2) reached_device(2) [OF w3(6)] by (simp_all add: c3(2)) (simp add: verified_state_def)
  moreover have "sim_flash (wf_core w3) x = None" if "x \<in> metadata_area" for x
    unfolding c3(2) using that by (intro flash(3) [of "replicate 64 0"]) simp_all
  ultimately obtain w4 rec where w4: "append_valid_record (sim_io extra) img (di_max_data_words (sim_device_info (wf_core w3)))
        (packet_words ps) (packets_end ps) w3 = (Inr (), w4)"
    "reached w3 (recorded_state rec (wf_core w3)) w4" "wf_flags w4 = wf_flags w3" "length rec = 64"
    "recorded_image (wf_core w4) rec (fi_entry_point img) (packet_words ps) (packets_crc ps)"
    "boot_attempts (sim_flash (wf_core w4)) rec = 0" "\<not> app_confirmed (sim_flash (wf_core w4)) rec"
    using append_phase [OF c3(1) _ u3, of extra] by blast
  have c4: "wf_core w4 = after_dfu k ps rec (wf_core w)"
    using w4(2) by (simp add: reached_def c3(2) after_dfu_def)
  have "upgraded k img ps (wf_core w) rec (wf_core w4)"
    using w4(5-7) flash(1,2,4) [OF w4(4)] map_le_trans [OF pk(4)] unfolding upgraded_def c4 by blast
  moreover have "wf_verify_succeeded w4" "wf_state w4 = WS_READY"
    using w3(4,5) w4(3) by (simp_all add: wf_flags_def)
  moreover have "reached w (wf_core w4) w4"
    using reached_trans [OF w3(6) w4(2)] by (simp add: reached_def)
  moreover have "dfu (sim_io extra) k img w = (Inr (), w4\<lparr>wf_progress := wf_progress w4 @ [(''Metadata'', 1, 1)]\<rparr>)"
    using app w3(1-3) w4(1) uploads_record(2) [OF c3(1) u3] plain_workflowD(3) [OF c3(1)]
    by (simp add: dfu_def thenM_def bindM_def known_info_def wf_info_def progress_def)
  ultimately show ?thesis
    by (intro exI [of _ "w4\<lparr>wf_progress := wf_progress w4 @ [(''Metadata'', 1, 1)]\<rparr>"] exI [of _ rec])
      (simp add: reached_def plain_workflow_def wf_ready_def wf_core_def wf_info_def)
qed

text \<open>
  C2.  The upgrade installs the image.  On a connected simulated device without faults,
  \<open>dfu\<close> with a sector mask that covers the image and the metadata sector returns; the Flash then
  holds every word of the image, the metadata's current record names its entry point, size and CRC
  with no boot attempt and no confirmation, sectors outside the mask are untouched, and the workflow
  knows that the verification succeeded.
\<close>

theorem dfu_installs_image:
  assumes "plain_workflow w" "16 \<le> di_max_payload_words (sim_device_info (wf_core w))"
    and "image_wf img" "aligned_image img" "validate_sector_mask_for_image k img = Inr ()" "bit k 1"
    and "prepare_packets img (di_max_data_words (sim_device_info (wf_core w))) = Inr ps"
  shows "\<exists>w' rec. dfu (simulator_io (\<lambda>t. Suc (extra t))) k img w = (Inr (), w') \<and> plain_workflow w' \<and>
    upgraded k img ps (wf_core w) rec (wf_core w') \<and> wf_verify_succeeded w' \<and> wf_state w' = WS_READY"
proof -
  have "validate_app_firmware_image img = Inr ()"
    using assms(5) by (auto simp: validate_sector_mask_for_image_def bindE_Inr_iff)
  then have "uploads (wf_core w) img ps"
    using assms(3,4,7) by (simp only: uploads_def simp_thms)
  then show ?thesis
    using dfu_installs [OF assms(1) _ _ assms(5,6), of ps extra] assms(2) unfolding sim_accepts_def reached_def
    by blast
qed

end
