(* ===== verification/Application_Start.thy ===== *)
theory Application_Start
  imports Installation
begin

text \<open>
  \<open>UpgradeWorkflow.run\<close> on a simulated device whose metadata names the image: it reads the metadata
  summary, records a boot attempt and requests the start.
\<close>

section \<open>The three requests\<close>

lemma image_record_fields:
  assumes "sim_wf s" "recorded_image s rec e n c"
  shows "lo16 e = rec ! 14" "hi16 e = rec ! 15" "lo16 n = rec ! 16" "hi16 n = rec ! 17"
    "lo16 c = rec ! 18" "hi16 c = rec ! 19" "u32 e" "u32 n" "u32 c" "words16 rec" "length rec = 64"
proof -
  have r: "image_record (sim_flash s) = Some rec" and e: "e = join_u32 (rec ! 14) (rec ! 15)"
    "n = join_u32 (rec ! 16) (rec ! 17)" "c = join_u32 (rec ! 18) (rec ! 19)"
    using assms(2) by (simp_all add: recorded_image_def)
  have "words_wf (sim_flash s)"
    using assms(1) by (simp add: sim_wf_def)
  then show w: "words16 rec" "length rec = 64"
    using image_record_words [OF r] by simp_all
  then have "u16 (rec ! k)" if "k < 64" for k
    using that words16_nth by simp
  then show "lo16 e = rec ! 14" "hi16 e = rec ! 15" "lo16 n = rec ! 16" "hi16 n = rec ! 17"
    "lo16 c = rec ! 18" "hi16 c = rec ! 19" "u32 e" "u32 n" "u32 c"
    unfolding e by (simp_all add: split_join)
qed

definition read_summary :: "sim \<Rightarrow> metadata_summary \<Rightarrow> bool" where
  "read_summary s sm \<longleftrightarrow> summary_matches (sim_flash s) sm"

lemma summary_answers:
  assumes "sim_wf s"
  shows "\<exists>pl. answers s CMD_GET_METADATA_SUMMARY [] pl s \<and> length pl = 25 \<and>
    summary_matches (sim_flash s) (metadata_summary_of_words pl) \<and>
    metadata_summary_from_words pl = Inr (metadata_summary_of_words pl)"
proof -
  have "words_wf (sim_flash s)"
    using assms by (simp add: sim_wf_def)
  then obtain pl where pl: "metadata_summary_payload s = Inr pl" "length pl = 25" "words16 pl"
    "summary_matches (sim_flash s) (metadata_summary_of_words pl)"
    using summary_payload by blast
  have "answers s CMD_GET_METADATA_SUMMARY [] pl s"
  proof (rule answersI)
    fix q
    assume "app_request CMD_GET_METADATA_SUMMARY [] q"
    then show "handler CMD_GET_METADATA_SUMMARY q s = (Inr (reply_frame q ST_OK pl), s)"
      using pl by (simp add: app_request_def h_get_metadata_summary_def require_empty_def unless_error_def bindM_def getM_def respond_eq)
  qed (simp add: service_commands_def)
  moreover have "metadata_summary_from_words pl = Inr (metadata_summary_of_words pl)"
    using pl by (simp add: metadata_summary_from_words_def METADATA_SUMMARY_WORDS_def bindE_Inr_iff check_words_Inr_iff)
  ultimately show ?thesis
    using pl by blast
qed

lemma attempt_answers:
  assumes "sim_wf s" "service_ready s" "image_record (sim_flash s) = Some rec"
    and "\<not> app_confirmed (sim_flash s) rec" "boot_attempts (sim_flash s) rec < 3"
    and "first_free_record (sim_flash s) \<noteq> None"
  shows "\<exists>s'. answers s CMD_METADATA_APPEND_RECORD (append_payload REC_BOOT_ATTEMPT rec) [] s' \<and>
    append_ok REC_BOOT_ATTEMPT rec s s'"
proof -
  obtain s' where s': "append_ok REC_BOOT_ATTEMPT rec s s'"
    "\<forall>q. app_request CMD_METADATA_APPEND_RECORD (append_payload REC_BOOT_ATTEMPT rec) q \<longrightarrow>
       h_metadata_append_record q s = (Inr (reply_frame q ST_OK []), s')"
    using append_boot_ok [OF assms(1) _ assms(3,4) _ assms(6), of REC_BOOT_ATTEMPT] assms(5) by auto
  have "answers s CMD_METADATA_APPEND_RECORD (append_payload REC_BOOT_ATTEMPT rec) [] s'"
    using s'(2) assms(2) by (intro answersI) simp_all
  then show ?thesis
    using s'(1) by blast
qed

lemma run_answers:
  assumes "sim_reachable s" "image_record (sim_flash s) = Some rec"
    and "join_u32 (rec ! 14) (rec ! 15) mod 8 = 0" "addresses_allowed s (join_u32 (rec ! 14) (rec ! 15)) 1"
    and "app_confirmed (sim_flash s) rec \<or> boot_attempts (sim_flash s) rec \<noteq> 0"
  shows "answers s CMD_RUN (run_payload rec) [] (s\<lparr>sim_pending_action := ACT_RUN_APP\<rparr>)"
  unfolding answers_def using transact_run_ok [OF _ assms] by blast

section \<open>The workflow\<close>

text \<open>An image the device can start: recorded, unconfirmed, with attempts and records left.\<close>

definition startable :: "sim \<Rightarrow> int list \<Rightarrow> int \<Rightarrow> bool" where
  "startable s rec e \<longleftrightarrow>
     (\<exists>n c. recorded_image s rec e n c) \<and> \<not> app_confirmed (sim_flash s) rec \<and>
     boot_attempts (sim_flash s) rec < 3 \<and> first_free_record (sim_flash s) \<noteq> None"

definition started :: "sim \<Rightarrow> int list \<Rightarrow> sim \<Rightarrow> bool" where
  "started s rec s' \<longleftrightarrow>
     sim_pending_action s' = ACT_RUN_APP \<and> image_record (sim_flash s') = Some rec \<and>
     boot_attempts (sim_flash s') rec = boot_attempts (sim_flash s) rec + 1 \<and>
     (\<forall>x. x \<notin> metadata_area \<longrightarrow> sim_flash s' x = sim_flash s x)"

lemma fetch_summary:
  assumes "plain_workflow w" "25 \<le> sim_accepts (wf_core w)"
  shows "\<exists>w' sm. on_client (get_metadata_summary (sim_io extra) None) w = (Inr sm, w') \<and>
    wf_moved w (wf_core w) w' \<and> wf_allowed_flash_ranges w' = wf_allowed_flash_ranges w \<and>
    summary_matches (sim_flash (wf_core w)) sm"
proof -
  note w = plain_workflowD [OF assms(1)]
  have "sim_wf (wf_core w)"
    using sim_reachable_wf [OF wf_ready_reachable [OF w(1)]] .
  then obtain pl where pl: "answers (wf_core w) CMD_GET_METADATA_SUMMARY [] pl (wf_core w)" "length pl = 25"
    "summary_matches (sim_flash (wf_core w)) (metadata_summary_of_words pl)"
    "metadata_summary_from_words pl = Inr (metadata_summary_of_words pl)"
    using summary_answers by blast
  have fits: "words16 []" "int (length ([] :: int list)) \<le> sim_accepts (wf_core w)" "int (length pl) \<le> wf_limit w"
    using assms(2) pl(2) plain_info(5) [OF assms(1)] by simp_all
  obtain c where c: "client_transact (sim_io extra) (command_code CMD_GET_METADATA_SUMMARY) [] (Some 5000) (wf_client w) =
      (Inr pl, c)" "wf_moved w (wf_core w) (w\<lparr>wf_client := c\<rparr>)"
    using client_step [OF w(1) pl(1) _ fits, of 5000 extra] by auto
  then show ?thesis
    using pl(3,4) by (intro exI [of _ "w\<lparr>wf_client := c\<rparr>"] exI [of _ "metadata_summary_of_words pl"])
      (simp add: on_client_def get_metadata_summary_def catchM_def bindM_def timeout_or_def)
qed

lemma append_payload_eq:
  "append_payload kind img = [metadata_record_type_code kind, boot_slot_code SLOT_SLOT_A,
     img ! 14, img ! 15, img ! 16, img ! 17, img ! 18, img ! 19, 0, 0, 0, 0, 0, 0, 0, 0]"
  by (simp add: append_payload_def image_fields_def upt_rec numeral_eq_Suc)

lemma count_attempt:
  assumes "plain_workflow w" "16 \<le> sim_accepts (wf_core w)" "startable (wf_core w) rec e"
    and "summary_matches (sim_flash (wf_core w)) sm"
  shows "\<exists>w'. record_attempt (sim_io extra) sm w = (Inr (), w') \<and> wf_ready w' \<and> wf_info w' = wf_info w \<and>
    append_ok REC_BOOT_ATTEMPT rec (wf_core w) (wf_core w') \<and> wf_flags w' = wf_flags w"
proof -
  note w = plain_workflowD [OF assms(1)] and info = plain_info [OF assms(1)]
  let ?s = "wf_core w"
  have wf: "sim_wf ?s"
    using sim_reachable_wf [OF wf_ready_reachable [OF w(1)]] .
  obtain n c where rec: "recorded_image ?s rec e n c" and st: "\<not> app_confirmed (sim_flash ?s) rec"
    "boot_attempts (sim_flash ?s) rec < 3" "first_free_record (sim_flash ?s) \<noteq> None"
    using assms(3) by (auto simp: startable_def)
  have r: "image_record (sim_flash ?s) = Some rec"
    using rec by (simp only: recorded_image_def)
  note fields = image_record_fields [OF wf rec]
  obtain s' where s': "answers ?s CMD_METADATA_APPEND_RECORD (append_payload REC_BOOT_ATTEMPT rec) [] s'"
    "append_ok REC_BOOT_ATTEMPT rec ?s s'"
    using attempt_answers [OF wf w(4) r st] by blast
  have sm: "ms_app_confirmed sm = 0" "ms_boot_attempt_count sm < ms_boot_attempt_limit sm"
    "ms_entry_point sm = e" "ms_image_size_words sm = n" "ms_image_crc32 sm = c"
    using assms(4) rec st by (simp_all add: summary_matches_def recorded_image_def)
  have fits: "words16 (append_payload REC_BOOT_ATTEMPT rec)"
    "int (length (append_payload REC_BOOT_ATTEMPT rec)) \<le> sim_accepts ?s" "int (length ([] :: int list)) \<le> wf_limit w"
    using assms(2) fields(10,11) info(5) by (simp_all add: append_payload_eq words16_nth u16_def [of 0] u16_def [of 1]
        u16_def [of 2])
  obtain c' where c': "client_transact (sim_io extra) (command_code CMD_METADATA_APPEND_RECORD)
      (append_payload REC_BOOT_ATTEMPT rec) (Some 10000) (wf_client w) = (Inr [], c')"
    "wf_moved w s' (w\<lparr>wf_client := c'\<rparr>)"
    using client_step [OF w(1) s'(1) _ fits, of 10000 extra] by auto
  have "metadata_append_boot_attempt (sim_io extra) e n c (Some 10000) (wf_client w) = (Inr (), c')"
    using c'(1) fields by (simp add: metadata_append_boot_attempt_def issue_def thenM_def bindM_def append_payload_eq)
  then have "record_attempt (sim_io extra) sm w =
      (Inr (), w\<lparr>wf_client := c', wf_progress := wf_progress w @ [(''BootAttempt'', 1, 1)]\<rparr>)"
    using sm by (simp add: record_attempt_def thenM_def bindM_def on_client_def progress_def)
  then show ?thesis
    using c'(2) s'(2) by (intro exI) (auto simp: wf_moved_def wf_ready_def wf_core_def wf_info_def wf_flags_def)
qed

lemma request_run:
  assumes "plain_workflow w" "recorded_image (wf_core w) rec e n c"
    and "e mod 8 = 0" "0x082400 \<le> e" "e < 0x0C0000" "boot_attempts (sim_flash (wf_core w)) rec \<noteq> 0"
  shows "\<exists>w'. wf_transact (sim_io extra) CMD_RUN [target_code TGT_FLASH_APP, lo16 e, hi16 e, 0] False w = (Inr [], w') \<and>
    wf_moved w (wf_core w\<lparr>sim_pending_action := ACT_RUN_APP\<rparr>) w'"
proof -
  note w = plain_workflowD [OF assms(1)] and info = plain_info [OF assms(1)]
  let ?s = "wf_core w"
  have wf: "sim_wf ?s"
    using sim_reachable_wf [OF wf_ready_reachable [OF w(1)]] .
  have r: "image_record (sim_flash ?s) = Some rec" "join_u32 (rec ! 14) (rec ! 15) = e"
    using assms(2) by (simp_all only: recorded_image_def)
  note fields = image_record_fields [OF wf assms(2)]
  have "addresses_allowed ?s e 1"
    using assms(4,5) plain_faults(2) [OF w(2)] by (intro app_addresses_allowed [OF w(5)]) simp_all
  then have a: "answers ?s CMD_RUN (run_payload rec) [] (?s\<lparr>sim_pending_action := ACT_RUN_APP\<rparr>)"
    using run_answers [OF wf_ready_reachable [OF w(1)] r(1)] assms(3,6) r(2) by simp
  have p: "run_payload rec = [target_code TGT_FLASH_APP, lo16 e, hi16 e, 0]"
    using fields by (simp add: run_payload_def)
  have fits: "words16 (run_payload rec)" "int (length (run_payload rec)) \<le> sim_accepts ?s"
    "int (length ([] :: int list)) \<le> wf_limit w"
    using fields(1,2) words16_nth [OF fields(10), unfolded fields(11)] info(5,6)
    by (simp_all add: p u16_def [of 0] u16_def [of 1])
  show ?thesis
    using wf_transact_step [OF w(1) a _ _ fits, of 5000] unfolding p by simp
qed

lemma append_ok_keeps:
  assumes "append_ok kind img s s'"
  shows "configuration s' = configuration s" "service_ready s' = service_ready s"
  using assms by (auto simp: append_ok_def store_record_def configuration_def service_ready_def)

lemma run_starts_application:
  assumes w: "plain_workflow w" "25 \<le> sim_accepts (wf_core w)"
    and img: "validate_app_firmware_image img = Inr ()" "entry_allowed (wf_allowed_flash_ranges w) img"
    and flags: "wf_flash_modified w \<longrightarrow> wf_verify_succeeded w"
    and st: "startable (wf_core w) rec (fi_entry_point img)"
  shows "\<exists>w'. wf_run (sim_io extra) img w = (Inr (), w') \<and> started (wf_core w) rec (wf_core w')"
proof -
  let ?e = "fi_entry_point img"
  obtain n c where rec: "recorded_image (wf_core w) rec ?e n c"
    using st by (auto simp: startable_def)
  then have r: "image_record (sim_flash (wf_core w)) = Some rec"
    by (simp only: recorded_image_def)
  have e: "?e mod 8 = 0" "0x082400 \<le> ?e" "?e < 0x0C0000"
    using img(1) by (simp_all add: validate_app_ok_iff)
  obtain w1 sm where w1: "on_client (get_metadata_summary (sim_io extra) None) w = (Inr sm, w1)"
    "wf_moved w (wf_core w) w1" "summary_matches (sim_flash (wf_core w)) sm"
    using fetch_summary [OF w] by blast
  have c1: "wf_core w1 = wf_core w" "plain_workflow w1"
    using w1(2) plain_moved [OF w(1) w1(2)] plain_workflowD(4) [OF w(1)] by (simp_all add: wf_moved_def)
  have sm: "ms_metadata_valid sm = 1" "ms_entry_point sm = ?e"
    using w1(3) rec by (simp_all add: summary_matches_def recorded_image_def)
  obtain w2 where w2: "record_attempt (sim_io extra) sm w1 = (Inr (), w2)" "wf_ready w2" "wf_info w2 = wf_info w1"
    "append_ok REC_BOOT_ATTEMPT rec (wf_core w) (wf_core w2)"
    using count_attempt [OF c1(2), of rec ?e sm extra] w(2) st w1(3) c1(1) by auto
  note a = append_ok_flash [OF w2(4) _ r] and k = append_ok_keeps [OF w2(4)]
  have c2: "plain_workflow w2"
    using plain_workflowD [OF c1(2)] w2(2,3) k
    by (auto simp: plain_workflow_def plain_sim_def c1(1) configuration_def)
  have rec2: "recorded_image (wf_core w2) rec ?e n c"
    using rec a(1) by (simp add: recorded_image_def)
  obtain w3 where w3: "wf_transact (sim_io extra) CMD_RUN [target_code TGT_FLASH_APP, lo16 ?e, hi16 ?e, 0] False w2 =
      (Inr [], w3)" "wf_moved w2 (wf_core w2\<lparr>sim_pending_action := ACT_RUN_APP\<rparr>) w3"
    using request_run [OF c2 rec2 e] a(2) by auto
  have "u32 ?e"
    using e by (simp add: u_simps)
  then have "wf_run (sim_io extra) img w = (Inr (), w3)"
    using img flags w1(1) w2(1) w3(1) e(1) sm by (simp add: wf_run_def thenM_def bindM_def)
  moreover have "started (wf_core w) rec (wf_core w3)"
    using w3(2) a append_ok_outside [OF w2(4)] by (simp add: started_def wf_moved_def)
  ultimately show ?thesis
    by blast
qed

text \<open>
  C1.  From image to running application: the upgrade followed by the start.  Under the hypotheses of
  the upgrade, and an entry point in the allowed ranges, \<open>dfu\<close> and then \<open>run\<close> return, the device is
  about to start the application, its Flash holds the image, and the metadata counts one attempt of it.
\<close>

theorem upgrade_starts_application:
  assumes "plain_workflow w" "25 \<le> di_max_payload_words (sim_device_info (wf_core w))"
    and "image_wf img" "aligned_image img" "validate_sector_mask_for_image k img = Inr ()" "bit k 1"
    and "prepare_packets img (di_max_data_words (sim_device_info (wf_core w))) = Inr ps"
    and "entry_allowed (wf_allowed_flash_ranges w) img"
  shows "\<exists>w' rec. thenM (dfu (simulator_io (\<lambda>t. Suc (extra t))) k img)
        (wf_run (simulator_io (\<lambda>t. Suc (extra t))) img) w = (Inr (), w') \<and>
    sim_pending_action (wf_core w') = ACT_RUN_APP \<and> image_cells (fi_blocks img) \<subseteq>\<^sub>m sim_flash (wf_core w') \<and>
    image_record (sim_flash (wf_core w')) = Some rec \<and> join_u32 (rec ! 14) (rec ! 15) = fi_entry_point img \<and>
    boot_attempts (sim_flash (wf_core w')) rec = 1"
proof -
  have app: "validate_app_firmware_image img = Inr ()"
    using assms(5) by (auto simp: validate_sector_mask_for_image_def bindE_Inr_iff)
  then have up: "uploads (wf_core w) img ps"
    using assms(3,4,7) by (simp only: uploads_def simp_thms)
  have acc: "16 \<le> sim_accepts (wf_core w)" "25 \<le> sim_accepts (wf_core w)"
    using assms(2) by (simp_all add: sim_accepts_def)
  obtain w1 rec where w1: "dfu (sim_io extra) k img w = (Inr (), w1)" "reached w (wf_core w1) w1"
    "upgraded k img ps (wf_core w) rec (wf_core w1)" "wf_verify_succeeded w1"
    using dfu_installs [OF assms(1) acc(1) up assms(5,6)] by blast
  then have c1: "plain_workflow w1" "wf_allowed_flash_ranges w1 = wf_allowed_flash_ranges w"
    by (simp_all only: reached_def)
  have st: "startable (wf_core w1) rec (fi_entry_point img)"
    using w1(3) by (auto simp: upgraded_def startable_def)
  obtain w2 where w2: "wf_run (sim_io extra) img w1 = (Inr (), w2)" "started (wf_core w1) rec (wf_core w2)"
    using run_starts_application [OF c1(1) _ app _ _ st, of extra] acc(2) reached_device(2) [OF w1(2)] assms(8)
      w1(4) c1(2) by auto
  have cells: "image_cells (fi_blocks img) \<subseteq>\<^sub>m sim_flash (wf_core w2)"
    unfolding map_le_def
  proof
    fix x
    assume x: "x \<in> dom (image_cells (fi_blocks img))"
    then have "packet_cells ps x \<noteq> None"
      using uploads_packets(4) [OF assms(1) up] by (auto simp: map_le_def dom_def)
    then have "x \<notin> metadata_area"
      using uploads_packets(10) [OF assms(1) up, of x] by (auto simp: metadata_area_def slot_defs)
    then show "image_cells (fi_blocks img) x = sim_flash (wf_core w2) x"
      using x w1(3) w2(2) by (simp add: upgraded_def started_def map_le_def)
  qed
  show ?thesis
    using w1(1,3) w2 cells
    by (intro exI [of _ w2] exI [of _ rec])
      (simp add: thenM_def bindM_def started_def upgraded_def recorded_image_def)
qed

end
