(* ===== verification/Sim_Example.thy ===== *)
theory Sim_Example
  imports Sim_Boot
begin

text \<open>
  Concrete runs of the simulator at which the properties of its theories are applied: a fresh
  device, a verification of eight erased words, the recorded image, a boot attempt and the start.
\<close>

definition fresh_device :: "bool \<Rightarrow> sim" where
  "fresh_device require = projr (SimulatorCore [] None None require)"

definition request_frame :: "command \<Rightarrow> int list \<Rightarrow> frame" where
  "request_frame cmd payload =
     \<lparr>fr_packet_type = packet_type_code PKT_REQUEST, fr_command = command_code cmd, fr_sequence = 1,
      fr_payload = payload, fr_flags = 0, fr_status = 0, fr_protocol_version = PROTOCOL_VERSION\<rparr>"

lemma app_request_frame:
  "words16 payload \<Longrightarrow> length payload \<le> 0xFFFF \<Longrightarrow> app_request cmd payload (request_frame cmd payload)"
  by (simp add: app_request_def request_frame_def frame_wf_def u_simps PROTOCOL_VERSION_def)
    (cases cmd; simp)

lemma fresh_reachable: "sim_reachable (fresh_device require)"
proof -
  have "SimulatorCore [] None None require = Inr (fresh_device require)"
    by (simp add: fresh_device_def SimulatorCore_def Let_def default_sectors_def)
  then show ?thesis
    using sim_reachable.construct by fastforce
qed

text \<open>The state after a list of requests, and the statuses they were answered with.\<close>

fun exchange :: "frame list \<Rightarrow> sim \<Rightarrow> sim" where
  "exchange [] s = s"
| "exchange (request # rest) s = exchange rest (snd (transact request s))"

lemma exchange_reachable:
  "sim_reachable s \<Longrightarrow> list_all frame_wf requests \<Longrightarrow> sim_reachable (exchange requests s)"
  by (induction requests s rule: exchange.induct)
    (auto intro: sim_reachable.request [OF _ _ surjective_pairing])

lemma exchange_reachable_frame:
  "list_all (\<lambda>(cmd, payload). words16 payload \<and> length payload \<le> 0xFFFF) rs \<Longrightarrow>
     sim_reachable (exchange (map (\<lambda>(cmd, payload). request_frame cmd payload) rs) (fresh_device require))"
  by (rule exchange_reachable [OF fresh_reachable])
    (use app_request_frame in \<open>fastforce simp: list_all_iff app_request_def\<close>)

section \<open>A verified but empty device\<close>

definition verify_requests :: "(command \<times> int list) list" where
  "verify_requests =
     [(CMD_VERIFY_BEGIN, [1, 1, 8, 0, 0x2400, 8, 0, 0, 0]),
      (CMD_VERIFY_DATA, [0x2400, 8, 8, 0, 0, 0xFFFF, 0xFFFF, 0xFFFF, 0xFFFF, 0xFFFF, 0xFFFF, 0xFFFF, 0xFFFF]),
      (CMD_VERIFY_END, [1, 0, 8, 0, 0, 0])]"

definition verified_device :: sim where
  "verified_device =
     exchange (map (\<lambda>(cmd, payload). request_frame cmd payload) verify_requests) (fresh_device False)"

lemma verified_device: "sim_reachable verified_device" "sim_verify_succeeded verified_device"
proof -
  show "sim_reachable verified_device"
    unfolding verified_device_def
    by (rule exchange_reachable_frame) (simp add: verify_requests_def u_simps)
  show "sim_verify_succeeded verified_device"
    by code_simp
qed

lemma transact_keeps_flash:
  assumes "fr_command request = command_code cmd"
    and "cmd \<notin> {CMD_ERASE, CMD_PROGRAM_DATA, CMD_METADATA_APPEND_RECORD}"
  shows "flash_view (snd (transact request s)) = flash_view s"
proof (rule ccontr)
  assume ne: "flash_view (snd (transact request s)) \<noteq> flash_view s"
  obtain x s' where x: "transact request s = (x, s')"
    by (cases "transact request s")
  have "kept flash_view s (handler cmd request s)"
    using handler_keeps_flash [of cmd request s] assms(2) by (cases "handler cmd request s") simp
  then have "kept flash_view s (transact request s)"
    unfolding transact_def assms(1) by (intro fv.kept_rules) auto
  then show False
    using ne by (simp add: kept_def)
qed

lemma exchange_keeps_flash:
  "list_all (\<lambda>(cmd, payload). cmd \<notin> {CMD_ERASE, CMD_PROGRAM_DATA, CMD_METADATA_APPEND_RECORD}) rs \<Longrightarrow>
     flash_view (exchange (map (\<lambda>(cmd, payload). request_frame cmd payload) rs) s) = flash_view s"
proof (induction rs arbitrary: s)
  case (Cons r rs)
  then show ?case
    using transact_keeps_flash [of "request_frame (fst r) (snd r)" "fst r" s]
    by (cases r) (simp add: request_frame_def)
qed simp

lemma verified_device_flash: "sim_flash verified_device = Map.empty" "service_ready verified_device"
proof -
  have "flash_view verified_device = flash_view (fresh_device False)"
    unfolding verified_device_def by (rule exchange_keeps_flash) (simp add: verify_requests_def)
  then show "sim_flash verified_device = Map.empty" "service_ready verified_device"
    by (simp_all add: flash_view_def configuration_def fresh_device_def SimulatorCore_def Let_def
        default_sectors_def service_ready_def)
qed





section \<open>An installed image\<close>

definition image_valid_request :: frame where
  "image_valid_request = request_frame CMD_METADATA_APPEND_RECORD
     [1, 1, 0x2400, 8, 8, 0, 7, 0, 0, 0, 0, 0, 0, 0x2408, 8, 0]"

definition installed_device :: sim where
  "installed_device = snd (transact image_valid_request verified_device)"

definition installed_image :: "int list" where
  "installed_image = the (image_record (sim_flash installed_device))"

lemma erased_empty: "metadata_erased (metadata_record Map.empty i)"
  by (simp add: metadata_erased_def metadata_record_def mem_get_def list_all_iff)

lemma first_free_empty: "first_free_record Map.empty = Some 0"
  by (simp add: first_free_record_def METADATA_RECORD_COUNT_def upt_conv_Cons erased_empty)

lemma reachable_wf:
  assumes "sim_reachable s"
  shows "metadata_ok (sim_flash s)" "words_wf (sim_flash s)" "device_info_wf (sim_device_info s)"
  using sim_reachable_wf [OF assms] by (simp_all add: sim_wf_def)

lemma installed_device:
  "sim_reachable installed_device" "service_ready installed_device"
  "image_record (sim_flash installed_device) = Some installed_image"
  "join_u32 (installed_image ! 14) (installed_image ! 15) = 0x082400"
  "boot_attempts (sim_flash installed_device) installed_image = 0"
  "\<not> app_confirmed (sim_flash installed_device) installed_image"
  "i \<noteq> 0 \<Longrightarrow> metadata_erased (metadata_record (sim_flash installed_device) i)"
proof -
  note wf = reachable_wf [OF verified_device(1)]
  define p :: "int list" where "p = [1, 1, 0x2400, 8, 8, 0, 7, 0, 0, 0, 0, 0, 0, 0x2408, 8, 0]"
  have rq: "app_request CMD_METADATA_APPEND_RECORD p image_valid_request"
    unfolding image_valid_request_def p_def by (rule app_request_frame) (simp_all add: u_simps)
  obtain rec where rec: "build_image_valid_record p (next_record_sequence (sim_flash verified_device))
      (sim_device_info verified_device) = Inr rec"
    "record_built REC_IMAGE_VALID (next_record_sequence (sim_flash verified_device)) rec"
    "rec ! 14 = 0x2400" "rec ! 15 = 8"
    using build_image_valid_record_ok [OF _ _ next_record_sequence_bounds(4) [OF wf(1,2)] wf(3), of p]
    by (auto simp: p_def u_simps)
  have "image_valid_accepted image_valid_request verified_device 0 rec"
    using rq rec(1) verified_device(2) verified_device_flash(1)
    by (simp add: image_valid_accepted_def app_request_def p_def first_free_empty Let_def slot_defs)
      (simp add: join_u32_def)
  then have t: "transact image_valid_request verified_device =
      (Inr (reply_frame image_valid_request ST_OK []), (store_record 0 rec verified_device)\<lparr>sim_verify_succeeded := False\<rparr>)"
    using transact_app_request [OF rq] verified_device_flash(2) append_image_valid_ok rq
    by (simp add: app_request_def)
  show "sim_reachable installed_device"
    using sim_reachable.request [OF verified_device(1) _ surjective_pairing] rq
    by (simp add: installed_device_def app_request_def)
  show "service_ready installed_device"
    using verified_device_flash(2) by (simp add: installed_device_def t service_ready_def store_record_def)
  have fl: "sim_flash installed_device = sim_flash verified_device ++ cells (record_base 0) rec"
    by (simp add: installed_device_def t store_record_def)
  have free: "first_free_record (sim_flash verified_device) = Some 0"
    by (simp add: verified_device_flash first_free_empty)
  note stored = image_record_store_image [OF wf(1,2) free rec(2)]
  have img: "installed_image = rec"
    using stored by (simp add: installed_image_def fl)
  show "image_record (sim_flash installed_device) = Some installed_image"
    "boot_attempts (sim_flash installed_device) installed_image = 0"
    "\<not> app_confirmed (sim_flash installed_device) installed_image"
    using stored by (simp_all add: img fl)
  show "join_u32 (installed_image ! 14) (installed_image ! 15) = 0x082400"
    using rec by (simp add: img join_u32_def)
  show "metadata_erased (metadata_record (sim_flash installed_device) i)" if "i \<noteq> 0"
    using that rec(2) metadata_record_store [of rec "sim_flash verified_device" 0 i]
    by (simp add: fl record_built_def verified_device_flash erased_empty)
qed

lemma installed_device_free: "first_free_record (sim_flash installed_device) \<noteq> None"
  using first_free_NoneD [of "sim_flash installed_device" 1] installed_device(7) [of 1] by auto

section \<open>An attempted start\<close>

definition boot_attempt_request :: frame where
  "boot_attempt_request =
     request_frame CMD_METADATA_APPEND_RECORD (append_payload REC_BOOT_ATTEMPT installed_image)"

definition app_confirmed_request :: frame where
  "app_confirmed_request =
     request_frame CMD_METADATA_APPEND_RECORD (append_payload REC_APP_CONFIRMED installed_image)"

definition run_request :: frame where
  "run_request = request_frame CMD_RUN (run_payload installed_image)"

definition attempted_device :: sim where
  "attempted_device = snd (transact boot_attempt_request installed_device)"

lemma append_payload_wf:
  assumes "words16 img" "length img = 64"
  shows "words16 (append_payload kind img)" "length (append_payload kind img) \<le> 0xFFFF"
    "words16 (run_payload img)"
  using assms by (auto simp: append_payload_def image_fields_def run_payload_def words16_nth
      list_all_iff)
    (cases kind; auto simp: u_simps)

lemma installed_requests:
  "app_request CMD_METADATA_APPEND_RECORD (append_payload REC_BOOT_ATTEMPT installed_image) boot_attempt_request"
  "app_request CMD_METADATA_APPEND_RECORD (append_payload REC_APP_CONFIRMED installed_image) app_confirmed_request"
  "app_request CMD_RUN (run_payload installed_image) run_request"
  unfolding boot_attempt_request_def app_confirmed_request_def run_request_def
  using append_payload_wf [OF image_record_words [OF installed_device(3) reachable_wf(2) [OF installed_device(1)]]]
  by (auto intro!: app_request_frame simp: run_payload_def)

lemma attempted_device:
  "sim_reachable attempted_device" "service_ready attempted_device"
  "image_record (sim_flash attempted_device) = Some installed_image"
  "boot_attempts (sim_flash attempted_device) installed_image = 1"
  "\<not> app_confirmed (sim_flash attempted_device) installed_image"
  "first_free_record (sim_flash attempted_device) \<noteq> None"
proof -
  note rq = installed_requests(1)
  obtain s' where s': "h_metadata_append_record boot_attempt_request installed_device =
      (Inr (reply_frame boot_attempt_request ST_OK []), s')"
    "append_ok REC_BOOT_ATTEMPT installed_image installed_device s'"
    using append_boot_ok [OF sim_reachable_wf [OF installed_device(1)] _ installed_device(3,6) _
        installed_device_free, of REC_BOOT_ATTEMPT] installed_device(5) rq by auto
  then have [simp]: "attempted_device = s'"
    using transact_app_request [OF rq installed_device(2)] by (simp add: attempted_device_def)
  show "sim_reachable attempted_device"
    using sim_reachable.request [OF installed_device(1) _ surjective_pairing] rq
    unfolding attempted_device_def app_request_def by blast
  show "image_record (sim_flash attempted_device) = Some installed_image"
    "boot_attempts (sim_flash attempted_device) installed_image = 1"
    "\<not> app_confirmed (sim_flash attempted_device) installed_image"
    using append_ok_flash [OF s'(2) _ installed_device(3)] installed_device(5,6) by simp_all
  obtain k rec where k: "s' = store_record k rec installed_device" "length rec = 64"
    using s'(2) by (auto simp: append_ok_def record_built_def)
  show "service_ready attempted_device"
    using installed_device(2) by (simp add: k service_ready_def store_record_def)
  have "metadata_erased (metadata_record (sim_flash s') (if k = 1 then 2 else 1))"
    using installed_device(7) [of 1] installed_device(7) [of 2]
    by (simp add: k store_record_def metadata_record_store)
  then show "first_free_record (sim_flash attempted_device) \<noteq> None"
    using first_free_NoneD [of "sim_flash s'" "if k = 1 then 2 else 1"] by (auto split: if_splits)
qed

section \<open>The properties at these devices\<close>

theorem transact_answers_witness:
  "\<exists>r s'. transact run_request attempted_device = (Inr r, s') \<and> fr_sequence r = 1"
  using transact_answers [OF attempted_device(1), of run_request] installed_requests(3)
  by (auto simp: app_request_def run_request_def request_frame_def)

definition programming_device :: sim where
  "programming_device = snd (transact
     (request_frame CMD_PROGRAM_BEGIN [1, 1, 8, 0, 0x2400, 8, 0, 0, 0]) (fresh_device False))"

definition programming_request :: frame where
  "programming_request =
     request_frame CMD_PROGRAM_DATA [0x2400, 8, 8, 0, 0, 1, 2, 3, 4, 5, 6, 7, 8]"

theorem flash_discipline_witness:
  "0x082403 \<notin> sim_programmed programming_device \<and> sim_flash programming_device 0x082403 = None \<and>
   sim_flash (snd (transact programming_request programming_device)) 0x082403 = Some 4"
proof -
  have r: "sim_reachable programming_device"
    unfolding programming_device_def
    by (rule sim_reachable.request [OF fresh_reachable _ surjective_pairing])
      (use app_request_frame [of "[1, 1, 8, 0, 0x2400, 8, 0, 0, 0]" CMD_PROGRAM_BEGIN] in
        \<open>simp add: app_request_def u_simps\<close>)
  have rq: "frame_wf programming_request" "fr_command programming_request = command_code CMD_PROGRAM_DATA"
    using app_request_frame [of "[0x2400, 8, 8, 0, 0, 1, 2, 3, 4, 5, 6, 7, 8]" CMD_PROGRAM_DATA]
    by (simp_all add: app_request_def programming_request_def u_simps)
  have f: "sim_flash (snd (transact programming_request programming_device)) 0x082403 = Some 4"
    "sim_flash programming_device 0x082403 = None"
    by code_simp+
  obtain r s' where t: "transact programming_request programming_device = (Inr r, s')"
    using good_transact [OF rq(1) sim_reachable_wf [OF r]] by (auto simp: good_def)
  then show ?thesis
    using flash_discipline [OF r rq(1) t, of "0x082403"] f rq(2) by auto
qed

theorem boot_attempts_bounded_witness: "boot_attempts (sim_flash attempted_device) installed_image \<le> 3"
  by (rule boot_attempts_bounded [OF attempted_device(1,3)])

theorem boot_attempt_recorded_witness:
  "\<exists>s'. transact boot_attempt_request installed_device = (Inr (reply_frame boot_attempt_request ST_OK []), s') \<and>
     boot_attempts (sim_flash s') installed_image = 1"
  using boot_attempt_recorded [OF installed_requests(1) installed_device(1,2,3) surjective_pairing]
    installed_device(5,6) installed_device_free by (auto intro!: prod_eqI)

theorem app_confirmation_recorded_witness:
  "\<exists>s'. transact app_confirmed_request attempted_device = (Inr (reply_frame app_confirmed_request ST_OK []), s') \<and>
     app_confirmed (sim_flash s') installed_image"
  using app_confirmation_recorded [OF installed_requests(2) attempted_device(1,2,3) _ attempted_device(5,6)]
    attempted_device(4) by auto

lemma exchange_configuration: "configuration (exchange rs s) = configuration s"
  by (induction rs s rule: exchange.induct) (simp_all add: transact_configuration)

lemma attempted_addresses: "addresses_allowed attempted_device 0x082400 1"
proof -
  have "configuration attempted_device = configuration (fresh_device False)"
    by (simp add: attempted_device_def installed_device_def verified_device_def transact_configuration
        exchange_configuration)
  then have "addresses_allowed attempted_device 0x082400 1 = addresses_allowed (fresh_device False) 0x082400 1"
    by (simp add: configuration_def addresses_allowed_def in_sectors_def)
  moreover have "addresses_allowed (fresh_device False) 0x082400 1"
    by code_simp
  ultimately show ?thesis by simp
qed

theorem run_starts_witness:
  "transact run_request attempted_device =
     (Inr (reply_frame run_request ST_OK []), attempted_device\<lparr>sim_pending_action := ACT_RUN_APP\<rparr>)"
  using run_starts [OF installed_requests(3) attempted_device(1,3)] installed_device(4) attempted_device(4)
    attempted_addresses by simp


theorem service_gate_witness:
  "transact programming_request (fresh_device True) =
     (Inr (reply_frame programming_request ST_UNSUPPORTED_FEATURE []), fresh_device True)"
proof -
  have f: "sim_require_service (fresh_device True)" "sim_service_state (fresh_device True) \<noteq> SVC_ATTACHED"
    by (simp_all add: fresh_device_def SimulatorCore_def Let_def default_sectors_def)
  have "app_request CMD_PROGRAM_DATA [0x2400, 8, 8, 0, 0, 1, 2, 3, 4, 5, 6, 7, 8] programming_request"
    unfolding programming_request_def by (rule app_request_frame) (simp_all add: u_simps)
  then show ?thesis
    using service_gate [OF f, of programming_request] by (simp add: app_request_def service_commands_def)
qed

end
