(* ===== verification/Upgrade_Example.thy ===== *)
theory Upgrade_Example
  imports Application_Start Sim_Device Sim_Example
begin

text \<open>
  A connected workflow on the fresh simulator and a small image: the runs at which the properties of
  the upgrade are applied.
\<close>

definition example_device :: sim_device where
  "example_device = \<lparr>sd_core = fresh_device False, sd_open = True,
     sd_reader = projr (new_reader (fresh_device False)), sd_response_words = [], sd_pending_high_byte = None\<rparr>"

definition example_client :: "sim_device client" where
  "example_client = (projr (ProtocolClient example_device 1000 0 True))
     \<lparr>cl_device_info := Some (sim_device_info (fresh_device False))\<rparr>"

definition example_workflow :: "sim_device workflow" where
  "example_workflow = UpgradeWorkflow example_client []"

lemma fresh_device_eq: "SimulatorCore [] None None require = Inr (fresh_device require)"
  by (simp add: fresh_device_def SimulatorCore_def Let_def default_sectors_def)

lemma fresh_device_fields:
  "sim_sectors (fresh_device False) = default_sectors" "sim_faults (fresh_device False) = no_faults"
  "sim_require_service (fresh_device False) = False"
  "di_max_payload_words (sim_device_info (fresh_device False)) = 256"
  "di_max_data_words (sim_device_info (fresh_device False)) = 248"
  by (simp_all add: fresh_device_def SimulatorCore_def Let_def default_sectors_def default_device_info_def)

lemma example_device_ready: "sd_ready example_device" "sd_core example_device = fresh_device False"
  using fresh_reachable [of False] fresh_device_fields
  by (simp_all add: example_device_def sd_ready_def idle_device_def new_reader_def ResyncReader_def wire_faults_def
      no_faults_def)

lemma example_workflow_plain: "plain_workflow example_workflow" "wf_core example_workflow = fresh_device False"
  "wf_allowed_flash_ranges example_workflow = []"
proof -
  show c: "wf_core example_workflow = fresh_device False" "wf_allowed_flash_ranges example_workflow = []"
    using example_device_ready(2)
    by (simp_all add: wf_core_def example_workflow_def UpgradeWorkflow_def example_client_def ProtocolClient_def)
  have "wf_ready example_workflow"
    using example_device_ready(1)
    by (simp add: wf_ready_def simdev.client_ready_def example_workflow_def UpgradeWorkflow_def example_client_def
        ProtocolClient_def u16_def)
  then show "plain_workflow example_workflow"
    unfolding plain_workflow_def plain_sim_def c service_ready_def
    using fresh_device_fields
    by (simp add: wf_info_def example_workflow_def UpgradeWorkflow_def example_client_def ProtocolClient_def)
qed

definition example_packets :: "data_packet list" where
  "example_packets = projr (prepare_packets example_image 248)"

lemma example_packets: "prepare_packets example_image 248 = Inr example_packets"
proof -
  have "prepare_packets example_image 248 = Inr [\<lparr>dp_address = 0x82400, dp_words = [1, 2, 3] @ replicate 5 0xFFFF, dp_index = 0\<rparr>]"
    by (simp add: prepare_packets_closed example_image_wf example_image_merged)
      (simp add: example_image_def blocks_chunks_def block_chunks_Cons pad_words_short limit_packets_def)
  then show ?thesis
    by (simp add: example_packets_def)
qed

lemma example_image_selected:
  "aligned_image example_image" "validate_sector_mask_for_image 2 example_image = Inr ()" "bit (2 :: int) 1"
  "entry_allowed [] example_image" "image_cells (fi_blocks example_image) 0x82400 = Some 1"
  using example_image_app example_image_mask
  by (simp_all add: aligned_image_def example_image_def validate_sector_mask_for_image_def
      validate_manual_erase_mask_def ALLOWED_ERASE_MASK_def entry_allowed_def block_cells_def cells_def)

theorem dfu_installs_image_witness:
  "\<exists>w'. dfu (simulator_io (\<lambda>t. Suc 5)) 2 example_image example_workflow = (Inr (), w') \<and>
     sim_flash (wf_core w') 0x82400 = Some 1"
proof -
  obtain w' rec where "dfu (simulator_io (\<lambda>t. Suc 5)) 2 example_image example_workflow = (Inr (), w')"
    "upgraded 2 example_image example_packets (wf_core example_workflow) rec (wf_core w')"
    using dfu_installs_image [OF example_workflow_plain(1) _ example_image_wf example_image_selected(1-3),
        of example_packets "\<lambda>_. 5"] example_packets
    unfolding example_workflow_plain(2) fresh_device_fields by auto
  then show ?thesis
    using example_image_selected(5) by (auto simp: upgraded_def map_le_def dom_def)
qed

theorem upgrade_starts_application_witness:
  "\<exists>w'. thenM (dfu (simulator_io (\<lambda>t. Suc 0)) 2 example_image) (wf_run (simulator_io (\<lambda>t. Suc 0)) example_image)
       example_workflow = (Inr (), w') \<and> sim_pending_action (wf_core w') = ACT_RUN_APP"
  using upgrade_starts_application [OF example_workflow_plain(1) _ example_image_wf example_image_selected(1-3),
      of example_packets "\<lambda>_. 0"] example_packets example_image_selected(4)
  unfolding example_workflow_plain(2,3) fresh_device_fields by auto

section \<open>Single calls\<close>

lemma ping_answer:
  assumes "u16 q"
  shows "transact (client_request q (command_code CMD_PING) []) s =
    (Inr (reply_frame (client_request q (command_code CMD_PING) []) ST_OK []), s)"
proof -
  have "frame_wf (client_request q (command_code CMD_PING) [])"
    using assms by (intro client_request_wf) (simp_all add: u16_def)
  then have rq: "app_request CMD_PING [] (client_request q (command_code CMD_PING) [])"
    by (simp add: app_request_def client_request_def)
  then show ?thesis
    using transact_app_request [OF rq, of s]
    by (simp add: service_commands_def h_ping_def unless_error_def require_empty_def bindM_def app_request_def respond_eq)
qed

lemma example_client_fields:
  "cl_device example_client = example_device" "cl_sequence example_client = 0"
  "cl_default_timeout_ms example_client = 1000" "client_limit example_client = 256"
  using fresh_device_fields by (simp_all add: example_client_def ProtocolClient_def client_limit_def)

theorem client_refines_transact_witness:
  "\<exists>c'. client_transact (simulator_io (\<lambda>t. Suc 0)) (command_code CMD_PING) [] None example_client = (Inr [], c') \<and>
     sd_core (cl_device c') = fresh_device False"
  using client_refines_transact [of example_client "command_code CMD_PING" "[]" None _ _ "\<lambda>_. 0",
      OF _ _ _ _ _ _ _ _ ping_answer] example_client_fields example_device_ready fresh_device_fields
  by (auto simp: reply_result_def u16_def reply_frame_def)

definition mute_core :: sim where
  "mute_core = (fresh_device False)\<lparr>sim_faults := no_faults\<lparr>flt_no_response := True\<rparr>\<rparr>"

definition mute_client :: "sim_device client" where
  "mute_client = example_client\<lparr>cl_device := example_device\<lparr>sd_core := mute_core\<rparr>\<rparr>"

lemma mute_core_reachable: "sim_reachable mute_core"
proof -
  have "SimulatorCore [] None (Some (no_faults\<lparr>flt_no_response := True\<rparr>)) False = Inr mute_core"
    by (simp add: mute_core_def fresh_device_def SimulatorCore_def Let_def default_sectors_def)
  then show ?thesis
    using sim_reachable.construct by fastforce
qed

theorem lost_answer_times_out_witness:
  "\<exists>c'. client_transact (simulator_io (\<lambda>t. 3)) (command_code CMD_PING) [] (Some 100) mute_client =
     (Inl (IoTimeoutError ''response timed out''), c') \<and> sd_core (cl_device c') = mute_core"
proof -
  have "idle_device (cl_device mute_client)"
    using example_device_ready(1) mute_core_reachable
    by (simp add: mute_client_def sd_ready_def idle_device_def example_device_ready(2)) (simp add: mute_core_def)
  moreover have "sd_core (cl_device mute_client) = mute_core" "cl_sequence mute_client = 0"
    "flt_no_response (sim_faults mute_core)" "sim_device_info mute_core = sim_device_info (fresh_device False)"
    using example_client_fields by (simp_all add: mute_client_def mute_core_def)
  ultimately show ?thesis
    using lost_answer_times_out [of mute_client "command_code CMD_PING" "[]" 100 "\<lambda>t. 3"] fresh_device_fields
      ping_answer [of 0] by (auto simp: u16_def)
qed

end
