(* ===== verification/Transport.thy ===== *)
theory Transport
  imports Frame_Reader
begin

text \<open>
  The byte-stream contract \<open>ByteTransport\<close> (\<open>transport/base.py\<close>) as a record of functions on the
  transport's own state, its open result, and the cancellation tokens (\<open>cancellation.py\<close>); then
  the serial transport, the one implementation of the contract.
\<close>

section \<open>Cancellation\<close>

text \<open>
  A token answers a sequence of questions; its answers, by the number of the question, are the
  schedule of cancellation requests, over which every statement quantifies.
\<close>

type_synonym cancellation = "nat \<Rightarrow> bool"

definition cancellation_requested :: "cancellation option \<Rightarrow> nat \<Rightarrow> bool \<times> nat" where
  "cancellation_requested token asked =
     (case token of None \<Rightarrow> (False, asked) | Some answers \<Rightarrow> (answers asked, Suc asked))"

section \<open>The transport\<close>

datatype transport_open_status = TRANSPORT_OPENED | TRANSPORT_CANCELLED

record transport_open_result =
  tor_status :: transport_open_status
  tor_resource_released :: bool
  tor_stage :: string

definition TransportOpenResult :: "transport_open_status \<Rightarrow> bool \<Rightarrow> string \<Rightarrow> transport_open_result res" where
  "TransportOpenResult status resource_released stage =
     (if stage = [] then Inl (ValueError ''stage must be a non-empty string'')
      else if status = TRANSPORT_OPENED \<and> resource_released
      then Inl (ValueError ''OPENED requires resource_released=False'')
      else if status = TRANSPORT_CANCELLED \<and> \<not> resource_released
      then Inl (ValueError ''CANCELLED requires resource_released=True'')
      else Inr \<lparr>tor_status = status, tor_resource_released = resource_released, tor_stage = stage\<rparr>)"

text \<open>\<open>bt_polls\<close> stands for the clock, as \<open>io_polls\<close> does for the devices.\<close>

record 't byte_transport =
  bt_open :: "cancellation option \<Rightarrow> ('t, transport_open_result) sm"
  bt_close :: "('t, unit) sm"
  bt_write_all :: "int list \<Rightarrow> ('t, unit) sm"
  bt_read_some :: "int \<Rightarrow> ('t, int list) sm"
  bt_polls :: "int \<Rightarrow> nat"

section \<open>Serial ports\<close>

text \<open>
  The two users of a serial port: the byte transport with SCI autobaud (\<open>transport/serial_transport.py\<close>)
  and the IO device (\<open>io/serial_device.py\<close>).  The port itself is a third-party class: its methods are a
  record of functions on the state of the port.

  The clock is the parameter \<open>waits\<close>: for a wait of the given number of milliseconds it lists the
  positive remaining times that successive looks at the clock find before the deadline has passed.
\<close>

section \<open>The port\<close>

record serial_transport_config =
  stc_port :: string
  stc_baudrate :: int
  stc_tx_timeout_ms :: int
  stc_rx_timeout_ms :: int
  stc_autobaud_timeout_ms :: int

text \<open>\<open>py_create\<close> is the constructor, \<open>py_flush\<close> does nothing where the port has no such method.\<close>

record 'p pyserial =
  py_create :: "string \<Rightarrow> int \<Rightarrow> int \<Rightarrow> int \<Rightarrow> ('p, unit) sm"
  py_set_dtr :: "bool \<Rightarrow> ('p, unit) sm"
  py_set_rts :: "bool \<Rightarrow> ('p, unit) sm"
  py_set_timeout :: "int \<Rightarrow> ('p, unit) sm"
  py_write :: "int list \<Rightarrow> ('p, int option) sm"
  py_flush :: "('p, unit) sm"
  py_read :: "int \<Rightarrow> ('p, int list) sm"
  py_in_waiting :: "'p \<Rightarrow> int option"
  py_reset_input_buffer :: "('p, unit) sm"
  py_close :: "('p, unit) sm"

fun is_transport_error :: "exc \<Rightarrow> bool" where
  "is_transport_error (TransportError _) = True"
| "is_transport_error (TransportTimeoutError _) = True"
| "is_transport_error (TransportClosedError _) = True"
| "is_transport_error _ = False"

text \<open>\<open>except Exception as exc: raise \<dots> from exc\<close>\<close>

definition wrap_errors :: "(string \<Rightarrow> exc) \<Rightarrow> string \<Rightarrow> ('s, 'a) sm \<Rightarrow> ('s, 'a) sm" where
  "wrap_errors raised message m =
     catchM m (\<lambda>e. raiseM (if is_exception e then raised (message @ exc_msg e) else e))"

section \<open>The transport\<close>

record 'p serial_transport =
  sr_port :: 'p
  sr_open :: bool
  sr_asked :: nat

definition SerialTransport :: "serial_transport_config \<Rightarrow> 'p \<Rightarrow> 'p serial_transport res" where
  "SerialTransport config port =
     (if stc_port config = [] then Inl (ValueError ''serial port must not be empty'')
      else if stc_baudrate config \<le> 0 then Inl (ValueError ''baudrate must be positive'')
      else if min (min (stc_tx_timeout_ms config) (stc_rx_timeout_ms config)) (stc_autobaud_timeout_ms config) \<le> 0
      then Inl (ValueError ''timeouts must be positive'')
      else Inr \<lparr>sr_port = port, sr_open = False, sr_asked = 0\<rparr>)"

definition on_port :: "('p, 'a) sm \<Rightarrow> ('p serial_transport, 'a) sm" where
  "on_port m s = (case m (sr_port s) of (r, p) \<Rightarrow> (r, s\<lparr>sr_port := p\<rparr>))"

definition ask_serial_token :: "cancellation option \<Rightarrow> ('p serial_transport, bool) sm" where
  "ask_serial_token token s =
     (case cancellation_requested token (sr_asked s) of (answer, asked) \<Rightarrow> (Inr answer, s\<lparr>sr_asked := asked\<rparr>))"

definition AUTOBAUD_INTERVAL_MS :: int where "AUTOBAUD_INTERVAL_MS = 50"
definition POST_AUTOBAUD_DELAY_MS :: int where "POST_AUTOBAUD_DELAY_MS = 100"
definition OPEN_SETTLE_MS :: int where "OPEN_SETTLE_MS = 500"

fun cancellable_wait :: "cancellation option \<Rightarrow> int list \<Rightarrow> ('p serial_transport, bool) sm" where
  "cancellable_wait token [] = bindM (ask_serial_token token) (\<lambda>c. if c then returnM True else ask_serial_token token)"
| "cancellable_wait token (remaining # rest) =
     bindM (ask_serial_token token) (\<lambda>c. if c then returnM True else cancellable_wait token rest)"

definition set_timeout :: "'p pyserial \<Rightarrow> int \<Rightarrow> ('p, unit) sm" where
  "set_timeout ps timeout_ms = py_set_timeout ps (max 0 timeout_ms)"

definition autobaud_attempt :: "'p pyserial \<Rightarrow> int \<Rightarrow> ('p, bool) sm" where
  "autobaud_attempt ps timeout_ms =
     thenM (py_write ps [65]) (thenM (py_flush ps) (thenM (set_timeout ps timeout_ms)
       (bindM (py_read ps 1) (\<lambda>data. returnM (data = [65])))))"

text \<open>What the \<open>try\<close> block of one attempt does; \<open>Some stage\<close> is its \<open>return\<close>.\<close>

definition autobaud_try ::
  "'p pyserial \<Rightarrow> int \<Rightarrow> cancellation option \<Rightarrow> int \<Rightarrow> ('p serial_transport, string option option) sm" where
  "autobaud_try ps rx_timeout_ms token timeout_ms =
     catchM
       (bindM (on_port (autobaud_attempt ps timeout_ms)) (\<lambda>echo.
          if echo then thenM (on_port (set_timeout ps rx_timeout_ms)) (bindM (ask_serial_token token) (\<lambda>c.
            returnM (Some (if c then Some ''AUTOBAUD_AFTER_ECHO'' else None))))
          else returnM None))
       (\<lambda>e. case e of TransportTimeoutError _ \<Rightarrow> raiseM e
          | _ \<Rightarrow> raiseM (if is_exception e then TransportError (''SCI autobaud handshake failed: '' @ exc_msg e) else e))"

fun autobaud ::
  "'p pyserial \<Rightarrow> int \<Rightarrow> cancellation option \<Rightarrow> int list \<Rightarrow> ('p serial_transport, string option) sm" where
  "autobaud ps rx_timeout_ms token [] =
     bindM (ask_serial_token token) (\<lambda>c.
       if c then returnM (Some ''AUTOBAUD_BEFORE_ATTEMPT'')
       else raiseM (TransportTimeoutError ''SCI autobaud handshake timed out''))"
| "autobaud ps rx_timeout_ms token (remaining # rest) =
     bindM (ask_serial_token token) (\<lambda>c.
       if c then returnM (Some ''AUTOBAUD_BEFORE_ATTEMPT'')
       else bindM (autobaud_try ps rx_timeout_ms token (min AUTOBAUD_INTERVAL_MS remaining)) (\<lambda>r. case r of
         Some stage \<Rightarrow> returnM stage
       | None \<Rightarrow> bindM (ask_serial_token token) (\<lambda>c.
           if c then returnM (Some ''AUTOBAUD_AFTER_ATTEMPT'')
           else autobaud ps rx_timeout_ms token rest)))"

definition serial_require_open :: "('p serial_transport, unit) sm" where
  "serial_require_open = bindM (getM sr_open) (\<lambda>opened.
     if opened then returnM () else raiseM (TransportClosedError ''serial transport is not open''))"

definition finish_open ::
  "'p pyserial \<Rightarrow> (int \<Rightarrow> int list) \<Rightarrow> serial_transport_config \<Rightarrow> cancellation option \<Rightarrow>
     ('p serial_transport, string option) sm" where
  "finish_open ps waits config token =
     bindM (cancellable_wait token (waits OPEN_SETTLE_MS)) (\<lambda>c.
       if c then returnM (Some ''OPEN_SETTLE'')
       else bindM (thenM serial_require_open
           (autobaud ps (stc_rx_timeout_ms config) token (waits (stc_autobaud_timeout_ms config)))) (\<lambda>stage.
         if stage \<noteq> None then returnM stage
         else bindM (cancellable_wait token (waits POST_AUTOBAUD_DELAY_MS)) (\<lambda>c.
           if c then returnM (Some ''POST_AUTOBAUD_DELAY'')
           else bindM (ask_serial_token token) (\<lambda>c.
             returnM (if c then Some ''BEFORE_OPEN_RETURN'' else None)))))"

definition serial_close :: "'p pyserial \<Rightarrow> ('p serial_transport, unit) sm" where
  "serial_close ps = bindM (getM sr_open) (\<lambda>opened.
     if \<not> opened then returnM ()
     else thenM (wrap_errors TransportError ''failed to close serial port: '' (on_port (py_close ps)))
       (modM (\<lambda>s. s\<lparr>sr_open := False\<rparr>)))"

definition cancel_open :: "'p pyserial \<Rightarrow> string \<Rightarrow> ('p serial_transport, transport_open_result) sm" where
  "cancel_open ps stage =
     thenM (catchM (serial_close ps) (\<lambda>e. raiseM (if is_transport_error e
         then TransportError (''serial open cancellation at '' @ stage @ ''; cleanup failed: '' @ exc_msg e) else e)))
       (liftM (TransportOpenResult TRANSPORT_CANCELLED True stage))"

text \<open>The part of \<open>open\<close> inside \<open>try\<close>, with its handler.\<close>

definition open_settled ::
  "'p pyserial \<Rightarrow> (int \<Rightarrow> int list) \<Rightarrow> serial_transport_config \<Rightarrow> cancellation option \<Rightarrow>
     ('p serial_transport, string option) sm" where
  "open_settled ps waits config token =
     catchM
       (thenM (on_port (py_set_dtr ps False)) (thenM (on_port (py_set_rts ps False))
         (finish_open ps waits config token)))
       (\<lambda>e. if \<not> is_exception e then raiseM e
          else bindM (getM sr_open) (\<lambda>opened.
            if \<not> opened then raiseM e
            else thenM (catchM (serial_close ps) (\<lambda>f. raiseM (if is_transport_error f
                then TransportError (''serial open failed: '' @ exc_msg e @ ''; cleanup failed: '' @ exc_msg f)
                else f)))
              (raiseM e)))"

definition serial_open ::
  "'p pyserial \<Rightarrow> (int \<Rightarrow> int list) \<Rightarrow> serial_transport_config \<Rightarrow> cancellation option \<Rightarrow>
     ('p serial_transport, transport_open_result) sm" where
  "serial_open ps waits config token =
     bindM (getM sr_open) (\<lambda>opened.
     if opened then liftM (TransportOpenResult TRANSPORT_OPENED False ''ALREADY_OPEN'')
     else bindM (ask_serial_token token) (\<lambda>c.
     if c then liftM (TransportOpenResult TRANSPORT_CANCELLED True ''BEFORE_SERIAL_OPEN'')
     else thenM (on_port (py_create ps (stc_port config) (stc_baudrate config) (stc_rx_timeout_ms config)
         (stc_tx_timeout_ms config)))
       (thenM (modM (\<lambda>s. s\<lparr>sr_open := True\<rparr>))
       (bindM (ask_serial_token token) (\<lambda>c.
        if c then cancel_open ps ''AFTER_SERIAL_OPEN''
        else bindM (open_settled ps waits config token) (\<lambda>stage. case stage of
            Some stage \<Rightarrow> cancel_open ps stage
          | None \<Rightarrow> liftM (TransportOpenResult TRANSPORT_OPENED False ''OPEN_COMPLETE'')))))))"

definition serial_write_all :: "'p pyserial \<Rightarrow> int list \<Rightarrow> ('p serial_transport, unit) sm" where
  "serial_write_all ps data =
     thenM serial_require_open
     (bindM (wrap_errors TransportError ''serial write failed: ''
         (on_port (bindM (py_write ps data) (\<lambda>written. thenM (py_flush ps) (returnM written))))) (\<lambda>written.
      if (case written of None \<Rightarrow> int (length data) | Some n \<Rightarrow> n) \<noteq> int (length data)
      then raiseM (TransportError ''serial write accepted too few bytes'') else returnM ()))"

definition serial_read_some :: "'p pyserial \<Rightarrow> int \<Rightarrow> ('p serial_transport, int list) sm" where
  "serial_read_some ps max_bytes =
     (if max_bytes \<le> 0 then raiseM (ValueError ''max_bytes must be positive'')
      else wrap_errors TransportError ''serial read failed: ''
        (thenM serial_require_open (on_port (py_read ps max_bytes))))"

text \<open>The class as a \<open>ByteTransport\<close>; the number of polls of a frame reader follows the same clock.\<close>

definition serial_byte_transport ::
  "'p pyserial \<Rightarrow> (int \<Rightarrow> int list) \<Rightarrow> serial_transport_config \<Rightarrow> 'p serial_transport byte_transport" where
  "serial_byte_transport ps waits config =
     \<lparr>bt_open = serial_open ps waits config, bt_close = serial_close ps, bt_write_all = serial_write_all ps,
      bt_read_some = serial_read_some ps, bt_polls = (\<lambda>timeout_ms. length (waits timeout_ms))\<rparr>"

end
