(* ===== verification/Boot_Client.thy ===== *)
theory Boot_Client
  imports Transport Client
begin

text \<open>
  The command-level client \<open>BootProtocolClient\<close> (\<open>protocol/boot_protocol_client.py\<close>) and its
  connection lifecycle \<open>UpgradeSession\<close> (\<open>session/session.py\<close>).  The client caches the
  capabilities the target announces and bounds every request and response by them.  Its lock has no
  effect on a single thread of calls and is left out.
\<close>

section \<open>State\<close>

record 't boot_client =
  bc_transport :: 't
  bc_buffer :: "int list"
  bc_sequence :: int
  bc_device_info :: "device_info option"
  bc_protocol_info :: "protocol_info option"
  bc_wire_attempts :: "int list"

text \<open>The frame reader's buffer is part of the state; the wire attempts are the observer's calls.\<close>

definition BootProtocolClient :: "'t \<Rightarrow> 't boot_client" where
  "BootProtocolClient transport =
     \<lparr>bc_transport = transport, bc_buffer = [], bc_sequence = 0, bc_device_info = None,
      bc_protocol_info = None, bc_wire_attempts = []\<rparr>"

definition reset_connection_state :: "('t boot_client, unit) sm" where
  "reset_connection_state =
     modM (\<lambda>c. c\<lparr>bc_sequence := 0, bc_device_info := None, bc_protocol_info := None\<rparr>)"

section \<open>Capabilities\<close>

definition BOOTSTRAP_MAX_PAYLOAD_WORDS :: int where
  "BOOTSTRAP_MAX_PAYLOAD_WORDS = max DEVICE_INFO_WORDS (max PROTOCOL_INFO_WORDS ERROR_DETAIL_WORDS)"

definition BOOTSTRAP_COMMANDS :: "int list" where
  "BOOTSTRAP_COMMANDS =
     map command_code [CMD_PING, CMD_GET_DEVICE_INFO, CMD_GET_PROTOCOL_INFO, CMD_GET_LAST_ERROR]"

definition effective_max_payload_words :: "'t boot_client \<Rightarrow> int res" where
  "effective_max_payload_words c =
     (case (bc_device_info c, bc_protocol_info c) of
        (Some d, Some p) \<Rightarrow>
          let limit = min (di_max_payload_words d) (pi_max_payload_words p) in
          if limit \<le> 0
          then Inl (ProtocolDecodeError ''effective max payload words must be positive'')
          else Inr limit
      | _ \<Rightarrow> Inl (ProtocolDecodeError ''device and protocol capabilities are required''))"

definition effective_max_data_words :: "'t boot_client \<Rightarrow> int res" where
  "effective_max_data_words c =
     (case bc_device_info c of
        None \<Rightarrow> Inl (ProtocolDecodeError ''device capabilities are required'')
      | Some d \<Rightarrow>
          bindE (effective_max_payload_words c) (\<lambda>payload.
            let limit = min (di_max_data_words d) (payload - 5) in
            if limit \<le> 0 then Inl (ProtocolDecodeError ''effective max DATA words must be positive'')
            else Inr limit))"

definition effective_max_write_data_words :: "'t boot_client \<Rightarrow> int res" where
  "effective_max_write_data_words c =
     bindE (effective_max_data_words c) (\<lambda>data_words.
       let limit = data_words - data_words mod WRITE_DATA_ALIGNMENT_WORDS in
       if limit \<le> 0 \<or> limit mod WRITE_DATA_ALIGNMENT_WORDS \<noteq> 0
       then Inl (ProtocolDecodeError ''effective max Flash DATA words must be a positive aligned value'')
       else Inr limit)"

definition payload_limit :: "'t boot_client \<Rightarrow> int \<Rightarrow> int res" where
  "payload_limit c cmd =
     (if bc_device_info c \<noteq> None \<and> bc_protocol_info c \<noteq> None \<or> cmd \<notin> set BOOTSTRAP_COMMANDS
      then effective_max_payload_words c
      else Inr (foldl min BOOTSTRAP_MAX_PAYLOAD_WORDS
        ((case bc_device_info c of
            Some d \<Rightarrow> if di_max_payload_words d > 0 then [di_max_payload_words d] else [] | None \<Rightarrow> []) @
         (case bc_protocol_info c of
            Some p \<Rightarrow> if pi_max_payload_words p > 0 then [pi_max_payload_words p] else [] | None \<Rightarrow> []))))"

text \<open>The \<open>try\<close> block around the capability updates turns value errors into decode errors.\<close>

definition as_decode_error :: "'a res \<Rightarrow> 'a res" where
  "as_decode_error r =
     (case r of Inl e \<Rightarrow> Inl (if is_value_error e then ProtocolDecodeError (exc_msg e) else e) | Inr x \<Rightarrow> Inr x)"

definition cached :: "int \<Rightarrow> int list \<Rightarrow> 't boot_client \<Rightarrow> 't boot_client res" where
  "cached cmd payload c = as_decode_error
     (if cmd = command_code CMD_GET_DEVICE_INFO then
        bindE (device_info_from_words payload) (\<lambda>info.
          if (case bc_device_info c of None \<Rightarrow> False
              | Some d \<Rightarrow> (di_device_id info, di_cpu_id info) \<noteq> (di_device_id d, di_cpu_id d))
          then Inl (ProtocolDecodeError ''DeviceInfo target identity changed'')
          else if (case bc_protocol_info c of None \<Rightarrow> False
              | Some p \<Rightarrow> di_protocol_ver info \<noteq> pi_protocol_ver p)
          then Inl (ProtocolDecodeError ''DeviceInfo and ProtocolInfo protocol versions do not match'')
          else Inr (c\<lparr>bc_device_info := Some info\<rparr>))
      else if cmd = command_code CMD_GET_PROTOCOL_INFO then
        bindE (protocol_info_from_words payload) (\<lambda>info.
          if (case bc_device_info c of None \<Rightarrow> False
              | Some d \<Rightarrow> pi_protocol_ver info \<noteq> di_protocol_ver d)
          then Inl (ProtocolDecodeError ''DeviceInfo and ProtocolInfo protocol versions do not match'')
          else Inr (c\<lparr>bc_protocol_info := Some info\<rparr>))
      else Inr c)"

definition cache_capability :: "int \<Rightarrow> int list \<Rightarrow> ('t boot_client, unit) sm" where
  "cache_capability cmd payload c =
     (case cached cmd payload c of Inl e \<Rightarrow> (Inl e, c) | Inr c' \<Rightarrow> (Inr (), c'))"

section \<open>One transaction\<close>

definition on_transport :: "('t, 'a) sm \<Rightarrow> ('t boot_client, 'a) sm" where
  "on_transport m c = (case m (bc_transport c) of (r, t) \<Rightarrow> (r, c\<lparr>bc_transport := t\<rparr>))"

definition bc_read_frame :: "'t byte_transport \<Rightarrow> int \<Rightarrow> int \<Rightarrow> ('t boot_client, frame) sm" where
  "bc_read_frame tr timeout_ms max_payload_words c =
     (case read_frame (bt_read_some tr) timeout_ms max_payload_words (bt_polls tr timeout_ms)
        (bc_buffer c, bc_transport c) of
        (r, buffer, t) \<Rightarrow> (r, c\<lparr>bc_buffer := buffer, bc_transport := t\<rparr>))"

definition command_timeout :: "int \<Rightarrow> int option \<Rightarrow> int" where
  "command_timeout cmd timeout_ms =
     (case timeout_ms of
        Some t \<Rightarrow> if t \<noteq> 0 then t
          else (case Option.bind (Command_of cmd) DEFAULT_COMMAND_TIMEOUT_MS of Some t \<Rightarrow> t | None \<Rightarrow> 1000)
      | None \<Rightarrow> (case Option.bind (Command_of cmd) DEFAULT_COMMAND_TIMEOUT_MS of Some t \<Rightarrow> t | None \<Rightarrow> 1000))"

text \<open>The response checks are those of \<open>ProtocolClient\<close>, line by line.\<close>

definition bc_transact ::
  "'t byte_transport \<Rightarrow> int \<Rightarrow> int list \<Rightarrow> int option \<Rightarrow> bool \<Rightarrow> ('t boot_client, int list) sm" where
  "bc_transact tr cmd payload timeout_ms observed =
     bindM (getM (\<lambda>c. payload_limit c cmd)) (\<lambda>limit.
     bindM (liftM limit) (\<lambda>max_payload.
     bindM (getM (\<lambda>c.
       if int (length payload) > max_payload
       then Inl (ProtocolPayloadLimitError cmd (int (length payload)) max_payload
         (map_option di_max_payload_words (bc_device_info c))
         (map_option pi_max_payload_words (bc_protocol_info c)))
       else bindE (next_sequence (bc_sequence c)) (\<lambda>q.
         bindE (request_of cmd payload q) (\<lambda>request.
         bindE (encode_bytes request) (\<lambda>data. Inr (q, request, data)))))) (\<lambda>r.
     bindM (liftM r) (\<lambda>(q, request, data).
     thenM (if observed then modM (\<lambda>c. c\<lparr>bc_wire_attempts := bc_wire_attempts c @ [cmd]\<rparr>) else returnM ())
     (thenM (on_transport (bt_write_all tr data))
     (thenM (modM (\<lambda>c. c\<lparr>bc_sequence := q\<rparr>))
     (bindM (catchM (bc_read_frame tr (command_timeout cmd timeout_ms) max_payload)
         (\<lambda>e. raiseM (if is_frame_error e then ProtocolDecodeError (exc_msg e) else e))) (\<lambda>response.
      bindM (liftM (response_payload request response)) (\<lambda>words.
      thenM (cache_capability cmd words) (returnM words))))))))))"

section \<open>The commands\<close>

definition bc_command :: "'t byte_transport \<Rightarrow> command \<Rightarrow> int list \<Rightarrow> ('t boot_client, int list) sm" where
  "bc_command tr cmd payload = bc_transact tr (command_code cmd) payload None False"

definition bc_ping :: "'t byte_transport \<Rightarrow> ('t boot_client, int list) sm" where
  "bc_ping tr = bc_command tr CMD_PING []"

definition bc_get_device_info :: "'t byte_transport \<Rightarrow> ('t boot_client, device_info) sm" where
  "bc_get_device_info tr =
     thenM (bc_command tr CMD_GET_DEVICE_INFO []) (bindM (getM bc_device_info) (\<lambda>info. case info of
       None \<Rightarrow> raiseM (ProtocolDecodeError ''GET_DEVICE_INFO succeeded without cached DeviceInfo'')
     | Some d \<Rightarrow> returnM d))"

definition bc_get_protocol_info :: "'t byte_transport \<Rightarrow> ('t boot_client, protocol_info) sm" where
  "bc_get_protocol_info tr =
     thenM (bc_command tr CMD_GET_PROTOCOL_INFO []) (bindM (getM bc_protocol_info) (\<lambda>info. case info of
       None \<Rightarrow> raiseM (ProtocolDecodeError ''GET_PROTOCOL_INFO succeeded without cached ProtocolInfo'')
     | Some p \<Rightarrow> returnM p))"

definition bc_get_last_error :: "'t byte_transport \<Rightarrow> ('t boot_client, error_detail) sm" where
  "bc_get_last_error tr =
     bindM (bc_command tr CMD_GET_LAST_ERROR []) (\<lambda>words. liftM (error_detail_from_words words))"

definition bc_get_metadata_summary :: "'t byte_transport \<Rightarrow> ('t boot_client, metadata_summary) sm" where
  "bc_get_metadata_summary tr =
     bindM (bc_command tr CMD_GET_METADATA_SUMMARY []) (\<lambda>words. liftM (metadata_summary_from_words words))"

definition bc_get_service_status :: "'t byte_transport \<Rightarrow> ('t boot_client, service_status) sm" where
  "bc_get_service_status tr =
     bindM (bc_command tr CMD_GET_SERVICE_STATUS []) (\<lambda>words. liftM (service_status_from_words words))"

text \<open>The payloads put 32-bit arguments as two words each.\<close>

definition halves :: "int \<Rightarrow> int list res" where
  "halves v = bindE (split_u32 v) (\<lambda>(low, high). Inr [low, high])"

definition words3 :: "int \<Rightarrow> int \<Rightarrow> int \<Rightarrow> int list res" where
  "words3 a b c = bindE (halves a) (\<lambda>x. bindE (halves b) (\<lambda>y. bindE (halves c) (\<lambda>z. Inr (x @ y @ z))))"

definition bc_service_attach :: "'t byte_transport \<Rightarrow> int \<Rightarrow> int \<Rightarrow> int \<Rightarrow> ('t boot_client, int list) sm" where
  "bc_service_attach tr header_address expected_crc32 expected_total_words =
     bindM (liftM (words3 header_address expected_crc32 expected_total_words)) (\<lambda>ws.
       bc_command tr CMD_SERVICE_ATTACH (ws @ [0]))"

definition bc_begin ::
  "'t byte_transport \<Rightarrow> command \<Rightarrow> target \<Rightarrow> int \<Rightarrow> int \<Rightarrow> int \<Rightarrow> int \<Rightarrow> ('t boot_client, int list) sm" where
  "bc_begin tr cmd tgt packet_count total_words entry_point image_crc32 =
     bindM (liftM (words3 total_words entry_point image_crc32)) (\<lambda>ws.
       bc_command tr cmd ([target_code tgt, packet_count] @ ws @ [0]))"

definition bc_data ::
  "'t byte_transport \<Rightarrow> command \<Rightarrow> int \<Rightarrow> int list \<Rightarrow> int \<Rightarrow> ('t boot_client, int list) sm" where
  "bc_data tr cmd address words packet_index =
     bindM (liftM (halves address)) (\<lambda>a. bindM (liftM (halves packet_index)) (\<lambda>i.
       bc_command tr cmd (a @ [int (length words)] @ i @ words)))"

definition bc_end :: "'t byte_transport \<Rightarrow> command \<Rightarrow> int \<Rightarrow> int \<Rightarrow> int \<Rightarrow> ('t boot_client, int list) sm" where
  "bc_end tr cmd packet_count total_words image_crc32 =
     bindM (liftM (words3 packet_count total_words image_crc32)) (\<lambda>ws. bc_command tr cmd ws)"

definition bc_ram_load_begin ::
  "'t byte_transport \<Rightarrow> int \<Rightarrow> int \<Rightarrow> int \<Rightarrow> int \<Rightarrow> ('t boot_client, int list) sm" where
  "bc_ram_load_begin tr = bc_begin tr CMD_RAM_LOAD_BEGIN TGT_RAM_APP"

definition bc_ram_load_data :: "'t byte_transport \<Rightarrow> int \<Rightarrow> int list \<Rightarrow> int \<Rightarrow> ('t boot_client, int list) sm" where
  "bc_ram_load_data tr = bc_data tr CMD_RAM_LOAD_DATA"

definition bc_ram_load_end :: "'t byte_transport \<Rightarrow> int \<Rightarrow> int \<Rightarrow> int \<Rightarrow> ('t boot_client, int list) sm" where
  "bc_ram_load_end tr = bc_end tr CMD_RAM_LOAD_END"

definition bc_ram_check_crc :: "'t byte_transport \<Rightarrow> int \<Rightarrow> int \<Rightarrow> ('t boot_client, int list) sm" where
  "bc_ram_check_crc tr expected_crc32 expected_total_words =
     bindM (liftM (halves expected_crc32)) (\<lambda>c. bindM (liftM (halves expected_total_words)) (\<lambda>n.
       bc_command tr CMD_RAM_CHECK_CRC (c @ n @ [0])))"

definition bc_erase :: "'t byte_transport \<Rightarrow> int \<Rightarrow> ('t boot_client, int list) sm" where
  "bc_erase tr sector_mask =
     bindM (liftM (halves sector_mask)) (\<lambda>m. bc_command tr CMD_ERASE (m @ [0]))"

definition bc_program_begin ::
  "'t byte_transport \<Rightarrow> int \<Rightarrow> int \<Rightarrow> int \<Rightarrow> int \<Rightarrow> ('t boot_client, int list) sm" where
  "bc_program_begin tr = bc_begin tr CMD_PROGRAM_BEGIN TGT_FLASH_APP"

definition bc_program_data :: "'t byte_transport \<Rightarrow> int \<Rightarrow> int list \<Rightarrow> int \<Rightarrow> ('t boot_client, int list) sm" where
  "bc_program_data tr = bc_data tr CMD_PROGRAM_DATA"

definition bc_program_end :: "'t byte_transport \<Rightarrow> int \<Rightarrow> int \<Rightarrow> int \<Rightarrow> ('t boot_client, int list) sm" where
  "bc_program_end tr = bc_end tr CMD_PROGRAM_END"

definition bc_verify_begin ::
  "'t byte_transport \<Rightarrow> int \<Rightarrow> int \<Rightarrow> int \<Rightarrow> int \<Rightarrow> ('t boot_client, int list) sm" where
  "bc_verify_begin tr = bc_begin tr CMD_VERIFY_BEGIN TGT_FLASH_APP"

definition bc_verify_data :: "'t byte_transport \<Rightarrow> int \<Rightarrow> int list \<Rightarrow> int \<Rightarrow> ('t boot_client, int list) sm" where
  "bc_verify_data tr = bc_data tr CMD_VERIFY_DATA"

definition bc_verify_end :: "'t byte_transport \<Rightarrow> int \<Rightarrow> int \<Rightarrow> int \<Rightarrow> ('t boot_client, int list) sm" where
  "bc_verify_end tr = bc_end tr CMD_VERIFY_END"

definition bc_metadata_append ::
  "'t byte_transport \<Rightarrow> metadata_record_type \<Rightarrow> int \<Rightarrow> int \<Rightarrow> int \<Rightarrow> int \<Rightarrow> ('t boot_client, int list) sm" where
  "bc_metadata_append tr kind entry_point image_size_words image_crc32 app_end =
     bindM (liftM (words3 entry_point image_size_words image_crc32)) (\<lambda>ws.
     bindM (liftM (halves app_end)) (\<lambda>z.
       bc_command tr CMD_METADATA_APPEND_RECORD
         ([metadata_record_type_code kind, boot_slot_code SLOT_SLOT_A] @ ws @ [0, 0, 0, 0, 0] @ z @ [0])))"

definition bc_run :: "'t byte_transport \<Rightarrow> int \<Rightarrow> int \<Rightarrow> ('t boot_client, int list) sm" where
  "bc_run tr entry_point tgt =
     bindM (liftM (halves entry_point)) (\<lambda>e. bc_command tr CMD_RUN ([tgt] @ e @ [0]))"

definition bc_reset :: "'t byte_transport \<Rightarrow> ('t boot_client, int list) sm" where
  "bc_reset tr = bc_command tr CMD_RESET []"

definition bc_run_ram :: "'t byte_transport \<Rightarrow> int \<Rightarrow> ('t boot_client, int list) sm" where
  "bc_run_ram tr entry_point =
     bindM (liftM (halves entry_point)) (\<lambda>e. bc_command tr CMD_RUN_RAM (e @ [0]))"

section \<open>The session\<close>

definition session_connect ::
  "'t byte_transport \<Rightarrow> cancellation option \<Rightarrow> ('t boot_client, transport_open_result) sm" where
  "session_connect tr token = thenM reset_connection_state (on_transport (bt_open tr token))"

definition session_disconnect :: "'t byte_transport \<Rightarrow> ('t boot_client, unit) sm" where
  "session_disconnect tr = on_transport (bt_close tr)"

end
