(* ===== verification/Targets.thy ===== *)
theory Targets
  imports Firmware
begin

text \<open>
  Target profiles (\<open>targets/\<close>): the commands a target supports, its memory map with the checks of
  the map's constructors, the profiles of the two cores and of discovery, and their lookup.
\<close>

section \<open>Command sets\<close>

datatype command_field =
    F_ping | F_get_device_info | F_get_protocol_info | F_get_last_error | F_get_service_status
  | F_service_attach | F_ram_load_begin | F_ram_load_data | F_ram_load_end | F_ram_check_crc | F_run_ram
  | F_erase | F_program_begin | F_program_data | F_program_end | F_verify_begin | F_verify_data
  | F_verify_end | F_memory_read | F_get_metadata_summary | F_metadata_append_record | F_run | F_reset
  | F_boot_cpu2_run_cpu1 | F_boot_cpu2_reset_cpu1

text \<open>A command set maps every field to a command number or \<open>None\<close>.\<close>

type_synonym command_set = "command_field \<Rightarrow> int option"

fun field_name :: "command_field \<Rightarrow> string" where
  "field_name F_ping = ''ping''"
| "field_name F_get_device_info = ''get_device_info''"
| "field_name F_get_protocol_info = ''get_protocol_info''"
| "field_name F_get_last_error = ''get_last_error''"
| "field_name F_get_service_status = ''get_service_status''"
| "field_name F_service_attach = ''service_attach''"
| "field_name F_ram_load_begin = ''ram_load_begin''"
| "field_name F_ram_load_data = ''ram_load_data''"
| "field_name F_ram_load_end = ''ram_load_end''"
| "field_name F_ram_check_crc = ''ram_check_crc''"
| "field_name F_run_ram = ''run_ram''"
| "field_name F_erase = ''erase''"
| "field_name F_program_begin = ''program_begin''"
| "field_name F_program_data = ''program_data''"
| "field_name F_program_end = ''program_end''"
| "field_name F_verify_begin = ''verify_begin''"
| "field_name F_verify_data = ''verify_data''"
| "field_name F_verify_end = ''verify_end''"
| "field_name F_memory_read = ''memory_read''"
| "field_name F_get_metadata_summary = ''get_metadata_summary''"
| "field_name F_metadata_append_record = ''metadata_append_record''"
| "field_name F_run = ''run''"
| "field_name F_reset = ''reset''"
| "field_name F_boot_cpu2_run_cpu1 = ''boot_cpu2_run_cpu1''"
| "field_name F_boot_cpu2_reset_cpu1 = ''boot_cpu2_reset_cpu1''"

definition require_command :: "command_set \<Rightarrow> command_field \<Rightarrow> int res" where
  "require_command commands field =
     (case commands field of
        None \<Rightarrow> Inl (UnsupportedOperationError (''unsupported command: '' @ field_name field))
      | Some v \<Rightarrow> Inr v)"

section \<open>Memory maps\<close>

text \<open>\<open>AddressRange\<close> of \<open>targets/memory_map.py\<close>.\<close>

definition TargetRange :: "int \<Rightarrow> int \<Rightarrow> address_range res" where
  "TargetRange start end_exclusive =
     (if start < 0 \<or> end_exclusive \<le> start then Inl (ValueError ''invalid address range'')
      else Inr \<lparr>ar_start = start, ar_end_exclusive = end_exclusive\<rparr>)"

definition range_contains :: "address_range \<Rightarrow> int \<Rightarrow> bool" where
  "range_contains r address \<longleftrightarrow> ar_start r \<le> address \<and> address < ar_end_exclusive r"

definition contains_range :: "address_range \<Rightarrow> int \<Rightarrow> int \<Rightarrow> bool" where
  "contains_range r start word_count \<longleftrightarrow>
     word_count > 0 \<and> ar_start r \<le> start \<and> start + word_count \<le> ar_end_exclusive r"

record target_sector =
  ts_sector_id :: string
  ts_start :: int
  ts_end_exclusive :: int
  ts_bit_index :: int

definition TargetSector :: "string \<Rightarrow> int \<Rightarrow> int \<Rightarrow> int \<Rightarrow> target_sector res" where
  "TargetSector sector_id start end_exclusive bit_index =
     (if sector_id = [] then Inl (ValueError ''sector_id must be a non-empty string'')
      else if start < 0 then Inl (ValueError ''start must be a non-negative integer'')
      else if end_exclusive \<le> start
      then Inl (ValueError ''end_exclusive must be an integer greater than start'')
      else if bit_index < 0 then Inl (ValueError ''bit_index must be a non-negative integer'')
      else Inr \<lparr>ts_sector_id = sector_id, ts_start = start, ts_end_exclusive = end_exclusive,
        ts_bit_index = bit_index\<rparr>)"

record flash_layout =
  fl_app_ranges :: "address_range list"
  fl_allowed_erase_mask :: int
  fl_forbidden_erase_mask :: int
  fl_metadata_sector_mask :: int
  fl_sectors :: "target_sector list"

definition FlashLayout ::
  "address_range list \<Rightarrow> int \<Rightarrow> int \<Rightarrow> int \<Rightarrow> target_sector list \<Rightarrow> flash_layout res" where
  "FlashLayout app_ranges allowed forbidden metadata_mask sectors =
     (let ordered = sort_key ts_start sectors in
      if length (remdups (map ts_sector_id sectors)) \<noteq> length sectors
      then Inl (ValueError ''sector IDs must be unique'')
      else if length (remdups (map ts_bit_index sectors)) \<noteq> length sectors
      then Inl (ValueError ''sector bit indexes must be unique'')
      else if list_ex (\<lambda>(left, right). ts_end_exclusive left > ts_start right) (zip ordered (tl ordered))
      then Inl (ValueError ''sector address ranges must not overlap'')
      else Inr \<lparr>fl_app_ranges = app_ranges, fl_allowed_erase_mask = allowed,
        fl_forbidden_erase_mask = forbidden, fl_metadata_sector_mask = metadata_mask,
        fl_sectors = sectors\<rparr>)"

record ram_layout =
  rl_service_ranges :: "address_range list"
  rl_ram_app_ranges :: "address_range list"
  rl_reserved_ranges :: "address_range list"

record metadata_layout =
  ml_range :: address_range
  ml_sector_mask :: int
  ml_record_alignment_words :: int

record target_memory_map =
  tm_flash :: "flash_layout option"
  tm_ram :: "ram_layout option"
  tm_metadata :: "metadata_layout option"

record target_profile =
  tp_name :: string
  tp_cpu_id :: int
  tp_command_set :: command_set
  tp_memory_map :: target_memory_map

section \<open>CPU1\<close>

fun CPU1_COMMAND_SET :: command_set where
  "CPU1_COMMAND_SET F_ping = Some (command_code CMD_PING)"
| "CPU1_COMMAND_SET F_get_device_info = Some (command_code CMD_GET_DEVICE_INFO)"
| "CPU1_COMMAND_SET F_get_protocol_info = Some (command_code CMD_GET_PROTOCOL_INFO)"
| "CPU1_COMMAND_SET F_get_last_error = Some (command_code CMD_GET_LAST_ERROR)"
| "CPU1_COMMAND_SET F_get_service_status = Some (command_code CMD_GET_SERVICE_STATUS)"
| "CPU1_COMMAND_SET F_service_attach = Some (command_code CMD_SERVICE_ATTACH)"
| "CPU1_COMMAND_SET F_ram_load_begin = Some (command_code CMD_RAM_LOAD_BEGIN)"
| "CPU1_COMMAND_SET F_ram_load_data = Some (command_code CMD_RAM_LOAD_DATA)"
| "CPU1_COMMAND_SET F_ram_load_end = Some (command_code CMD_RAM_LOAD_END)"
| "CPU1_COMMAND_SET F_ram_check_crc = Some (command_code CMD_RAM_CHECK_CRC)"
| "CPU1_COMMAND_SET F_run_ram = Some (command_code CMD_RUN_RAM)"
| "CPU1_COMMAND_SET F_erase = Some (command_code CMD_ERASE)"
| "CPU1_COMMAND_SET F_program_begin = Some (command_code CMD_PROGRAM_BEGIN)"
| "CPU1_COMMAND_SET F_program_data = Some (command_code CMD_PROGRAM_DATA)"
| "CPU1_COMMAND_SET F_program_end = Some (command_code CMD_PROGRAM_END)"
| "CPU1_COMMAND_SET F_verify_begin = Some (command_code CMD_VERIFY_BEGIN)"
| "CPU1_COMMAND_SET F_verify_data = Some (command_code CMD_VERIFY_DATA)"
| "CPU1_COMMAND_SET F_verify_end = Some (command_code CMD_VERIFY_END)"
| "CPU1_COMMAND_SET F_memory_read = Some (command_code CMD_MEMORY_READ)"
| "CPU1_COMMAND_SET F_get_metadata_summary = Some (command_code CMD_GET_METADATA_SUMMARY)"
| "CPU1_COMMAND_SET F_metadata_append_record = Some (command_code CMD_METADATA_APPEND_RECORD)"
| "CPU1_COMMAND_SET F_run = Some (command_code CMD_RUN)"
| "CPU1_COMMAND_SET F_reset = Some (command_code CMD_RESET)"
| "CPU1_COMMAND_SET _ = None"

text \<open>The sectors are named A, B, C and so on by their mask bit.\<close>

definition cpu1_flash :: flash_layout where
  "cpu1_flash =
     \<lparr>fl_app_ranges = [\<lparr>ar_start = APP_FLASH_START, ar_end_exclusive = APP_FLASH_END_EXCLUSIVE\<rparr>],
      fl_allowed_erase_mask = ALLOWED_ERASE_MASK, fl_forbidden_erase_mask = 0x00000001,
      fl_metadata_sector_mask = METADATA_SECTOR_MASK,
      fl_sectors = map (\<lambda>(start, end_exclusive, b).
        \<lparr>ts_sector_id = [char_of (65 + b)], ts_start = start, ts_end_exclusive = end_exclusive,
         ts_bit_index = int b\<rparr>) SECTORS\<rparr>"

definition cpu1_ram :: ram_layout where
  "cpu1_ram =
     \<lparr>rl_service_ranges = [\<lparr>ar_start = 0x010000, ar_end_exclusive = 0x01BFF8\<rparr>],
      rl_ram_app_ranges = map (\<lambda>(s, e). \<lparr>ar_start = s, ar_end_exclusive = e\<rparr>) RAM_WRITE_RANGES, rl_reserved_ranges = []\<rparr>"

definition cpu1_metadata :: metadata_layout where
  "cpu1_metadata =
     \<lparr>ml_range = \<lparr>ar_start = SLOT_A_METADATA_START, ar_end_exclusive = SLOT_A_METADATA_END\<rparr>,
      ml_sector_mask = METADATA_SECTOR_MASK, ml_record_alignment_words = 8\<rparr>"

definition CPU1_PROFILE :: target_profile where
  "CPU1_PROFILE =
     \<lparr>tp_name = ''TMS320F28377D CPU1'', tp_cpu_id = cpu_id_code CPU_CPU1,
      tp_command_set = CPU1_COMMAND_SET,
      tp_memory_map = \<lparr>tm_flash = Some cpu1_flash, tm_ram = Some cpu1_ram, tm_metadata = Some cpu1_metadata\<rparr>\<rparr>"

section \<open>CPU2 and discovery\<close>

definition no_memory_map :: target_memory_map where
  "no_memory_map = \<lparr>tm_flash = None, tm_ram = None, tm_metadata = None\<rparr>"

definition CPU2_PROFILE :: target_profile where
  "CPU2_PROFILE =
     \<lparr>tp_name = ''TMS320F28377D CPU2'', tp_cpu_id = cpu_id_code CPU_CPU2, tp_command_set = (\<lambda>_. None),
      tp_memory_map = no_memory_map\<rparr>"

fun DISCOVERY_COMMAND_SET :: command_set where
  "DISCOVERY_COMMAND_SET F_get_device_info = Some (command_code CMD_GET_DEVICE_INFO)"
| "DISCOVERY_COMMAND_SET F_get_protocol_info = Some (command_code CMD_GET_PROTOCOL_INFO)"
| "DISCOVERY_COMMAND_SET _ = None"

definition DISCOVERY_PROFILE :: target_profile where
  "DISCOVERY_PROFILE =
     \<lparr>tp_name = ''TMS320F28377D target discovery'', tp_cpu_id = cpu_id_code CPU_UNKNOWN,
      tp_command_set = DISCOVERY_COMMAND_SET, tp_memory_map = no_memory_map\<rparr>"

definition target_profile_for_key :: "string \<Rightarrow> target_profile option" where
  "target_profile_for_key target_key =
     (if target_key = ''cpu1'' then Some CPU1_PROFILE
      else if target_key = ''cpu2'' then Some CPU2_PROFILE else None)"

section \<open>The CPU1 map\<close>

lemma default_ranges_ok: "TargetRange s e = Inr r \<Longrightarrow> range_contains r x \<longleftrightarrow> s \<le> x \<and> x < e"
  by (auto simp: TargetRange_def range_contains_def split: if_splits)

end
