(* ===== verification/Op_Results.thy ===== *)
theory Op_Results
  imports Boot_Client Targets Packets
begin

text \<open>
  The operation layer's results and its transfer engine (\<open>operations/results.py\<close>,
  \<open>operations/context.py\<close>): results with their consistency checks, the classification of errors,
  and \<open>run_cancellable_transfer\<close>, the loop that sends a begin/data/end sequence and stops between
  packets when a cancellation was requested.

  Numbers in messages are left out; the messages are otherwise those of the code.
\<close>

section \<open>Results\<close>

datatype error_domain = DOMAIN_OPERATION | DOMAIN_COMMUNICATION

record error_info =
  ei_code :: string
  ei_message :: string
  ei_stage :: string
  ei_recoverable :: bool
  ei_details :: pydict
  ei_domain :: error_domain

datatype completion = SUCCEEDED | FAILED | CANCELLED | COMPLETED_AFTER_CANCEL_REQUEST

definition RECOVERY_ACTIONS :: "string list" where
  "RECOVERY_ACTIONS =
     [''NONE'', ''RESTART_RAM_LOAD'', ''RESTART_SERVICE_LOAD'', ''RESTART_PROGRAM'',
      ''ERASE_AND_RESTART_PROGRAM'', ''RESTART_VERIFY'', ''RECONNECT_AND_RESTART_RAM_LOAD'',
      ''RECONNECT_AND_RESTART_SERVICE_LOAD'', ''RECONNECT_AND_RESTART_PROGRAM'',
      ''RECONNECT_ERASE_AND_RESTART_PROGRAM'', ''RECONNECT_AND_RESTART_VERIFY'']"

definition COMMUNICATION_STATUSES :: "int list" where
  "COMMUNICATION_STATUSES =
     map status_code [ST_BAD_PAYLOAD_CRC, ST_UNSUPPORTED_PROTOCOL, ST_BAD_PACKET_TYPE, ST_BAD_FLAGS]"

text \<open>\<open>None\<close>: an unknown programming error, which the operations let through.\<close>

fun classify_exception_domain :: "exc \<Rightarrow> error_domain option" where
  "classify_exception_domain (OperationFailure _ _ _ _ _) = Some DOMAIN_OPERATION"
| "classify_exception_domain (UnsupportedOperationError _) = Some DOMAIN_OPERATION"
| "classify_exception_domain (ProtocolPayloadLimitError _ _ _ _ _) = Some DOMAIN_OPERATION"
| "classify_exception_domain (ProtocolDecodeError _) = Some DOMAIN_COMMUNICATION"
| "classify_exception_domain (TransportError _) = Some DOMAIN_COMMUNICATION"
| "classify_exception_domain (TransportTimeoutError _) = Some DOMAIN_COMMUNICATION"
| "classify_exception_domain (TransportClosedError _) = Some DOMAIN_COMMUNICATION"
| "classify_exception_domain (ProtocolStatusError _ st) =
     Some (if st \<in> set COMMUNICATION_STATUSES then DOMAIN_COMMUNICATION else DOMAIN_OPERATION)"
| "classify_exception_domain _ = None"

record cancellation_info =
  ci_stage :: string
  ci_current_words :: int
  ci_total_words :: int
  ci_protocol_state_clean :: bool
  ci_outcome_uncertain :: bool
  ci_connection_recovery_required :: bool
  ci_partial_flash_programmed :: bool
  ci_erase_before_retry_required :: bool
  ci_service_attached :: "bool option"
  ci_recovery_action :: string

definition OperationCancellationInfo :: "cancellation_info \<Rightarrow> cancellation_info res" where
  "OperationCancellationInfo c =
     (if ci_stage c = [] then Inl (ValueError ''stage must be non-empty'')
      else if ci_current_words c < 0 \<or> ci_total_words c < 0 \<or> ci_current_words c > ci_total_words c
      then Inl (ValueError ''word counts must satisfy 0 <= current_words <= total_words'')
      else if ci_recovery_action c \<notin> set RECOVERY_ACTIONS
      then Inl (ValueError ''invalid recovery_action'')
      else if ci_erase_before_retry_required c \<and> \<not> ci_partial_flash_programmed c
      then Inl (ValueError ''erase before retry requires partial Flash programming'')
      else if ci_outcome_uncertain c \<and> \<not> ci_connection_recovery_required c
      then Inl (ValueError ''uncertain outcome requires connection recovery'')
      else if ci_protocol_state_clean c \<and> (ci_outcome_uncertain c \<or> ci_connection_recovery_required c)
      then Inl (ValueError ''clean protocol state cannot require recovery or have an uncertain outcome'')
      else Inr c)"

record operation_result =
  or_ok :: bool
  or_operation :: string
  or_target :: string
  or_stage :: string
  or_summary :: pydict
  or_details :: pydict
  or_service :: "pydict option"
  or_warning :: "pydict option"
  or_error :: "error_info option"
  or_completion :: "completion option"
  or_cancellation :: "cancellation_info option"

definition completion_valid :: "operation_result \<Rightarrow> completion \<Rightarrow> bool" where
  "completion_valid r c =
     (case c of
        SUCCEEDED \<Rightarrow> or_ok r \<and> or_error r = None \<and> or_cancellation r = None
      | FAILED \<Rightarrow> \<not> or_ok r \<and> or_error r \<noteq> None
      | CANCELLED \<Rightarrow> \<not> or_ok r \<and> or_error r = None \<and> or_cancellation r \<noteq> None
      | COMPLETED_AFTER_CANCEL_REQUEST \<Rightarrow> or_ok r \<and> or_error r = None \<and> or_cancellation r \<noteq> None)"

definition OperationResult :: "operation_result \<Rightarrow> operation_result res" where
  "OperationResult r =
     (let c = (case or_completion r of
                 Some c \<Rightarrow> c | None \<Rightarrow> if or_ok r then SUCCEEDED else FAILED) in
      if c = FAILED \<and> or_error r = None
      then Inl (RuntimeError ''failed OperationResult requires error details'')
      else if \<not> completion_valid r c
      then Inl (ValueError ''invalid OperationResult for completion'')
      else Inr (r\<lparr>or_completion := Some c\<rparr>))"

record progress_event =
  pe_operation :: string
  pe_target :: string
  pe_stage :: string
  pe_message :: string
  pe_current_words :: "int option"
  pe_total_words :: "int option"
  pe_chunk_words :: "int option"
  pe_details :: pydict
  pe_cancellation_supported :: bool

section \<open>The context\<close>

text \<open>
  The part of the context that stays: the session's transport, the target, whether a progress
  callback is there, and the cancellation token.  The world of an operation is the client, the
  events reported so far and the number of questions the token was asked.
\<close>

record 't op_context =
  cx_transport :: "'t byte_transport"
  cx_target :: target_profile
  cx_progress :: bool
  cx_cancellation :: "cancellation option"

record 't world =
  wd_client :: "'t boot_client"
  wd_events :: "progress_event list"
  wd_asked :: nat

definition on_boot_client :: "('t boot_client, 'a) sm \<Rightarrow> ('t world, 'a) sm" where
  "on_boot_client m w = (case m (wd_client w) of (r, c) \<Rightarrow> (r, w\<lparr>wd_client := c\<rparr>))"

definition emit_progress :: "'t op_context \<Rightarrow> progress_event \<Rightarrow> ('t world, unit) sm" where
  "emit_progress ctx event =
     (if cx_progress ctx then modM (\<lambda>w. w\<lparr>wd_events := wd_events w @ [event]\<rparr>) else returnM ())"

definition operation_cancellation_requested :: "'t op_context \<Rightarrow> ('t world, bool) sm" where
  "operation_cancellation_requested ctx w =
     (case cancellation_requested (cx_cancellation ctx) (wd_asked w) of
        (answer, asked) \<Rightarrow> (Inr answer, w\<lparr>wd_asked := asked\<rparr>))"

definition op_transact ::
  "'t op_context \<Rightarrow> command_field \<Rightarrow> int list \<Rightarrow> bool \<Rightarrow> ('t world, int list) sm" where
  "op_transact ctx field payload observed =
     bindM (liftM (require_command (tp_command_set (cx_target ctx)) field)) (\<lambda>command_id.
       on_boot_client (bc_transact (cx_transport ctx) command_id payload
         (Option.bind (Command_of command_id) DEFAULT_COMMAND_TIMEOUT_MS) observed))"

section \<open>Building results\<close>

definition basic_result :: "'t op_context \<Rightarrow> bool \<Rightarrow> string \<Rightarrow> string \<Rightarrow> pydict \<Rightarrow> operation_result" where
  "basic_result ctx ok operation stage summary =
     \<lparr>or_ok = ok, or_operation = operation, or_target = tp_name (cx_target ctx), or_stage = stage,
      or_summary = summary, or_details = [], or_service = None, or_warning = None, or_error = None,
      or_completion = None, or_cancellation = None\<rparr>"

definition cancelled_result ::
  "'t op_context \<Rightarrow> string \<Rightarrow> string \<Rightarrow> cancellation_info \<Rightarrow> pydict option \<Rightarrow> operation_result res" where
  "cancelled_result ctx operation stage cancellation service = OperationResult
     ((basic_result ctx False operation stage [])\<lparr>or_service := service,
        or_completion := Some CANCELLED, or_cancellation := Some cancellation\<rparr>)"

definition completed_after_cancel_result ::
  "'t op_context \<Rightarrow> string \<Rightarrow> string \<Rightarrow> pydict \<Rightarrow> cancellation_info \<Rightarrow> pydict \<Rightarrow> pydict option \<Rightarrow>
     operation_result res" where
  "completed_after_cancel_result ctx operation stage summary cancellation details service = OperationResult
     ((basic_result ctx True operation stage summary)\<lparr>or_details := details, or_service := service,
        or_completion := Some COMPLETED_AFTER_CANCEL_REQUEST, or_cancellation := Some cancellation\<rparr>)"

text \<open>\<open>replace\<close> on a cancellation runs its checks again; the name of the class stands for \<open>type(exc).__name__\<close>.\<close>

fun exc_class :: "exc \<Rightarrow> string" where
  "exc_class (ValueError _) = ''ValueError''"
| "exc_class (FrameError _) = ''FrameError''"
| "exc_class (FrameLengthError _) = ''FrameLengthError''"
| "exc_class (HeaderCrcError _) = ''HeaderCrcError''"
| "exc_class (PayloadCrcError _) = ''PayloadCrcError''"
| "exc_class (DataAlignmentError _) = ''DataAlignmentError''"
| "exc_class (SequenceMismatchError _) = ''SequenceMismatchError''"
| "exc_class (ProtocolClientError _) = ''ProtocolClientError''"
| "exc_class (ProtocolDecodeError _) = ''ProtocolDecodeError''"
| "exc_class (ProtocolStatusError _ _) = ''ProtocolStatusError''"
| "exc_class (ProtocolPayloadLimitError _ _ _ _ _) = ''ProtocolPayloadLimitError''"
| "exc_class (WorkflowError _) = ''WorkflowError''"
| "exc_class (Sci8ParseError _) = ''Sci8ParseError''"
| "exc_class (IoDeviceError _) = ''IoDeviceError''"
| "exc_class (IoTimeoutError _) = ''IoTimeoutError''"
| "exc_class (IoDeviceNotOpenError _) = ''IoDeviceNotOpenError''"
| "exc_class (TransportError _) = ''TransportError''"
| "exc_class (TransportTimeoutError _) = ''TransportTimeoutError''"
| "exc_class (TransportClosedError _) = ''TransportClosedError''"
| "exc_class (UnsupportedOperationError _) = ''UnsupportedOperationError''"
| "exc_class (OperationFailure _ _ _ _ _) = ''OperationFailure''"
| "exc_class (RuntimeError _) = ''RuntimeError''"
| "exc_class (KeyError _) = ''KeyError''"
| "exc_class (CliToolError _ _ _ _) = ''CliToolError''"
| "exc_class (CliConfigurationError _) = ''CliConfigurationError''"
| "exc_class (RuntimeCommunicationError _) = ''RuntimeCommunicationError''"
| "exc_class (OtherError cls _) = cls"
| "exc_class AssertionError = ''AssertionError''"
| "exc_class Diverges = ''''"

definition cancellation_cleanup_failure_result ::
  "'t op_context \<Rightarrow> string \<Rightarrow> string \<Rightarrow> cancellation_info \<Rightarrow> exc \<Rightarrow> pydict option \<Rightarrow> operation_result res" where
  "cancellation_cleanup_failure_result ctx operation stage cancellation e service =
     bindE (OperationCancellationInfo (cancellation\<lparr>ci_protocol_state_clean := False,
       ci_outcome_uncertain := True, ci_connection_recovery_required := True\<rparr>)) (\<lambda>c.
     OperationResult ((basic_result ctx False operation stage [])\<lparr>or_service := service,
       or_error := Some
         \<lparr>ei_code = ''CANCELLATION_CLEANUP_FAILED'', ei_message = exc_msg e, ei_stage = stage,
          ei_recoverable = True,
          ei_details = [(''cleanup_stage'', PStr stage), (''exception_type'', PStr (exc_class e)),
            (''protocol_state_clean'', PBool False), (''outcome_uncertain'', PBool True),
            (''connection_recovery_required'', PBool True),
            (''recovery_action'', PStr (ci_recovery_action c))],
          ei_domain = DOMAIN_OPERATION\<rparr>,
       or_completion := Some FAILED, or_cancellation := Some c\<rparr>))"

definition cancellation_cleanup_succeeded :: "exc \<Rightarrow> bool \<Rightarrow> bool" where
  "cancellation_cleanup_succeeded e partly \<longleftrightarrow>
     partly \<and> (case e of ProtocolStatusError _ st \<Rightarrow> st = status_code ST_TOTAL_COUNT_MISMATCH | _ \<Rightarrow> False)"

definition ok_result ::
  "'t op_context \<Rightarrow> string \<Rightarrow> string \<Rightarrow> pydict \<Rightarrow> pydict \<Rightarrow> pydict option \<Rightarrow> operation_result res" where
  "ok_result ctx operation stage summary details service = OperationResult
     ((basic_result ctx True operation stage summary)\<lparr>or_details := details, or_service := service\<rparr>)"

definition opt_int :: "int option \<Rightarrow> pyval" where
  "opt_int v = (case v of None \<Rightarrow> PNone | Some n \<Rightarrow> PInt n)"

definition error_of :: "string \<Rightarrow> error_domain \<Rightarrow> exc \<Rightarrow> error_info res" where
  "error_of stage area e =
     (let info = \<lparr>ei_code = '''', ei_message = exc_msg e, ei_stage = stage, ei_recoverable = False,
        ei_details = [], ei_domain = area\<rparr> in
      case e of
        OperationFailure code message st recoverable details \<Rightarrow> Inr
          \<lparr>ei_code = code, ei_message = message, ei_stage = st, ei_recoverable = recoverable,
           ei_details = details, ei_domain = DOMAIN_OPERATION\<rparr>
      | UnsupportedOperationError _ \<Rightarrow> Inr (info\<lparr>ei_code := ''UNSUPPORTED_OPERATION''\<rparr>)
      | ProtocolPayloadLimitError cmd actual effective device protocol \<Rightarrow> Inr
          (info\<lparr>ei_code := ''PAYLOAD_LIMIT_EXCEEDED'', ei_details :=
             [(''command'', PInt cmd), (''actual_payload_words'', PInt actual),
              (''effective_max_payload_words'', PInt effective),
              (''device_max_payload_words'', opt_int device),
              (''protocol_max_payload_words'', opt_int protocol)]\<rparr>)
      | ProtocolStatusError cmd st \<Rightarrow> Inr
          (info\<lparr>ei_code := ''DSP_STATUS_ERROR'',
             ei_details := [(''command'', PInt cmd), (''status'', PInt st)]\<rparr>)
      | ProtocolDecodeError _ \<Rightarrow> Inr (info\<lparr>ei_code := ''PROTOCOL_ERROR''\<rparr>)
      | TransportError _ \<Rightarrow> Inr (info\<lparr>ei_code := ''PROTOCOL_ERROR''\<rparr>)
      | TransportTimeoutError _ \<Rightarrow> Inr (info\<lparr>ei_code := ''PROTOCOL_ERROR''\<rparr>)
      | TransportClosedError _ \<Rightarrow> Inr (info\<lparr>ei_code := ''PROTOCOL_ERROR''\<rparr>)
      | _ \<Rightarrow> Inl e)"

definition failure_result :: "'t op_context \<Rightarrow> string \<Rightarrow> string \<Rightarrow> exc \<Rightarrow> operation_result res" where
  "failure_result ctx operation stage e =
     (case classify_exception_domain e of
        None \<Rightarrow> Inl e
      | Some area \<Rightarrow> bindE (error_of stage area e) (\<lambda>error.
          OperationResult ((basic_result ctx False operation (ei_stage error) [])\<lparr>or_error := Some error\<rparr>)))"

text \<open>\<open>except Exception as exc: return failure_result(...)\<close>\<close>

definition guarded ::
  "'t op_context \<Rightarrow> string \<Rightarrow> string \<Rightarrow> ('t world, operation_result) sm \<Rightarrow> ('t world, operation_result) sm" where
  "guarded ctx operation stage m =
     catchM m (\<lambda>e. if is_exception e then liftM (failure_result ctx operation stage e) else raiseM e)"

section \<open>Cancellable transfers\<close>

record transfer_outcome =
  to_summary :: pydict
  to_cancellation :: "cancellation_info option"
  to_cleanup_error :: "exc option"
  to_completed_after_cancel :: bool

text \<open>The parameters of a transfer that do not act on the world.\<close>

record transfer_spec =
  tf_operation :: string
  tf_total_words :: int
  tf_begin_stage :: string
  tf_data_stage :: string
  tf_end_stage :: string
  tf_progress_message :: string
  tf_recovery_action :: "int \<Rightarrow> string"
  tf_reconnect_recovery_action :: "int \<Rightarrow> string"
  tf_partial_flash_programmed :: "int \<Rightarrow> bool"
  tf_service_attached :: "bool option"

definition transfer_info ::
  "transfer_spec \<Rightarrow> string \<Rightarrow> int \<Rightarrow> bool \<Rightarrow> bool \<Rightarrow> cancellation_info res" where
  "transfer_info tf stage current_words reconnect none =
     (let partial_flash = tf_partial_flash_programmed tf current_words in
      OperationCancellationInfo
        \<lparr>ci_stage = stage, ci_current_words = current_words, ci_total_words = tf_total_words tf,
         ci_protocol_state_clean = (\<not> reconnect), ci_outcome_uncertain = reconnect,
         ci_connection_recovery_required = reconnect, ci_partial_flash_programmed = partial_flash,
         ci_erase_before_retry_required = partial_flash, ci_service_attached = tf_service_attached tf,
         ci_recovery_action =
           (if none then ''NONE''
            else if reconnect then tf_reconnect_recovery_action tf current_words
            else tf_recovery_action tf current_words)\<rparr>)"

definition outcome_cancelled :: "cancellation_info \<Rightarrow> exc option \<Rightarrow> transfer_outcome" where
  "outcome_cancelled info cleanup_error =
     \<lparr>to_summary = [], to_cancellation = Some info, to_cleanup_error = cleanup_error,
      to_completed_after_cancel = False\<rparr>"

text \<open>The packet loop returns the words and packets sent and whether a cancellation was seen.\<close>

fun packet_loop_cancellable ::
  "'t op_context \<Rightarrow> transfer_spec \<Rightarrow> (data_packet \<Rightarrow> ('t world, unit) sm) \<Rightarrow> data_packet list \<Rightarrow>
     int \<Rightarrow> nat \<Rightarrow> bool \<Rightarrow> ('t world, int \<times> nat \<times> bool) sm" where
  "packet_loop_cancellable ctx tf send_data [] sent_words sent_packets cancelled =
     returnM (sent_words, sent_packets, cancelled)"
| "packet_loop_cancellable ctx tf send_data (packet # packets) sent_words sent_packets cancelled =
     (if cancelled then returnM (sent_words, sent_packets, cancelled)
      else thenM (send_data packet)
        (let n = int (length (dp_words packet)) in
         thenM (emit_progress ctx
           \<lparr>pe_operation = tf_operation tf, pe_target = tp_name (cx_target ctx),
            pe_stage = tf_data_stage tf, pe_message = tf_progress_message tf,
            pe_current_words = Some (sent_words + n), pe_total_words = Some (tf_total_words tf),
            pe_chunk_words = Some n, pe_details = [], pe_cancellation_supported = True\<rparr>)
         (bindM (operation_cancellation_requested ctx) (\<lambda>c.
            packet_loop_cancellable ctx tf send_data packets (sent_words + n) (Suc sent_packets) c))))"

definition stop_transfer ::
  "transfer_spec \<Rightarrow> ('t world, unit) sm \<Rightarrow> int \<Rightarrow> ('t world, transfer_outcome) sm" where
  "stop_transfer tf send_end sent_words =
     bindM (catchM (thenM send_end (returnM None))
       (\<lambda>e. if \<not> is_exception e then raiseM e
            else if cancellation_cleanup_succeeded e True then returnM None else returnM (Some e))) (\<lambda>failed.
     case failed of
       Some e \<Rightarrow> bindM (liftM (transfer_info tf (tf_end_stage tf) sent_words True False))
         (\<lambda>info. returnM (outcome_cancelled info (Some e)))
     | None \<Rightarrow> bindM (liftM (transfer_info tf (tf_end_stage tf) sent_words False False))
         (\<lambda>info. returnM (outcome_cancelled info None)))"

definition run_cancellable_transfer ::
  "'t op_context \<Rightarrow> transfer_spec \<Rightarrow> data_packet list \<Rightarrow> ('t world, unit) sm \<Rightarrow>
     (data_packet \<Rightarrow> ('t world, unit) sm) \<Rightarrow> ('t world, unit) sm \<Rightarrow> ('t world, transfer_outcome) sm" where
  "run_cancellable_transfer ctx tf packets send_begin send_data send_end =
     bindM (operation_cancellation_requested ctx) (\<lambda>early.
       if early then bindM (liftM (transfer_info tf (tf_begin_stage tf) 0 False False))
         (\<lambda>info. returnM (outcome_cancelled info None))
       else thenM send_begin
         (bindM (operation_cancellation_requested ctx) (\<lambda>seen.
          bindM (packet_loop_cancellable ctx tf send_data packets 0 0 seen)
            (\<lambda>(sent_words, sent_packets, cancelled).
            let partly = sent_packets < length packets \<or> sent_words < tf_total_words tf in
            if cancelled \<and> partly then stop_transfer tf send_end sent_words
            else thenM send_end
              (let summary = [(''total_words'', PInt (tf_total_words tf)),
                              (''packets'', PInt (int (length packets)))] in
               bindM (if cancelled then returnM True else operation_cancellation_requested ctx) (\<lambda>late.
                 if late
                 then bindM (liftM (transfer_info tf (tf_end_stage tf) (tf_total_words tf) False True))
                   (\<lambda>info. returnM \<lparr>to_summary = summary, to_cancellation = Some info,
                     to_cleanup_error = None, to_completed_after_cancel = True\<rparr>)
                 else returnM \<lparr>to_summary = summary, to_cancellation = None,
                   to_cleanup_error = None, to_completed_after_cancel = False\<rparr>))))))"

end
