(* ===== verification/Images.thy ===== *)
theory Images
  imports Targets Packets
begin

text \<open>
  Prepared images (\<open>images/\<close>): the checks that an application or RAM image lies where the target's
  memory map allows it, the identity computed for it, and the comparison of an identity with the
  target's metadata.  Reading the image file (\<open>load_firmware_image\<close>, which runs an external
  converter) is the parameter \<open>loaded\<close>: the image and the name of a kept text file, or an error.
\<close>

section \<open>Models\<close>

record image_identity =
  id_entry_point :: int
  id_image_size_words :: int
  id_image_crc32 :: int
  id_app_end :: int

record ram_image_identity =
  ri_entry_point :: int
  ri_total_words :: int
  ri_image_crc32 :: int

definition RamImageIdentity :: "int \<Rightarrow> int \<Rightarrow> int \<Rightarrow> ram_image_identity res" where
  "RamImageIdentity entry_point total_words image_crc32 =
     (if entry_point < 0 then Inl (ValueError ''entry_point must be a non-negative integer'')
      else if total_words < 0 then Inl (ValueError ''total_words must be a non-negative integer'')
      else if image_crc32 < 0 then Inl (ValueError ''image_crc32 must be a non-negative integer'')
      else Inr \<lparr>ri_entry_point = entry_point, ri_total_words = total_words, ri_image_crc32 = image_crc32\<rparr>)"

record prepared_flash_image =
  pf_image :: firmware_image
  pf_identity :: image_identity
  pf_sector_mask :: int
  pf_generated_sci8_txt :: "string option"

record prepared_ram_image =
  pr_image :: firmware_image
  pr_entry_point :: int
  pr_total_words :: int
  pr_image_crc32 :: int
  pr_generated_sci8_txt :: "string option"

record prepared_service_image =
  ps_image :: firmware_image
  ps_header_address :: int
  ps_total_words :: int
  ps_expected_crc32 :: int
  ps_required_capabilities :: int

section \<open>Application images\<close>

definition inside_any_range :: "int \<Rightarrow> int \<Rightarrow> address_range list \<Rightarrow> bool" where
  "inside_any_range start end_exclusive ranges =
     list_ex (\<lambda>item. contains_range item start (end_exclusive - start)) ranges"

fun check_app_blocks :: "flash_layout \<Rightarrow> metadata_layout \<Rightarrow> firmware_block list \<Rightarrow> unit res" where
  "check_app_blocks flash metadata [] = Inr ()"
| "check_app_blocks flash metadata (block # blocks) =
     (if \<not> inside_any_range (fb_address block) (fb_end_exclusive block) (fl_app_ranges flash)
      then Inl (ValueError ''Flash App block is outside target app ranges'')
      else if contains_range (ml_range metadata) (fb_address block) (int (length (fb_words block)))
      then Inl (ValueError ''Flash App block overlaps metadata range'')
      else check_app_blocks flash metadata blocks)"

definition check_app_image :: "flash_layout \<Rightarrow> metadata_layout \<Rightarrow> firmware_image \<Rightarrow> int res" where
  "check_app_image flash metadata img =
     (if \<not> inside_any_range (fi_entry_point img) (fi_entry_point img + 1) (fl_app_ranges flash)
      then Inl (ValueError ''Flash App entry point is outside target app ranges'')
      else if fi_entry_point img mod 8 \<noteq> 0
      then Inl (ValueError ''Flash App entry point must be 8-word aligned'')
      else bindE (check_app_blocks flash metadata (fi_blocks img)) (\<lambda>_.
        let sector_mask = image_sector_mask img in
        if sector_mask = 0 then Inl (ValueError ''image does not touch any known Flash sector'')
        else if sector_mask AND fl_forbidden_erase_mask flash \<noteq> 0
        then Inl (ValueError ''image requires a forbidden erase sector'')
        else if sector_mask AND NOT (fl_allowed_erase_mask flash) \<noteq> 0
        then Inl (ValueError ''image requires a sector outside target erase mask'')
        else Inr sector_mask))"

definition prepare_flash_app_image ::
  "target_profile \<Rightarrow> (firmware_image \<times> string option) res \<Rightarrow> prepared_flash_image res" where
  "prepare_flash_app_image profile loaded =
     (case (tm_flash (tp_memory_map profile), tm_metadata (tp_memory_map profile)) of
        (Some flash, Some metadata) \<Rightarrow>
          bindE loaded (\<lambda>(img, generated).
          bindE (check_app_image flash metadata img) (\<lambda>sector_mask.
          bindE (programmed_image_size_and_end img 248) (\<lambda>(size_words, app_end).
          bindE (calculate_programmed_image_crc32 img 248) (\<lambda>crc. Inr
            \<lparr>pf_image = img,
             pf_identity = \<lparr>id_entry_point = fi_entry_point img, id_image_size_words = size_words,
               id_image_crc32 = crc, id_app_end = app_end\<rparr>,
             pf_sector_mask = sector_mask OR fl_metadata_sector_mask flash,
             pf_generated_sci8_txt = generated\<rparr>))))
      | _ \<Rightarrow> Inl (ValueError ''target must define flash and metadata layouts''))"

section \<open>RAM images\<close>

definition overlaps_any :: "int \<Rightarrow> int \<Rightarrow> address_range list \<Rightarrow> bool" where
  "overlaps_any start end_exclusive ranges =
     list_ex (\<lambda>item. start < ar_end_exclusive item \<and> end_exclusive > ar_start item) ranges"

fun check_ram_blocks :: "ram_layout \<Rightarrow> firmware_block list \<Rightarrow> unit res" where
  "check_ram_blocks ram [] = Inr ()"
| "check_ram_blocks ram (block # blocks) =
     (if \<not> inside_any_range (fb_address block) (fb_end_exclusive block) (rl_ram_app_ranges ram)
      then Inl (ValueError ''RAM App block is outside target RAM app ranges'')
      else if overlaps_any (fb_address block) (fb_end_exclusive block) (rl_reserved_ranges ram)
      then Inl (ValueError ''RAM App block overlaps reserved RAM'')
      else if overlaps_any (fb_address block) (fb_end_exclusive block) (rl_service_ranges ram)
      then Inl (ValueError ''RAM App block overlaps service RAM'')
      else check_ram_blocks ram blocks)"

definition validate_ram_app_image :: "firmware_image \<Rightarrow> ram_layout \<Rightarrow> unit res" where
  "validate_ram_app_image img ram =
     (if \<not> inside_any_range (fi_entry_point img) (fi_entry_point img + 1) (rl_ram_app_ranges ram)
      then Inl (ValueError ''RAM App entry point is outside target RAM app ranges'')
      else check_ram_blocks ram (fi_blocks img))"

definition prepare_ram_app_image ::
  "target_profile \<Rightarrow> (firmware_image \<times> string option) res \<Rightarrow> prepared_ram_image res" where
  "prepare_ram_app_image profile loaded =
     (case tm_ram (tp_memory_map profile) of
        None \<Rightarrow> Inl (ValueError ''target must define a RAM layout'')
      | Some ram \<Rightarrow>
          bindE loaded (\<lambda>(img, generated).
          bindE (validate_ram_app_image img ram) (\<lambda>_.
          bindE (calculate_ram_image_crc32 img 248) (\<lambda>crc. Inr
            \<lparr>pr_image = img, pr_entry_point = fi_entry_point img, pr_total_words = fi_total_words img,
             pr_image_crc32 = crc, pr_generated_sci8_txt = generated\<rparr>))))"

section \<open>Identity and metadata\<close>

record metadata_comparison =
  mc_same_image :: bool
  mc_metadata_valid :: bool
  mc_mismatches :: "string list"
  mc_reason :: "string option"

definition compare_image_identity_with_metadata ::
  "image_identity \<Rightarrow> metadata_summary \<Rightarrow> metadata_comparison" where
  "compare_image_identity_with_metadata identity summary =
     (if ms_metadata_valid summary = 0
      then \<lparr>mc_same_image = False, mc_metadata_valid = False, mc_mismatches = [],
        mc_reason = Some ''METADATA_INVALID''\<rparr>
      else let mismatches =
          (if id_entry_point identity \<noteq> ms_entry_point summary then [''entry_point''] else []) @
          (if id_image_size_words identity \<noteq> ms_image_size_words summary then [''image_size_words''] else []) @
          (if id_image_crc32 identity \<noteq> ms_image_crc32 summary then [''image_crc32''] else []) in
        if mismatches \<noteq> []
        then \<lparr>mc_same_image = False, mc_metadata_valid = True, mc_mismatches = mismatches,
          mc_reason = Some ''IMAGE_IDENTITY_MISMATCH''\<rparr>
        else \<lparr>mc_same_image = True, mc_metadata_valid = True, mc_mismatches = [], mc_reason = None\<rparr>)"

definition compare_flash_image_with_metadata ::
  "prepared_flash_image \<Rightarrow> metadata_summary \<Rightarrow> metadata_comparison" where
  "compare_flash_image_with_metadata img summary =
     compare_image_identity_with_metadata (pf_identity img) summary"

section \<open>Facts\<close>

lemma check_app_blocks_ok:
  "check_app_blocks flash metadata bs = Inr () \<longleftrightarrow>
     (\<forall>b \<in> set bs. inside_any_range (fb_address b) (fb_end_exclusive b) (fl_app_ranges flash) \<and>
        \<not> contains_range (ml_range metadata) (fb_address b) (int (length (fb_words b))))"
  by (induction bs) auto

lemma check_ram_blocks_ok:
  "check_ram_blocks ram bs = Inr () \<longleftrightarrow>
     (\<forall>b \<in> set bs. inside_any_range (fb_address b) (fb_end_exclusive b) (rl_ram_app_ranges ram) \<and>
        \<not> overlaps_any (fb_address b) (fb_end_exclusive b) (rl_reserved_ranges ram) \<and>
        \<not> overlaps_any (fb_address b) (fb_end_exclusive b) (rl_service_ranges ram))"
  by (induction bs) auto

lemma cpu1_app_range:
  "inside_any_range a e (fl_app_ranges cpu1_flash) \<longleftrightarrow> a < e \<and> 0x082400 \<le> a \<and> e \<le> 0x0C0000"
  by (auto simp: inside_any_range_def cpu1_flash_def contains_range_def APP_FLASH_START_def
      APP_FLASH_END_EXCLUSIVE_def SLOT_A_METADATA_END_def SLOT_A_METADATA_START_def SLOT_A_METADATA_WORDS_def)

lemma cpu1_metadata_below: "0x082400 \<le> a \<Longrightarrow> \<not> contains_range (ml_range cpu1_metadata) a n"
  by (auto simp: cpu1_metadata_def contains_range_def slot_defs)

lemma app_sectors_allowed:
  "\<forall>sec \<in> set SECTORS. 0x082400 < fst (snd sec) \<longrightarrow> bit (0x3FFE :: int) (snd (snd sec)) \<and> snd (snd sec) \<noteq> 0"
  by (simp add: SECTORS_def)

lemma app_mask_allowed:
  assumes "image_wf img" "validate_app_firmware_image img = Inr ()"
  shows "image_sector_mask img \<noteq> 0" "image_sector_mask img AND 1 = 0"
    "image_sector_mask img AND NOT ALLOWED_ERASE_MASK = 0"
proof -
  have blocks: "0x082400 \<le> fb_address b" "fb_end_exclusive b \<le> 0x0C0000" "fb_address b < fb_end_exclusive b"
    if "b \<in> set (fi_blocks img)" for b
    using that assms by (auto simp: validate_app_ok_iff list_all_iff image_wf_def block_wf_def fb_end_exclusive_def)
  have bits: "bit (0x3FFE :: int) n \<and> n \<noteq> 0" if "bit (image_sector_mask img) n" for n
  proof -
    obtain b sec where b: "b \<in> set (fi_blocks img)" "sec \<in> set SECTORS" "snd (snd sec) = n" "touches b sec"
      using \<open>bit (image_sector_mask img) n\<close> bit_image_sector_mask by blast
    then have "0x082400 < fst (snd sec)"
      using blocks(1) [OF b(1)] by (auto simp: touches_def split: prod.splits)
    then show ?thesis
      using app_sectors_allowed b(2,3) by blast
  qed
  obtain b where b: "b \<in> set (fi_blocks img)"
    using assms(1) by (cases "fi_blocks img") (auto simp: image_wf_def)
  obtain sec where sec: "sec \<in> set SECTORS" "fst sec \<le> fb_address b" "fb_address b < fst (snd sec)"
    using SECTORS_cover [of "fb_address b"] blocks [OF b] by auto
  then have "touches b sec"
    using blocks(3) [OF b] by (auto simp: touches_def split: prod.splits)
  then have "bit (image_sector_mask img) (snd (snd sec))"
    using b sec(1) bit_image_sector_mask by blast
  then show "image_sector_mask img \<noteq> 0"
    by auto
  show "image_sector_mask img AND 1 = 0"
    unfolding and_1_eq_0_iff using bits by blast
  show "image_sector_mask img AND NOT ALLOWED_ERASE_MASK = 0"
    unfolding and_not_eq_0_iff ALLOWED_ERASE_MASK_def using bits by blast
qed

text \<open>
  Two admission checks that agree.  The image layer checks an application image against the
  memory map of CPU1, the firmware layer against its own constants: for a well-formed image both
  accept exactly the same images, and the sector mask of an accepted image is not zero, spares the
  boot loader's sector and stays inside the allowed mask.
\<close>

theorem app_checks_agree:
  assumes "image_wf img"
  shows "check_app_image cpu1_flash cpu1_metadata img = Inr k \<longleftrightarrow>
    validate_app_firmware_image img = Inr () \<and> k = image_sector_mask img"
proof -
  have "fb_address b < fb_end_exclusive b" if "b \<in> set (fi_blocks img)" for b
    using that assms by (auto simp: image_wf_def block_wf_def list_all_iff fb_end_exclusive_def)
  moreover have "\<not> contains_range (ml_range cpu1_metadata) (fb_address b) (int (length (fb_words b)))"
    if "0x082400 \<le> fb_address b" for b
    using that by (rule cpu1_metadata_below)
  ultimately have blocks: "check_app_blocks cpu1_flash cpu1_metadata (fi_blocks img) = Inr () \<longleftrightarrow>
      list_all (\<lambda>b. 0x082400 \<le> fb_address b \<and> fb_end_exclusive b \<le> 0x0C0000) (fi_blocks img)"
    unfolding check_app_blocks_ok cpu1_app_range list_all_iff by blast
  let ?app = "validate_app_firmware_image img = Inr ()"
  have app: "?app \<longleftrightarrow> inside_any_range (fi_entry_point img) (fi_entry_point img + 1) (fl_app_ranges cpu1_flash) \<and>
      fi_entry_point img mod 8 = 0 \<and> check_app_blocks cpu1_flash cpu1_metadata (fi_blocks img) = Inr ()"
    unfolding blocks cpu1_app_range validate_app_ok_iff by auto
  have layout: "fl_forbidden_erase_mask cpu1_flash = 1" "fl_allowed_erase_mask cpu1_flash = ALLOWED_ERASE_MASK"
    by (simp_all add: cpu1_flash_def)
  show ?thesis
  proof
    assume "check_app_image cpu1_flash cpu1_metadata img = Inr k"
    then show "?app \<and> k = image_sector_mask img"
      unfolding check_app_image_def app by (auto simp: Let_def bindE_Inr_iff split: if_splits)
  next
    assume a: "?app \<and> k = image_sector_mask img"
    then show "check_app_image cpu1_flash cpu1_metadata img = Inr k"
      using app_mask_allowed [OF assms] unfolding check_app_image_def app layout
      by (simp only: Let_def bindE_simps simp_thms if_False if_True HOL.simp_thms)
  qed
qed

lemma app_checks_agree_witness:
  "check_app_image cpu1_flash cpu1_metadata example_image = Inr 2"
  using app_checks_agree [OF example_image_wf] example_image_app example_image_mask by simp

text \<open>
  The comparison with the metadata is exact: it reports the same image if and only if the
  metadata is valid and names the entry point, size and CRC of the image, and it always gives a
  reason otherwise.
\<close>

lemma same_image_iff:
  "mc_same_image (compare_flash_image_with_metadata img summary) \<longleftrightarrow>
     ms_metadata_valid summary \<noteq> 0 \<and> id_entry_point (pf_identity img) = ms_entry_point summary \<and>
     id_image_size_words (pf_identity img) = ms_image_size_words summary \<and>
     id_image_crc32 (pf_identity img) = ms_image_crc32 summary"
  "mc_same_image (compare_flash_image_with_metadata img summary) \<longleftrightarrow>
     mc_reason (compare_flash_image_with_metadata img summary) = None"
  by (auto simp: compare_flash_image_with_metadata_def compare_image_identity_with_metadata_def Let_def)

end
