(* ===== verification/Op_Service.thy ===== *)
theory Op_Service
  imports Op_Results Images
begin

text \<open>
  The protocol primitives of the operation layer (\<open>operations/_flash_protocol.py\<close>,
  \<open>operations/_ram_protocol.py\<close>) and the Flash service runtime
  (\<open>operations/_service_runtime.py\<close>): the service image is reused when the target already runs it,
  otherwise loaded, checked and attached.
\<close>

section \<open>Primitives\<close>

definition u32_words :: "int list \<Rightarrow> int list res" where
  "u32_words vs = foldE (\<lambda>v ws. bindE (halves v) (\<lambda>x. Inr (ws @ x))) vs []"

definition op_send ::
  "'t op_context \<Rightarrow> command_field \<Rightarrow> int list res \<Rightarrow> ('t world, int list) sm" where
  "op_send ctx field payload = bindM (liftM payload) (\<lambda>p. op_transact ctx field p False)"

definition begin_payload :: "target \<Rightarrow> int \<Rightarrow> int \<Rightarrow> int \<Rightarrow> int \<Rightarrow> int list res" where
  "begin_payload tgt packet_count total_words entry_point image_crc32 =
     bindE (u32_words [total_words, entry_point, image_crc32]) (\<lambda>ws.
       Inr ([target_code tgt, packet_count] @ ws @ [0]))"

definition data_payload :: "int \<Rightarrow> int list \<Rightarrow> int \<Rightarrow> int list res" where
  "data_payload address words packet_index =
     bindE (halves address) (\<lambda>a. bindE (halves packet_index) (\<lambda>i.
       Inr (a @ [int (length words)] @ i @ words)))"

definition erase_protocol :: "'t op_context \<Rightarrow> int \<Rightarrow> ('t world, int list) sm" where
  "erase_protocol ctx sector_mask =
     op_send ctx F_erase (bindE (halves sector_mask) (\<lambda>m. Inr (m @ [0])))"

definition program_begin_protocol ::
  "'t op_context \<Rightarrow> int \<Rightarrow> int \<Rightarrow> int \<Rightarrow> int \<Rightarrow> ('t world, int list) sm" where
  "program_begin_protocol ctx packet_count total_words entry_point image_crc32 =
     op_send ctx F_program_begin (begin_payload TGT_FLASH_APP packet_count total_words entry_point image_crc32)"

definition program_data_protocol ::
  "'t op_context \<Rightarrow> int \<Rightarrow> int list \<Rightarrow> int \<Rightarrow> ('t world, int list) sm" where
  "program_data_protocol ctx address words packet_index =
     op_send ctx F_program_data (data_payload address words packet_index)"

definition program_end_protocol :: "'t op_context \<Rightarrow> int \<Rightarrow> int \<Rightarrow> int \<Rightarrow> ('t world, int list) sm" where
  "program_end_protocol ctx packet_count total_words image_crc32 =
     op_send ctx F_program_end (u32_words [packet_count, total_words, image_crc32])"

definition verify_begin_protocol ::
  "'t op_context \<Rightarrow> int \<Rightarrow> int \<Rightarrow> int \<Rightarrow> int \<Rightarrow> ('t world, int list) sm" where
  "verify_begin_protocol ctx packet_count total_words entry_point image_crc32 =
     op_send ctx F_verify_begin (begin_payload TGT_FLASH_APP packet_count total_words entry_point image_crc32)"

definition verify_data_protocol ::
  "'t op_context \<Rightarrow> int \<Rightarrow> int list \<Rightarrow> int \<Rightarrow> ('t world, int list) sm" where
  "verify_data_protocol ctx address words packet_index =
     op_send ctx F_verify_data (data_payload address words packet_index)"

definition verify_end_protocol :: "'t op_context \<Rightarrow> int \<Rightarrow> int \<Rightarrow> int \<Rightarrow> ('t world, int list) sm" where
  "verify_end_protocol ctx packet_count total_words image_crc32 =
     op_send ctx F_verify_end (u32_words [packet_count, total_words, image_crc32])"

definition ram_load_begin_protocol ::
  "'t op_context \<Rightarrow> int \<Rightarrow> int \<Rightarrow> int \<Rightarrow> int \<Rightarrow> ('t world, int list) sm" where
  "ram_load_begin_protocol ctx packet_count total_words entry_point image_crc32 =
     op_send ctx F_ram_load_begin (begin_payload TGT_RAM_APP packet_count total_words entry_point image_crc32)"

definition ram_load_data_protocol ::
  "'t op_context \<Rightarrow> int \<Rightarrow> int list \<Rightarrow> int \<Rightarrow> ('t world, int list) sm" where
  "ram_load_data_protocol ctx address words packet_index =
     op_send ctx F_ram_load_data (data_payload address words packet_index)"

definition ram_load_end_protocol :: "'t op_context \<Rightarrow> int \<Rightarrow> int \<Rightarrow> int \<Rightarrow> ('t world, int list) sm" where
  "ram_load_end_protocol ctx packet_count total_words image_crc32 =
     op_send ctx F_ram_load_end (u32_words [packet_count, total_words, image_crc32])"

definition ram_check_crc_protocol :: "'t op_context \<Rightarrow> int \<Rightarrow> int \<Rightarrow> ('t world, int list) sm" where
  "ram_check_crc_protocol ctx expected_crc32 expected_total_words =
     op_send ctx F_ram_check_crc
       (bindE (u32_words [expected_crc32, expected_total_words]) (\<lambda>ws. Inr (ws @ [0])))"

section \<open>The service runtime\<close>

text \<open>A Flash context also holds the prepared service image and whether it must be attached anew.\<close>

record 't flash_context = "'t op_context" +
  cx_service :: prepared_service_image
  cx_force_service_attach :: bool

text \<open>The operation context inside a Flash context.\<close>

definition op_cx :: "'t flash_context \<Rightarrow> 't op_context" where
  "op_cx ctx = \<lparr>cx_transport = cx_transport ctx, cx_target = cx_target ctx,
     cx_progress = cx_progress ctx, cx_cancellation = cx_cancellation ctx\<rparr>"

record service_summary =
  sv_reused :: bool
  sv_attach_performed :: bool
  sv_service_state :: int
  sv_abi_major :: int
  sv_abi_minor :: int
  sv_capabilities :: int
  sv_loaded_image_crc32 :: int

record service_cancellation =
  sc_cancellation :: cancellation_info
  sc_service :: "service_summary option"
  sc_cleanup_error :: "exc option"

text \<open>\<open>ensure_service_attached\<close> returns a summary or a cancellation.\<close>

datatype service_runtime = Service_Ready service_summary | Service_Cancelled service_cancellation

definition summary_of_status :: "service_status \<Rightarrow> bool \<Rightarrow> bool \<Rightarrow> service_summary" where
  "summary_of_status st reused attach_performed =
     \<lparr>sv_reused = reused, sv_attach_performed = attach_performed, sv_service_state = ss_service_state st,
      sv_abi_major = ss_abi_major st, sv_abi_minor = ss_abi_minor st,
      sv_capabilities = ss_capabilities st, sv_loaded_image_crc32 = ss_loaded_image_crc32 st\<rparr>"

definition read_status :: "'t op_context \<Rightarrow> ('t world, service_status) sm" where
  "read_status ctx = bindM (op_transact ctx F_get_service_status [] False)
     (\<lambda>words. liftM (service_status_from_words words))"

definition validate_attached :: "prepared_service_image \<Rightarrow> service_status \<Rightarrow> unit res" where
  "validate_attached service st =
     (if ss_service_state st \<noteq> service_state_code SVC_ATTACHED
      then Inl (OperationFailure ''SERVICE_ATTACH_FAILED'' ''service is not attached'' ''SERVICE_ATTACH'' False [])
      else if ss_abi_major st \<noteq> SERVICE_ABI_MAJOR \<or> ss_abi_minor st \<noteq> SERVICE_ABI_MINOR
      then Inl (OperationFailure ''SERVICE_ABI_MISMATCH''
        ''attached service ABI does not match host expectation'' ''SERVICE_ATTACH'' False
        [(''abi_major'', PInt (ss_abi_major st)), (''abi_minor'', PInt (ss_abi_minor st))])
      else if ss_capabilities st AND ps_required_capabilities service \<noteq> ps_required_capabilities service
      then Inl (OperationFailure ''SERVICE_CAPABILITY_MISMATCH''
        ''attached service does not provide required capabilities'' ''SERVICE_ATTACH'' False
        [(''capabilities'', PInt (ss_capabilities st)),
         (''required_capabilities'', PInt (ps_required_capabilities service))])
      else Inr ())"

definition service_matches :: "prepared_service_image \<Rightarrow> service_status \<Rightarrow> bool" where
  "service_matches service st \<longleftrightarrow>
     ss_service_state st = service_state_code SVC_ATTACHED \<and>
     ss_abi_major st = SERVICE_ABI_MAJOR \<and> ss_abi_minor st = SERVICE_ABI_MINOR \<and>
     ss_loaded_image_crc32 st = ps_expected_crc32 service \<and>
     ss_loaded_image_words st = ps_total_words service \<and>
     ss_capabilities st AND ps_required_capabilities service = ps_required_capabilities service"

definition service_cancelled ::
  "prepared_service_image \<Rightarrow> string \<Rightarrow> int \<Rightarrow> bool option \<Rightarrow> string \<Rightarrow> service_summary option \<Rightarrow>
     service_runtime res" where
  "service_cancelled service stage current_words attached recovery_action summary =
     bindE (OperationCancellationInfo
       \<lparr>ci_stage = stage, ci_current_words = current_words, ci_total_words = ps_total_words service,
        ci_protocol_state_clean = True, ci_outcome_uncertain = False,
        ci_connection_recovery_required = False, ci_partial_flash_programmed = False,
        ci_erase_before_retry_required = False, ci_service_attached = attached,
        ci_recovery_action = recovery_action\<rparr>) (\<lambda>info.
     Inr (Service_Cancelled
       \<lparr>sc_cancellation = info, sc_service = summary, sc_cleanup_error = None\<rparr>))"

definition service_spec :: "int \<Rightarrow> transfer_spec" where
  "service_spec total_words =
     \<lparr>tf_operation = ''ensure_service_attached'', tf_total_words = total_words,
      tf_begin_stage = ''RAM_LOAD_BEGIN'', tf_data_stage = ''RAM_LOAD_SERVICE'',
      tf_end_stage = ''RAM_LOAD_END'', tf_progress_message = ''RAM load service'',
      tf_recovery_action = (\<lambda>_. ''RESTART_SERVICE_LOAD''),
      tf_reconnect_recovery_action = (\<lambda>_. ''RECONNECT_AND_RESTART_SERVICE_LOAD''),
      tf_partial_flash_programmed = (\<lambda>_. False), tf_service_attached = Some False\<rparr>"

definition ignoreM :: "('s, 'a) sm \<Rightarrow> ('s, unit) sm" where
  "ignoreM m = thenM m (returnM ())"

definition load_service ::
  "'t op_context \<Rightarrow> prepared_service_image \<Rightarrow> data_packet list \<Rightarrow> int \<Rightarrow> ('t world, transfer_outcome) sm" where
  "load_service ctx service packets total_words =
     run_cancellable_transfer ctx (service_spec total_words) packets
       (ignoreM (ram_load_begin_protocol ctx (int (length packets)) total_words
          (fi_entry_point (ps_image service)) (ps_expected_crc32 service)))
       (\<lambda>p. ignoreM (ram_load_data_protocol ctx (dp_address p) (dp_words p) (dp_index p)))
       (ignoreM (ram_load_end_protocol ctx (int (length packets)) total_words (ps_expected_crc32 service)))"

text \<open>The steps after the load: check the CRC, attach, and read the status back.\<close>

definition unless_cancelled ::
  "'t op_context \<Rightarrow> 'a res \<Rightarrow> ('t world, 'a) sm \<Rightarrow> ('t world, 'a) sm" where
  "unless_cancelled ctx cancelled rest =
     bindM (operation_cancellation_requested ctx) (\<lambda>c. if c then liftM cancelled else rest)"

definition attach_service ::
  "'t op_context \<Rightarrow> prepared_service_image \<Rightarrow> int \<Rightarrow> ('t world, service_runtime) sm" where
  "attach_service ctx service total_words =
     unless_cancelled ctx
       (service_cancelled service ''RAM_CHECK_CRC'' total_words (Some False) ''RESTART_SERVICE_LOAD'' None)
     (thenM (ram_check_crc_protocol ctx (ps_expected_crc32 service) (ps_total_words service))
     (unless_cancelled ctx
       (service_cancelled service ''SERVICE_ATTACH'' total_words (Some False) ''RESTART_SERVICE_LOAD'' None)
     (thenM (op_send ctx F_service_attach
         (bindE (u32_words [ps_header_address service, ps_expected_crc32 service, ps_total_words service])
           (\<lambda>ws. Inr (ws @ [0]))))
     (unless_cancelled ctx
       (service_cancelled service ''GET_SERVICE_STATUS'' total_words (Some True) ''NONE'' None)
     (bindM (read_status ctx) (\<lambda>st.
      thenM (liftM (validate_attached service st))
      (if ss_loaded_image_crc32 st \<noteq> ps_expected_crc32 service \<or>
          ss_loaded_image_words st \<noteq> ps_total_words service
       then raiseM (OperationFailure ''SERVICE_ATTACH_FAILED''
         ''attached service image does not match request'' ''SERVICE_ATTACH'' False [])
       else returnM (Service_Ready (summary_of_status st False True)))))))))"

definition ensure_service_attached :: "'t flash_context \<Rightarrow> ('t world, service_runtime) sm" where
  "ensure_service_attached fctx =
     (let ctx = op_cx fctx; service = cx_service fctx in
      unless_cancelled ctx
        (service_cancelled service ''GET_SERVICE_STATUS'' 0 None ''RESTART_SERVICE_LOAD'' None)
      (bindM (read_status ctx) (\<lambda>st.
       let matches = \<not> cx_force_service_attach fctx \<and> service_matches service st;
           reusable = (if matches then Some (summary_of_status st True False) else None) in
       unless_cancelled ctx
         (service_cancelled service ''GET_SERVICE_STATUS'' 0 (Some matches)
           (if matches then ''NONE'' else ''RESTART_SERVICE_LOAD'') reusable)
       (case reusable of
          Some summary \<Rightarrow> returnM (Service_Ready summary)
        | None \<Rightarrow>
            bindM (getM (\<lambda>w. effective_max_data_words (wd_client w))) (\<lambda>limit.
            bindM (liftM limit) (\<lambda>max_data_words.
            bindM (liftM (prepare_service_ram_packets (ps_image service) max_data_words)) (\<lambda>packets.
            let total_words = sum_list (map (\<lambda>p. int (length (dp_words p))) packets) in
            bindM (load_service ctx service packets total_words) (\<lambda>outcome.
              case to_cancellation outcome of
                Some info \<Rightarrow>
                  bindM (liftM (if to_completed_after_cancel outcome
                    then OperationCancellationInfo (info\<lparr>ci_service_attached := Some False,
                      ci_recovery_action := ''RESTART_SERVICE_LOAD''\<rparr>)
                    else Inr info)) (\<lambda>cancellation.
                  returnM (Service_Cancelled \<lparr>sc_cancellation = cancellation, sc_service = None,
                    sc_cleanup_error = to_cleanup_error outcome\<rparr>))
              | None \<Rightarrow> attach_service ctx service total_words))))))))"

definition service_summary_dict :: "service_summary \<Rightarrow> pydict" where
  "service_summary_dict s =
     [(''reused'', PBool (sv_reused s)), (''attach_performed'', PBool (sv_attach_performed s)),
      (''service_state'', PInt (sv_service_state s)), (''abi_major'', PInt (sv_abi_major s)),
      (''abi_minor'', PInt (sv_abi_minor s)), (''capabilities'', PInt (sv_capabilities s)),
      (''loaded_image_crc32'', PInt (sv_loaded_image_crc32 s))]"

end
