(* ===== verification/Op_Flash.thy ===== *)
theory Op_Flash
  imports Op_Service
begin

text \<open>
  The Flash operations (\<open>operations/flash_ops.py\<close>): erasing the area of an image or a sector mask,
  programming and verifying an image.  Each operation attaches the Flash service first, asks the
  cancellation token between its steps and turns every exception into a failed result.
\<close>

section \<open>Sector masks\<close>

definition op_flash_layout :: "'t op_context \<Rightarrow> flash_layout res" where
  "op_flash_layout ctx =
     (case tm_flash (tp_memory_map (cx_target ctx)) of
        None \<Rightarrow> Inl (UnsupportedOperationError ''target does not define a Flash layout'')
      | Some flash \<Rightarrow> Inr flash)"

definition check_sector_mask :: "flash_layout \<Rightarrow> int \<Rightarrow> unit res" where
  "check_sector_mask flash sector_mask =
     (if sector_mask = 0
      then Inl (OperationFailure ''FORBIDDEN_SECTOR'' ''sector mask must be nonzero'' ''ERASE'' False [])
      else if sector_mask AND fl_forbidden_erase_mask flash \<noteq> 0
      then Inl (OperationFailure ''FORBIDDEN_SECTOR'' ''sector mask includes forbidden sectors'' ''ERASE'' False [])
      else if sector_mask AND NOT (fl_allowed_erase_mask flash) \<noteq> 0
      then Inl (OperationFailure ''FORBIDDEN_SECTOR''
        ''sector mask includes sectors outside allowed erase mask'' ''ERASE'' False [])
      else Inr ())"

definition sector_bit :: "target_sector \<Rightarrow> int" where
  "sector_bit sector = push_bit (nat (ts_bit_index sector)) 1"

definition op_sector_words :: "flash_layout \<Rightarrow> int \<Rightarrow> int option" where
  "op_sector_words flash sector_mask =
     (let mapped_mask = sum_list (map sector_bit (fl_sectors flash)) in
      if sector_mask AND NOT mapped_mask \<noteq> 0 then None
      else Some (sum_list (map (\<lambda>s. ts_end_exclusive s - ts_start s)
        (filter (\<lambda>s. sector_mask AND sector_bit s \<noteq> 0) (fl_sectors flash)))))"

definition erase_progress ::
  "'t op_context \<Rightarrow> string \<Rightarrow> int \<Rightarrow> int \<Rightarrow> int option \<Rightarrow> int \<Rightarrow> ('t world, unit) sm" where
  "erase_progress ctx operation selected_mask completed_mask total_words chunk_mask =
     bindM (liftM (if total_words \<noteq> None then bindE (op_flash_layout ctx) (\<lambda>flash.
         Inr (op_sector_words flash completed_mask, op_sector_words flash chunk_mask))
       else Inr (None, None))) (\<lambda>(current_words, chunk_words).
     emit_progress ctx
       \<lparr>pe_operation = operation, pe_target = tp_name (cx_target ctx), pe_stage = ''ERASE'',
        pe_message = ''Erasing Flash sectors'', pe_current_words = current_words,
        pe_total_words = total_words, pe_chunk_words = chunk_words,
        pe_details = [(''sector_mask'', PInt selected_mask), (''completed_sector_mask'', PInt completed_mask),
          (''current_bytes'', opt_int (map_option (\<lambda>n. n * 2) current_words)),
          (''total_bytes'', opt_int (map_option (\<lambda>n. n * 2) total_words))],
        pe_cancellation_supported = False\<rparr>)"

section \<open>Cancelled results\<close>

definition clean_cancellation ::
  "string \<Rightarrow> bool option \<Rightarrow> string \<Rightarrow> int \<Rightarrow> int \<Rightarrow> cancellation_info res" where
  "clean_cancellation stage attached recovery_action current_words total_words = OperationCancellationInfo
     \<lparr>ci_stage = stage, ci_current_words = current_words, ci_total_words = total_words,
      ci_protocol_state_clean = True, ci_outcome_uncertain = False,
      ci_connection_recovery_required = False, ci_partial_flash_programmed = False,
      ci_erase_before_retry_required = False, ci_service_attached = attached,
      ci_recovery_action = recovery_action\<rparr>"

text \<open>A cancellation at a stage where nothing is in progress, the body of many early returns.\<close>

definition cancelled_at ::
  "'t op_context \<Rightarrow> string \<Rightarrow> string \<Rightarrow> bool option \<Rightarrow> string \<Rightarrow> pydict option \<Rightarrow> operation_result res" where
  "cancelled_at ctx operation stage attached recovery_action service =
     bindE (clean_cancellation stage attached recovery_action 0 0)
       (\<lambda>info. cancelled_result ctx operation stage info service)"

definition service_cancellation_result ::
  "'t op_context \<Rightarrow> string \<Rightarrow> service_cancellation \<Rightarrow> string option \<Rightarrow> operation_result res" where
  "service_cancellation_result ctx operation item recovery_action =
     (let service = map_option service_summary_dict (sc_service item) in
      bindE (case recovery_action of
          Some action \<Rightarrow> if ci_service_attached (sc_cancellation item) = Some True
            then OperationCancellationInfo ((sc_cancellation item)\<lparr>ci_recovery_action := action\<rparr>)
            else Inr (sc_cancellation item)
        | None \<Rightarrow> Inr (sc_cancellation item)) (\<lambda>info.
      case sc_cleanup_error item of
        Some e \<Rightarrow> cancellation_cleanup_failure_result ctx operation (ci_stage info) info e service
      | None \<Rightarrow> cancelled_result ctx operation (ci_stage info) info service))"

text \<open>Every Flash operation attaches the service first and returns at once when that is cancelled.\<close>

definition with_service ::
  "'t flash_context \<Rightarrow> string \<Rightarrow> string option \<Rightarrow> (pydict \<Rightarrow> ('t world, operation_result) sm) \<Rightarrow>
     ('t world, operation_result) sm" where
  "with_service fctx operation recovery_action rest =
     bindM (ensure_service_attached fctx) (\<lambda>runtime.
       case runtime of
         Service_Cancelled item \<Rightarrow>
           liftM (service_cancellation_result (op_cx fctx) operation item recovery_action)
       | Service_Ready service \<Rightarrow> rest (service_summary_dict service))"

text \<open>The successful end of an operation that has nothing more to stop.\<close>

definition finished_result ::
  "'t op_context \<Rightarrow> string \<Rightarrow> string \<Rightarrow> pydict \<Rightarrow> pydict \<Rightarrow> pydict \<Rightarrow> ('t world, operation_result) sm" where
  "finished_result ctx operation stage summary details service =
     bindM (operation_cancellation_requested ctx) (\<lambda>late. liftM
       (if late then bindE (clean_cancellation stage (Some True) ''NONE'' 0 0) (\<lambda>info.
          completed_after_cancel_result ctx operation stage summary info details (Some service))
        else ok_result ctx operation stage summary details (Some service)))"

section \<open>Erase\<close>

text \<open>One erase command with its progress event.\<close>

definition erase_step ::
  "'t op_context \<Rightarrow> string \<Rightarrow> int \<Rightarrow> int option \<Rightarrow> int \<Rightarrow> int \<Rightarrow> ('t world, unit) sm" where
  "erase_step ctx operation selected total_words completed chunk =
     thenM (erase_protocol ctx chunk)
       (erase_progress ctx operation selected (completed OR chunk) total_words chunk)"

definition erase_flash_image_area ::
  "'t flash_context \<Rightarrow> prepared_flash_image \<Rightarrow> ('t world, operation_result) sm" where
  "erase_flash_image_area fctx img =
     (let ctx = op_cx fctx; operation = ''erase_flash_image_area'' in
      guarded ctx operation ''ERASE''
      (unless_cancelled ctx (cancelled_at ctx operation ''GET_SERVICE_STATUS'' None ''NONE'' None)
      (bindM (liftM (op_flash_layout ctx)) (\<lambda>flash.
       let metadata_mask = fl_metadata_sector_mask flash;
           effective = pf_sector_mask img OR metadata_mask in
       thenM (liftM (check_sector_mask flash effective))
      (with_service fctx operation None (\<lambda>service.
       unless_cancelled ctx (cancelled_at ctx operation ''ERASE'' (Some True) ''NONE'' (Some service))
      (let total_words = op_sector_words flash effective;
           rest = effective AND NOT metadata_mask;
           first = (if metadata_mask \<noteq> 0 then [metadata_mask] else []);
           erased = first @ (if rest \<noteq> 0 then [rest] else []) in
       thenM (erase_progress ctx operation effective 0 total_words 0)
      (thenM (if metadata_mask \<noteq> 0 then erase_step ctx operation effective total_words 0 metadata_mask
              else returnM ())
      (thenM (if rest \<noteq> 0 then erase_step ctx operation effective total_words metadata_mask rest
              else returnM ())
       (finished_result ctx operation ''ERASE'' [(''erased_masks'', PList (map PInt erased))]
         [(''effective_mask'', PInt effective)] service))))))))))"

definition erase_sector_mask :: "'t flash_context \<Rightarrow> int \<Rightarrow> ('t world, operation_result) sm" where
  "erase_sector_mask fctx sector_mask =
     (let ctx = op_cx fctx; operation = ''erase_sector_mask'' in
      guarded ctx operation ''ERASE''
      (unless_cancelled ctx (cancelled_at ctx operation ''GET_SERVICE_STATUS'' None ''NONE'' None)
      (bindM (liftM (op_flash_layout ctx)) (\<lambda>flash.
       thenM (liftM (check_sector_mask flash sector_mask))
      (with_service fctx operation None (\<lambda>service.
       unless_cancelled ctx (cancelled_at ctx operation ''ERASE'' (Some True) ''NONE'' (Some service))
      (let total_words = op_sector_words flash sector_mask in
       thenM (erase_progress ctx operation sector_mask 0 total_words 0)
      (thenM (erase_protocol ctx sector_mask)
      (thenM (erase_progress ctx operation sector_mask sector_mask total_words sector_mask)
       (finished_result ctx operation ''ERASE'' [(''erased_masks'', PList [PInt sector_mask])] []
         service))))))))))"

section \<open>Program and verify\<close>

definition program_spec :: "string \<Rightarrow> int \<Rightarrow> transfer_spec" where
  "program_spec operation total_words =
     \<lparr>tf_operation = operation, tf_total_words = total_words,
      tf_begin_stage = ''PROGRAM_BEGIN'', tf_data_stage = ''PROGRAM_DATA'', tf_end_stage = ''PROGRAM_END'',
      tf_progress_message = ''PROGRAM_DATA'',
      tf_recovery_action = (\<lambda>sent. if sent \<noteq> 0 then ''ERASE_AND_RESTART_PROGRAM'' else ''RESTART_PROGRAM''),
      tf_reconnect_recovery_action =
        (\<lambda>sent. if sent \<noteq> 0 then ''RECONNECT_ERASE_AND_RESTART_PROGRAM''
                else ''RECONNECT_AND_RESTART_PROGRAM''),
      tf_partial_flash_programmed = (\<lambda>sent. sent \<noteq> 0), tf_service_attached = Some True\<rparr>"

definition verify_spec :: "string \<Rightarrow> int \<Rightarrow> transfer_spec" where
  "verify_spec operation total_words =
     \<lparr>tf_operation = operation, tf_total_words = total_words,
      tf_begin_stage = ''VERIFY_BEGIN'', tf_data_stage = ''VERIFY_DATA'', tf_end_stage = ''VERIFY_END'',
      tf_progress_message = ''VERIFY_DATA'',
      tf_recovery_action = (\<lambda>_. ''RESTART_VERIFY''),
      tf_reconnect_recovery_action = (\<lambda>_. ''RECONNECT_AND_RESTART_VERIFY''),
      tf_partial_flash_programmed = (\<lambda>_. False), tf_service_attached = Some True\<rparr>"

definition transfer_words :: "data_packet list \<Rightarrow> int" where
  "transfer_words packets = sum_list (map (\<lambda>p. int (length (dp_words p))) packets)"

definition flash_transfer ::
  "'t op_context \<Rightarrow> prepared_flash_image \<Rightarrow> string \<Rightarrow> bool \<Rightarrow> int \<Rightarrow> ('t world, transfer_outcome) sm" where
  "flash_transfer ctx img operation verify max_data_words =
     bindM (liftM (prepare_packets (pf_image img) max_data_words)) (\<lambda>packets.
     let total_words = transfer_words packets;
         count = int (length packets);
         entry_point = id_entry_point (pf_identity img) in
     if verify
     then run_cancellable_transfer ctx (verify_spec operation total_words) packets
       (ignoreM (verify_begin_protocol ctx count total_words entry_point 0))
       (\<lambda>p. ignoreM (verify_data_protocol ctx (dp_address p) (dp_words p) (dp_index p)))
       (ignoreM (verify_end_protocol ctx count total_words 0))
     else run_cancellable_transfer ctx (program_spec operation total_words) packets
       (ignoreM (program_begin_protocol ctx count total_words entry_point 0))
       (\<lambda>p. ignoreM (program_data_protocol ctx (dp_address p) (dp_words p) (dp_index p)))
       (ignoreM (program_end_protocol ctx count total_words 0)))"

text \<open>The end of every operation that ran a transfer.\<close>

definition transfer_result ::
  "'t op_context \<Rightarrow> string \<Rightarrow> string \<Rightarrow> transfer_outcome \<Rightarrow> pydict option \<Rightarrow> operation_result res" where
  "transfer_result ctx operation end_stage outcome service =
     (case to_cancellation outcome of
        Some info \<Rightarrow>
          (case to_cleanup_error outcome of
             Some e \<Rightarrow> cancellation_cleanup_failure_result ctx operation (ci_stage info) info e service
           | None \<Rightarrow>
               if to_completed_after_cancel outcome
               then completed_after_cancel_result ctx operation end_stage (to_summary outcome) info [] service
               else cancelled_result ctx operation (ci_stage info) info service)
      | None \<Rightarrow>
          if to_cleanup_error outcome \<noteq> None
          then Inl (OtherError ''AttributeError'' ''cancellation'')
          else ok_result ctx operation end_stage (to_summary outcome) [] service)"

definition flash_image_operation ::
  "'t flash_context \<Rightarrow> prepared_flash_image \<Rightarrow> string \<Rightarrow> bool \<Rightarrow> string \<Rightarrow> string \<Rightarrow> string \<Rightarrow>
     ('t world, operation_result) sm" where
  "flash_image_operation fctx img operation verify end_stage restart stage =
     (let ctx = op_cx fctx in
      guarded ctx operation stage
      (unless_cancelled ctx (cancelled_at ctx operation ''GET_SERVICE_STATUS'' None restart None)
      (bindM (getM (\<lambda>w. effective_max_write_data_words (wd_client w))) (\<lambda>limit.
       bindM (liftM limit) (\<lambda>max_data_words.
       with_service fctx operation (Some restart) (\<lambda>service.
       bindM (flash_transfer ctx img operation verify max_data_words) (\<lambda>outcome.
       liftM (transfer_result ctx operation end_stage outcome (Some service)))))))))"

definition program_flash_image ::
  "'t flash_context \<Rightarrow> prepared_flash_image \<Rightarrow> ('t world, operation_result) sm" where
  "program_flash_image fctx img =
     flash_image_operation fctx img ''program_flash_image'' False ''PROGRAM_END'' ''RESTART_PROGRAM'' ''PROGRAM''"

definition verify_flash_image ::
  "'t flash_context \<Rightarrow> prepared_flash_image \<Rightarrow> ('t world, operation_result) sm" where
  "verify_flash_image fctx img =
     flash_image_operation fctx img ''verify_flash_image'' True ''VERIFY_END'' ''RESTART_VERIFY'' ''VERIFY''"

end
