(* ===== verification/Op_Metadata.thy ===== *)
theory Op_Metadata
  imports Op_Flash
begin

text \<open>
  The metadata operations (\<open>operations/metadata_ops.py\<close>): a record is appended only in the state of
  the metadata that calls for it; otherwise the result says why nothing was written.
\<close>

definition APPEND_RECORD_WORDS :: int where "APPEND_RECORD_WORDS = 64"

fun record_type_name :: "metadata_record_type \<Rightarrow> string" where
  "record_type_name REC_IMAGE_VALID = ''IMAGE_VALID''"
| "record_type_name REC_BOOT_ATTEMPT = ''BOOT_ATTEMPT''"
| "record_type_name REC_APP_CONFIRMED = ''APP_CONFIRMED''"

definition emit_append_progress ::
  "'t op_context \<Rightarrow> string \<Rightarrow> metadata_record_type \<Rightarrow> int \<Rightarrow> ('t world, unit) sm" where
  "emit_append_progress ctx operation kind current_words = emit_progress ctx
     \<lparr>pe_operation = operation, pe_target = tp_name (cx_target ctx),
      pe_stage = ''METADATA_APPEND_RECORD'',
      pe_message = ''Writing '' @ record_type_name kind @ '' metadata record'',
      pe_current_words = Some current_words, pe_total_words = Some APPEND_RECORD_WORDS,
      pe_chunk_words = Some current_words,
      pe_details = [(''record_type'', PStr (record_type_name kind)),
        (''current_bytes'', PInt (current_words * 2)), (''total_bytes'', PInt (APPEND_RECORD_WORDS * 2))],
      pe_cancellation_supported = False\<rparr>"

definition append_image_valid_payload :: "image_identity \<Rightarrow> int list res" where
  "append_image_valid_payload identity =
     bindE (u32_words [id_entry_point identity, id_image_size_words identity, id_image_crc32 identity]) (\<lambda>ws.
     bindE (halves (id_app_end identity)) (\<lambda>z. Inr
       ([metadata_record_type_code REC_IMAGE_VALID, boot_slot_code SLOT_SLOT_A] @ ws @
        [0, 0, 0, 0, 0] @ z @ [0])))"

definition append_current_payload :: "metadata_record_type \<Rightarrow> metadata_summary \<Rightarrow> int list res" where
  "append_current_payload kind current =
     bindE (u32_words [ms_entry_point current, ms_image_size_words current, ms_image_crc32 current]) (\<lambda>ws. Inr
       ([metadata_record_type_code kind, boot_slot_code SLOT_SLOT_A] @ ws @ [0, 0, 0, 0, 0, 0, 0, 0]))"

definition metadata_state :: "metadata_summary \<Rightarrow> string" where
  "metadata_state current =
     (if ms_state current = 0 \<and> ms_metadata_valid current = 0 \<and>
         ms_valid_record_count current = 0 \<and> ms_invalid_record_count current = 0
      then ''EMPTY''
      else if ms_state current = 1 \<and> ms_metadata_valid current \<noteq> 0 then ''VALID''
      else ''INVALID'')"

definition append_summary :: "bool \<Rightarrow> bool \<Rightarrow> string option \<Rightarrow> pydict" where
  "append_summary written already_exists reason =
     [(''written'', PBool written), (''already_exists'', PBool already_exists),
      (''reason'', case reason of None \<Rightarrow> PNone | Some r \<Rightarrow> PStr r)]"

text \<open>
  Why a record is not appended: whether the record is there already, and the reason.  \<open>None\<close> lets the
  operation append it.
\<close>

definition image_valid_refusal :: "metadata_summary \<Rightarrow> (bool \<times> string) option" where
  "image_valid_refusal current =
     (let state = metadata_state current in
      if state = ''VALID'' then Some (True, ''IMAGE_VALID_ALREADY_EXISTS'')
      else if state \<noteq> ''EMPTY'' then Some (False, ''METADATA_INVALID'')
      else None)"

definition boot_attempt_refusal :: "metadata_summary \<Rightarrow> (bool \<times> string) option" where
  "boot_attempt_refusal current =
     (let state = metadata_state current in
      if state = ''INVALID'' then Some (False, ''METADATA_INVALID'')
      else if state = ''EMPTY'' then Some (False, ''IMAGE_VALID_REQUIRED'')
      else if ms_boot_attempt_limit current \<le> 0 \<or> ms_boot_attempt_limit current > 3
      then Some (False, ''METADATA_INVALID'')
      else if ms_app_confirmed current \<noteq> 0 then Some (True, ''APP_CONFIRMED_ALREADY_EXISTS'')
      else if ms_boot_attempt_count current \<ge> ms_boot_attempt_limit current \<or> ms_boot_attempt_count current \<ge> 3
      then Some (False, ''BOOT_ATTEMPT_LIMIT_REACHED'')
      else None)"

definition app_confirmed_refusal :: "metadata_summary \<Rightarrow> (bool \<times> string) option" where
  "app_confirmed_refusal current =
     (let state = metadata_state current in
      if state = ''INVALID'' then Some (False, ''METADATA_INVALID'')
      else if state = ''EMPTY'' then Some (False, ''IMAGE_VALID_REQUIRED'')
      else if ms_app_confirmed current \<noteq> 0 then Some (True, ''APP_CONFIRMED_ALREADY_EXISTS'')
      else if ms_boot_attempt_count current = 0 then Some (False, ''BOOT_ATTEMPT_REQUIRED'')
      else None)"

definition read_metadata_summary :: "'t op_context \<Rightarrow> ('t world, metadata_summary) sm" where
  "read_metadata_summary ctx =
     bindM (op_transact ctx F_get_metadata_summary [] False) (\<lambda>words. liftM (metadata_summary_from_words words))"

text \<open>
  The three operations have one shape: the service, the summary, the refusal, and the record between
  two progress events.
\<close>

definition append_record ::
  "'t flash_context \<Rightarrow> string \<Rightarrow> metadata_record_type \<Rightarrow> (metadata_summary \<Rightarrow> (bool \<times> string) option) \<Rightarrow>
     (metadata_summary \<Rightarrow> int list res) \<Rightarrow> ('t world, operation_result) sm" where
  "append_record fctx operation kind refusal payload =
     (let ctx = op_cx fctx in
      guarded ctx operation ''METADATA_APPEND_RECORD''
      (unless_cancelled ctx (cancelled_at ctx operation ''GET_SERVICE_STATUS'' None ''NONE'' None)
      (with_service fctx operation None (\<lambda>service.
       unless_cancelled ctx
         (cancelled_at ctx operation ''READ_METADATA_SUMMARY'' (Some True) ''NONE'' (Some service))
      (bindM (read_metadata_summary ctx) (\<lambda>current.
       case refusal current of
         Some (exists, reason) \<Rightarrow> finished_result ctx operation ''READ_METADATA_SUMMARY''
           (append_summary False exists (Some reason)) [] service
       | None \<Rightarrow>
           unless_cancelled ctx
             (cancelled_at ctx operation ''METADATA_APPEND_RECORD'' (Some True) ''NONE'' (Some service))
          (thenM (emit_append_progress ctx operation kind 0)
          (thenM (op_send ctx F_metadata_append_record (payload current))
          (thenM (emit_append_progress ctx operation kind APPEND_RECORD_WORDS)
           (finished_result ctx operation ''METADATA_APPEND_RECORD''
             (append_summary True False None) [] service))))))))))"

definition op_append_image_valid ::
  "'t flash_context \<Rightarrow> prepared_flash_image \<Rightarrow> ('t world, operation_result) sm" where
  "op_append_image_valid fctx img =
     append_record fctx ''append_image_valid'' REC_IMAGE_VALID image_valid_refusal
       (\<lambda>_. append_image_valid_payload (pf_identity img))"

definition op_append_boot_attempt :: "'t flash_context \<Rightarrow> ('t world, operation_result) sm" where
  "op_append_boot_attempt fctx =
     append_record fctx ''append_boot_attempt'' REC_BOOT_ATTEMPT boot_attempt_refusal
       (append_current_payload REC_BOOT_ATTEMPT)"

definition op_append_app_confirmed :: "'t flash_context \<Rightarrow> ('t world, operation_result) sm" where
  "op_append_app_confirmed fctx =
     append_record fctx ''append_app_confirmed'' REC_APP_CONFIRMED app_confirmed_refusal
       (append_current_payload REC_APP_CONFIRMED)"

end
