(* ===== verification/Op_Status.thy ===== *)
theory Op_Status
  imports Op_Metadata
begin

text \<open>
  The status reads (\<open>operations/status_ops.py\<close>), the service operations (\<open>service_ops.py\<close>), run and
  reset (\<open>execution_ops.py\<close>) and the discovery of the connected target (\<open>discovery.py\<close>).  The lists
  of pairs are the dictionaries \<open>asdict\<close> makes of the models.
\<close>

section \<open>Summaries\<close>

definition device_info_dict :: "device_info \<Rightarrow> pydict" where
  "device_info_dict d =
     [(''device_id'', PInt (di_device_id d)), (''cpu_id'', PInt (di_cpu_id d)),
      (''kernel_ver_major'', PInt (di_kernel_ver_major d)), (''kernel_ver_minor'', PInt (di_kernel_ver_minor d)),
      (''kernel_ver_patch'', PInt (di_kernel_ver_patch d)), (''protocol_ver'', PInt (di_protocol_ver d)),
      (''feature_flags'', PInt (di_feature_flags d)), (''max_payload_words'', PInt (di_max_payload_words d)),
      (''max_data_words'', PInt (di_max_data_words d)), (''boot_mode'', PInt (di_boot_mode d)),
      (''kernel_layout'', PInt (di_kernel_layout d)), (''revision_id'', PInt (di_revision_id d)),
      (''uid_unique'', PInt (di_uid_unique d))]"

definition protocol_info_dict :: "protocol_info \<Rightarrow> pydict" where
  "protocol_info_dict p =
     [(''protocol_ver'', PInt (pi_protocol_ver p)), (''min_supported_ver'', PInt (pi_min_supported_ver p)),
      (''max_supported_ver'', PInt (pi_max_supported_ver p)), (''header_words'', PInt (pi_header_words p)),
      (''crc_type'', PInt (pi_crc_type p)), (''endian'', PInt (pi_endian p)),
      (''max_payload_words'', PInt (pi_max_payload_words p)), (''flags'', PInt (pi_flags p))]"

definition error_detail_dict :: "error_detail \<Rightarrow> pydict" where
  "error_detail_dict d =
     [(''operation'', PInt (ed_operation d)), (''stage'', PInt (ed_stage d)), (''address'', PInt (ed_address d)),
      (''length_words'', PInt (ed_length_words d)), (''api_status'', PInt (ed_api_status d)),
      (''fsm_status'', PInt (ed_fsm_status d)), (''extra0'', PInt (ed_extra0 d)), (''extra1'', PInt (ed_extra1 d))]"

definition metadata_summary_dict :: "metadata_summary \<Rightarrow> pydict" where
  "metadata_summary_dict s =
     [(''metadata_valid'', PInt (ms_metadata_valid s)), (''active_slot'', PInt (ms_active_slot s)),
      (''latest_record_type'', PInt (ms_latest_record_type s)),
      (''boot_attempt_count'', PInt (ms_boot_attempt_count s)), (''app_confirmed'', PInt (ms_app_confirmed s)),
      (''boot_attempt_limit'', PInt (ms_boot_attempt_limit s)),
      (''app_version_major'', PInt (ms_app_version_major s)), (''app_version_minor'', PInt (ms_app_version_minor s)),
      (''app_version_patch'', PInt (ms_app_version_patch s)), (''app_version_build'', PInt (ms_app_version_build s)),
      (''entry_point'', PInt (ms_entry_point s)), (''image_crc32'', PInt (ms_image_crc32 s)),
      (''state'', PInt (ms_state s)), (''valid_record_count'', PInt (ms_valid_record_count s)),
      (''invalid_record_count'', PInt (ms_invalid_record_count s)),
      (''erased_record_count'', PInt (ms_erased_record_count s)),
      (''free_record_count'', PInt (ms_free_record_count s)), (''next_record_index'', PInt (ms_next_record_index s)),
      (''image_size_words'', PInt (ms_image_size_words s)), (''target_device_id'', PInt (ms_target_device_id s)),
      (''target_cpu_id'', PInt (ms_target_cpu_id s))]"

definition service_status_dict :: "service_status \<Rightarrow> pydict" where
  "service_status_dict s =
     [(''service_state'', PInt (ss_service_state s)), (''abi_major'', PInt (ss_abi_major s)),
      (''abi_minor'', PInt (ss_abi_minor s)), (''reserved0'', PInt (ss_reserved0 s)),
      (''reserved1'', PInt (ss_reserved1 s)), (''capabilities'', PInt (ss_capabilities s)),
      (''last_attach_status'', PInt (ss_last_attach_status s)),
      (''loaded_image_crc32'', PInt (ss_loaded_image_crc32 s)),
      (''loaded_image_words'', PInt (ss_loaded_image_words s))]"

section \<open>Status reads\<close>

definition device_info_failure :: "'t op_context \<Rightarrow> string \<Rightarrow> exc \<Rightarrow> operation_result res" where
  "device_info_failure ctx operation e =
     bindE (failure_result ctx operation ''GET_DEVICE_INFO'' e) (\<lambda>result.
       case or_error result of
         Some error \<Rightarrow> if ei_code error = ''PROTOCOL_ERROR''
           then OperationResult (result\<lparr>or_error := Some (error\<lparr>ei_recoverable := True\<rparr>)\<rparr>)
           else Inr result
       | None \<Rightarrow> Inr result)"

definition op_get_device_info :: "'t op_context \<Rightarrow> ('t world, operation_result) sm" where
  "op_get_device_info ctx =
     catchM
       (thenM (op_transact ctx F_get_device_info [] False)
        (bindM (getM (\<lambda>w. bc_device_info (wd_client w))) (\<lambda>info. liftM (case info of
           None \<Rightarrow> Inl (ProtocolDecodeError ''GET_DEVICE_INFO succeeded without cached DeviceInfo'')
         | Some d \<Rightarrow> ok_result ctx ''get_device_info'' ''GET_DEVICE_INFO'' (device_info_dict d) [] None))))
       (\<lambda>e. if is_exception e then liftM (device_info_failure ctx ''get_device_info'' e) else raiseM e)"

definition op_get_protocol_info :: "'t op_context \<Rightarrow> ('t world, operation_result) sm" where
  "op_get_protocol_info ctx =
     guarded ctx ''get_protocol_info'' ''GET_PROTOCOL_INFO''
       (thenM (op_transact ctx F_get_protocol_info [] False)
        (bindM (getM (\<lambda>w. bc_protocol_info (wd_client w))) (\<lambda>info. liftM (case info of
           None \<Rightarrow> Inl (ProtocolDecodeError ''GET_PROTOCOL_INFO succeeded without cached ProtocolInfo'')
         | Some p \<Rightarrow> ok_result ctx ''get_protocol_info'' ''GET_PROTOCOL_INFO'' (protocol_info_dict p) [] None))))"

definition op_get_last_error :: "'t op_context \<Rightarrow> ('t world, operation_result) sm" where
  "op_get_last_error ctx =
     guarded ctx ''get_last_error'' ''GET_LAST_ERROR''
       (bindM (op_transact ctx F_get_last_error [] False) (\<lambda>words.
        bindM (liftM (error_detail_from_words words)) (\<lambda>detail.
        liftM (ok_result ctx ''get_last_error'' ''GET_LAST_ERROR'' (error_detail_dict detail) [] None))))"

definition op_get_metadata_summary :: "'t op_context \<Rightarrow> ('t world, operation_result) sm" where
  "op_get_metadata_summary ctx =
     guarded ctx ''get_metadata_summary'' ''GET_METADATA_SUMMARY''
       (bindM (read_metadata_summary ctx) (\<lambda>summary.
        liftM (ok_result ctx ''get_metadata_summary'' ''GET_METADATA_SUMMARY''
          (metadata_summary_dict summary) [] None)))"

text \<open>An operation that is one command with an empty or fixed summary.\<close>

definition simple_operation ::
  "'t op_context \<Rightarrow> string \<Rightarrow> string \<Rightarrow> command_field \<Rightarrow> int list res \<Rightarrow> bool \<Rightarrow> pydict \<Rightarrow>
     ('t world, operation_result) sm" where
  "simple_operation ctx operation stage field payload observed summary =
     guarded ctx operation stage
       (bindM (liftM payload) (\<lambda>p. thenM (op_transact ctx field p observed)
         (liftM (ok_result ctx operation stage summary [] None))))"

definition op_ping :: "'t op_context \<Rightarrow> ('t world, operation_result) sm" where
  "op_ping ctx = simple_operation ctx ''ping'' ''PING'' F_ping (Inr []) False []"

section \<open>Services\<close>

definition op_get_service_status :: "'t op_context \<Rightarrow> ('t world, operation_result) sm" where
  "op_get_service_status ctx =
     guarded ctx ''get_service_status'' ''GET_SERVICE_STATUS''
       (bindM (op_transact ctx F_get_service_status [] False) (\<lambda>words.
        bindM (liftM (service_status_from_words words)) (\<lambda>st.
        liftM (ok_result ctx ''get_service_status'' ''GET_SERVICE_STATUS'' (service_status_dict st) [] None))))"

definition service_action :: "service_summary \<Rightarrow> string res" where
  "service_action service =
     (if sv_reused service then Inr ''REUSED''
      else if sv_attach_performed service then Inr ''LOADED_AND_ATTACHED''
      else Inl (OperationFailure ''SERVICE_ATTACH_FAILED'' ''service runtime returned no attach action''
        ''SERVICE_ATTACH'' False []))"

definition attach_flash_service :: "'t flash_context \<Rightarrow> ('t world, operation_result) sm" where
  "attach_flash_service fctx =
     (let ctx = op_cx fctx; operation = ''attach_flash_service'' in
      guarded ctx operation ''SERVICE_ATTACH''
      (bindM (ensure_service_attached fctx) (\<lambda>runtime. liftM (case runtime of
         Service_Cancelled item \<Rightarrow> service_cancellation_result ctx operation item None
       | Service_Ready service \<Rightarrow> bindE (service_action service) (\<lambda>action.
           ok_result ctx operation ''SERVICE_ATTACH'' [(''service_action'', PStr action)] []
             (Some (service_summary_dict service)))))))"

section \<open>Run and reset\<close>

definition RunRequest :: "int \<Rightarrow> int res" where
  "RunRequest entry_point =
     (if entry_point < 0 then Inl (ValueError ''entry_point must be a non-negative integer'')
      else Inr entry_point)"

definition op_run_flash_app :: "'t op_context \<Rightarrow> int \<Rightarrow> bool \<Rightarrow> ('t world, operation_result) sm" where
  "op_run_flash_app ctx entry_point observed =
     simple_operation ctx ''run_flash_app'' ''RUN'' F_run
       (bindE (halves entry_point) (\<lambda>e. Inr ([target_code TGT_FLASH_APP] @ e @ [0]))) observed
       [(''entry_point'', PInt entry_point)]"

definition op_run_ram_image :: "'t op_context \<Rightarrow> int \<Rightarrow> bool \<Rightarrow> ('t world, operation_result) sm" where
  "op_run_ram_image ctx entry_point observed =
     simple_operation ctx ''run_ram_image'' ''RUN_RAM'' F_run_ram
       (bindE (halves entry_point) (\<lambda>e. Inr (e @ [0]))) observed
       [(''entry_point'', PInt entry_point)]"

definition op_reset_target :: "'t op_context \<Rightarrow> ('t world, operation_result) sm" where
  "op_reset_target ctx = simple_operation ctx ''reset_target'' ''RESET'' F_reset (Inr []) False []"

definition op_boot_cpu2_run_cpu1 :: "'t op_context \<Rightarrow> ('t world, operation_result) sm" where
  "op_boot_cpu2_run_cpu1 ctx =
     simple_operation ctx ''boot_cpu2_run_cpu1'' ''BOOT_CPU2_RUN_CPU1'' F_boot_cpu2_run_cpu1 (Inr []) False []"

definition op_boot_cpu2_reset_cpu1 :: "'t op_context \<Rightarrow> ('t world, operation_result) sm" where
  "op_boot_cpu2_reset_cpu1 ctx =
     simple_operation ctx ''boot_cpu2_reset_cpu1'' ''BOOT_CPU2_RESET_CPU1'' F_boot_cpu2_reset_cpu1 (Inr []) False []"

end
