(* ===== verification/Op_Discovery.thy ===== *)
theory Op_Discovery
  imports Op_Status
begin

text \<open>
  The discovery of the connected target (\<open>operations/discovery.py\<close>): one read of the device
  information resolves the target profile, one read of the protocol information the transfer limits.
\<close>

record discovered_target =
  dt_device_info :: device_info
  dt_target_profile :: target_profile
  dt_target_key :: string

text \<open>\<open>str(n)\<close> of a number that is not negative.\<close>

fun decimal :: "nat \<Rightarrow> string" where
  "decimal n = (if n < 10 then [char_of (48 + n)] else decimal (n div 10) @ [char_of (48 + n mod 10)])"

declare decimal.simps [simp del]

definition cpu_key :: "int \<Rightarrow> string" where
  "cpu_key cpu_id = ''cpu'' @ (if cpu_id < 0 then ''-'' else []) @ decimal (nat \<bar>cpu_id\<bar>)"

definition DiscoveredTarget :: "device_info \<Rightarrow> target_profile \<Rightarrow> string \<Rightarrow> discovered_target res" where
  "DiscoveredTarget info profile key =
     (if key = [] then Inl (ValueError ''target_key must be a non-empty string'')
      else if key \<noteq> cpu_key (di_cpu_id info)
      then Inl (ValueError ''target_key does not match DeviceInfo'')
      else if tp_cpu_id profile \<noteq> di_cpu_id info
      then Inl (ValueError ''target profile CPU does not match DeviceInfo'')
      else Inr \<lparr>dt_device_info = info, dt_target_profile = profile, dt_target_key = key\<rparr>)"

record discovery_outcome =
  do_result :: operation_result
  do_discovered :: "discovered_target option"

definition TargetDiscoveryOutcome ::
  "operation_result \<Rightarrow> discovered_target option \<Rightarrow> discovery_outcome res" where
  "TargetDiscoveryOutcome result discovered =
     (if or_ok result \<noteq> (discovered \<noteq> None)
      then Inl (ValueError ''discovery result and target must agree'')
      else Inr \<lparr>do_result = result, do_discovered = discovered\<rparr>)"

definition discovery_context :: "'t byte_transport \<Rightarrow> 't op_context" where
  "discovery_context tr =
     \<lparr>cx_transport = tr, cx_target = DISCOVERY_PROFILE, cx_progress = False, cx_cancellation = None\<rparr>"

definition discovery_failure :: "string \<Rightarrow> string \<Rightarrow> pydict \<Rightarrow> operation_result res" where
  "discovery_failure code message details = OperationResult
     \<lparr>or_ok = False, or_operation = ''discover_connected_target'', or_target = tp_name DISCOVERY_PROFILE,
      or_stage = ''RESOLVE_TARGET'', or_summary = [], or_details = [], or_service = None,
      or_warning = None,
      or_error = Some \<lparr>ei_code = code, ei_message = message, ei_stage = ''RESOLVE_TARGET'',
        ei_recoverable = True, ei_details = details, ei_domain = DOMAIN_OPERATION\<rparr>,
      or_completion = None, or_cancellation = None\<rparr>"

definition not_discovered :: "operation_result res \<Rightarrow> discovery_outcome res" where
  "not_discovered r = bindE r (\<lambda>result. TargetDiscoveryOutcome result None)"

definition discovery_summary :: "'t boot_client \<Rightarrow> device_info \<Rightarrow> string \<Rightarrow> pydict res" where
  "discovery_summary c info key =
     (case bc_protocol_info c of
        None \<Rightarrow> Inl (ProtocolDecodeError ''GET_PROTOCOL_INFO succeeded without cached ProtocolInfo'')
      | Some p \<Rightarrow>
          bindE (effective_max_payload_words c) (\<lambda>payload_words.
          bindE (effective_max_data_words c) (\<lambda>data_words.
          bindE (effective_max_write_data_words c) (\<lambda>write_data_words. Inr
            [(''device_id'', PInt (di_device_id info)), (''cpu_id'', PInt (di_cpu_id info)),
             (''target_key'', PStr key), (''device_max_payload_words'', PInt (di_max_payload_words info)),
             (''protocol_max_payload_words'', PInt (pi_max_payload_words p)),
             (''effective_max_payload_words'', PInt payload_words),
             (''effective_max_data_words'', PInt data_words),
             (''effective_max_write_data_words'', PInt write_data_words)]))))"

text \<open>The last steps, once the profile is resolved.\<close>

definition discover_limits ::
  "'t op_context \<Rightarrow> device_info \<Rightarrow> target_profile \<Rightarrow> string \<Rightarrow> ('t world, discovery_outcome) sm" where
  "discover_limits ctx info profile key =
     bindM (op_get_protocol_info ctx) (\<lambda>result.
       if \<not> or_ok result then liftM (TargetDiscoveryOutcome result None)
       else bindM (getM (\<lambda>w. discovery_summary (wd_client w) info key)) (\<lambda>r. liftM
         (case r of
            Inl e \<Rightarrow> if is_exception e
              then not_discovered (failure_result ctx ''discover_connected_target'' ''GET_PROTOCOL_INFO'' e)
              else Inl e
          | Inr summary \<Rightarrow>
              bindE (DiscoveredTarget info profile key) (\<lambda>discovered.
              bindE (OperationResult
                (basic_result ctx True ''discover_connected_target'' ''RESOLVE_TARGET'' summary)) (\<lambda>ok.
              TargetDiscoveryOutcome ok (Some discovered))))))"

definition discover_connected_target :: "'t byte_transport \<Rightarrow> ('t world, discovery_outcome) sm" where
  "discover_connected_target tr =
     (let ctx = discovery_context tr in
      bindM (op_get_device_info ctx) (\<lambda>result.
        if \<not> or_ok result then liftM (TargetDiscoveryOutcome result None)
        else bindM (getM (\<lambda>w. bc_device_info (wd_client w))) (\<lambda>cached_info. case cached_info of
          None \<Rightarrow> raiseM (RuntimeError ''get_device_info succeeded without typed DeviceInfo'')
        | Some info \<Rightarrow>
            let key = cpu_key (di_cpu_id info);
                identity = [(''device_id'', PInt (di_device_id info)),
                  (''actual_cpu_id'', PInt (di_cpu_id info)), (''attempted_target_key'', PStr key)] in
            if di_device_id info \<noteq> device_id_code DEV_F28377D
            then liftM (not_discovered (discovery_failure ''UNSUPPORTED_DEVICE''
              ''Connected device is not a supported TMS320F28377D''
              [(''actual_device_id'', PInt (di_device_id info)),
               (''expected_device_id'', PInt (device_id_code DEV_F28377D))]))
            else (case target_profile_for_key key of
              None \<Rightarrow> liftM (not_discovered (discovery_failure ''UNKNOWN_CPU_ID''
                ''Connected device reported an unknown CPU ID'' identity))
            | Some profile \<Rightarrow>
                if tp_cpu_id profile \<noteq> di_cpu_id info
                then liftM (not_discovered (discovery_failure ''TARGET_PROFILE_MISMATCH''
                  ''Target Profile CPU does not match DeviceInfo'' identity))
                else discover_limits ctx info profile key))))"

end
