(* ===== verification/Op_Memory.thy ===== *)
theory Op_Memory
  imports Op_Flash
begin

text \<open>
  The memory read and the RAM operations.  The memory read (\<open>operations/memory_ops.py\<close>): a range of the target's memory is read in frames as
  large as the negotiated payload allows, and every answer is checked against its request.
\<close>

record memory_read_request =
  mr_start_address :: int
  mr_word_count :: int

definition MemoryReadRequest :: "int \<Rightarrow> int \<Rightarrow> memory_read_request res" where
  "MemoryReadRequest start_address word_count =
     (if \<not> u32 start_address then Inl (ValueError ''start_address must fit uint32'')
      else if \<not> (0 < word_count \<and> word_count \<le> 0xFFFFFFFF)
      then Inl (ValueError ''word_count must be a positive uint32'')
      else if start_address + word_count - 1 > 0xFFFFFFFF
      then Inl (ValueError ''memory read exceeds the uint32 address space'')
      else Inr \<lparr>mr_start_address = start_address, mr_word_count = word_count\<rparr>)"

definition memory_cancellation :: "memory_read_request \<Rightarrow> int \<Rightarrow> cancellation_info res" where
  "memory_cancellation request current_words =
     clean_cancellation ''MEMORY_READ'' None ''NONE'' current_words (mr_word_count request)"

definition memory_summary :: "memory_read_request \<Rightarrow> int \<Rightarrow> pydict" where
  "memory_summary request frame_count =
     [(''start_address'', PInt (mr_start_address request)),
      (''end_address'', PInt (mr_start_address request + mr_word_count request - 1)),
      (''word_count'', PInt (mr_word_count request)), (''frame_count'', PInt frame_count)]"

section \<open>Before the first frame\<close>

definition preflight_failure :: "string \<Rightarrow> string \<Rightarrow> pydict \<Rightarrow> exc" where
  "preflight_failure code message details =
     OperationFailure code message ''MEMORY_READ_PREFLIGHT'' False details"

definition memory_preflight :: "'t op_context \<Rightarrow> 't boot_client \<Rightarrow> int res" where
  "memory_preflight ctx c =
     (case bc_device_info c of
        None \<Rightarrow> Inl (preflight_failure ''CAPABILITY_UNAVAILABLE'' ''DeviceInfo is not cached'' [])
      | Some info \<Rightarrow>
          if di_feature_flags info AND feature_code FEAT_MEMORY_READ = 0
          then Inl (preflight_failure ''UNSUPPORTED_FEATURE''
            ''connected target does not advertise MEMORY_READ'' [])
          else if tp_command_set (cx_target ctx) F_memory_read = None
          then Inl (preflight_failure ''UNSUPPORTED_OPERATION''
            ''target profile does not define MEMORY_READ'' [])
          else bindE (effective_max_payload_words c) (\<lambda>max_payload_words.
            if max_payload_words < 4
            then Inl (preflight_failure ''INVALID_PAYLOAD_CAPACITY''
              ''effective payload capacity must be at least 4 words''
              [(''effective_max_payload_words'', PInt max_payload_words)])
            else Inr max_payload_words))"

section \<open>The frames\<close>

text \<open>The checks of one answer give its data words.\<close>

definition memory_frame_data ::
  "memory_read_request \<Rightarrow> int \<Rightarrow> int \<Rightarrow> int list \<Rightarrow> int list \<Rightarrow> int list res" where
  "memory_frame_data request address chunk_word_count words payload =
     (let data = drop 3 payload in
      if length payload < 3
      then Inl (ProtocolDecodeError ''MEMORY_READ frame response is too short'')
      else if join_u32 (payload ! 0) (payload ! 1) \<noteq> address
      then Inl (ProtocolDecodeError ''MEMORY_READ frame address mismatch'')
      else if payload ! 2 \<noteq> chunk_word_count
      then Inl (ProtocolDecodeError ''MEMORY_READ frame count mismatch'')
      else if int (length data) \<noteq> payload ! 2
      then Inl (ProtocolDecodeError ''MEMORY_READ frame data length mismatch'')
      else if \<not> words16 data
      then Inl (ProtocolDecodeError ''MEMORY_READ frame contains a non-uint16 data word'')
      else if int (length words) + int (length data) > mr_word_count request
      then Inl (ProtocolDecodeError ''MEMORY_READ frame exceeds requested count'')
      else Inr data)"

definition memory_done ::
  "'t op_context \<Rightarrow> memory_read_request \<Rightarrow> int \<Rightarrow> int list \<Rightarrow> operation_result res" where
  "memory_done ctx request frame_count words =
     ok_result ctx ''memory_read'' ''MEMORY_READ'' (memory_summary request frame_count)
       [(''words'', PList (map PInt words))] None"

definition memory_stopped ::
  "'t op_context \<Rightarrow> memory_read_request \<Rightarrow> int \<Rightarrow> int list \<Rightarrow> operation_result res" where
  "memory_stopped ctx request frame_count words =
     bindE (memory_cancellation request (int (length words))) (\<lambda>info.
       if int (length words) < mr_word_count request
       then cancelled_result ctx ''memory_read'' ''MEMORY_READ'' info None
       else completed_after_cancel_result ctx ''memory_read'' ''MEMORY_READ''
         (memory_summary request frame_count) info [(''words'', PList (map PInt words))] None)"

fun memory_frames ::
  "'t op_context \<Rightarrow> memory_read_request \<Rightarrow> int \<Rightarrow> int \<Rightarrow> int list \<Rightarrow> int \<Rightarrow> int list \<Rightarrow>
     ('t world, operation_result) sm" where
  "memory_frames ctx request capacity frame_count [] address words = liftM
     (if int (length words) \<noteq> mr_word_count request
      then Inl (ProtocolDecodeError ''MEMORY_READ returned a wrong number of words'')
      else memory_done ctx request frame_count words)"
| "memory_frames ctx request capacity frame_count (frame_index # rest) address words =
     (let chunk_word_count = min capacity (mr_word_count request - int (length words)) in
      bindM (op_send ctx F_memory_read (bindE (halves address) (\<lambda>a. Inr (a @ [chunk_word_count, 0])))) (\<lambda>payload.
      bindM (liftM (memory_frame_data request address chunk_word_count words payload)) (\<lambda>data.
      thenM (emit_progress ctx
        \<lparr>pe_operation = ''memory_read'', pe_target = tp_name (cx_target ctx), pe_stage = ''MEMORY_READ'',
         pe_message = ''Memory read progress'', pe_current_words = Some (int (length (words @ data))),
         pe_total_words = Some (mr_word_count request), pe_chunk_words = Some chunk_word_count,
         pe_details = [(''frame_index'', PInt frame_index), (''frame_count'', PInt frame_count),
           (''chunk_start_address'', PInt address)],
         pe_cancellation_supported = True\<rparr>)
      (unless_cancelled ctx (memory_stopped ctx request frame_count (words @ data))
       (memory_frames ctx request capacity frame_count rest (address + chunk_word_count) (words @ data))))))"

definition memory_read :: "'t op_context \<Rightarrow> memory_read_request \<Rightarrow> ('t world, operation_result) sm" where
  "memory_read ctx request =
     guarded ctx ''memory_read'' ''MEMORY_READ''
     (bindM (getM (\<lambda>w. memory_preflight ctx (wd_client w))) (\<lambda>limit.
      bindM (liftM limit) (\<lambda>max_payload_words.
      unless_cancelled ctx
        (bindE (memory_cancellation request 0)
          (\<lambda>info. cancelled_result ctx ''memory_read'' ''MEMORY_READ'' info None))
      (let capacity = min 0xFFFF (max_payload_words - 3);
           frame_count = (mr_word_count request + capacity - 1) div capacity in
       memory_frames ctx request capacity frame_count (map int [0..<nat frame_count])
         (mr_start_address request) []))))"

section \<open>RAM images\<close>

text \<open>
  The RAM operations (\<open>operations/ram_ops.py\<close>): an image is admitted against the target's RAM
  layout, loaded by a cancellable transfer, and its CRC checked by the target.
\<close>

definition validate_ram_request :: "'t op_context \<Rightarrow> prepared_ram_image \<Rightarrow> unit res" where
  "validate_ram_request ctx img =
     (if pr_entry_point img \<noteq> fi_entry_point (pr_image img)
      then Inl (OperationFailure ''INVALID_RAM_IMAGE''
        ''prepared RAM entry point does not match firmware image'' ''RAM_ADMISSION'' False [])
      else if pr_total_words img \<noteq> fi_total_words (pr_image img)
      then Inl (OperationFailure ''INVALID_RAM_IMAGE''
        ''prepared RAM word count does not match firmware image'' ''RAM_ADMISSION'' False [])
      else (case tm_ram (tp_memory_map (cx_target ctx)) of
          None \<Rightarrow> Inl (UnsupportedOperationError ''target does not define a RAM layout'')
        | Some ram \<Rightarrow>
            (case validate_ram_app_image (pr_image img) ram of
               Inl e \<Rightarrow> Inl (if is_value_error e
                 then OperationFailure ''INVALID_RAM_IMAGE'' (exc_msg e) ''RAM_ADMISSION'' False [] else e)
             | Inr _ \<Rightarrow> Inr ())))"

definition ram_spec :: "int \<Rightarrow> transfer_spec" where
  "ram_spec total_words =
     \<lparr>tf_operation = ''load_ram_image'', tf_total_words = total_words,
      tf_begin_stage = ''RAM_LOAD_BEGIN'', tf_data_stage = ''RAM_LOAD_DATA'', tf_end_stage = ''RAM_LOAD_END'',
      tf_progress_message = ''RAM load data'',
      tf_recovery_action = (\<lambda>_. ''RESTART_RAM_LOAD''),
      tf_reconnect_recovery_action = (\<lambda>_. ''RECONNECT_AND_RESTART_RAM_LOAD''),
      tf_partial_flash_programmed = (\<lambda>_. False), tf_service_attached = None\<rparr>"

definition load_ram_image :: "'t op_context \<Rightarrow> prepared_ram_image \<Rightarrow> ('t world, operation_result) sm" where
  "load_ram_image ctx img =
     (let operation = ''load_ram_image'' in
      guarded ctx operation ''RAM_LOAD''
      (thenM (liftM (validate_ram_request ctx img))
      (bindM (getM (\<lambda>w. effective_max_data_words (wd_client w))) (\<lambda>limit.
       bindM (liftM limit) (\<lambda>max_data_words.
       bindM (liftM (prepare_ram_packets (pr_image img) max_data_words)) (\<lambda>packets.
       let total_words = transfer_words packets; count = int (length packets) in
       bindM (run_cancellable_transfer ctx (ram_spec total_words) packets
           (ignoreM (ram_load_begin_protocol ctx count total_words (pr_entry_point img) (pr_image_crc32 img)))
           (\<lambda>p. ignoreM (ram_load_data_protocol ctx (dp_address p) (dp_words p) (dp_index p)))
           (ignoreM (ram_load_end_protocol ctx count total_words (pr_image_crc32 img)))) (\<lambda>outcome.
       liftM (transfer_result ctx operation ''RAM_LOAD_END'' outcome None))))))))"

definition op_check_ram_crc :: "'t op_context \<Rightarrow> prepared_ram_image \<Rightarrow> ('t world, operation_result) sm" where
  "op_check_ram_crc ctx img =
     (let operation = ''check_ram_crc'' in
      guarded ctx operation ''RAM_CHECK_CRC''
      (thenM (liftM (validate_ram_request ctx img))
      (thenM (ram_check_crc_protocol ctx (pr_image_crc32 img) (pr_total_words img))
       (liftM (ok_result ctx operation ''RAM_CHECK_CRC''
         [(''image_crc32'', PInt (pr_image_crc32 img)), (''total_words'', PInt (pr_total_words img))]
         [] None)))))"

end
