(* ===== verification/Op_Rules.thy ===== *)
theory Op_Rules
  imports Op_Discovery Op_Memory
begin

text \<open>
  Rules about the operation layer.  \<open>keeps I m Q E\<close> says that \<open>m\<close> keeps the invariant \<open>I\<close> of its
  state, that its value satisfies \<open>Q\<close> and its exception \<open>E\<close>; there is one rule per construct of the
  operations, and from them one lemma per operation.
\<close>

section \<open>The rules\<close>

definition keeps ::
  "('s \<Rightarrow> bool) \<Rightarrow> ('s, 'a) sm \<Rightarrow> ('a \<Rightarrow> bool) \<Rightarrow> (exc \<Rightarrow> bool) \<Rightarrow> bool" where
  "keeps I m Q E \<longleftrightarrow>
     (\<forall>s. I s \<longrightarrow> I (snd (m s)) \<and> (case fst (m s) of Inl e \<Rightarrow> E e | Inr x \<Rightarrow> Q x))"

abbreviation keeps_state :: "('s \<Rightarrow> bool) \<Rightarrow> ('s, 'a) sm \<Rightarrow> bool" where
  "keeps_state I m \<equiv> keeps I m (\<lambda>_. True) (\<lambda>_. True)"

lemma keepsD:
  assumes "keeps I m Q E" "I s" "m s = (r, s')"
  shows "I s'" "r = Inl e \<Longrightarrow> E e" "r = Inr x \<Longrightarrow> Q x"
proof -
  have k: "I (snd (m s)) \<and> (case fst (m s) of Inl e \<Rightarrow> E e | Inr x \<Rightarrow> Q x)"
    using assms(1,2) unfolding keeps_def by blast
  then show "I s'" "r = Inl e \<Longrightarrow> E e" "r = Inr x \<Longrightarrow> Q x"
    by (simp_all add: assms(3))
qed

lemma keepsI:
  assumes "\<And>s r s'. I s \<Longrightarrow> m s = (r, s') \<Longrightarrow> I s' \<and> (case r of Inl e \<Rightarrow> E e | Inr x \<Rightarrow> Q x)"
  shows "keeps I m Q E"
  unfolding keeps_def using assms [OF _ surjective_pairing] by blast

lemma keeps_weaken:
  assumes "keeps I m Q E" and "\<And>x. Q x \<Longrightarrow> Q' x" and "\<And>e. E e \<Longrightarrow> E' e"
  shows "keeps I m Q' E'"
proof (rule keepsI)
  fix s r s' assume "I s" "m s = (r, s')"
  from keepsD [OF assms(1) this] assms(2,3) show "I s' \<and> (case r of Inl e \<Rightarrow> E' e | Inr x \<Rightarrow> Q' x)"
    by (cases r) simp_all
qed

lemma keeps_state: "keeps I m Q E \<Longrightarrow> keeps_state I m"
  by (rule keeps_weaken) simp_all

lemma keeps_bind:
  assumes "keeps I m Q E" and "\<And>x. Q x \<Longrightarrow> keeps I (f x) R E"
  shows "keeps I (bindM m f) R E"
proof (rule keepsI)
  fix s r t assume s: "I s" "bindM m f s = (r, t)"
  obtain v s' where v: "m s = (v, s')"
    by (cases "m s")
  note m = keepsD [OF assms(1) s(1) v]
  show "I t \<and> (case r of Inl e \<Rightarrow> E e | Inr x \<Rightarrow> R x)"
  proof (cases v)
    case (Inl e)
    then show ?thesis
      using m(1) m(2) [OF Inl] s(2) v by (auto simp: bindM_Inl)
  next
    case (Inr x)
    then have "f x s' = (r, t)"
      using s(2) v by (simp add: bindM_Inr)
    from keepsD [OF assms(2) [OF m(3) [OF Inr]] m(1) this] show ?thesis
      by (cases r) simp_all
  qed
qed

lemma keeps_then: "keeps I m (\<lambda>_. True) E \<Longrightarrow> keeps I n R E \<Longrightarrow> keeps I (thenM m n) R E"
  unfolding thenM_def by (rule keeps_bind)

lemma keeps_return: "Q x \<Longrightarrow> keeps I (returnM x) Q E"
  by (simp add: keeps_def)

lemma keeps_raise: "E e \<Longrightarrow> keeps I (raiseM e) Q E"
  by (simp add: keeps_def)

lemma keeps_lift: "(\<And>x. r = Inr x \<Longrightarrow> Q x) \<Longrightarrow> (\<And>e. r = Inl e \<Longrightarrow> E e) \<Longrightarrow> keeps I (liftM r) Q E"
  by (auto simp: keeps_def split: sum.split)

lemma keeps_get: "(\<And>s. I s \<Longrightarrow> Q (f s)) \<Longrightarrow> keeps I (getM f) Q E"
  by (simp add: keeps_def)

lemma keeps_mod: "(\<And>s. I s \<Longrightarrow> I (g s)) \<Longrightarrow> Q () \<Longrightarrow> keeps I (modM g) Q E"
  by (simp add: keeps_def)

lemma keeps_catch:
  assumes "keeps I m Q E'" and "\<And>e. E' e \<Longrightarrow> keeps I (h e) Q E"
  shows "keeps I (catchM m h) Q E"
proof (rule keepsI)
  fix s r t assume s: "I s" "catchM m h s = (r, t)"
  obtain v s' where v: "m s = (v, s')"
    by (cases "m s")
  note m = keepsD [OF assms(1) s(1) v]
  show "I t \<and> (case r of Inl e \<Rightarrow> E e | Inr x \<Rightarrow> Q x)"
  proof (cases v)
    case (Inr x)
    then show ?thesis
      using m(1) m(3) [OF Inr] s(2) v by (auto simp: catchM_Inr)
  next
    case (Inl e)
    then have "h e s' = (r, t)"
      using s(2) v by (simp add: catchM_Inl)
    from keepsD [OF assms(2) [OF m(2) [OF Inl]] m(1) this] show ?thesis
      by (cases r) simp_all
  qed
qed

lemma keeps_if:
  "(b \<Longrightarrow> keeps I m Q E) \<Longrightarrow> (\<not> b \<Longrightarrow> keeps I n Q E) \<Longrightarrow> keeps I (if b then m else n) Q E"
  by simp

lemmas keeps_rules = keeps_bind keeps_then keeps_return keeps_raise keeps_lift keeps_if

text \<open>The form for statements about the state alone.\<close>

lemma keeps_state_bind: "keeps_state I m \<Longrightarrow> (\<And>x. keeps_state I (f x)) \<Longrightarrow> keeps_state I (bindM m f)"
  by (rule keeps_bind)

lemma keeps_state_then: "keeps_state I m \<Longrightarrow> keeps_state I n \<Longrightarrow> keeps_state I (thenM m n)"
  by (rule keeps_then)

lemma keeps_state_simps:
  "keeps_state I (returnM x)" "keeps_state I (raiseM e)" "keeps_state I (liftM r)" "keeps_state I (getM f)"
  by (simp_all add: keeps_def split: sum.split)

section \<open>The wire\<close>

text \<open>
  A property of the transport that reading keeps, and that writing the frame of an allowed request
  keeps.
\<close>

definition wire_keeps :: "'t byte_transport \<Rightarrow> (int \<Rightarrow> int list \<Rightarrow> bool) \<Rightarrow> ('t \<Rightarrow> bool) \<Rightarrow> bool" where
  "wire_keeps tr allowed P \<longleftrightarrow>
     (\<forall>n t. P t \<longrightarrow> P (snd (bt_read_some tr n t))) \<and>
     (\<forall>t cmd payload q request data. P t \<longrightarrow> allowed cmd payload \<longrightarrow>
        request_of cmd payload q = Inr request \<longrightarrow> encode_bytes request = Inr data \<longrightarrow>
        P (snd (bt_write_all tr data t)))"

lemma read_loop_keeps:
  assumes "\<And>t. P t \<Longrightarrow> P (snd (rd t))"
  shows "P t \<Longrightarrow> P (snd (snd (read_loop timed_out rd m polls buffer t)))"
proof (induction polls arbitrary: buffer t)
  case (Suc polls)
  have "P (snd (rd t))"
    using Suc.prems assms by blast
  then show ?case
    by (cases "rd t") (auto intro: Suc.IH split: sum.split prod.split scan_result.split)
qed simp

definition wire :: "('t \<Rightarrow> bool) \<Rightarrow> 't boot_client \<Rightarrow> bool" where
  "wire P c \<longleftrightarrow> P (bc_transport c)"

lemma wire_update [simp]:
  "wire P (c\<lparr>bc_sequence := q\<rparr>) = wire P c" "wire P (c\<lparr>bc_wire_attempts := ws\<rparr>) = wire P c"
  "wire P (c\<lparr>bc_device_info := d\<rparr>) = wire P c" "wire P (c\<lparr>bc_protocol_info := p\<rparr>) = wire P c"
  "wire P (c\<lparr>bc_transport := t\<rparr>) = P t" "wire P (c\<lparr>bc_buffer := b\<rparr>) = wire P c"
  by (simp_all add: wire_def)

lemma cached_transport: "cached cmd payload c = Inr c' \<Longrightarrow> bc_transport c' = bc_transport c"
  by (auto simp: cached_def as_decode_error_def bindE_def split: sum.splits if_splits)

lemma wire_read:
  assumes "wire_keeps tr allowed P"
  shows "keeps_state (wire P) (bc_read_frame tr ms m)"
proof (rule keepsI)
  fix c r c' assume c: "wire P c" "bc_read_frame tr ms m c = (r, c')"
  have "P (snd (bt_read_some tr n t))" if "P t" for n t
    using assms that by (simp add: wire_keeps_def)
  then have "P (snd (snd (read_frame (bt_read_some tr) ms m (bt_polls tr ms) (bc_buffer c, bc_transport c))))"
    using c(1) by (simp add: read_frame_def wire_def read_loop_keeps)
  then show "wire P c' \<and> (case r of Inl _ \<Rightarrow> True | Inr _ \<Rightarrow> True)"
    using c(2) by (auto simp: bc_read_frame_def wire_def split: prod.splits sum.split)
qed

lemma wire_write:
  assumes "wire_keeps tr allowed P" "allowed cmd payload"
    and "request_of cmd payload q = Inr request" "encode_bytes request = Inr data"
  shows "keeps_state (wire P) (on_transport (bt_write_all tr data))"
proof (rule keepsI)
  fix c r c' assume c: "wire P c" "on_transport (bt_write_all tr data) c = (r, c')"
  have "P (snd (bt_write_all tr data (bc_transport c)))"
    using assms c(1) unfolding wire_keeps_def wire_def by blast
  then show "wire P c' \<and> (case r of Inl _ \<Rightarrow> True | Inr _ \<Rightarrow> True)"
    using c(2) by (auto simp: on_transport_def split: prod.splits sum.split)
qed

lemma wire_cache: "keeps_state (wire P) (cache_capability cmd words)"
  by (rule keepsI) (auto simp: cache_capability_def wire_def cached_transport split: sum.splits)

text \<open>The request of a transaction, made before anything is sent.\<close>

definition transact_request ::
  "int \<Rightarrow> int list \<Rightarrow> int \<Rightarrow> 't boot_client \<Rightarrow> (int \<times> frame \<times> int list) res" where
  "transact_request cmd payload max_payload c =
     (if int (length payload) > max_payload
      then Inl (ProtocolPayloadLimitError cmd (int (length payload)) max_payload
        (map_option di_max_payload_words (bc_device_info c))
        (map_option pi_max_payload_words (bc_protocol_info c)))
      else bindE (next_sequence (bc_sequence c)) (\<lambda>q.
        bindE (request_of cmd payload q) (\<lambda>request.
        bindE (encode_bytes request) (\<lambda>data. Inr (q, request, data)))))"

text \<open>What happens once the request is made.\<close>

definition transact_exchange ::
  "'t byte_transport \<Rightarrow> int \<Rightarrow> int option \<Rightarrow> bool \<Rightarrow> int \<Rightarrow> int \<times> frame \<times> int list \<Rightarrow>
     ('t boot_client, int list) sm" where
  "transact_exchange tr cmd timeout_ms observed max_payload = (\<lambda>(q, request, data).
     thenM (if observed then modM (\<lambda>c. c\<lparr>bc_wire_attempts := bc_wire_attempts c @ [cmd]\<rparr>) else returnM ())
     (thenM (on_transport (bt_write_all tr data))
     (thenM (modM (\<lambda>c. c\<lparr>bc_sequence := q\<rparr>))
     (bindM (catchM (bc_read_frame tr (command_timeout cmd timeout_ms) max_payload)
         (\<lambda>e. raiseM (if is_frame_error e then ProtocolDecodeError (exc_msg e) else e))) (\<lambda>response.
      bindM (liftM (response_payload request response)) (\<lambda>words.
      thenM (cache_capability cmd words) (returnM words)))))))"

lemma bc_transact_parts:
  "bc_transact tr cmd payload timeout_ms observed =
     bindM (getM (\<lambda>c. payload_limit c cmd)) (\<lambda>limit.
     bindM (liftM limit) (\<lambda>max_payload.
     bindM (getM (transact_request cmd payload max_payload)) (\<lambda>r.
     bindM (liftM r) (transact_exchange tr cmd timeout_ms observed max_payload))))"
  by (simp add: bc_transact_def transact_request_def [abs_def] transact_exchange_def)

lemma transact_requestD:
  assumes "transact_request cmd payload m c = Inr (q, request, data)"
  shows "request_of cmd payload q = Inr request" "encode_bytes request = Inr data"
    "int (length payload) \<le> m" "next_sequence (bc_sequence c) = Inr q"
  using assms by (auto simp: transact_request_def bindE_Inr_iff split: if_splits)

lemma exchange_wire:
  assumes "wire_keeps tr allowed P" "allowed cmd payload"
    and "request_of cmd payload q = Inr request" "encode_bytes request = Inr data"
  shows "keeps_state (wire P) (transact_exchange tr cmd timeout observed m (q, request, data))"
  unfolding transact_exchange_def prod.case
  apply (rule keeps_state_then)
   apply (simp add: keeps_def)
  apply (rule keeps_state_then, rule wire_write [OF assms])
  apply (rule keeps_state_then)
   apply (simp add: keeps_def)
  apply (rule keeps_state_bind, rule keeps_catch [OF wire_read [OF assms(1)]], rule keeps_state_simps)
  apply (rule keeps_state_bind, rule keeps_state_simps)
  apply (rule keeps_state_then, rule wire_cache, rule keeps_state_simps)
  done

lemma bc_transact_wire:
  assumes "wire_keeps tr allowed P" "allowed cmd payload"
  shows "keeps_state (wire P) (bc_transact tr cmd payload timeout observed)"
  unfolding bc_transact_parts
proof (rule keeps_state_bind [OF keeps_state_simps(4)], rule keeps_state_bind [OF keeps_state_simps(3)])
  fix m
  let ?made = "\<lambda>(q, request, data). request_of cmd payload q = Inr request \<and> encode_bytes request = Inr data"
  show "keeps_state (wire P) (bindM (getM (transact_request cmd payload m))
    (\<lambda>r. bindM (liftM r) (transact_exchange tr cmd timeout observed m)))"
  proof (rule keeps_bind)
    show "keeps (wire P) (getM (transact_request cmd payload m)) (\<lambda>r. \<forall>x. r = Inr x \<longrightarrow> ?made x) (\<lambda>_. True)"
      by (rule keeps_get) (auto dest: transact_requestD)
  next
    fix r :: "(int \<times> frame \<times> int list) res" assume r: "\<forall>x. r = Inr x \<longrightarrow> ?made x"
    show "keeps_state (wire P) (bindM (liftM r) (transact_exchange tr cmd timeout observed m))"
      by (rule keeps_bind [where Q = ?made], rule keeps_lift)
        (use r in \<open>auto intro: exchange_wire [OF assms]\<close>)
  qed
qed

lemma halves_Inr: "halves v = Inr ws \<Longrightarrow> length ws = 2 \<and> join_u32 (ws ! 0) (ws ! 1) = v"
  by (auto simp: halves_def bindE_Inr_iff split_u32_Inr_iff)

end
