(* ===== verification/Op_Wire.thy ===== *)
theory Op_Wire
  imports Op_Rules
begin

text \<open>
  What every operation of the operation layer guarantees, whatever the transport does: its result is
  consistent, it lets only programming errors through, and it keeps whatever the exchanges it is permitted keep.
\<close>

section \<open>The operations\<close>

text \<open>The calls a front end makes, and the operation behind each.\<close>

datatype operation =
    Erase_Image_Area prepared_flash_image
  | Erase_Sector_Mask int
  | Program_Image prepared_flash_image
  | Verify_Image prepared_flash_image
  | Append_Image_Valid prepared_flash_image
  | Append_Boot_Attempt
  | Append_App_Confirmed
  | Load_Ram_Image prepared_ram_image
  | Check_Ram_Crc prepared_ram_image
  | Read_Memory memory_read_request
  | Attach_Service
  | Read_Service_Status
  | Read_Device_Info
  | Read_Protocol_Info
  | Read_Last_Error
  | Read_Metadata_Summary
  | Ping
  | Run_Flash_App int bool
  | Run_Ram_Image int bool
  | Reset_Target
  | Boot_Cpu2_Run
  | Boot_Cpu2_Reset

fun run_operation :: "'t flash_context \<Rightarrow> operation \<Rightarrow> ('t world, operation_result) sm" where
  "run_operation fctx (Erase_Image_Area img) = erase_flash_image_area fctx img"
| "run_operation fctx (Erase_Sector_Mask sector_mask) = erase_sector_mask fctx sector_mask"
| "run_operation fctx (Program_Image img) = program_flash_image fctx img"
| "run_operation fctx (Verify_Image img) = verify_flash_image fctx img"
| "run_operation fctx (Append_Image_Valid img) = op_append_image_valid fctx img"
| "run_operation fctx Append_Boot_Attempt = op_append_boot_attempt fctx"
| "run_operation fctx Append_App_Confirmed = op_append_app_confirmed fctx"
| "run_operation fctx (Load_Ram_Image img) = load_ram_image (op_cx fctx) img"
| "run_operation fctx (Check_Ram_Crc img) = op_check_ram_crc (op_cx fctx) img"
| "run_operation fctx (Read_Memory req) = memory_read (op_cx fctx) req"
| "run_operation fctx Attach_Service = attach_flash_service fctx"
| "run_operation fctx Read_Service_Status = op_get_service_status (op_cx fctx)"
| "run_operation fctx Read_Device_Info = op_get_device_info (op_cx fctx)"
| "run_operation fctx Read_Protocol_Info = op_get_protocol_info (op_cx fctx)"
| "run_operation fctx Read_Last_Error = op_get_last_error (op_cx fctx)"
| "run_operation fctx Read_Metadata_Summary = op_get_metadata_summary (op_cx fctx)"
| "run_operation fctx Ping = op_ping (op_cx fctx)"
| "run_operation fctx (Run_Flash_App entry_point observed) = op_run_flash_app (op_cx fctx) entry_point observed"
| "run_operation fctx (Run_Ram_Image entry_point observed) = op_run_ram_image (op_cx fctx) entry_point observed"
| "run_operation fctx Reset_Target = op_reset_target (op_cx fctx)"
| "run_operation fctx Boot_Cpu2_Run = op_boot_cpu2_run_cpu1 (op_cx fctx)"
| "run_operation fctx Boot_Cpu2_Reset = op_boot_cpu2_reset_cpu1 (op_cx fctx)"

section \<open>Consistent results\<close>

definition consistent :: "operation_result \<Rightarrow> bool" where
  "consistent r \<longleftrightarrow> (case or_completion r of None \<Rightarrow> False | Some c \<Rightarrow> completion_valid r c)"

lemma OperationResult_consistent: "OperationResult r = Inr r' \<Longrightarrow> consistent r'"
  by (auto simp: OperationResult_def Let_def consistent_def completion_valid_def
      split: if_splits option.splits completion.splits)

lemma result_consistent:
  "ok_result ctx operation stage summary details service = Inr r \<Longrightarrow> consistent r"
  "cancelled_result ctx operation stage info service = Inr r \<Longrightarrow> consistent r"
  "completed_after_cancel_result ctx operation stage summary info details service = Inr r \<Longrightarrow> consistent r"
  "cancellation_cleanup_failure_result ctx operation stage info e service = Inr r \<Longrightarrow> consistent r"
  "failure_result ctx operation stage e = Inr r \<Longrightarrow> consistent r"
  by (auto simp: ok_result_def cancelled_result_def completed_after_cancel_result_def
      cancellation_cleanup_failure_result_def failure_result_def bindE_Inr_iff
      dest: OperationResult_consistent split: option.splits)

lemma composite_consistent:
  "cancelled_at ctx operation stage attached action service = Inr r \<Longrightarrow> consistent r"
  "service_cancellation_result ctx operation item restart = Inr r \<Longrightarrow> consistent r"
  "transfer_result ctx operation stage outcome service = Inr r \<Longrightarrow> consistent r"
  "device_info_failure ctx operation e = Inr r \<Longrightarrow> consistent r"
  "memory_done ctx req frames words = Inr r \<Longrightarrow> consistent r"
  "memory_stopped ctx req frames words = Inr r \<Longrightarrow> consistent r"
  by (auto simp: cancelled_at_def service_cancellation_result_def transfer_result_def device_info_failure_def
      memory_done_def memory_stopped_def Let_def bindE_Inr_iff
      dest: result_consistent OperationResult_consistent split: option.splits if_splits)

section \<open>Escaping exceptions\<close>

lemma failure_result_raises:
  assumes "failure_result ctx operation stage e = Inl e'"
  shows "classify_exception_domain e' = None"
proof (cases "classify_exception_domain e")
  case None
  then show ?thesis
    using assms by (simp add: failure_result_def)
next
  case (Some area)
  then have "\<exists>error. error_of stage area e = Inr error"
    by (cases e) (auto simp: error_of_def Let_def)
  then show ?thesis
    using assms Some
    by (auto simp: failure_result_def OperationResult_def completion_valid_def basic_result_def Let_def)
qed

lemma keeps_guarded:
  assumes "keeps I m consistent (\<lambda>_. True)"
  shows "keeps I (guarded ctx operation stage m) consistent (\<lambda>e. classify_exception_domain e = None)"
  unfolding guarded_def
proof (rule keeps_catch [OF assms], rule keeps_if)
  fix e
  show "keeps I (liftM (failure_result ctx operation stage e)) consistent (\<lambda>e. classify_exception_domain e = None)"
    by (rule keeps_lift) (auto dest: result_consistent failure_result_raises)
  show "keeps I (raiseM e) consistent (\<lambda>e. classify_exception_domain e = None)" if "\<not> is_exception e"
    by (rule keeps_raise) (use that in \<open>simp add: is_exception_def\<close>)
qed

lemma device_info_failure_raises:
  "device_info_failure ctx operation e = Inl e' \<Longrightarrow> classify_exception_domain e' = None"
  by (auto simp: device_info_failure_def bindE_def OperationResult_def completion_valid_def Let_def
      dest: failure_result_raises result_consistent
      split: sum.splits option.splits if_splits)

section \<open>Exchanges\<close>

text \<open>
  Every operation keeps whatever the permitted exchanges keep.  The requests that need a permission of their own
  are those of the acting commands; the mask of an erase request has moreover passed the check against the
  target's Flash layout.
\<close>

definition erase_checked :: "'t op_context \<Rightarrow> int list \<Rightarrow> bool" where
  "erase_checked ctx payload \<longleftrightarrow>
     (\<exists>flash sector_mask. op_flash_layout ctx = Inr flash \<and> check_sector_mask flash sector_mask = Inr () \<and>
        bindE (halves sector_mask) (\<lambda>m. Inr (m @ [0])) = Inr payload)"

abbreviation wire_world :: "('t \<Rightarrow> bool) \<Rightarrow> 't world \<Rightarrow> bool" where
  "wire_world P \<equiv> \<lambda>w. wire P (wd_client w)"

lemma check_sector_mask_ok:
  "check_sector_mask flash k = Inr () \<longleftrightarrow> k \<noteq> 0 \<and> k AND fl_forbidden_erase_mask flash = 0 \<and>
     k AND NOT (fl_allowed_erase_mask flash) = 0"
  by (simp add: check_sector_mask_def)

lemma and_and_eq_0: "(a :: int) AND b = 0 \<Longrightarrow> (a AND c) AND b = 0"
  by (metis and.assoc and.commute and_zero_eq)

text \<open>The metadata sectors and the rest of a permitted mask are permitted as well.\<close>

lemma check_submasks:
  assumes "check_sector_mask flash (m OR n) = Inr ()"
  shows "n \<noteq> 0 \<Longrightarrow> check_sector_mask flash n = Inr ()"
    and "(m OR n) AND NOT n \<noteq> 0 \<Longrightarrow> check_sector_mask flash ((m OR n) AND NOT n) = Inr ()"
proof -
  have n: "n = (m OR n) AND n"
    by (rule bit_eqI) (auto simp: bit_simps)
  have m: "(m OR n) AND a = 0 \<Longrightarrow> n AND a = 0" for a
    by (subst n) (rule and_and_eq_0)
  show "n \<noteq> 0 \<Longrightarrow> check_sector_mask flash n = Inr ()"
    using assms m unfolding check_sector_mask_ok by blast
  show "(m OR n) AND NOT n \<noteq> 0 \<Longrightarrow> check_sector_mask flash ((m OR n) AND NOT n) = Inr ()"
    using assms and_and_eq_0 unfolding check_sector_mask_ok by blast
qed

text \<open>
  The commands that change the target's Flash, start a program or reset a CPU; all others load RAM, verify
  and read.
\<close>

definition acting_fields :: "command_field set" where
  "acting_fields = {F_erase, F_program_begin, F_program_data, F_program_end, F_metadata_append_record, F_run,
     F_run_ram, F_reset, F_boot_cpu2_run_cpu1, F_boot_cpu2_reset_cpu1}"

text \<open>\<open>acts may op\<close>: the operation's exchanges of an acting command are allowed, observed or not.\<close>

fun acts :: "(command_field \<Rightarrow> bool \<Rightarrow> bool) \<Rightarrow> operation \<Rightarrow> bool" where
  "acts may (Erase_Image_Area img) = may F_erase False"
| "acts may (Erase_Sector_Mask k) = may F_erase False"
| "acts may (Program_Image img) =
     (may F_program_begin False \<and> may F_program_data False \<and> may F_program_end False)"
| "acts may (Append_Image_Valid img) = may F_metadata_append_record False"
| "acts may Append_Boot_Attempt = may F_metadata_append_record False"
| "acts may Append_App_Confirmed = may F_metadata_append_record False"
| "acts may (Run_Flash_App entry_point observed) = may F_run observed"
| "acts may (Run_Ram_Image entry_point observed) = may F_run_ram observed"
| "acts may Reset_Target = may F_reset False"
| "acts may Boot_Cpu2_Run = may F_boot_cpu2_run_cpu1 False"
| "acts may Boot_Cpu2_Reset = may F_boot_cpu2_reset_cpu1 False"
| "acts may _ = True"

lemma acts_all [simp]: "acts (\<lambda>_ _. True) op"
  by (cases op) simp_all

text \<open>
  An invariant of the client that every permitted exchange keeps is kept by every operation that needs no
  other exchange.
\<close>

locale op_client =
  fixes fctx :: "'t flash_context" and may :: "command_field \<Rightarrow> bool \<Rightarrow> bool" and K :: "'t boot_client \<Rightarrow> bool"
  assumes exchange: "tp_command_set (cx_target fctx) field = Some cmd \<Longrightarrow>
      (field \<in> acting_fields \<Longrightarrow> may field observed) \<Longrightarrow>
      (field = F_erase \<Longrightarrow> erase_checked (op_cx fctx) payload) \<Longrightarrow>
      keeps_state K (bc_transact (cx_transport fctx) cmd payload ms observed)"
begin

abbreviation I :: "'t world \<Rightarrow> bool" where "I \<equiv> \<lambda>w. K (wd_client w)"

lemma cx_op_cx [simp]: "cx_transport (op_cx fctx) = cx_transport fctx" "cx_target (op_cx fctx) = cx_target fctx"
  by (simp_all add: op_cx_def)

lemma keeps_client: "keeps_state K m \<Longrightarrow> keeps_state I (on_boot_client m)"
  by (auto simp: keeps_def on_boot_client_def split: prod.split sum.split)

lemma keeps_events: "keeps_state I (emit_progress ctx event)"
  by (simp add: keeps_def emit_progress_def modM_def returnM_def)

lemma keeps_asked: "keeps_state I (operation_cancellation_requested ctx)"
  by (auto simp: keeps_def operation_cancellation_requested_def split: prod.split)

lemma keeps_transact:
  assumes "field \<in> acting_fields \<Longrightarrow> may field observed"
    and "field = F_erase \<Longrightarrow> erase_checked (op_cx fctx) payload"
  shows "keeps_state I (op_transact (op_cx fctx) field payload observed)"
  unfolding op_transact_def
proof (rule keeps_bind)
  show "keeps I (liftM (require_command (tp_command_set (cx_target (op_cx fctx))) field))
      (\<lambda>cmd. tp_command_set (cx_target fctx) field = Some cmd) (\<lambda>_. True)"
    by (rule keeps_lift) (auto simp: require_command_def split: option.splits)
  show "keeps_state I (on_boot_client (bc_transact (cx_transport (op_cx fctx)) cmd payload ms observed))"
    if "tp_command_set (cx_target fctx) field = Some cmd" for cmd ms
    using exchange [OF that] assms by (auto intro!: keeps_client)
qed

lemma keeps_send:
  assumes "field \<in> acting_fields \<Longrightarrow> may field False" "field \<noteq> F_erase"
  shows "keeps_state I (op_send (op_cx fctx) field payload)"
  unfolding op_send_def
  by (rule keeps_state_bind, rule keeps_state_simps, rule keeps_transact) (use assms in auto)

text \<open>Loading RAM, verifying and reading needs no permission.\<close>

text \<open>The reads of the operation layer.\<close>

lemma keeps_reading:
  "keeps_state I (op_transact (op_cx fctx) F_get_service_status payload observed)"
  "keeps_state I (op_transact (op_cx fctx) F_get_metadata_summary payload observed)"
  "keeps_state I (op_transact (op_cx fctx) F_get_last_error payload observed)"
  "keeps_state I (op_transact (op_cx fctx) F_ping payload observed)"
  by (rule keeps_transact; simp add: acting_fields_def)+

lemma keeps_harmless:
  "keeps_state I (op_send (op_cx fctx) F_service_attach payload)"
  "keeps_state I (op_send (op_cx fctx) F_ram_load_begin payload)"
  "keeps_state I (op_send (op_cx fctx) F_ram_load_data payload)"
  "keeps_state I (op_send (op_cx fctx) F_ram_load_end payload)"
  "keeps_state I (op_send (op_cx fctx) F_ram_check_crc payload)"
  "keeps_state I (op_send (op_cx fctx) F_verify_begin payload)"
  "keeps_state I (op_send (op_cx fctx) F_verify_data payload)"
  "keeps_state I (op_send (op_cx fctx) F_verify_end payload)"
  "keeps_state I (op_send (op_cx fctx) F_memory_read payload)"
  by (rule keeps_send; simp add: acting_fields_def)+

lemma keeps_unless:
  assumes "\<And>r. cancelled = Inr r \<Longrightarrow> Q r" and "keeps I rest Q (\<lambda>_. True)"
  shows "keeps I (unless_cancelled ctx cancelled rest) Q (\<lambda>_. True)"
  unfolding unless_cancelled_def
  by (rule keeps_bind [OF keeps_asked]) (auto intro: keeps_lift assms)

lemma keeps_ignore: "keeps_state I m \<Longrightarrow> keeps_state I (ignoreM m)"
  unfolding ignoreM_def by (rule keeps_state_then) (simp_all add: keeps_state_simps)

lemma keeps_erase:
  assumes "may F_erase False"
    and "op_flash_layout (op_cx fctx) = Inr flash" "check_sector_mask flash sector_mask = Inr ()"
  shows "keeps_state I (erase_protocol (op_cx fctx) sector_mask)"
  unfolding erase_protocol_def op_send_def
proof (rule keeps_bind)
  show "keeps I (liftM (bindE (halves sector_mask) (\<lambda>m. Inr (m @ [0])))) (erase_checked (op_cx fctx)) (\<lambda>_. True)"
    using assms(2,3) by (intro keeps_lift) (auto simp: erase_checked_def)
qed (simp add: keeps_transact assms(1))

lemma keeps_packet_loop:
  assumes "\<And>p. keeps_state I (send_data p)"
  shows "keeps_state I (packet_loop_cancellable ctx tf send_data ps words sent cancelled)"
proof (induction ps arbitrary: words sent cancelled)
  case (Cons p ps)
  show ?case
    unfolding packet_loop_cancellable.simps Let_def
    by (intro keeps_if keeps_state_then assms keeps_events keeps_state_bind keeps_asked Cons.IH)
      (simp add: keeps_state_simps)
qed (simp add: keeps_state_simps)

lemma keeps_transfer:
  assumes "keeps_state I send_begin" "\<And>p. keeps_state I (send_data p)" "keeps_state I send_end"
  shows "keeps_state I (run_cancellable_transfer ctx tf packets send_begin send_data send_end)"
proof -
  have stop: "keeps_state I (stop_transfer tf send_end words)" for words
    unfolding stop_transfer_def
    apply (rule keeps_state_bind)
     apply (rule keeps_catch)
      apply (rule keeps_state_then [OF assms(3)], simp add: keeps_state_simps)
     apply (simp add: keeps_state_simps)
    apply (simp add: keeps_state_simps keeps_state_bind split: option.split)
    done
  have rest: "keeps_state I (if b then stop_transfer tf send_end words else thenM send_end
      (bindM (if c then returnM True else operation_cancellation_requested ctx) (\<lambda>late. f late)))"
    if "\<And>late. keeps_state I (f late)" for b c words and f :: "bool \<Rightarrow> ('t world, transfer_outcome) sm"
    by (intro keeps_if stop keeps_state_then [OF assms(3)] keeps_state_bind that keeps_asked)
      (simp add: keeps_state_simps)
  show ?thesis
    unfolding run_cancellable_transfer_def Let_def
    apply (rule keeps_state_bind [OF keeps_asked], rule keeps_if)
     apply (simp add: keeps_state_simps keeps_state_bind)
    apply (rule keeps_state_then [OF assms(1)], rule keeps_state_bind [OF keeps_asked])
    apply (rule keeps_state_bind [OF keeps_packet_loop [OF assms(2)]], clarify)
    apply (rule rest, rule keeps_if)
     apply (simp_all add: keeps_state_simps keeps_state_bind)
    done
qed

end

section \<open>The service\<close>

context op_client
begin

lemma keeps_limit: "keeps_state I (bindM (getM g) (\<lambda>limit. bindM (liftM limit) f))"
  if "\<And>x. keeps_state I (f x)"
  by (intro keeps_state_bind keeps_state_simps that)

lemma keeps_read_status: "keeps_state I (read_status (op_cx fctx))"
  unfolding read_status_def
  by (rule keeps_state_bind) (simp_all add: keeps_reading keeps_state_simps)

lemma keeps_attach: "keeps_state I (attach_service (op_cx fctx) service total_words)"
  unfolding attach_service_def ram_check_crc_protocol_def
  by (intro keeps_unless keeps_state_then keeps_harmless keeps_state_bind keeps_read_status keeps_if)
    (simp_all add: keeps_state_simps)

lemma keeps_load_service: "keeps_state I (load_service (op_cx fctx) service packets total_words)"
  unfolding load_service_def ram_load_begin_protocol_def ram_load_data_protocol_def ram_load_end_protocol_def
  by (intro keeps_transfer keeps_ignore keeps_harmless)

lemma keeps_ensure: "keeps_state I (ensure_service_attached fctx)"
proof -
  have load: "keeps_state I
      (bindM (load_service (op_cx fctx) service packets total_words) (\<lambda>outcome.
        case to_cancellation outcome of
          Some info \<Rightarrow> bindM (liftM (c outcome info)) (\<lambda>cancellation. returnM (f outcome cancellation))
        | None \<Rightarrow> attach_service (op_cx fctx) service total_words))"
    for service packets total_words and c :: "transfer_outcome \<Rightarrow> cancellation_info \<Rightarrow> cancellation_info res" and f
    by (rule keeps_state_bind [OF keeps_load_service])
      (simp add: keeps_attach keeps_state_simps keeps_state_bind split: option.split)
  show ?thesis
    unfolding ensure_service_attached_def Let_def
    apply (rule keeps_unless, simp)
    apply (rule keeps_state_bind [OF keeps_read_status])
    apply (rule keeps_unless, simp)
    apply (simp add: keeps_state_simps keeps_limit keeps_state_bind load split: option.split)
    done
qed

lemma keeps_with_service:
  assumes "\<And>service. keeps I (rest service) consistent (\<lambda>_. True)"
  shows "keeps I (with_service fctx operation restart rest) consistent (\<lambda>_. True)"
  unfolding with_service_def
  by (rule keeps_bind [OF keeps_ensure])
    (auto intro!: keeps_lift assms dest: composite_consistent split: service_runtime.split)

lemma keeps_finished: "keeps I (finished_result ctx operation stage summary details service) consistent (\<lambda>_. True)"
  unfolding finished_result_def
  by (rule keeps_bind [OF keeps_asked])
    (auto intro!: keeps_lift simp: bindE_Inr_iff dest: result_consistent split: if_splits)

lemma keeps_erase_progress: "keeps_state I (erase_progress ctx operation m c n k)"
  unfolding erase_progress_def
  by (rule keeps_state_bind, rule keeps_state_simps) (auto intro: keeps_events)

section \<open>The Flash operations\<close>

lemma keeps_erase_step:
  assumes "may F_erase False" "op_flash_layout (op_cx fctx) = Inr flash" "check_sector_mask flash chunk = Inr ()"
  shows "keeps_state I (erase_step (op_cx fctx) operation m n c chunk)"
  unfolding erase_step_def
  by (intro keeps_state_then keeps_erase [OF assms] keeps_erase_progress)

lemma keeps_checked_mask:
  assumes "\<And>flash. op_flash_layout (op_cx fctx) = Inr flash \<Longrightarrow> check_sector_mask flash (f flash) = Inr () \<Longrightarrow>
    keeps I (rest flash) Q (\<lambda>_. True)"
  shows "keeps I (bindM (liftM (op_flash_layout (op_cx fctx))) (\<lambda>flash.
    thenM (liftM (check_sector_mask flash (f flash))) (rest flash))) Q (\<lambda>_. True)"
proof (rule keeps_bind)
  show "keeps I (liftM (op_flash_layout (op_cx fctx))) (\<lambda>flash. op_flash_layout (op_cx fctx) = Inr flash) (\<lambda>_. True)"
    by (rule keeps_lift) simp_all
  show "keeps I (thenM (liftM (check_sector_mask flash (f flash))) (rest flash)) Q (\<lambda>_. True)"
    if "op_flash_layout (op_cx fctx) = Inr flash" for flash
    unfolding thenM_def
    by (rule keeps_bind [where Q = "\<lambda>_. check_sector_mask flash (f flash) = Inr ()"], rule keeps_lift)
      (use assms [OF that] in auto)
qed

abbreviation sound :: "('t world, operation_result) sm \<Rightarrow> bool" where
  "sound m \<equiv> keeps I m consistent (\<lambda>e. classify_exception_domain e = None)"

lemma sound_guarded: "keeps I m consistent (\<lambda>_. True) \<Longrightarrow> sound (guarded ctx operation stage m)"
  by (rule keeps_guarded)

lemma cancelled_at_ok: "cancelled_at ctx operation stage a b c = Inr r \<Longrightarrow> consistent r"
  by (rule composite_consistent)

lemma sound_erase_area: "may F_erase False \<Longrightarrow> sound (erase_flash_image_area fctx img)"
  unfolding erase_flash_image_area_def Let_def
  apply (rule sound_guarded, rule keeps_unless, erule cancelled_at_ok)
  apply (rule keeps_checked_mask, rule keeps_with_service, rule keeps_unless, erule cancelled_at_ok)
  apply (intro keeps_then keeps_erase_progress keeps_if keeps_finished keeps_erase_step)
     apply (auto simp: keeps_state_simps dest: check_submasks)
  done

lemma sound_erase_mask: "may F_erase False \<Longrightarrow> sound (erase_sector_mask fctx k)"
  unfolding erase_sector_mask_def Let_def
  apply (rule sound_guarded, rule keeps_unless, erule cancelled_at_ok)
  apply (rule keeps_checked_mask, rule keeps_with_service, rule keeps_unless, erule cancelled_at_ok)
  apply (intro keeps_then keeps_erase_progress keeps_finished)
  apply (rule keeps_erase)
   apply assumption+
  done

abbreviation may_program :: bool where
  "may_program \<equiv> may F_program_begin False \<and> may F_program_data False \<and> may F_program_end False"

lemma keeps_flash_transfer:
  assumes "verify \<or> may_program"
  shows "keeps_state I (flash_transfer (op_cx fctx) img operation verify n)"
  unfolding flash_transfer_def Let_def program_begin_protocol_def program_data_protocol_def
    program_end_protocol_def verify_begin_protocol_def verify_data_protocol_def verify_end_protocol_def
  by (intro keeps_state_bind keeps_state_simps keeps_if keeps_transfer keeps_ignore keeps_send)
    (use assms in \<open>auto simp: acting_fields_def\<close>)

lemma keeps_transfer_result:
  "keeps I (liftM (transfer_result ctx operation stage outcome service)) consistent (\<lambda>_. True)"
  by (rule keeps_lift) (auto dest: composite_consistent)

lemma keeps_with_limit:
  assumes "\<And>n. keeps I (f n) Q (\<lambda>_. True)"
  shows "keeps I (bindM (getM g) (\<lambda>limit. bindM (liftM limit) f)) Q (\<lambda>_. True)"
  by (rule keeps_bind [OF keeps_state_simps(4)], rule keeps_bind [OF keeps_state_simps(3)]) (rule assms)

lemma sound_flash_image:
  "verify \<or> may_program \<Longrightarrow> sound (flash_image_operation fctx img operation verify stage restart stage')"
  unfolding flash_image_operation_def Let_def
  apply (rule sound_guarded, rule keeps_unless, erule cancelled_at_ok)
  apply (rule keeps_with_limit, rule keeps_with_service)
  apply (rule keeps_bind [OF keeps_flash_transfer], simp, rule keeps_transfer_result)
  done

lemma sound_append: "may F_metadata_append_record False \<Longrightarrow> sound (append_record fctx operation kind refusal payload)"
  unfolding append_record_def Let_def read_metadata_summary_def
  apply (rule sound_guarded, rule keeps_unless, erule cancelled_at_ok)
  apply (rule keeps_with_service, rule keeps_unless, erule cancelled_at_ok)
  apply (rule keeps_bind [OF keeps_state_bind])
    apply (simp_all add: keeps_reading keeps_state_simps)
  apply (auto simp: keeps_finished emit_append_progress_def split: option.split intro!: keeps_unless keeps_then
      keeps_events keeps_send keeps_finished simp: acting_fields_def dest: cancelled_at_ok)
  done

end

end
