(* ===== verification/Op_Discipline.thy ===== *)
theory Op_Discipline
  imports Op_Wire
begin

text \<open>
  The guarantees of the whole operation layer, for any sequence of operations on any transport.
\<close>

context op_client
begin

lemma sound_load_ram: "sound (load_ram_image (op_cx fctx) img)"
  unfolding load_ram_image_def Let_def ram_load_begin_protocol_def ram_load_data_protocol_def
    ram_load_end_protocol_def
  apply (rule sound_guarded, rule keeps_then, rule keeps_state_simps)
  apply (rule keeps_with_limit, rule keeps_bind [OF keeps_state_simps(3)])
  apply (rule keeps_bind [OF keeps_transfer])
     apply (simp_all add: keeps_ignore keeps_harmless keeps_transfer_result)
  done

lemma sound_check_ram: "sound (op_check_ram_crc (op_cx fctx) img)"
  unfolding op_check_ram_crc_def Let_def ram_check_crc_protocol_def
  apply (rule sound_guarded, rule keeps_then, rule keeps_state_simps)
  apply (rule keeps_then, rule keeps_harmless)
  apply (rule keeps_lift, auto dest: result_consistent)
  done

lemma keeps_memory_frames:
  "keeps I (memory_frames (op_cx fctx) req capacity n frames address words) consistent (\<lambda>_. True)"
proof (induction frames arbitrary: address words)
  case Nil
  show ?case
    unfolding memory_frames.simps
    by (rule keeps_lift) (auto dest: composite_consistent split: if_splits)
next
  case (Cons f frames)
  show ?case
    unfolding memory_frames.simps Let_def
    apply (rule keeps_bind [OF keeps_harmless(9)])
    apply (rule keeps_bind [OF keeps_state_simps(3)])
    apply (rule keeps_then [OF keeps_events])
    apply (rule keeps_unless, erule composite_consistent)
    apply (rule Cons.IH)
    done
qed

lemma sound_memory_read: "sound (memory_read (op_cx fctx) req)"
  unfolding memory_read_def Let_def
  apply (rule sound_guarded, rule keeps_with_limit)
  apply (rule keeps_unless)
   apply (auto simp: bindE_Inr_iff dest: result_consistent)[1]
  apply (rule keeps_memory_frames)
  done

text \<open>The operations that are one exchange.\<close>

lemma sound_exchange:
  assumes "field \<noteq> F_erase" "field \<in> acting_fields \<Longrightarrow> may field observed" "\<And>p r. g p = Inr r \<Longrightarrow> consistent r"
  shows "sound (guarded (op_cx fctx) operation stage
    (bindM (op_transact (op_cx fctx) field payload observed) (\<lambda>p. liftM (g p))))"
  by (rule sound_guarded, rule keeps_bind [OF keeps_transact])
    (auto intro!: keeps_lift simp: assms)

lemma bind_lift_lift: "bindM (liftM r) (\<lambda>x. liftM (g x)) = liftM (bindE r g)"
  by (rule ext) (simp add: bindM_def liftM_def bindE_def split: sum.split)

lemma sound_simple:
  assumes "field \<noteq> F_erase" "field \<in> acting_fields \<Longrightarrow> may field observed"
  shows "sound (simple_operation (op_cx fctx) operation stage field payload observed summary)"
  unfolding simple_operation_def
  apply (rule sound_guarded, rule keeps_bind [OF keeps_state_simps(3)], rule keeps_then [OF keeps_transact])
   apply (use assms in \<open>auto intro!: keeps_lift dest: result_consistent\<close>)
  done

lemma sound_status_reads:
  "sound (op_get_service_status (op_cx fctx))" "sound (op_get_last_error (op_cx fctx))"
  "sound (op_get_metadata_summary (op_cx fctx))"
  unfolding op_get_service_status_def op_get_last_error_def op_get_metadata_summary_def
    read_metadata_summary_def bind_lift_lift
    apply (rule sound_exchange, simp, simp add: acting_fields_def, auto simp: bindE_Inr_iff dest: result_consistent)[1]
   apply (rule sound_exchange, simp, simp add: acting_fields_def, auto simp: bindE_Inr_iff dest: result_consistent)[1]
  apply (rule sound_guarded, rule keeps_bind, rule keeps_bind [OF keeps_reading(2)])
     apply (auto intro!: keeps_lift simp: keeps_reading dest: result_consistent)
  done

lemma keeps_cached_info:
  assumes "field \<notin> acting_fields" "\<And>info r. g info = Inr r \<Longrightarrow> consistent r"
  shows "keeps I (thenM (op_transact (op_cx fctx) field payload observed)
    (bindM (getM h) (\<lambda>info. liftM (g info)))) consistent (\<lambda>_. True)"
  by (rule keeps_then [OF keeps_transact])
    (use assms(1) in \<open>auto simp: acting_fields_def\<close>,
     auto intro!: keeps_bind [OF keeps_state_simps(4)] keeps_lift simp: assms)

lemma sound_protocol_info: "sound (op_get_protocol_info (op_cx fctx))"
  unfolding op_get_protocol_info_def
  by (rule sound_guarded, rule keeps_cached_info) (auto simp: acting_fields_def dest: result_consistent split: option.splits)

lemma sound_device_info: "sound (op_get_device_info (op_cx fctx))"
  unfolding op_get_device_info_def
proof (rule keeps_catch [where E' = "\<lambda>_. True"])
  show "keeps I (thenM (op_transact (op_cx fctx) F_get_device_info [] False)
     (bindM (getM (\<lambda>w. bc_device_info (wd_client w))) (\<lambda>info. liftM (case info of
        None \<Rightarrow> Inl (ProtocolDecodeError ''GET_DEVICE_INFO succeeded without cached DeviceInfo'')
      | Some d \<Rightarrow> ok_result (op_cx fctx) ''get_device_info'' ''GET_DEVICE_INFO'' (device_info_dict d) [] None))))
     consistent (\<lambda>_. True)"
    by (rule keeps_cached_info) (auto simp: acting_fields_def dest: result_consistent split: option.splits)
  fix e
  show "sound (if is_exception e then liftM (device_info_failure (op_cx fctx) ''get_device_info'' e) else raiseM e)"
    by (auto intro!: keeps_lift keeps_raise simp: is_exception_def
        dest: composite_consistent device_info_failure_raises)
qed

lemma sound_attach: "sound (attach_flash_service fctx)"
  unfolding attach_flash_service_def Let_def
  apply (rule sound_guarded, rule keeps_bind [OF keeps_ensure])
  apply (auto intro!: keeps_lift simp: bindE_Inr_iff dest: result_consistent composite_consistent
      split: service_runtime.splits)
  done

lemma sound_ping: "sound (op_ping (op_cx fctx))"
  unfolding op_ping_def by (rule sound_simple) (simp_all add: acting_fields_def)

lemmas sound_simple_operations = sound_ping sound_simple [of F_run] sound_simple [of F_run_ram]
  sound_simple [of F_reset] sound_simple [of F_boot_cpu2_run_cpu1] sound_simple [of F_boot_cpu2_reset_cpu1]

lemma sound_run_operation: "acts may op \<Longrightarrow> sound (run_operation fctx op)"
  by (cases op)
    (simp_all add: sound_erase_area sound_erase_mask sound_flash_image sound_append sound_load_ram
      sound_check_ram sound_memory_read sound_status_reads sound_protocol_info sound_device_info
      sound_attach sound_simple_operations
      program_flash_image_def verify_flash_image_def op_append_image_valid_def op_append_boot_attempt_def
      op_append_app_confirmed_def op_run_flash_app_def op_run_ram_image_def op_reset_target_def
      op_boot_cpu2_run_cpu1_def op_boot_cpu2_reset_cpu1_def)

end

section \<open>The wire\<close>

text \<open>
  A property of the transport that reading and writing a permitted request keep, with every command permitted
  but the erase commands whose mask was not checked.
\<close>

locale op_wire =
  fixes fctx :: "'t flash_context" and allowed :: "int \<Rightarrow> int list \<Rightarrow> bool" and P :: "'t \<Rightarrow> bool"
  assumes wire: "wire_keeps (cx_transport fctx) allowed P"
    and permitted: "tp_command_set (cx_target fctx) field = Some cmd \<Longrightarrow>
      field = F_erase \<Longrightarrow> erase_checked (op_cx fctx) payload \<Longrightarrow> allowed cmd payload"
    and permitted_other: "tp_command_set (cx_target fctx) field = Some cmd \<Longrightarrow>
      field \<noteq> F_erase \<Longrightarrow> allowed cmd payload"

sublocale op_wire \<subseteq> op_client fctx "\<lambda>_ _. True" "wire P"
proof
  show "keeps_state (wire P) (bc_transact (cx_transport fctx) cmd payload ms observed)"
    if "tp_command_set (cx_target fctx) field = Some cmd" "field = F_erase \<Longrightarrow> erase_checked (op_cx fctx) payload"
    for field cmd payload ms observed
    using permitted [OF that(1)] permitted_other [OF that(1)] that(2) by (auto intro: bc_transact_wire [OF wire])
qed

context op_wire
begin

lemma wire_run: "sound (run_operation fctx op)"
  by (rule sound_run_operation) simp

lemmas wire_infos = sound_device_info sound_protocol_info
lemmas wire_summary = sound_status_reads(3)

end

section \<open>Results and exceptions\<close>

text \<open>The trivial property of the transport gives what holds for every transport and target.\<close>

interpretation any_wire: op_wire fctx "\<lambda>_ _. True" "\<lambda>_. True" for fctx :: "'t flash_context"
  by unfold_locales (simp_all add: wire_keeps_def)

text \<open>
  C5.  What every operation returns.  On any transport, target and schedule of cancellation requests an
  operation either returns a result whose completion agrees with its error and its cancellation -
  a success has no error, a failure has one, a cancellation is described - or lets an exception through
  that is neither an operation failure nor a communication failure (a programming error).
\<close>

theorem operation_returns_consistent_result:
  "case fst (run_operation fctx op w) of
     Inr r \<Rightarrow> (\<exists>c. or_completion r = Some c \<and> completion_valid r c)
   | Inl e \<Rightarrow> classify_exception_domain e = None"
proof -
  have "case fst (run_operation fctx op w) of
      Inr r \<Rightarrow> consistent r | Inl e \<Rightarrow> classify_exception_domain e = None"
    using any_wire.wire_run [of fctx op]
    by (auto simp: keeps_def wire_def split: sum.splits)
  then show ?thesis
    by (auto simp: consistent_def split: sum.splits option.splits)
qed

section \<open>The boot loader's sector\<close>

definition run_operations :: "'t flash_context \<Rightarrow> operation list \<Rightarrow> 't world \<Rightarrow> 't world" where
  "run_operations fctx ops w = fold (\<lambda>op w. snd (run_operation fctx op w)) ops w"

text \<open>A request that erases nothing outside the sectors an application may use.\<close>

definition spares_boot_sector :: "int \<Rightarrow> int list \<Rightarrow> bool" where
  "spares_boot_sector cmd payload \<longleftrightarrow>
     (cmd = command_code CMD_ERASE \<longrightarrow>
        (let sector_mask = join_u32 (payload ! 0) (payload ! 1) in
         sector_mask \<noteq> 0 \<and> sector_mask AND 1 = 0 \<and> sector_mask AND NOT ALLOWED_ERASE_MASK = 0))"

lemma cpu1_layout: "cx_target fctx = CPU1_PROFILE \<Longrightarrow> op_flash_layout (op_cx fctx) = Inr cpu1_flash"
  by (simp add: op_flash_layout_def op_cx_def CPU1_PROFILE_def)

lemma CPU1_erase: "CPU1_COMMAND_SET field = Some (command_code CMD_ERASE) \<Longrightarrow> field = F_erase"
  by (cases field) simp_all

lemma cpu1_op_wire:
  assumes "cx_target fctx = CPU1_PROFILE" "wire_keeps (cx_transport fctx) spares_boot_sector P"
  shows "op_wire fctx spares_boot_sector P"
proof
  have commands: "tp_command_set (cx_target fctx) = CPU1_COMMAND_SET"
    by (simp add: assms(1) CPU1_PROFILE_def)
  show "wire_keeps (cx_transport fctx) spares_boot_sector P"
    by (rule assms(2))
  show "spares_boot_sector cmd payload"
    if "tp_command_set (cx_target fctx) field = Some cmd" "field \<noteq> F_erase" for field cmd payload
    using that CPU1_erase by (auto simp: commands spares_boot_sector_def)
  show "spares_boot_sector cmd payload"
    if e: "tp_command_set (cx_target fctx) field = Some cmd" "field = F_erase"
      "erase_checked (op_cx fctx) payload" for field cmd payload
  proof -
    obtain k hs where k: "check_sector_mask cpu1_flash k = Inr ()" "halves k = Inr hs" "payload = hs @ [0]"
      using e(3) cpu1_layout [OF assms(1)] by (auto simp: erase_checked_def bindE_Inr_iff)
    then have "join_u32 (payload ! 0) (payload ! 1) = k"
      using halves_Inr [OF k(2)] by (simp add: nth_append)
    then show ?thesis
      using k(1) by (simp add: spares_boot_sector_def check_sector_mask_ok cpu1_flash_def Let_def)
  qed
qed

lemma run_operations_keep:
  assumes "op_wire fctx allowed P"
  shows "P (bc_transport (wd_client w)) \<Longrightarrow> P (bc_transport (wd_client (run_operations fctx ops w)))"
proof (induction ops arbitrary: w)
  case (Cons op ops)
  have "P (bc_transport (wd_client (snd (run_operation fctx op w))))"
    using op_wire.wire_run [OF assms, of op] Cons.prems
    by (simp add: keeps_def wire_def)
  then show ?case
    using Cons.IH by (simp add: run_operations_def)
qed (simp add: run_operations_def)

text \<open>
  A transport that logs the byte strings written to it; reading does not change the log.
\<close>

definition logs :: "'t byte_transport \<Rightarrow> ('t \<Rightarrow> int list list) \<Rightarrow> bool" where
  "logs tr sent \<longleftrightarrow>
     (\<forall>n t. sent (snd (bt_read_some tr n t)) = sent t) \<and>
     (\<forall>data t. sent (snd (bt_write_all tr data t)) \<in> {sent t, sent t @ [data]})"

definition request_frame :: "(int \<Rightarrow> int list \<Rightarrow> bool) \<Rightarrow> int list \<Rightarrow> bool" where
  "request_frame allowed data \<longleftrightarrow>
     (\<exists>request. encode_bytes request = Inr data \<and> allowed (fr_command request) (fr_payload request))"

lemma logs_request_frames:
  assumes "logs tr sent"
  shows "wire_keeps tr allowed (\<lambda>t. \<forall>data \<in> set (sent t). request_frame allowed data)"
proof -
  have "request_frame allowed data"
    if "allowed cmd payload" "request_of cmd payload q = Inr request" "encode_bytes request = Inr data"
    for cmd payload q request data
  proof -
    have "fr_command request = cmd" "fr_payload request = payload"
      using that(2) by (auto simp: request_of_def Frame_def bindE_Inr_iff split: if_splits)
    then show ?thesis
      using that(1,3) by (auto simp: request_frame_def)
  qed
  moreover have "sent (snd (bt_write_all tr data t)) = sent t \<or> sent (snd (bt_write_all tr data t)) = sent t @ [data]"
    "sent (snd (bt_read_some tr n t)) = sent t" for data t n
    using assms by (auto simp: logs_def)
  ultimately show ?thesis
    unfolding wire_keeps_def by (metis UnE empty_iff insert_iff list.set set_append)
qed

definition harmless_frame :: "int list \<Rightarrow> bool" where
  "harmless_frame data \<longleftrightarrow> (\<exists>request. encode_bytes request = Inr data \<and>
     spares_boot_sector (fr_command request) (fr_payload request))"

lemma harmless_request: "harmless_frame = request_frame spares_boot_sector"
  by (rule ext) (simp add: harmless_frame_def request_frame_def)

lemma logs_wire_keeps:
  "logs tr sent \<Longrightarrow> wire_keeps tr spares_boot_sector (\<lambda>t. \<forall>data \<in> set (sent t). harmless_frame data)"
  unfolding harmless_request by (rule logs_request_frames)

text \<open>
  C4.  The boot loader is never erased.  Whatever operations a front end runs on CPU1, in whatever order,
  with whatever arguments (an erase mask typed in by hand, an image outside the application's area) and
  whatever the target answers, every byte string written to the transport is a request frame, and an
  erase request among them names at least one sector, never the boot loader's, and only sectors of the
  allowed mask.
\<close>

theorem boot_sector_never_erased:
  assumes "cx_target fctx = CPU1_PROFILE" "logs (cx_transport fctx) sent" "sent (bc_transport (wd_client w)) = []"
  shows "\<forall>data \<in> set (sent (bc_transport (wd_client (run_operations fctx ops w)))). harmless_frame data"
proof -
  have "op_wire fctx spares_boot_sector (\<lambda>t. \<forall>data \<in> set (sent t). harmless_frame data)"
    using assms(1) logs_wire_keeps [OF assms(2)] by (rule cpu1_op_wire)
  then show ?thesis
    by (rule run_operations_keep) (simp add: assms(3))
qed

end
