(* ===== verification/Op_Transfer.thy ===== *)
theory Op_Transfer
  imports Op_Rules
begin

text \<open>
  The transfer engine: what it sends when a cancellation comes, and what it reports about a transfer
  that was stopped.
\<close>

section \<open>The packets that are sent\<close>

text \<open>Sending packets with their progress events, the question to the token after each.\<close>

fun send_packets ::
  "'t op_context \<Rightarrow> transfer_spec \<Rightarrow> (data_packet \<Rightarrow> ('t world, unit) sm) \<Rightarrow> data_packet list \<Rightarrow> int \<Rightarrow>
     ('t world, int) sm" where
  "send_packets ctx tf send_data [] words = returnM words"
| "send_packets ctx tf send_data (p # ps) words =
     (let n = int (length (dp_words p)) in
      thenM (send_data p) (thenM (emit_progress ctx
        \<lparr>pe_operation = tf_operation tf, pe_target = tp_name (cx_target ctx),
         pe_stage = tf_data_stage tf, pe_message = tf_progress_message tf,
         pe_current_words = Some (words + n), pe_total_words = Some (tf_total_words tf),
         pe_chunk_words = Some n, pe_details = [], pe_cancellation_supported = True\<rparr>)
      (thenM (operation_cancellation_requested ctx) (send_packets ctx tf send_data ps (words + n)))))"

text \<open>The number of packets before the first answer that asks for a cancellation.\<close>

fun packets_before :: "cancellation \<Rightarrow> nat \<Rightarrow> data_packet list \<Rightarrow> nat" where
  "packets_before answers n [] = 0"
| "packets_before answers n (p # ps) = (if answers n then 0 else Suc (packets_before answers (Suc n) ps))"

lemma packets_before_le: "packets_before answers n ps \<le> length ps"
  by (induction ps arbitrary: n) auto

lemma packets_before_spec:
  "(i < packets_before answers n ps \<longrightarrow> \<not> answers (n + i)) \<and>
   (packets_before answers n ps < length ps \<longrightarrow> answers (n + packets_before answers n ps))"
proof (induction ps arbitrary: n i)
  case (Cons p ps)
  show ?case
    using Cons.IH [where n = "Suc n" and i = "i - 1"] by (cases i) auto
qed simp

definition asks_nothing :: "('t world, 'a) sm \<Rightarrow> bool" where
  "asks_nothing m \<longleftrightarrow> (\<forall>w. wd_asked (snd (m w)) = wd_asked w)"

lemma asks_nothingD: "asks_nothing m \<Longrightarrow> m w = (r, w') \<Longrightarrow> wd_asked w' = wd_asked w"
  unfolding asks_nothing_def by (metis snd_conv)

lemma emit_asks_nothing: "emit_progress ctx event w = (Inr (), snd (emit_progress ctx event w))"
  "wd_asked (snd (emit_progress ctx event w)) = wd_asked w"
  by (simp_all add: emit_progress_def modM_def returnM_def)

lemma ask_token:
  "cx_cancellation ctx = Some answers \<Longrightarrow>
     operation_cancellation_requested ctx w = (Inr (answers (wd_asked w)), w\<lparr>wd_asked := Suc (wd_asked w)\<rparr>)"
  by (simp add: operation_cancellation_requested_def cancellation_requested_def)

lemma packet_loop_prefix:
  assumes "cx_cancellation ctx = Some answers" "\<And>p. asks_nothing (send_data p)"
  shows "wd_asked w = Suc n \<Longrightarrow>
    packet_loop_cancellable ctx tf send_data ps words sent (answers n) w =
      bindM (send_packets ctx tf send_data (take (packets_before answers n ps) ps) words)
        (\<lambda>ws. returnM (ws, sent + packets_before answers n ps, answers (n + packets_before answers n ps))) w"
proof (induction ps arbitrary: n w words sent)
  case (Cons p ps)
  show ?case
  proof (cases "answers n")
    case False
    obtain r w1 where d: "send_data p w = (r, w1)"
      by (cases "send_data p w")
    then have asked: "wd_asked w1 = Suc n"
      using asks_nothingD [OF assms(2) d] Cons.prems by simp
    show ?thesis
    proof (cases r)
      case (Inl e)
      then show ?thesis
        using d False by (simp add: Let_def thenM_def bindM_def)
    next
      case (Inr u)
      let ?n = "int (length (dp_words p))"
      let ?ev = "\<lparr>pe_operation = tf_operation tf, pe_target = tp_name (cx_target ctx),
         pe_stage = tf_data_stage tf, pe_message = tf_progress_message tf,
         pe_current_words = Some (words + ?n), pe_total_words = Some (tf_total_words tf),
         pe_chunk_words = Some ?n, pe_details = [], pe_cancellation_supported = True\<rparr>"
      define w2 where "w2 = snd (emit_progress ctx ?ev w1)"
      have e: "emit_progress ctx ?ev w1 = (Inr (), w2)" "wd_asked w2 = Suc n"
        using emit_asks_nothing [of ctx ?ev w1] asked by (simp_all add: w2_def)
      have q: "operation_cancellation_requested ctx w2 =
          (Inr (answers (Suc n)), w2\<lparr>wd_asked := Suc (Suc n)\<rparr>)"
        using ask_token [OF assms(1), of w2] e(2) by simp
      have IH: "packet_loop_cancellable ctx tf send_data ps (words + ?n) (Suc sent) (answers (Suc n))
            (w2\<lparr>wd_asked := Suc (Suc n)\<rparr>) =
          bindM (send_packets ctx tf send_data (take (packets_before answers (Suc n) ps) ps) (words + ?n))
            (\<lambda>ws. returnM (ws, Suc sent + packets_before answers (Suc n) ps,
               answers (Suc n + packets_before answers (Suc n) ps))) (w2\<lparr>wd_asked := Suc (Suc n)\<rparr>)"
        by (rule Cons.IH) simp
      show ?thesis
        using IH False d Inr e(1) q by (simp add: Let_def thenM_def bindM_def returnM_def)
    qed
  qed (simp add: bindM_def returnM_def)
qed (simp add: bindM_def returnM_def)

text \<open>
  C7.  A cancellation stops a transfer between two packets.  For any schedule of answers of the token,
  the engine sends the packets before the first positive answer, all of them and no other, and in their
  order; then it ends the transfer on the target, and reports it as stopped exactly when something was
  left out.
\<close>

theorem cancellation_stops_between_packets:
  assumes "cx_cancellation ctx = Some answers" "\<And>p. asks_nothing (send_data p)" "asks_nothing send_begin"
    and "wd_asked w = n" "\<not> answers n"
    and k_def: "k = packets_before answers (Suc n) ps"
  shows "run_cancellable_transfer ctx tf ps send_begin send_data send_end w =
    bindM (thenM (operation_cancellation_requested ctx) (thenM send_begin
        (thenM (operation_cancellation_requested ctx) (send_packets ctx tf send_data (take k ps) 0)))) (\<lambda>words.
      if answers (Suc n + k) \<and> (k < length ps \<or> words < tf_total_words tf)
      then stop_transfer tf send_end words
      else thenM send_end
        (let summary = [(''total_words'', PInt (tf_total_words tf)), (''packets'', PInt (int (length ps)))] in
         bindM (if answers (Suc n + k) then returnM True else operation_cancellation_requested ctx) (\<lambda>late.
           if late then bindM (liftM (transfer_info tf (tf_end_stage tf) (tf_total_words tf) False True))
             (\<lambda>info. returnM \<lparr>to_summary = summary, to_cancellation = Some info,
               to_cleanup_error = None, to_completed_after_cancel = True\<rparr>)
           else returnM \<lparr>to_summary = summary, to_cancellation = None,
             to_cleanup_error = None, to_completed_after_cancel = False\<rparr>))) w"
proof -
  let ?w = "w\<lparr>wd_asked := Suc n\<rparr>"
  have first: "operation_cancellation_requested ctx w = (Inr False, ?w)"
    using ask_token [OF assms(1), of w] assms(4,5) by simp
  obtain r w1 where b: "send_begin ?w = (r, w1)"
    by (cases "send_begin ?w")
  have asked: "wd_asked w1 = Suc n"
    using asks_nothingD [OF assms(3) b] by simp
  show ?thesis
  proof (cases r)
    case (Inl e)
    then show ?thesis
      using first b by (simp add: run_cancellable_transfer_def thenM_def bindM_def)
  next
    case (Inr u)
    have second: "operation_cancellation_requested ctx w1 =
        (Inr (answers (Suc n)), w1\<lparr>wd_asked := Suc (Suc n)\<rparr>)"
      using ask_token [OF assms(1), of w1] asked by simp
    have loop: "packet_loop_cancellable ctx tf send_data ps 0 0 (answers (Suc n)) (w1\<lparr>wd_asked := Suc (Suc n)\<rparr>) =
        bindM (send_packets ctx tf send_data (take k ps) 0) (\<lambda>ws. returnM (ws, k, answers (Suc n + k)))
          (w1\<lparr>wd_asked := Suc (Suc n)\<rparr>)"
      using packet_loop_prefix [OF assms(1,2), where w = "w1\<lparr>wd_asked := Suc (Suc n)\<rparr>" and n = "Suc n"
        and tf = tf and ps = ps and words = 0 and sent = 0]
      by (simp add: k_def)
    obtain v w2 where v: "send_packets ctx tf send_data (take k ps) 0 (w1\<lparr>wd_asked := Suc (Suc n)\<rparr>) = (v, w2)"
      by (cases "send_packets ctx tf send_data (take k ps) 0 (w1\<lparr>wd_asked := Suc (Suc n)\<rparr>)")
    show ?thesis
      using first b Inr second loop v
      by (cases v) (simp_all add: run_cancellable_transfer_def thenM_def bindM_def Let_def)
  qed
qed

section \<open>What a stopped transfer reports\<close>

text \<open>The report of a transfer of \<open>ps\<close> with the parameters \<open>tf\<close>.\<close>

definition outcome_sound :: "transfer_spec \<Rightarrow> data_packet list \<Rightarrow> transfer_outcome \<Rightarrow> bool" where
  "outcome_sound tf ps o' =
     (case to_cancellation o' of
        None \<Rightarrow> to_cleanup_error o' = None \<and> \<not> to_completed_after_cancel o'
      | Some c \<Rightarrow>
          (\<exists>k \<le> length ps. ci_current_words c = transfer_words (take k ps)) \<and>
          ci_total_words c = transfer_words ps \<and>
          ci_partial_flash_programmed c = tf_partial_flash_programmed tf (ci_current_words c) \<and>
          ci_erase_before_retry_required c = ci_partial_flash_programmed c \<and>
          ci_protocol_state_clean c = (to_cleanup_error o' = None) \<and>
          ci_outcome_uncertain c = (to_cleanup_error o' \<noteq> None) \<and>
          ci_connection_recovery_required c = (to_cleanup_error o' \<noteq> None) \<and>
          (to_completed_after_cancel o' \<longrightarrow> ci_current_words c = transfer_words ps \<and> ci_recovery_action c = ''NONE''))"

text \<open>Parameters that pass the checks of the cancellation info.\<close>

definition spec_valid :: "transfer_spec \<Rightarrow> bool" where
  "spec_valid tf \<longleftrightarrow> tf_begin_stage tf \<noteq> [] \<and> tf_end_stage tf \<noteq> [] \<and>
     (\<forall>sent. tf_recovery_action tf sent \<in> set RECOVERY_ACTIONS \<and>
        tf_reconnect_recovery_action tf sent \<in> set RECOVERY_ACTIONS)"

lemma specs_valid:
  "spec_valid (program_spec operation n)" "spec_valid (verify_spec operation n)" "spec_valid (ram_spec n)"
  "spec_valid (service_spec n)"
  by (simp_all add: spec_valid_def program_spec_def verify_spec_def ram_spec_def service_spec_def
      RECOVERY_ACTIONS_def)

lemma transfer_words_take: "0 \<le> transfer_words (take k ps) \<and> transfer_words (take k ps) \<le> transfer_words ps"
proof -
  have "transfer_words ps = transfer_words (take k ps) + transfer_words (drop k ps)"
    by (simp add: transfer_words_def flip: sum_list_append map_append)
  moreover have "0 \<le> transfer_words qs" for qs
    by (induction qs) (simp_all add: transfer_words_def)
  ultimately show ?thesis
    by simp
qed

lemma transfer_info_Inr:
  assumes "spec_valid tf" "tf_total_words tf = transfer_words ps" "words = transfer_words (take k ps)"
    "stage = tf_begin_stage tf \<or> stage = tf_end_stage tf"
  shows "\<exists>c. transfer_info tf stage words reconnect none = Inr c \<and>
    ci_current_words c = words \<and> ci_total_words c = transfer_words ps \<and>
    ci_partial_flash_programmed c = tf_partial_flash_programmed tf words \<and>
    ci_erase_before_retry_required c = tf_partial_flash_programmed tf words \<and>
    ci_protocol_state_clean c = (\<not> reconnect) \<and> ci_outcome_uncertain c = reconnect \<and>
    ci_connection_recovery_required c = reconnect \<and> (none \<longrightarrow> ci_recovery_action c = ''NONE'')"
proof -
  have "stage \<noteq> []" "''NONE'' \<in> set RECOVERY_ACTIONS"
    using assms(1,4) by (auto simp: spec_valid_def RECOVERY_ACTIONS_def)
  then show ?thesis
    using assms(1,2,3) transfer_words_take [of k ps]
    by (simp add: transfer_info_def OperationCancellationInfo_def Let_def spec_valid_def)
qed

lemma keeps_info:
  assumes "spec_valid tf" "tf_total_words tf = transfer_words ps" "words = transfer_words (take k ps)"
    "k \<le> length ps" "stage = tf_begin_stage tf \<or> stage = tf_end_stage tf"
    and "\<And>c. \<lbrakk>ci_current_words c = words; ci_total_words c = transfer_words ps;
      ci_partial_flash_programmed c = tf_partial_flash_programmed tf words;
      ci_erase_before_retry_required c = tf_partial_flash_programmed tf words;
      ci_protocol_state_clean c = (\<not> reconnect); ci_outcome_uncertain c = reconnect;
      ci_connection_recovery_required c = reconnect; none \<longrightarrow> ci_recovery_action c = ''NONE''\<rbrakk> \<Longrightarrow> Q (f c)"
  shows "keeps I (bindM (liftM (transfer_info tf stage words reconnect none)) (\<lambda>c. returnM (f c))) Q E"
proof -
  obtain c where c: "transfer_info tf stage words reconnect none = Inr c" "Q (f c)"
    using transfer_info_Inr [OF assms(1-3,5), of reconnect none] assms(6) by blast
  show ?thesis
    unfolding c(1) by (simp add: keeps_def c(2))
qed

lemma packet_loop_sound:
  assumes "\<And>p. keeps I (send_data p) (\<lambda>_. True) E" "\<And>ctx event. keeps I (emit_progress ctx event) (\<lambda>_. True) E"
    and "\<And>ctx. keeps I (operation_cancellation_requested ctx) (\<lambda>_. True) E"
    and "pre @ qs = ps" "words = transfer_words pre" "sent = length pre"
  shows "keeps I (packet_loop_cancellable ctx tf send_data qs words sent cancelled)
    (\<lambda>(words, sent, _). sent \<le> length ps \<and> words = transfer_words (take sent ps)) E"
  using assms(4-6)
proof (induction qs arbitrary: pre words sent cancelled)
  case Nil
  then show ?case
    unfolding packet_loop_cancellable.simps by (intro keeps_return) simp
next
  case (Cons q qs)
  have "keeps I (packet_loop_cancellable ctx tf send_data qs (words + int (length (dp_words q))) (Suc sent) c)
    (\<lambda>(words, sent, _). sent \<le> length ps \<and> words = transfer_words (take sent ps)) E" for c
    by (rule Cons.IH [of "pre @ [q]"]) (use Cons.prems in \<open>simp_all add: transfer_words_def\<close>)
  note step = this
  show ?case
    unfolding packet_loop_cancellable.simps Let_def
    apply (rule keeps_if, rule keeps_return)
     apply (use Cons.prems in force)
    apply (rule keeps_then [OF assms(1)], rule keeps_then [OF assms(2)], rule keeps_bind [OF assms(3)])
    apply (rule step)
    done
qed

lemma stop_transfer_sound:
  assumes "spec_valid tf" "tf_total_words tf = transfer_words ps" "k \<le> length ps"
    and "words = transfer_words (take k ps)" and "keeps I send_end (\<lambda>_. True) E"
  shows "keeps I (stop_transfer tf send_end words) (outcome_sound tf ps) E"
  unfolding stop_transfer_def
proof (rule keeps_bind)
  show "keeps I (catchM (thenM send_end (returnM None))
      (\<lambda>e. if \<not> is_exception e then raiseM e
           else if cancellation_cleanup_succeeded e True then returnM None else returnM (Some e)))
      (\<lambda>_. True) E"
    apply (rule keeps_catch [where E' = E], rule keeps_then [OF assms(5)], rule keeps_return, rule TrueI)
    apply (intro keeps_if keeps_return keeps_raise TrueI)
    apply assumption
    done
  show "keeps I (case failed of
       Some e \<Rightarrow> bindM (liftM (transfer_info tf (tf_end_stage tf) words True False))
         (\<lambda>info. returnM (outcome_cancelled info (Some e)))
     | None \<Rightarrow> bindM (liftM (transfer_info tf (tf_end_stage tf) words False False))
         (\<lambda>info. returnM (outcome_cancelled info None))) (outcome_sound tf ps) E" for failed
  proof (cases failed)
    case None
    then show ?thesis
      unfolding None option.case
      by (rule_tac keeps_info [OF assms(1,2,4,3)])
        (use assms(3,4) in \<open>auto simp: outcome_sound_def outcome_cancelled_def\<close>)
  next
    case (Some e)
    then show ?thesis
      unfolding Some option.case
      by (rule_tac keeps_info [OF assms(1,2,4,3)])
        (use assms(3,4) in \<open>auto simp: outcome_sound_def outcome_cancelled_def\<close>)
  qed
qed

lemma late_transfer_sound:
  assumes "spec_valid tf" "tf_total_words tf = transfer_words ps"
  shows "keeps I (if late then bindM (liftM (transfer_info tf (tf_end_stage tf) (tf_total_words tf) False True))
      (\<lambda>info. returnM \<lparr>to_summary = summary, to_cancellation = Some info,
        to_cleanup_error = None, to_completed_after_cancel = True\<rparr>)
    else returnM \<lparr>to_summary = summary, to_cancellation = None, to_cleanup_error = None,
      to_completed_after_cancel = False\<rparr>) (outcome_sound tf ps) E"
proof (rule keeps_if)
  show "keeps I (bindM (liftM (transfer_info tf (tf_end_stage tf) (tf_total_words tf) False True))
      (\<lambda>info. returnM \<lparr>to_summary = summary, to_cancellation = Some info,
        to_cleanup_error = None, to_completed_after_cancel = True\<rparr>)) (outcome_sound tf ps) E"
    by (rule keeps_info [OF assms, where k = "length ps"]) (auto simp: assms(2) outcome_sound_def)
  show "keeps I (returnM \<lparr>to_summary = summary, to_cancellation = None, to_cleanup_error = None,
      to_completed_after_cancel = False\<rparr>) (outcome_sound tf ps) E"
    by (rule keeps_return) (simp add: outcome_sound_def)
qed

lemma transfer_sound:
  assumes "spec_valid tf" "tf_total_words tf = transfer_words ps"
    and sends: "keeps I send_begin (\<lambda>_. True) E" "\<And>p. keeps I (send_data p) (\<lambda>_. True) E"
      "keeps I send_end (\<lambda>_. True) E"
    and world: "\<And>ctx event. keeps I (emit_progress ctx event) (\<lambda>_. True) E"
      "\<And>ctx. keeps I (operation_cancellation_requested ctx) (\<lambda>_. True) E"
  shows "keeps I (run_cancellable_transfer ctx tf ps send_begin send_data send_end) (outcome_sound tf ps) E"
  unfolding run_cancellable_transfer_def Let_def
proof (rule keeps_bind [OF world(2)], rule keeps_if)
  show "keeps I (bindM (liftM (transfer_info tf (tf_begin_stage tf) 0 False False))
      (\<lambda>info. returnM (outcome_cancelled info None))) (outcome_sound tf ps) E"
    by (rule keeps_info [OF assms(1,2), where k = 0])
      (auto simp: outcome_sound_def outcome_cancelled_def transfer_words_def intro: exI [of _ 0])
  let ?finish = "\<lambda>cancelled. thenM send_end
    (bindM (if cancelled then returnM True else operation_cancellation_requested ctx)
      (\<lambda>late. if late then bindM (liftM (transfer_info tf (tf_end_stage tf) (tf_total_words tf) False True))
         (\<lambda>info. returnM \<lparr>to_summary = [(''total_words'', PInt (tf_total_words tf)), (''packets'', PInt (int (length ps)))],
           to_cancellation = Some info, to_cleanup_error = None, to_completed_after_cancel = True\<rparr>)
       else returnM \<lparr>to_summary = [(''total_words'', PInt (tf_total_words tf)), (''packets'', PInt (int (length ps)))],
         to_cancellation = None, to_cleanup_error = None, to_completed_after_cancel = False\<rparr>))"
  have fin: "keeps I (?finish cancelled) (outcome_sound tf ps) E" for cancelled
    by (rule keeps_then [OF sends(3)], rule keeps_bind [where Q = "\<lambda>_. True"], rule keeps_if,
        rule keeps_return, rule TrueI, rule world(2), rule late_transfer_sound [OF assms(1,2)])
  show "keeps I (thenM send_begin (bindM (operation_cancellation_requested ctx) (\<lambda>seen.
      bindM (packet_loop_cancellable ctx tf send_data ps 0 0 seen) (\<lambda>(sent_words, sent_packets, cancelled).
        if cancelled \<and> (sent_packets < length ps \<or> sent_words < tf_total_words tf)
        then stop_transfer tf send_end sent_words else ?finish cancelled)))) (outcome_sound tf ps) E"
    apply (rule keeps_then [OF sends(1)], rule keeps_bind [OF world(2)], rule keeps_bind)
     apply (rule packet_loop_sound [OF sends(2) world, where pre = "[]"], simp, simp add: transfer_words_def, simp)
    apply clarify
    apply (rule keeps_if)
     apply (rule stop_transfer_sound [OF assms(1,2) _ refl sends(3)], assumption)
    apply (rule fin)
    done
qed

abbreviation raises_only :: "('s, 'a) sm \<Rightarrow> (exc \<Rightarrow> bool) \<Rightarrow> bool" where
  "raises_only m E \<equiv> \<forall>w e. fst (m w) = Inl e \<longrightarrow> E e"

lemma raises_only_keeps: "raises_only m E \<Longrightarrow> keeps (\<lambda>_. True) m (\<lambda>_. True) E"
  by (auto simp: keeps_def split: sum.split)

text \<open>
  C32.  The report of a transfer that programs Flash.  It never fails by itself: an exception is one of the
  sends.  When it reports a cancellation, the words counted are those of a prefix of the packets; the Flash
  is said to be partly programmed, and to need an erase before a retry, exactly when a word was sent; the
  target's state is clean, and no reconnection is needed, exactly when the transfer could be ended; and a
  transfer completed in spite of the request counts all its words.
\<close>

theorem program_transfer_report:
  assumes "raises_only send_begin E" "\<And>p. raises_only (send_data p) E" "raises_only send_end E"
  shows "case fst (run_cancellable_transfer ctx (program_spec operation (transfer_words ps)) ps
      send_begin send_data send_end w) of
    Inl e \<Rightarrow> E e
  | Inr outcome \<Rightarrow> (case to_cancellation outcome of
      None \<Rightarrow> to_cleanup_error outcome = None \<and> \<not> to_completed_after_cancel outcome
    | Some c \<Rightarrow> (\<exists>k \<le> length ps. ci_current_words c = transfer_words (take k ps)) \<and>
        ci_total_words c = transfer_words ps \<and>
        (ci_partial_flash_programmed c \<longleftrightarrow> ci_current_words c \<noteq> 0) \<and>
        (ci_erase_before_retry_required c \<longleftrightarrow> ci_current_words c \<noteq> 0) \<and>
        (ci_protocol_state_clean c \<longleftrightarrow> to_cleanup_error outcome = None) \<and>
        (ci_connection_recovery_required c \<longleftrightarrow> to_cleanup_error outcome \<noteq> None) \<and>
        (to_completed_after_cancel outcome \<longrightarrow> ci_current_words c = transfer_words ps))"
proof -
  have world: "raises_only (emit_progress ctx event) E" "raises_only (operation_cancellation_requested ctx) E"
    for ctx :: "'a op_context" and event
    by (simp_all add: emit_progress_def modM_def returnM_def operation_cancellation_requested_def split: prod.split)
  have "keeps (\<lambda>_. True) (run_cancellable_transfer ctx (program_spec operation (transfer_words ps)) ps
      send_begin send_data send_end) (outcome_sound (program_spec operation (transfer_words ps)) ps) E"
    by (rule transfer_sound [OF specs_valid(1)])
      (simp add: program_spec_def, (rule raises_only_keeps, rule assms world)+)
  then have "case fst (run_cancellable_transfer ctx (program_spec operation (transfer_words ps)) ps
      send_begin send_data send_end w) of
    Inl e \<Rightarrow> E e | Inr x \<Rightarrow> outcome_sound (program_spec operation (transfer_words ps)) ps x"
    unfolding keeps_def by blast
  moreover have "tf_partial_flash_programmed (program_spec operation (transfer_words ps)) = (\<lambda>sent. sent \<noteq> 0)"
    by (simp add: program_spec_def)
  ultimately show ?thesis
    unfolding outcome_sound_def
    by (cases "fst (run_cancellable_transfer ctx (program_spec operation (transfer_words ps)) ps
      send_begin send_data send_end w)") (auto split: option.splits)
qed

end
