(* ===== verification/Op_Read.thy ===== *)
theory Op_Read
  imports Op_Rules
begin

text \<open>
  What a memory read returns: against a target that answers a read of \<open>n\<close> words at \<open>a\<close> with the words
  it has there, the words of all frames put together are the requested range.
\<close>

definition memory_words :: "(int \<Rightarrow> int) \<Rightarrow> int \<Rightarrow> int \<Rightarrow> int list" where
  "memory_words mem a n = map (\<lambda>i. mem (a + int i)) [0..<nat n]"

lemma length_memory_words [simp]: "length (memory_words mem a n) = nat n"
  by (simp add: memory_words_def)

lemma memory_words_append:
  assumes "0 \<le> m" "0 \<le> n"
  shows "memory_words mem a m @ memory_words mem (a + m) n = memory_words mem a (m + n)"
proof -
  have n: "nat (m + n) = nat m + nat n"
    using assms by (simp add: nat_add_distrib)
  have e: "a + int (i + nat m) = a + m + int i" for i
    using assms(1) by simp
  have "map (\<lambda>i. mem (a + int i)) [nat m..<nat m + nat n] =
      map (\<lambda>i. mem (a + int i)) (map (\<lambda>i. i + nat m) [0..<nat n])"
    by (simp only: map_add_upt add.commute [of "nat n"])
  also have "\<dots> = map (\<lambda>i. mem (a + m + int i)) [0..<nat n]"
    by (simp only: map_map o_def e)
  finally have tail: "map (\<lambda>i. mem (a + int i)) [nat m..<nat m + nat n] = map (\<lambda>i. mem (a + m + int i)) [0..<nat n]" .
  have "[0..<nat m + nat n] = [0..<nat m] @ [nat m..<nat m + nat n]"
    by (rule upt_add_eq_append) simp
  then show ?thesis
    unfolding memory_words_def n by (simp only: map_append tail)
qed

text \<open>The target tells the truth about its memory, as long as the client satisfies \<open>J\<close>.\<close>

definition honest_reads ::
  "('t boot_client \<Rightarrow> bool) \<Rightarrow> (int \<Rightarrow> int) \<Rightarrow> int \<Rightarrow> 't op_context \<Rightarrow> bool" where
  "honest_reads J mem capacity ctx \<longleftrightarrow>
     (\<forall>a n. 0 < n \<longrightarrow> n \<le> capacity \<longrightarrow>
        keeps (\<lambda>w. J (wd_client w)) (op_send ctx F_memory_read (bindE (halves a) (\<lambda>h. Inr (h @ [n, 0]))))
          (\<lambda>payload. drop 3 payload = memory_words mem a n) (\<lambda>_. True))"

lemma keeps_world:
  "keeps_state (\<lambda>w. J (wd_client w)) (emit_progress ctx event)"
  "keeps_state (\<lambda>w. J (wd_client w)) (operation_cancellation_requested ctx)"
  by (simp_all add: keeps_def emit_progress_def modM_def returnM_def operation_cancellation_requested_def
      split: prod.split)

text \<open>A successful result carries the whole range.\<close>

definition reads_range :: "(int \<Rightarrow> int) \<Rightarrow> memory_read_request \<Rightarrow> operation_result \<Rightarrow> bool" where
  "reads_range mem req r \<longleftrightarrow>
     (or_ok r \<longrightarrow> or_details r =
        [(''words'', PList (map PInt (memory_words mem (mr_start_address req) (mr_word_count req))))])"

lemma memory_done_reads:
  assumes "memory_done ctx req k words = Inr r" "words = memory_words mem (mr_start_address req) (mr_word_count req)"
  shows "reads_range mem req r"
  using assms by (auto simp: memory_done_def ok_result_def OperationResult_def Let_def reads_range_def
      basic_result_def split: if_splits)

lemma memory_stopped_reads:
  assumes "memory_stopped ctx req k words = Inr r"
    and "words = memory_words mem (mr_start_address req) (int (length words))"
    and "int (length words) \<le> mr_word_count req"
  shows "reads_range mem req r"
proof (cases "int (length words) < mr_word_count req")
  case True
  then show ?thesis
    using assms(1) by (auto simp: memory_stopped_def bindE_Inr_iff cancelled_result_def OperationResult_def
        Let_def reads_range_def basic_result_def split: if_splits)
next
  case False
  then have "int (length words) = mr_word_count req"
    using assms(3) by simp
  then show ?thesis
    using assms(1,2) by (auto simp: memory_stopped_def bindE_Inr_iff completed_after_cancel_result_def
        OperationResult_def Let_def reads_range_def basic_result_def split: if_splits)
qed

lemma memory_frames_read:
  assumes "honest_reads J mem capacity ctx" "0 < capacity"
  shows "address = mr_start_address req + int (length words) \<Longrightarrow>
    words = memory_words mem (mr_start_address req) (int (length words)) \<Longrightarrow>
    int (length words) \<le> mr_word_count req \<Longrightarrow>
    int (length words) + capacity * int (length frames) < mr_word_count req + capacity \<Longrightarrow>
    keeps (\<lambda>w. J (wd_client w)) (memory_frames ctx req capacity k frames address words)
      (reads_range mem req) (\<lambda>_. True)"
proof (induction frames arbitrary: address words)
  case Nil
  then show ?case
    unfolding memory_frames.simps
    by (intro keeps_lift) (auto dest: memory_done_reads split: if_splits)
next
  case (Cons f frames)
  let ?n = "min capacity (mr_word_count req - int (length words))"
  have "capacity * int (length (f # frames)) = capacity + capacity * int (length frames)"
    "0 \<le> capacity * int (length frames)"
    using assms(2) by (simp_all add: algebra_simps)
  then have "int (length words) < mr_word_count req"
    using Cons.prems(4) by linarith
  then have n: "0 < ?n" "?n \<le> capacity"
    using assms(2) by auto
  have send: "keeps (\<lambda>w. J (wd_client w))
      (op_send ctx F_memory_read (bindE (halves address) (\<lambda>h. Inr (h @ [?n, 0]))))
      (\<lambda>payload. drop 3 payload = memory_words mem address ?n) (\<lambda>_. True)"
    using assms(1) n unfolding honest_reads_def by blast
  have rest: "keeps (\<lambda>w. J (wd_client w)) (thenM (emit_progress ctx event)
      (unless_cancelled ctx (memory_stopped ctx req k (words @ data))
        (memory_frames ctx req capacity k frames (address + ?n) (words @ data)))) (reads_range mem req) (\<lambda>_. True)"
    if d: "data = memory_words mem address ?n" for data event
  proof -
    have l: "int (length (words @ data)) = int (length words) + ?n"
      using n(1) by (simp add: d)
    have w: "words @ data = memory_words mem (mr_start_address req) (int (length (words @ data)))"
    proof -
      have "words @ data = memory_words mem (mr_start_address req) (int (length words)) @
          memory_words mem (mr_start_address req + int (length words)) ?n"
        by (simp only: d Cons.prems(1) Cons.prems(2) [symmetric])
      then show ?thesis
        unfolding l using memory_words_append [of "int (length words)" ?n mem "mr_start_address req"] n(1) by simp
    qed
    have le: "int (length (words @ data)) \<le> mr_word_count req"
      unfolding l by simp
    have frames: "keeps (\<lambda>w. J (wd_client w)) (memory_frames ctx req capacity k frames (address + ?n) (words @ data))
        (reads_range mem req) (\<lambda>_. True)"
    proof (rule Cons.IH [OF _ w le])
      show "address + ?n = mr_start_address req + int (length (words @ data))"
        unfolding l Cons.prems(1) by simp
      show "int (length (words @ data)) + capacity * int (length frames) < mr_word_count req + capacity"
        unfolding l using Cons.prems(4) by (simp add: algebra_simps)
    qed
    show ?thesis
      unfolding unless_cancelled_def
      by (rule keeps_then [OF keeps_world(1)], rule keeps_bind [OF keeps_world(2)], rule keeps_if,
          rule keeps_lift, erule memory_stopped_reads [OF _ w le], rule TrueI, rule frames)
  qed
  show ?case
    unfolding memory_frames.simps Let_def
    apply (rule keeps_bind [OF send])
    apply (rule keeps_bind [where Q = "\<lambda>data. data = memory_words mem address ?n"])
     apply (rule keeps_lift)
      apply (simp add: memory_frame_data_def Let_def split: if_splits)
     apply simp
    apply (rule rest, assumption)
    done
qed

text \<open>
  C33.  A memory read returns the memory.  Against a target whose answers carry the words it has, a read
  that succeeds - also one that was completed although a cancellation was requested - returns exactly the
  requested words in address order, however the negotiated payload size cuts the range into frames.
\<close>

theorem memory_read_returns_range:
  assumes "honest_reads J mem capacity ctx"
    and "\<And>c m. J c \<Longrightarrow> memory_preflight ctx c = Inr m \<Longrightarrow> capacity = min 0xFFFF (m - 3)"
    and "0 < mr_word_count req" "J (wd_client w)"
    and "memory_read ctx req w = (Inr r, w')" "or_ok r"
  shows "or_details r =
    [(''words'', PList (map PInt (memory_words mem (mr_start_address req) (mr_word_count req))))]"
proof -
  have frames: "keeps (\<lambda>w. J (wd_client w))
      (let capacity = min 0xFFFF (m - 3); frame_count = (mr_word_count req + capacity - 1) div capacity in
       memory_frames ctx req capacity frame_count (map int [0..<nat frame_count]) (mr_start_address req) [])
      (reads_range mem req) (\<lambda>_. True)" if m: "capacity = min 0xFFFF (m - 3)" "4 \<le> m" for m
  proof -
    let ?k = "(mr_word_count req + capacity - 1) div capacity"
    have c: "0 < capacity"
      using m by auto
    have "capacity * ?k \<le> mr_word_count req + capacity - 1"
      using c by (simp add: minus_mod_eq_mult_div [symmetric] algebra_simps)
    moreover have "0 \<le> ?k"
      using c assms(3) by (simp add: pos_imp_zdiv_nonneg_iff)
    ultimately have k: "capacity * int (length (map int [0..<nat ?k])) < mr_word_count req + capacity"
      by simp
    show ?thesis
      unfolding Let_def m(1) [symmetric]
      by (rule memory_frames_read [OF assms(1) c]) (use k assms(3) in \<open>simp_all add: memory_words_def\<close>)
  qed
  have "keeps (\<lambda>w. J (wd_client w)) (memory_read ctx req) (reads_range mem req) (\<lambda>_. True)"
    unfolding memory_read_def guarded_def unless_cancelled_def
    apply (rule keeps_catch [where E' = "\<lambda>_. True"])
     apply (rule keeps_bind [where Q = "\<lambda>limit. \<forall>m. limit = Inr m \<longrightarrow> capacity = min 0xFFFF (m - 3) \<and> 4 \<le> m"])
      apply (rule keeps_get)
      apply (auto dest: assms(2) simp: memory_preflight_def bindE_Inr_iff split: option.splits if_splits)[1]
     apply (rule keeps_bind [where Q = "\<lambda>m. capacity = min 0xFFFF (m - 3) \<and> 4 \<le> m"])
      apply (rule keeps_lift, simp, simp)
     apply (rule keeps_bind [OF keeps_world(2)], rule keeps_if)
      apply (rule keeps_lift)
       apply (auto simp: bindE_Inr_iff cancelled_result_def OperationResult_def
        Let_def reads_range_def basic_result_def split: if_splits)[1]
      apply simp
     apply (rule frames, simp, simp)
    apply (rule keeps_if)
     apply (rule keeps_lift)
      apply (auto simp: failure_result_def bindE_Inr_iff OperationResult_def Let_def reads_range_def
        basic_result_def split: option.splits if_splits)[1]
     apply simp
    apply (rule keeps_raise, simp)
    done
  from keepsD(3) [OF this assms(4,5) refl] assms(6) show ?thesis
    by (simp add: reads_range_def)
qed

section \<open>The read succeeds\<close>

text \<open>The target answers every frame, and nobody asks for a cancellation.\<close>

definition answering_reads ::
  "('t boot_client \<Rightarrow> bool) \<Rightarrow> (int \<Rightarrow> int) \<Rightarrow> int \<Rightarrow> 't op_context \<Rightarrow> bool" where
  "answering_reads J mem capacity ctx \<longleftrightarrow>
     (\<forall>a n. u32 a \<longrightarrow> 0 < n \<longrightarrow> n \<le> capacity \<longrightarrow>
        keeps (\<lambda>w. J (wd_client w)) (op_send ctx F_memory_read (bindE (halves a) (\<lambda>h. Inr (h @ [n, 0]))))
          (\<lambda>payload. payload = [lo16 a, hi16 a, n] @ memory_words mem a n) (\<lambda>_. False))"

lemma answering_honest:
  assumes "answering_reads J mem capacity ctx"
  shows "honest_reads J mem capacity ctx"
  unfolding honest_reads_def
proof (intro allI impI)
  fix a n :: int assume n: "0 < n" "n \<le> capacity"
  show "keeps (\<lambda>w. J (wd_client w)) (op_send ctx F_memory_read (bindE (halves a) (\<lambda>h. Inr (h @ [n, 0]))))
      (\<lambda>payload. drop 3 payload = memory_words mem a n) (\<lambda>_. True)"
  proof (cases "u32 a")
    case True
    then have "keeps (\<lambda>w. J (wd_client w)) (op_send ctx F_memory_read (bindE (halves a) (\<lambda>h. Inr (h @ [n, 0]))))
        (\<lambda>payload. payload = [lo16 a, hi16 a, n] @ memory_words mem a n) (\<lambda>_. False)"
      using assms n unfolding answering_reads_def by blast
    then show ?thesis
      by (rule keeps_weaken) simp_all
  next
    case False
    then show ?thesis
      by (simp add: keeps_def op_send_def halves_def split_u32_Inl bindM_def)
  qed
qed

lemma memory_frames_succeed:
  assumes "answering_reads J mem capacity ctx" "0 < capacity" "cx_cancellation ctx = None"
    and "\<And>x. u16 (mem x)" "0 \<le> mr_start_address req" "mr_start_address req + mr_word_count req \<le> 0x100000000"
  shows "address = mr_start_address req + int (length words) \<Longrightarrow>
    int (length words) \<le> mr_word_count req \<Longrightarrow>
    mr_word_count req \<le> int (length words) + capacity * int (length frames) \<Longrightarrow>
    int (length words) + capacity * int (length frames) < mr_word_count req + capacity \<Longrightarrow>
    keeps (\<lambda>w. J (wd_client w)) (memory_frames ctx req capacity k frames address words) or_ok (\<lambda>_. False)"
proof (induction frames arbitrary: address words)
  case Nil
  then show ?case
    unfolding memory_frames.simps
    by (intro keeps_lift) (auto simp: memory_done_def ok_result_def OperationResult_def completion_valid_def
        basic_result_def Let_def)
next
  case (Cons f frames)
  let ?n = "min capacity (mr_word_count req - int (length words))"
  have c: "capacity * int (length (f # frames)) = capacity + capacity * int (length frames)"
    "0 \<le> capacity * int (length frames)"
    using assms(2) by (simp_all add: algebra_simps)
  then have "int (length words) < mr_word_count req"
    using Cons.prems(4) by linarith
  then have n: "0 < ?n" "?n \<le> capacity" and a: "u32 address"
    using assms(2,5,6) Cons.prems(1) by (auto simp: u_simps)
  have send: "keeps (\<lambda>w. J (wd_client w))
      (op_send ctx F_memory_read (bindE (halves address) (\<lambda>h. Inr (h @ [?n, 0]))))
      (\<lambda>payload. payload = [lo16 address, hi16 address, ?n] @ memory_words mem address ?n) (\<lambda>_. False)"
    using assms(1) n a unfolding answering_reads_def by blast
  have data: "memory_frame_data req address ?n words ([lo16 address, hi16 address, ?n] @ memory_words mem address ?n)
      = Inr (memory_words mem address ?n)"
    using n assms(4) by (auto simp: memory_frame_data_def Let_def memory_words_def list_all_iff)
  have world: "keeps (\<lambda>w. J (wd_client w)) (emit_progress ctx event) (\<lambda>_. True) (\<lambda>_. False)"
    "keeps (\<lambda>w. J (wd_client w)) (operation_cancellation_requested ctx) Not (\<lambda>_. False)" for event
    using assms(3) by (simp_all add: keeps_def emit_progress_def modM_def returnM_def
        operation_cancellation_requested_def cancellation_requested_def)
  have l: "int (length (words @ memory_words mem address ?n)) = int (length words) + ?n"
    using n(1) by simp
  have frames: "keeps (\<lambda>w. J (wd_client w)) (memory_frames ctx req capacity k frames (address + ?n)
      (words @ memory_words mem address ?n)) or_ok (\<lambda>_. False)"
  proof (rule Cons.IH)
    show "address + ?n = mr_start_address req + int (length (words @ memory_words mem address ?n))"
      unfolding l using Cons.prems(1) by simp
    show "int (length (words @ memory_words mem address ?n)) \<le> mr_word_count req"
      unfolding l by simp
    have "?n = capacity \<or> frames = []"
    proof (cases "frames = []")
      case False
      then have "1 \<le> int (length frames)"
        by (cases frames) simp_all
      then have "capacity \<le> capacity * int (length frames)"
        using mult_left_mono [of 1 "int (length frames)" capacity] assms(2) by simp
      then show ?thesis
        using Cons.prems(4) c by linarith
    qed simp
    then show "mr_word_count req \<le> int (length (words @ memory_words mem address ?n)) + capacity * int (length frames)"
      "int (length (words @ memory_words mem address ?n)) + capacity * int (length frames) < mr_word_count req + capacity"
      unfolding l using Cons.prems(3,4) c assms(2) by auto
  qed
  show ?case
    unfolding memory_frames.simps Let_def
    apply (rule keeps_bind [OF send])
    apply (simp only: data)
    apply (rule keeps_bind [where Q = "\<lambda>data. data = memory_words mem address ?n"])
     apply (rule keeps_lift, simp, simp)
    apply (rule keeps_then [OF world(1)])
    apply (simp only: unless_cancelled_def)
    apply (rule keeps_bind [OF world(2)], rule keeps_if)
     apply simp
    apply (simp only:, rule frames)
    done
qed

lemma memory_read_total:
  assumes "answering_reads J mem capacity ctx" "\<And>x. u16 (mem x)" "cx_cancellation ctx = None"
    and "\<And>c. J c \<Longrightarrow> \<exists>m. memory_preflight ctx c = Inr m \<and> capacity = min 0xFFFF (m - 3)"
    and "MemoryReadRequest start n = Inr req" "J (wd_client w)" "0 < capacity"
  shows "\<exists>r w'. memory_read ctx req w = (Inr r, w') \<and> or_ok r \<and> J (wd_client w')"
proof -
  have req: "0 \<le> mr_start_address req" "0 < mr_word_count req"
    "mr_start_address req + mr_word_count req \<le> 0x100000000"
    using assms(5) by (auto simp: MemoryReadRequest_def u_simps split: if_splits)
  let ?k = "(mr_word_count req + capacity - 1) div capacity"
  have k: "capacity * ?k \<le> mr_word_count req + capacity - 1" "mr_word_count req \<le> capacity * ?k" "0 \<le> ?k"
  proof -
    have "capacity * ?k + (mr_word_count req + capacity - 1) mod capacity = mr_word_count req + capacity - 1"
      by simp
    moreover have "0 \<le> (mr_word_count req + capacity - 1) mod capacity"
      "(mr_word_count req + capacity - 1) mod capacity \<le> capacity - 1"
      using assms(7) by simp_all
    ultimately show "capacity * ?k \<le> mr_word_count req + capacity - 1" "mr_word_count req \<le> capacity * ?k"
      by linarith+
    show "0 \<le> ?k"
      using assms(7) req(2) by (simp add: pos_imp_zdiv_nonneg_iff)
  qed
  have frames: "keeps (\<lambda>w. J (wd_client w)) (memory_frames ctx req capacity ?k (map int [0..<nat ?k])
      (mr_start_address req) []) or_ok (\<lambda>_. False)"
    by (rule memory_frames_succeed [OF assms(1,7,3,2) req(1,3)]) (use k req in simp_all)
  have world: "keeps (\<lambda>w. J (wd_client w)) (operation_cancellation_requested ctx) Not (\<lambda>_. False)"
    using assms(3) by (simp add: keeps_def operation_cancellation_requested_def cancellation_requested_def)
  have "keeps (\<lambda>w. J (wd_client w)) (memory_read ctx req) or_ok (\<lambda>_. False)"
    unfolding memory_read_def guarded_def unless_cancelled_def Let_def
    apply (rule keeps_catch [where E' = "\<lambda>_. False"])
     apply (rule keeps_bind [where Q = "\<lambda>limit. \<exists>m. limit = Inr m \<and> capacity = min 0xFFFF (m - 3)"])
      apply (rule keeps_get, erule assms(4))
     apply (rule keeps_bind [where Q = "\<lambda>m. capacity = min 0xFFFF (m - 3)"])
      apply (rule keeps_lift, force, force)
     apply (rule keeps_bind [OF world], rule keeps_if, simp)
     apply (use frames in simp)
    apply simp
    done
  note read = this
  obtain v w' where v: "memory_read ctx req w = (v, w')"
    by (cases "memory_read ctx req w")
  show ?thesis
    using keepsD [OF read assms(6) v] v by (cases v) auto
qed

text \<open>
  C34.  A read of a live target always succeeds: if the target answers every frame and no cancellation is
  requested, the read of any admissible range ends, in as many frames as the capacity calls for, with a
  successful result; the frame count of the code is always enough and no frame is empty.
\<close>

theorem memory_read_succeeds:
  assumes "answering_reads J mem capacity ctx" "\<And>x. u16 (mem x)" "cx_cancellation ctx = None"
    and "\<And>c. J c \<Longrightarrow> \<exists>m. memory_preflight ctx c = Inr m \<and> capacity = min 0xFFFF (m - 3)"
    and "MemoryReadRequest start n = Inr req" "J (wd_client w)" "0 < capacity"
  shows "\<exists>r w'. memory_read ctx req w = (Inr r, w') \<and> or_ok r \<and> J (wd_client w')"
  using assms by (rule memory_read_total)

end
