(* ===== verification/Boot_Spec.thy ===== *)
theory Boot_Spec
  imports Op_Rules Client_Spec
begin

text \<open>
  The command-level client: what one transaction returns when the target answers, that the identity of
  the connected target never changes, and that the negotiated limits hold for what is sent.
\<close>

section \<open>A transaction that is answered\<close>

lemma cached_parts:
  assumes "bc_device_info c' = bc_device_info c" "bc_protocol_info c' = bc_protocol_info c"
  shows "cached cmd ws c = Inl e \<Longrightarrow> cached cmd ws c' = Inl e"
    and "cached cmd ws c = Inr d \<Longrightarrow> \<exists>d'. cached cmd ws c' = Inr d' \<and>
      bc_device_info d' = bc_device_info d \<and> bc_protocol_info d' = bc_protocol_info d \<and>
      bc_sequence d' = bc_sequence c' \<and> bc_buffer d' = bc_buffer c'"
  using assms
  by (auto simp: cached_def as_decode_error_def bindE_def split: sum.splits if_splits option.splits)

text \<open>The value of a transaction answered by \<open>r\<close>, and the capabilities cached after it.\<close>

definition answered :: "int \<Rightarrow> frame \<Rightarrow> 't boot_client \<Rightarrow> int list res" where
  "answered cmd r c = bindE (reply_result r) (\<lambda>ws. bindE (cached cmd ws c) (\<lambda>_. Inr ws))"

definition cached_after :: "int \<Rightarrow> frame \<Rightarrow> 't boot_client \<Rightarrow> device_info option \<times> protocol_info option" where
  "cached_after cmd r c =
     (case bindE (reply_result r) (\<lambda>ws. cached cmd ws c) of
        Inl _ \<Rightarrow> (bc_device_info c, bc_protocol_info c) | Inr d \<Rightarrow> (bc_device_info d, bc_protocol_info d))"

lemma transaction_answered:
  assumes "payload_limit c cmd = Inr m" "int (length payload) \<le> m" "int (length payload) \<le> 0xFFFF"
    and "u16 (bc_sequence c)" "u16 cmd" "words16 payload" "bc_buffer c = []"
    and "bt_write_all tr (le_bytes (frame_words (client_request (bc_sequence c) cmd payload))) (bc_transport c) = (Inr (), t)"
    and "0 < command_timeout cmd timeout"
    and "reads (bt_read_some tr 4096) (bt_polls tr (command_timeout cmd timeout)) t = map Inr chunks"
    and "0x5A \<notin> set noise" "concat chunks = noise @ le_bytes (frame_words r)"
    and "frame_wf r" "echoes (client_request (bc_sequence c) cmd payload) r" "int (length (fr_payload r)) \<le> m"
  shows "\<exists>c'. bc_transact tr cmd payload timeout observed c = (answered cmd r c, c') \<and>
    bc_sequence c' = succ_sequence (bc_sequence c) \<and> bc_buffer c' = [] \<and>
    (bc_device_info c', bc_protocol_info c') = cached_after cmd r c"
proof -
  let ?q = "succ_sequence (bc_sequence c)" and ?req = "client_request (bc_sequence c) cmd payload"
  have wf: "frame_wf ?req"
    by (rule client_request_wf) (use assms in auto)
  have request: "transact_request cmd payload m c = Inr (?q, ?req, le_bytes (frame_words ?req))"
    using assms(2-6) wf by (simp add: transact_request_def request_of_Inr next_sequence_Inr encode_bytes_Inr)
  define c1 where "c1 = (if observed then c\<lparr>bc_wire_attempts := bc_wire_attempts c @ [cmd]\<rparr> else c)"
  have c1: "bc_transport c1 = bc_transport c" "bc_buffer c1 = []" "bc_device_info c1 = bc_device_info c"
    "bc_protocol_info c1 = bc_protocol_info c"
    using assms(7) by (simp_all add: c1_def)
  define c2 where "c2 = c1\<lparr>bc_transport := t, bc_sequence := ?q\<rparr>"
  obtain t' where read: "read_frame (bt_read_some tr) (command_timeout cmd timeout) m
      (bt_polls tr (command_timeout cmd timeout)) ([], t) = (Inr r, [], t')"
  proof -
    have "concat chunks \<noteq> []"
      using assms(12) le_bytes_frame_magic [of r] by (auto simp: magic_bytes_def)
    then have "\<exists>t'. read_loop (TransportTimeoutError ''response byte read timed out'') (bt_read_some tr 4096) m
        (bt_polls tr (command_timeout cmd timeout)) [] t = (Inr r, [], t')"
      by (intro read_loop_frame [OF assms(13,15,11,10), of "[]"]) (simp_all add: assms(12))
    then show ?thesis
      using assms(9) that by (auto simp: read_frame_def)
  qed
  define c3 where "c3 = c2\<lparr>bc_buffer := [], bc_transport := t'\<rparr>"
  have rf: "bc_read_frame tr (command_timeout cmd timeout) m c2 = (Inr r, c3)"
    using read c1(2) by (simp add: bc_read_frame_def c2_def c3_def)
  have c3: "bc_device_info c3 = bc_device_info c" "bc_protocol_info c3 = bc_protocol_info c"
    "bc_sequence c3 = ?q" "bc_buffer c3 = []"
    by (simp_all add: c3_def c2_def c1)
  have first: "(if observed then modM (\<lambda>c. c\<lparr>bc_wire_attempts := bc_wire_attempts c @ [cmd]\<rparr>) else returnM ()) c
      = (Inr (), c1)"
    by (simp add: c1_def)
  have written: "on_transport (bt_write_all tr (le_bytes (frame_words ?req))) c1 = (Inr (), c1\<lparr>bc_transport := t\<rparr>)"
    using assms(8) c1(1) by (simp add: on_transport_def)
  have c2: "modM (\<lambda>c. c\<lparr>bc_sequence := ?q\<rparr>) (c1\<lparr>bc_transport := t\<rparr>) = (Inr (), c2)"
    by (simp add: c2_def)
  have exchange: "transact_exchange tr cmd timeout observed m (?q, ?req, le_bytes (frame_words ?req)) c =
      bindM (liftM (reply_result r)) (\<lambda>ws. thenM (cache_capability cmd ws) (returnM ws)) c3"
    unfolding transact_exchange_def prod.case thenM_def
    by (subst bindM_Inr, rule first, subst bindM_Inr, rule written, subst bindM_Inr, rule c2,
        subst bindM_Inr, rule catchM_Inr, rule rf, simp add: response_payload_echo [OF wf assms(14)])
  have "bc_transact tr cmd payload timeout observed c =
      bindM (liftM (reply_result r)) (\<lambda>ws. thenM (cache_capability cmd ws) (returnM ws)) c3"
    using assms(1) request exchange by (simp add: bc_transact_parts)
  then show ?thesis
    using c3 cached_parts [OF c3(1,2), of cmd]
    by (cases "reply_result r")
      (force simp: answered_def cached_after_def cache_capability_def thenM_def bindM_def bindE_def split: sum.splits prod.splits)+
qed

text \<open>
  C6.  One transaction is one request and its answer.  If the request respects the negotiated limit and
  the reads made before the deadline deliver, in any pieces and after any noise without \<open>0x5A\<close>, a
  well-formed answer within the limit that echoes the request, then the transaction returns the answer's
  payload, or the error its status or its capabilities call for; it uses the next sequence number,
  leaves nothing in the reader's buffer and caches what a capability answer announces.
\<close>

theorem transaction_returns_answer:
  assumes "payload_limit c cmd = Inr m" "int (length payload) \<le> m" "int (length payload) \<le> 0xFFFF"
    and "u16 (bc_sequence c)" "u16 cmd" "words16 payload" "bc_buffer c = []"
    and "bt_write_all tr (le_bytes (frame_words (client_request (bc_sequence c) cmd payload))) (bc_transport c) = (Inr (), t)"
    and "0 < command_timeout cmd timeout"
    and "reads (bt_read_some tr 4096) (bt_polls tr (command_timeout cmd timeout)) t = map Inr chunks"
    and "0x5A \<notin> set noise" "concat chunks = noise @ le_bytes (frame_words r)"
    and "frame_wf r" "echoes (client_request (bc_sequence c) cmd payload) r" "int (length (fr_payload r)) \<le> m"
  shows "\<exists>c'. bc_transact tr cmd payload timeout observed c = (answered cmd r c, c') \<and>
    bc_sequence c' = succ_sequence (bc_sequence c) \<and> bc_buffer c' = [] \<and>
    (bc_device_info c', bc_protocol_info c') = cached_after cmd r c"
  using assms by (rule transaction_answered)

section \<open>The negotiated limits\<close>

lemma effective_payload_Inr:
  assumes "effective_max_payload_words c = Inr m"
  obtains d p where "bc_device_info c = Some d" "bc_protocol_info c = Some p"
    "m = min (di_max_payload_words d) (pi_max_payload_words p)" "0 < m"
  using assms by (auto simp: effective_max_payload_words_def Let_def min_le_iff_disj not_le
      split: option.splits if_splits)

lemma effective_data_Inr:
  assumes "effective_max_data_words c = Inr n"
  obtains d p where "bc_device_info c = Some d" "bc_protocol_info c = Some p"
    "n = min (di_max_data_words d) (min (di_max_payload_words d) (pi_max_payload_words p) - 5)" "0 < n"
  using assms
  by (auto simp: effective_max_data_words_def Let_def bindE_Inr_iff min_le_iff_disj not_le split: option.splits if_splits
      elim!: effective_payload_Inr)

lemma effective_write_Inr:
  assumes "effective_max_write_data_words c = Inr n"
  obtains k where "effective_max_data_words c = Inr k" "n = k - k mod 8" "0 < n" "n mod 8 = 0"
  using assms
  by (auto simp: effective_max_write_data_words_def Let_def bindE_Inr_iff WRITE_DATA_ALIGNMENT_WORDS_def
      split: if_splits)

lemma blocks_chunks_length:
  "c \<in> set (blocks_chunks n bs) \<Longrightarrow> length (snd c) \<le> n"
  by (auto simp: blocks_chunks_def dest: block_chunks_range)

lemma packet_length:
  assumes "image_wf img" "0 < n" "n mod 8 = 0" "prepare_packets img n = Inr ps" "p \<in> set ps"
  shows "int (length (dp_words p)) \<le> n"
proof -
  have "ps = number_packets 0 (blocks_chunks (nat n) (map pad_block (merged_blocks img)))"
    using assms(4) prepare_packets_closed [OF assms(1-3)] by (auto simp: limit_packets_def split: if_splits)
  then have "dp_words p \<in> set (map snd (blocks_chunks (nat n) (map pad_block (merged_blocks img))))"
    using assms(5) map_number_packets(1) [of 0] by (metis image_eqI list.set_map)
  then show ?thesis
    using assms(2) by (auto dest: blocks_chunks_length)
qed

text \<open>
  C35.  What is sent fits.  When both sides have announced their capabilities, the number of data words
  per Flash packet is a positive multiple of 8 within the target's data limit, every packet of an image
  respects it, and a data request - five words of header and the packet - respects the payload limits
  of both sides, so that no transaction of a Flash transfer is refused for its size.
\<close>

theorem flash_packets_fit:
  assumes "image_wf img" "effective_max_write_data_words c = Inr n" "prepare_packets img n = Inr ps"
    and "p \<in> set ps" "data_payload (dp_address p) (dp_words p) (dp_index p) = Inr payload"
  shows "\<exists>d q. bc_device_info c = Some d \<and> bc_protocol_info c = Some q \<and>
    0 < n \<and> n mod 8 = 0 \<and> n \<le> di_max_data_words d \<and>
    int (length (dp_words p)) \<le> n \<and>
    int (length payload) \<le> di_max_payload_words d \<and> int (length payload) \<le> pi_max_payload_words q \<and>
    (\<exists>m. payload_limit c cmd = Inr m \<and> int (length payload) \<le> m)"
proof -
  obtain k where k: "effective_max_data_words c = Inr k" "n = k - k mod 8" "0 < n" "n mod 8 = 0"
    using assms(2) by (rule effective_write_Inr)
  obtain d q where dq: "bc_device_info c = Some d" "bc_protocol_info c = Some q"
    "k = min (di_max_data_words d) (min (di_max_payload_words d) (pi_max_payload_words q) - 5)" "0 < k"
    using k(1) by (rule effective_data_Inr)
  have nk: "n \<le> k"
    using k(2) dq(4) by simp
  have len: "int (length (dp_words p)) \<le> n"
    using packet_length [OF assms(1) k(3,4) assms(3,4)] .
  have payload: "length payload = 5 + length (dp_words p)"
    using assms(5) halves_Inr by (auto simp: data_payload_def bindE_Inr_iff)
  have "payload_limit c cmd = Inr (min (di_max_payload_words d) (pi_max_payload_words q))"
    using dq by (auto simp: payload_limit_def effective_max_payload_words_def Let_def min_le_iff_disj)
  then show ?thesis
    using dq k(3,4) nk len payload by auto
qed

section \<open>The identity of the target\<close>

definition same_target :: "device_info \<Rightarrow> 't boot_client \<Rightarrow> bool" where
  "same_target d c \<longleftrightarrow>
     (\<exists>d'. bc_device_info c = Some d' \<and> di_device_id d' = di_device_id d \<and> di_cpu_id d' = di_cpu_id d) \<and>
     (\<forall>d' p. bc_device_info c = Some d' \<longrightarrow> bc_protocol_info c = Some p \<longrightarrow>
        pi_protocol_ver p = di_protocol_ver d')"

lemma cached_same_target: "same_target d c \<Longrightarrow> cached cmd ws c = Inr c' \<Longrightarrow> same_target d c'"
  by (auto simp: same_target_def cached_def as_decode_error_def bindE_def split: sum.splits if_splits)

lemma transact_same_target: "keeps_state (same_target d) (bc_transact tr cmd payload timeout observed)"
proof -
  have untouched: "keeps_state (same_target d) (bc_read_frame tr ms m)"
    "keeps_state (same_target d) (on_transport (bt_write_all tr data))" for ms m data
    by (auto simp: keeps_def bc_read_frame_def on_transport_def same_target_def
        split: prod.split sum.split)
  have cache: "keeps_state (same_target d) (cache_capability cmd ws)" for ws
    by (rule keepsI) (auto simp: cache_capability_def cached_same_target split: sum.splits)
  have mods: "keeps_state (same_target d) (modM (\<lambda>c. c\<lparr>bc_sequence := q\<rparr>))"
    "keeps_state (same_target d) (modM (\<lambda>c. c\<lparr>bc_wire_attempts := bc_wire_attempts c @ [cmd]\<rparr>))" for q
    by (simp_all add: keeps_def same_target_def)
  have exchange: "keeps_state (same_target d) (transact_exchange tr cmd timeout observed m x)" for m x
  proof (cases x)
    case (fields q request data)
    show ?thesis
      unfolding fields transact_exchange_def prod.case
      by (intro keeps_state_then keeps_if mods keeps_state_simps untouched keeps_state_bind keeps_catch [OF untouched(1)] cache)
  qed
  show ?thesis
    unfolding bc_transact_parts
    by (intro keeps_state_bind keeps_state_simps exchange)
qed

text \<open>
  The connected target cannot change unnoticed.  Once the client has cached the device information,
  no transaction - whatever the transport delivers, forged device information included - changes the
  cached device or CPU, nor brings the protocol versions of the two capability records apart.
\<close>

theorem cached_target_is_stable:
  assumes "bc_device_info c = Some d"
    and "\<And>p. bc_protocol_info c = Some p \<Longrightarrow> pi_protocol_ver p = di_protocol_ver d"
    and "bc_transact tr cmd payload timeout observed c = (r, c')"
  shows "\<exists>d'. bc_device_info c' = Some d' \<and> di_device_id d' = di_device_id d \<and> di_cpu_id d' = di_cpu_id d \<and>
    (\<forall>p. bc_protocol_info c' = Some p \<longrightarrow> pi_protocol_ver p = di_protocol_ver d')"
proof -
  have "same_target d c"
    using assms(1,2) by (simp add: same_target_def)
  then have "same_target d c'"
    using keepsD(1) [OF transact_same_target _ assms(3)] by blast
  then show ?thesis
    by (auto simp: same_target_def)
qed

end
