(* ===== verification/Metadata_Gates.thy ===== *)
theory Metadata_Gates
  imports Op_Metadata Boot_Spec Upgrade_Example
begin

text \<open>
  The two gates in front of a metadata record: the tool's, which decides from the metadata summary
  whether to send the request, and the simulated device's, which decides whether to write.
\<close>

lemma sim_summary_state:
  assumes "sim_summary s = Inr sm"
  shows "ms_metadata_valid sm = 0 \<or> ms_metadata_valid sm = 1 \<and> ms_state sm = 1"
proof -
  obtain sc pl where pl: "summary_payload_of sc = Inr pl" "length pl = 25" "sm = metadata_summary_of_words pl"
    using assms by (auto simp: sim_summary_def metadata_summary_payload_def metadata_summary_from_words_def
        bindE_Inr_iff check_words_Inr_iff METADATA_SUMMARY_WORDS_def)
  then show ?thesis
    by (auto simp: summary_payload_of_def metadata_summary_of_words_def Let_def split: option.splits)
qed

lemma metadata_state_valid:
  assumes "sim_summary s = Inr sm"
  shows "metadata_state sm = ''VALID'' \<longleftrightarrow> ms_metadata_valid sm \<noteq> 0"
  using sim_summary_state [OF assms] by (auto simp: metadata_state_def)

lemma metadata_state_cases: "metadata_state sm \<in> {''VALID'', ''EMPTY'', ''INVALID''}"
  by (simp add: metadata_state_def)

text \<open>The refusal of the operation that appends a record of the given kind.\<close>

definition append_refusal :: "metadata_record_type \<Rightarrow> metadata_summary \<Rightarrow> (bool \<times> string) option" where
  "append_refusal kind = (if kind = REC_BOOT_ATTEMPT then boot_attempt_refusal else app_confirmed_refusal)"

lemma append_refusal_None:
  assumes "sim_summary s = Inr sm" "words_wf (sim_flash s)" "kind \<noteq> REC_IMAGE_VALID"
  shows "append_refusal kind sm = None \<longleftrightarrow>
    (\<exists>img. image_record (sim_flash s) = Some img \<and> \<not> app_confirmed (sim_flash s) img \<and>
       (if kind = REC_BOOT_ATTEMPT then boot_attempts (sim_flash s) img < 3 else boot_attempts (sim_flash s) img \<noteq> 0))"
proof -
  obtain sm' where sm': "sim_summary s = Inr sm'" "summary_matches (sim_flash s) sm'" "summary_wf sm'"
    using sim_summary_eq [OF assms(2)] by blast
  then have m: "summary_matches (sim_flash s) sm" "ms_boot_attempt_limit sm = 3"
    using assms(1) by (simp_all add: summary_wf_def)
  show ?thesis
    using m metadata_state_valid [OF assms(1)] metadata_state_cases [of sm] assms(3)
    by (cases "image_record (sim_flash s)"; cases kind)
      (auto simp: append_refusal_def boot_attempt_refusal_def app_confirmed_refusal_def Let_def
        summary_matches_def split: if_splits)
qed

lemma current_payload:
  assumes "sim_summary s = Inr sm" "words_wf (sim_flash s)" "image_record (sim_flash s) = Some img"
    and "append_current_payload kind sm = Inr payload"
  shows "payload = append_payload kind img"
proof -
  obtain sm' where "sim_summary s = Inr sm'" "summary_matches (sim_flash s) sm'"
    using sim_summary_eq [OF assms(2)] by blast
  then have m: "summary_matches (sim_flash s) sm"
    using assms(1) by simp
  have w: "u16 (img ! k)" if "k < 64" for k
    using image_record_words [OF assms(3,2)] that by (simp add: words16_nth)
  have p: "append_payload kind img = [metadata_record_type_code kind, boot_slot_code SLOT_SLOT_A,
      img ! 14, img ! 15, img ! 16, img ! 17, img ! 18, img ! 19, 0, 0, 0, 0, 0, 0, 0, 0]"
    by (simp add: append_payload_def image_fields_def upt_rec numeral_eq_Suc)
  show ?thesis
    using assms(3,4) m w [of 14] w [of 15] w [of 16] w [of 17] w [of 18] w [of 19]
    by (auto simp: p append_current_payload_def summary_matches_def u32_words_def halves_def bindE_Inr_iff
        split_join split_u32_Inr_iff)
qed

lemma keeps_flash [simp]:
  "sim_flash (snd (fail_at request st operation stage a l x s)) = sim_flash s"
  "snd (respond request st payload s) = s"
  using fail_at_view [of request st operation stage a l x s]
  by (simp_all add: flash_view_def respond_def liftM_def)

lemma refused_append:
  assumes "sim_summary s = Inr sm" "words_wf (sim_flash s)" "kind \<noteq> REC_IMAGE_VALID"
    and "append_refusal kind sm \<noteq> None \<or> first_free_record (sim_flash s) = None"
    and "append_current_payload kind sm = Inr payload" "fr_payload request = payload"
  shows "sim_flash (snd (h_metadata_append_record request s)) = sim_flash s"
proof -
  obtain sm' where "sim_summary s = Inr sm'" "summary_matches (sim_flash s) sm'" "summary_wf sm'"
    using sim_summary_eq [OF assms(2)] by blast
  then have m: "summary_matches (sim_flash s) sm" "ms_boot_attempt_limit sm = 3"
    using assms(1) by (simp_all add: summary_wf_def)
  obtain a b c d e f where p: "payload = [metadata_record_type_code kind, boot_slot_code SLOT_SLOT_A,
      a, b, c, d, e, f, 0, 0, 0, 0, 0, 0, 0, 0]"
    using assms(5) by (auto simp: append_current_payload_def u32_words_def halves_def bindE_Inr_iff)
  have "h_metadata_append_record request s = append_boot_record request s"
    using assms(3) by (cases kind) (simp_all add: h_metadata_append_record_def assms(6) p Let_def)
  moreover have "sim_flash (snd (append_boot_record request s)) = sim_flash s"
    using assms(1,3,4) m append_refusal_None [OF assms(1-3)]
    by (cases "image_record (sim_flash s)"; cases kind)
      (auto simp: append_boot_record_def assms(6) p Let_def summary_matches_def bindM_def split: if_splits sum.splits)
  ultimately show ?thesis
    by simp
qed

text \<open>
  C36.  The tool and the device decide alike.  On a reachable device that takes service commands, the request
  that the tool derives from the metadata summary for a boot attempt or a confirmation changes the Flash exactly
  when the tool's test of that summary does not refuse it and the journal has a free record: what the tool holds
  back - nothing installed, already confirmed, no attempt left, no attempt yet - would not have been written, and
  what it lets through is written unless the journal is full.
\<close>

theorem append_gates_agree:
  assumes "sim_reachable s" "service_ready s" "kind \<noteq> REC_IMAGE_VALID" "sim_summary s = Inr sm"
    and "append_current_payload kind sm = Inr payload"
    and "app_request CMD_METADATA_APPEND_RECORD payload request"
  shows "sim_flash (snd (transact request s)) \<noteq> sim_flash s \<longleftrightarrow>
    append_refusal kind sm = None \<and> first_free_record (sim_flash s) \<noteq> None"
proof -
  have wf: "sim_wf s"
    by (rule sim_reachable_wf [OF assms(1)])
  then have words: "words_wf (sim_flash s)"
    by (simp add: sim_wf_def)
  have step: "transact request s = h_metadata_append_record request s"
    using transact_app_request [OF assms(6)] assms(2) by simp
  show ?thesis
  proof (cases "append_refusal kind sm \<noteq> None \<or> first_free_record (sim_flash s) = None")
    case True
    then have "sim_flash (snd (h_metadata_append_record request s)) = sim_flash s"
      using assms(6) by (intro refused_append [OF assms(4) words assms(3) _ assms(5)]) (simp_all add: app_request_def)
    then show ?thesis
      using True by (auto simp: step)
  next
    case False
    then obtain img where img: "image_record (sim_flash s) = Some img" "\<not> app_confirmed (sim_flash s) img"
      "if kind = REC_BOOT_ATTEMPT then boot_attempts (sim_flash s) img < 3 else boot_attempts (sim_flash s) img \<noteq> 0"
      using append_refusal_None [OF assms(4) words assms(3)] by blast
    have "payload = append_payload kind img"
      by (rule current_payload [OF assms(4) words img(1) assms(5)])
    then have rq: "app_request CMD_METADATA_APPEND_RECORD (append_payload kind img) request"
      using assms(6) by simp
    have "kind = REC_BOOT_ATTEMPT \<or> kind = REC_APP_CONFIRMED \<and> boot_attempts (sim_flash s) img \<noteq> 0"
      "kind = REC_BOOT_ATTEMPT \<longrightarrow> boot_attempts (sim_flash s) img < 3"
      using img(3) assms(3) by (cases kind; simp)+
    then obtain s' where s': "append_ok kind img s s'"
      "h_metadata_append_record request s = (Inr (reply_frame request ST_OK []), s')"
      using append_boot_ok [OF wf _ img(1,2)] False rq by blast
    then have "sim_flash s' \<noteq> sim_flash s"
      using append_ok_flash(2,3) [OF s'(1) assms(3) img(1)] img(2) assms(3) by (cases kind) auto
    moreover have "append_refusal kind sm = None" "first_free_record (sim_flash s) \<noteq> None"
      using False by blast+
    ultimately show ?thesis
      by (simp add: step s'(2))
  qed
qed

end
