(* ===== verification/Op_Example.thy ===== *)
theory Op_Example
  imports Op_Discipline Op_Transfer Op_Read Metadata_Gates
begin

text \<open>
  Concrete transports on which the statements about the operation layer are applied: a recorder that
  answers nothing, and a target that answers memory reads.
\<close>

section \<open>A recorder\<close>

text \<open>The state is the list of byte strings written; every read finds nothing.\<close>

definition recorder :: "int list list byte_transport" where
  "recorder =
     \<lparr>bt_open = (\<lambda>_. returnM \<lparr>tor_status = TRANSPORT_OPENED, tor_resource_released = False, tor_stage = ''OPEN''\<rparr>),
      bt_close = returnM (), bt_write_all = (\<lambda>data. modM (\<lambda>log. log @ [data])),
      bt_read_some = (\<lambda>n. returnM []), bt_polls = (\<lambda>_. 2)\<rparr>"

definition example_service :: prepared_service_image where
  "example_service =
     \<lparr>ps_image = example_image, ps_header_address = 0x010000, ps_total_words = 3, ps_expected_crc32 = 1,
      ps_required_capabilities = 0\<rparr>"

definition recorder_context :: "int list list flash_context" where
  "recorder_context =
     \<lparr>cx_transport = recorder, cx_target = CPU1_PROFILE, cx_progress = True, cx_cancellation = None,
      cx_service = example_service, cx_force_service_attach = False\<rparr>"

definition recorder_world :: "int list list world" where
  "recorder_world = \<lparr>wd_client = BootProtocolClient [], wd_events = [], wd_asked = 0\<rparr>"

lemma boot_sector_never_erased_witness:
  "list_all harmless_frame (bc_transport (wd_client (run_operations recorder_context
      [Ping, Erase_Sector_Mask 3, Erase_Sector_Mask 0x3FFF, Reset_Target] recorder_world)))"
  using boot_sector_never_erased [of recorder_context "\<lambda>t. t" recorder_world]
  by (simp add: recorder_context_def logs_def recorder_def recorder_world_def BootProtocolClient_def list_all_iff)

section \<open>A transfer that is stopped\<close>

text \<open>Three packets, a cancellation asked for at the third question, sends that do nothing.\<close>

definition three_packets :: "data_packet list" where
  "three_packets = map (\<lambda>k. \<lparr>dp_address = 0x82400 + 8 * int k, dp_words = replicate 8 1, dp_index = int k\<rparr>) [0..<3]"

definition stopped_context :: "int list list op_context" where
  "stopped_context = \<lparr>cx_transport = recorder, cx_target = CPU1_PROFILE, cx_progress = True,
     cx_cancellation = Some (\<lambda>k. k \<ge> 2)\<rparr>"

lemma cancellation_stops_between_packets_witness:
  "run_cancellable_transfer stopped_context (program_spec ''program'' 24) three_packets
      (returnM ()) (\<lambda>_. returnM ()) (returnM ()) recorder_world =
    bindM (thenM (operation_cancellation_requested stopped_context) (thenM (returnM ())
      (thenM (operation_cancellation_requested stopped_context)
        (send_packets stopped_context (program_spec ''program'' 24) (\<lambda>_. returnM ()) (take 1 three_packets) 0))))
      (\<lambda>words. stop_transfer (program_spec ''program'' 24) (returnM ()) words) recorder_world"
proof -
  have c: "cx_cancellation stopped_context = Some (\<lambda>k. k \<ge> 2)"
    by (simp add: stopped_context_def)
  have n: "asks_nothing (returnM () :: (int list list world, unit) sm)"
    by (simp add: asks_nothing_def)
  have w: "wd_asked recorder_world = 0"
    by (simp add: recorder_world_def)
  have k: "1 = packets_before (\<lambda>k. k \<ge> 2) (Suc 0) three_packets"
    by (simp add: three_packets_def upt_rec)
  show ?thesis
    by (subst cancellation_stops_between_packets [OF c n n w _ k]) (simp_all add: three_packets_def)
qed

lemma program_transfer_report_witness:
  "case fst (run_cancellable_transfer stopped_context (program_spec ''program'' (transfer_words three_packets))
      three_packets (returnM ()) (\<lambda>_. returnM ()) (returnM ()) recorder_world) of
    Inl e \<Rightarrow> False
  | Inr outcome \<Rightarrow> (case to_cancellation outcome of
      None \<Rightarrow> to_cleanup_error outcome = None \<and> \<not> to_completed_after_cancel outcome
    | Some c \<Rightarrow> (\<exists>k \<le> length three_packets. ci_current_words c = transfer_words (take k three_packets)) \<and>
        ci_total_words c = transfer_words three_packets \<and>
        (ci_partial_flash_programmed c \<longleftrightarrow> ci_current_words c \<noteq> 0) \<and>
        (ci_erase_before_retry_required c \<longleftrightarrow> ci_current_words c \<noteq> 0) \<and>
        (ci_protocol_state_clean c \<longleftrightarrow> to_cleanup_error outcome = None) \<and>
        (ci_connection_recovery_required c \<longleftrightarrow> to_cleanup_error outcome \<noteq> None))"
  using program_transfer_report [where E = "\<lambda>_. False" and send_begin = "returnM ()" and
      send_data = "\<lambda>_. returnM ()" and send_end = "returnM ()" and ctx = stopped_context and
      operation = "''program''" and ps = three_packets and w = recorder_world]
  by (auto split: sum.splits option.splits)

section \<open>Negotiated limits and identity\<close>

definition example_protocol_info :: protocol_info where
  "example_protocol_info =
     \<lparr>pi_protocol_ver = PROTOCOL_VERSION, pi_min_supported_ver = PROTOCOL_VERSION,
      pi_max_supported_ver = PROTOCOL_VERSION, pi_header_words = HEADER_WORDS,
      pi_crc_type = CRC_TYPE_CCITT_FALSE, pi_endian = ENDIAN_LITTLE, pi_max_payload_words = 256, pi_flags = 0\<rparr>"

definition connected_client :: "int list list boot_client" where
  "connected_client = (BootProtocolClient [])\<lparr>bc_device_info := Some default_device_info,
     bc_protocol_info := Some example_protocol_info\<rparr>"

lemma connected_limits: "effective_max_write_data_words connected_client = Inr 248"
  by (simp add: effective_max_write_data_words_def effective_max_data_words_def effective_max_payload_words_def
      connected_client_def BootProtocolClient_def default_device_info_def example_protocol_info_def
      WRITE_DATA_ALIGNMENT_WORDS_def Let_def)

lemma cached_target_is_stable_witness:
  "\<exists>d'. bc_device_info (snd (bc_transact recorder 1 [] None False connected_client)) = Some d' \<and>
    di_device_id d' = di_device_id default_device_info \<and> di_cpu_id d' = di_cpu_id default_device_info"
  using cached_target_is_stable [OF _ _ surjective_pairing, of connected_client default_device_info recorder 1 "[]" None False]
  by (auto simp: connected_client_def default_device_info_def example_protocol_info_def)

lemma replicate_5: "replicate 5 x = [x, x, x, x, x]"
  by (simp add: eval_nat_numeral)

lemma flash_packets_fit_witness:
  "int (length [lo16 0x82400, hi16 0x82400, 8, lo16 0, hi16 0, 1, 2, 3, 0xFFFF, 0xFFFF, 0xFFFF, 0xFFFF, 0xFFFF]) \<le>
     pi_max_payload_words example_protocol_info"
proof -
  let ?p = "\<lparr>dp_address = 0x82400, dp_words = [1, 2, 3, 0xFFFF, 0xFFFF, 0xFFFF, 0xFFFF, 0xFFFF], dp_index = 0\<rparr>"
  have packets: "prepare_packets example_image 248 = Inr [?p]"
    by (simp add: prepare_packets_closed example_image_wf example_image_merged)
      (simp add: example_image_def blocks_chunks_def block_chunks_Cons pad_words_short limit_packets_def replicate_5)
  have payload: "data_payload (dp_address ?p) (dp_words ?p) (dp_index ?p) =
      Inr [lo16 0x82400, hi16 0x82400, 8, lo16 0, hi16 0, 1, 2, 3, 0xFFFF, 0xFFFF, 0xFFFF, 0xFFFF, 0xFFFF]"
    by (simp add: data_payload_def halves_def u_simps)
  show ?thesis
    using flash_packets_fit [OF example_image_wf connected_limits packets _ payload, of 1]
    by (auto simp: connected_client_def)
qed

section \<open>Metadata\<close>

lemma installed_summary:
  obtains sm where "sim_summary installed_device = Inr sm"
    "append_current_payload REC_BOOT_ATTEMPT sm = Inr (append_payload REC_BOOT_ATTEMPT installed_image)"
proof -
  have words: "words_wf (sim_flash installed_device)"
    using sim_reachable_wf [OF installed_device(1)] by (simp add: sim_wf_def)
  obtain sm where sm: "sim_summary installed_device = Inr sm" "summary_wf sm"
    using sim_summary_eq [OF words] by blast
  have "\<exists>payload. append_current_payload REC_BOOT_ATTEMPT sm = Inr payload"
    using sm(2) by (simp add: append_current_payload_def u32_words_def halves_def summary_wf_def)
  then show thesis
    using that sm(1) current_payload [OF sm(1) words installed_device(3)] by blast
qed

lemma append_gates_agree_witness:
  "\<exists>sm. sim_summary installed_device = Inr sm \<and>
    (sim_flash (snd (transact boot_attempt_request installed_device)) \<noteq> sim_flash installed_device \<longleftrightarrow>
     append_refusal REC_BOOT_ATTEMPT sm = None)"
proof -
  obtain sm where sm: "sim_summary installed_device = Inr sm"
    "append_current_payload REC_BOOT_ATTEMPT sm = Inr (append_payload REC_BOOT_ATTEMPT installed_image)"
    by (rule installed_summary)
  show ?thesis
    using append_gates_agree [OF installed_device(1,2) _ sm installed_requests(1)] sm(1) installed_device_free by auto
qed

section \<open>A target that answers memory reads\<close>

definition memory_answer :: "(int \<Rightarrow> int) \<Rightarrow> frame \<Rightarrow> frame" where
  "memory_answer mem f =
     f\<lparr>fr_packet_type := packet_type_code PKT_RESPONSE,
       fr_payload := take 3 (fr_payload f) @
         memory_words mem (join_u32 (fr_payload f ! 0) (fr_payload f ! 1)) (fr_payload f ! 2)\<rparr>"

definition memory_target :: "(int \<Rightarrow> int) \<Rightarrow> int list byte_transport" where
  "memory_target mem =
     \<lparr>bt_open = (\<lambda>_. returnM \<lparr>tor_status = TRANSPORT_OPENED, tor_resource_released = False, tor_stage = ''OPEN''\<rparr>),
      bt_close = returnM (),
      bt_write_all = (\<lambda>data. modM (\<lambda>_. case decode_frame (words_of_bytes data) 0xFFFF of
        Inl e \<Rightarrow> [] | Inr f \<Rightarrow> le_bytes (frame_words (memory_answer mem f)))),
      bt_read_some = (\<lambda>n pending. (Inr pending, [])), bt_polls = (\<lambda>_. 1)\<rparr>"

text \<open>Both sides announce a payload of 6 words, so that a frame carries 3 words of memory.\<close>

definition small_device_info :: device_info where
  "small_device_info = default_device_info\<lparr>di_max_payload_words := 6\<rparr>"

definition small_client :: "int list boot_client \<Rightarrow> bool" where
  "small_client c \<longleftrightarrow> bc_device_info c = Some small_device_info \<and>
     bc_protocol_info c = Some example_protocol_info \<and> u16 (bc_sequence c) \<and> bc_buffer c = []"

definition memory_context :: "(int \<Rightarrow> int) \<Rightarrow> int list op_context" where
  "memory_context mem = \<lparr>cx_transport = memory_target mem, cx_target = CPU1_PROFILE, cx_progress = False,
     cx_cancellation = None\<rparr>"

abbreviation read_request :: "int list boot_client \<Rightarrow> int \<Rightarrow> int \<Rightarrow> frame" where
  "read_request c a n \<equiv> client_request (bc_sequence c) (command_code CMD_MEMORY_READ) [lo16 a, hi16 a, n, 0]"

lemma memory_exchange:
  assumes "small_client c" "u32 a" "0 < n" "n \<le> 3" "\<And>x. u16 (mem x)"
  shows "payload_limit c (command_code CMD_MEMORY_READ) = Inr 6"
    and "words16 [lo16 a, hi16 a, n, 0]" "frame_wf (memory_answer mem (read_request c a n))"
    and "echoes (read_request c a n) (memory_answer mem (read_request c a n))"
    and "reply_result (memory_answer mem (read_request c a n)) = Inr ([lo16 a, hi16 a, n] @ memory_words mem a n)"
    and "fr_payload (memory_answer mem (read_request c a n)) = [lo16 a, hi16 a, n] @ memory_words mem a n"
    and "bt_write_all (memory_target mem) (le_bytes (frame_words (read_request c a n))) (bc_transport c) =
      (Inr (), le_bytes (frame_words (memory_answer mem (read_request c a n))))"
proof -
  let ?cmd = "command_code CMD_MEMORY_READ" and ?p = "[lo16 a, hi16 a, n, 0]"
  let ?req = "client_request (bc_sequence c) ?cmd ?p"
  let ?r = "memory_answer mem ?req"
  have c: "bc_device_info c = Some small_device_info" "bc_protocol_info c = Some example_protocol_info"
    "u16 (bc_sequence c)" "bc_buffer c = []"
    using assms(1) by (simp_all add: small_client_def)
  have words: "words16 ?p" "words16 (memory_words mem a n)" "u16 ?cmd"
  proof -
    have "u16 n" "u16 0" "u16 0x0230"
      using assms(3,4) by (simp_all add: u_simps)
    then show "words16 ?p" "words16 (memory_words mem a n)" "u16 ?cmd"
      using assms(2,5) by (simp_all add: memory_words_def list_all_iff)
  qed
  have wf: "frame_wf ?req"
    by (rule client_request_wf) (use c words in simp_all)
  have payload: "fr_payload ?r = [lo16 a, hi16 a, n] @ memory_words mem a n"
    by (simp add: memory_answer_def client_request_def)
  have rwf: "frame_wf ?r"
    using wf words assms(3,4) by (simp add: frame_wf_def memory_answer_def client_request_def u_simps)
  have echo: "echoes ?req ?r" "reply_result ?r = Inr (fr_payload ?r)"
    by (simp_all add: echoes_def reply_result_def memory_answer_def client_request_def)
  have limit: "payload_limit c ?cmd = Inr 6"
    by (simp add: payload_limit_def effective_max_payload_words_def c small_device_info_def
        example_protocol_info_def Let_def)
  have sent: "bt_write_all (memory_target mem) (le_bytes (frame_words ?req)) (bc_transport c) =
      (Inr (), le_bytes (frame_words ?r))"
    using decode_encode [OF wf, where m = "0xFFFF"] words16_frame_words [OF wf]
    by (simp add: memory_target_def words_of_le_bytes client_request_def)
  show "payload_limit c ?cmd = Inr 6" "words16 ?p" "frame_wf ?r" "echoes ?req ?r"
    "bt_write_all (memory_target mem) (le_bytes (frame_words ?req)) (bc_transport c) = (Inr (), le_bytes (frame_words ?r))"
    "fr_payload ?r = [lo16 a, hi16 a, n] @ memory_words mem a n"
    by (fact limit words rwf echo sent payload)+
  show "reply_result ?r = Inr ([lo16 a, hi16 a, n] @ memory_words mem a n)"
    using echo(2) payload by simp
qed

lemma memory_transact:
  assumes "small_client c" "u32 a" "0 < n" "n \<le> 3" "\<And>x. u16 (mem x)"
  shows "\<exists>c'. bc_transact (memory_target mem) (command_code CMD_MEMORY_READ) [lo16 a, hi16 a, n, 0] (Some 5000) False c =
    (Inr ([lo16 a, hi16 a, n] @ memory_words mem a n), c') \<and> small_client c'"
proof -
  let ?cmd = "command_code CMD_MEMORY_READ" and ?r = "memory_answer mem (read_request c a n)"
  note x = memory_exchange [where mem = mem, OF assms]
  have c: "bc_device_info c = Some small_device_info" "bc_protocol_info c = Some example_protocol_info"
    "u16 (bc_sequence c)" "bc_buffer c = []"
    using assms(1) by (simp_all add: small_client_def)
  have cached: "cached ?cmd ws c = Inr c" for ws
    by (simp add: cached_def as_decode_error_def)
  have "\<exists>c'. bc_transact (memory_target mem) ?cmd [lo16 a, hi16 a, n, 0] (Some 5000) False c = (answered ?cmd ?r c, c') \<and>
      bc_sequence c' = succ_sequence (bc_sequence c) \<and> bc_buffer c' = [] \<and>
      (bc_device_info c', bc_protocol_info c') = cached_after ?cmd ?r c"
    by (rule transaction_answered [OF x(1) _ _ c(3) _ x(2) c(4) x(7) _ _ _ _ x(3,4),
        where chunks = "[le_bytes (frame_words ?r)]" and noise = "[]"])
      (use assms(3,4) x(6) in \<open>simp_all add: memory_target_def command_timeout_def u_simps\<close>)
  then show ?thesis
    using c x(5,6) succ_sequence_range [of "bc_sequence c"]
    by (auto simp: answered_def cached_after_def cached [simplified] small_client_def)
qed

lemma memory_target_answers:
  assumes "\<And>x. u16 (mem x)"
  shows "answering_reads small_client mem 3 (memory_context mem)"
  unfolding answering_reads_def
proof (intro allI impI keepsI)
  fix a n :: int and w r w'
  assume a: "u32 a" "0 < n" "n \<le> 3" "small_client (wd_client w)"
    "op_send (memory_context mem) F_memory_read (bindE (halves a) (\<lambda>h. Inr (h @ [n, 0]))) w = (r, w')"
  obtain c' where c': "bc_transact (memory_target mem) (command_code CMD_MEMORY_READ) [lo16 a, hi16 a, n, 0]
      (Some 5000) False (wd_client w) = (Inr ([lo16 a, hi16 a, n] @ memory_words mem a n), c')" "small_client c'"
    using memory_transact [where mem = mem, OF a(4,1-3)] assms by blast
  have "Command_of 560 = Some CMD_MEMORY_READ"
    by (simp add: Command_of_def all_commands_def)
  then have "op_send (memory_context mem) F_memory_read (bindE (halves a) (\<lambda>h. Inr (h @ [n, 0]))) w =
      (Inr ([lo16 a, hi16 a, n] @ memory_words mem a n), w\<lparr>wd_client := c'\<rparr>)"
    using a(1) c'(1)
    by (simp add: op_send_def halves_def op_transact_def on_boot_client_def require_command_def memory_context_def
        CPU1_PROFILE_def bindM_def)
  then show "small_client (wd_client w') \<and> (case r of Inl e \<Rightarrow> False
      | Inr payload \<Rightarrow> payload = [lo16 a, hi16 a, n] @ memory_words mem a n)"
    using a(5) c'(2) by auto
qed

definition memory_world :: "int list world" where
  "memory_world = \<lparr>wd_client = (BootProtocolClient [])\<lparr>bc_device_info := Some small_device_info,
     bc_protocol_info := Some example_protocol_info\<rparr>, wd_events = [], wd_asked = 0\<rparr>"

lemma small_preflight: "small_client c \<Longrightarrow> memory_preflight (memory_context mem) c = Inr 6"
  by (simp add: small_client_def memory_preflight_def small_device_info_def default_device_info_def memory_context_def
      CPU1_PROFILE_def effective_max_payload_words_def example_protocol_info_def Let_def)

lemma memory_world_ready: "small_client (wd_client memory_world)"
  by (simp add: small_client_def memory_world_def BootProtocolClient_def u_simps)

lemma low_word: "u16 (x mod 0x10000)"
  by (simp add: u_simps)

text \<open>Eight words at \<open>0x082400\<close>, read in three frames.\<close>

lemma memory_read_succeeds_witness:
  "\<exists>r w'. memory_read (memory_context (\<lambda>x. x mod 0x10000)) \<lparr>mr_start_address = 0x082400, mr_word_count = 8\<rparr> memory_world =
    (Inr r, w') \<and> or_ok r"
  using memory_read_succeeds [OF memory_target_answers, where start = "0x082400" and n = 8, OF low_word low_word]
    small_preflight memory_world_ready
  by (fastforce simp: memory_context_def MemoryReadRequest_def u_simps)

lemma memory_read_returns_range_witness:
  "\<exists>r w'. memory_read (memory_context (\<lambda>x. x mod 0x10000)) \<lparr>mr_start_address = 0x082400, mr_word_count = 8\<rparr> memory_world =
      (Inr r, w') \<and>
    or_details r = [(''words'', PList (map PInt [0x2400, 0x2401, 0x2402, 0x2403, 0x2404, 0x2405, 0x2406, 0x2407]))]"
proof -
  let ?mem = "\<lambda>x::int. x mod 0x10000" and ?req = "\<lparr>mr_start_address = 0x082400, mr_word_count = 8\<rparr>"
  obtain r w' where r: "memory_read (memory_context ?mem) ?req memory_world = (Inr r, w')" "or_ok r"
    using memory_read_total [OF memory_target_answers, where start = "0x082400" and n = 8, OF low_word low_word]
      small_preflight memory_world_ready
    by (fastforce simp: memory_context_def MemoryReadRequest_def u_simps)
  have "or_details r = [(''words'', PList (map PInt (memory_words ?mem 0x082400 8)))]"
    using memory_read_returns_range [OF answering_honest [OF memory_target_answers], OF low_word _ _ memory_world_ready r]
      small_preflight by auto
  also have "memory_words ?mem 0x082400 8 = [0x2400, 0x2401, 0x2402, 0x2403, 0x2404, 0x2405, 0x2406, 0x2407]"
    by (simp add: memory_words_def upt_rec)
  finally show ?thesis
    using r(1) by blast
qed

lemma u16_numerals: "u16 0x0230" "u16 2" "u16 0"
  by (simp_all add: u_simps)

lemma transaction_returns_answer_witness:
  "\<exists>c'. bc_transact (memory_target (\<lambda>x. x mod 0x10000)) (command_code CMD_MEMORY_READ) [lo16 0x082400, hi16 0x082400, 2, 0]
      (Some 5000) True (wd_client memory_world) = (Inr [lo16 0x082400, hi16 0x082400, 2, 0x2400, 0x2401], c')"
proof -
  let ?mem = "\<lambda>x::int. x mod 0x10000" and ?c = "wd_client memory_world" and ?cmd = "command_code CMD_MEMORY_READ"
  let ?r = "memory_answer ?mem (read_request ?c 0x082400 2)"
  have a: "u32 0x082400"
    by (simp add: u_simps)
  note x = memory_exchange [where mem = ?mem, OF memory_world_ready a _ _ low_word, of 2, simplified]
  have c: "u16 (bc_sequence ?c)" "bc_buffer ?c = []" "cached ?cmd ws ?c = Inr ?c" for ws
    by (simp_all add: memory_world_def BootProtocolClient_def u_simps cached_def as_decode_error_def)
  have "\<exists>c'. bc_transact (memory_target ?mem) ?cmd [lo16 0x082400, hi16 0x082400, 2, 0] (Some 5000) True ?c =
      (answered ?cmd ?r ?c, c') \<and>
      bc_sequence c' = succ_sequence (bc_sequence ?c) \<and> bc_buffer c' = [] \<and>
      (bc_device_info c', bc_protocol_info c') = cached_after ?cmd ?r ?c"
    by (rule transaction_returns_answer [where chunks = "[le_bytes (frame_words ?r)]" and noise = "[]" and m = 6])
      (use x c(1,2) in \<open>simp_all add: memory_target_def command_timeout_def u16_numerals\<close>)
  then show ?thesis
    using x c(3) by (auto simp: answered_def memory_words_def upt_rec)
qed

end
