(* ===== verification/Runtime_State.thy ===== *)
theory Runtime_State
  imports Images
begin

text \<open>
  The data of the runtime state kernel of the front end (\<open>gui/runtime_v2_models.py\<close>): what the tool
  believes about the connection, the images chosen for the two CPUs, the evidence that one was verified,
  the memory read last, and how fresh each of these is.  A class is a record; the definition with the
  name of the class is its \<open>__post_init__\<close>: it takes the fields and returns the object or raises.  Checks
  that a field has the class it is declared with are the types here.

  A \<open>datetime\<close> is its instant in microseconds and its offset from UTC, \<open>None\<close> for a naive one.
  Mappings given as \<open>details\<close> are string-keyed by their type and need no freezing.
\<close>

named_theorems runtime_simps \<open>unfolding of the checks of the runtime classes\<close>

section \<open>Times and values\<close>

record datetime =
  dt_instant :: int
  dt_utcoffset :: "int option"

definition is_utc :: "datetime \<Rightarrow> bool" where
  "is_utc t \<longleftrightarrow> dt_utcoffset t = Some 0"

text \<open>
  The objects a state can be given: scalars, containers, instances of frozen data classes (class name
  and fields) and anything else, by its class name.  They are finite trees, so that the guard of the
  code against cyclic values has nothing to do here.
\<close>

datatype runtime_value =
    RNone
  | RScalar pyval
  | REnum string string
  | RDatetime datetime
  | RDict "(runtime_value \<times> runtime_value) list"
  | RMappingProxy "(runtime_value \<times> runtime_value) list"
  | RTuple "runtime_value list"
  | RList "runtime_value list"
  | RFrozen string "(string \<times> runtime_value) list"
  | ROther string

fun freeze_runtime_value :: "runtime_value \<Rightarrow> runtime_value res"
and freeze_items :: "(runtime_value \<times> runtime_value) list \<Rightarrow> (runtime_value \<times> runtime_value) list res"
and freeze_sequence :: "runtime_value list \<Rightarrow> runtime_value list res"
and freeze_fields :: "(string \<times> runtime_value) list \<Rightarrow> (string \<times> runtime_value) list res" where
  "freeze_runtime_value RNone = Inr RNone"
| "freeze_runtime_value (RScalar v) = Inr (RScalar v)"
| "freeze_runtime_value (REnum c m) = Inr (REnum c m)"
| "freeze_runtime_value (RDatetime t) = Inr (RDatetime t)"
| "freeze_runtime_value (RDict items) = bindE (freeze_items items) (\<lambda>x. Inr (RMappingProxy x))"
| "freeze_runtime_value (RMappingProxy items) = bindE (freeze_items items) (\<lambda>x. Inr (RMappingProxy x))"
| "freeze_runtime_value (RTuple vs) = bindE (freeze_sequence vs) (\<lambda>x. Inr (RTuple x))"
| "freeze_runtime_value (RList vs) = bindE (freeze_sequence vs) (\<lambda>x. Inr (RTuple x))"
| "freeze_runtime_value (RFrozen c fs) = bindE (freeze_fields fs) (\<lambda>x. Inr (RFrozen c x))"
| "freeze_runtime_value (ROther c) = Inl (OtherError ''TypeError'' ''unsupported mutable Runtime V2 value'')"
| "freeze_items [] = Inr []"
| "freeze_items ((k, v) # items) =
     bindE (freeze_runtime_value v) (\<lambda>x. bindE (freeze_items items) (\<lambda>y. Inr ((k, x) # y)))"
| "freeze_sequence [] = Inr []"
| "freeze_sequence (v # vs) =
     bindE (freeze_runtime_value v) (\<lambda>x. bindE (freeze_sequence vs) (\<lambda>y. Inr (x # y)))"
| "freeze_fields [] = Inr []"
| "freeze_fields ((n, v) # fs) =
     bindE (freeze_runtime_value v) (\<lambda>x. bindE (freeze_fields fs) (\<lambda>y. Inr ((n, x) # y)))"

text \<open>What may be shared: no mutable container and no unknown object anywhere inside.\<close>

fun immutable_value :: "runtime_value \<Rightarrow> bool" where
  "immutable_value RNone = True"
| "immutable_value (RScalar v) = True"
| "immutable_value (REnum c m) = True"
| "immutable_value (RDatetime t) = True"
| "immutable_value (RDict items) = False"
| "immutable_value (RMappingProxy items) = list_all (\<lambda>(k, v). immutable_value v) items"
| "immutable_value (RTuple vs) = list_all immutable_value vs"
| "immutable_value (RList vs) = False"
| "immutable_value (RFrozen c fs) = list_all (\<lambda>(n, v). immutable_value v) fs"
| "immutable_value (ROther c) = False"

lemma freeze_immutable:
  "freeze_runtime_value v = Inr v' \<Longrightarrow> immutable_value v'"
  "freeze_items items = Inr items' \<Longrightarrow> list_all (\<lambda>(k, v). immutable_value v) items'"
  "freeze_sequence vs = Inr vs' \<Longrightarrow> list_all immutable_value vs'"
  "freeze_fields fs = Inr fs' \<Longrightarrow> list_all (\<lambda>(n, v). immutable_value v) fs'"
  by (induction v and items and vs and fs arbitrary: v' and items' and vs' and fs'
      rule: freeze_runtime_value_freeze_items_freeze_sequence_freeze_fields.induct)
    (auto simp: bindE_Inr_iff)

lemma freeze_id:
  "immutable_value v \<Longrightarrow> freeze_runtime_value v = Inr v"
  "list_all (\<lambda>(k, v). immutable_value v) items \<Longrightarrow> freeze_items items = Inr items"
  "list_all immutable_value vs \<Longrightarrow> freeze_sequence vs = Inr vs"
  "list_all (\<lambda>(n, v). immutable_value v) fs \<Longrightarrow> freeze_fields fs = Inr fs"
  by (induction v and items and vs and fs
      rule: freeze_runtime_value_freeze_items_freeze_sequence_freeze_fields.induct) auto

lemma freeze_keeps_None: "freeze_runtime_value v = Inr RNone \<longleftrightarrow> v = RNone"
  by (cases v) (auto simp: bindE_Inr_iff)

section \<open>Small classes\<close>

datatype runtime_cpu = CPU1 | CPU2

definition from_target_key :: "string \<Rightarrow> runtime_cpu res" where
  "from_target_key target_key =
     (if target_key = ''cpu1'' then Inr CPU1
      else if target_key = ''cpu2'' then Inr CPU2
      else Inl (ValueError (''target_key must be 'cpu1' or 'cpu2'' @ [CHR 0x27])))"

type_synonym connection_generation = int

definition ConnectionGeneration :: "int \<Rightarrow> connection_generation res" where
  "ConnectionGeneration v =
     (if v < 0 then Inl (ValueError ''connection generation must be a non-negative integer'') else Inr v)"

definition next_generation :: "connection_generation \<Rightarrow> connection_generation res" where
  "next_generation v = ConnectionGeneration (v + 1)"

datatype image_parse_status = PARSE_EMPTY | PARSE_PARSING | PARSE_READY | PARSE_ERROR

datatype data_freshness = DATA_EMPTY | DATA_FRESH | DATA_STALE

datatype connection_health = HEALTH_UNKNOWN | HEALTH_HEALTHY | HEALTH_UNHEALTHY

datatype diagnostic_group = DIAG_DEVICE_INFO | DIAG_PROTOCOL_INFO | DIAG_LAST_ERROR

datatype erase_scope = REQUIRED_APP_SECTORS | ENTIRE_APPLICATION_REGION | CUSTOM_SECTORS

definition non_empty :: "string \<Rightarrow> string \<Rightarrow> unit res" where
  "non_empty v message = (if v = [] then Inl (ValueError message) else Inr ())"

definition non_negative :: "int \<Rightarrow> string \<Rightarrow> unit res" where
  "non_negative v message = (if v < 0 then Inl (ValueError message) else Inr ())"

definition require_utc :: "datetime \<Rightarrow> string \<Rightarrow> unit res" where
  "require_utc t message = (if is_utc t then Inr () else Inl (ValueError message))"

record runtime_read_error =
  re_code :: string
  re_message :: string
  re_stage :: string

definition RuntimeReadError :: "runtime_read_error \<Rightarrow> runtime_read_error res" where
  "RuntimeReadError e =
     bindE (non_empty (re_code e) ''code must be a non-empty string'') (\<lambda>_.
     bindE (non_empty (re_message e) ''message must be a non-empty string'') (\<lambda>_.
     bindE (non_empty (re_stage e) ''stage must be a non-empty string'') (\<lambda>_. Inr e)))"

lemma small_checks [runtime_simps]:
  "non_empty v m = Inr () \<longleftrightarrow> v \<noteq> []"
  "non_negative n m = Inr () \<longleftrightarrow> 0 \<le> n"
  "require_utc t m = Inr () \<longleftrightarrow> is_utc t"
  by (auto simp: non_empty_def non_negative_def require_utc_def)

lemma ConnectionGeneration_Inr [runtime_simps]: "ConnectionGeneration v = Inr g \<longleftrightarrow> g = v \<and> 0 \<le> v"
  by (auto simp: ConnectionGeneration_def)

section \<open>What was read from the target\<close>

record metadata_runtime_state =
  mrs_value :: runtime_value
  mrs_freshness :: data_freshness
  mrs_read_error :: "runtime_read_error option"

definition MetadataRuntimeState :: "metadata_runtime_state \<Rightarrow> metadata_runtime_state res" where
  "MetadataRuntimeState s =
     (if mrs_freshness s = DATA_FRESH \<and> mrs_value s = RNone
      then Inl (ValueError ''FRESH Metadata state requires a value'')
      else bindE (freeze_runtime_value (mrs_value s)) (\<lambda>v. Inr (s\<lparr>mrs_value := v\<rparr>)))"

definition empty_metadata :: metadata_runtime_state where
  "empty_metadata = \<lparr>mrs_value = RNone, mrs_freshness = DATA_EMPTY, mrs_read_error = None\<rparr>"

record diagnostic_runtime_state =
  ds_group :: diagnostic_group
  ds_value :: runtime_value
  ds_freshness :: data_freshness
  ds_read_error :: "runtime_read_error option"

definition DiagnosticRuntimeState :: "diagnostic_runtime_state \<Rightarrow> diagnostic_runtime_state res" where
  "DiagnosticRuntimeState s =
     (if ds_freshness s = DATA_FRESH \<and> ds_value s = RNone
      then Inl (ValueError ''FRESH Diagnostics state requires a value'')
      else bindE (freeze_runtime_value (ds_value s)) (\<lambda>v. Inr (s\<lparr>ds_value := v\<rparr>)))"

definition empty_diagnostic :: "diagnostic_group \<Rightarrow> diagnostic_runtime_state" where
  "empty_diagnostic grp =
     \<lparr>ds_group = grp, ds_value = RNone, ds_freshness = DATA_EMPTY, ds_read_error = None\<rparr>"

record diagnostics_runtime_state =
  dg_device_info :: diagnostic_runtime_state
  dg_protocol_info :: diagnostic_runtime_state
  dg_last_error :: diagnostic_runtime_state

definition group_state :: "diagnostics_runtime_state \<Rightarrow> diagnostic_group \<Rightarrow> diagnostic_runtime_state" where
  "group_state s grp =
     (case grp of DIAG_DEVICE_INFO \<Rightarrow> dg_device_info s
      | DIAG_PROTOCOL_INFO \<Rightarrow> dg_protocol_info s | DIAG_LAST_ERROR \<Rightarrow> dg_last_error s)"

text \<open>\<open>replace(current, **{group.value: state})\<close>, before the checks.\<close>

definition with_group :: "diagnostic_group \<Rightarrow> diagnostic_runtime_state \<Rightarrow>
    diagnostics_runtime_state \<Rightarrow> diagnostics_runtime_state" where
  "with_group grp d s =
     (case grp of DIAG_DEVICE_INFO \<Rightarrow> s\<lparr>dg_device_info := d\<rparr>
      | DIAG_PROTOCOL_INFO \<Rightarrow> s\<lparr>dg_protocol_info := d\<rparr> | DIAG_LAST_ERROR \<Rightarrow> s\<lparr>dg_last_error := d\<rparr>)"

definition DiagnosticsRuntimeState :: "diagnostics_runtime_state \<Rightarrow> diagnostics_runtime_state res" where
  "DiagnosticsRuntimeState s =
     (if list_ex (\<lambda>grp. ds_group (group_state s grp) \<noteq> grp)
           [DIAG_DEVICE_INFO, DIAG_PROTOCOL_INFO, DIAG_LAST_ERROR]
      then Inl (ValueError ''state has the wrong group'') else Inr s)"

definition empty_diagnostics :: diagnostics_runtime_state where
  "empty_diagnostics =
     \<lparr>dg_device_info = empty_diagnostic DIAG_DEVICE_INFO,
      dg_protocol_info = empty_diagnostic DIAG_PROTOCOL_INFO,
      dg_last_error = empty_diagnostic DIAG_LAST_ERROR\<rparr>"

section \<open>Images and evidence\<close>

record flash_image_summary =
  fs_identity :: image_identity
  fs_sector_mask :: int

definition FlashImageSummary :: "flash_image_summary \<Rightarrow> flash_image_summary res" where
  "FlashImageSummary s =
     bindE (non_negative (fs_sector_mask s) ''sector_mask must be a non-negative integer'') (\<lambda>_. Inr s)"

record ram_image_summary =
  rs_identity :: ram_image_identity

record verify_evidence =
  ve_cpu_id :: runtime_cpu
  ve_generation :: connection_generation
  ve_identity :: image_identity
  ve_operation_id :: string

definition VerifyEvidence :: "verify_evidence \<Rightarrow> verify_evidence res" where
  "VerifyEvidence e =
     bindE (non_empty (ve_operation_id e) ''operation_id must be a non-empty string'') (\<lambda>_. Inr e)"

record ram_crc_evidence =
  ce_cpu_id :: runtime_cpu
  ce_generation :: connection_generation
  ce_identity :: ram_image_identity
  ce_entry_point :: int
  ce_image_crc32 :: int
  ce_operation_id :: string

definition RamCrcEvidence :: "ram_crc_evidence \<Rightarrow> ram_crc_evidence res" where
  "RamCrcEvidence e =
     bindE (non_negative (ce_entry_point e) ''entry_point must be a non-negative integer'') (\<lambda>_.
     bindE (non_negative (ce_image_crc32 e) ''image_crc32 must be a non-negative integer'') (\<lambda>_.
     if ce_entry_point e \<noteq> ri_entry_point (ce_identity e)
     then Inl (ValueError ''entry_point must match ram_image_identity'')
     else if ce_image_crc32 e \<noteq> ri_image_crc32 (ce_identity e)
     then Inl (ValueError ''image_crc32 must match ram_image_identity'')
     else bindE (non_empty (ce_operation_id e) ''operation_id must be a non-empty string'') (\<lambda>_. Inr e)))"

definition validate_parse_state :: "image_parse_status \<Rightarrow> 'a option \<Rightarrow> string option \<Rightarrow> unit res" where
  "validate_parse_state status summary error =
     (case status of
        PARSE_READY \<Rightarrow>
          if summary = None \<or> error \<noteq> None
          then Inl (ValueError ''READY state requires a summary and no error'') else Inr ()
      | PARSE_ERROR \<Rightarrow>
          if summary \<noteq> None \<or> error = None \<or> error = Some []
          then Inl (ValueError ''ERROR state requires a non-empty error and no summary'') else Inr ()
      | _ \<Rightarrow>
          if summary \<noteq> None \<or> error \<noteq> None
          then Inl (ValueError ''state cannot carry a summary or error'') else Inr ())"

record target_resource =
  tr_cpu_id :: runtime_cpu
  tr_program_image_path :: string
  tr_program_image_summary :: "flash_image_summary option"
  tr_program_image_parse_status :: image_parse_status
  tr_program_image_parse_error :: "string option"
  tr_ram_image_path :: string
  tr_ram_image_summary :: "ram_image_summary option"
  tr_ram_image_parse_status :: image_parse_status
  tr_ram_image_parse_error :: "string option"
  tr_erase_scope :: erase_scope
  tr_custom_sector_mask :: int
  tr_verify_evidence :: "verify_evidence option"
  tr_ram_crc_evidence :: "ram_crc_evidence option"

definition TargetResourceState :: "target_resource \<Rightarrow> target_resource res" where
  "TargetResourceState s =
     bindE (validate_parse_state (tr_program_image_parse_status s) (tr_program_image_summary s)
       (tr_program_image_parse_error s)) (\<lambda>_.
     bindE (validate_parse_state (tr_ram_image_parse_status s) (tr_ram_image_summary s)
       (tr_ram_image_parse_error s)) (\<lambda>_.
     bindE (non_negative (tr_custom_sector_mask s) ''custom_sector_mask must be a non-negative integer'') (\<lambda>_.
     if (case tr_verify_evidence s of None \<Rightarrow> False | Some e \<Rightarrow> ve_cpu_id e \<noteq> tr_cpu_id s)
     then Inl (ValueError ''verify evidence CPU does not match resource CPU'')
     else if (case tr_ram_crc_evidence s of None \<Rightarrow> False | Some e \<Rightarrow> ce_cpu_id e \<noteq> tr_cpu_id s)
     then Inl (ValueError ''RAM CRC evidence CPU does not match resource CPU'')
     else Inr s)))"

definition empty_resource :: "runtime_cpu \<Rightarrow> target_resource" where
  "empty_resource cpu =
     \<lparr>tr_cpu_id = cpu, tr_program_image_path = [], tr_program_image_summary = None,
      tr_program_image_parse_status = PARSE_EMPTY, tr_program_image_parse_error = None,
      tr_ram_image_path = [], tr_ram_image_summary = None,
      tr_ram_image_parse_status = PARSE_EMPTY, tr_ram_image_parse_error = None,
      tr_erase_scope = REQUIRED_APP_SECTORS, tr_custom_sector_mask = 0,
      tr_verify_evidence = None, tr_ram_crc_evidence = None\<rparr>"

section \<open>The connection\<close>

text \<open>\<open>ConnectionInfo\<close> of \<open>gui/runtime_models.py\<close>.\<close>

record connection_info =
  co_connection_id :: string
  co_transport_label :: string
  co_endpoint_label :: string
  co_connected_at :: datetime
  co_target_key :: string
  co_details :: pydict

definition ConnectionInfo :: "connection_info \<Rightarrow> connection_info res" where
  "ConnectionInfo c =
     bindE (require_utc (co_connected_at c) ''connected_at must be UTC'') (\<lambda>_.
     if co_target_key c \<notin> {''cpu1'', ''cpu2''}
     then Inl (ValueError (''target_key must be 'cpu1' or 'cpu2'' @ [CHR 0x27]))
     else Inr c)"

record runtime_communication_error =
  rc_code :: string
  rc_message :: string
  rc_stage :: string
  rc_occurred_at :: datetime
  rc_details :: pydict

definition RuntimeCommunicationError ::
  "runtime_communication_error \<Rightarrow> runtime_communication_error res" where
  "RuntimeCommunicationError e =
     bindE (non_empty (rc_code e) ''code must be a non-empty string'') (\<lambda>_.
     bindE (non_empty (rc_message e) ''message must be a non-empty string'') (\<lambda>_.
     bindE (non_empty (rc_stage e) ''stage must be a non-empty string'') (\<lambda>_.
     bindE (require_utc (rc_occurred_at e) ''occurred_at must be timezone-aware UTC'') (\<lambda>_. Inr e))))"

record connection_runtime_state =
  cr_generation :: connection_generation
  cr_connection_id :: string
  cr_cpu_id :: runtime_cpu
  cr_transport_label :: string
  cr_endpoint_label :: string
  cr_connected_at :: datetime
  cr_last_protocol_activity :: "datetime option"
  cr_health_state :: connection_health
  cr_health_checked_at :: "datetime option"
  cr_health_error :: "runtime_read_error option"
  cr_last_communication_error :: "runtime_communication_error option"

definition ConnectionRuntimeState :: "connection_runtime_state \<Rightarrow> connection_runtime_state res" where
  "ConnectionRuntimeState s =
     bindE (non_empty (cr_connection_id s) ''connection_id must be a non-empty string'') (\<lambda>_.
     bindE (non_empty (cr_transport_label s) ''transport_label must be a non-empty string'') (\<lambda>_.
     bindE (non_empty (cr_endpoint_label s) ''endpoint_label must be a non-empty string'') (\<lambda>_.
     bindE (require_utc (cr_connected_at s) ''connected_at must be timezone-aware UTC'') (\<lambda>_.
     let activity = (case cr_last_protocol_activity s of None \<Rightarrow> cr_connected_at s | Some t \<Rightarrow> t) in
     bindE (require_utc activity ''last_protocol_activity must be timezone-aware UTC'') (\<lambda>_.
     if dt_instant activity < dt_instant (cr_connected_at s)
     then Inl (ValueError ''last_protocol_activity must not precede connected_at'')
     else if (case cr_health_checked_at s of None \<Rightarrow> False | Some t \<Rightarrow> \<not> is_utc t)
     then Inl (ValueError ''health_checked_at must be timezone-aware UTC or None'')
     else if cr_health_state s = HEALTH_UNKNOWN \<and> cr_health_error s \<noteq> None
     then Inl (ValueError ''UNKNOWN connection health cannot carry an error'')
     else if cr_health_state s = HEALTH_HEALTHY
       \<and> (cr_health_checked_at s = None \<or> cr_health_error s \<noteq> None)
     then Inl (ValueError ''HEALTHY connection health requires a check time and no error'')
     else if cr_health_state s = HEALTH_UNHEALTHY
       \<and> (cr_health_checked_at s = None \<or> cr_health_error s = None)
     then Inl (ValueError ''UNHEALTHY connection health requires a check time and error'')
     else Inr (s\<lparr>cr_last_protocol_activity := Some activity\<rparr>))))))"

definition from_connection_info ::
  "connection_info \<Rightarrow> connection_generation \<Rightarrow> connection_runtime_state res" where
  "from_connection_info info generation =
     bindE (from_target_key (co_target_key info)) (\<lambda>cpu.
       ConnectionRuntimeState
         \<lparr>cr_generation = generation, cr_connection_id = co_connection_id info, cr_cpu_id = cpu,
          cr_transport_label = co_transport_label info, cr_endpoint_label = co_endpoint_label info,
          cr_connected_at = co_connected_at info, cr_last_protocol_activity = None,
          cr_health_state = HEALTH_UNKNOWN, cr_health_checked_at = None, cr_health_error = None,
          cr_last_communication_error = None\<rparr>)"

section \<open>The memory read last\<close>

record memory_runtime_state =
  mm_cpu_id :: runtime_cpu
  mm_freshness :: data_freshness
  mm_base_address :: "int option"
  mm_words :: "int list"
  mm_read_at :: "datetime option"
  mm_generation :: "connection_generation option"
  mm_read_error :: "runtime_read_error option"

definition MemoryRuntimeState :: "memory_runtime_state \<Rightarrow> memory_runtime_state res" where
  "MemoryRuntimeState s =
     bindE (case mm_base_address s of None \<Rightarrow> Inr ()
            | Some a \<Rightarrow> non_negative a ''base_address must be a non-negative integer'') (\<lambda>_.
     if (case mm_read_at s of None \<Rightarrow> False | Some t \<Rightarrow> \<not> is_utc t)
     then Inl (ValueError ''read_at must be timezone-aware UTC or None'')
     else if \<not> words16 (mm_words s)
     then Inl (ValueError ''words must contain only 16-bit unsigned integers'')
     else if mm_freshness s = DATA_EMPTY
     then (if mm_base_address s \<noteq> None \<or> mm_words s \<noteq> [] \<or> mm_read_at s \<noteq> None \<or> mm_generation s \<noteq> None
           then Inl (ValueError ''EMPTY memory state cannot carry retained data'') else Inr s)
     else if mm_base_address s = None \<or> mm_words s = [] \<or> mm_read_at s = None \<or> mm_generation s = None
     then Inl (ValueError ''memory state requires retained data'')
     else if mm_freshness s = DATA_FRESH \<and> mm_read_error s \<noteq> None
     then Inl (ValueError ''FRESH memory state cannot carry a read error'')
     else Inr s)"

definition word_count :: "memory_runtime_state \<Rightarrow> int" where
  "word_count s = int (length (mm_words s))"

definition empty_memory :: "runtime_cpu \<Rightarrow> memory_runtime_state" where
  "empty_memory cpu =
     \<lparr>mm_cpu_id = cpu, mm_freshness = DATA_EMPTY, mm_base_address = None, mm_words = [],
      mm_read_at = None, mm_generation = None, mm_read_error = None\<rparr>"

section \<open>The whole state\<close>

record runtime_v2 =
  rv_generation :: connection_generation
  rv_connection :: "connection_runtime_state option"
  rv_resources :: "runtime_cpu \<rightharpoonup> target_resource"
  rv_memories :: "runtime_cpu \<rightharpoonup> memory_runtime_state"
  rv_metadata :: metadata_runtime_state
  rv_diagnostics :: diagnostics_runtime_state

definition key_matches :: "(runtime_cpu \<rightharpoonup> 'a) \<Rightarrow> ('a \<Rightarrow> runtime_cpu) \<Rightarrow> runtime_cpu \<Rightarrow> bool" where
  "key_matches m cpu_of cpu = (case m cpu of None \<Rightarrow> True | Some s \<Rightarrow> cpu_of s = cpu)"

definition RuntimeV2Snapshot :: "runtime_v2 \<Rightarrow> runtime_v2 res" where
  "RuntimeV2Snapshot s =
     (if (case rv_connection s of None \<Rightarrow> False | Some c \<Rightarrow> cr_generation c \<noteq> rv_generation s)
      then Inl (ValueError ''active connection generation must match snapshot generation'')
      else if list_ex (\<lambda>cpu. rv_resources s cpu = None \<or> rv_memories s cpu = None) [CPU1, CPU2]
      then Inl (ValueError ''Runtime V2 mappings must contain exactly CPU1 and CPU2'')
      else if \<not> list_all (key_matches (rv_resources s) tr_cpu_id) [CPU1, CPU2]
      then Inl (ValueError ''target resource CPU does not match its key'')
      else if \<not> list_all (key_matches (rv_memories s) mm_cpu_id) [CPU1, CPU2]
      then Inl (ValueError ''memory state CPU does not match its key'')
      else Inr s)"

end
