(* ===== verification/Runtime_Events.thy ===== *)
theory Runtime_Events
  imports Runtime_State
begin

text \<open>
  The events of the runtime state kernel (\<open>gui/runtime_v2_events.py\<close>).  The constructors of
  \<open>domain_event\<close> are the event classes; the definition with the name of a class is its constructor with
  the checks of \<open>__post_init__\<close>, and \<open>event_ok\<close> says that an event is one a constructor returned.
\<close>

datatype runtime_operation_type = OP_TYPE_ERASE | OP_TYPE_PROGRAM | OP_TYPE_VERIFY | OP_TYPE_RAM_LOAD | OP_TYPE_RAM_CRC

datatype operation_identity = NoIdentity | FlashIdentity image_identity | RamIdentity ram_image_identity

datatype domain_event =
    EvMetadataReadSucceeded runtime_cpu connection_generation runtime_value
  | EvMetadataReadFailed runtime_cpu connection_generation runtime_read_error
  | EvMetadataWriteStarted string runtime_cpu connection_generation "image_identity option"
  | EvDiagnosticReadSucceeded runtime_cpu connection_generation diagnostic_group runtime_value
  | EvDiagnosticReadFailed runtime_cpu connection_generation diagnostic_group runtime_read_error
  | EvMemoryReadSucceeded runtime_cpu connection_generation int "int list" datetime
  | EvMemoryReadFailed runtime_cpu connection_generation runtime_read_error
  | EvMemoryCleared runtime_cpu
  | EvActiveTargetChanged "runtime_cpu option"
  | EvProgramImageChanged runtime_cpu string image_parse_status "flash_image_summary option" "string option"
  | EvRamImageChanged runtime_cpu string image_parse_status "ram_image_summary option" "string option"
  | EvSectorSelectionChanged runtime_cpu erase_scope int
  | EvConnectionOpened connection_info
  | EvConnectionClosed string connection_generation
  | EvConnectionGenerationChanged connection_generation connection_generation
  | EvProtocolActivityRecorded connection_generation datetime
  | EvConnectionHealthChanged connection_generation connection_health datetime "runtime_read_error option"
  | EvCommunicationErrorRecorded connection_generation runtime_communication_error
  | EvOperationStarted string runtime_operation_type runtime_cpu connection_generation operation_identity
  | EvOperationSucceeded string runtime_operation_type runtime_cpu connection_generation operation_identity
  | EvOperationFailed string runtime_operation_type runtime_cpu connection_generation operation_identity string
  | EvSessionChanged

definition require_identifier :: "string \<Rightarrow> unit res" where
  "require_identifier v = non_empty v ''must be a non-empty string''"

definition check_operation_identity ::
  "string \<Rightarrow> runtime_operation_type \<Rightarrow> operation_identity \<Rightarrow> unit res" where
  "check_operation_identity operation_id operation_type identity =
     bindE (require_identifier operation_id) (\<lambda>_.
     case operation_type of
       OP_TYPE_ERASE \<Rightarrow>
         (case identity of RamIdentity _ \<Rightarrow>
            Inl (OtherError ''TypeError'' ''ERASE image_identity must be ImageIdentity or None'')
          | _ \<Rightarrow> Inr ())
     | OP_TYPE_PROGRAM \<Rightarrow>
         (case identity of FlashIdentity _ \<Rightarrow> Inr ()
          | _ \<Rightarrow> Inl (OtherError ''TypeError'' ''PROGRAM image_identity must be ImageIdentity''))
     | OP_TYPE_VERIFY \<Rightarrow>
         (case identity of FlashIdentity _ \<Rightarrow> Inr ()
          | _ \<Rightarrow> Inl (OtherError ''TypeError'' ''VERIFY image_identity must be ImageIdentity''))
     | _ \<Rightarrow>
         (case identity of RamIdentity _ \<Rightarrow> Inr ()
          | _ \<Rightarrow> Inl (OtherError ''TypeError'' ''image_identity must be RamImageIdentity'')))"

section \<open>Reads\<close>

definition MetadataReadSucceeded :: "runtime_cpu \<Rightarrow> connection_generation \<Rightarrow> runtime_value \<Rightarrow> domain_event res" where
  "MetadataReadSucceeded cpu generation v =
     (if v = RNone then Inl (ValueError ''Metadata success requires a value'')
      else Inr (EvMetadataReadSucceeded cpu generation v))"

definition MetadataWriteStarted ::
  "string \<Rightarrow> runtime_cpu \<Rightarrow> connection_generation \<Rightarrow> image_identity option \<Rightarrow> domain_event res" where
  "MetadataWriteStarted operation_id cpu generation identity =
     bindE (require_identifier operation_id) (\<lambda>_. Inr (EvMetadataWriteStarted operation_id cpu generation identity))"

definition DiagnosticReadSucceeded ::
  "runtime_cpu \<Rightarrow> connection_generation \<Rightarrow> diagnostic_group \<Rightarrow> runtime_value \<Rightarrow> domain_event res" where
  "DiagnosticReadSucceeded cpu generation grp v =
     (if v = RNone then Inl (ValueError ''Diagnostics success requires a value'')
      else Inr (EvDiagnosticReadSucceeded cpu generation grp v))"

definition MemoryReadSucceeded ::
  "runtime_cpu \<Rightarrow> connection_generation \<Rightarrow> int \<Rightarrow> int list \<Rightarrow> datetime \<Rightarrow> domain_event res" where
  "MemoryReadSucceeded cpu generation base_address words read_at =
     bindE (non_negative base_address ''base_address must be a non-negative integer'') (\<lambda>_.
     if words = [] \<or> \<not> words16 words
     then Inl (ValueError ''words must be a non-empty sequence of 16-bit unsigned integers'')
     else bindE (require_utc read_at ''read_at must be timezone-aware UTC'') (\<lambda>_.
       Inr (EvMemoryReadSucceeded cpu generation base_address words read_at)))"

section \<open>Choices of the user\<close>

definition ProgramImageChanged ::
  "runtime_cpu \<Rightarrow> string \<Rightarrow> image_parse_status \<Rightarrow> flash_image_summary option \<Rightarrow> string option \<Rightarrow> domain_event res" where
  "ProgramImageChanged cpu path status summary error =
     bindE (validate_parse_state status summary error) (\<lambda>_.
     if status \<noteq> PARSE_EMPTY \<and> path = []
     then Inl (ValueError ''program image state requires a non-empty path'')
     else Inr (EvProgramImageChanged cpu path status summary error))"

definition RamImageChanged ::
  "runtime_cpu \<Rightarrow> string \<Rightarrow> image_parse_status \<Rightarrow> ram_image_summary option \<Rightarrow> string option \<Rightarrow> domain_event res" where
  "RamImageChanged cpu path status summary error =
     bindE (validate_parse_state status summary error) (\<lambda>_.
     if status \<noteq> PARSE_EMPTY \<and> path = []
     then Inl (ValueError ''RAM image state requires a non-empty path'')
     else Inr (EvRamImageChanged cpu path status summary error))"

definition SectorSelectionChanged :: "runtime_cpu \<Rightarrow> erase_scope \<Rightarrow> int \<Rightarrow> domain_event res" where
  "SectorSelectionChanged cpu scope sector_mask =
     bindE (non_negative sector_mask ''custom_sector_mask must be a non-negative integer'') (\<lambda>_.
       Inr (EvSectorSelectionChanged cpu scope sector_mask))"

section \<open>The connection\<close>

text \<open>The information is a \<open>ConnectionInfo\<close>, so that its own checks hold.\<close>

definition ConnectionOpened :: "connection_info \<Rightarrow> domain_event res" where
  "ConnectionOpened info =
     bindE (require_identifier (co_connection_id info)) (\<lambda>_.
     bindE (from_target_key (co_target_key info)) (\<lambda>_. Inr (EvConnectionOpened info)))"

definition ConnectionClosed :: "string \<Rightarrow> connection_generation \<Rightarrow> domain_event res" where
  "ConnectionClosed connection_id generation =
     bindE (require_identifier connection_id) (\<lambda>_. Inr (EvConnectionClosed connection_id generation))"

definition ConnectionGenerationChanged ::
  "connection_generation \<Rightarrow> connection_generation \<Rightarrow> domain_event res" where
  "ConnectionGenerationChanged previous current =
     (if current \<noteq> previous + 1
      then Inl (ValueError ''current_generation must equal previous_generation + 1'')
      else Inr (EvConnectionGenerationChanged previous current))"

definition ProtocolActivityRecorded :: "connection_generation \<Rightarrow> datetime \<Rightarrow> domain_event res" where
  "ProtocolActivityRecorded generation occurred_at =
     bindE (require_utc occurred_at ''occurred_at must be timezone-aware UTC'') (\<lambda>_.
       Inr (EvProtocolActivityRecorded generation occurred_at))"

definition ConnectionHealthChanged ::
  "connection_generation \<Rightarrow> connection_health \<Rightarrow> datetime \<Rightarrow> runtime_read_error option \<Rightarrow> domain_event res" where
  "ConnectionHealthChanged generation state checked_at error =
     (if state = HEALTH_UNKNOWN
      then Inl (ValueError ''UNKNOWN is not a connection health check result'')
      else bindE (require_utc checked_at ''checked_at must be timezone-aware UTC'') (\<lambda>_.
        if state = HEALTH_HEALTHY \<and> error \<noteq> None then Inl (ValueError ''HEALTHY cannot carry an error'')
        else if state = HEALTH_UNHEALTHY \<and> error = None then Inl (ValueError ''UNHEALTHY requires an error'')
        else Inr (EvConnectionHealthChanged generation state checked_at error)))"

section \<open>Operations\<close>

definition OperationStarted ::
  "string \<Rightarrow> runtime_operation_type \<Rightarrow> runtime_cpu \<Rightarrow> connection_generation \<Rightarrow> operation_identity \<Rightarrow> domain_event res" where
  "OperationStarted operation_id operation_type cpu generation identity =
     bindE (check_operation_identity operation_id operation_type identity) (\<lambda>_.
       Inr (EvOperationStarted operation_id operation_type cpu generation identity))"

definition OperationSucceeded ::
  "string \<Rightarrow> runtime_operation_type \<Rightarrow> runtime_cpu \<Rightarrow> connection_generation \<Rightarrow> operation_identity \<Rightarrow> domain_event res" where
  "OperationSucceeded operation_id operation_type cpu generation identity =
     bindE (check_operation_identity operation_id operation_type identity) (\<lambda>_.
       Inr (EvOperationSucceeded operation_id operation_type cpu generation identity))"

definition OperationFailed ::
  "string \<Rightarrow> runtime_operation_type \<Rightarrow> runtime_cpu \<Rightarrow> connection_generation \<Rightarrow> operation_identity \<Rightarrow> string \<Rightarrow> domain_event res" where
  "OperationFailed operation_id operation_type cpu generation identity error_code =
     bindE (check_operation_identity operation_id operation_type identity) (\<lambda>_.
     bindE (require_identifier error_code) (\<lambda>_.
       Inr (EvOperationFailed operation_id operation_type cpu generation identity error_code)))"

section \<open>Constructed events\<close>

text \<open>
  An event whose parts were themselves constructed: generations are not negative, read errors and
  summaries passed their own checks, and so did the event.  Classes without a check of a value accept
  any parts.
\<close>

definition summary_ok :: "flash_image_summary option \<Rightarrow> bool" where
  "summary_ok s \<longleftrightarrow> (case s of None \<Rightarrow> True | Some x \<Rightarrow> 0 \<le> fs_sector_mask x)"

definition ram_summary_ok :: "ram_image_summary option \<Rightarrow> bool" where
  "ram_summary_ok s \<longleftrightarrow> (case s of None \<Rightarrow> True
     | Some x \<Rightarrow> 0 \<le> ri_entry_point (rs_identity x) \<and> 0 \<le> ri_image_crc32 (rs_identity x))"

fun event_ok :: "domain_event \<Rightarrow> bool" where
  "event_ok (EvMetadataReadSucceeded cpu g v) = is_ok (MetadataReadSucceeded cpu g v)"
| "event_ok (EvMetadataReadFailed cpu g e) = is_ok (RuntimeReadError e)"
| "event_ok (EvMetadataWriteStarted i cpu g identity) = is_ok (MetadataWriteStarted i cpu g identity)"
| "event_ok (EvDiagnosticReadSucceeded cpu g grp v) =
     is_ok (DiagnosticReadSucceeded cpu g grp v)"
| "event_ok (EvDiagnosticReadFailed cpu g grp e) = is_ok (RuntimeReadError e)"
| "event_ok (EvMemoryReadSucceeded cpu g a ws t) = is_ok (MemoryReadSucceeded cpu g a ws t)"
| "event_ok (EvMemoryReadFailed cpu g e) = is_ok (RuntimeReadError e)"
| "event_ok (EvMemoryCleared cpu) = True"
| "event_ok (EvActiveTargetChanged cpu) = True"
| "event_ok (EvProgramImageChanged cpu p st s e) = (is_ok (ProgramImageChanged cpu p st s e) \<and> summary_ok s)"
| "event_ok (EvRamImageChanged cpu p st s e) = (is_ok (RamImageChanged cpu p st s e) \<and> ram_summary_ok s)"
| "event_ok (EvSectorSelectionChanged cpu scope m) = is_ok (SectorSelectionChanged cpu scope m)"
| "event_ok (EvConnectionOpened info) = (is_ok (ConnectionInfo info) \<and> is_ok (ConnectionOpened info))"
| "event_ok (EvConnectionClosed i g) = is_ok (ConnectionClosed i g)"
| "event_ok (EvConnectionGenerationChanged p c) = is_ok (ConnectionGenerationChanged p c)"
| "event_ok (EvProtocolActivityRecorded g t) = is_ok (ProtocolActivityRecorded g t)"
| "event_ok (EvConnectionHealthChanged g st t e) = is_ok (ConnectionHealthChanged g st t e)"
| "event_ok (EvCommunicationErrorRecorded g e) = is_ok (RuntimeCommunicationError e)"
| "event_ok (EvOperationStarted i ty cpu g identity) = is_ok (OperationStarted i ty cpu g identity)"
| "event_ok (EvOperationSucceeded i ty cpu g identity) = is_ok (OperationSucceeded i ty cpu g identity)"
| "event_ok (EvOperationFailed i ty cpu g identity c) = is_ok (OperationFailed i ty cpu g identity c)"
| "event_ok EvSessionChanged = True"

end
