(* ===== verification/Runtime_Policies.thy ===== *)
theory Runtime_Policies
  imports Runtime_Events
begin

text \<open>
  The transitions of the runtime state kernel: the draft and the store of
  \<open>gui/runtime_v2_models.py\<close>, the policies of \<open>gui/runtime_v2_policies.py\<close> and the dispatcher of
  \<open>gui/runtime_v2_transition.py\<close>.

  A policy changes the draft of one transition or raises, and a draft is dropped when a policy raises;
  so a policy is a function from a draft to a draft or an exception.  The store's lock makes a
  transition one step.
\<close>

section \<open>The draft\<close>

record runtime_draft = runtime_v2 +
  dr_original_generation :: connection_generation
  dr_derived_events :: "domain_event list"

definition RuntimeStateDraft :: "runtime_v2 \<Rightarrow> runtime_draft" where
  "RuntimeStateDraft s =
     runtime_v2.extend s \<lparr>dr_original_generation = rv_generation s, dr_derived_events = []\<rparr>"

definition get_resource :: "runtime_cpu \<Rightarrow> runtime_draft \<Rightarrow> target_resource res" where
  "get_resource cpu d = (case rv_resources d cpu of None \<Rightarrow> Inl (KeyError ''cpu'') | Some s \<Rightarrow> Inr s)"

definition get_memory :: "runtime_cpu \<Rightarrow> runtime_draft \<Rightarrow> memory_runtime_state res" where
  "get_memory cpu d = (case rv_memories d cpu of None \<Rightarrow> Inl (KeyError ''cpu'') | Some s \<Rightarrow> Inr s)"

definition replace_target_resource ::
  "runtime_cpu \<Rightarrow> target_resource \<Rightarrow> 'a runtime_v2_scheme \<Rightarrow> 'a runtime_v2_scheme res" where
  "replace_target_resource cpu s d =
     (if tr_cpu_id s \<noteq> cpu then Inl (ValueError ''target resource CPU does not match its key'')
      else Inr (d\<lparr>rv_resources := (rv_resources d)(cpu \<mapsto> s)\<rparr>))"

definition replace_memory_state ::
  "runtime_cpu \<Rightarrow> memory_runtime_state \<Rightarrow> 'a runtime_v2_scheme \<Rightarrow> 'a runtime_v2_scheme res" where
  "replace_memory_state cpu s d =
     (if mm_cpu_id s \<noteq> cpu then Inl (ValueError ''memory state CPU does not match its key'')
      else Inr (d\<lparr>rv_memories := (rv_memories d)(cpu \<mapsto> s)\<rparr>))"

definition record_event :: "domain_event \<Rightarrow> runtime_draft \<Rightarrow> runtime_draft" where
  "record_event e d = d\<lparr>dr_derived_events := dr_derived_events d @ [e]\<rparr>"

definition candidate :: "runtime_draft \<Rightarrow> runtime_v2 res" where
  "candidate d = RuntimeV2Snapshot (runtime_v2.truncate d)"

text \<open>\<open>draft.replace_target_resource(cpu, replace(current, \<dots>))\<close>: the checks of the class, then the store.\<close>

definition update_resource ::
  "runtime_cpu \<Rightarrow> (target_resource \<Rightarrow> target_resource) \<Rightarrow> runtime_draft \<Rightarrow> runtime_draft res" where
  "update_resource cpu f d =
     bindE (get_resource cpu d) (\<lambda>current.
     bindE (TargetResourceState (f current)) (\<lambda>s. replace_target_resource cpu s d))"

section \<open>The connection policies\<close>

type_synonym domain_policy = "domain_event \<Rightarrow> runtime_draft \<Rightarrow> runtime_draft res"

fun ConnectionGenerationPolicy :: domain_policy where
  "ConnectionGenerationPolicy (EvConnectionOpened info) d =
     bindE (next_generation (rv_generation d)) (\<lambda>current.
     bindE (ConnectionGenerationChanged (rv_generation d) current) (\<lambda>e.
       Inr (record_event e (d\<lparr>rv_generation := current\<rparr>))))"
| "ConnectionGenerationPolicy _ d = Inr d"

fun ConnectionStatePolicy :: domain_policy where
  "ConnectionStatePolicy (EvConnectionOpened info) d =
     (if rv_generation d = dr_original_generation d
      then Inl (RuntimeError ''ConnectionGenerationPolicy must run first'')
      else bindE (from_connection_info info (rv_generation d)) (\<lambda>c.
        Inr (record_event (EvActiveTargetChanged (Some (cr_cpu_id c))) (d\<lparr>rv_connection := Some c\<rparr>))))"
| "ConnectionStatePolicy (EvConnectionClosed connection_id generation) d =
     (case rv_connection d of
        None \<Rightarrow> Inl (OtherError ''StaleConnectionEventError'' ''no active Runtime V2 connection'')
      | Some c \<Rightarrow>
          if cr_connection_id c \<noteq> connection_id
          then Inl (OtherError ''StaleConnectionEventError'' ''connection ID does not match active connection'')
          else if cr_generation c \<noteq> generation
          then Inl (OtherError ''StaleConnectionEventError'' ''connection generation is stale'')
          else Inr (record_event (EvActiveTargetChanged None) (d\<lparr>rv_connection := None\<rparr>)))"
| "ConnectionStatePolicy _ d = Inr d"

text \<open>\<open>draft.replace_connection(replace(connection, \<dots>))\<close>\<close>

definition replace_connection :: "connection_runtime_state \<Rightarrow> runtime_draft \<Rightarrow> runtime_draft res" where
  "replace_connection c d = bindE (ConnectionRuntimeState c) (\<lambda>c. Inr (d\<lparr>rv_connection := Some c\<rparr>))"

fun ConnectionHealthPolicy :: domain_policy where
  "ConnectionHealthPolicy (EvProtocolActivityRecorded generation occurred_at) d =
     (case rv_connection d of
        None \<Rightarrow> Inr d
      | Some c \<Rightarrow>
          if generation \<noteq> cr_generation c then Inr d
          else (case cr_last_protocol_activity c of
              None \<Rightarrow> Inl (OtherError ''TypeError'' ''comparison with None'')
            | Some t \<Rightarrow>
                if dt_instant occurred_at \<ge> dt_instant t
                then replace_connection (c\<lparr>cr_last_protocol_activity := Some occurred_at\<rparr>) d
                else Inr d))"
| "ConnectionHealthPolicy (EvConnectionHealthChanged generation state checked_at error) d =
     (case rv_connection d of
        None \<Rightarrow> Inr d
      | Some c \<Rightarrow>
          if generation \<noteq> cr_generation c then Inr d
          else if (case cr_health_checked_at c of None \<Rightarrow> False
                   | Some t \<Rightarrow> dt_instant checked_at < dt_instant t)
          then Inr d
          else replace_connection
            (c\<lparr>cr_health_state := state, cr_health_checked_at := Some checked_at, cr_health_error := error\<rparr>) d)"
| "ConnectionHealthPolicy _ d = Inr d"

fun ConnectionCommunicationErrorPolicy :: domain_policy where
  "ConnectionCommunicationErrorPolicy (EvCommunicationErrorRecorded generation error) d =
     (case rv_connection d of
        None \<Rightarrow> Inr d
      | Some c \<Rightarrow>
          if cr_generation c \<noteq> generation then Inr d
          else replace_connection (c\<lparr>cr_last_communication_error := Some error\<rparr>) d)"
| "ConnectionCommunicationErrorPolicy _ d = Inr d"

fun SessionStatePolicy :: domain_policy where
  "SessionStatePolicy EvSessionChanged d =
     (if rv_connection d \<noteq> None
      then Inl (OtherError ''SessionChangeBlockedError'' ''Session change requires no active Runtime V2 connection'')
      else foldE (\<lambda>cpu. replace_target_resource cpu (empty_resource cpu)) [CPU1, CPU2] d)"
| "SessionStatePolicy _ d = Inr d"

definition current_connection :: "runtime_cpu \<Rightarrow> connection_generation \<Rightarrow> ('a runtime_v2_scheme) \<Rightarrow> bool" where
  "current_connection cpu generation d =
     (case rv_connection d of None \<Rightarrow> False
      | Some c \<Rightarrow> cr_cpu_id c = cpu \<and> cr_generation c = generation)"

section \<open>The freshness policies\<close>

text \<open>The memory of a CPU that is not the connected one becomes stale.\<close>

definition age_memory :: "runtime_cpu option \<Rightarrow> runtime_cpu \<Rightarrow> runtime_draft \<Rightarrow> runtime_draft res" where
  "age_memory active_cpu cpu d =
     bindE (get_memory cpu d) (\<lambda>current.
     if mm_words current = [] \<or> mm_freshness current = DATA_STALE then Inr d
     else if (case rv_connection d of None \<Rightarrow> False
         | Some c \<Rightarrow> active_cpu = Some cpu \<and> cr_cpu_id c = cpu \<and> mm_generation current = Some (cr_generation c))
     then Inr d
     else bindE (MemoryRuntimeState (current\<lparr>mm_freshness := DATA_STALE\<rparr>))
       (\<lambda>s. replace_memory_state cpu s d))"

fun MemoryFreshnessPolicy :: domain_policy where
  "MemoryFreshnessPolicy EvSessionChanged d =
     foldE (\<lambda>cpu. replace_memory_state cpu (empty_memory cpu)) [CPU1, CPU2] d"
| "MemoryFreshnessPolicy (EvMemoryCleared cpu) d = replace_memory_state cpu (empty_memory cpu) d"
| "MemoryFreshnessPolicy (EvMemoryReadSucceeded cpu generation base_address words read_at) d =
     (if current_connection cpu generation d
      then bindE (MemoryRuntimeState
          \<lparr>mm_cpu_id = cpu, mm_freshness = DATA_FRESH, mm_base_address = Some base_address, mm_words = words,
           mm_read_at = Some read_at, mm_generation = Some generation, mm_read_error = None\<rparr>)
        (\<lambda>s. replace_memory_state cpu s d)
      else Inr d)"
| "MemoryFreshnessPolicy (EvMemoryReadFailed cpu generation error) d =
     (if \<not> current_connection cpu generation d then Inr d
      else bindE (get_memory cpu d) (\<lambda>current.
        bindE (MemoryRuntimeState (current\<lparr>
            mm_freshness := if mm_words current \<noteq> [] then DATA_STALE else DATA_EMPTY,
            mm_read_error := Some error\<rparr>))
          (\<lambda>s. replace_memory_state cpu s d)))"
| "MemoryFreshnessPolicy (EvConnectionOpened info) d =
     foldE (age_memory (map_option cr_cpu_id (rv_connection d))) [CPU1, CPU2] d"
| "MemoryFreshnessPolicy (EvConnectionClosed connection_id generation) d =
     foldE (age_memory (map_option cr_cpu_id (rv_connection d))) [CPU1, CPU2] d"
| "MemoryFreshnessPolicy (EvActiveTargetChanged cpu) d = foldE (age_memory cpu) [CPU1, CPU2] d"
| "MemoryFreshnessPolicy _ d = Inr d"

definition replace_metadata_state :: "metadata_runtime_state \<Rightarrow> runtime_draft \<Rightarrow> runtime_draft res" where
  "replace_metadata_state s d = bindE (MetadataRuntimeState s) (\<lambda>s. Inr (d\<lparr>rv_metadata := s\<rparr>))"

text \<open>The target is about to change what the metadata says.\<close>

definition stale_metadata :: "runtime_cpu \<Rightarrow> connection_generation \<Rightarrow> runtime_draft \<Rightarrow> runtime_draft res" where
  "stale_metadata cpu generation d =
     (if current_connection cpu generation d
      then replace_metadata_state
        \<lparr>mrs_value = mrs_value (rv_metadata d), mrs_freshness = DATA_STALE, mrs_read_error = None\<rparr> d
      else Inr d)"

fun MetadataFreshnessPolicy :: domain_policy where
  "MetadataFreshnessPolicy (EvConnectionOpened info) d = replace_metadata_state empty_metadata d"
| "MetadataFreshnessPolicy (EvConnectionClosed connection_id generation) d = replace_metadata_state empty_metadata d"
| "MetadataFreshnessPolicy (EvActiveTargetChanged cpu) d = replace_metadata_state empty_metadata d"
| "MetadataFreshnessPolicy EvSessionChanged d = replace_metadata_state empty_metadata d"
| "MetadataFreshnessPolicy (EvMetadataReadSucceeded cpu generation v) d =
     (if current_connection cpu generation d
      then replace_metadata_state \<lparr>mrs_value = v, mrs_freshness = DATA_FRESH, mrs_read_error = None\<rparr> d
      else Inr d)"
| "MetadataFreshnessPolicy (EvMetadataReadFailed cpu generation error) d =
     (if \<not> current_connection cpu generation d then Inr d
      else let current = rv_metadata d in
        replace_metadata_state
          \<lparr>mrs_value = mrs_value current,
           mrs_freshness = if mrs_value current \<noteq> RNone \<or> mrs_freshness current = DATA_STALE
             then DATA_STALE else DATA_EMPTY,
           mrs_read_error = Some error\<rparr> d)"
| "MetadataFreshnessPolicy (EvMetadataWriteStarted operation_id cpu generation identity) d =
     stale_metadata cpu generation d"
| "MetadataFreshnessPolicy (EvOperationStarted operation_id operation_type cpu generation identity) d =
     (if operation_type = OP_TYPE_ERASE \<or> operation_type = OP_TYPE_PROGRAM
      then stale_metadata cpu generation d else Inr d)"
| "MetadataFreshnessPolicy _ d = Inr d"

definition replace_group :: "diagnostic_runtime_state \<Rightarrow> runtime_draft \<Rightarrow> runtime_draft res" where
  "replace_group s d =
     bindE (DiagnosticRuntimeState s) (\<lambda>s.
     bindE (DiagnosticsRuntimeState (with_group (ds_group s) s (rv_diagnostics d))) (\<lambda>g.
       Inr (d\<lparr>rv_diagnostics := g\<rparr>)))"

fun DiagnosticsFreshnessPolicy :: domain_policy where
  "DiagnosticsFreshnessPolicy (EvConnectionOpened info) d = Inr (d\<lparr>rv_diagnostics := empty_diagnostics\<rparr>)"
| "DiagnosticsFreshnessPolicy (EvConnectionClosed connection_id generation) d =
     Inr (d\<lparr>rv_diagnostics := empty_diagnostics\<rparr>)"
| "DiagnosticsFreshnessPolicy (EvActiveTargetChanged cpu) d = Inr (d\<lparr>rv_diagnostics := empty_diagnostics\<rparr>)"
| "DiagnosticsFreshnessPolicy EvSessionChanged d = Inr (d\<lparr>rv_diagnostics := empty_diagnostics\<rparr>)"
| "DiagnosticsFreshnessPolicy (EvDiagnosticReadSucceeded cpu generation grp v) d =
     (if \<not> current_connection cpu generation d then Inr d
      else replace_group
        \<lparr>ds_group = grp, ds_value = v, ds_freshness = DATA_FRESH, ds_read_error = None\<rparr> d)"
| "DiagnosticsFreshnessPolicy (EvDiagnosticReadFailed cpu generation grp error) d =
     (if \<not> current_connection cpu generation d then Inr d
      else let previous = group_state (rv_diagnostics d) grp in
        replace_group
          \<lparr>ds_group = grp, ds_value = ds_value previous,
           ds_freshness = if ds_value previous \<noteq> RNone then DATA_STALE else DATA_EMPTY,
           ds_read_error = Some error\<rparr> d)"
| "DiagnosticsFreshnessPolicy _ d = Inr d"

section \<open>The evidence policies\<close>

definition drop_evidence :: "target_resource \<Rightarrow> target_resource" where
  "drop_evidence s = s\<lparr>tr_verify_evidence := None, tr_ram_crc_evidence := None\<rparr>"

definition drop_all_evidence :: "runtime_draft \<Rightarrow> runtime_draft res" where
  "drop_all_evidence d = foldE (\<lambda>cpu. update_resource cpu drop_evidence) [CPU1, CPU2] d"

fun EvidenceInvalidationPolicy :: domain_policy where
  "EvidenceInvalidationPolicy (EvConnectionOpened info) d = drop_all_evidence d"
| "EvidenceInvalidationPolicy (EvConnectionClosed connection_id generation) d = drop_all_evidence d"
| "EvidenceInvalidationPolicy (EvConnectionGenerationChanged previous current) d = drop_all_evidence d"
| "EvidenceInvalidationPolicy (EvActiveTargetChanged cpu) d = drop_all_evidence d"
| "EvidenceInvalidationPolicy EvSessionChanged d = drop_all_evidence d"
| "EvidenceInvalidationPolicy (EvOperationStarted operation_id operation_type cpu generation identity) d =
     update_resource cpu (\<lambda>s.
       if operation_type \<in> {OP_TYPE_ERASE, OP_TYPE_PROGRAM, OP_TYPE_VERIFY}
       then s\<lparr>tr_verify_evidence := None\<rparr> else s\<lparr>tr_ram_crc_evidence := None\<rparr>) d"
| "EvidenceInvalidationPolicy (EvProgramImageChanged cpu path status (Some summary) error) d =
     bindE (get_resource cpu d) (\<lambda>current.
     if (case tr_verify_evidence current of None \<Rightarrow> False
         | Some e \<Rightarrow> ve_identity e \<noteq> fs_identity summary)
     then update_resource cpu (\<lambda>s. s\<lparr>tr_verify_evidence := None\<rparr>) d else Inr d)"
| "EvidenceInvalidationPolicy (EvRamImageChanged cpu path status (Some summary) error) d =
     bindE (get_resource cpu d) (\<lambda>current.
     if (case tr_ram_crc_evidence current of None \<Rightarrow> False
         | Some e \<Rightarrow> ce_identity e \<noteq> rs_identity summary)
     then update_resource cpu (\<lambda>s. s\<lparr>tr_ram_crc_evidence := None\<rparr>) d else Inr d)"
| "EvidenceInvalidationPolicy _ d = Inr d"

fun VerifyEvidencePolicy :: domain_policy where
  "VerifyEvidencePolicy (EvOperationSucceeded operation_id OP_TYPE_VERIFY cpu generation identity) d =
     bindE (get_resource cpu d) (\<lambda>resource.
     case (tr_program_image_summary resource, identity) of
       (Some summary, FlashIdentity image_identity) \<Rightarrow>
         if current_connection cpu generation d \<and> tr_program_image_parse_status resource = PARSE_READY
            \<and> fs_identity summary = image_identity
         then bindE (VerifyEvidence \<lparr>ve_cpu_id = cpu, ve_generation = generation,
             ve_identity = image_identity, ve_operation_id = operation_id\<rparr>) (\<lambda>e.
           update_resource cpu (\<lambda>s. s\<lparr>tr_verify_evidence := Some e\<rparr>) d)
         else Inr d
     | _ \<Rightarrow> Inr d)"
| "VerifyEvidencePolicy _ d = Inr d"

fun RamCrcEvidencePolicy :: domain_policy where
  "RamCrcEvidencePolicy
     (EvOperationSucceeded operation_id OP_TYPE_RAM_CRC cpu generation (RamIdentity identity)) d =
     bindE (get_resource cpu d) (\<lambda>resource.
     case tr_ram_image_summary resource of
       Some summary \<Rightarrow>
         if current_connection cpu generation d \<and> tr_ram_image_parse_status resource = PARSE_READY
            \<and> rs_identity summary = identity
         then bindE (RamCrcEvidence \<lparr>ce_cpu_id = cpu, ce_generation = generation, ce_identity = identity,
             ce_entry_point = ri_entry_point identity, ce_image_crc32 = ri_image_crc32 identity,
             ce_operation_id = operation_id\<rparr>) (\<lambda>e.
           update_resource cpu (\<lambda>s. s\<lparr>tr_ram_crc_evidence := Some e\<rparr>) d)
         else Inr d
     | None \<Rightarrow> Inr d)"
| "RamCrcEvidencePolicy _ d = Inr d"

section \<open>The policies of the user's choices\<close>

fun SectorSelectionPolicy :: domain_policy where
  "SectorSelectionPolicy (EvSectorSelectionChanged cpu scope sector_mask) d =
     update_resource cpu (\<lambda>s. s\<lparr>tr_erase_scope := scope, tr_custom_sector_mask := sector_mask\<rparr>) d"
| "SectorSelectionPolicy _ d = Inr d"

fun ProgramImageStatePolicy :: domain_policy where
  "ProgramImageStatePolicy (EvProgramImageChanged cpu path status summary error) d =
     update_resource cpu (\<lambda>s. s\<lparr>tr_program_image_path := path, tr_program_image_summary := summary,
       tr_program_image_parse_status := status, tr_program_image_parse_error := error\<rparr>) d"
| "ProgramImageStatePolicy _ d = Inr d"

fun RamImageStatePolicy :: domain_policy where
  "RamImageStatePolicy (EvRamImageChanged cpu path status summary error) d =
     update_resource cpu (\<lambda>s. s\<lparr>tr_ram_image_path := path, tr_ram_image_summary := summary,
       tr_ram_image_parse_status := status, tr_ram_image_parse_error := error\<rparr>) d"
| "RamImageStatePolicy _ d = Inr d"

definition DEFAULT_DOMAIN_POLICIES :: "(string \<times> domain_policy) list" where
  "DEFAULT_DOMAIN_POLICIES =
     [(''ConnectionGenerationPolicy'', ConnectionGenerationPolicy),
      (''ConnectionStatePolicy'', ConnectionStatePolicy),
      (''ConnectionHealthPolicy'', ConnectionHealthPolicy),
      (''ConnectionCommunicationErrorPolicy'', ConnectionCommunicationErrorPolicy),
      (''MemoryFreshnessPolicy'', MemoryFreshnessPolicy),
      (''MetadataFreshnessPolicy'', MetadataFreshnessPolicy),
      (''DiagnosticsFreshnessPolicy'', DiagnosticsFreshnessPolicy),
      (''EvidenceInvalidationPolicy'', EvidenceInvalidationPolicy),
      (''VerifyEvidencePolicy'', VerifyEvidencePolicy),
      (''RamCrcEvidencePolicy'', RamCrcEvidencePolicy),
      (''SectorSelectionPolicy'', SectorSelectionPolicy),
      (''SessionStatePolicy'', SessionStatePolicy),
      (''ProgramImageStatePolicy'', ProgramImageStatePolicy),
      (''RamImageStatePolicy'', RamImageStatePolicy)]"

section \<open>The store\<close>

text \<open>The policy that failed and why.\<close>

datatype transition_error = DomainTransitionError string exc

definition RuntimeStateStore :: runtime_v2 where
  "RuntimeStateStore =
     \<lparr>rv_generation = 0, rv_connection = None, rv_resources = (\<lambda>cpu. Some (empty_resource cpu)),
      rv_memories = (\<lambda>cpu. Some (empty_memory cpu)), rv_metadata = empty_metadata,
      rv_diagnostics = empty_diagnostics\<rparr>"

definition store_snapshot :: "runtime_v2 \<Rightarrow> runtime_v2 res" where
  "store_snapshot s = RuntimeV2Snapshot s"

definition stored :: "(runtime_v2 \<Rightarrow> runtime_v2 res) \<Rightarrow> (runtime_v2, unit) sm" where
  "stored f s = (case f s of Inl e \<Rightarrow> (Inl e, s) | Inr s' \<Rightarrow> (Inr (), s'))"

definition store_replace_target_resource :: "runtime_cpu \<Rightarrow> target_resource \<Rightarrow> (runtime_v2, unit) sm" where
  "store_replace_target_resource cpu r = stored (replace_target_resource cpu r)"

definition store_replace_memory_state :: "runtime_cpu \<Rightarrow> memory_runtime_state \<Rightarrow> (runtime_v2, unit) sm" where
  "store_replace_memory_state cpu m = stored (replace_memory_state cpu m)"

definition commit_connection :: "connection_info \<Rightarrow> (runtime_v2, connection_runtime_state) sm" where
  "commit_connection info s =
     (case bindE (next_generation (rv_generation s)) (\<lambda>generation.
        bindE (from_connection_info info generation) (\<lambda>c. Inr (generation, c))) of
        Inl e \<Rightarrow> (Inl e, s)
      | Inr (generation, c) \<Rightarrow> (Inr c, s\<lparr>rv_generation := generation, rv_connection := Some c\<rparr>))"

definition clear_connection :: "runtime_v2 \<Rightarrow> runtime_v2" where
  "clear_connection s = s\<lparr>rv_connection := None\<rparr>"

fun apply_policies :: "(string \<times> domain_policy) list \<Rightarrow> domain_event \<Rightarrow> runtime_draft \<Rightarrow>
    transition_error + runtime_draft" where
  "apply_policies [] event d = Inr d"
| "apply_policies ((name, policy) # policies) event d =
     (case policy event d of
        Inl e \<Rightarrow> Inl (DomainTransitionError name e)
      | Inr d' \<Rightarrow> apply_policies policies event d')"

definition transition :: "(string \<times> domain_policy) list \<Rightarrow> domain_event \<Rightarrow> runtime_v2 \<Rightarrow>
    (transition_error + (runtime_v2 \<times> domain_event list)) \<times> runtime_v2" where
  "transition policies event s =
     (case apply_policies policies event (RuntimeStateDraft s) of
        Inl e \<Rightarrow> (Inl e, s)
      | Inr d \<Rightarrow>
          (case candidate d of
             Inl e \<Rightarrow> (Inl (DomainTransitionError ''RuntimeV2Snapshot'' e), s)
           | Inr s' \<Rightarrow> (Inr (s', dr_derived_events d), s')))"

section \<open>The dispatcher\<close>

record transition_listener_failure =
  lf_listener_name :: string
  lf_exception_type :: string
  lf_message :: string

record transition_result =
  tx_source_event :: domain_event
  tx_derived_events :: "domain_event list"
  tx_snapshot :: runtime_v2
  tx_listener_failures :: "transition_listener_failure list"

text \<open>
  A listener is a parameter: its qualified name, and for a result the class and text of the exception it
  raises, if it does.
\<close>

record transition_listener =
  tl_qualname :: string
  tl_call :: "transition_result \<Rightarrow> (string \<times> string) option"

definition call_listeners ::
  "transition_listener list \<Rightarrow> transition_result \<Rightarrow> transition_listener_failure list" where
  "call_listeners listeners result =
     concat (map (\<lambda>l. case tl_call l result of None \<Rightarrow> []
       | Some (cls, message) \<Rightarrow>
           [\<lparr>lf_listener_name = tl_qualname l, lf_exception_type = cls, lf_message = message\<rparr>]) listeners)"

definition dispatch ::
  "(string \<times> domain_policy) list \<Rightarrow> transition_listener list \<Rightarrow> domain_event \<Rightarrow> runtime_v2 \<Rightarrow>
     (transition_error + transition_result) \<times> runtime_v2" where
  "dispatch policies listeners event s =
     (case transition policies event s of
        (Inl e, s') \<Rightarrow> (Inl e, s')
      | (Inr (snapshot, derived), s') \<Rightarrow>
          let result = \<lparr>tx_source_event = event, tx_derived_events = derived, tx_snapshot = snapshot,
                tx_listener_failures = []\<rparr> in
          (Inr (result\<lparr>tx_listener_failures := call_listeners listeners result\<rparr>), s'))"

end
