(* ===== verification/Runtime_Spec.thy ===== *)
theory Runtime_Spec
  imports Runtime_Policies
begin

text \<open>
  What the policies of the runtime state kernel do together: a direct description of the state after an
  event, \<open>next_state\<close>, of the events that are refused, and the proof that a transition through the
  fourteen policies is that.
\<close>

section \<open>The invariant of the classes\<close>

definition valid_resource :: "runtime_cpu \<Rightarrow> target_resource \<Rightarrow> bool" where
  "valid_resource cpu r \<longleftrightarrow> tr_cpu_id r = cpu \<and> TargetResourceState r = Inr r \<and> ram_summary_ok (tr_ram_image_summary r)"

definition valid_memory :: "connection_generation \<Rightarrow> runtime_cpu \<Rightarrow> memory_runtime_state \<Rightarrow> bool" where
  "valid_memory generation cpu m \<longleftrightarrow> mm_cpu_id m = cpu \<and> MemoryRuntimeState m = Inr m \<and>
     (case mm_generation m of None \<Rightarrow> True | Some g \<Rightarrow> g \<le> generation)"

definition valid_connection :: "connection_generation \<Rightarrow> connection_runtime_state option \<Rightarrow> bool" where
  "valid_connection generation c \<longleftrightarrow>
     (case c of None \<Rightarrow> True | Some k \<Rightarrow> cr_generation k = generation \<and> ConnectionRuntimeState k = Inr k)"

definition runtime_wf :: "runtime_v2 \<Rightarrow> bool" where
  "runtime_wf s \<longleftrightarrow> 0 \<le> rv_generation s \<and> valid_connection (rv_generation s) (rv_connection s) \<and>
     (\<forall>cpu. \<exists>r. rv_resources s cpu = Some r \<and> valid_resource cpu r) \<and>
     (\<forall>cpu. \<exists>m. rv_memories s cpu = Some m \<and> valid_memory (rv_generation s) cpu m) \<and>
     MetadataRuntimeState (rv_metadata s) = Inr (rv_metadata s) \<and>
     DiagnosticsRuntimeState (rv_diagnostics s) = Inr (rv_diagnostics s) \<and>
     (\<forall>grp. DiagnosticRuntimeState (group_state (rv_diagnostics s) grp) = Inr (group_state (rv_diagnostics s) grp))"

section \<open>The state after an event\<close>

definition frozen :: "runtime_value \<Rightarrow> runtime_value" where
  "frozen v = (case freeze_runtime_value v of Inl e \<Rightarrow> RNone | Inr x \<Rightarrow> x)"

definition stale_memory :: "memory_runtime_state \<Rightarrow> memory_runtime_state" where
  "stale_memory m = (if mm_freshness m = DATA_FRESH then m\<lparr>mm_freshness := DATA_STALE\<rparr> else m)"

text \<open>Everything that was learned from a connection, when it opens, closes or the session changes.\<close>

definition forget_connection :: "runtime_v2 \<Rightarrow> runtime_v2" where
  "forget_connection s = s\<lparr>rv_resources := (\<lambda>cpu. map_option drop_evidence (rv_resources s cpu)),
     rv_metadata := empty_metadata, rv_diagnostics := empty_diagnostics\<rparr>"

definition on_resource :: "runtime_cpu \<Rightarrow> (target_resource \<Rightarrow> target_resource) \<Rightarrow> runtime_v2 \<Rightarrow> runtime_v2" where
  "on_resource cpu f s = s\<lparr>rv_resources := (rv_resources s)(cpu := map_option f (rv_resources s cpu))\<rparr>"

definition on_memory :: "runtime_cpu \<Rightarrow> (memory_runtime_state \<Rightarrow> memory_runtime_state) \<Rightarrow> runtime_v2 \<Rightarrow> runtime_v2" where
  "on_memory cpu f s = s\<lparr>rv_memories := (rv_memories s)(cpu := map_option f (rv_memories s cpu))\<rparr>"

definition new_connection :: "connection_info \<Rightarrow> connection_generation \<Rightarrow> connection_runtime_state" where
  "new_connection info generation =
     \<lparr>cr_generation = generation, cr_connection_id = co_connection_id info,
      cr_cpu_id = (if co_target_key info = ''cpu1'' then CPU1 else CPU2),
      cr_transport_label = co_transport_label info, cr_endpoint_label = co_endpoint_label info,
      cr_connected_at = co_connected_at info, cr_last_protocol_activity = Some (co_connected_at info),
      cr_health_state = HEALTH_UNKNOWN, cr_health_checked_at = None, cr_health_error = None,
      cr_last_communication_error = None\<rparr>"

definition active_evidence :: "runtime_cpu \<Rightarrow> connection_generation \<Rightarrow> string \<Rightarrow> operation_identity \<Rightarrow>
    runtime_operation_type \<Rightarrow> runtime_v2 \<Rightarrow> target_resource \<Rightarrow> target_resource" where
  "active_evidence cpu generation operation_id identity ty s r =
     (if \<not> current_connection cpu generation s then r
      else if ty = OP_TYPE_VERIFY then
        (case (tr_program_image_summary r, identity) of
           (Some x, FlashIdentity i) \<Rightarrow>
             if fs_identity x = i
             then r\<lparr>tr_verify_evidence := Some \<lparr>ve_cpu_id = cpu, ve_generation = generation,
                 ve_identity = i, ve_operation_id = operation_id\<rparr>\<rparr>
             else r
         | _ \<Rightarrow> r)
      else if ty = OP_TYPE_RAM_CRC then
        (case (tr_ram_image_summary r, identity) of
           (Some x, RamIdentity i) \<Rightarrow>
             if rs_identity x = i
             then r\<lparr>tr_ram_crc_evidence := Some \<lparr>ce_cpu_id = cpu, ce_generation = generation,
                 ce_identity = i, ce_entry_point = ri_entry_point i, ce_image_crc32 = ri_image_crc32 i,
                 ce_operation_id = operation_id\<rparr>\<rparr>
             else r
         | _ \<Rightarrow> r)
      else r)"

definition started_resource :: "runtime_operation_type \<Rightarrow> target_resource \<Rightarrow> target_resource" where
  "started_resource ty r =
     (if ty \<in> {OP_TYPE_ERASE, OP_TYPE_PROGRAM, OP_TYPE_VERIFY}
      then r\<lparr>tr_verify_evidence := None\<rparr> else r\<lparr>tr_ram_crc_evidence := None\<rparr>)"

definition stale_metadata_state :: "runtime_v2 \<Rightarrow> runtime_v2" where
  "stale_metadata_state s = s\<lparr>rv_metadata :=
     \<lparr>mrs_value = mrs_value (rv_metadata s), mrs_freshness = DATA_STALE, mrs_read_error = None\<rparr>\<rparr>"

text \<open>Evidence for another image than the one chosen now does not survive; a choice that is not parsed yet keeps it.\<close>

definition chosen_program :: "string \<Rightarrow> image_parse_status \<Rightarrow> flash_image_summary option \<Rightarrow> string option \<Rightarrow>
    target_resource \<Rightarrow> target_resource" where
  "chosen_program path status summary error r =
     r\<lparr>tr_program_image_path := path, tr_program_image_summary := summary,
       tr_program_image_parse_status := status, tr_program_image_parse_error := error,
       tr_verify_evidence := (case (tr_verify_evidence r, summary) of
         (Some e, Some x) \<Rightarrow> if ve_identity e = fs_identity x then Some e else None
       | (e, _) \<Rightarrow> e)\<rparr>"

definition chosen_ram :: "string \<Rightarrow> image_parse_status \<Rightarrow> ram_image_summary option \<Rightarrow> string option \<Rightarrow>
    target_resource \<Rightarrow> target_resource" where
  "chosen_ram path status summary error r =
     r\<lparr>tr_ram_image_path := path, tr_ram_image_summary := summary,
       tr_ram_image_parse_status := status, tr_ram_image_parse_error := error,
       tr_ram_crc_evidence := (case (tr_ram_crc_evidence r, summary) of
         (Some e, Some x) \<Rightarrow> if ce_identity e = rs_identity x then Some e else None
       | (e, _) \<Rightarrow> e)\<rparr>"

definition on_connection :: "connection_generation \<Rightarrow> (connection_runtime_state \<Rightarrow> connection_runtime_state) \<Rightarrow>
    runtime_v2 \<Rightarrow> runtime_v2" where
  "on_connection generation f s = s\<lparr>rv_connection :=
     map_option (\<lambda>k. if cr_generation k = generation then f k else k) (rv_connection s)\<rparr>"

definition later_activity :: "datetime \<Rightarrow> connection_runtime_state \<Rightarrow> connection_runtime_state" where
  "later_activity t k =
     (if dt_instant t \<ge> dt_instant (the (cr_last_protocol_activity k))
      then k\<lparr>cr_last_protocol_activity := Some t\<rparr> else k)"

definition later_health :: "connection_health \<Rightarrow> datetime \<Rightarrow> runtime_read_error option \<Rightarrow>
    connection_runtime_state \<Rightarrow> connection_runtime_state" where
  "later_health state t error k =
     (if (case cr_health_checked_at k of None \<Rightarrow> False | Some u \<Rightarrow> dt_instant t < dt_instant u) then k
      else k\<lparr>cr_health_state := state, cr_health_checked_at := Some t, cr_health_error := error\<rparr>)"

fun next_state :: "domain_event \<Rightarrow> runtime_v2 \<Rightarrow> runtime_v2" where
  "next_state (EvConnectionOpened info) s =
     (forget_connection s)\<lparr>rv_generation := rv_generation s + 1,
       rv_connection := Some (new_connection info (rv_generation s + 1)),
       rv_memories := (\<lambda>cpu. map_option stale_memory (rv_memories s cpu))\<rparr>"
| "next_state (EvConnectionClosed i g) s =
     (forget_connection s)\<lparr>rv_connection := None,
       rv_memories := (\<lambda>cpu. map_option stale_memory (rv_memories s cpu))\<rparr>"
| "next_state EvSessionChanged s =
     (forget_connection s)\<lparr>rv_resources := (\<lambda>cpu. Some (empty_resource cpu)),
       rv_memories := (\<lambda>cpu. Some (empty_memory cpu))\<rparr>"
| "next_state (EvActiveTargetChanged active) s =
     (forget_connection s)\<lparr>rv_memories := (\<lambda>cpu. map_option
        (\<lambda>m. if active = Some cpu \<and> (case rv_connection s of None \<Rightarrow> False
               | Some k \<Rightarrow> cr_cpu_id k = cpu \<and> mm_generation m = Some (cr_generation k))
             then m else stale_memory m) (rv_memories s cpu))\<rparr>"
| "next_state (EvConnectionGenerationChanged p c) s =
     s\<lparr>rv_resources := (\<lambda>cpu. map_option drop_evidence (rv_resources s cpu))\<rparr>"
| "next_state (EvProtocolActivityRecorded g t) s = on_connection g (later_activity t) s"
| "next_state (EvConnectionHealthChanged g state t e) s = on_connection g (later_health state t e) s"
| "next_state (EvCommunicationErrorRecorded g e) s =
     on_connection g (\<lambda>k. k\<lparr>cr_last_communication_error := Some e\<rparr>) s"
| "next_state (EvMemoryReadSucceeded cpu g a ws t) s =
     (if current_connection cpu g s
      then on_memory cpu (\<lambda>_. \<lparr>mm_cpu_id = cpu, mm_freshness = DATA_FRESH, mm_base_address = Some a,
        mm_words = ws, mm_read_at = Some t, mm_generation = Some g, mm_read_error = None\<rparr>) s
      else s)"
| "next_state (EvMemoryReadFailed cpu g e) s =
     (if current_connection cpu g s
      then on_memory cpu (\<lambda>m. (stale_memory m)\<lparr>mm_read_error := Some e\<rparr>) s else s)"
| "next_state (EvMemoryCleared cpu) s = on_memory cpu (\<lambda>_. empty_memory cpu) s"
| "next_state (EvMetadataReadSucceeded cpu g v) s =
     (if current_connection cpu g s
      then s\<lparr>rv_metadata := \<lparr>mrs_value = frozen v, mrs_freshness = DATA_FRESH, mrs_read_error = None\<rparr>\<rparr> else s)"
| "next_state (EvMetadataReadFailed cpu g e) s =
     (if current_connection cpu g s
      then s\<lparr>rv_metadata := \<lparr>mrs_value = mrs_value (rv_metadata s),
          mrs_freshness = if mrs_value (rv_metadata s) \<noteq> RNone \<or> mrs_freshness (rv_metadata s) = DATA_STALE
            then DATA_STALE else DATA_EMPTY, mrs_read_error = Some e\<rparr>\<rparr> else s)"
| "next_state (EvMetadataWriteStarted i cpu g identity) s =
     (if current_connection cpu g s then stale_metadata_state s else s)"
| "next_state (EvDiagnosticReadSucceeded cpu g grp v) s =
     (if current_connection cpu g s
      then s\<lparr>rv_diagnostics := with_group grp
        \<lparr>ds_group = grp, ds_value = frozen v, ds_freshness = DATA_FRESH, ds_read_error = None\<rparr>
        (rv_diagnostics s)\<rparr> else s)"
| "next_state (EvDiagnosticReadFailed cpu g grp e) s =
     (if current_connection cpu g s
      then let v = ds_value (group_state (rv_diagnostics s) grp) in
        s\<lparr>rv_diagnostics := with_group grp
          \<lparr>ds_group = grp, ds_value = v, ds_freshness = if v \<noteq> RNone then DATA_STALE else DATA_EMPTY,
           ds_read_error = Some e\<rparr> (rv_diagnostics s)\<rparr> else s)"
| "next_state (EvOperationStarted i ty cpu g identity) s =
     on_resource cpu (started_resource ty)
       (if (ty = OP_TYPE_ERASE \<or> ty = OP_TYPE_PROGRAM) \<and> current_connection cpu g s
        then stale_metadata_state s else s)"
| "next_state (EvOperationSucceeded i ty cpu g identity) s =
     on_resource cpu (active_evidence cpu g i identity ty s) s"
| "next_state (EvOperationFailed i ty cpu g identity code) s = s"
| "next_state (EvProgramImageChanged cpu path st summary e) s = on_resource cpu (chosen_program path st summary e) s"
| "next_state (EvRamImageChanged cpu path st summary e) s = on_resource cpu (chosen_ram path st summary e) s"
| "next_state (EvSectorSelectionChanged cpu scope sector_mask) s =
     on_resource cpu (\<lambda>r. r\<lparr>tr_erase_scope := scope, tr_custom_sector_mask := sector_mask\<rparr>) s"

text \<open>The events a well-formed state refuses.\<close>

fun refused :: "domain_event \<Rightarrow> runtime_v2 \<Rightarrow> bool" where
  "refused (EvConnectionOpened info) s = (co_transport_label info = [] \<or> co_endpoint_label info = [])"
| "refused (EvConnectionClosed i g) s =
     (case rv_connection s of None \<Rightarrow> True | Some k \<Rightarrow> cr_connection_id k \<noteq> i \<or> cr_generation k \<noteq> g)"
| "refused EvSessionChanged s = (rv_connection s \<noteq> None)"
| "refused (EvMetadataReadSucceeded cpu g v) s = (current_connection cpu g s \<and> \<not> is_ok (freeze_runtime_value v))"
| "refused (EvDiagnosticReadSucceeded cpu g grp v) s =
     (current_connection cpu g s \<and> \<not> is_ok (freeze_runtime_value v))"
| "refused _ s = False"

fun announced :: "domain_event \<Rightarrow> runtime_v2 \<Rightarrow> domain_event list" where
  "announced (EvConnectionOpened info) s =
     [EvConnectionGenerationChanged (rv_generation s) (rv_generation s + 1),
      EvActiveTargetChanged (Some (if co_target_key info = ''cpu1'' then CPU1 else CPU2))]"
| "announced (EvConnectionClosed i g) s = [EvActiveTargetChanged None]"
| "announced _ s = []"

section \<open>Drafts as states\<close>

definition draft_of :: "connection_generation \<Rightarrow> domain_event list \<Rightarrow> runtime_v2 \<Rightarrow> runtime_draft" where
  "draft_of g evs s = runtime_v2.extend s \<lparr>dr_original_generation = g, dr_derived_events = evs\<rparr>"

lemma draft_of_simps [simp]:
  "rv_generation (draft_of g evs s) = rv_generation s"
  "rv_connection (draft_of g evs s) = rv_connection s"
  "rv_resources (draft_of g evs s) = rv_resources s"
  "rv_memories (draft_of g evs s) = rv_memories s"
  "rv_metadata (draft_of g evs s) = rv_metadata s"
  "rv_diagnostics (draft_of g evs s) = rv_diagnostics s"
  "dr_original_generation (draft_of g evs s) = g"
  "dr_derived_events (draft_of g evs s) = evs"
  "(draft_of g evs s)\<lparr>rv_generation := x1\<rparr> = draft_of g evs (s\<lparr>rv_generation := x1\<rparr>)"
  "(draft_of g evs s)\<lparr>rv_connection := x2\<rparr> = draft_of g evs (s\<lparr>rv_connection := x2\<rparr>)"
  "(draft_of g evs s)\<lparr>rv_resources := x3\<rparr> = draft_of g evs (s\<lparr>rv_resources := x3\<rparr>)"
  "(draft_of g evs s)\<lparr>rv_memories := x4\<rparr> = draft_of g evs (s\<lparr>rv_memories := x4\<rparr>)"
  "(draft_of g evs s)\<lparr>rv_metadata := x5\<rparr> = draft_of g evs (s\<lparr>rv_metadata := x5\<rparr>)"
  "(draft_of g evs s)\<lparr>rv_diagnostics := x6\<rparr> = draft_of g evs (s\<lparr>rv_diagnostics := x6\<rparr>)"
  "record_event e (draft_of g evs s) = draft_of g (evs @ [e]) s"
  "runtime_v2.truncate (draft_of g evs s) = s"
  "current_connection cpu gen (draft_of g evs s) = current_connection cpu gen s"
  "RuntimeStateDraft s = draft_of (rv_generation s) [] s"
  by (simp_all add: draft_of_def runtime_v2.defs record_event_def current_connection_def RuntimeStateDraft_def)

section \<open>Each kind of update keeps the classes' checks\<close>

lemma all_cpus: "(\<forall>cpu. P cpu) \<longleftrightarrow> P CPU1 \<and> P CPU2"
  by (metis runtime_cpu.exhaust)

lemma TargetResourceState_iff [runtime_simps]:
  "TargetResourceState r = Inr r' \<longleftrightarrow> r' = r \<and>
     validate_parse_state (tr_program_image_parse_status r) (tr_program_image_summary r) (tr_program_image_parse_error r) = Inr () \<and>
     validate_parse_state (tr_ram_image_parse_status r) (tr_ram_image_summary r) (tr_ram_image_parse_error r) = Inr () \<and>
     0 \<le> tr_custom_sector_mask r \<and>
     (\<forall>e. tr_verify_evidence r = Some e \<longrightarrow> ve_cpu_id e = tr_cpu_id r) \<and>
     (\<forall>e. tr_ram_crc_evidence r = Some e \<longrightarrow> ce_cpu_id e = tr_cpu_id r)"
  by (auto simp: TargetResourceState_def bindE_Inr_iff runtime_simps split: option.splits)

lemma wf_resource:
  assumes "runtime_wf s"
  obtains r where "rv_resources s cpu = Some r" "valid_resource cpu r"
  using assms unfolding runtime_wf_def by blast

lemma wf_memory:
  assumes "runtime_wf s"
  obtains m where "rv_memories s cpu = Some m" "valid_memory (rv_generation s) cpu m"
  using assms unfolding runtime_wf_def by blast

lemma update_resource_draft:
  assumes "rv_resources s cpu = Some r" "valid_resource cpu (f r)"
  shows "update_resource cpu f (draft_of g evs s) = Inr (draft_of g evs (on_resource cpu f s))"
  using assms by (simp add: update_resource_def get_resource_def replace_target_resource_def valid_resource_def
      on_resource_def)

lemma wf_on_resource:
  assumes "runtime_wf s" "\<And>r. rv_resources s cpu = Some r \<Longrightarrow> valid_resource cpu r \<Longrightarrow> valid_resource cpu (f r)"
  shows "runtime_wf (on_resource cpu f s)"
  using assms by (force simp: runtime_wf_def on_resource_def)

lemma wf_on_memory:
  assumes "runtime_wf s"
    and "\<And>m. rv_memories s cpu = Some m \<Longrightarrow> valid_memory (rv_generation s) cpu m \<Longrightarrow>
      valid_memory (rv_generation s) cpu (f m)"
  shows "runtime_wf (on_memory cpu f s)"
  using assms by (force simp: runtime_wf_def on_memory_def)

lemma valid_drop: "valid_resource cpu r \<Longrightarrow> valid_resource cpu (drop_evidence r)"
  by (simp add: valid_resource_def drop_evidence_def runtime_simps)

lemma drop_all_draft:
  assumes "runtime_wf s'" "rv_resources s = rv_resources s'"
  shows "drop_all_evidence (draft_of g evs s) =
    Inr (draft_of g evs (s\<lparr>rv_resources := (\<lambda>cpu. map_option drop_evidence (rv_resources s cpu))\<rparr>))"
proof -
  obtain r1 where r1: "rv_resources s CPU1 = Some r1" "valid_resource CPU1 r1"
    using assms wf_resource [of s' CPU1] by metis
  obtain r2 where r2: "rv_resources s CPU2 = Some r2" "valid_resource CPU2 r2"
    using assms wf_resource [of s' CPU2] by metis
  have "on_resource CPU2 drop_evidence (on_resource CPU1 drop_evidence s) =
      s\<lparr>rv_resources := (\<lambda>cpu. map_option drop_evidence (rv_resources s cpu))\<rparr>"
    by (rule runtime_v2.equality) (auto simp: on_resource_def fun_eq_iff, metis runtime_cpu.exhaust)
  moreover have "rv_resources (on_resource CPU1 drop_evidence s) CPU2 = Some r2"
    by (simp add: on_resource_def r2)
  ultimately show ?thesis
    by (simp add: drop_all_evidence_def update_resource_draft [where f = drop_evidence and cpu = CPU1, OF r1(1) valid_drop [OF r1(2)]]
        update_resource_draft [where f = drop_evidence and cpu = CPU2, OF _ valid_drop [OF r2(2)]])
qed

lemma MemoryRuntimeState_Inr: "MemoryRuntimeState m = Inr m' \<Longrightarrow> m' = m"
  by (auto simp: MemoryRuntimeState_def bindE_Inr_iff split: if_splits)

lemma valid_memory_freshness:
  assumes "valid_memory g cpu m"
  shows "mm_words m = [] \<longleftrightarrow> mm_freshness m = DATA_EMPTY"
  using assms by (auto simp: valid_memory_def MemoryRuntimeState_def bindE_Inr_iff split: if_splits)

lemma valid_stale: "valid_memory g cpu m \<Longrightarrow> valid_memory g cpu (stale_memory m)"
  by (auto simp: valid_memory_def stale_memory_def MemoryRuntimeState_def bindE_Inr_iff split: if_splits option.splits)

lemma valid_empty [simp]: "valid_memory g cpu (empty_memory cpu)" "valid_resource cpu (empty_resource cpu)"
  by (simp_all add: valid_memory_def empty_memory_def MemoryRuntimeState_def valid_resource_def empty_resource_def
      TargetResourceState_def validate_parse_state_def non_negative_def ram_summary_ok_def)

definition aged :: "runtime_cpu option \<Rightarrow> connection_runtime_state option \<Rightarrow> runtime_cpu \<Rightarrow>
    memory_runtime_state \<Rightarrow> memory_runtime_state" where
  "aged active c cpu m =
     (if active = Some cpu \<and> (case c of None \<Rightarrow> False
        | Some k \<Rightarrow> cr_cpu_id k = cpu \<and> mm_generation m = Some (cr_generation k))
      then m else stale_memory m)"

lemma valid_aged: "valid_memory g cpu m \<Longrightarrow> valid_memory g cpu (aged active c cpu m)"
  by (simp add: aged_def valid_stale)

lemma age_memory_draft:
  assumes "rv_memories s cpu = Some m" "valid_memory n cpu m"
  shows "age_memory active cpu (draft_of g evs s) =
    Inr (draft_of g evs (on_memory cpu (aged active (rv_connection s) cpu) s))"
proof (cases "mm_words m = [] \<or> mm_freshness m = DATA_STALE")
  case True
  then have "aged active (rv_connection s) cpu m = m"
    using valid_memory_freshness [OF assms(2)] by (auto simp: aged_def stale_memory_def)
  then show ?thesis
    using True assms(1) by (simp add: age_memory_def get_memory_def on_memory_def fun_upd_idem)
next
  case False
  then have fresh: "mm_freshness m = DATA_FRESH"
    using valid_memory_freshness [OF assms(2)] by (cases "mm_freshness m") auto
  have "MemoryRuntimeState (m\<lparr>mm_freshness := DATA_STALE\<rparr>) = Inr (m\<lparr>mm_freshness := DATA_STALE\<rparr>)"
    and "mm_cpu_id m = cpu"
    using valid_stale [OF assms(2)] fresh by (simp_all add: stale_memory_def valid_memory_def)
  then show ?thesis
    using False fresh assms(1)
    by (auto simp: age_memory_def get_memory_def on_memory_def replace_memory_state_def aged_def stale_memory_def
        fun_upd_idem split: option.splits)
qed

lemma age_all_draft:
  assumes "runtime_wf s'" "rv_memories s = rv_memories s'"
  shows "foldE (age_memory active) [CPU1, CPU2] (draft_of g evs s) =
    Inr (draft_of g evs (s\<lparr>rv_memories := (\<lambda>cpu. map_option (aged active (rv_connection s) cpu) (rv_memories s cpu))\<rparr>))"
proof -
  obtain m1 where m1: "rv_memories s CPU1 = Some m1" "valid_memory (rv_generation s') CPU1 m1"
    using assms wf_memory [of s' CPU1] by metis
  obtain m2 where m2: "rv_memories s CPU2 = Some m2" "valid_memory (rv_generation s') CPU2 m2"
    using assms wf_memory [of s' CPU2] by metis
  let ?s1 = "on_memory CPU1 (aged active (rv_connection s) CPU1) s"
  have "on_memory CPU2 (aged active (rv_connection s) CPU2) ?s1 =
      s\<lparr>rv_memories := (\<lambda>cpu. map_option (aged active (rv_connection s) cpu) (rv_memories s cpu))\<rparr>"
    by (rule runtime_v2.equality) (auto simp: on_memory_def fun_eq_iff, metis runtime_cpu.exhaust)
  moreover have "rv_memories ?s1 CPU2 = Some m2" "rv_connection ?s1 = rv_connection s"
    by (simp_all add: on_memory_def m2)
  ultimately show ?thesis
    by (simp add: age_memory_draft [OF m1] age_memory_draft [OF _ m2(2)])
qed

lemma reset_memories_draft:
  "foldE (\<lambda>cpu. replace_memory_state cpu (empty_memory cpu)) [CPU1, CPU2] (draft_of g evs s) =
    Inr (draft_of g evs (s\<lparr>rv_memories := (\<lambda>cpu. Some (empty_memory cpu))\<rparr>))"
proof -
  have "(rv_memories s)(CPU1 \<mapsto> empty_memory CPU1, CPU2 \<mapsto> empty_memory CPU2) = (\<lambda>cpu. Some (empty_memory cpu))"
    by (auto simp: fun_eq_iff, metis runtime_cpu.exhaust)
  then show ?thesis
    by (simp add: replace_memory_state_def empty_memory_def)
qed

lemma reset_resources_draft:
  "foldE (\<lambda>cpu. replace_target_resource cpu (empty_resource cpu)) [CPU1, CPU2] (draft_of g evs s) =
    Inr (draft_of g evs (s\<lparr>rv_resources := (\<lambda>cpu. Some (empty_resource cpu))\<rparr>))"
proof -
  have "(rv_resources s)(CPU1 \<mapsto> empty_resource CPU1, CPU2 \<mapsto> empty_resource CPU2) = (\<lambda>cpu. Some (empty_resource cpu))"
    by (auto simp: fun_eq_iff, metis runtime_cpu.exhaust)
  then show ?thesis
    by (simp add: replace_target_resource_def empty_resource_def)
qed

lemma snapshot_wf: "runtime_wf s \<Longrightarrow> RuntimeV2Snapshot s = Inr s"
  by (auto simp: RuntimeV2Snapshot_def runtime_wf_def all_cpus valid_connection_def key_matches_def
      valid_resource_def valid_memory_def split: option.splits)

lemma empty_metadata_ok [simp]: "MetadataRuntimeState empty_metadata = Inr empty_metadata"
  by (simp add: MetadataRuntimeState_def empty_metadata_def)

lemma empty_diagnostics_ok [simp]:
  "DiagnosticsRuntimeState empty_diagnostics = Inr empty_diagnostics"
  "DiagnosticRuntimeState (group_state empty_diagnostics grp) = Inr (group_state empty_diagnostics grp)"
  by (simp_all add: DiagnosticsRuntimeState_def empty_diagnostics_def empty_diagnostic_def group_state_def
      DiagnosticRuntimeState_def split: diagnostic_group.splits)

section \<open>One transition\<close>

text \<open>The transition ran through: the draft of the next state passes the checks of the snapshot.\<close>

lemma transition_Inr:
  assumes "apply_policies policies e (draft_of (rv_generation s) [] s) = Inr (draft_of g evs s')" "runtime_wf s'"
  shows "transition policies e s = (Inr (s', evs), s')"
  using assms by (simp add: transition_def candidate_def snapshot_wf)

end
