(* ===== verification/Runtime_Run.thy ===== *)
theory Runtime_Run
  imports Runtime_Spec
begin

text \<open>
  Every event run through the fourteen policies gives the state \<open>next_state\<close> describes, and this state
  is well formed; the events \<open>refused\<close> lists are exactly the ones whose transition fails.
\<close>

definition runs :: "domain_event \<Rightarrow> runtime_v2 \<Rightarrow> bool" where
  "runs e s \<longleftrightarrow>
     (if refused e s
      then \<exists>err. apply_policies DEFAULT_DOMAIN_POLICIES e (draft_of (rv_generation s) [] s) = Inl err
      else apply_policies DEFAULT_DOMAIN_POLICIES e (draft_of (rv_generation s) [] s) =
          Inr (draft_of (rv_generation s) (announced e s) (next_state e s)) \<and>
        runtime_wf (next_state e s))"

lemma wf_forget: "runtime_wf s \<Longrightarrow> runtime_wf (forget_connection s)"
  unfolding runtime_wf_def forget_connection_def by (fastforce intro: valid_drop)

lemma wf_generation: "runtime_wf s \<Longrightarrow> 0 \<le> rv_generation s"
  by (simp add: runtime_wf_def)

lemma wf_memories:
  assumes "runtime_wf s" "\<And>g cpu m. valid_memory g cpu m \<Longrightarrow> valid_memory g cpu (f cpu m)"
  shows "runtime_wf (s\<lparr>rv_memories := (\<lambda>cpu. map_option (f cpu) (rv_memories s cpu))\<rparr>)"
  using assms by (force simp: runtime_wf_def)

lemma event_target_key:
  assumes "is_ok (ConnectionInfo info)"
  shows "from_target_key (co_target_key info) = Inr (if co_target_key info = ''cpu1'' then CPU1 else CPU2)"
    and "is_utc (co_connected_at info)"
  using assms by (auto simp: ConnectionInfo_def from_target_key_def is_ok_iff bindE_Inr_iff runtime_simps split: if_splits)

lemma if_Inl_iff [runtime_simps]: "(if b then Inl e else r) = Inr y \<longleftrightarrow> \<not> b \<and> r = Inr y"
  by simp

definition connection_checks :: "connection_runtime_state \<Rightarrow> datetime \<Rightarrow> bool" where
  "connection_checks k activity \<longleftrightarrow>
     cr_connection_id k \<noteq> [] \<and> cr_transport_label k \<noteq> [] \<and> cr_endpoint_label k \<noteq> [] \<and>
     is_utc (cr_connected_at k) \<and> is_utc activity \<and> dt_instant (cr_connected_at k) \<le> dt_instant activity \<and>
     (case cr_health_checked_at k of None \<Rightarrow> True | Some t \<Rightarrow> is_utc t) \<and>
     (case cr_health_state k of
        HEALTH_UNKNOWN \<Rightarrow> cr_health_error k = None
      | HEALTH_HEALTHY \<Rightarrow> cr_health_checked_at k \<noteq> None \<and> cr_health_error k = None
      | HEALTH_UNHEALTHY \<Rightarrow> cr_health_checked_at k \<noteq> None \<and> cr_health_error k \<noteq> None)"

lemma connection_checks_activity [simp]:
  "connection_checks (k\<lparr>cr_last_protocol_activity := x\<rparr>) t = connection_checks k t"
  by (simp add: connection_checks_def cong: connection_health.case_cong)

lemma ConnectionRuntimeState_iff:
  "ConnectionRuntimeState k = Inr k' \<longleftrightarrow>
     (let activity = (case cr_last_protocol_activity k of None \<Rightarrow> cr_connected_at k | Some t \<Rightarrow> t) in
      connection_checks k activity \<and> k' = k\<lparr>cr_last_protocol_activity := Some activity\<rparr>)"
  unfolding ConnectionRuntimeState_def Let_def bindE_Inr_iff
  by (cases "cr_health_state k"; cases "cr_health_checked_at k"; cases "cr_last_protocol_activity k")
    (simp_all add: runtime_simps connection_checks_def not_less eq_commute [of k'])

lemma ConnectionRuntimeState_Inr_iff [runtime_simps]:
  "ConnectionRuntimeState k = Inr k \<longleftrightarrow> (\<exists>t. cr_last_protocol_activity k = Some t \<and> connection_checks k t)"
proof (cases "cr_last_protocol_activity k")
  case None
  then have "k \<noteq> k\<lparr>cr_last_protocol_activity := Some t\<rparr>" for t
    by (metis connection_runtime_state.select_convs(7) connection_runtime_state.surjective
        connection_runtime_state.update_convs(7) option.distinct(1))
  with None show ?thesis
    by (simp add: ConnectionRuntimeState_iff Let_def)
next
  case (Some t)
  then have "k\<lparr>cr_last_protocol_activity := Some t\<rparr> = k"
    by simp
  with Some show ?thesis
    by (simp add: ConnectionRuntimeState_iff Let_def)
qed

lemma new_connection_valid:
  assumes "is_ok (ConnectionInfo info)" "is_ok (ConnectionOpened info)"
  shows "co_transport_label info \<noteq> [] \<Longrightarrow> co_endpoint_label info \<noteq> [] \<Longrightarrow>
      from_connection_info info g = Inr (new_connection info g)"
    and "co_transport_label info = [] \<or> co_endpoint_label info = [] \<Longrightarrow>
      \<exists>e. from_connection_info info g = Inl e"
proof -
  have "co_connection_id info \<noteq> []"
    using assms(2) by (auto simp: ConnectionOpened_def is_ok_iff bindE_Inr_iff require_identifier_def runtime_simps)
  then show "co_transport_label info \<noteq> [] \<Longrightarrow> co_endpoint_label info \<noteq> [] \<Longrightarrow>
      from_connection_info info g = Inr (new_connection info g)"
    and "co_transport_label info = [] \<or> co_endpoint_label info = [] \<Longrightarrow>
      \<exists>e. from_connection_info info g = Inl e"
    using event_target_key [OF assms(1)]
    by (auto simp: from_connection_info_def ConnectionRuntimeState_def non_empty_def require_utc_def
        new_connection_def Let_def)
qed

lemma new_connection_checked:
  assumes "from_connection_info info g = Inr k"
  shows "ConnectionRuntimeState k = Inr k"
proof -
  obtain k0 where "ConnectionRuntimeState k0 = Inr k"
    using assms by (auto simp: from_connection_info_def bindE_Inr_iff)
  then show ?thesis
    by (auto simp: ConnectionRuntimeState_iff ConnectionRuntimeState_Inr_iff Let_def)
qed

lemma wf_new_connection:
  assumes "runtime_wf s" "ConnectionRuntimeState k = Inr k" "cr_generation k = rv_generation s + 1"
  shows "runtime_wf ((forget_connection s)\<lparr>rv_generation := rv_generation s + 1, rv_connection := Some k,
    rv_memories := (\<lambda>cpu. map_option stale_memory (rv_memories s cpu))\<rparr>)"
proof -
  have old: "valid_memory (rv_generation s + 1) cpu (stale_memory m)" if "valid_memory (rv_generation s) cpu m" for cpu m
    using valid_stale [OF that] by (auto simp: valid_memory_def split: option.splits)
  have mem: "\<exists>m. rv_memories s cpu = Some m \<and> valid_memory (rv_generation s) cpu m" for cpu
    using assms(1) by (simp add: runtime_wf_def)
  have "\<exists>m. map_option stale_memory (rv_memories s cpu) = Some m \<and> valid_memory (rv_generation s + 1) cpu m" for cpu
    using mem [of cpu] old by auto
  then show ?thesis
    using wf_forget [OF assms(1)] assms(2,3)
    by (simp add: runtime_wf_def valid_connection_def forget_connection_def)
qed

lemma runs_opened:
  assumes "runtime_wf s" "event_ok (EvConnectionOpened info)"
  shows "runs (EvConnectionOpened info) s"
proof -
  have ok: "is_ok (ConnectionInfo info)" "is_ok (ConnectionOpened info)"
    using assms(2) by simp_all
  have g: "next_generation (rv_generation s) = Inr (rv_generation s + 1)"
    using wf_generation [OF assms(1)] by (simp add: next_generation_def ConnectionGeneration_def)
  show ?thesis
  proof (cases "co_transport_label info = [] \<or> co_endpoint_label info = []")
    case True
    then show ?thesis
      using new_connection_valid(2) [OF ok, of "rv_generation s + 1"]
      by (auto simp: runs_def DEFAULT_DOMAIN_POLICIES_def g ConnectionGenerationChanged_def)
  next
    case False
    let ?k = "new_connection info (rv_generation s + 1)"
    have k: "from_connection_info info (rv_generation s + 1) = Inr ?k" "cr_generation ?k = rv_generation s + 1"
      using new_connection_valid(1) [OF ok] False by (simp_all add: new_connection_def)
    have "aged active (Some ?k) cpu m = stale_memory m" if "valid_memory (rv_generation s) cpu m" for active cpu m
      using that k(2) by (auto simp: aged_def valid_memory_def)
    then have "map_option (aged active (Some ?k) cpu) (rv_memories s cpu) =
        map_option stale_memory (rv_memories s cpu)" for active cpu
      using wf_memory [OF assms(1), of cpu] by (metis option.simps(9))
    then have run: "apply_policies DEFAULT_DOMAIN_POLICIES (EvConnectionOpened info) (draft_of (rv_generation s) [] s) =
        Inr (draft_of (rv_generation s) (announced (EvConnectionOpened info) s) (next_state (EvConnectionOpened info) s))"
      by (simp add: DEFAULT_DOMAIN_POLICIES_def g ConnectionGenerationChanged_def k
          age_all_draft [OF assms(1)] drop_all_draft [OF assms(1)] replace_metadata_state_def
          forget_connection_def new_connection_def del: foldE.simps)
    have "runtime_wf (next_state (EvConnectionOpened info) s)"
      unfolding next_state.simps using new_connection_checked [OF k(1)] k(2)
      by (intro wf_new_connection [OF assms(1)]) simp_all
    then show ?thesis
      using run False by (simp add: runs_def)
  qed
qed

lemma runs_closed:
  assumes "runtime_wf s"
  shows "runs (EvConnectionClosed i g) s"
proof (cases "refused (EvConnectionClosed i g) s")
  case True
  then show ?thesis
    by (auto simp: runs_def DEFAULT_DOMAIN_POLICIES_def split: option.splits)
next
  case False
  then obtain k where k: "rv_connection s = Some k" "cr_connection_id k = i" "cr_generation k = g"
    by (auto split: option.splits)
  have aged: "aged active None cpu = stale_memory" for active cpu
    by (simp add: aged_def fun_eq_iff)
  have "apply_policies DEFAULT_DOMAIN_POLICIES (EvConnectionClosed i g) (draft_of (rv_generation s) [] s) =
      Inr (draft_of (rv_generation s) (announced (EvConnectionClosed i g) s) (next_state (EvConnectionClosed i g) s))"
    by (simp add: DEFAULT_DOMAIN_POLICIES_def k age_all_draft [OF assms] drop_all_draft [OF assms] aged
        replace_metadata_state_def forget_connection_def del: foldE.simps)
  moreover have "runtime_wf (next_state (EvConnectionClosed i g) s)"
    using wf_memories [OF wf_forget [OF assms], of "\<lambda>_. stale_memory"] valid_stale
    by (auto simp: runtime_wf_def valid_connection_def forget_connection_def)
  ultimately show ?thesis
    using False by (simp add: runs_def)
qed

lemma runs_session:
  assumes "runtime_wf s"
  shows "runs EvSessionChanged s"
proof (cases "rv_connection s")
  case (Some k)
  then show ?thesis
    by (simp add: runs_def DEFAULT_DOMAIN_POLICIES_def reset_memories_draft drop_all_draft [OF assms]
        replace_metadata_state_def del: foldE.simps)
next
  case None
  then have "apply_policies DEFAULT_DOMAIN_POLICIES EvSessionChanged (draft_of (rv_generation s) [] s) =
      Inr (draft_of (rv_generation s) (announced EvSessionChanged s) (next_state EvSessionChanged s))"
    by (simp add: DEFAULT_DOMAIN_POLICIES_def reset_memories_draft drop_all_draft [OF assms] reset_resources_draft
        replace_metadata_state_def forget_connection_def del: foldE.simps)
  moreover have "runtime_wf (next_state EvSessionChanged s)"
    using assms by (auto simp: runtime_wf_def forget_connection_def)
  ultimately show ?thesis
    using None by (simp add: runs_def)
qed

lemma runs_target:
  assumes "runtime_wf s"
  shows "runs (EvActiveTargetChanged active) s"
proof -
  have "apply_policies DEFAULT_DOMAIN_POLICIES (EvActiveTargetChanged active) (draft_of (rv_generation s) [] s) =
      Inr (draft_of (rv_generation s) [] (next_state (EvActiveTargetChanged active) s))"
    by (simp add: DEFAULT_DOMAIN_POLICIES_def age_all_draft [OF assms] drop_all_draft [OF assms]
        replace_metadata_state_def forget_connection_def aged_def [abs_def] cong: option.case_cong del: foldE.simps)
  moreover have "runtime_wf (next_state (EvActiveTargetChanged active) s)"
    using wf_memories [OF wf_forget [OF assms], of "aged active (rv_connection s)"] valid_aged
    by (simp add: forget_connection_def aged_def [abs_def])
  ultimately show ?thesis
    by (simp add: runs_def)
qed

lemma runs_generation:
  assumes "runtime_wf s"
  shows "runs (EvConnectionGenerationChanged p c) s"
proof -
  have "runtime_wf (s\<lparr>rv_resources := (\<lambda>cpu. map_option drop_evidence (rv_resources s cpu))\<rparr>)"
    using assms unfolding runtime_wf_def by (fastforce intro: valid_drop)
  then show ?thesis
    by (simp add: runs_def DEFAULT_DOMAIN_POLICIES_def drop_all_draft [OF assms])
qed

text \<open>The connection's own state.\<close>

lemma wf_on_connection:
  assumes "runtime_wf s"
    and "\<And>k. rv_connection s = Some k \<Longrightarrow> cr_generation k = g \<Longrightarrow> ConnectionRuntimeState k = Inr k \<Longrightarrow>
      ConnectionRuntimeState (f k) = Inr (f k) \<and> cr_generation (f k) = g"
  shows "runtime_wf (on_connection g f s)"
  using assms by (auto simp: runtime_wf_def on_connection_def valid_connection_def split: option.splits)

lemma replace_connection_draft:
  assumes "rv_connection s = Some k" "cr_generation k = g" "ConnectionRuntimeState (f k) = Inr (f k)"
  shows "replace_connection (f k) (draft_of n evs s) = Inr (draft_of n evs (on_connection g f s))"
  using assms by (simp add: replace_connection_def on_connection_def)

lemma on_connection_idle:
  assumes "rv_connection s = None \<or> (\<exists>k. rv_connection s = Some k \<and> (cr_generation k \<noteq> g \<or> f k = k))"
  shows "on_connection g f s = s"
  using assms by (auto simp: on_connection_def)

lemma wf_connection:
  assumes "runtime_wf s" "rv_connection s = Some k"
  obtains t where "cr_last_protocol_activity k = Some t" "connection_checks k t"
  using assms by (auto simp: runtime_wf_def valid_connection_def runtime_simps)

lemma runs_activity:
  assumes "runtime_wf s" "event_ok (EvProtocolActivityRecorded g t)"
  shows "runs (EvProtocolActivityRecorded g t) s"
proof -
  have utc: "is_utc t"
    using assms(2) by (auto simp: ProtocolActivityRecorded_def is_ok_iff bindE_Inr_iff runtime_simps)
  have later: "ConnectionRuntimeState (later_activity t k) = Inr (later_activity t k)" if k: "rv_connection s = Some k" for k
  proof -
    obtain u where u: "cr_last_protocol_activity k = Some u" "connection_checks k u"
      using wf_connection [OF assms(1) k] .
    then have "connection_checks k t" if "dt_instant u \<le> dt_instant t"
      using that utc by (auto simp: connection_checks_def)
    then show ?thesis
      using u by (simp add: later_activity_def ConnectionRuntimeState_Inr_iff)
  qed
  have wf: "runtime_wf (on_connection g (later_activity t) s)"
    using later by (intro wf_on_connection [OF assms(1)]) (simp add: later_activity_def)
  have "ConnectionHealthPolicy (EvProtocolActivityRecorded g t) (draft_of (rv_generation s) [] s) =
      Inr (draft_of (rv_generation s) [] (on_connection g (later_activity t) s))"
  proof (cases "rv_connection s")
    case None
    then show ?thesis
      by (simp add: on_connection_idle)
  next
    case (Some k)
    obtain u where u: "cr_last_protocol_activity k = Some u"
      using wf_connection [OF assms(1) Some] .
    show ?thesis
    proof (cases "cr_generation k = g \<and> dt_instant u \<le> dt_instant t")
      case True
      then have "later_activity t k = k\<lparr>cr_last_protocol_activity := Some t\<rparr>"
        using u by (simp add: later_activity_def)
      then show ?thesis
        using Some True u replace_connection_draft [where f = "later_activity t", OF Some _ later [OF Some]] by simp
    next
      case False
      then have "on_connection g (later_activity t) s = s"
        using Some u by (intro on_connection_idle) (auto simp: later_activity_def)
      then show ?thesis
        using Some False u by auto
    qed
  qed
  then show ?thesis
    using wf by (simp add: runs_def DEFAULT_DOMAIN_POLICIES_def)
qed

lemma runs_health:
  assumes "runtime_wf s" "event_ok (EvConnectionHealthChanged g st t e)"
  shows "runs (EvConnectionHealthChanged g st t e) s"
proof -
  have ok: "is_utc t" "st \<noteq> HEALTH_UNKNOWN" "st = HEALTH_HEALTHY \<Longrightarrow> e = None" "st = HEALTH_UNHEALTHY \<Longrightarrow> e \<noteq> None"
    using assms(2) by (auto simp: ConnectionHealthChanged_def is_ok_iff bindE_Inr_iff runtime_simps)
  have later: "ConnectionRuntimeState (later_health st t e k) = Inr (later_health st t e k)" if k: "rv_connection s = Some k" for k
  proof -
    obtain u where u: "cr_last_protocol_activity k = Some u" "connection_checks k u"
      using wf_connection [OF assms(1) k] .
    then have "connection_checks (k\<lparr>cr_health_state := st, cr_health_checked_at := Some t, cr_health_error := e\<rparr>) u"
      using ok by (cases st) (simp_all add: connection_checks_def)
    then show ?thesis
      using u by (simp add: later_health_def ConnectionRuntimeState_Inr_iff)
  qed
  have wf: "runtime_wf (on_connection g (later_health st t e) s)"
    using later by (intro wf_on_connection [OF assms(1)]) (simp add: later_health_def)
  have "ConnectionHealthPolicy (EvConnectionHealthChanged g st t e) (draft_of (rv_generation s) [] s) =
      Inr (draft_of (rv_generation s) [] (on_connection g (later_health st t e) s))"
  proof (cases "rv_connection s")
    case None
    then show ?thesis
      by (simp add: on_connection_idle)
  next
    case (Some k)
    let ?old = "case cr_health_checked_at k of None \<Rightarrow> False | Some u \<Rightarrow> dt_instant t < dt_instant u"
    show ?thesis
    proof (cases "cr_generation k = g \<and> \<not> ?old")
      case True
      then have "later_health st t e k =
          k\<lparr>cr_health_state := st, cr_health_checked_at := Some t, cr_health_error := e\<rparr>"
        by (simp add: later_health_def)
      then show ?thesis
        using Some True replace_connection_draft [where f = "later_health st t e", OF Some _ later [OF Some]] by simp
    next
      case False
      then have "on_connection g (later_health st t e) s = s"
        using Some by (intro on_connection_idle) (auto simp: later_health_def)
      then show ?thesis
        using Some False by auto
    qed
  qed
  then show ?thesis
    using wf by (simp add: runs_def DEFAULT_DOMAIN_POLICIES_def)
qed

lemma runs_communication_error:
  assumes "runtime_wf s"
  shows "runs (EvCommunicationErrorRecorded g e) s"
proof -
  let ?f = "\<lambda>k. k\<lparr>cr_last_communication_error := Some e\<rparr>"
  have later: "ConnectionRuntimeState (?f k) = Inr (?f k)" if k: "rv_connection s = Some k" for k
  proof -
    obtain u where u: "cr_last_protocol_activity k = Some u" "connection_checks k u"
      using wf_connection [OF assms(1) k] .
    then have "connection_checks (?f k) u"
      by (simp add: connection_checks_def cong: connection_health.case_cong)
    then show ?thesis
      using u by (simp add: ConnectionRuntimeState_Inr_iff)
  qed
  have wf: "runtime_wf (on_connection g ?f s)"
    using later by (intro wf_on_connection [OF assms(1)]) simp
  have "ConnectionCommunicationErrorPolicy (EvCommunicationErrorRecorded g e) (draft_of (rv_generation s) [] s) =
      Inr (draft_of (rv_generation s) [] (on_connection g ?f s))"
  proof (cases "rv_connection s")
    case None
    then show ?thesis
      by (simp add: on_connection_idle)
  next
    case (Some k)
    then show ?thesis
      using replace_connection_draft [where f = ?f, OF Some _ later [OF Some]]
      by (cases "cr_generation k = g") (simp_all add: on_connection_idle)
  qed
  then show ?thesis
    using wf by (simp add: runs_def DEFAULT_DOMAIN_POLICIES_def)
qed

text \<open>What was read from the target.\<close>

lemma runs_memory_read:
  assumes "runtime_wf s" "event_ok (EvMemoryReadSucceeded cpu g a ws t)"
  shows "runs (EvMemoryReadSucceeded cpu g a ws t) s"
proof (cases "current_connection cpu g s")
  case True
  let ?m = "\<lparr>mm_cpu_id = cpu, mm_freshness = DATA_FRESH, mm_base_address = Some a, mm_words = ws,
    mm_read_at = Some t, mm_generation = Some g, mm_read_error = None\<rparr>"
  have m: "MemoryRuntimeState ?m = Inr ?m"
    using assms(2) by (auto simp: MemoryReadSucceeded_def MemoryRuntimeState_def is_ok_iff bindE_Inr_iff runtime_simps)
  have "g = rv_generation s"
    using True assms(1) by (auto simp: current_connection_def runtime_wf_def valid_connection_def split: option.splits)
  then have "runtime_wf (on_memory cpu (\<lambda>_. ?m) s)"
    using m by (intro wf_on_memory [OF assms(1)]) (simp add: valid_memory_def)
  moreover obtain m0 where "rv_memories s cpu = Some m0"
    using assms(1) by (rule wf_memory)
  ultimately show ?thesis
    using True m by (simp add: runs_def DEFAULT_DOMAIN_POLICIES_def replace_memory_state_def on_memory_def)
qed (simp add: runs_def DEFAULT_DOMAIN_POLICIES_def assms(1))

lemma runs_memory_failed:
  assumes "runtime_wf s"
  shows "runs (EvMemoryReadFailed cpu g e) s"
proof (cases "current_connection cpu g s")
  case True
  obtain m where m: "rv_memories s cpu = Some m" "valid_memory (rv_generation s) cpu m"
    using assms by (rule wf_memory)
  let ?f = "\<lambda>m. (stale_memory m)\<lparr>mm_read_error := Some e\<rparr>"
  have f: "valid_memory n cpu (?f m)" if "valid_memory n cpu m" for n m
    using valid_stale [OF that]
    by (auto simp: valid_memory_def stale_memory_def MemoryRuntimeState_def bindE_Inr_iff runtime_simps
        split: if_splits)
  have "m\<lparr>mm_freshness := if mm_words m \<noteq> [] then DATA_STALE else DATA_EMPTY, mm_read_error := Some e\<rparr> = ?f m"
    using valid_memory_freshness [OF m(2)] by (cases "mm_freshness m") (simp_all add: stale_memory_def)
  then have "MemoryFreshnessPolicy (EvMemoryReadFailed cpu g e) (draft_of (rv_generation s) [] s) =
      Inr (draft_of (rv_generation s) [] (on_memory cpu ?f s))"
    using True m(1) f [OF m(2)]
    by (simp add: get_memory_def replace_memory_state_def valid_memory_def on_memory_def)
  moreover have "runtime_wf (on_memory cpu ?f s)"
    using f by (intro wf_on_memory [OF assms])
  ultimately show ?thesis
    using True by (simp add: runs_def DEFAULT_DOMAIN_POLICIES_def)
qed (simp add: runs_def DEFAULT_DOMAIN_POLICIES_def assms)

lemma runs_memory_cleared:
  assumes "runtime_wf s"
  shows "runs (EvMemoryCleared cpu) s"
proof -
  obtain m where m: "rv_memories s cpu = Some m"
    using assms by (rule wf_memory)
  have "runtime_wf (on_memory cpu (\<lambda>_. empty_memory cpu) s)"
    by (intro wf_on_memory [OF assms]) simp
  moreover have "mm_cpu_id (empty_memory cpu) = cpu"
    by (simp add: empty_memory_def)
  ultimately show ?thesis
    using m by (simp add: runs_def DEFAULT_DOMAIN_POLICIES_def replace_memory_state_def on_memory_def)
qed

lemma wf_metadata:
  assumes "runtime_wf s" "MetadataRuntimeState m = Inr m"
  shows "runtime_wf (s\<lparr>rv_metadata := m\<rparr>)"
  using assms by (simp add: runtime_wf_def)

lemma metadata_frozen:
  assumes "MetadataRuntimeState m = Inr m'"
  shows "freeze_runtime_value (mrs_value m') = Inr (mrs_value m')"
proof -
  have "freeze_runtime_value (mrs_value m) = Inr (mrs_value m')"
    using assms by (auto simp: MetadataRuntimeState_def bindE_Inr_iff split: if_splits)
  then show ?thesis
    using freeze_immutable(1) freeze_id(1) by blast
qed

lemma runs_metadata_read:
  assumes "runtime_wf s" "event_ok (EvMetadataReadSucceeded cpu g v)"
  shows "runs (EvMetadataReadSucceeded cpu g v) s"
proof (cases "current_connection cpu g s")
  case True
  have v: "v \<noteq> RNone"
    using assms(2) by (auto simp: MetadataReadSucceeded_def)
  show ?thesis
  proof (cases "freeze_runtime_value v")
    case (Inl e)
    then show ?thesis
      using True v by (simp add: runs_def DEFAULT_DOMAIN_POLICIES_def replace_metadata_state_def MetadataRuntimeState_def)
  next
    case (Inr x)
    then have x: "freeze_runtime_value x = Inr x" "x \<noteq> RNone"
      using freeze_immutable(1) freeze_id(1) freeze_keeps_None v by blast+
    have "runtime_wf (s\<lparr>rv_metadata := \<lparr>mrs_value = x, mrs_freshness = DATA_FRESH, mrs_read_error = None\<rparr>\<rparr>)"
      using x by (intro wf_metadata [OF assms(1)]) (simp add: MetadataRuntimeState_def)
    then show ?thesis
      using True v Inr
      by (simp add: runs_def DEFAULT_DOMAIN_POLICIES_def replace_metadata_state_def MetadataRuntimeState_def frozen_def)
  qed
qed (simp add: runs_def DEFAULT_DOMAIN_POLICIES_def assms(1))

lemma runs_metadata_failed:
  assumes "runtime_wf s"
  shows "runs (EvMetadataReadFailed cpu g e) s"
proof (cases "current_connection cpu g s")
  case True
  have "freeze_runtime_value (mrs_value (rv_metadata s)) = Inr (mrs_value (rv_metadata s))"
    using assms metadata_frozen by (auto simp: runtime_wf_def)
  then have "MetadataRuntimeState \<lparr>mrs_value = mrs_value (rv_metadata s), mrs_freshness = f, mrs_read_error = x\<rparr> =
      Inr \<lparr>mrs_value = mrs_value (rv_metadata s), mrs_freshness = f, mrs_read_error = x\<rparr>"
    if "f \<noteq> DATA_FRESH" for f x
    using that by (simp add: MetadataRuntimeState_def)
  then show ?thesis
    using True wf_metadata [OF assms]
    by (simp add: runs_def DEFAULT_DOMAIN_POLICIES_def replace_metadata_state_def Let_def)
qed (simp add: runs_def DEFAULT_DOMAIN_POLICIES_def assms)

lemma stale_metadata_draft:
  assumes "runtime_wf s"
  shows "stale_metadata cpu g (draft_of n evs s) =
      Inr (draft_of n evs (if current_connection cpu g s then stale_metadata_state s else s))"
    and "runtime_wf (if current_connection cpu g s then stale_metadata_state s else s)"
proof -
  let ?m = "\<lparr>mrs_value = mrs_value (rv_metadata s), mrs_freshness = DATA_STALE, mrs_read_error = None\<rparr>"
  have "freeze_runtime_value (mrs_value (rv_metadata s)) = Inr (mrs_value (rv_metadata s))"
    using assms metadata_frozen by (auto simp: runtime_wf_def)
  then have "MetadataRuntimeState ?m = Inr ?m"
    by (simp add: MetadataRuntimeState_def)
  then show "stale_metadata cpu g (draft_of n evs s) =
      Inr (draft_of n evs (if current_connection cpu g s then stale_metadata_state s else s))"
    and "runtime_wf (if current_connection cpu g s then stale_metadata_state s else s)"
    using wf_metadata [OF assms] assms
    by (simp_all add: stale_metadata_def replace_metadata_state_def stale_metadata_state_def)
qed

lemma runs_metadata_write:
  assumes "runtime_wf s"
  shows "runs (EvMetadataWriteStarted i cpu g identity) s"
  using stale_metadata_draft [OF assms] by (simp add: runs_def DEFAULT_DOMAIN_POLICIES_def)

lemma group_with_group [simp]:
  "group_state (with_group grp d s) h = (if h = grp then d else group_state s h)"
  by (cases grp; cases h) (simp_all add: with_group_def group_state_def)

lemma replace_group_draft:
  assumes "runtime_wf s" "DiagnosticRuntimeState d = Inr d'"
  shows "replace_group d (draft_of n evs s) =
      Inr (draft_of n evs (s\<lparr>rv_diagnostics := with_group (ds_group d) d' (rv_diagnostics s)\<rparr>))"
    and "runtime_wf (s\<lparr>rv_diagnostics := with_group (ds_group d) d' (rv_diagnostics s)\<rparr>)"
proof -
  have frz: "freeze_runtime_value (ds_value d) = Inr (ds_value d')" and d': "d' = d\<lparr>ds_value := ds_value d'\<rparr>"
    and val: "\<not> (ds_freshness d = DATA_FRESH \<and> ds_value d = RNone)"
    using assms(2) by (auto simp: DiagnosticRuntimeState_def bindE_Inr_iff split: if_splits)
  have same: "ds_group d' = ds_group d" "ds_freshness d' = ds_freshness d"
    by (subst d', simp)+
  have "ds_value d' \<noteq> RNone" if "ds_value d \<noteq> RNone"
    using that frz by (metis freeze_keeps_None)
  moreover have "freeze_runtime_value (ds_value d') = Inr (ds_value d')"
    using frz freeze_immutable(1) freeze_id(1) by blast
  ultimately have ok: "DiagnosticRuntimeState d' = Inr d'"
    using val same by (auto simp: DiagnosticRuntimeState_def)
  have groups: "ds_group (group_state (rv_diagnostics s) h) = h" for h
  proof -
    have "DiagnosticsRuntimeState (rv_diagnostics s) = Inr (rv_diagnostics s)"
      using assms(1) by (simp add: runtime_wf_def)
    then show ?thesis
      by (cases h) (auto simp: DiagnosticsRuntimeState_def split: if_splits)
  qed
  then have all: "DiagnosticsRuntimeState (with_group (ds_group d) d' (rv_diagnostics s)) =
      Inr (with_group (ds_group d) d' (rv_diagnostics s))"
    using same by (auto simp: DiagnosticsRuntimeState_def)
  show "replace_group d (draft_of n evs s) =
      Inr (draft_of n evs (s\<lparr>rv_diagnostics := with_group (ds_group d) d' (rv_diagnostics s)\<rparr>))"
    using assms(2) all same by (simp add: replace_group_def)
  show "runtime_wf (s\<lparr>rv_diagnostics := with_group (ds_group d) d' (rv_diagnostics s)\<rparr>)"
    using assms(1) ok all by (simp add: runtime_wf_def)
qed

lemma runs_diagnostic_read:
  assumes "runtime_wf s" "event_ok (EvDiagnosticReadSucceeded cpu g grp v)"
  shows "runs (EvDiagnosticReadSucceeded cpu g grp v) s"
proof (cases "current_connection cpu g s")
  case True
  have v: "v \<noteq> RNone"
    using assms(2) by (auto simp: DiagnosticReadSucceeded_def)
  show ?thesis
  proof (cases "freeze_runtime_value v")
    case (Inl e)
    then show ?thesis
      using True v by (simp add: runs_def DEFAULT_DOMAIN_POLICIES_def replace_group_def DiagnosticRuntimeState_def)
  next
    case (Inr x)
    then have d: "DiagnosticRuntimeState \<lparr>ds_group = grp, ds_value = v, ds_freshness = DATA_FRESH, ds_read_error = None\<rparr> =
        Inr \<lparr>ds_group = grp, ds_value = x, ds_freshness = DATA_FRESH, ds_read_error = None\<rparr>"
      using v by (simp add: DiagnosticRuntimeState_def)
    then show ?thesis
      using True Inr replace_group_draft [OF assms(1) d]
      by (simp add: runs_def DEFAULT_DOMAIN_POLICIES_def frozen_def)
  qed
qed (simp add: runs_def DEFAULT_DOMAIN_POLICIES_def assms(1))

lemma diagnostic_frozen:
  assumes "DiagnosticRuntimeState d = Inr d'"
  shows "freeze_runtime_value (ds_value d') = Inr (ds_value d')"
proof -
  have "freeze_runtime_value (ds_value d) = Inr (ds_value d')"
    using assms by (auto simp: DiagnosticRuntimeState_def bindE_Inr_iff split: if_splits)
  then show ?thesis
    using freeze_immutable(1) freeze_id(1) by blast
qed

lemma runs_diagnostic_failed:
  assumes "runtime_wf s"
  shows "runs (EvDiagnosticReadFailed cpu g grp e) s"
proof (cases "current_connection cpu g s")
  case True
  let ?old = "group_state (rv_diagnostics s) grp"
  have "DiagnosticRuntimeState ?old = Inr ?old"
    using assms by (simp add: runtime_wf_def)
  then have "freeze_runtime_value (ds_value ?old) = Inr (ds_value ?old)"
    by (rule diagnostic_frozen)
  then have d: "DiagnosticRuntimeState \<lparr>ds_group = grp, ds_value = ds_value ?old,
        ds_freshness = if ds_value ?old \<noteq> RNone then DATA_STALE else DATA_EMPTY, ds_read_error = Some e\<rparr> =
      Inr \<lparr>ds_group = grp, ds_value = ds_value ?old,
        ds_freshness = if ds_value ?old \<noteq> RNone then DATA_STALE else DATA_EMPTY, ds_read_error = Some e\<rparr>"
    by (simp add: DiagnosticRuntimeState_def)
  show ?thesis
    using True replace_group_draft [OF assms d]
    by (simp add: runs_def DEFAULT_DOMAIN_POLICIES_def Let_def split del: if_split)
qed (simp add: runs_def DEFAULT_DOMAIN_POLICIES_def assms)

text \<open>The resources of one CPU.\<close>

lemma runs_resource:
  assumes "runtime_wf s" "\<And>r. valid_resource cpu r \<Longrightarrow> valid_resource cpu (f r)"
  shows "update_resource cpu f (draft_of n evs s) = Inr (draft_of n evs (on_resource cpu f s))"
    and "runtime_wf (on_resource cpu f s)"
proof -
  obtain r where r: "rv_resources s cpu = Some r" "valid_resource cpu r"
    using assms(1) by (rule wf_resource)
  show "update_resource cpu f (draft_of n evs s) = Inr (draft_of n evs (on_resource cpu f s))"
    using r(1) assms(2) [OF r(2)] by (rule update_resource_draft)
  show "runtime_wf (on_resource cpu f s)"
    using assms(2) by (intro wf_on_resource [OF assms(1)])
qed

lemma runs_sectors:
  assumes "runtime_wf s" "event_ok (EvSectorSelectionChanged cpu scope m)"
  shows "runs (EvSectorSelectionChanged cpu scope m) s"
proof -
  have "0 \<le> m"
    using assms(2) by (auto simp: SectorSelectionChanged_def is_ok_iff bindE_Inr_iff runtime_simps)
  then have "valid_resource cpu (r\<lparr>tr_erase_scope := scope, tr_custom_sector_mask := m\<rparr>)" if "valid_resource cpu r" for r
    using that by (simp add: valid_resource_def TargetResourceState_iff)
  then show ?thesis
    using runs_resource [OF assms(1), where f = "\<lambda>r. r\<lparr>tr_erase_scope := scope, tr_custom_sector_mask := m\<rparr>"]
    by (simp add: runs_def DEFAULT_DOMAIN_POLICIES_def)
qed

lemma runs_started:
  assumes "runtime_wf s"
  shows "runs (EvOperationStarted i ty cpu g identity) s"
proof -
  let ?s = "if (ty = OP_TYPE_ERASE \<or> ty = OP_TYPE_PROGRAM) \<and> current_connection cpu g s
    then stale_metadata_state s else s"
  have wf: "runtime_wf ?s"
    using stale_metadata_draft(2) [OF assms, of cpu g] assms by (simp split: if_splits)
  have meta: "MetadataFreshnessPolicy (EvOperationStarted i ty cpu g identity) (draft_of (rv_generation s) [] s) =
      Inr (draft_of (rv_generation s) [] ?s)"
    using stale_metadata_draft(1) [OF assms] by simp
  have "valid_resource cpu (started_resource ty r)" if "valid_resource cpu r" for r
    using that by (simp add: valid_resource_def TargetResourceState_iff started_resource_def)
  note run = runs_resource [OF wf this]
  have "EvidenceInvalidationPolicy (EvOperationStarted i ty cpu g identity) d =
      update_resource cpu (started_resource ty) d" for d
    by (simp add: started_resource_def [abs_def])
  then show ?thesis
    using run meta by (simp add: runs_def DEFAULT_DOMAIN_POLICIES_def del: MetadataFreshnessPolicy.simps)
qed

lemma runs_failed: "runtime_wf s \<Longrightarrow> runs (EvOperationFailed i ty cpu g identity c) s"
  by (simp add: runs_def DEFAULT_DOMAIN_POLICIES_def)

text \<open>The choice of an image: first the evidence, then the fields.\<close>

definition unverify :: "flash_image_summary option \<Rightarrow> target_resource \<Rightarrow> target_resource" where
  "unverify summary r = r\<lparr>tr_verify_evidence := (case (tr_verify_evidence r, summary) of
     (Some e, Some x) \<Rightarrow> if ve_identity e = fs_identity x then Some e else None
   | (e, _) \<Rightarrow> e)\<rparr>"

definition set_program :: "string \<Rightarrow> image_parse_status \<Rightarrow> flash_image_summary option \<Rightarrow> string option \<Rightarrow>
    target_resource \<Rightarrow> target_resource" where
  "set_program path st summary e r = r\<lparr>tr_program_image_path := path, tr_program_image_summary := summary,
     tr_program_image_parse_status := st, tr_program_image_parse_error := e\<rparr>"

lemma chosen_program_steps: "set_program path st summary e (unverify summary r) = chosen_program path st summary e r"
  by (simp add: set_program_def unverify_def chosen_program_def)

lemma valid_unverify: "valid_resource cpu r \<Longrightarrow> valid_resource cpu (unverify summary r)"
  by (cases summary; cases "tr_verify_evidence r")
    (simp_all add: valid_resource_def TargetResourceState_iff unverify_def)

lemma valid_set_program:
  "validate_parse_state st summary e = Inr () \<Longrightarrow> valid_resource cpu r \<Longrightarrow>
     valid_resource cpu (set_program path st summary e r)"
  by (simp add: valid_resource_def TargetResourceState_iff set_program_def)

lemma unverify_policy:
  assumes "runtime_wf s"
  shows "EvidenceInvalidationPolicy (EvProgramImageChanged cpu path st summary e) (draft_of n evs s) =
    Inr (draft_of n evs (on_resource cpu (unverify summary) s))"
proof -
  obtain r where r: "rv_resources s cpu = Some r" "valid_resource cpu r"
    using assms by (rule wf_resource)
  have idle: "on_resource cpu (unverify summary) s = s" if "unverify summary r = r"
    using that r(1) by (simp add: on_resource_def fun_upd_idem)
  show ?thesis
  proof (cases "\<exists>v x. tr_verify_evidence r = Some v \<and> summary = Some x \<and> ve_identity v \<noteq> fs_identity x")
    case True
    then obtain v x where vx: "tr_verify_evidence r = Some v" "summary = Some x" "ve_identity v \<noteq> fs_identity x"
      by blast
    let ?f = "\<lambda>r. r\<lparr>tr_verify_evidence := None\<rparr>"
    have f: "?f r = unverify summary r"
      using vx by (simp add: unverify_def)
    then have "on_resource cpu ?f s = on_resource cpu (unverify summary) s"
      using r(1) by (simp add: on_resource_def)
    then show ?thesis
      using vx r(1) update_resource_draft [where f = ?f, OF r(1), of n evs] valid_unverify [OF r(2), of summary] f
      by (simp add: get_resource_def)
  next
    case False
    then have "unverify summary r = r"
      by (cases summary; cases "tr_verify_evidence r") (simp_all add: unverify_def)
    note same = idle [OF this]
    then show ?thesis
      using False r(1) by (cases summary; cases "tr_verify_evidence r") (simp_all add: same get_resource_def)
  qed
qed

lemma on_resource_twice: "on_resource cpu g (on_resource cpu f s) = on_resource cpu (\<lambda>r. g (f r)) s"
  by (simp add: on_resource_def option.map_comp comp_def)

lemma runs_program_image:
  assumes "runtime_wf s" "event_ok (EvProgramImageChanged cpu path st summary e)"
  shows "runs (EvProgramImageChanged cpu path st summary e) s"
proof -
  have ok: "validate_parse_state st summary e = Inr ()"
    using assms(2) by (auto simp: ProgramImageChanged_def is_ok_iff bindE_Inr_iff)
  have wf: "runtime_wf (on_resource cpu (unverify summary) s)"
    by (rule runs_resource(2) [OF assms(1) valid_unverify])
  note run = runs_resource [where f = "set_program path st summary e" and cpu = cpu, OF wf valid_set_program [OF ok]]
  have policy: "ProgramImageStatePolicy (EvProgramImageChanged cpu path st summary e) d =
      update_resource cpu (set_program path st summary e) d" for d
    by (simp add: set_program_def [abs_def])
  show ?thesis
    using run
    by (simp add: runs_def DEFAULT_DOMAIN_POLICIES_def unverify_policy [OF assms(1)] policy
        on_resource_twice chosen_program_steps
        del: EvidenceInvalidationPolicy.simps ProgramImageStatePolicy.simps(1))
qed

definition uncheck :: "ram_image_summary option \<Rightarrow> target_resource \<Rightarrow> target_resource" where
  "uncheck summary r = r\<lparr>tr_ram_crc_evidence := (case (tr_ram_crc_evidence r, summary) of
     (Some e, Some x) \<Rightarrow> if ce_identity e = rs_identity x then Some e else None
   | (e, _) \<Rightarrow> e)\<rparr>"

definition set_ram :: "string \<Rightarrow> image_parse_status \<Rightarrow> ram_image_summary option \<Rightarrow> string option \<Rightarrow>
    target_resource \<Rightarrow> target_resource" where
  "set_ram path st summary e r = r\<lparr>tr_ram_image_path := path, tr_ram_image_summary := summary,
     tr_ram_image_parse_status := st, tr_ram_image_parse_error := e\<rparr>"

lemma chosen_ram_steps: "set_ram path st summary e (uncheck summary r) = chosen_ram path st summary e r"
  by (simp add: set_ram_def uncheck_def chosen_ram_def)

lemma valid_uncheck: "valid_resource cpu r \<Longrightarrow> valid_resource cpu (uncheck summary r)"
  by (cases summary; cases "tr_ram_crc_evidence r")
    (simp_all add: valid_resource_def TargetResourceState_iff uncheck_def)

lemma valid_set_ram:
  "validate_parse_state st summary e = Inr () \<Longrightarrow> ram_summary_ok summary \<Longrightarrow> valid_resource cpu r \<Longrightarrow>
     valid_resource cpu (set_ram path st summary e r)"
  by (simp add: valid_resource_def TargetResourceState_iff set_ram_def)

lemma uncheck_policy:
  assumes "runtime_wf s"
  shows "EvidenceInvalidationPolicy (EvRamImageChanged cpu path st summary e) (draft_of n evs s) =
    Inr (draft_of n evs (on_resource cpu (uncheck summary) s))"
proof -
  obtain r where r: "rv_resources s cpu = Some r" "valid_resource cpu r"
    using assms by (rule wf_resource)
  have idle: "on_resource cpu (uncheck summary) s = s" if "uncheck summary r = r"
    using that r(1) by (simp add: on_resource_def fun_upd_idem)
  show ?thesis
  proof (cases "\<exists>v x. tr_ram_crc_evidence r = Some v \<and> summary = Some x \<and> ce_identity v \<noteq> rs_identity x")
    case True
    then obtain v x where vx: "tr_ram_crc_evidence r = Some v" "summary = Some x" "ce_identity v \<noteq> rs_identity x"
      by blast
    let ?f = "\<lambda>r. r\<lparr>tr_ram_crc_evidence := None\<rparr>"
    have f: "?f r = uncheck summary r"
      using vx by (simp add: uncheck_def)
    then have "on_resource cpu ?f s = on_resource cpu (uncheck summary) s"
      using r(1) by (simp add: on_resource_def)
    then show ?thesis
      using vx r(1) update_resource_draft [where f = ?f, OF r(1), of n evs] valid_uncheck [OF r(2), of summary] f
      by (simp add: get_resource_def)
  next
    case False
    then have "uncheck summary r = r"
      by (cases summary; cases "tr_ram_crc_evidence r") (simp_all add: uncheck_def)
    note same = idle [OF this]
    then show ?thesis
      using False r(1) by (cases summary; cases "tr_ram_crc_evidence r") (simp_all add: same get_resource_def)
  qed
qed

lemma runs_ram_image:
  assumes "runtime_wf s" "event_ok (EvRamImageChanged cpu path st summary e)"
  shows "runs (EvRamImageChanged cpu path st summary e) s"
proof -
  have ok: "validate_parse_state st summary e = Inr ()" "ram_summary_ok summary"
    using assms(2) by (auto simp: RamImageChanged_def is_ok_iff bindE_Inr_iff)
  have wf: "runtime_wf (on_resource cpu (uncheck summary) s)"
    by (rule runs_resource(2) [OF assms(1) valid_uncheck])
  note run = runs_resource [where f = "set_ram path st summary e" and cpu = cpu, OF wf valid_set_ram [OF ok]]
  have policy: "RamImageStatePolicy (EvRamImageChanged cpu path st summary e) d =
      update_resource cpu (set_ram path st summary e) d" for d
    by (simp add: set_ram_def [abs_def])
  show ?thesis
    using run
    by (simp add: runs_def DEFAULT_DOMAIN_POLICIES_def uncheck_policy [OF assms(1)] policy
        on_resource_twice chosen_ram_steps
        del: EvidenceInvalidationPolicy.simps RamImageStatePolicy.simps(1))
qed

text \<open>A success that is evidence.\<close>

lemma parse_ready: "validate_parse_state st (Some x) e = Inr () \<Longrightarrow> st = PARSE_READY"
  by (cases st) (simp_all add: validate_parse_state_def)

lemma success_valid:
  assumes "operation_id \<noteq> []" "valid_resource cpu r"
  shows "valid_resource cpu (active_evidence cpu g operation_id identity ty s r)"
  using assms by (auto simp: active_evidence_def valid_resource_def TargetResourceState_iff
      split: option.splits operation_identity.splits)

lemma verify_policy:
  assumes "runtime_wf s" "operation_id \<noteq> []"
  shows "VerifyEvidencePolicy (EvOperationSucceeded operation_id OP_TYPE_VERIFY cpu g identity) (draft_of n evs s) =
    Inr (draft_of n evs (on_resource cpu (active_evidence cpu g operation_id identity OP_TYPE_VERIFY s) s))"
proof -
  let ?f = "active_evidence cpu g operation_id identity OP_TYPE_VERIFY s"
  obtain r where r: "rv_resources s cpu = Some r" "valid_resource cpu r"
    using assms(1) by (rule wf_resource)
  show ?thesis
  proof (cases "\<exists>x i. tr_program_image_summary r = Some x \<and> identity = FlashIdentity i \<and>
      current_connection cpu g s \<and> fs_identity x = i")
    case True
    then obtain x where x: "tr_program_image_summary r = Some x" "identity = FlashIdentity (fs_identity x)"
      "current_connection cpu g s" by blast
    let ?e = "\<lparr>ve_cpu_id = cpu, ve_generation = g, ve_identity = fs_identity x, ve_operation_id = operation_id\<rparr>"
    let ?h = "\<lambda>r. r\<lparr>tr_verify_evidence := Some ?e\<rparr>"
    have st: "tr_program_image_parse_status r = PARSE_READY"
      using r(2) x(1) by (auto simp: valid_resource_def TargetResourceState_iff dest: parse_ready)
    have f: "?f r = ?h r"
      using x by (simp add: active_evidence_def)
    then have "on_resource cpu ?h s = on_resource cpu ?f s"
      using r(1) by (simp add: on_resource_def)
    moreover have "valid_resource cpu (?h r)"
      using success_valid [OF assms(2) r(2), of g identity OP_TYPE_VERIFY s] unfolding f .
    ultimately show ?thesis
      using update_resource_draft [where f = ?h, OF r(1), of n evs] r(1) x st assms(2)
      by (simp add: get_resource_def VerifyEvidence_def non_empty_def)
  next
    case False
    then have "?f r = r"
      by (auto simp: active_evidence_def split: option.splits operation_identity.splits)
    then have "on_resource cpu ?f s = s"
      using r(1) by (simp add: on_resource_def fun_upd_idem)
    then show ?thesis
      using False r(1) by (auto simp: get_resource_def split: option.splits operation_identity.splits)
  qed
qed

lemma ram_crc_policy:
  assumes "runtime_wf s" "operation_id \<noteq> []" "identity = RamIdentity i"
  shows "RamCrcEvidencePolicy (EvOperationSucceeded operation_id OP_TYPE_RAM_CRC cpu g identity) (draft_of n evs s) =
    Inr (draft_of n evs (on_resource cpu (active_evidence cpu g operation_id identity OP_TYPE_RAM_CRC s) s))"
proof -
  let ?f = "active_evidence cpu g operation_id identity OP_TYPE_RAM_CRC s"
  obtain r where r: "rv_resources s cpu = Some r" "valid_resource cpu r"
    using assms(1) by (rule wf_resource)
  show ?thesis
  proof (cases "\<exists>x. tr_ram_image_summary r = Some x \<and> current_connection cpu g s \<and> rs_identity x = i")
    case True
    then obtain x where x: "tr_ram_image_summary r = Some x" "i = rs_identity x" "current_connection cpu g s"
      by blast
    let ?e = "\<lparr>ce_cpu_id = cpu, ce_generation = g, ce_identity = i, ce_entry_point = ri_entry_point i,
      ce_image_crc32 = ri_image_crc32 i, ce_operation_id = operation_id\<rparr>"
    let ?h = "\<lambda>r. r\<lparr>tr_ram_crc_evidence := Some ?e\<rparr>"
    have st: "tr_ram_image_parse_status r = PARSE_READY"
      using r(2) x(1) by (auto simp: valid_resource_def TargetResourceState_iff dest: parse_ready)
    have e: "RamCrcEvidence ?e = Inr ?e"
      using r(2) x assms(2) by (simp add: valid_resource_def ram_summary_ok_def RamCrcEvidence_def non_empty_def non_negative_def)
    have f: "?f r = ?h r"
      using x assms(3) by (simp add: active_evidence_def)
    then have "on_resource cpu ?h s = on_resource cpu ?f s"
      using r(1) by (simp add: on_resource_def)
    moreover have "valid_resource cpu (?h r)"
      using success_valid [OF assms(2) r(2), of g identity OP_TYPE_RAM_CRC s] unfolding f .
    ultimately show ?thesis
      using update_resource_draft [where f = ?h, OF r(1), of n evs] r(1) x st e assms(3)
      by (simp add: get_resource_def)
  next
    case False
    then have "?f r = r"
      using assms(3) by (auto simp: active_evidence_def split: option.splits)
    then have "on_resource cpu ?f s = s"
      using r(1) by (simp add: on_resource_def fun_upd_idem)
    then show ?thesis
      using False r(1) assms(3) by (auto simp: get_resource_def split: option.splits)
  qed
qed

lemma runs_succeeded:
  assumes "runtime_wf s" "event_ok (EvOperationSucceeded i ty cpu g identity)"
  shows "runs (EvOperationSucceeded i ty cpu g identity) s"
proof -
  have i: "i \<noteq> []"
    using assms(2) by (auto simp: OperationSucceeded_def check_operation_identity_def require_identifier_def is_ok_iff
        bindE_Inr_iff runtime_simps)
  have ram: "\<exists>x. identity = RamIdentity x" if "ty = OP_TYPE_RAM_CRC"
    using that assms(2) by (auto simp: OperationSucceeded_def check_operation_identity_def is_ok_iff bindE_Inr_iff
        split: operation_identity.splits)
  have wf: "runtime_wf (on_resource cpu (active_evidence cpu g i identity ty s) s)"
    by (rule runs_resource(2) [OF assms(1) success_valid [OF i]])
  have idle: "on_resource cpu (active_evidence cpu g i identity ty s) s = s" if "ty \<notin> {OP_TYPE_VERIFY, OP_TYPE_RAM_CRC}"
  proof -
    have "active_evidence cpu g i identity ty s = (\<lambda>r. r)"
      using that by (simp add: active_evidence_def fun_eq_iff)
    then show ?thesis
      by (simp add: on_resource_def fun_upd_idem option.map_ident)
  qed
  show ?thesis
  proof (cases ty)
    case OP_TYPE_VERIFY
    then show ?thesis
      using verify_policy [OF assms(1) i] wf
      by (simp add: runs_def DEFAULT_DOMAIN_POLICIES_def del: VerifyEvidencePolicy.simps(1))
  next
    case OP_TYPE_RAM_CRC
    with ram obtain x where x: "identity = RamIdentity x" by blast
    show ?thesis
      using ram_crc_policy [OF assms(1) i x] wf OP_TYPE_RAM_CRC unfolding x
      by (simp add: runs_def DEFAULT_DOMAIN_POLICIES_def del: RamCrcEvidencePolicy.simps(1))
  qed (use idle wf in \<open>simp_all add: runs_def DEFAULT_DOMAIN_POLICIES_def\<close>)
qed

section \<open>All events\<close>

lemma runs_event:
  assumes "runtime_wf s" "event_ok e"
  shows "runs e s"
  using assms(2)
  by (cases e) (auto intro: runs_opened runs_closed runs_session runs_target runs_generation runs_activity runs_health
      runs_communication_error runs_memory_read runs_memory_failed runs_memory_cleared runs_metadata_read
      runs_metadata_failed runs_metadata_write runs_diagnostic_read runs_diagnostic_failed runs_sectors runs_started
      runs_failed runs_program_image runs_ram_image runs_succeeded assms(1) simp del: event_ok.simps)

lemma transition_runs:
  assumes "runtime_wf s" "event_ok e"
  shows "if refused e s then \<exists>err. transition DEFAULT_DOMAIN_POLICIES e s = (Inl err, s)
    else transition DEFAULT_DOMAIN_POLICIES e s = (Inr (next_state e s, announced e s), next_state e s) \<and>
      runtime_wf (next_state e s)"
  using runs_event [OF assms] transition_Inr [of DEFAULT_DOMAIN_POLICIES e s]
  by (auto simp: runs_def transition_def split: if_splits)

end
