(* ===== verification/Runtime_Evidence.thy ===== *)
theory Runtime_Evidence
  imports Runtime_Run
begin

text \<open>
  What a front end may rely on: the states a store can reach through the dispatcher, the refinement of
  the policies by \<open>next_state\<close> on them, and the invariants that tie evidence and fresh data to the one
  active connection.
\<close>

section \<open>Reachable states\<close>

inductive runtime_reachable :: "runtime_v2 \<Rightarrow> bool" where
  start: "runtime_reachable RuntimeStateStore"
| event: "runtime_reachable s \<Longrightarrow> event_ok e \<Longrightarrow>
    runtime_reachable (snd (dispatch DEFAULT_DOMAIN_POLICIES listeners e s))"

lemma dispatch_state: "snd (dispatch policies listeners e s) = snd (transition policies e s)"
  by (simp add: dispatch_def Let_def split: prod.splits sum.splits)

lemma start_wf: "runtime_wf RuntimeStateStore"
  by (simp add: runtime_wf_def RuntimeStateStore_def valid_connection_def)

lemma transition_state:
  assumes "runtime_wf s" "event_ok e"
  shows "snd (transition DEFAULT_DOMAIN_POLICIES e s) = (if refused e s then s else next_state e s)"
  using transition_runs [OF assms] by (auto split: if_splits)

lemma runtime_reachable_wf: "runtime_reachable s \<Longrightarrow> runtime_wf s"
proof (induction rule: runtime_reachable.induct)
  case start
  then show ?case by (rule start_wf)
next
  case (event s e listeners)
  then show ?case
    using transition_runs [OF event.IH event.hyps(2)] by (auto simp: dispatch_state split: if_splits)
qed

text \<open>An invariant of \<open>next_state\<close> holds in every reachable state.\<close>

lemma reachable_invariant [consumes 1, case_names start event]:
  assumes "runtime_reachable s" "P RuntimeStateStore"
    and "\<And>s e. runtime_wf s \<Longrightarrow> P s \<Longrightarrow> event_ok e \<Longrightarrow> \<not> refused e s \<Longrightarrow> P (next_state e s)"
  shows "P s"
  using assms(1)
proof (induction rule: runtime_reachable.induct)
  case start
  then show ?case using assms(2) .
next
  case (event s e listeners)
  then show ?case
    using assms(3) [OF runtime_reachable_wf [OF event.hyps(1)] event.IH event.hyps(2)]
    by (simp add: dispatch_state transition_state [OF runtime_reachable_wf [OF event.hyps(1)] event.hyps(2)])
qed

text \<open>
  C21.  The fourteen policies have one meaning.  In every state the front end can reach and for every
  event, the dispatcher either refuses it and leaves the state as it was - a stale or unknown
  connection is closed, the session is changed while connected, a connection without labels, a value
  that cannot be frozen - or returns the state \<open>next_state\<close> describes with the events it announces.
\<close>

theorem dispatch_refines_next_state:
  assumes "runtime_reachable s" "event_ok e"
  shows "case dispatch DEFAULT_DOMAIN_POLICIES listeners e s of
      (Inl (DomainTransitionError policy cause), s') \<Rightarrow> refused e s \<and> s' = s
    | (Inr result, s') \<Rightarrow> \<not> refused e s \<and> s' = next_state e s \<and> tx_snapshot result = s' \<and>
        tx_source_event result = e \<and> tx_derived_events result = announced e s"
proof (cases "refused e s")
  case True
  then obtain err where "transition DEFAULT_DOMAIN_POLICIES e s = (Inl err, s)"
    using transition_runs [OF runtime_reachable_wf [OF assms(1)] assms(2)] by auto
  then show ?thesis
    using True by (cases err) (simp add: dispatch_def)
next
  case False
  then have "transition DEFAULT_DOMAIN_POLICIES e s = (Inr (next_state e s, announced e s), next_state e s)"
    using transition_runs [OF runtime_reachable_wf [OF assms(1)] assms(2)] by simp
  then show ?thesis
    using False by (simp add: dispatch_def Let_def)
qed

section \<open>Evidence belongs to the connection\<close>

definition evidence_current :: "connection_runtime_state option \<Rightarrow> runtime_cpu \<Rightarrow> target_resource \<Rightarrow> bool" where
  "evidence_current c cpu r \<longleftrightarrow>
     (\<forall>e. tr_verify_evidence r = Some e \<longrightarrow>
        (\<exists>k. c = Some k \<and> cr_cpu_id k = cpu \<and> cr_generation k = ve_generation e) \<and>
        (\<forall>x. tr_program_image_summary r = Some x \<longrightarrow> fs_identity x = ve_identity e)) \<and>
     (\<forall>e. tr_ram_crc_evidence r = Some e \<longrightarrow>
        (\<exists>k. c = Some k \<and> cr_cpu_id k = cpu \<and> cr_generation k = ce_generation e) \<and>
        (\<forall>x. tr_ram_image_summary r = Some x \<longrightarrow> rs_identity x = ce_identity e))"

definition all_evidence_current :: "runtime_v2 \<Rightarrow> bool" where
  "all_evidence_current s \<longleftrightarrow>
     (\<forall>cpu r. rv_resources s cpu = Some r \<longrightarrow> evidence_current (rv_connection s) cpu r)"

lemma current_none: "tr_verify_evidence r = None \<Longrightarrow> tr_ram_crc_evidence r = None \<Longrightarrow> evidence_current c cpu r"
  by (simp add: evidence_current_def)

lemma current_drop: "evidence_current c cpu (drop_evidence r)"
  by (simp add: current_none drop_evidence_def)

lemma current_on_resource:
  assumes "all_evidence_current s"
    and "\<And>r. evidence_current (rv_connection s) cpu r \<Longrightarrow> evidence_current (rv_connection s) cpu (f r)"
  shows "all_evidence_current (on_resource cpu f s)"
  using assms by (auto simp: all_evidence_current_def on_resource_def)

lemma current_on_connection:
  assumes "all_evidence_current s"
    and "\<And>k. cr_cpu_id (f k) = cr_cpu_id k \<and> cr_generation (f k) = cr_generation k"
  shows "all_evidence_current (on_connection g f s)"
proof -
  have "evidence_current (map_option (\<lambda>k. if cr_generation k = g then f k else k) c) cpu r = evidence_current c cpu r"
    for c cpu r
    by (cases c) (simp_all add: evidence_current_def assms(2))
  then show ?thesis
    using assms(1) by (simp add: all_evidence_current_def on_connection_def)
qed

lemma current_other:
  "all_evidence_current (s\<lparr>rv_metadata := m\<rparr>) = all_evidence_current s"
  "all_evidence_current (s\<lparr>rv_diagnostics := d\<rparr>) = all_evidence_current s"
  "all_evidence_current (on_memory cpu f s) = all_evidence_current s"
  "all_evidence_current (stale_metadata_state s) = all_evidence_current s"
  by (simp_all add: all_evidence_current_def on_memory_def stale_metadata_state_def)

lemma current_started: "evidence_current c cpu r \<Longrightarrow> evidence_current c cpu (started_resource ty r)"
  by (simp add: evidence_current_def started_resource_def)

lemma current_succeeded:
  assumes "evidence_current (rv_connection s) cpu r"
  shows "evidence_current (rv_connection s) cpu (active_evidence cpu g i identity ty s r)"
proof (cases "current_connection cpu g s")
  case True
  then obtain k where "rv_connection s = Some k" "cr_cpu_id k = cpu" "cr_generation k = g"
    by (auto simp: current_connection_def split: option.splits)
  with True show ?thesis
    using assms
    by (cases ty; cases identity; cases "tr_program_image_summary r"; cases "tr_ram_image_summary r")
      (simp_all add: active_evidence_def evidence_current_def)
qed (simp add: active_evidence_def assms)

lemma current_program: "evidence_current c cpu r \<Longrightarrow> evidence_current c cpu (chosen_program path st summary e r)"
  by (cases summary; cases "tr_verify_evidence r") (simp_all add: evidence_current_def chosen_program_def)

lemma current_ram: "evidence_current c cpu r \<Longrightarrow> evidence_current c cpu (chosen_ram path st summary e r)"
  by (cases summary; cases "tr_ram_crc_evidence r") (simp_all add: evidence_current_def chosen_ram_def)

lemma current_forgotten:
  assumes "\<And>cpu r. rv_resources s cpu = Some r \<Longrightarrow> \<exists>x. r = drop_evidence x"
  shows "all_evidence_current s"
  unfolding all_evidence_current_def using assms current_drop by blast

lemma current_next:
  assumes "all_evidence_current s"
  shows "all_evidence_current (next_state e s)"
proof (cases e)
  case (EvConnectionOpened info)
  show ?thesis
    unfolding EvConnectionOpened by (rule current_forgotten) (auto simp: forget_connection_def)
next
  case (EvConnectionClosed i g)
  show ?thesis
    unfolding EvConnectionClosed by (rule current_forgotten) (auto simp: forget_connection_def)
next
  case (EvActiveTargetChanged cpu)
  show ?thesis
    unfolding EvActiveTargetChanged by (rule current_forgotten) (auto simp: forget_connection_def)
next
  case (EvConnectionGenerationChanged p c)
  show ?thesis
    unfolding EvConnectionGenerationChanged by (rule current_forgotten) auto
next
  case EvSessionChanged
  then show ?thesis
    by (auto simp: all_evidence_current_def empty_resource_def intro!: current_none)
next
  case (EvOperationStarted i ty cpu g identity)
  then show ?thesis
    using assms by (auto intro!: current_on_resource current_started simp: current_other)
qed (auto intro!: current_on_resource current_on_connection current_succeeded current_program current_ram
    simp: assms current_other later_activity_def later_health_def evidence_current_def Let_def)

lemma reachable_current: "runtime_reachable s \<Longrightarrow> all_evidence_current s"
proof (induction rule: reachable_invariant)
  case start
  then show ?case
    by (simp add: all_evidence_current_def RuntimeStateStore_def empty_resource_def current_none)
next
  case (event s e)
  then show ?case
    by (intro current_next)
qed

text \<open>
  C22.  Evidence is about the connected target and the parsed image.  In every reachable state, a CPU that has
  verify or RAM CRC evidence is the one the front end is connected to, the evidence was obtained on this very
  connection, and whenever a parsed image is held for the CPU it is the image the evidence was obtained for.
  (While a newly chosen file is not parsed, or cannot be, no image is held and the evidence of the previous
  one stays.)
\<close>

theorem evidence_is_current:
  assumes "runtime_reachable s" "rv_resources s cpu = Some r"
  shows "(case tr_verify_evidence r of None \<Rightarrow> True | Some e \<Rightarrow>
        ve_cpu_id e = cpu \<and> current_connection cpu (ve_generation e) s \<and>
        (case tr_program_image_summary r of None \<Rightarrow> True | Some x \<Rightarrow> fs_identity x = ve_identity e)) \<and>
    (case tr_ram_crc_evidence r of None \<Rightarrow> True | Some e \<Rightarrow>
        ce_cpu_id e = cpu \<and> current_connection cpu (ce_generation e) s \<and>
        (case tr_ram_image_summary r of None \<Rightarrow> True | Some x \<Rightarrow> rs_identity x = ce_identity e))"
proof -
  have cur: "evidence_current (rv_connection s) cpu r"
    using reachable_current [OF assms(1)] assms(2) by (simp add: all_evidence_current_def)
  have "\<exists>r'. rv_resources s cpu = Some r' \<and> valid_resource cpu r'"
    using runtime_reachable_wf [OF assms(1)] by (simp add: runtime_wf_def)
  then have "valid_resource cpu r"
    using assms(2) by simp
  then show ?thesis
    using cur by (auto simp: evidence_current_def valid_resource_def TargetResourceState_iff current_connection_def
        split: option.splits)
qed

section \<open>Evidence has a cause\<close>

lemma verify_evidence_step:
  assumes "rv_resources (next_state e s) cpu = Some r'" "tr_verify_evidence r' = Some v"
    and "rv_resources s cpu = Some r"
  shows "tr_verify_evidence r = Some v \<or>
    e = EvOperationSucceeded (ve_operation_id v) OP_TYPE_VERIFY cpu (ve_generation v) (FlashIdentity (ve_identity v)) \<and>
      current_connection cpu (ve_generation v) s \<and> map_option fs_identity (tr_program_image_summary r) = Some (ve_identity v)"
proof -
  have success: ?thesis if e: "e = EvOperationSucceeded i ty c g identity" for i ty c g identity
  proof (cases "c = cpu")
    case True
    then have r': "r' = active_evidence cpu g i identity ty s r"
      using assms(1,3) e by (simp add: on_resource_def)
    show ?thesis
      using assms(2) e True unfolding r'
      by (cases ty; cases identity; cases "tr_program_image_summary r"; cases "tr_ram_image_summary r")
        (auto simp: active_evidence_def split: if_splits)
  next
    case False
    then show ?thesis
      using assms e by (simp add: on_resource_def)
  qed
  show ?thesis
  proof (cases e)
    case (EvOperationSucceeded i ty c g identity)
    then show ?thesis
      by (rule success)
  next
    case (EvOperationStarted i ty c g identity)
    then show ?thesis
      using assms by (auto simp: on_resource_def started_resource_def stale_metadata_state_def split: if_splits)
  next
    case (EvProgramImageChanged c path st summary e)
    then show ?thesis
      using assms by (cases summary; cases "tr_verify_evidence r")
        (auto simp: on_resource_def chosen_program_def split: if_splits)
  next
    case (EvRamImageChanged c path st summary e)
    then show ?thesis
      using assms by (auto simp: on_resource_def chosen_ram_def split: if_splits)
  qed (use assms in \<open>auto simp: forget_connection_def drop_evidence_def empty_resource_def on_resource_def
      on_memory_def on_connection_def stale_metadata_state_def Let_def split: if_splits\<close>)
qed

text \<open>
  C23.  Evidence is never invented.  If an event leaves a CPU with verify evidence it did not have, the event
  is the success of a verify of that CPU, on the connection the evidence names, and of exactly the image that
  is chosen for the CPU at that moment; in particular no late success of an earlier connection, and no success
  for an image that was replaced meanwhile, becomes evidence.
\<close>

theorem evidence_needs_success:
  assumes "runtime_reachable s" "event_ok e"
    and "rv_resources s cpu = Some r" "tr_verify_evidence r \<noteq> Some v"
    and "rv_resources (snd (dispatch DEFAULT_DOMAIN_POLICIES listeners e s)) cpu = Some r'" "tr_verify_evidence r' = Some v"
  shows "e = EvOperationSucceeded (ve_operation_id v) OP_TYPE_VERIFY cpu (ve_generation v) (FlashIdentity (ve_identity v)) \<and>
    current_connection cpu (ve_generation v) s \<and>
    map_option fs_identity (tr_program_image_summary r) = Some (ve_identity v)"
proof -
  have state: "snd (dispatch DEFAULT_DOMAIN_POLICIES listeners e s) = (if refused e s then s else next_state e s)"
    by (simp add: dispatch_state transition_state [OF runtime_reachable_wf [OF assms(1)] assms(2)])
  then have "rv_resources (next_state e s) cpu = Some r'"
    using assms(3-6) by (auto split: if_splits)
  then show ?thesis
    using verify_evidence_step [OF _ assms(6,3)] assms(4) by blast
qed

section \<open>Histories\<close>

definition run_events :: "domain_event list \<Rightarrow> runtime_v2 \<Rightarrow> runtime_v2" where
  "run_events es s = fold (\<lambda>e s. snd (dispatch DEFAULT_DOMAIN_POLICIES [] e s)) es s"

lemma run_events_snoc:
  "run_events (es @ [e]) s = snd (dispatch DEFAULT_DOMAIN_POLICIES [] e (run_events es s))"
  by (simp add: run_events_def)

lemma run_events_reachable: "list_all event_ok es \<Longrightarrow> runtime_reachable (run_events es RuntimeStateStore)"
proof (induction es rule: rev_induct)
  case Nil
  then show ?case
    by (simp add: run_events_def runtime_reachable.start)
next
  case (snoc e es)
  then show ?case
    by (simp add: run_events_snoc runtime_reachable.event)
qed

lemma run_events_step:
  assumes "list_all event_ok (es @ [e])"
  shows "run_events (es @ [e]) RuntimeStateStore =
    (if refused e (run_events es RuntimeStateStore) then run_events es RuntimeStateStore
     else next_state e (run_events es RuntimeStateStore))"
  using assms transition_state [OF runtime_reachable_wf [OF run_events_reachable]]
  by (simp add: run_events_snoc dispatch_state)

section \<open>Fresh data belongs to the connection\<close>

text \<open>The event arrived while the given connection was the active one.\<close>

definition arrived :: "domain_event list \<Rightarrow> runtime_cpu \<Rightarrow> connection_generation \<Rightarrow> domain_event \<Rightarrow> bool" where
  "arrived es cpu g e \<longleftrightarrow>
     (\<exists>es1 es2. es = es1 @ e # es2 \<and> current_connection cpu g (run_events es1 RuntimeStateStore))"

lemma arrived_now: "current_connection cpu g (run_events es RuntimeStateStore) \<Longrightarrow> arrived (es @ [e]) cpu g e"
  unfolding arrived_def by blast

lemma arrived_before: "arrived es cpu g e \<Longrightarrow> arrived (es @ [e']) cpu g e"
  unfolding arrived_def by fastforce

definition memory_read_state ::
  "runtime_cpu \<Rightarrow> connection_generation \<Rightarrow> int \<Rightarrow> int list \<Rightarrow> datetime \<Rightarrow> memory_runtime_state" where
  "memory_read_state cpu g a ws t =
     \<lparr>mm_cpu_id = cpu, mm_freshness = DATA_FRESH, mm_base_address = Some a, mm_words = ws, mm_read_at = Some t,
      mm_generation = Some g, mm_read_error = None\<rparr>"

abbreviation same_target :: "runtime_v2 \<Rightarrow> runtime_v2 \<Rightarrow> bool" where
  "same_target s s' \<equiv> \<forall>cpu g. current_connection cpu g s' = current_connection cpu g s"

lemma stale_not_fresh [simp]: "mm_freshness (stale_memory m) \<noteq> DATA_FRESH"
  by (simp add: stale_memory_def)

lemma empties_not_fresh [simp]:
  "mm_freshness (empty_memory cpu) = DATA_EMPTY" "mrs_freshness empty_metadata = DATA_EMPTY"
  "ds_freshness (group_state empty_diagnostics grp) = DATA_EMPTY"
  by (simp_all add: empty_memory_def empty_metadata_def empty_diagnostics_def empty_diagnostic_def group_state_def
      split: diagnostic_group.split)

lemma current_connected: "current_connection cpu g s \<Longrightarrow>
    \<exists>k. rv_connection s = Some k \<and> cr_cpu_id k = cpu \<and> cr_generation k = g"
  by (auto simp: current_connection_def split: option.splits)

lemma same_target_on [simp]:
  "current_connection cpu g (on_memory c f s) = current_connection cpu g s"
  "current_connection cpu g (on_resource c h s) = current_connection cpu g s"
  "current_connection cpu g (stale_metadata_state s) = current_connection cpu g s"
  "current_connection cpu g (s\<lparr>rv_metadata := m\<rparr>) = current_connection cpu g s"
  "current_connection cpu g (s\<lparr>rv_diagnostics := d\<rparr>) = current_connection cpu g s"
  "current_connection cpu g (forget_connection s) = current_connection cpu g s"
  "current_connection cpu g (s\<lparr>rv_memories := ms\<rparr>) = current_connection cpu g s"
  "current_connection cpu g (s\<lparr>rv_resources := rs\<rparr>) = current_connection cpu g s"
  by (simp_all add: current_connection_def on_memory_def on_resource_def stale_metadata_state_def forget_connection_def)

lemma same_target_connection:
  assumes "\<And>k. cr_cpu_id (f k) = cr_cpu_id k \<and> cr_generation (f k) = cr_generation k"
  shows "current_connection cpu g (on_connection h f s) = current_connection cpu g s"
  by (cases "rv_connection s") (simp_all add: current_connection_def on_connection_def assms)

text \<open>Fresh metadata was read by this event, or was fresh before it on the same target.\<close>

lemma metadata_step:
  assumes "mrs_freshness (rv_metadata (next_state e s)) = DATA_FRESH"
  shows "(\<exists>cpu g v. e = EvMetadataReadSucceeded cpu g v \<and> current_connection cpu g s \<and>
      current_connection cpu g (next_state e s) \<and> mrs_value (rv_metadata (next_state e s)) = frozen v) \<or>
    rv_metadata (next_state e s) = rv_metadata s \<and> same_target s (next_state e s)"
  using assms
  by (cases e) (auto simp: same_target_connection later_activity_def later_health_def Let_def forget_connection_def
      stale_metadata_state_def on_resource_def on_memory_def on_connection_def current_connection_def split: if_splits option.splits)

lemma diagnostic_step:
  assumes "ds_freshness (group_state (rv_diagnostics (next_state e s)) grp) = DATA_FRESH"
  shows "(\<exists>cpu g v. e = EvDiagnosticReadSucceeded cpu g grp v \<and> current_connection cpu g s \<and>
      current_connection cpu g (next_state e s) \<and>
      ds_value (group_state (rv_diagnostics (next_state e s)) grp) = frozen v) \<or>
    group_state (rv_diagnostics (next_state e s)) grp = group_state (rv_diagnostics s) grp \<and> same_target s (next_state e s)"
  using assms
  by (cases e) (auto simp: same_target_connection later_activity_def later_health_def Let_def forget_connection_def
      stale_metadata_state_def on_resource_def on_memory_def on_connection_def current_connection_def split: if_splits option.splits)

lemma memory_step:
  assumes "rv_memories (next_state e s) cpu = Some m" "mm_freshness m = DATA_FRESH"
  shows "(\<exists>g a ws t. e = EvMemoryReadSucceeded cpu g a ws t \<and> current_connection cpu g s \<and>
      current_connection cpu g (next_state e s) \<and> m = memory_read_state cpu g a ws t) \<or>
    rv_memories s cpu = Some m \<and> same_target s (next_state e s)"
  using assms
  by (cases e) (auto simp: same_target_connection later_activity_def later_health_def Let_def forget_connection_def
      stale_metadata_state_def on_resource_def on_memory_def on_connection_def current_connection_def
      memory_read_state_def split: if_splits option.splits)

text \<open>What a front end shows as fresh, traced back to the event that brought it.\<close>

definition fresh_from :: "domain_event list \<Rightarrow> runtime_v2 \<Rightarrow> bool" where
  "fresh_from es s \<longleftrightarrow>
     (\<forall>cpu m. rv_memories s cpu = Some m \<and> mm_freshness m = DATA_FRESH \<longrightarrow>
        (\<exists>g a ws t. current_connection cpu g s \<and> m = memory_read_state cpu g a ws t \<and>
           arrived es cpu g (EvMemoryReadSucceeded cpu g a ws t))) \<and>
     (mrs_freshness (rv_metadata s) = DATA_FRESH \<longrightarrow>
        (\<exists>cpu g v. current_connection cpu g s \<and> mrs_value (rv_metadata s) = frozen v \<and>
           arrived es cpu g (EvMetadataReadSucceeded cpu g v))) \<and>
     (\<forall>grp. ds_freshness (group_state (rv_diagnostics s) grp) = DATA_FRESH \<longrightarrow>
        (\<exists>cpu g v. current_connection cpu g s \<and> ds_value (group_state (rv_diagnostics s) grp) = frozen v \<and>
           arrived es cpu g (EvDiagnosticReadSucceeded cpu g grp v)))"

lemma fresh_from_more: "fresh_from es s \<Longrightarrow> fresh_from (es @ [e]) s"
  unfolding fresh_from_def using arrived_before by blast

lemma fresh_from_next:
  assumes "fresh_from es s" "s = run_events es RuntimeStateStore"
  shows "fresh_from (es @ [e]) (next_state e s)"
proof -
  have now: "arrived (es @ [e]) cpu g e" if "current_connection cpu g s" for cpu g
    using that assms(2) by (simp add: arrived_now)
  have "\<exists>g a ws t. current_connection cpu g (next_state e s) \<and> m = memory_read_state cpu g a ws t \<and>
      arrived (es @ [e]) cpu g (EvMemoryReadSucceeded cpu g a ws t)"
    if "rv_memories (next_state e s) cpu = Some m" "mm_freshness m = DATA_FRESH" for cpu m
    using memory_step [OF that]
  proof (elim disjE exE conjE)
    assume "rv_memories s cpu = Some m" "same_target s (next_state e s)"
    then show ?thesis
      using fresh_from_more [OF assms(1), of e] that(2) unfolding fresh_from_def by metis
  qed (use now in blast)
  moreover have "\<exists>cpu g v. current_connection cpu g (next_state e s) \<and> mrs_value (rv_metadata (next_state e s)) = frozen v \<and>
      arrived (es @ [e]) cpu g (EvMetadataReadSucceeded cpu g v)"
    if "mrs_freshness (rv_metadata (next_state e s)) = DATA_FRESH"
    using metadata_step [OF that]
  proof (elim disjE exE conjE)
    assume "rv_metadata (next_state e s) = rv_metadata s" "same_target s (next_state e s)"
    then show ?thesis
      using fresh_from_more [OF assms(1), of e] that unfolding fresh_from_def by metis
  qed (use now in blast)
  moreover have "\<exists>cpu g v. current_connection cpu g (next_state e s) \<and>
      ds_value (group_state (rv_diagnostics (next_state e s)) grp) = frozen v \<and>
      arrived (es @ [e]) cpu g (EvDiagnosticReadSucceeded cpu g grp v)"
    if "ds_freshness (group_state (rv_diagnostics (next_state e s)) grp) = DATA_FRESH" for grp
    using diagnostic_step [OF that]
  proof (elim disjE exE conjE)
    assume "group_state (rv_diagnostics (next_state e s)) grp = group_state (rv_diagnostics s) grp"
      "same_target s (next_state e s)"
    then show ?thesis
      using fresh_from_more [OF assms(1), of e] that unfolding fresh_from_def by metis
  qed (use now in blast)
  ultimately show ?thesis
    unfolding fresh_from_def by blast
qed

lemma run_events_fresh: "list_all event_ok es \<Longrightarrow> fresh_from es (run_events es RuntimeStateStore)"
proof (induction es rule: rev_induct)
  case Nil
  then show ?case
    by (simp add: fresh_from_def run_events_def RuntimeStateStore_def)
next
  case (snoc e es)
  then have "fresh_from es (run_events es RuntimeStateStore)"
    by simp
  then show ?case
    using run_events_step [OF snoc.prems] fresh_from_more fresh_from_next [OF _ refl] by simp
qed

text \<open>
  C24.  What is shown as fresh was read on the active connection.  After any history of events, memory, metadata
  and every group of diagnostics that is marked fresh holds exactly what the event of a successful read brought
  that names the active CPU and the generation of the active connection and arrived while that connection was
  the active one: a read that arrives late, on another connection or on none, is never shown as fresh.
\<close>

theorem fresh_data_is_current:
  assumes "list_all event_ok es" "s = run_events es RuntimeStateStore"
  shows "(\<forall>cpu m. rv_memories s cpu = Some m \<and> mm_freshness m = DATA_FRESH \<longrightarrow>
      (\<exists>g a ws t. current_connection cpu g s \<and> m = memory_read_state cpu g a ws t \<and>
         arrived es cpu g (EvMemoryReadSucceeded cpu g a ws t))) \<and>
    (mrs_freshness (rv_metadata s) = DATA_FRESH \<longrightarrow>
      (\<exists>cpu g v. current_connection cpu g s \<and> mrs_value (rv_metadata s) = frozen v \<and>
         arrived es cpu g (EvMetadataReadSucceeded cpu g v))) \<and>
    (\<forall>grp. ds_freshness (group_state (rv_diagnostics s) grp) = DATA_FRESH \<longrightarrow>
      (\<exists>cpu g v. current_connection cpu g s \<and> ds_value (group_state (rv_diagnostics s) grp) = frozen v \<and>
         arrived es cpu g (EvDiagnosticReadSucceeded cpu g grp v)))"
  using run_events_fresh [OF assms(1)] unfolding assms(2) fresh_from_def .

section \<open>Generations\<close>

text \<open>The connection an event reports about.\<close>

fun event_generation :: "domain_event \<Rightarrow> connection_generation option" where
  "event_generation (EvMetadataReadSucceeded cpu g v) = Some g"
| "event_generation (EvMetadataReadFailed cpu g e) = Some g"
| "event_generation (EvMetadataWriteStarted i cpu g identity) = Some g"
| "event_generation (EvDiagnosticReadSucceeded cpu g grp v) = Some g"
| "event_generation (EvDiagnosticReadFailed cpu g grp e) = Some g"
| "event_generation (EvMemoryReadSucceeded cpu g a ws t) = Some g"
| "event_generation (EvMemoryReadFailed cpu g e) = Some g"
| "event_generation (EvProtocolActivityRecorded g t) = Some g"
| "event_generation (EvConnectionHealthChanged g st t e) = Some g"
| "event_generation (EvCommunicationErrorRecorded g e) = Some g"
| "event_generation (EvOperationSucceeded i ty cpu g identity) = Some g"
| "event_generation (EvOperationFailed i ty cpu g identity c) = Some g"
| "event_generation _ = None"

lemma late_current: "map_option cr_generation (rv_connection s) \<noteq> Some g \<Longrightarrow> \<not> current_connection cpu g s"
  by (auto dest: current_connected)

lemma late_connection:
  "map_option cr_generation (rv_connection s) \<noteq> Some g \<Longrightarrow> on_connection g f s = s"
  by (rule on_connection_idle) (cases "rv_connection s"; simp)

lemma late_success:
  "\<not> current_connection cpu g s \<Longrightarrow> on_resource cpu (active_evidence cpu g i identity ty s) s = s"
proof -
  assume "\<not> current_connection cpu g s"
  then have "active_evidence cpu g i identity ty s = (\<lambda>r. r)"
    by (simp add: active_evidence_def fun_eq_iff)
  then show "on_resource cpu (active_evidence cpu g i identity ty s) s = s"
    by (simp add: on_resource_def fun_upd_idem option.map_ident)
qed

lemma late_next:
  assumes "event_generation e = Some g" "map_option cr_generation (rv_connection s) \<noteq> Some g"
  shows "next_state e s = s" and "\<not> refused e s"
  using assms(1) late_current [OF assms(2)] late_connection [OF assms(2)]
  by (cases e; simp add: late_success)+

text \<open>
  C25.  Late reports change nothing.  A report about another connection than the active one - the outcome of a
  memory, metadata or diagnostics read, the start of a metadata write, protocol activity, a health check, a
  communication error, the success or failure of an operation - is accepted and leaves the whole state as it is,
  and closing such a connection is refused and leaves it as it is.  (The start of an operation is not among
  them: it drops the evidence of its CPU whichever connection it names.)
\<close>

theorem late_report_changes_nothing:
  assumes "runtime_reachable s" "event_ok e"
    and "event_generation e = Some g \<or> (\<exists>i. e = EvConnectionClosed i g)"
    and "map_option cr_generation (rv_connection s) \<noteq> Some g"
  shows "case dispatch DEFAULT_DOMAIN_POLICIES listeners e s of
      (Inr result, s') \<Rightarrow> s' = s \<and> tx_snapshot result = s \<and> event_generation e = Some g
    | (Inl error, s') \<Rightarrow> s' = s \<and> (\<exists>i. e = EvConnectionClosed i g)"
  using assms(3)
proof
  assume g: "event_generation e = Some g"
  have "transition DEFAULT_DOMAIN_POLICIES e s = (Inr (s, announced e s), s)"
    using transition_runs [OF runtime_reachable_wf [OF assms(1)] assms(2)] late_next [OF g assms(4)] by simp
  then show ?thesis
    using g by (simp add: dispatch_def Let_def)
next
  assume closed: "\<exists>i. e = EvConnectionClosed i g"
  then have "refused e s"
    using assms(4) by (auto split: option.split)
  then obtain err where "transition DEFAULT_DOMAIN_POLICIES e s = (Inl err, s)"
    using transition_runs [OF runtime_reachable_wf [OF assms(1)] assms(2)] by auto
  then show ?thesis
    using closed by (simp add: dispatch_def)
qed

definition same_connection :: "connection_runtime_state \<Rightarrow> runtime_v2 \<Rightarrow> bool" where
  "same_connection k s \<longleftrightarrow> cr_generation k \<le> rv_generation s \<and>
     (\<forall>k'. rv_connection s = Some k' \<and> cr_generation k' = cr_generation k \<longrightarrow>
        cr_connection_id k' = cr_connection_id k \<and> cr_cpu_id k' = cr_cpu_id k \<and>
        cr_connected_at k' = cr_connected_at k)"

lemma same_on_connection:
  assumes "same_connection k s"
    and "\<And>x. cr_connection_id (f x) = cr_connection_id x" "\<And>x. cr_cpu_id (f x) = cr_cpu_id x"
      "\<And>x. cr_generation (f x) = cr_generation x" "\<And>x. cr_connected_at (f x) = cr_connected_at x"
  shows "same_connection k (on_connection g f s)"
proof (cases "rv_connection s")
  case None
  with assms(1) show ?thesis
    by (simp add: same_connection_def on_connection_def)
next
  case (Some x)
  with assms(1) show ?thesis
    by (simp add: same_connection_def on_connection_def assms(2-5))
qed

lemma same_other:
  "same_connection k (on_memory cpu f s) = same_connection k s"
  "same_connection k (on_resource cpu h s) = same_connection k s"
  "same_connection k (stale_metadata_state s) = same_connection k s"
  "same_connection k (s\<lparr>rv_metadata := m\<rparr>) = same_connection k s"
  "same_connection k (s\<lparr>rv_diagnostics := d\<rparr>) = same_connection k s"
  by (simp_all add: same_connection_def on_memory_def on_resource_def stale_metadata_state_def)

lemma same_opened:
  assumes "rv_generation s' = rv_generation s + 1" "rv_connection s' = Some x" "cr_generation x = rv_generation s + 1"
  shows "same_connection k s \<Longrightarrow> same_connection k s'"
  using assms by (simp add: same_connection_def)

lemma same_closed:
  assumes "rv_generation s' = rv_generation s" "rv_connection s' = None \<or> rv_connection s' = rv_connection s"
  shows "same_connection k s \<Longrightarrow> same_connection k s'"
  using assms by (auto simp: same_connection_def)

lemma same_activity:
  "cr_connection_id (later_activity t x) = cr_connection_id x" "cr_cpu_id (later_activity t x) = cr_cpu_id x"
  "cr_generation (later_activity t x) = cr_generation x" "cr_connected_at (later_activity t x) = cr_connected_at x"
  "cr_connection_id (later_health st t e x) = cr_connection_id x" "cr_cpu_id (later_health st t e x) = cr_cpu_id x"
  "cr_generation (later_health st t e x) = cr_generation x" "cr_connected_at (later_health st t e x) = cr_connected_at x"
  by (simp_all add: later_activity_def later_health_def)

lemma new_connection_generation: "cr_generation (new_connection info g) = g"
  by (simp add: new_connection_def)

lemma same_next:
  assumes "same_connection k s"
  shows "same_connection k (next_state e s)"
proof (cases e)
  case (EvConnectionOpened info)
  show ?thesis
    unfolding EvConnectionOpened by (rule same_opened [where x = "new_connection info (rv_generation s + 1)", OF _ _ _ assms]) (simp_all add: forget_connection_def new_connection_generation)
next
  case (EvConnectionClosed i g)
  show ?thesis
    unfolding EvConnectionClosed by (rule same_closed [OF _ _ assms]) (simp_all add: forget_connection_def)
next
  case (EvActiveTargetChanged active)
  show ?thesis
    unfolding EvActiveTargetChanged by (rule same_closed [OF _ _ assms]) (simp_all add: forget_connection_def)
next
  case EvSessionChanged
  show ?thesis
    unfolding EvSessionChanged by (rule same_closed [OF _ _ assms]) (simp_all add: forget_connection_def)
next
  case (EvConnectionGenerationChanged p c)
  show ?thesis
    unfolding EvConnectionGenerationChanged by (rule same_closed [OF _ _ assms]) simp_all
qed (use assms in \<open>simp_all add: same_other same_on_connection same_activity Let_def\<close>)

lemma run_events_keep:
  assumes "runtime_wf s" "list_all event_ok es" "P s" "\<And>s e. P s \<Longrightarrow> P (next_state e s)"
  shows "P (run_events es s)"
  using assms(1-3)
proof (induction es arbitrary: s)
  case (Cons e es)
  let ?s = "snd (dispatch DEFAULT_DOMAIN_POLICIES [] e s)"
  have e: "event_ok e" "list_all event_ok es"
    using Cons.prems(2) by simp_all
  have s: "?s = (if refused e s then s else next_state e s)"
    by (simp add: dispatch_state transition_state [OF Cons.prems(1) e(1)])
  have "runtime_wf ?s"
    using transition_runs [OF Cons.prems(1) e(1)] Cons.prems(1) s by (simp split: if_splits)
  moreover have "P ?s"
    using Cons.prems(3) assms(4) s by simp
  ultimately show ?case
    using Cons.IH e(2) by (simp add: run_events_def)
qed (simp add: run_events_def)

text \<open>
  A generation names one connection.  Whatever happens after a state with an active connection - any
  sequence of events, closing and opening connections included - an active connection with the same
  generation is still the same one: the same identifier, the same CPU, opened at the same time.
\<close>

theorem generation_names_connection:
  assumes "runtime_reachable s" "rv_connection s = Some k" "list_all event_ok es"
    and "rv_connection (run_events es s) = Some k'" "cr_generation k' = cr_generation k"
  shows "cr_connection_id k' = cr_connection_id k \<and> cr_cpu_id k' = cr_cpu_id k \<and>
    cr_connected_at k' = cr_connected_at k"
proof -
  have wf: "runtime_wf s"
    using assms(1) by (rule runtime_reachable_wf)
  then have "same_connection k s"
    using assms(2) by (auto simp: same_connection_def runtime_wf_def valid_connection_def)
  then have "same_connection k (run_events es s)"
    using run_events_keep [where P = "same_connection k", OF wf assms(3)] same_next by blast
  then show ?thesis
    using assms(4,5) by (simp add: same_connection_def)
qed

end
