(* ===== verification/Runtime_Example.thy ===== *)
theory Runtime_Example
  imports Runtime_Evidence
begin

text \<open>
  A session of the front end at concrete values: a connection to CPU1 is opened, an image is chosen and
  verified, memory is read, and the target is connected again.
\<close>

definition example_time :: datetime where
  "example_time = \<lparr>dt_instant = 1000, dt_utcoffset = Some 0\<rparr>"

definition example_info :: "string \<Rightarrow> connection_info" where
  "example_info i = \<lparr>co_connection_id = i, co_transport_label = ''Serial'', co_endpoint_label = ''COM3'',
     co_connected_at = example_time, co_target_key = ''cpu1'', co_details = []\<rparr>"

definition example_identity :: image_identity where
  "example_identity = \<lparr>id_entry_point = 0x82008, id_image_size_words = 8, id_image_crc32 = 7, id_app_end = 0x82010\<rparr>"

definition example_summary :: flash_image_summary where
  "example_summary = \<lparr>fs_identity = example_identity, fs_sector_mask = 2\<rparr>"

definition example_verified :: domain_event where
  "example_verified = EvOperationSucceeded ''op1'' OP_TYPE_VERIFY CPU1 1 (FlashIdentity example_identity)"

definition example_read :: domain_event where
  "example_read = EvMemoryReadSucceeded CPU1 1 0x82000 [1, 2] example_time"

definition connected_state :: runtime_v2 where
  "connected_state = next_state (EvConnectionOpened (example_info ''c1'')) RuntimeStateStore"

definition chosen_state :: runtime_v2 where
  "chosen_state = next_state (EvProgramImageChanged CPU1 ''app.txt'' PARSE_READY (Some example_summary) None) connected_state"

definition verified_state :: runtime_v2 where
  "verified_state = next_state example_verified chosen_state"

definition read_state :: runtime_v2 where
  "read_state = next_state example_read verified_state"

lemma reachable_next:
  assumes "runtime_reachable s" "event_ok e" "\<not> refused e s"
  shows "runtime_reachable (next_state e s)"
  using runtime_reachable.event [OF assms(1,2), of "[]"] assms(3)
  by (simp add: dispatch_state transition_state [OF runtime_reachable_wf [OF assms(1)] assms(2)])

lemmas example_events = example_info_def example_time_def example_verified_def example_read_def
  ConnectionInfo_def ConnectionOpened_def require_utc_def is_utc_def require_identifier_def non_empty_def
  from_target_key_def ProgramImageChanged_def validate_parse_state_def summary_ok_def example_summary_def
  OperationSucceeded_def check_operation_identity_def MemoryReadSucceeded_def non_negative_def u16_def

lemma example_events_ok:
  "event_ok (EvConnectionOpened (example_info ''c1''))" "event_ok (EvConnectionOpened (example_info ''c2''))"
  "event_ok (EvProgramImageChanged CPU1 ''app.txt'' PARSE_READY (Some example_summary) None)"
  "event_ok example_verified" "event_ok example_read"
  by (simp_all add: example_events)

lemma example_reachable:
  "runtime_reachable connected_state" "runtime_reachable chosen_state"
  "runtime_reachable verified_state" "runtime_reachable read_state"
proof -
  show 1: "runtime_reachable connected_state"
    unfolding connected_state_def
    by (intro reachable_next runtime_reachable.start example_events_ok) (simp add: example_info_def)
  then show 2: "runtime_reachable chosen_state"
    unfolding chosen_state_def by (intro reachable_next example_events_ok) simp_all
  then show 3: "runtime_reachable verified_state"
    unfolding verified_state_def by (intro reachable_next example_events_ok) (simp_all add: example_verified_def)
  then show "runtime_reachable read_state"
    unfolding read_state_def by (intro reachable_next example_events_ok) (simp_all add: example_read_def)
qed

lemma connected_state_simps [simp]:
  "rv_connection connected_state = Some (new_connection (example_info ''c1'') 1)"
  "rv_generation connected_state = 1"
  "rv_resources connected_state cpu = Some (empty_resource cpu)"
  "rv_memories connected_state cpu = Some (empty_memory cpu)"
  by (simp_all add: connected_state_def RuntimeStateStore_def forget_connection_def drop_evidence_def
      empty_resource_def stale_memory_def empty_memory_def)

lemma chosen_state_simps [simp]:
  "rv_connection chosen_state = Some (new_connection (example_info ''c1'') 1)"
  "rv_generation chosen_state = 1"
  "rv_resources chosen_state CPU1 =
     Some (chosen_program ''app.txt'' PARSE_READY (Some example_summary) None (empty_resource CPU1))"
  "rv_memories chosen_state cpu = Some (empty_memory cpu)"
  by (simp_all add: chosen_state_def on_resource_def)

definition example_evidence :: verify_evidence where
  "example_evidence = \<lparr>ve_cpu_id = CPU1, ve_generation = 1, ve_identity = example_identity, ve_operation_id = ''op1''\<rparr>"

lemma chosen_resource:
  "tr_program_image_summary (chosen_program p st x e r) = x"
  "tr_verify_evidence (chosen_program p st x e (empty_resource cpu)) = None"
  by (simp_all add: chosen_program_def empty_resource_def split: option.split)

lemma chosen_current: "current_connection CPU1 1 chosen_state"
  by (simp add: current_connection_def new_connection_def example_info_def)

lemma verified_state_simps [simp]:
  "rv_connection verified_state = Some (new_connection (example_info ''c1'') 1)"
  "rv_generation verified_state = 1"
  "rv_memories verified_state cpu = Some (empty_memory cpu)"
  by (simp_all add: verified_state_def example_verified_def on_resource_def)

lemma verified_resource:
  "\<exists>r. rv_resources verified_state CPU1 = Some r \<and> tr_verify_evidence r = Some example_evidence \<and>
     tr_program_image_summary r = Some example_summary"
  by (simp add: verified_state_def example_verified_def on_resource_def active_evidence_def chosen_current
      chosen_resource example_summary_def example_evidence_def)

text \<open>The verify of the chosen image is accepted.\<close>

theorem dispatch_refines_next_state_witness:
  "snd (dispatch DEFAULT_DOMAIN_POLICIES [] example_verified chosen_state) = verified_state"
proof -
  have "\<not> refused example_verified chosen_state"
    by (simp add: example_verified_def)
  with dispatch_refines_next_state [OF example_reachable(2) example_events_ok(4), of "[]"]
  show ?thesis
    by (auto simp: verified_state_def split: prod.splits sum.splits transition_error.splits)
qed

theorem evidence_is_current_witness:
  "\<exists>r. rv_resources verified_state CPU1 = Some r \<and> tr_verify_evidence r = Some example_evidence \<and>
     current_connection CPU1 1 verified_state \<and> fs_identity example_summary = example_identity"
proof -
  obtain r where r: "rv_resources verified_state CPU1 = Some r" "tr_verify_evidence r = Some example_evidence"
    "tr_program_image_summary r = Some example_summary"
    using verified_resource by blast
  show ?thesis
    using evidence_is_current [OF example_reachable(3) r(1)] r by (simp add: example_evidence_def)
qed

theorem evidence_needs_success_witness:
  "example_verified = EvOperationSucceeded ''op1'' OP_TYPE_VERIFY CPU1 1 (FlashIdentity example_identity) \<and>
     current_connection CPU1 1 chosen_state"
proof -
  obtain r where r: "rv_resources verified_state CPU1 = Some r" "tr_verify_evidence r = Some example_evidence"
    using verified_resource by blast
  have "\<not> refused example_verified chosen_state"
    by (simp add: example_verified_def)
  then have "snd (dispatch DEFAULT_DOMAIN_POLICIES [] example_verified chosen_state) = verified_state"
    by (simp add: dispatch_state transition_state [OF runtime_reachable_wf [OF example_reachable(2)] example_events_ok(4)]
        verified_state_def)
  then have "rv_resources (snd (dispatch DEFAULT_DOMAIN_POLICIES [] example_verified chosen_state)) CPU1 = Some r"
    using r(1) by simp
  then show ?thesis
    using evidence_needs_success [OF example_reachable(2) example_events_ok(4) chosen_state_simps(3), of example_evidence] r(2)
    by (simp add: chosen_resource example_evidence_def)
qed

definition example_history :: "domain_event list" where
  "example_history = [EvConnectionOpened (example_info ''c1''),
     EvProgramImageChanged CPU1 ''app.txt'' PARSE_READY (Some example_summary) None, example_verified, example_read]"

lemma example_history: "list_all event_ok example_history" "run_events example_history RuntimeStateStore = read_state"
proof -
  show "list_all event_ok example_history"
    unfolding example_history_def using example_events_ok by simp
  have step: "snd (dispatch DEFAULT_DOMAIN_POLICIES [] e s) = next_state e s"
    if "runtime_reachable s" "event_ok e" "\<not> refused e s" for e s
    using that by (simp add: dispatch_state transition_state [OF runtime_reachable_wf])
  have "snd (dispatch DEFAULT_DOMAIN_POLICIES [] (EvConnectionOpened (example_info ''c1'')) RuntimeStateStore) = connected_state"
    "snd (dispatch DEFAULT_DOMAIN_POLICIES [] (EvProgramImageChanged CPU1 ''app.txt'' PARSE_READY (Some example_summary) None)
      connected_state) = chosen_state"
    "snd (dispatch DEFAULT_DOMAIN_POLICIES [] example_verified chosen_state) = verified_state"
    "snd (dispatch DEFAULT_DOMAIN_POLICIES [] example_read verified_state) = read_state"
    unfolding connected_state_def chosen_state_def verified_state_def read_state_def
    by (intro step runtime_reachable.start example_events_ok
        example_reachable [unfolded connected_state_def chosen_state_def verified_state_def];
        simp add: example_info_def example_verified_def example_read_def)+
  then show "run_events example_history RuntimeStateStore = read_state"
    by (simp only: example_history_def run_events_def fold_simps)
qed

theorem fresh_data_is_current_witness:
  "\<exists>m g. rv_memories read_state CPU1 = Some m \<and> mm_words m = [1, 2] \<and> current_connection CPU1 g read_state \<and>
     arrived example_history CPU1 g (EvMemoryReadSucceeded CPU1 g 0x82000 [1, 2] example_time)"
proof -
  have "current_connection CPU1 1 verified_state"
    by (simp add: current_connection_def new_connection_def example_info_def)
  then have m: "rv_memories read_state CPU1 = Some (memory_read_state CPU1 1 0x82000 [1, 2] example_time)"
    by (simp add: read_state_def example_read_def on_memory_def memory_read_state_def)
  then show ?thesis
    using fresh_data_is_current [OF example_history(1) example_history(2) [symmetric]]
    by (fastforce simp: memory_read_state_def)
qed

text \<open>The success of the first connection arrives on the second.\<close>

definition reconnected_state :: runtime_v2 where
  "reconnected_state = next_state (EvConnectionOpened (example_info ''c2'')) read_state"

lemma reconnected: "runtime_reachable reconnected_state"
  unfolding reconnected_state_def
  by (intro reachable_next example_events_ok example_reachable) (simp add: example_info_def)

theorem late_report_changes_nothing_witness:
  "snd (dispatch DEFAULT_DOMAIN_POLICIES [] example_verified reconnected_state) = reconnected_state"
proof -
  have "rv_generation read_state = 1"
    by (simp add: read_state_def example_read_def on_memory_def)
  then have "map_option cr_generation (rv_connection reconnected_state) \<noteq> Some 1"
    by (simp add: reconnected_state_def new_connection_def)
  moreover have "event_generation example_verified = Some 1"
    by (simp add: example_verified_def)
  ultimately show ?thesis
    using late_report_changes_nothing [OF reconnected example_events_ok(4), of 1 "[]"]
    by (auto split: prod.splits sum.splits)
qed

theorem generation_names_connection_witness:
  "\<exists>k. rv_connection (run_events [example_verified] chosen_state) = Some k \<and> cr_connection_id k = ''c1''"
proof -
  have "\<not> refused example_verified chosen_state"
    by (simp add: example_verified_def)
  then have run: "run_events [example_verified] chosen_state = verified_state"
    by (simp add: run_events_def dispatch_state verified_state_def
        transition_state [OF runtime_reachable_wf [OF example_reachable(2)] example_events_ok(4)])
  have "list_all event_ok [example_verified]"
    using example_events_ok(4) by simp
  then show ?thesis
    using generation_names_connection [OF example_reachable(2) chosen_state_simps(1)] run
    by (fastforce simp: new_connection_def example_info_def)
qed

end
