(* ===== verification/Sci8.thy ===== *)
theory Sci8
  imports Firmware
begin

text \<open>
  The boot table \<open>hex2000\<close> prints (\<open>firmware/hex2000.py\<close>): hexadecimal tokens between comments, read as
  16 bit words or as little-endian bytes, and the table of key, reserved words, entry point and blocks
  they spell.  Finding and running the converter and reading the file are left out; the file's bytes
  and the digest function are parameters.

  A string is a list of characters with codes below 256.  The matches of the token pattern are the
  maximal runs of letters and digits that are two or four hexadecimal digits after an optional \<open>0x\<close>,
  because the pattern allows no letter or digit on either side.
\<close>

definition SCI8_KEY :: int where "SCI8_KEY = 0x08AA"
definition SCI8_RESERVED_WORDS :: int where "SCI8_RESERVED_WORDS = 8"

record sci8_boot_table =
  bt_key :: int
  bt_reserved_words :: "int list"
  bt_entry_point :: int
  bt_blocks :: "firmware_block list"

section \<open>Tokens\<close>

definition char_code :: "char \<Rightarrow> int" where
  "char_code c = of_char c"

definition is_alnum :: "char \<Rightarrow> bool" where
  "is_alnum c \<longleftrightarrow> (let n = char_code c in (48 \<le> n \<and> n \<le> 57) \<or> (65 \<le> n \<and> n \<le> 90) \<or> (97 \<le> n \<and> n \<le> 122))"

definition hex_digit :: "char \<Rightarrow> int option" where
  "hex_digit c = (let n = char_code c in
     if 48 \<le> n \<and> n \<le> 57 then Some (n - 48)
     else if 65 \<le> n \<and> n \<le> 70 then Some (n - 55)
     else if 97 \<le> n \<and> n \<le> 102 then Some (n - 87) else None)"

text \<open>\<open>int(token, 16)\<close> of a token of hexadecimal digits.\<close>

definition hex_int :: "string \<Rightarrow> int" where
  "hex_int token = foldl (\<lambda>n c. n * 16 + the (hex_digit c)) 0 token"

text \<open>What follows the first \<open>*/\<close>.\<close>

fun after_close :: "string \<Rightarrow> string option" where
  "after_close (c # d # cs) = (if c = CHR ''*'' \<and> d = CHR ''/'' then Some cs else after_close (d # cs))"
| "after_close _ = None"

definition line_rest :: "string \<Rightarrow> string" where
  "line_rest cs = dropWhile (\<lambda>c. c \<noteq> CHR 0x0D \<and> c \<noteq> CHR 0x0A) cs"

lemma after_close_length: "after_close cs = Some r \<Longrightarrow> length r < length cs"
  by (induction cs rule: after_close.induct) (auto split: if_splits)

lemma line_rest_length: "length (line_rest cs) \<le> length cs"
  by (simp add: line_rest_def length_dropWhile_le)

text \<open>Every comment becomes a space; an opening without an end is no comment.\<close>

function strip_comments :: "string \<Rightarrow> string" where
  "strip_comments [] = []"
| "strip_comments (c # cs) =
     (if c = CHR ''/'' \<and> take 1 cs = ''*'' \<and> after_close (drop 1 cs) \<noteq> None
      then CHR '' '' # strip_comments (the (after_close (drop 1 cs)))
      else if c = CHR ''/'' \<and> take 1 cs = ''/''
      then CHR '' '' # strip_comments (line_rest (drop 1 cs))
      else if c = CHR ''#''
      then CHR '' '' # strip_comments (line_rest cs)
      else c # strip_comments cs)"
  by pat_completeness auto
termination
proof (relation "measure length")
  fix c :: char and cs :: string
  assume "c = CHR ''/'' \<and> take 1 cs = ''*'' \<and> after_close (drop 1 cs) \<noteq> None"
  then show "(the (after_close (drop 1 cs)), c # cs) \<in> measure length"
    using after_close_length [of "drop 1 cs"] by auto
next
  fix c :: char and cs :: string
  show "(line_rest (drop 1 cs), c # cs) \<in> measure length" "(line_rest cs, c # cs) \<in> measure length"
    using line_rest_length [of "drop 1 cs"] line_rest_length [of cs] by auto
qed auto

fun alnum_runs :: "string \<Rightarrow> string \<Rightarrow> string list" where
  "alnum_runs run [] = (if run = [] then [] else [run])"
| "alnum_runs run (c # cs) =
     (if is_alnum c then alnum_runs (run @ [c]) cs
      else (if run = [] then [] else [run]) @ alnum_runs [] cs)"

definition is_hex_token :: "string \<Rightarrow> bool" where
  "is_hex_token s \<longleftrightarrow> (length s = 2 \<or> length s = 4) \<and> list_all (\<lambda>c. hex_digit c \<noteq> None) s"

definition token_of :: "string \<Rightarrow> string list" where
  "token_of run =
     (if (take 2 run = ''0x'' \<or> take 2 run = ''0X'') \<and> is_hex_token (drop 2 run) then [drop 2 run]
      else if is_hex_token run then [run] else [])"

definition sci8_tokens :: "string \<Rightarrow> string list" where
  "sci8_tokens txt = concat (map token_of (alnum_runs [] (strip_comments txt)))"

fun byte_pairs :: "int list \<Rightarrow> int list" where
  "byte_pairs (a # b # bs) = (a OR push_bit 8 b) # byte_pairs bs"
| "byte_pairs _ = []"

definition parse_ascii_words :: "string \<Rightarrow> int list res" where
  "parse_ascii_words txt =
     (let tokens = sci8_tokens txt in
      if tokens = [] then Inl (Sci8ParseError ''SCI8 output contains no hexadecimal data'')
      else if list_all (\<lambda>t. length t = 4) tokens then Inr (map hex_int tokens)
      else if \<not> list_all (\<lambda>t. length t = 2) tokens
      then Inl (Sci8ParseError ''SCI8 output mixes byte and word tokens'')
      else if length tokens mod 2 \<noteq> 0
      then Inl (Sci8ParseError ''SCI8 byte stream has an odd byte count'')
      else Inr (byte_pairs (map hex_int tokens)))"

section \<open>The boot table\<close>

text \<open>The loop over \<open>size/address/data\<close>; the list is \<open>words[index:]\<close>.  It returns the blocks and what follows.\<close>

function parse_blocks :: "int list \<Rightarrow> (firmware_block list \<times> int list) res" where
  "parse_blocks [] = Inl (Sci8ParseError ''SCI8 boot table has no zero-length terminator'')"
| "parse_blocks (size_word # rest) =
     (if size_word = 0 then Inr ([], rest)
      else if 2 + size_word > int (length rest)
      then Inl (Sci8ParseError ''SCI8 block extends beyond the available data'')
      else bindE (FirmwareBlock (push_bit 16 (rest ! 0) OR rest ! 1) (py_slice (drop 2 rest) 0 size_word)) (\<lambda>b.
           bindE (parse_blocks (drop (nat size_word) (drop 2 rest))) (\<lambda>(bs, r). Inr (b # bs, r))))"
  by pat_completeness auto
termination
  by (relation "measure length") auto

definition parse_sci8_words :: "int list \<Rightarrow> sci8_boot_table res" where
  "parse_sci8_words words =
     (let fixed_words = 1 + SCI8_RESERVED_WORDS + 2 in
      if int (length words) < fixed_words + 1 then Inl (Sci8ParseError ''SCI8 boot table is truncated'')
      else if words ! 0 \<noteq> SCI8_KEY then Inl (Sci8ParseError ''unexpected SCI8 key'')
      else bindE (parse_blocks (drop (nat fixed_words) words)) (\<lambda>(blocks, rest).
        if rest \<noteq> [] then Inl (Sci8ParseError ''SCI8 boot table contains trailing data after terminator'')
        else if blocks = [] then Inl (Sci8ParseError ''SCI8 boot table contains no data blocks'')
        else Inr \<lparr>bt_key = words ! 0, bt_reserved_words = py_slice words 1 9,
          bt_entry_point = push_bit 16 (words ! 9) OR words ! 10, bt_blocks = blocks\<rparr>))"

definition parse_sci8_text :: "string \<Rightarrow> sci8_boot_table res" where
  "parse_sci8_text txt = bindE (parse_ascii_words txt) parse_sci8_words"

definition decode_ascii :: "int list \<Rightarrow> string res" where
  "decode_ascii raw =
     (if list_all (\<lambda>b. 0 \<le> b \<and> b < 128) raw then Inr (map char_of raw)
      else Inl (Sci8ParseError ''SCI8 output is not ASCII''))"

definition parse_sci8_file :: "int list \<Rightarrow> sci8_boot_table res" where
  "parse_sci8_file raw = bindE (decode_ascii raw) parse_sci8_text"

text \<open>\<open>raw\<close>: the bytes of the generated file; \<open>digest\<close>: \<open>hashlib.sha256(raw).hexdigest()\<close>.\<close>

definition build_firmware_image ::
  "(int list \<Rightarrow> string) \<Rightarrow> string \<Rightarrow> string \<Rightarrow> int list \<Rightarrow> firmware_image res" where
  "build_firmware_image digest source_out_file generated raw =
     bindE (parse_sci8_file raw) (\<lambda>table.
       FirmwareImage source_out_file generated (bt_entry_point table) (bt_blocks table) (digest raw)
         [(''format'', Format_Text ''TI C2000 SCI8 ASCII boot table''),
          (''key'', Format_Int (bt_key table)),
          (''reserved_words'', Format_Ints (bt_reserved_words table)),
          (''checksum'', Format_Text ''sha256'')])"

section \<open>The words of a table\<close>

definition block_words :: "firmware_block \<Rightarrow> int list" where
  "block_words b = int (length (fb_words b)) # hi16 (fb_address b) # lo16 (fb_address b) # fb_words b"

definition sci8_words :: "sci8_boot_table \<Rightarrow> int list" where
  "sci8_words t = bt_key t # bt_reserved_words t @ [hi16 (bt_entry_point t), lo16 (bt_entry_point t)] @
     concat (map block_words (bt_blocks t)) @ [0]"

definition sci8_wf :: "sci8_boot_table \<Rightarrow> bool" where
  "sci8_wf t \<longleftrightarrow> bt_key t = SCI8_KEY \<and> length (bt_reserved_words t) = 8 \<and> words16 (bt_reserved_words t) \<and>
     u32 (bt_entry_point t) \<and> bt_blocks t \<noteq> [] \<and>
     list_all (\<lambda>b. block_wf b \<and> length (fb_words b) \<le> 0xFFFF) (bt_blocks t)"

lemma high_or_low:
  assumes "u16 hi" "u16 lo"
  shows "push_bit 16 hi OR lo = join_u32 lo hi"
  by (simp add: join_u32_def or.commute)

lemma high_or_low_split: "u32 v \<Longrightarrow> push_bit 16 (hi16 v) OR lo16 v = v"
  using join_split [of v] by (simp add: join_u32_def or.commute)

lemma py_slice_prefix: "0 \<le> n \<Longrightarrow> py_slice xs 0 n = take (nat n) xs"
  using py_slice_nonneg [of 0 n xs] by simp

lemma parse_blocks_words:
  "list_all (\<lambda>b. block_wf b \<and> length (fb_words b) \<le> 0xFFFF) bs \<Longrightarrow>
     parse_blocks (concat (map block_words bs) @ 0 # rest) = Inr (bs, rest)"
proof (induction bs)
  case (Cons b bs)
  then have b: "block_wf b" "fb_words b \<noteq> []"
    by (simp_all add: block_wf_def)
  then have "FirmwareBlock (fb_address b) (fb_words b) = Inr b"
    by (simp add: FirmwareBlock_Inr_iff)
  then show ?case
    using Cons b by (simp add: block_words_def high_or_low_split block_wf_def py_slice_prefix)
qed simp

lemma parse_blocks_Inr:
  assumes "parse_blocks ws = Inr (bs, rest)" "words16 ws"
  shows "ws = concat (map block_words bs) @ 0 # rest \<and>
    list_all (\<lambda>b. block_wf b \<and> length (fb_words b) \<le> 0xFFFF) bs"
  using assms
proof (induction ws arbitrary: bs rule: parse_blocks.induct)
  case (2 n ws)
  show ?case
  proof (cases "n = 0")
    case True
    then show ?thesis
      using 2(2) by simp
  next
    case False
    have ws: "words16 ws" and "u16 n"
      using 2(3) by simp_all
    then have n: "0 < n" "n \<le> 0xFFFF"
      using False by (simp_all add: u16_def)
    have len: "2 + n \<le> int (length ws)"
      using 2(2) False by (auto split: if_splits)
    obtain h l vs where vs: "ws = h # l # vs"
      using len n by (cases ws; cases "tl ws") auto
    obtain b where b: "FirmwareBlock (push_bit 16 h OR l) (take (nat n) vs) = Inr b"
      using 2(2) False len vs n by (auto simp: py_slice_prefix bindE_def split: sum.splits)
    obtain cs where cs: "parse_blocks (drop (nat n) vs) = Inr (cs, rest)" "bs = b # cs"
      using 2(2) False len vs n b by (auto simp: py_slice_prefix bindE_Inr_iff split: prod.splits)
    have "parse_blocks (drop (nat n) (drop 2 ws)) = Inr (cs, rest)" "words16 (drop (nat n) (drop 2 ws))"
      using cs(1) vs ws by (simp_all add: words16_drop)
    moreover have "\<not> int (length ws) < 2 + n"
      using len by simp
    ultimately have "drop (nat n) (drop 2 ws) = concat (map block_words cs) @ 0 # rest \<and>
        list_all (\<lambda>b. block_wf b \<and> length (fb_words b) \<le> 0xFFFF) cs"
      using 2(1) False by blast
    then have IH: "drop (nat n) vs = concat (map block_words cs) @ 0 # rest \<and>
        list_all (\<lambda>b. block_wf b \<and> length (fb_words b) \<le> 0xFFFF) cs"
      using vs by simp
    have b': "block_wf b" "fb_address b = join_u32 l h" "fb_words b = take (nat n) vs"
      using b vs ws by (auto simp: FirmwareBlock_Inr_iff high_or_low)
    moreover have bw: "block_words b = n # h # l # take (nat n) vs"
      using b' ws vs n len by (simp add: block_words_def split_join)
    moreover have "length (fb_words b) \<le> 0xFFFF"
      using b' n by simp
    moreover have "n # ws = block_words b @ drop (nat n) vs"
      by (simp add: bw vs)
    ultimately show ?thesis
      using IH cs(2) by simp
  qed
qed simp

lemma parse_sci8_words_iff:
  assumes "words16 ws"
  shows "parse_sci8_words ws = Inr t \<longleftrightarrow> sci8_wf t \<and> ws = sci8_words t"
proof
  assume p: "parse_sci8_words ws = Inr t"
  then have len: "12 \<le> length ws"
    by (auto simp: parse_sci8_words_def SCI8_RESERVED_WORDS_def split: if_splits)
  then obtain k r1 r2 r3 r4 r5 r6 r7 r8 h l vs where ws: "ws = k # r1 # r2 # r3 # r4 # r5 # r6 # r7 # r8 # h # l # vs"
    by (auto simp: Suc_le_length_iff eval_nat_numeral)
  have "parse_blocks vs \<noteq> Inl e" for e
    using p ws by (auto simp: parse_sci8_words_def SCI8_RESERVED_WORDS_def split: if_splits)
  then obtain bs r where bs: "parse_blocks vs = Inr (bs, r)"
    by (cases "parse_blocks vs") auto
  have key: "k = SCI8_KEY" and ne: "bs \<noteq> []" "r = []"
    and t: "t = \<lparr>bt_key = k, bt_reserved_words = [r1, r2, r3, r4, r5, r6, r7, r8],
      bt_entry_point = push_bit 16 h OR l, bt_blocks = bs\<rparr>"
    using p bs by (auto simp: ws parse_sci8_words_def SCI8_RESERVED_WORDS_def py_slice_def slice_index_def
        split: if_splits)
  have w: "u16 h" "u16 l" "words16 vs" "words16 [r1, r2, r3, r4, r5, r6, r7, r8]"
    using assms by (simp_all add: ws)
  have "vs = concat (map block_words bs) @ [0] \<and>
      list_all (\<lambda>b. block_wf b \<and> length (fb_words b) \<le> 0xFFFF) bs"
    using parse_blocks_Inr [OF bs w(3)] ne by simp
  then show "sci8_wf t \<and> ws = sci8_words t"
    using ne key w by (simp add: t ws sci8_wf_def sci8_words_def high_or_low split_join)
next
  assume t: "sci8_wf t \<and> ws = sci8_words t"
  then have wf: "length (bt_reserved_words t) = 8" "u32 (bt_entry_point t)" "bt_key t = SCI8_KEY" "bt_blocks t \<noteq> []"
    "list_all (\<lambda>b. block_wf b \<and> length (fb_words b) \<le> 0xFFFF) (bt_blocks t)"
    by (simp_all add: sci8_wf_def)
  obtain b bs where "bt_blocks t = b # bs"
    using wf(4) by (meson neq_Nil_conv)
  moreover obtain r1 r2 r3 r4 r5 r6 r7 r8 where "bt_reserved_words t = [r1, r2, r3, r4, r5, r6, r7, r8]"
    using wf(1) by (auto simp: length_Suc_conv eval_nat_numeral)
  ultimately show "parse_sci8_words ws = Inr t"
    using wf t parse_blocks_words [OF wf(5), of "[]"]
    by (simp add: parse_sci8_words_def sci8_words_def SCI8_RESERVED_WORDS_def block_words_def high_or_low_split
        py_slice_def slice_index_def)
qed

text \<open>
  C28.  The boot table and its words determine each other.  A sequence of 16 bit words is accepted exactly
  when it is the key, eight reserved words, the entry point, at least one non-empty block with size and
  address, and the terminator, with nothing after it; and then the table read is the one the words spell.
\<close>

theorem sci8_words_roundtrip:
  assumes "words16 ws"
  shows "parse_sci8_words ws = Inr t \<longleftrightarrow> sci8_wf t \<and> ws = sci8_words t"
  by (rule parse_sci8_words_iff [OF assms])

theorem sci8_words_roundtrip_witness:
  "parse_sci8_words [0x08AA, 0, 0, 0, 0, 0, 0, 0, 0, 8, 0x2408, 2, 8, 0x2408, 11, 12, 0] =
     Inr \<lparr>bt_key = 0x08AA, bt_reserved_words = [0, 0, 0, 0, 0, 0, 0, 0], bt_entry_point = 0x82408,
       bt_blocks = [\<lparr>fb_address = 0x82408, fb_words = [11, 12]\<rparr>]\<rparr>"
proof -
  let ?t = "\<lparr>bt_key = 0x08AA, bt_reserved_words = [0, 0, 0, 0, 0, 0, 0, 0], bt_entry_point = 0x82408,
    bt_blocks = [\<lparr>fb_address = 0x82408, fb_words = [11, 12]\<rparr>]\<rparr>"
  have "sci8_words ?t = [0x08AA, 0, 0, 0, 0, 0, 0, 0, 0, 8, 0x2408, 2, 8, 0x2408, 11, 12, 0]"
    by (simp add: sci8_words_def block_words_def hi16_def lo16_def)
  moreover have "sci8_wf ?t"
    by (simp add: sci8_wf_def SCI8_KEY_def u_simps block_wf_def)
  moreover have "words16 (sci8_words ?t)"
    unfolding calculation(1) by (simp add: u_simps)
  ultimately show ?thesis
    using sci8_words_roundtrip [of "sci8_words ?t" ?t] by simp
qed

section \<open>The printed table\<close>

definition hex_char :: "int \<Rightarrow> char" where
  "hex_char n = char_of (if n < 10 then 48 + n else 55 + n)"

definition byte_token :: "int \<Rightarrow> string" where
  "byte_token b = [hex_char (b div 16), hex_char (b mod 16)]"

text \<open>Spaces, line ends, commas and the like; not the characters a comment starts with.\<close>

definition separator :: "string \<Rightarrow> bool" where
  "separator s \<longleftrightarrow> s \<noteq> [] \<and> list_all (\<lambda>c. \<not> is_alnum c \<and> c \<noteq> CHR ''/'' \<and> c \<noteq> CHR ''#'') s"

definition printed :: "int list \<Rightarrow> string list \<Rightarrow> string" where
  "printed bytes seps = concat (map2 (\<lambda>b s. byte_token b @ s) bytes seps)"

lemma hex_char_facts:
  assumes "0 \<le> n" "n < 16"
  shows "hex_digit (hex_char n) = Some n" "is_alnum (hex_char n)" "hex_char n \<noteq> CHR ''/''" "hex_char n \<noteq> CHR ''#''"
    "hex_char n \<noteq> CHR ''x''" "hex_char n \<noteq> CHR ''X''"
proof -
  have code: "char_code (hex_char n) = (if n < 10 then 48 + n else 55 + n)"
    using assms by (simp add: char_code_def hex_char_def)
  then show "hex_digit (hex_char n) = Some n" "is_alnum (hex_char n)"
    using assms by (simp_all add: hex_digit_def is_alnum_def Let_def)
  have "char_code (CHR ''/'') = 47" "char_code (CHR ''#'') = 35" "char_code (CHR ''x'') = 120" "char_code (CHR ''X'') = 88"
    by (simp_all add: char_code_def)
  then show "hex_char n \<noteq> CHR ''/''" "hex_char n \<noteq> CHR ''#''" "hex_char n \<noteq> CHR ''x''" "hex_char n \<noteq> CHR ''X''"
    using code assms by (auto split: if_splits)
qed

lemma byte_halves: "u8 b \<Longrightarrow> 0 \<le> b div 16 \<and> b div 16 < 16 \<and> 0 \<le> b mod 16 \<and> b mod 16 < 16"
  by (auto simp: u8_def)

lemma byte_token_facts:
  assumes "u8 b"
  shows "token_of (byte_token b) = [byte_token b]" "hex_int (byte_token b) = b" "list_all is_alnum (byte_token b)"
    "length (byte_token b) = 2"
proof -
  note d = hex_char_facts [of "b div 16"] hex_char_facts [of "b mod 16"] byte_halves [OF assms]
  show "list_all is_alnum (byte_token b)" "length (byte_token b) = 2"
    using d by (simp_all add: byte_token_def)
  have "b div 16 * 16 + b mod 16 = b"
    by simp
  then show "hex_int (byte_token b) = b"
    using d by (simp add: hex_int_def byte_token_def)
  show "token_of (byte_token b) = [byte_token b]"
    using d by (simp add: token_of_def is_hex_token_def byte_token_def)
qed

lemma strip_plain: "list_all (\<lambda>c. c \<noteq> CHR ''/'' \<and> c \<noteq> CHR ''#'') cs \<Longrightarrow> strip_comments cs = cs"
  by (induction cs) simp_all

lemma runs_alnum: "list_all is_alnum cs \<Longrightarrow> alnum_runs run (cs @ ds) = alnum_runs (run @ cs) ds"
  by (induction cs arbitrary: run) simp_all

lemma runs_separator:
  assumes "separator s" "run \<noteq> []"
  shows "alnum_runs run (s @ ds) = run # alnum_runs [] ds"
proof -
  have skip: "list_all (\<lambda>c. \<not> is_alnum c) cs \<Longrightarrow> alnum_runs [] (cs @ ds) = alnum_runs [] ds" for cs
    by (induction cs) simp_all
  obtain c cs where s: "s = c # cs"
    using assms(1) by (cases s) (simp_all add: separator_def)
  then have "list_all (\<lambda>c. \<not> is_alnum c) cs" "\<not> is_alnum c"
    using assms(1) by (auto simp: separator_def list_all_iff)
  then show ?thesis
    using s assms(2) skip by simp
qed

lemma printed_tokens:
  assumes "list_all u8 bytes" "length seps = length bytes" "list_all separator seps"
  shows "alnum_runs [] (printed bytes seps) = map byte_token bytes"
  using assms
proof (induction bytes seps rule: list_induct2')
  case (4 b bytes s seps)
  have "byte_token b \<noteq> []"
    by (simp add: byte_token_def)
  then show ?case
    using 4 byte_token_facts(3) [of b] by (simp add: printed_def runs_alnum runs_separator)
qed (simp_all add: printed_def)

lemma printed_plain:
  assumes "list_all u8 bytes" "list_all separator seps"
  shows "list_all (\<lambda>c. c \<noteq> CHR ''/'' \<and> c \<noteq> CHR ''#'') (printed bytes seps)"
  using assms
proof (induction bytes seps rule: list_induct2')
  case (4 b bytes s seps)
  then have "list_all (\<lambda>c. c \<noteq> CHR ''/'' \<and> c \<noteq> CHR ''#'') (byte_token b)"
    using byte_halves hex_char_facts by (simp add: byte_token_def)
  moreover have "list_all (\<lambda>c. c \<noteq> CHR ''/'' \<and> c \<noteq> CHR ''#'') s"
    using 4 by (auto simp: separator_def list_all_iff)
  ultimately show ?case
    using 4 by (simp add: printed_def)
qed (simp_all add: printed_def)

lemma byte_pairs_le: "words16 ws \<Longrightarrow> byte_pairs (le_bytes ws) = ws"
proof (induction ws)
  case (Cons w ws)
  have "(w mod 0x100) OR push_bit 8 (w div 0x100) = w"
    using or_push_bit_eq_add [of "w mod 0x100" 8 "w div 0x100"] by simp
  then show ?case
    using Cons by simp
qed simp

lemma hex_ints: "list_all u8 bytes \<Longrightarrow> map hex_int (map byte_token bytes) = bytes"
  by (induction bytes) (simp_all add: byte_token_facts)

lemma sci8_words16: "sci8_wf t \<Longrightarrow> words16 (sci8_words t)"
proof -
  assume t: "sci8_wf t"
  have "words16 (block_words b)" if "block_wf b" "length (fb_words b) \<le> 0xFFFF" for b
    using that by (simp add: block_words_def block_wf_def) (simp add: u16_def)
  then have "words16 (concat (map block_words bs))" if "list_all (\<lambda>b. block_wf b \<and> length (fb_words b) \<le> 0xFFFF) bs" for bs
    using that by (induction bs) simp_all
  moreover have "u16 SCI8_KEY" "u16 0"
    by (simp_all add: u16_def SCI8_KEY_def)
  ultimately show "words16 (sci8_words t)"
    using t by (simp add: sci8_wf_def sci8_words_def)
qed

text \<open>
  A printed table is read back.  The words of a table, printed as two hexadecimal digits per byte with
  the low byte first, in whatever layout of spaces and lines, are read as that table.
\<close>

theorem printed_table_parses:
  assumes "sci8_wf t" "list_all separator seps" "length seps = 2 * length (sci8_words t)"
  shows "parse_sci8_text (printed (le_bytes (sci8_words t)) seps) = Inr t"
proof -
  let ?ws = "sci8_words t" and ?bytes = "le_bytes (sci8_words t)"
  have ws: "words16 ?ws"
    using assms(1) by (rule sci8_words16)
  have u8: "list_all u8 ?bytes"
    using list_all_u8_le_bytes [OF ws] .
  have "token_of (byte_token b) = [byte_token b]" if "b \<in> set ?bytes" for b
    using u8 that byte_token_facts(1) by (auto simp: list_all_iff)
  then have "concat (map (\<lambda>b. token_of (byte_token b)) ?bytes) = map byte_token ?bytes"
    by (simp add: concat_map_singleton cong: map_cong)
  then have tokens: "sci8_tokens (printed ?bytes seps) = map byte_token ?bytes"
    using printed_tokens [OF u8] strip_plain [OF printed_plain [OF u8 assms(2)]] assms(2,3)
    by (simp add: sci8_tokens_def comp_def)
  have len: "length (byte_token b) = 2" for b
    by (simp add: byte_token_def)
  have "\<not> list_all (\<lambda>t. length t = 4) (map byte_token ?bytes)"
    by (simp add: sci8_words_def len)
  moreover have "list_all (\<lambda>t. length t = 2) (map byte_token ?bytes)"
    by (simp add: list_all_iff len)
  moreover have "map byte_token ?bytes \<noteq> []"
    by (simp add: sci8_words_def)
  ultimately have "parse_ascii_words (printed ?bytes seps) = Inr ?ws"
    unfolding parse_ascii_words_def tokens Let_def hex_ints [OF u8] byte_pairs_le [OF ws] by simp
  then show ?thesis
    using parse_sci8_words_iff [OF ws, of t] assms(1) by (simp add: parse_sci8_text_def)
qed

theorem printed_table_parses_witness:
  "\<exists>t. bt_entry_point t = 0x82408 \<and>
     parse_sci8_text (printed (le_bytes (sci8_words t)) (replicate 34 '' '')) = Inr t"
proof -
  let ?t = "\<lparr>bt_key = 0x08AA, bt_reserved_words = [0, 0, 0, 0, 0, 0, 0, 0], bt_entry_point = 0x82408,
    bt_blocks = [\<lparr>fb_address = 0x82408, fb_words = [11, 12]\<rparr>]\<rparr>"
  have "sci8_wf ?t"
    by (simp add: sci8_wf_def SCI8_KEY_def u_simps block_wf_def)
  moreover have "separator '' ''"
    by (simp add: separator_def is_alnum_def char_code_def)
  then have "list_all separator (replicate 34 '' '')"
    by (simp add: list_all_iff)
  moreover have "length (replicate 34 '' '') = 2 * length (sci8_words ?t)"
    by (simp add: sci8_words_def block_words_def)
  ultimately have "parse_sci8_text (printed (le_bytes (sci8_words ?t)) (replicate 34 '' '')) = Inr ?t"
    by (rule printed_table_parses)
  then show ?thesis
    by (intro exI [of _ ?t]) simp
qed

end
