(* ===== verification/Service_Image.thy ===== *)
theory Service_Image
  imports Sci8 Images
begin

text \<open>
  The linker map and the service image built with it.  The addresses a service image needs, read from the linker's map file (\<open>firmware/ti_map.py\<close>): the first
  line that names a symbol gives the address, and the first line whose first field names a memory region
  gives origin and length.  The text of the file is a parameter; its lines end at the line breaks below
  code 128 that \<open>splitlines\<close> knows.
\<close>

record ti_map_symbols =
  ts_header_address :: int
  ts_publish_state_address :: int
  ts_runtime_state_address :: int
  ts_app_export_address :: int
  ts_immutable_start :: int
  ts_immutable_end_exclusive :: int
  ts_boot_init_address :: int
  ts_boot_handle_command_address :: int
  ts_confirm_current_image_address :: int

definition TiMapSymbols :: "ti_map_symbols \<Rightarrow> ti_map_symbols res" where
  "TiMapSymbols s =
     (if list_ex (\<lambda>v. v < 0 \<or> v > 0xFFFFFFFF)
          [ts_header_address s, ts_publish_state_address s, ts_runtime_state_address s, ts_app_export_address s,
           ts_immutable_start s, ts_immutable_end_exclusive s, ts_boot_init_address s,
           ts_boot_handle_command_address s, ts_confirm_current_image_address s]
      then Inl (ValueError ''must fit uint32'')
      else if ts_immutable_end_exclusive s \<le> ts_immutable_start s
      then Inl (ValueError ''immutable memory region must be non-empty'')
      else Inr s)"

section \<open>Lines and fields\<close>

definition is_line_break :: "char \<Rightarrow> bool" where
  "is_line_break c \<longleftrightarrow> char_code c \<in> {10, 11, 12, 13, 28, 29, 30}"

text \<open>\<open>splitlines()\<close>: a carriage return and the line feed after it are one break; no empty last line.\<close>

fun split_lines :: "string \<Rightarrow> string \<Rightarrow> string list" where
  "split_lines line [] = (if line = [] then [] else [line])"
| "split_lines line [c] = (if is_line_break c then [line] else [line @ [c]])"
| "split_lines line (c # d # cs) =
     (if char_code c = 13 \<and> char_code d = 10 then line # split_lines [] cs
      else if is_line_break c then line # split_lines [] (d # cs)
      else split_lines (line @ [c]) (d # cs))"

definition is_blank :: "char \<Rightarrow> bool" where
  "is_blank c \<longleftrightarrow> char_code c \<in> {9, 10, 11, 12, 13, 28, 29, 30, 31, 32}"

fun split_fields :: "string \<Rightarrow> string \<Rightarrow> string list" where
  "split_fields field [] = (if field = [] then [] else [field])"
| "split_fields field (c # cs) =
     (if is_blank c then (if field = [] then [] else [field]) @ split_fields [] cs
      else split_fields (field @ [c]) cs)"

section \<open>Numbers\<close>

text \<open>
  The matches of \<open>(?:0x)?[0-9a-fA-F]{6,8}\<close>, from left to right: at each place the prefix is taken when six
  digits follow it, and up to eight digits are taken.
\<close>

definition hex_prefix :: "string \<Rightarrow> nat" where
  "hex_prefix cs = length (takeWhile (\<lambda>c. hex_digit c \<noteq> None) cs)"

function find_hex :: "string \<Rightarrow> string list" where
  "find_hex [] = []"
| "find_hex (c # cs) =
     (if take 2 (c # cs) = ''0x'' \<and> 6 \<le> hex_prefix (drop 1 cs)
      then take (min 8 (hex_prefix (drop 1 cs))) (drop 1 cs) #
        find_hex (drop (min 8 (hex_prefix (drop 1 cs))) (drop 1 cs))
      else if 6 \<le> hex_prefix (c # cs)
      then take (min 8 (hex_prefix (c # cs))) (c # cs) # find_hex (drop (min 8 (hex_prefix (c # cs))) (c # cs))
      else find_hex cs)"
  by pat_completeness auto
termination
  by (relation "measure length") auto

section \<open>Symbols\<close>

definition is_word_char :: "char \<Rightarrow> bool" where
  "is_word_char c \<longleftrightarrow> is_alnum c \<or> c = CHR ''_''"

text \<open>The name stands somewhere in the line, with no word character on either side.\<close>

fun names_at :: "string \<Rightarrow> bool \<Rightarrow> string \<Rightarrow> bool" where
  "names_at name free [] = (free \<and> name = [])"
| "names_at name free (c # cs) =
     (free \<and> take (length name) (c # cs) = name \<and>
        (case drop (length name) (c # cs) of [] \<Rightarrow> True | d # _ \<Rightarrow> \<not> is_word_char d)
      \<or> names_at name (\<not> is_word_char c) cs)"

definition line_names :: "string list \<Rightarrow> string \<Rightarrow> bool" where
  "line_names names line = list_ex (\<lambda>name. names_at name True line) names"

definition symbol_names :: "string \<Rightarrow> string list" where
  "symbol_names symbol = (if take 1 symbol = ''_'' then [symbol] else [symbol, CHR ''_'' # symbol])"

fun find_symbol :: "string list \<Rightarrow> string list \<Rightarrow> int res" where
  "find_symbol names [] = Inl (ValueError ''missing TI map symbol'')"
| "find_symbol names (line # lines) =
     (if \<not> line_names names line then find_symbol names lines
      else case find_hex line of [] \<Rightarrow> find_symbol names lines | number # _ \<Rightarrow> Inr (hex_int number))"

definition symbol_address :: "string \<Rightarrow> string \<Rightarrow> int res" where
  "symbol_address txt symbol = find_symbol (symbol_names symbol) (split_lines [] txt)"

fun find_region :: "string \<Rightarrow> string list \<Rightarrow> (int \<times> int) res" where
  "find_region name [] = Inl (ValueError ''missing TI map memory region'')"
| "find_region name (line # lines) =
     (case split_fields [] line of
        [] \<Rightarrow> find_region name lines
      | field # _ \<Rightarrow>
          if field \<noteq> name then find_region name lines
          else case map hex_int (find_hex line) of
              a # b # _ \<Rightarrow> Inr (a, b)
            | _ \<Rightarrow> find_region name lines)"

definition memory_region :: "string \<Rightarrow> string \<Rightarrow> (int \<times> int) res" where
  "memory_region txt name = find_region name (split_lines [] txt)"

definition parse_flash_service_symbols_from_map :: "string \<Rightarrow> string option \<Rightarrow> ti_map_symbols res" where
  "parse_flash_service_symbols_from_map txt header_symbol =
     bindE (memory_region txt ''SERVICE_IMMUTABLE'') (\<lambda>(immutable_code_start, immutable_length).
     bindE (symbol_address txt ''g_boot_flash_service_app_export'') (\<lambda>app_export_address.
     bindE (case symbol_address txt ''g_service'' of
              Inr a \<Rightarrow> Inr a
            | Inl e \<Rightarrow> if is_value_error e
                then bindE (memory_region txt ''SERVICE_RUNTIME_STATE'') (\<lambda>(a, runtime_length). Inr a)
                else Inl e) (\<lambda>runtime_state_address.
     if immutable_length = 0 \<or> immutable_code_start + immutable_length > 0xFFFFFFFF
     then Inl (ValueError ''invalid TI map memory region: SERVICE_IMMUTABLE'')
     else
       bindE (symbol_address txt (case header_symbol of
           None \<Rightarrow> ''g_boot_flash_service_header''
         | Some s \<Rightarrow> if s = [] then ''g_boot_flash_service_header'' else s)) (\<lambda>header_address.
       bindE (symbol_address txt ''g_boot_flash_service_publish_state'') (\<lambda>publish_state_address.
       bindE (symbol_address txt ''BootFlashService_BootInit'') (\<lambda>boot_init_address.
       bindE (symbol_address txt ''BootFlashService_BootHandleCommand'') (\<lambda>boot_handle_command_address.
       bindE (symbol_address txt ''BootFlashService_ConfirmCurrentImage'') (\<lambda>confirm_current_image_address.
         TiMapSymbols
           \<lparr>ts_header_address = header_address, ts_publish_state_address = publish_state_address,
            ts_runtime_state_address = runtime_state_address, ts_app_export_address = app_export_address,
            ts_immutable_start = app_export_address,
            ts_immutable_end_exclusive = immutable_code_start + immutable_length,
            ts_boot_init_address = boot_init_address,
            ts_boot_handle_command_address = boot_handle_command_address,
            ts_confirm_current_image_address = confirm_current_image_address\<rparr>))))))))"

lemma TiMapSymbols_Inr:
  "TiMapSymbols s = Inr s' \<Longrightarrow> s' = s \<and> u32 (ts_header_address s) \<and> u32 (ts_publish_state_address s) \<and>
     u32 (ts_runtime_state_address s) \<and> u32 (ts_app_export_address s) \<and> u32 (ts_immutable_start s) \<and>
     u32 (ts_immutable_end_exclusive s) \<and> u32 (ts_boot_init_address s) \<and> u32 (ts_boot_handle_command_address s) \<and>
     u32 (ts_confirm_current_image_address s) \<and> ts_immutable_start s < ts_immutable_end_exclusive s"
  by (auto simp: TiMapSymbols_def u_simps split: if_splits)

section \<open>The image\<close>

text \<open>
  Preparing the Flash service for loading into RAM (\<open>firmware/service_image.py\<close> and
  \<open>images/service_image.py\<close>): the immutable range is filled up, the publish state cleared and the header
  with the two CRCs is written into the image the linker produced.

  \<open>copy_image\<close> keeps the source's format information; numbers in messages are left out.
\<close>

section \<open>Replacing words of an image\<close>

definition copy_image :: "firmware_image \<Rightarrow> firmware_block list \<Rightarrow> firmware_image res" where
  "copy_image img blocks =
     FirmwareImage (fi_source_out_file img) (fi_generated_hex_file img) (fi_entry_point img)
       (sort_key fb_address blocks) (fi_file_checksum img) (fi_format_info img)"

text \<open>What stays of a block when the range from \<open>address\<close> to \<open>end_exclusive\<close> is replaced.\<close>

definition cut_block :: "int \<Rightarrow> int \<Rightarrow> firmware_block \<Rightarrow> firmware_block list \<Rightarrow> firmware_block list res" where
  "cut_block address end_exclusive block blocks =
     (if fb_end_exclusive block \<le> address \<or> fb_address block \<ge> end_exclusive then Inr (blocks @ [block])
      else
        bindE (if fb_address block < address
               then bindE (FirmwareBlock (fb_address block) (py_slice (fb_words block) 0 (address - fb_address block)))
                 (\<lambda>b. Inr (blocks @ [b]))
               else Inr blocks) (\<lambda>blocks.
        if fb_end_exclusive block > end_exclusive
        then bindE (FirmwareBlock end_exclusive
            (py_slice (fb_words block) (end_exclusive - fb_address block) (int (length (fb_words block)))))
          (\<lambda>b. Inr (blocks @ [b]))
        else Inr blocks))"

definition replace_words :: "firmware_image \<Rightarrow> int \<Rightarrow> int list \<Rightarrow> firmware_image res" where
  "replace_words img address patch =
     (if patch = [] \<or> list_ex (\<lambda>word. word < 0 \<or> word > 0xFFFF) patch
      then Inl (ValueError ''patch words must be non-empty uint16 values'')
      else bindE (foldE (cut_block address (address + int (length patch))) (fi_blocks img) []) (\<lambda>blocks.
           bindE (FirmwareBlock address patch) (\<lambda>b. copy_image img (blocks @ [b]))))"

definition inside_one_block :: "firmware_image \<Rightarrow> int \<Rightarrow> int \<Rightarrow> bool" where
  "inside_one_block img address n =
     list_ex (\<lambda>b. fb_address b \<le> address \<and> address + n \<le> fb_end_exclusive b) (fi_blocks img)"

definition patch_words :: "firmware_image \<Rightarrow> int \<Rightarrow> int list \<Rightarrow> firmware_image res" where
  "patch_words img address patch =
     (if \<not> inside_one_block img address (int (length patch))
      then Inl (ValueError ''patch range must be inside one FirmwareBlock'')
      else replace_words img address patch)"

section \<open>The immutable range\<close>

text \<open>\<open>words[copy_start - start : copy_end - start] = block.words[\<dots>]\<close>, of the same length.\<close>

definition copy_into :: "int \<Rightarrow> int \<Rightarrow> firmware_block \<Rightarrow> int list \<Rightarrow> int list" where
  "copy_into start end_exclusive block words =
     (let copy_start = max start (fb_address block); copy_end = min end_exclusive (fb_end_exclusive block) in
      if copy_start < copy_end
      then take (nat (copy_start - start)) words @
        py_slice (fb_words block) (copy_start - fb_address block) (copy_end - fb_address block) @
        drop (nat (copy_end - start)) words
      else words)"

definition dense_immutable :: "firmware_image \<Rightarrow> int \<Rightarrow> int \<Rightarrow> firmware_block res" where
  "dense_immutable img start end_exclusive =
     (if start < 0 \<or> end_exclusive \<le> start \<or> end_exclusive > 0x100000000
      then Inl (ValueError ''invalid immutable range'')
      else FirmwareBlock start (fold (copy_into start end_exclusive) (fi_blocks img)
        (replicate (nat (end_exclusive - start)) 0xFFFF)))"

section \<open>The header\<close>

definition low_high :: "int \<Rightarrow> int list res" where
  "low_high v = bindE (split_u32 v) (\<lambda>(low, high). Inr [low, high])"

text \<open>The first 26 words of the header.\<close>

definition header_words :: "ti_map_symbols \<Rightarrow> int \<Rightarrow> int \<Rightarrow> int list res" where
  "header_words symbols capabilities immutable_crc =
     bindE (low_high SERVICE_HEADER_MAGIC) (\<lambda>magic.
     bindE (low_high (ts_immutable_start symbols)) (\<lambda>immutable_start.
     bindE (low_high (ts_immutable_end_exclusive symbols)) (\<lambda>immutable_end.
     bindE (low_high (ts_publish_state_address symbols)) (\<lambda>publish.
     bindE (low_high (ts_runtime_state_address symbols)) (\<lambda>runtime.
     bindE (low_high (ts_app_export_address symbols)) (\<lambda>app_export.
     bindE (low_high (ts_boot_init_address symbols)) (\<lambda>boot_init.
     bindE (low_high (ts_boot_handle_command_address symbols)) (\<lambda>handle_command.
     bindE (low_high capabilities) (\<lambda>caps.
     bindE (low_high immutable_crc) (\<lambda>crc.
       Inr (magic @ [SERVICE_HEADER_VERSION, SERVICE_HEADER_WORDS, SERVICE_ABI_MAJOR, SERVICE_ABI_MINOR] @
         immutable_start @ immutable_end @ publish @ runtime @ app_export @ boot_init @ handle_command @ caps @
         [SERVICE_IMAGE_CRC32_IEEE, 0] @ crc)))))))))))"

fun ranges_disjoint :: "(int \<times> int) list \<Rightarrow> bool" where
  "ranges_disjoint ((s, e) # (s', e') # rest) = (e \<le> s' \<and> ranges_disjoint ((s', e') # rest))"
| "ranges_disjoint _ = True"

text \<open>\<open>sorted\<close> compares the pairs by start and then by end.\<close>

definition mutable_ranges :: "ti_map_symbols \<Rightarrow> (int \<times> int) list" where
  "mutable_ranges symbols = sort_key fst (sort_key snd
     [(ts_header_address symbols, ts_header_address symbols + SERVICE_HEADER_WORDS),
      (ts_publish_state_address symbols, ts_publish_state_address symbols + 2),
      (ts_runtime_state_address symbols, ts_runtime_state_address symbols + 1)])"

definition patch_flash_service_image :: "firmware_image \<Rightarrow> ti_map_symbols \<Rightarrow> int \<Rightarrow> firmware_image res" where
  "patch_flash_service_image img symbols capabilities =
     (if \<not> inside_one_block img (ts_header_address symbols) SERVICE_HEADER_WORDS
      then Inl (ValueError ''header_address must point to 28 words inside one FirmwareBlock'')
      else if \<not> list_all (\<lambda>a. ts_immutable_start symbols \<le> a \<and> a < ts_immutable_end_exclusive symbols)
          [ts_boot_init_address symbols, ts_boot_handle_command_address symbols,
           ts_confirm_current_image_address symbols]
      then Inl (ValueError ''service entry points must be inside the immutable range'')
      else if \<not> ranges_disjoint (mutable_ranges symbols)
        \<or> list_ex (\<lambda>(s, e). s < ts_immutable_end_exclusive symbols \<and> e > ts_immutable_start symbols)
            (mutable_ranges symbols)
      then Inl (ValueError ''mutable service ranges must be disjoint from each other and immutable data'')
      else
        bindE (dense_immutable img (ts_immutable_start symbols) (ts_immutable_end_exclusive symbols)) (\<lambda>immutable.
        bindE (replace_words img (fb_address immutable) (fb_words immutable)) (\<lambda>patched.
        bindE (replace_words patched (ts_publish_state_address symbols)
            [SERVICE_PUBLISH_INVALID, SERVICE_PUBLISH_INVALID]) (\<lambda>patched.
        bindE (crc32_words (fb_words immutable)) (\<lambda>immutable_crc.
        bindE (header_words symbols capabilities immutable_crc) (\<lambda>header.
        bindE (crc32_words header) (\<lambda>header_crc.
        bindE (low_high header_crc) (\<lambda>crc.
          patch_words patched (ts_header_address symbols) (header @ crc)))))))))"

section \<open>The prepared image\<close>

definition symbol_ranges :: "ti_map_symbols \<Rightarrow> (int \<times> int) list" where
  "symbol_ranges symbols =
     [(ts_header_address symbols, ts_header_address symbols + SERVICE_HEADER_WORDS),
      (ts_publish_state_address symbols, ts_publish_state_address symbols + 2),
      (ts_runtime_state_address symbols, ts_runtime_state_address symbols + 1),
      (ts_app_export_address symbols, ts_app_export_address symbols + 2),
      (ts_immutable_start symbols, ts_immutable_end_exclusive symbols),
      (ts_boot_init_address symbols, ts_boot_init_address symbols + 1),
      (ts_boot_handle_command_address symbols, ts_boot_handle_command_address symbols + 1),
      (ts_confirm_current_image_address symbols, ts_confirm_current_image_address symbols + 1)]"

fun check_service_blocks :: "ram_layout \<Rightarrow> firmware_block list \<Rightarrow> unit res" where
  "check_service_blocks ram [] = Inr ()"
| "check_service_blocks ram (b # bs) =
     (if \<not> inside_any_range (fb_address b) (fb_end_exclusive b) (rl_service_ranges ram)
      then Inl (ValueError ''service image block is outside target service RAM'')
      else if overlaps_any (fb_address b) (fb_end_exclusive b) (rl_reserved_ranges ram)
      then Inl (ValueError ''service image block overlaps reserved RAM'')
      else check_service_blocks ram bs)"

text \<open>
  \<open>loaded\<close>: the image file read by \<open>load_firmware_image\<close>; \<open>map_text\<close>: the text of the map file, or the error of
  reading it.
\<close>

definition prepare_service_image ::
  "target_profile \<Rightarrow> (firmware_image \<times> string option) res \<Rightarrow> string res \<Rightarrow> string \<Rightarrow> int \<Rightarrow> prepared_service_image res" where
  "prepare_service_image profile loaded map_text header_symbol required_capabilities =
     (case tm_ram (tp_memory_map profile) of
        None \<Rightarrow> Inl (ValueError ''target must define a RAM layout'')
      | Some ram \<Rightarrow>
          bindE loaded (\<lambda>(img, generated).
          bindE (bindE map_text (\<lambda>txt. parse_flash_service_symbols_from_map txt (Some header_symbol))) (\<lambda>symbols.
          if list_ex (\<lambda>(s, e). \<not> inside_any_range s e (rl_service_ranges ram)
               \<or> overlaps_any s e (rl_reserved_ranges ram)) (symbol_ranges symbols)
          then Inl (ValueError ''service map symbol is outside target service RAM'')
          else
            bindE (check_service_blocks ram (fi_blocks img)) (\<lambda>_.
            bindE (patch_flash_service_image img symbols required_capabilities) (\<lambda>patched.
            bindE (calculate_service_ram_load_crc32 patched 248) (\<lambda>expected_crc32. Inr
              \<lparr>ps_image = patched, ps_header_address = ts_header_address symbols,
               ps_total_words = fi_total_words patched, ps_expected_crc32 = expected_crc32,
               ps_required_capabilities = required_capabilities\<rparr>))))))"

end
