(* ===== verification/Service_Spec.thy ===== *)
theory Service_Spec
  imports Service_Image
begin

text \<open>
  Replacing words of an image is an update of its memory; so the prepared service image has the memory
  the linker gave it, with the immutable range filled, the publish state cleared and a header whose
  CRCs are those of the words around it.
\<close>

section \<open>Disjoint blocks in any order\<close>

definition apart :: "firmware_block \<Rightarrow> firmware_block \<Rightarrow> bool" where
  "apart a b \<longleftrightarrow> blocks_before a b \<or> blocks_before b a"

lemma apart_sym: "apart a b = apart b a"
  by (auto simp: apart_def)

lemma symmetric_insort:
  assumes "\<And>a b. R a b = R b a"
  shows "sorted_wrt R (insort_key f x xs) \<longleftrightarrow> sorted_wrt R (x # xs)"
  by (induction xs) (auto simp: assms [of x] set_insort_key)

lemma symmetric_sort:
  assumes "\<And>a b. R a b = R b a"
  shows "sorted_wrt R (sort_key f xs) \<longleftrightarrow> sorted_wrt R xs"
proof (induction xs)
  case (Cons x xs)
  have "sorted_wrt R (sort_key f (x # xs)) \<longleftrightarrow> sorted_wrt R (x # sort_key f xs)"
    by (simp add: symmetric_insort [of R, OF assms] del: sorted_wrt.simps)
  also have "\<dots> \<longleftrightarrow> sorted_wrt R (x # xs)"
    using Cons by simp
  finally show ?case .
qed simp

lemma apart_sort: "sorted_wrt apart (sort_key f xs) \<longleftrightarrow> sorted_wrt apart xs"
  by (rule symmetric_sort) (rule apart_sym)

lemma before_sort_iff:
  assumes "list_all block_wf bs"
  shows "sorted_wrt blocks_before (sort_key fb_address bs) \<longleftrightarrow> sorted_wrt apart bs"
proof -
  have "sorted_wrt blocks_before xs \<longleftrightarrow> sorted_wrt apart xs"
    if "sorted_wrt (\<lambda>a b. fb_address a \<le> fb_address b) xs" "list_all block_wf xs" for xs
  proof -
    have "blocks_before a b \<longleftrightarrow> apart a b" if "fb_address a \<le> fb_address b" "block_wf b" for a b
      using that fb_end_gt [of b] by (auto simp: apart_def blocks_before_def)
    then show ?thesis
      using that by (induction xs) (auto simp: list_all_iff)
  qed
  moreover have "sorted_wrt (\<lambda>a b. fb_address a \<le> fb_address b) (sort_key fb_address bs)"
    using sorted_sort_key [of fb_address bs] by (simp add: sorted_map)
  ultimately show ?thesis
    using assms apart_sort by (metis list_all_sort_key)
qed

lemma image_wf_apart: "image_wf img \<Longrightarrow> sorted_wrt apart (fi_blocks img)"
  using before_sort_iff [of "fi_blocks img"] by (simp add: image_wf_def)

section \<open>Cutting\<close>

definition subrange :: "firmware_block \<Rightarrow> firmware_block \<Rightarrow> bool" where
  "subrange p b \<longleftrightarrow> fb_address b \<le> fb_address p \<and> fb_end_exclusive p \<le> fb_end_exclusive b"

definition outside :: "int \<Rightarrow> int \<Rightarrow> firmware_block \<Rightarrow> bool" where
  "outside a e p \<longleftrightarrow> fb_end_exclusive p \<le> a \<or> e \<le> fb_address p"

definition left_part :: "int \<Rightarrow> firmware_block \<Rightarrow> firmware_block" where
  "left_part a b = \<lparr>fb_address = fb_address b, fb_words = take (nat (a - fb_address b)) (fb_words b)\<rparr>"

definition right_part :: "int \<Rightarrow> firmware_block \<Rightarrow> firmware_block" where
  "right_part e b = \<lparr>fb_address = e, fb_words = drop (nat (e - fb_address b)) (fb_words b)\<rparr>"

definition pieces :: "int \<Rightarrow> int \<Rightarrow> firmware_block \<Rightarrow> firmware_block list" where
  "pieces a e b =
     (if outside a e b then [b]
      else (if fb_address b < a then [left_part a b] else []) @
           (if e < fb_end_exclusive b then [right_part e b] else []))"

lemma slice_to_end: "0 \<le> i \<Longrightarrow> py_slice xs i (int (length xs)) = drop (nat i) xs"
  by (auto simp: py_slice_def slice_index_def min_def)

lemma slice_from_0: "0 \<le> i \<Longrightarrow> py_slice xs 0 i = take (nat i) xs"
  using py_slice_nonneg [of 0 i xs] by simp

lemma part_wf:
  assumes "block_wf b" "\<not> outside a e b"
  shows "fb_address b < a \<Longrightarrow> block_wf (left_part a b)"
    and "e < fb_end_exclusive b \<Longrightarrow> u32 e \<Longrightarrow> block_wf (right_part e b)"
  using assms by (auto simp: block_wf_def left_part_def right_part_def outside_def fb_end_exclusive_def
      intro: words16_take words16_drop)

lemma cut_block_pieces:
  assumes "block_wf b" "u32 e"
  shows "cut_block a e b blocks = Inr (blocks @ pieces a e b) \<and> list_all block_wf (pieces a e b)"
proof (cases "outside a e b")
  case True
  then show ?thesis
    using assms(1) by (auto simp: cut_block_def pieces_def outside_def)
next
  case False
  then have out: "\<not> (fb_end_exclusive b \<le> a \<or> fb_address b \<ge> e)"
    by (auto simp: outside_def)
  have left: "FirmwareBlock (fb_address b) (py_slice (fb_words b) 0 (a - fb_address b)) = Inr (left_part a b)"
    if "fb_address b < a"
    using part_wf(1) [OF assms(1) False that] that by (simp add: FirmwareBlock_Inr_iff left_part_def slice_from_0)
  have right: "FirmwareBlock e (py_slice (fb_words b) (e - fb_address b) (int (length (fb_words b)))) = Inr (right_part e b)"
    if "e < fb_end_exclusive b"
    using part_wf(2) [OF assms(1) False that assms(2)] out by (simp add: FirmwareBlock_Inr_iff right_part_def slice_to_end)
  show ?thesis
    using out False left right part_wf [OF assms(1) False] assms(2) by (simp add: cut_block_def pieces_def)
qed

lemma cut_blocks:
  assumes "list_all block_wf bs" "u32 e"
  shows "foldE (cut_block a e) bs acc = Inr (acc @ concat (map (pieces a e) bs)) \<and>
    list_all block_wf (concat (map (pieces a e) bs))"
  using assms(1)
proof (induction bs arbitrary: acc)
  case (Cons b bs)
  then show ?case
    using cut_block_pieces [of b e a acc] assms(2) by simp
qed simp

lemma pieces_facts:
  assumes "block_wf b" "a < e" "p \<in> set (pieces a e b)"
  shows "subrange p b" "outside a e p"
  using assms by (auto simp: pieces_def subrange_def outside_def left_part_def right_part_def fb_end_exclusive_def
      split: if_splits)

lemma pieces_apart:
  assumes "block_wf b" "a < e"
  shows "sorted_wrt apart (pieces a e b)"
  using assms by (auto simp: pieces_def apart_def blocks_before_def left_part_def right_part_def fb_end_exclusive_def outside_def)

lemma subrange_apart: "apart b c \<Longrightarrow> subrange p b \<Longrightarrow> subrange q c \<Longrightarrow> apart p q"
  by (auto simp: apart_def subrange_def blocks_before_def)

lemma all_pieces_apart:
  assumes "list_all block_wf bs" "a < e" "sorted_wrt apart bs"
  shows "sorted_wrt apart (concat (map (pieces a e) bs))"
  using assms(1,3)
proof (induction bs)
  case (Cons b bs)
  have "apart p q" if "p \<in> set (pieces a e b)" "c \<in> set bs" "q \<in> set (pieces a e c)" for p q c
    using subrange_apart [of b c p q] pieces_facts(1) that Cons.prems assms(2) by (auto simp: list_all_iff)
  then show ?case
    using Cons pieces_apart [of b a e] assms(2) by (auto simp: sorted_wrt_append)
qed simp

text \<open>The memory of the pieces is the block's outside the range.\<close>

lemma pieces_cells:
  assumes "block_wf b" "a < e"
  shows "image_cells (pieces a e b) = block_cells b |` (- {a ..< e})"
proof
  fix x
  show "image_cells (pieces a e b) x = (block_cells b |` (- {a ..< e})) x"
  proof (cases "outside a e b")
    case True
    then show ?thesis
      by (auto simp: pieces_def restrict_map_def block_cells_def cells_def outside_def fb_end_exclusive_def)
  next
    case False
    have left: "block_cells (left_part a b) x = (if x < a then block_cells b x else None)"
      if "fb_address b < a"
      using that False by (auto simp: block_cells_def left_part_def cells_def outside_def fb_end_exclusive_def)
    have right: "block_cells (right_part e b) x = (if e \<le> x then block_cells b x else None)"
      if "e < fb_end_exclusive b"
    proof -
      have "fb_address b \<le> e"
        using False assms(2) by (auto simp: outside_def)
      then show ?thesis
        using that by (auto simp: block_cells_def right_part_def cells_def fb_end_exclusive_def nat_diff_distrib
            nth_drop intro!: arg_cong [where f = "(!) (fb_words b)"])
    qed
    have none: "block_cells b x = None" if "\<not> (fb_address b \<le> x \<and> x < fb_end_exclusive b)"
      using that by (auto simp: block_cells_def cells_def fb_end_exclusive_def)
    show ?thesis
      using False assms(2) left right none
      by (auto simp: pieces_def restrict_map_def map_add_def split: option.split)
  qed
qed

lemma image_cells_append: "image_cells (xs @ ys) = image_cells xs ++ image_cells ys"
  by (induction xs) simp_all

lemma restrict_map_add: "(m ++ n) |` A = (m |` A) ++ (n |` A)"
  by (auto simp: restrict_map_def map_add_def fun_eq_iff)

lemma all_pieces_cells:
  assumes "list_all block_wf bs" "a < e"
  shows "image_cells (concat (map (pieces a e) bs)) = image_cells bs |` (- {a ..< e})"
  using assms(1)
  by (induction bs) (simp_all add: image_cells_append pieces_cells assms(2) restrict_map_add)

text \<open>Replacing words succeeds for every well-formed image, and updates its memory.\<close>

lemma replace_words_spec:
  assumes "image_wf img" "patch \<noteq> []" "words16 patch" "0 \<le> address" "address + int (length patch) \<le> 0xFFFFFFFF"
  shows "\<exists>img'. replace_words img address patch = Inr img' \<and> image_wf img' \<and>
    image_cells (fi_blocks img') = image_cells (fi_blocks img) ++ cells address patch \<and>
    fi_entry_point img' = fi_entry_point img \<and>
    set (fi_blocks img') = set (concat (map (pieces address (address + int (length patch))) (fi_blocks img))) \<union>
      {\<lparr>fb_address = address, fb_words = patch\<rparr>}"
proof -
  let ?e = "address + int (length patch)" and ?b = "\<lparr>fb_address = address, fb_words = patch\<rparr>"
  let ?cut = "concat (map (pieces address ?e) (fi_blocks img))"
  have lt: "address < ?e" and u: "u32 ?e" and blocks: "list_all block_wf (fi_blocks img)"
    using assms by (auto simp: u32_def image_wf_def)
  have b: "block_wf ?b"
    using assms by (auto simp: block_wf_def u32_def)
  have cut: "foldE (cut_block address ?e) (fi_blocks img) [] = Inr ?cut" "list_all block_wf ?cut"
    using cut_blocks [OF blocks u, of address "[]"] by simp_all
  have "apart p ?b" if p: "p \<in> set ?cut" for p
  proof -
    obtain c where "c \<in> set (fi_blocks img)" "p \<in> set (pieces address ?e c)"
      using p by auto
    then have "outside address ?e p"
      using pieces_facts(2) [of c address ?e p] blocks lt by (simp add: list_all_iff)
    then show ?thesis
      by (auto simp: outside_def apart_def blocks_before_def fb_end_exclusive_def)
  qed
  then have apart: "sorted_wrt apart (?cut @ [?b])"
    using all_pieces_apart [OF blocks lt image_wf_apart [OF assms(1)]] by (simp add: sorted_wrt_append)
  have wf: "list_all block_wf (sort_key fb_address (?cut @ [?b]))"
    using cut(2) b by simp
  have srt: "sort_key fb_address (sort_key fb_address (?cut @ [?b])) = sort_key fb_address (?cut @ [?b])"
    by (simp add: sort_key_id_if_sorted del: sort_key_simps)
  have ok: "sorted_wrt blocks_before (sort_key fb_address (sort_key fb_address (?cut @ [?b])))"
    unfolding srt using before_sort_iff [of "?cut @ [?b]"] apart cut(2) b by simp
  have ne: "sort_key fb_address (?cut @ [?b]) \<noteq> []"
  proof -
    have "length (sort_key fb_address (?cut @ [?b])) \<noteq> 0"
      by (simp del: sort_key_simps)
    then show ?thesis
      unfolding length_0_conv .
  qed
  have entry: "u32 (fi_entry_point img)"
    using assms(1) by (simp add: image_wf_def)
  note build = FirmwareImage_built [OF wf, of "fi_source_out_file img" "fi_generated_hex_file img"
      "fi_entry_point img" "fi_file_checksum img" "fi_format_info img"]
  obtain img' where img': "copy_image img (?cut @ [?b]) = Inr img'" "image_wf img'"
    using build ok ne entry by (auto simp: copy_image_def is_ok_iff)
  have fields: "fi_blocks img' = sort_key fb_address (?cut @ [?b])" "fi_entry_point img' = fi_entry_point img"
    using img'(1) by (auto simp: copy_image_def FirmwareImage_def Let_def split: if_splits)
  have dom: "dom (cells address patch) = {address ..< ?e}"
    by (rule dom_cells)
  have "(m |` (- dom n)) ++ n = m ++ n" for m n :: "int \<rightharpoonup> int"
    by (auto simp: restrict_map_def map_add_def fun_eq_iff split: option.split)
  from this [of "image_cells (fi_blocks img)" "cells address patch"]
  have "image_cells (?cut @ [?b]) = image_cells (fi_blocks img) ++ cells address patch"
    using all_pieces_cells [OF blocks lt] by (simp add: dom image_cells_append block_cells_def)
  moreover have "image_cells (fi_blocks img') = image_cells (?cut @ [?b])"
    unfolding fields by (rule image_cells_sort) (use ok srt in simp)
  moreover have "FirmwareBlock address patch = Inr ?b"
    using b by (simp add: FirmwareBlock_Inr_iff)
  ultimately show ?thesis
    using img' fields assms(2,3) cut(1) not_list_ex_u16 [of patch] by (simp add: replace_words_def)
qed

section \<open>The immutable range, filled\<close>

lemma slice_range:
  assumes "0 \<le> i" "i \<le> j" "j \<le> int (length xs)"
  shows "py_slice xs i j = take (nat (j - i)) (drop (nat i) xs)"
  using py_slice_nonneg [of i "j - i" xs] assms by simp

lemma copy_into_cells:
  assumes "int (length words) = e - s" "s < e"
  shows "int (length (copy_into s e b words)) = e - s"
    and "cells s (copy_into s e b words) = cells s words ++ (block_cells b |` {s ..< e})"
proof -
  let ?cs = "max s (fb_address b)" and ?ce = "min e (fb_end_exclusive b)"
  have "int (length (copy_into s e b words)) = e - s \<and>
    cells s (copy_into s e b words) = cells s words ++ (block_cells b |` {s ..< e})"
  proof (cases "?cs < ?ce")
    case False
    then have "block_cells b |` {s ..< e} = Map.empty"
      by (auto simp: restrict_map_def block_cells_def cells_def fb_end_exclusive_def fun_eq_iff)
    moreover have "copy_into s e b words = words"
      unfolding copy_into_def Let_def by (simp only: False if_False)
    ultimately show ?thesis
      using assms by simp
  next
    case True
    let ?mid = "take (nat (?ce - ?cs)) (drop (nat (?cs - fb_address b)) (fb_words b))"
    have mid: "py_slice (fb_words b) (?cs - fb_address b) (?ce - fb_address b) = ?mid"
      using True by (subst slice_range) (auto simp: fb_end_exclusive_def)
    have len: "int (length ?mid) = ?ce - ?cs" "int (length (take (nat (?cs - s)) words)) = ?cs - s"
      "int (length (drop (nat (?ce - s)) words)) = e - ?ce"
      using True assms by (auto simp: fb_end_exclusive_def)
    have eq: "copy_into s e b words = take (nat (?cs - s)) words @ ?mid @ drop (nat (?ce - s)) words"
      using True by (simp add: copy_into_def Let_def mid)
    have parts: "cells s (copy_into s e b words) =
        cells s (take (nat (?cs - s)) words) ++ (cells ?cs ?mid ++ cells ?ce (drop (nat (?ce - s)) words))"
      unfolding eq cells_append using len by simp
    have l: "cells s (take (nat (?cs - s)) words) x = (if x < ?cs then cells s words x else None)" for x
      using len(2) assms by (auto simp: cells_def)
    have r: "cells ?ce (drop (nat (?ce - s)) words) x = (if ?ce \<le> x then cells s words x else None)" for x
      using len(3) assms True by (auto simp: cells_def nth_drop intro!: arg_cong [where f = "(!) words"])
    have m: "cells ?cs ?mid x = (if ?cs \<le> x \<and> x < ?ce then block_cells b x else None)" for x
      using len(1) True by (auto simp: cells_def block_cells_def fb_end_exclusive_def nth_drop intro!: arg_cong [where f = "(!) (fb_words b)"])
    have pointwise: "cells s (copy_into s e b words) x = (cells s words ++ (block_cells b |` {s ..< e})) x" for x
    proof (cases "?cs \<le> x \<and> x < ?ce")
      case True
      then have "x \<in> {s ..< e}" "block_cells b x \<noteq> None"
        by (auto simp: block_cells_def cells_def fb_end_exclusive_def)
      then show ?thesis
        unfolding parts using l [of x] r [of x] m [of x] True by (auto simp: map_add_def)
    next
      case False
      then have none: "(block_cells b |` {s ..< e}) x = None"
        by (auto simp: restrict_map_def block_cells_def cells_def fb_end_exclusive_def)
      show ?thesis
        unfolding parts using l [of x] r [of x] m [of x] False none \<open>?cs < ?ce\<close>
        by (auto simp: map_add_def split: option.split)
    qed
    have "int (length (copy_into s e b words)) = e - s"
      unfolding eq length_append of_nat_add len by simp
    then show ?thesis
      by (intro conjI ext pointwise)
  qed
  then show "int (length (copy_into s e b words)) = e - s"
    and "cells s (copy_into s e b words) = cells s words ++ (block_cells b |` {s ..< e})"
    by simp_all
qed

lemma copy_all_cells:
  assumes "int (length words) = e - s" "s < e"
  shows "int (length (fold (copy_into s e) bs words)) = e - s \<and>
    cells s (fold (copy_into s e) bs words) = cells s words ++ (image_cells bs |` {s ..< e})"
  using assms(1)
proof (induction bs arbitrary: words)
  case (Cons b bs)
  then show ?case
    using copy_into_cells [OF Cons.prems assms(2), of b] Cons.IH [of "copy_into s e b words"]
    by (simp add: restrict_map_add map_add_assoc)
qed simp

lemma copy_into_words16:
  assumes "words16 words" "block_wf b"
  shows "words16 (copy_into s e b words)"
proof -
  have "words16 (py_slice xs i j)" if "words16 xs" for xs i j
    using that by (simp add: py_slice_def words16_take words16_drop)
  then show ?thesis
    using assms by (simp add: copy_into_def Let_def words16_take words16_drop block_wf_def)
qed

lemma dense_immutable_spec:
  assumes "image_wf img" "0 \<le> s" "s < e" "e \<le> 0x100000000"
  shows "\<exists>ws. dense_immutable img s e = Inr \<lparr>fb_address = s, fb_words = ws\<rparr> \<and> words16 ws \<and> ws \<noteq> [] \<and>
    int (length ws) = e - s \<and>
    cells s ws = (\<lambda>x. if s \<le> x \<and> x < e
      then Some (case image_cells (fi_blocks img) x of None \<Rightarrow> 0xFFFF | Some w \<Rightarrow> w) else None)"
proof -
  let ?w0 = "replicate (nat (e - s)) (0xFFFF :: int)"
  let ?ws = "fold (copy_into s e) (fi_blocks img) ?w0"
  have l0: "int (length ?w0) = e - s"
    using assms by simp
  have ws: "int (length ?ws) = e - s" "cells s ?ws = cells s ?w0 ++ (image_cells (fi_blocks img) |` {s ..< e})"
    using copy_all_cells [OF l0 assms(3)] by simp_all
  have "words16 (fold (copy_into s e) bs w)" if "words16 w" "list_all block_wf bs" for bs w
    using that by (induction bs arbitrary: w) (simp_all add: copy_into_words16)
  moreover have "words16 ?w0"
    by (simp add: list_all_iff u_simps)
  ultimately have w16: "words16 ?ws"
    using assms(1) by (simp add: image_wf_def)
  have ne: "?ws \<noteq> []"
    using ws(1) assms(3) by auto
  have "FirmwareBlock s ?ws = Inr \<lparr>fb_address = s, fb_words = ?ws\<rparr>"
    using assms w16 ne by (intro FirmwareBlock_Inr) (simp_all add: u32_def)
  moreover have "cells s ?ws = (\<lambda>x. if s \<le> x \<and> x < e
      then Some (case image_cells (fi_blocks img) x of None \<Rightarrow> 0xFFFF | Some w \<Rightarrow> w) else None)"
    unfolding ws(2) using assms(3)
    by (auto simp: map_add_def restrict_map_def cells_def fun_eq_iff split: option.split)
  ultimately show ?thesis
    using assms w16 ne ws(1) by (auto simp: dense_immutable_def)
qed

section \<open>The patched image\<close>

lemma inside_kept:
  assumes "inside_one_block img h n" "0 < n" "h + n \<le> a \<or> e \<le> h" "list_all block_wf (fi_blocks img)" "a < e"
  shows "\<exists>p \<in> set (concat (map (pieces a e) (fi_blocks img))). fb_address p \<le> h \<and> h + n \<le> fb_end_exclusive p"
proof -
  obtain b where b: "b \<in> set (fi_blocks img)" "fb_address b \<le> h" "h + n \<le> fb_end_exclusive b"
    using assms(1) by (auto simp: inside_one_block_def list_ex_iff)
  have "\<exists>p \<in> set (pieces a e b). fb_address p \<le> h \<and> h + n \<le> fb_end_exclusive p"
  proof (cases "outside a e b")
    case True
    then show ?thesis
      using b by (simp add: pieces_def)
  next
    case False
    then show ?thesis
      using b assms(2,3) by (auto simp: pieces_def left_part_def right_part_def fb_end_exclusive_def outside_def)
  qed
  then show ?thesis
    using b(1) by auto
qed

lemma inside_replaced:
  assumes "inside_one_block img h n" "0 < n" "h + n \<le> a \<or> a + int (length patch) \<le> h"
    and "list_all block_wf (fi_blocks img)" "patch \<noteq> []"
    and "set (fi_blocks img') = set (concat (map (pieces a (a + int (length patch))) (fi_blocks img))) \<union> B"
  shows "inside_one_block img' h n"
  using inside_kept [OF assms(1-4)] assms(5,6) unfolding inside_one_block_def list_ex_iff by fastforce

definition memory_range :: "(int \<rightharpoonup> int) \<Rightarrow> int \<Rightarrow> nat \<Rightarrow> int list" where
  "memory_range m a n = map (\<lambda>i. the (m (a + int i))) [0 ..< n]"

lemma memory_range_cells:
  assumes "\<And>x. a \<le> x \<Longrightarrow> x < a + int (length ws) \<Longrightarrow> m x = cells a ws x"
  shows "memory_range m a (length ws) = ws"
  using assms by (auto simp: memory_range_def cells_def intro: nth_equalityI)

definition range_apart :: "int \<times> int \<Rightarrow> int \<times> int \<Rightarrow> bool" where
  "range_apart p q \<longleftrightarrow> snd p \<le> fst q \<or> snd q \<le> fst p"

lemma ranges_disjoint_sorted:
  assumes "ranges_disjoint xs" "\<And>p. p \<in> set xs \<Longrightarrow> fst p < snd p"
  shows "sorted_wrt (\<lambda>p q. snd p \<le> fst q) xs"
  using assms
proof (induction xs rule: ranges_disjoint.induct)
  case (1 s e s' e' rest)
  then have "sorted_wrt (\<lambda>p q. snd p \<le> fst q) ((s', e') # rest)" "e \<le> s'" "s' < e'"
    by auto
  then show ?case
    by fastforce
qed simp_all

lemma set_mutable_ranges: "set (mutable_ranges symbols) =
    {(ts_header_address symbols, ts_header_address symbols + SERVICE_HEADER_WORDS),
     (ts_publish_state_address symbols, ts_publish_state_address symbols + 2),
     (ts_runtime_state_address symbols, ts_runtime_state_address symbols + 1)}"
  by (simp only: mutable_ranges_def set_sort list.set)

lemma mutable_apart:
  assumes "ranges_disjoint (mutable_ranges symbols)"
  shows "sorted_wrt range_apart
     [(ts_header_address symbols, ts_header_address symbols + SERVICE_HEADER_WORDS),
      (ts_publish_state_address symbols, ts_publish_state_address symbols + 2),
      (ts_runtime_state_address symbols, ts_runtime_state_address symbols + 1)]"
proof -
  have "sorted_wrt (\<lambda>p q. snd p \<le> fst q) (mutable_ranges symbols)"
    using assms by (rule ranges_disjoint_sorted) (auto simp: set_mutable_ranges SERVICE_HEADER_WORDS_def)
  then have "sorted_wrt range_apart (mutable_ranges symbols)"
    by (rule sorted_wrt_mono_rel [rotated]) (simp add: range_apart_def)
  moreover have "range_apart a b = range_apart b a" for a b
    by (auto simp: range_apart_def)
  ultimately show ?thesis
    unfolding mutable_ranges_def by (simp only: symmetric_sort)
qed

lemma low_high_Inr: "u32 v \<Longrightarrow> low_high v = Inr [lo16 v, hi16 v]"
  by (simp add: low_high_def)

definition header_list :: "ti_map_symbols \<Rightarrow> int \<Rightarrow> int \<Rightarrow> int list" where
  "header_list symbols capabilities crc =
     concat (map (\<lambda>v. [lo16 v, hi16 v]) [SERVICE_HEADER_MAGIC]) @
     [SERVICE_HEADER_VERSION, SERVICE_HEADER_WORDS, SERVICE_ABI_MAJOR, SERVICE_ABI_MINOR] @
     concat (map (\<lambda>v. [lo16 v, hi16 v])
       [ts_immutable_start symbols, ts_immutable_end_exclusive symbols, ts_publish_state_address symbols,
        ts_runtime_state_address symbols, ts_app_export_address symbols, ts_boot_init_address symbols,
        ts_boot_handle_command_address symbols, capabilities]) @
     [SERVICE_IMAGE_CRC32_IEEE, 0] @ [lo16 crc, hi16 crc]"

lemma header_words_Inr:
  assumes "TiMapSymbols symbols = Inr symbols" "u32 capabilities" "u32 crc"
  shows "header_words symbols capabilities crc = Inr (header_list symbols capabilities crc)"
    and "length (header_list symbols capabilities crc) = 26" "words16 (header_list symbols capabilities crc)"
proof -
  note u = TiMapSymbols_Inr [OF assms(1)] assms(2,3)
  have "u32 SERVICE_HEADER_MAGIC"
    by (simp add: SERVICE_HEADER_MAGIC_def u32_def)
  then show "header_words symbols capabilities crc = Inr (header_list symbols capabilities crc)"
    and "length (header_list symbols capabilities crc) = 26" "words16 (header_list symbols capabilities crc)"
    using u by (simp_all add: header_words_def header_list_def low_high_Inr)
      (simp_all add: u16_def SERVICE_HEADER_VERSION_def SERVICE_HEADER_WORDS_def SERVICE_ABI_MAJOR_def
        SERVICE_ABI_MINOR_def SERVICE_IMAGE_CRC32_IEEE_def)
qed

text \<open>The checks of \<open>patch_flash_service_image\<close>, and that the two patches end below the last address.\<close>

definition service_layout_ok :: "firmware_image \<Rightarrow> ti_map_symbols \<Rightarrow> bool" where
  "service_layout_ok img symbols \<longleftrightarrow>
     TiMapSymbols symbols = Inr symbols \<and>
     inside_one_block img (ts_header_address symbols) SERVICE_HEADER_WORDS \<and>
     list_all (\<lambda>a. ts_immutable_start symbols \<le> a \<and> a < ts_immutable_end_exclusive symbols)
       [ts_boot_init_address symbols, ts_boot_handle_command_address symbols, ts_confirm_current_image_address symbols] \<and>
     ranges_disjoint (mutable_ranges symbols) \<and>
     list_all (\<lambda>(s, e). e \<le> ts_immutable_start symbols \<or> ts_immutable_end_exclusive symbols \<le> s)
       (mutable_ranges symbols) \<and>
     ts_header_address symbols + 28 \<le> 0xFFFFFFFF \<and> ts_publish_state_address symbols + 2 \<le> 0xFFFFFFFF"

lemma patch_service_memory:
  assumes "image_wf img" "service_layout_ok img symbols" "u32 capabilities"
  shows "\<exists>img' immutable crc header. patch_flash_service_image img symbols capabilities = Inr img' \<and> image_wf img' \<and>
    fi_entry_point img' = fi_entry_point img \<and>
    cells (ts_immutable_start symbols) immutable = (\<lambda>x.
      if ts_immutable_start symbols \<le> x \<and> x < ts_immutable_end_exclusive symbols
      then Some (case image_cells (fi_blocks img) x of None \<Rightarrow> 0xFFFF | Some w \<Rightarrow> w) else None) \<and>
    int (length immutable) = ts_immutable_end_exclusive symbols - ts_immutable_start symbols \<and>
    crc32_words immutable = Inr crc \<and> u32 crc \<and>
    crc32_words (header_list symbols capabilities crc) = Inr header \<and> u32 header \<and>
    image_cells (fi_blocks img') = ((image_cells (fi_blocks img) ++ cells (ts_immutable_start symbols) immutable)
      ++ cells (ts_publish_state_address symbols) [SERVICE_PUBLISH_INVALID, SERVICE_PUBLISH_INVALID])
      ++ cells (ts_header_address symbols) (header_list symbols capabilities crc @ [lo16 header, hi16 header])"
proof -
  let ?s = "ts_immutable_start symbols" and ?e = "ts_immutable_end_exclusive symbols"
  let ?p = "ts_publish_state_address symbols" and ?h = "ts_header_address symbols"
  let ?inv = "[SERVICE_PUBLISH_INVALID, SERVICE_PUBLISH_INVALID]"
  have ok: "TiMapSymbols symbols = Inr symbols" "inside_one_block img ?h 28" "?h + 28 \<le> 0xFFFFFFFF" "?p + 2 \<le> 0xFFFFFFFF"
    using assms(2) by (simp_all add: service_layout_ok_def SERVICE_HEADER_WORDS_def)
  have u: "0 \<le> ?s" "?s < ?e" "?e \<le> 0xFFFFFFFF" "0 \<le> ?p" "0 \<le> ?h"
    using TiMapSymbols_Inr [OF ok(1)] by (simp_all add: u32_def)
  have sep: "?h + 28 \<le> ?s \<or> ?e \<le> ?h" "?h + 28 \<le> ?p \<or> ?p + 2 \<le> ?h"
    using assms(2) mutable_apart [of symbols] set_mutable_ranges [of symbols]
    by (auto simp: service_layout_ok_def list_all_iff range_apart_def SERVICE_HEADER_WORDS_def)
  obtain ws where ws: "dense_immutable img ?s ?e = Inr \<lparr>fb_address = ?s, fb_words = ws\<rparr>" "words16 ws" "ws \<noteq> []"
    "int (length ws) = ?e - ?s" "cells ?s ws = (\<lambda>x. if ?s \<le> x \<and> x < ?e
      then Some (case image_cells (fi_blocks img) x of None \<Rightarrow> 0xFFFF | Some w \<Rightarrow> w) else None)"
    using dense_immutable_spec [OF assms(1), of ?s ?e] u by auto
  have end1: "?s + int (length ws) = ?e"
    using ws(4) by simp
  obtain i1 where i1: "replace_words img ?s ws = Inr i1" "image_wf i1" "fi_entry_point i1 = fi_entry_point img"
    "image_cells (fi_blocks i1) = image_cells (fi_blocks img) ++ cells ?s ws"
    "set (fi_blocks i1) = set (concat (map (pieces ?s (?s + int (length ws))) (fi_blocks img))) \<union> {\<lparr>fb_address = ?s, fb_words = ws\<rparr>}"
    using replace_words_spec [OF assms(1) ws(3,2) u(1)] end1 u(3) by auto
  have in1: "inside_one_block i1 ?h 28"
    using sep(1) assms(1) ws(3) by (intro inside_replaced [OF ok(2) _ _ _ _ i1(5)]) (simp_all add: end1 image_wf_def)
  have inv: "words16 ?inv"
    by (simp add: SERVICE_PUBLISH_INVALID_def u_simps)
  obtain i2 where i2: "replace_words i1 ?p ?inv = Inr i2" "image_wf i2" "fi_entry_point i2 = fi_entry_point img"
    "image_cells (fi_blocks i2) = image_cells (fi_blocks i1) ++ cells ?p ?inv"
    "set (fi_blocks i2) = set (concat (map (pieces ?p (?p + int (length ?inv))) (fi_blocks i1))) \<union> {\<lparr>fb_address = ?p, fb_words = ?inv\<rparr>}"
    using replace_words_spec [OF i1(2) _ inv u(4)] ok(4) i1(3) by auto
  have in2: "inside_one_block i2 ?h 28"
    using sep(2) i1(2) by (intro inside_replaced [OF in1 _ _ _ _ i2(5)]) (auto simp: image_wf_def)
  let ?crc = "crc32_bytes (le_bytes ws)"
  have crc: "crc32_words ws = Inr ?crc"
    by (rule crc32_words_Inr [OF ws(2)])
  note header = header_words_Inr [OF ok(1) assms(3) crc32_u32 [of "le_bytes ws"]]
  let ?header = "header_list symbols capabilities ?crc"
  let ?hcrc = "crc32_bytes (le_bytes ?header)"
  let ?words = "?header @ [lo16 ?hcrc, hi16 ?hcrc]"
  have hcrc: "crc32_words ?header = Inr ?hcrc" "low_high ?hcrc = Inr [lo16 ?hcrc, hi16 ?hcrc]"
    using crc32_words_Inr [OF header(3)] by (simp_all add: low_high_Inr)
  have words: "length ?words = 28" "words16 ?words" "?words \<noteq> []"
    using header(2,3) by simp_all
  obtain i3 where i3: "replace_words i2 ?h ?words = Inr i3" "image_wf i3" "fi_entry_point i3 = fi_entry_point i2"
    "image_cells (fi_blocks i3) = image_cells (fi_blocks i2) ++ cells ?h ?words"
    using replace_words_spec [OF i2(2) words(3,2) u(5)] ok(3) words(1) by auto
  have "patch_words i2 ?h ?words = Inr i3"
    using i3(1) in2 words(1) by (simp add: patch_words_def)
  moreover have "list_all (\<lambda>a. ?s \<le> a \<and> a < ?e)
      [ts_boot_init_address symbols, ts_boot_handle_command_address symbols, ts_confirm_current_image_address symbols]"
    "ranges_disjoint (mutable_ranges symbols)"
    "\<not> list_ex (\<lambda>(s, e). s < ?e \<and> e > ?s) (mutable_ranges symbols)"
    using assms(2) by (auto simp: service_layout_ok_def list_all_iff list_ex_iff)
  ultimately have "patch_flash_service_image img symbols capabilities = Inr i3"
    using ok(2) ws(1) i1(1) i2(1) crc header(1) hcrc
    by (simp add: patch_flash_service_image_def SERVICE_HEADER_WORDS_def)
  then show ?thesis
    using i1 i2 i3 ws crc hcrc by (intro exI [of _ i3] exI [of _ ws] exI [of _ ?crc] exI [of _ ?hcrc]) simp
qed

lemma layout_separate:
  assumes "service_layout_ok img symbols"
  shows "ts_header_address symbols + 28 \<le> ts_immutable_start symbols \<or> ts_immutable_end_exclusive symbols \<le> ts_header_address symbols"
    and "ts_publish_state_address symbols + 2 \<le> ts_immutable_start symbols \<or> ts_immutable_end_exclusive symbols \<le> ts_publish_state_address symbols"
    and "ts_header_address symbols + 28 \<le> ts_publish_state_address symbols \<or> ts_publish_state_address symbols + 2 \<le> ts_header_address symbols"
  using assms mutable_apart [of symbols] set_mutable_ranges [of symbols]
  by (auto simp: service_layout_ok_def list_all_iff range_apart_def SERVICE_HEADER_WORDS_def)

lemma header_fields:
  assumes "header = header_list symbols capabilities crc @ [lo16 hcrc, hi16 hcrc]"
  shows "map (\<lambda>i. join_u32 (header ! i) (header ! Suc i)) [0, 6, 8, 10, 12, 14, 16, 18, 20, 24, 26] =
      [SERVICE_HEADER_MAGIC, ts_immutable_start symbols, ts_immutable_end_exclusive symbols,
       ts_publish_state_address symbols, ts_runtime_state_address symbols, ts_app_export_address symbols,
       ts_boot_init_address symbols, ts_boot_handle_command_address symbols, capabilities, crc, hcrc]"
    and "map ((!) header) [2, 3, 4, 5, 22, 23] =
      [SERVICE_HEADER_VERSION, SERVICE_HEADER_WORDS, SERVICE_ABI_MAJOR, SERVICE_ABI_MINOR, SERVICE_IMAGE_CRC32_IEEE, 0]"
    and "take 26 header = header_list symbols capabilities crc"
  unfolding assms by (simp_all add: header_list_def eval_nat_numeral)

lemma cells_hit: "a \<le> x \<Longrightarrow> x < a + int (length ws) \<Longrightarrow> (m ++ cells a ws) x = cells a ws x"
  by (simp add: map_add_def cells_def)

lemma cells_miss: "x < a \<or> a + int (length ws) \<le> x \<Longrightarrow> (m ++ cells a ws) x = m x"
  by (auto simp: map_add_def cells_def)

lemma three_layers:
  assumes "m = ((m0 ++ cells s ws) ++ cells p us) ++ cells h hs"
    and "int (length ws) = e - s" "int (length us) = 2" "int (length hs) = 28"
    and "h + 28 \<le> s \<or> e \<le> h" "p + 2 \<le> s \<or> e \<le> p" "h + 28 \<le> p \<or> p + 2 \<le> h"
  shows "s \<le> x \<Longrightarrow> x < e \<Longrightarrow> m x = cells s ws x"
    and "p \<le> x \<Longrightarrow> x < p + 2 \<Longrightarrow> m x = cells p us x"
    and "h \<le> x \<Longrightarrow> x < h + 28 \<Longrightarrow> m x = cells h hs x"
    and "\<not> (s \<le> x \<and> x < e) \<Longrightarrow> \<not> (h \<le> x \<and> x < h + 28) \<Longrightarrow> \<not> (p \<le> x \<and> x < p + 2) \<Longrightarrow> m x = m0 x"
proof -
  assume x: "s \<le> x" "x < e"
  then have "x < h \<or> h + int (length hs) \<le> x" "x < p \<or> p + int (length us) \<le> x" "x < s + int (length ws)"
    using assms(2-6) by linarith+
  then show "m x = cells s ws x"
    using x(1) by (simp only: assms(1) cells_miss cells_hit)
next
  assume x: "p \<le> x" "x < p + 2"
  then have "x < h \<or> h + int (length hs) \<le> x" "x < p + int (length us)"
    using assms(3,4,7) by linarith+
  then show "m x = cells p us x"
    using x(1) by (simp only: assms(1) cells_miss cells_hit)
next
  assume "h \<le> x" "x < h + 28"
  then show "m x = cells h hs x"
    using assms(4) by (simp only: assms(1) cells_hit)
next
  assume "\<not> (s \<le> x \<and> x < e)" "\<not> (h \<le> x \<and> x < h + 28)" "\<not> (p \<le> x \<and> x < p + 2)"
  then have "x < h \<or> h + int (length hs) \<le> x" "x < p \<or> p + int (length us) \<le> x" "x < s \<or> s + int (length ws) \<le> x"
    using assms(2-4) by linarith+
  then show "m x = m0 x"
    by (simp only: assms(1) cells_miss)
qed

text \<open>
  C27.  A patched service describes itself.  For every image of the linker whose symbols pass the checks, the
  patch succeeds, and in the memory of the result the header gives magic, version, the addresses of the map
  file and the capabilities; its image CRC is that of the words in the immutable range as they stand there and
  its header CRC that of its first 26 words; the publish state is invalid; the immutable range is the image's
  with 0xFFFF in the gaps, and everything else is unchanged.
\<close>

theorem service_image_describes_itself:
  assumes "image_wf img" "service_layout_ok img symbols" "u32 capabilities"
  shows "\<exists>img' m header immutable. patch_flash_service_image img symbols capabilities = Inr img' \<and> image_wf img' \<and>
    m = image_cells (fi_blocks img') \<and> header = memory_range m (ts_header_address symbols) 28 \<and>
    immutable = memory_range m (ts_immutable_start symbols)
      (nat (ts_immutable_end_exclusive symbols - ts_immutable_start symbols)) \<and>
    map (\<lambda>i. join_u32 (header ! i) (header ! Suc i)) [0, 6, 8, 10, 12, 14, 16, 18, 20] =
      [SERVICE_HEADER_MAGIC, ts_immutable_start symbols, ts_immutable_end_exclusive symbols,
       ts_publish_state_address symbols, ts_runtime_state_address symbols, ts_app_export_address symbols,
       ts_boot_init_address symbols, ts_boot_handle_command_address symbols, capabilities] \<and>
    map ((!) header) [2, 3, 4, 5, 22, 23] =
      [SERVICE_HEADER_VERSION, SERVICE_HEADER_WORDS, SERVICE_ABI_MAJOR, SERVICE_ABI_MINOR, SERVICE_IMAGE_CRC32_IEEE, 0] \<and>
    crc32_words immutable = Inr (join_u32 (header ! 24) (header ! 25)) \<and>
    crc32_words (take 26 header) = Inr (join_u32 (header ! 26) (header ! 27)) \<and>
    memory_range m (ts_publish_state_address symbols) 2 = [SERVICE_PUBLISH_INVALID, SERVICE_PUBLISH_INVALID] \<and>
    (\<forall>x. if ts_immutable_start symbols \<le> x \<and> x < ts_immutable_end_exclusive symbols
      then m x = Some (case image_cells (fi_blocks img) x of None \<Rightarrow> 0xFFFF | Some w \<Rightarrow> w)
      else ts_header_address symbols \<le> x \<and> x < ts_header_address symbols + 28 \<or>
        ts_publish_state_address symbols \<le> x \<and> x < ts_publish_state_address symbols + 2 \<or>
        m x = image_cells (fi_blocks img) x)"
proof -
  let ?s = "ts_immutable_start symbols" and ?e = "ts_immutable_end_exclusive symbols"
  let ?p = "ts_publish_state_address symbols" and ?h = "ts_header_address symbols"
  let ?inv = "[SERVICE_PUBLISH_INVALID, SERVICE_PUBLISH_INVALID]"
  obtain img' ws crc hcrc where patch: "patch_flash_service_image img symbols capabilities = Inr img'" "image_wf img'"
    and ws: "cells ?s ws = (\<lambda>x. if ?s \<le> x \<and> x < ?e
        then Some (case image_cells (fi_blocks img) x of None \<Rightarrow> 0xFFFF | Some w \<Rightarrow> w) else None)" "int (length ws) = ?e - ?s"
    and crc: "crc32_words ws = Inr crc" "crc32_words (header_list symbols capabilities crc) = Inr hcrc" "u32 crc"
    and m: "image_cells (fi_blocks img') = ((image_cells (fi_blocks img) ++ cells ?s ws) ++ cells ?p ?inv)
      ++ cells ?h (header_list symbols capabilities crc @ [lo16 hcrc, hi16 hcrc])"
    using patch_service_memory [OF assms] by blast
  let ?m = "image_cells (fi_blocks img')" and ?w = "header_list symbols capabilities crc @ [lo16 hcrc, hi16 hcrc]"
  have w: "length ?w = 28"
    by (simp add: header_list_def)
  have imm: "?m x = cells ?s ws x" if "?s \<le> x" "x < ?e" for x
    using three_layers(1) [OF m ws(2) _ _ layout_separate [OF assms(2)], of x] that w by simp
  have pub: "?m x = cells ?p ?inv x" if "?p \<le> x" "x < ?p + 2" for x
    using three_layers(2) [OF m ws(2) _ _ layout_separate [OF assms(2)], of x] that w by simp
  have hdr: "?m x = cells ?h ?w x" if "?h \<le> x" "x < ?h + 28" for x
    using three_layers(3) [OF m ws(2) _ _ layout_separate [OF assms(2)], of x] that w by simp
  have header: "memory_range ?m ?h 28 = ?w"
    unfolding w [symmetric] by (rule memory_range_cells) (use hdr w in simp)
  have n: "nat (?e - ?s) = length ws"
    using ws(2) by simp
  have immutable: "memory_range ?m ?s (nat (?e - ?s)) = ws"
    unfolding n using ws(2) by (intro memory_range_cells) (simp add: imm)
  have publish: "memory_range ?m ?p 2 = ?inv"
    using memory_range_cells [of ?p ?inv ?m] pub by (simp add: numeral_2_eq_2)
  have other: "if ?s \<le> x \<and> x < ?e then ?m x = Some (case image_cells (fi_blocks img) x of None \<Rightarrow> 0xFFFF | Some w \<Rightarrow> w)
      else ?h \<le> x \<and> x < ?h + 28 \<or> ?p \<le> x \<and> x < ?p + 2 \<or> ?m x = image_cells (fi_blocks img) x" for x
  proof (cases "?s \<le> x \<and> x < ?e")
    case True
    then show ?thesis
      using imm [of x] ws(1) by simp
  next
    case False
    then show ?thesis
      using three_layers(4) [OF m ws(2) _ _ layout_separate [OF assms(2)], of x] w by auto
  qed
  note fields = header_fields [OF refl, of symbols capabilities crc hcrc]
  have "crc32_words ws = Inr (join_u32 (?w ! 24) (?w ! 25))"
    and "crc32_words (take 26 ?w) = Inr (join_u32 (?w ! 26) (?w ! 27))"
    using crc(1,2) fields by simp_all
  then show ?thesis
    using patch fields(1,2) other publish header immutable
    by (intro exI [of _ img'] exI [of _ ?m] exI [of _ ?w] exI [of _ ws]) simp
qed

definition example_service_image :: firmware_image where
  "example_service_image =
     \<lparr>fi_source_out_file = ''service.out'', fi_generated_hex_file = ''service.txt'', fi_entry_point = 0x10080,
      fi_blocks = [\<lparr>fb_address = 0x10000, fb_words = replicate 32 0\<rparr>, \<lparr>fb_address = 0x10080, fb_words = [7, 8, 9]\<rparr>],
      fi_total_words = 35, fi_address_ranges = [block_range \<lparr>fb_address = 0x10000, fb_words = replicate 32 0\<rparr>,
        block_range \<lparr>fb_address = 0x10080, fb_words = [7, 8, 9]\<rparr>],
      fi_file_checksum = '''', fi_format_info = []\<rparr>"

definition example_service_symbols :: ti_map_symbols where
  "example_service_symbols =
     \<lparr>ts_header_address = 0x10002, ts_publish_state_address = 0x10040, ts_runtime_state_address = 0x10050,
      ts_app_export_address = 0x10080, ts_immutable_start = 0x10080, ts_immutable_end_exclusive = 0x10084,
      ts_boot_init_address = 0x10081, ts_boot_handle_command_address = 0x10082,
      ts_confirm_current_image_address = 0x10083\<rparr>"

theorem service_image_describes_itself_witness:
  "\<exists>img'. patch_flash_service_image example_service_image example_service_symbols 7 = Inr img' \<and> image_wf img' \<and>
     memory_range (image_cells (fi_blocks img')) 0x10040 2 = [SERVICE_PUBLISH_INVALID, SERVICE_PUBLISH_INVALID]"
proof -
  have "image_wf example_service_image"
    by (simp add: image_wf_def example_service_image_def u32_def block_wf_def blocks_before_def fb_end_exclusive_def
        u16_def eval_nat_numeral)
  moreover have "service_layout_ok example_service_image example_service_symbols"
    by (simp add: service_layout_ok_def example_service_image_def example_service_symbols_def TiMapSymbols_def
        inside_one_block_def mutable_ranges_def SERVICE_HEADER_WORDS_def fb_end_exclusive_def)
  ultimately show ?thesis
    using service_image_describes_itself [of example_service_image example_service_symbols 7]
    by (auto simp: u32_def example_service_symbols_def)
qed

end
