(* ===== verification/Serial_Io.thy ===== *)
theory Serial_Io
  imports Transport Io_Device
begin

text \<open>
  The serial port as an IO device of the older stack (\<open>io/serial_device.py\<close>).  No caller passes an event to
  \<open>wait_slave\<close>, which is left out (as is the error of \<open>input_bytes_pending\<close> on a closed
  device, for which it is \<open>None\<close>); without a timeout its loop has no deadline, and \<open>patience\<close> is the number of
  attempts after which the call counts as one that does not return.
\<close>

record serial_device_config =
  sdc_port :: string
  sdc_baudrate :: int
  sdc_autobaud_interval_ms :: int
  sdc_post_autobaud_delay_ms :: int

definition SerialIoDevice_check :: "serial_device_config \<Rightarrow> unit res" where
  "SerialIoDevice_check config =
     (if sdc_port config = [] then Inl (ValueError ''serial port must not be empty'')
      else if sdc_baudrate config \<le> 0 then Inl (ValueError ''baudrate must be positive'')
      else if sdc_autobaud_interval_ms config \<le> 0
      then Inl (ValueError ''autobaud_interval_ms must be positive'')
      else if sdc_post_autobaud_delay_ms config < 0
      then Inl (ValueError ''post_autobaud_delay_ms must be non-negative'')
      else Inr ())"

record 'p serial_device =
  sio_port :: 'p
  sio_open :: bool

definition on_device_port :: "('p, 'a) sm \<Rightarrow> ('p serial_device, 'a) sm" where
  "on_device_port m s = (case m (sio_port s) of (r, p) \<Rightarrow> (r, s\<lparr>sio_port := p\<rparr>))"

text \<open>\<open>self._serial\<close> is assigned before the control lines are set.\<close>

definition sio_do_open :: "'p pyserial \<Rightarrow> serial_device_config \<Rightarrow> ('p serial_device, unit) sm" where
  "sio_do_open ps config =
     bindM (getM sio_open) (\<lambda>opened. if opened then returnM () else
     wrap_errors IoDeviceError (''failed to open serial port '' @ sdc_port config @ '': '')
       (thenM (on_device_port (py_create ps (sdc_port config) (sdc_baudrate config) 0 1000))
       (thenM (modM (\<lambda>s. s\<lparr>sio_open := True\<rparr>))
       (thenM (on_device_port (py_set_dtr ps False)) (on_device_port (py_set_rts ps False))))))"

definition sio_require_open :: "('p serial_device, unit) sm" where
  "sio_require_open = bindM (getM sio_open) (\<lambda>opened.
     if opened then returnM () else raiseM (IoDeviceNotOpenError ''serial device is not open''))"

text \<open>\<open>try: serial_port.timeout = \<dots> except Exception: pass\<close>\<close>

definition sio_set_timeout :: "'p pyserial \<Rightarrow> int \<Rightarrow> ('p serial_device, unit) sm" where
  "sio_set_timeout ps timeout_ms =
     catchM (on_device_port (py_set_timeout ps (max 0 timeout_ms)))
       (\<lambda>e. if is_exception e then returnM () else raiseM e)"

text \<open>One attempt: whether the echo has come.  An empty or a foreign answer makes the loop go on.\<close>

definition sio_attempt :: "'p pyserial \<Rightarrow> int \<Rightarrow> ('p serial_device, bool) sm" where
  "sio_attempt ps timeout_ms =
     catchM
       (thenM (on_device_port (py_write ps [65])) (thenM (on_device_port (py_flush ps))
         (thenM (sio_set_timeout ps timeout_ms)
           (bindM (on_device_port (py_read ps 1)) (\<lambda>response. returnM (response = [65]))))))
       (\<lambda>e. case e of IoTimeoutError _ \<Rightarrow> raiseM e
          | _ \<Rightarrow> raiseM (if is_exception e then IoDeviceError (''SCI autobaud handshake failed: '' @ exc_msg e) else e))"

fun sio_wait_loop :: "'p pyserial \<Rightarrow> int \<Rightarrow> exc \<Rightarrow> int list \<Rightarrow> ('p serial_device, unit) sm" where
  "sio_wait_loop ps interval at_end [] = raiseM at_end"
| "sio_wait_loop ps interval at_end (remaining # rest) =
     bindM (sio_attempt ps (min interval remaining)) (\<lambda>echo.
       if echo then returnM () else sio_wait_loop ps interval at_end rest)"

definition sio_wait_slave ::
  "'p pyserial \<Rightarrow> (int \<Rightarrow> int list) \<Rightarrow> nat \<Rightarrow> serial_device_config \<Rightarrow> int option \<Rightarrow> ('p serial_device, unit) sm" where
  "sio_wait_slave ps waits patience config timeout_ms =
     thenM sio_require_open
       (case timeout_ms of
          None \<Rightarrow> sio_wait_loop ps (sdc_autobaud_interval_ms config) Diverges
            (replicate patience (sdc_autobaud_interval_ms config))
        | Some t \<Rightarrow> thenM (liftM (validate_timeout t))
            (sio_wait_loop ps (sdc_autobaud_interval_ms config)
              (IoTimeoutError ''SCI autobaud handshake timed out'') (waits t)))"

fun sio_read_loop :: "'p pyserial \<Rightarrow> int list \<Rightarrow> int list \<Rightarrow> ('p serial_device, int list) sm" where
  "sio_read_loop ps data [] =
     (if length data < 2 then raiseM (IoTimeoutError ''serial word read timed out'') else returnM data)"
| "sio_read_loop ps data (remaining # rest) =
     (if length data < 2
      then thenM (sio_set_timeout ps remaining)
        (bindM (wrap_errors IoDeviceError ''serial read failed: ''
            (on_device_port (py_read ps (2 - int (length data))))) (\<lambda>chunk.
          sio_read_loop ps (data @ chunk) rest))
      else returnM data)"

definition sio_read_word :: "'p pyserial \<Rightarrow> (int \<Rightarrow> int list) \<Rightarrow> int \<Rightarrow> ('p serial_device, int) sm" where
  "sio_read_word ps waits timeout_ms =
     thenM sio_require_open (thenM (liftM (validate_timeout timeout_ms))
       (bindM (sio_read_loop ps [] (waits timeout_ms)) (\<lambda>data.
         returnM (data ! 0 OR push_bit 8 (data ! 1)))))"

definition sio_read_byte :: "'p pyserial \<Rightarrow> int \<Rightarrow> ('p serial_device, int) sm" where
  "sio_read_byte ps timeout_ms =
     thenM sio_require_open (thenM (liftM (validate_timeout timeout_ms)) (thenM (sio_set_timeout ps timeout_ms)
       (bindM (wrap_errors IoDeviceError ''serial byte read failed: '' (on_device_port (py_read ps 1))) (\<lambda>data.
         case data of [] \<Rightarrow> raiseM (IoTimeoutError ''serial byte read timed out'') | b # _ \<Rightarrow> returnM b))))"

definition sio_read_available :: "'p pyserial \<Rightarrow> ('p serial_device, int list) sm" where
  "sio_read_available ps =
     thenM sio_require_open (bindM (getM (\<lambda>s. py_in_waiting ps (sio_port s))) (\<lambda>pending.
       let n = (case pending of None \<Rightarrow> 0 | Some n \<Rightarrow> n) in
       if n \<le> 0 then returnM []
       else wrap_errors IoDeviceError ''serial read failed: '' (on_device_port (py_read ps n))))"

definition sio_clear_input :: "'p pyserial \<Rightarrow> ('p serial_device, unit) sm" where
  "sio_clear_input ps = thenM sio_require_open
     (wrap_errors IoDeviceError ''failed to clear serial buffers: '' (on_device_port (py_reset_input_buffer ps)))"

text \<open>An \<open>IoDeviceError\<close> and its subclasses pass.\<close>

definition is_io_error :: "exc \<Rightarrow> bool" where
  "is_io_error e \<longleftrightarrow> (case e of IoDeviceError _ \<Rightarrow> True | IoTimeoutError _ \<Rightarrow> True | IoDeviceNotOpenError _ \<Rightarrow> True | _ \<Rightarrow> False)"

definition sio_write_bytes :: "'p pyserial \<Rightarrow> int list \<Rightarrow> ('p serial_device, int) sm" where
  "sio_write_bytes ps data =
     thenM sio_require_open
     (bindM (catchM (on_device_port (bindM (py_write ps data) (\<lambda>written. thenM (py_flush ps) (returnM written))))
         (\<lambda>e. raiseM (if is_io_error e \<or> \<not> is_exception e then e
            else IoDeviceError (''serial byte write failed: '' @ exc_msg e)))) (\<lambda>written.
      let n = (case written of None \<Rightarrow> int (length data) | Some n \<Rightarrow> n) in
      if n \<noteq> int (length data) then raiseM (IoDeviceError ''serial write accepted too few bytes'') else returnM n))"

definition sio_write_word :: "'p pyserial \<Rightarrow> int \<Rightarrow> ('p serial_device, unit) sm" where
  "sio_write_word ps word =
     bindM (liftM (validate_word word)) (\<lambda>v. thenM (sio_write_bytes ps [v AND 0xFF, drop_bit 8 v]) (returnM ()))"

definition sio_input_bytes_pending :: "'p pyserial \<Rightarrow> 'p serial_device \<Rightarrow> int option" where
  "sio_input_bytes_pending ps s = (if sio_open s then py_in_waiting ps (sio_port s) else None)"

text \<open>The reference to the port is dropped first.\<close>

definition sio_close :: "'p pyserial \<Rightarrow> ('p serial_device, unit) sm" where
  "sio_close ps = bindM (getM sio_open) (\<lambda>opened.
     thenM (modM (\<lambda>s. s\<lparr>sio_open := False\<rparr>))
       (if opened then wrap_errors IoDeviceError ''failed to close serial port: '' (on_device_port (py_close ps))
        else returnM ()))"

definition serial_io ::
  "'p pyserial \<Rightarrow> (int \<Rightarrow> int list) \<Rightarrow> nat \<Rightarrow> serial_device_config \<Rightarrow> 'p serial_device pc_io_device" where
  "serial_io ps waits patience config =
     \<lparr>io_open = sio_do_open ps config, io_wait_slave = sio_wait_slave ps waits patience config,
      io_clear_input = sio_clear_input ps, io_write_bytes = sio_write_bytes ps,
      io_read_available = sio_read_available ps, io_input_bytes_pending = sio_input_bytes_pending ps,
      io_close = sio_close ps, io_polls = (\<lambda>timeout_ms. length (waits timeout_ms))\<rparr>"

section \<open>A failed open\<close>

text \<open>
  C14.  A failed open is taken for an open device.  When the port can be created but one of its two control
  lines cannot be set - DTR, or RTS after DTR was set - \<open>open\<close> raises \<open>IoDeviceError\<close> and leaves \<open>_serial\<close>
  assigned: the next \<open>open\<close> returns at once without setting the lines, and the device counts as open.
\<close>

theorem failed_open_counts_as_open:
  assumes "\<not> sio_open s" "py_create ps (sdc_port config) (sdc_baudrate config) 0 1000 (sio_port s) = (Inr (), p)"
    and "py_set_dtr ps False p = (Inl e, p') \<or>
      (\<exists>q. py_set_dtr ps False p = (Inr (), q) \<and> py_set_rts ps False q = (Inl e, p'))"
    and "is_exception e"
  shows "\<exists>s' message. sio_do_open ps config s = (Inl (IoDeviceError message), s') \<and> sio_port s' = p' \<and>
    sio_do_open ps config s' = (Inr (), s') \<and> sio_require_open s' = (Inr (), s')"
  using assms
  by (auto simp: sio_do_open_def sio_require_open_def wrap_errors_def thenM_def bindM_def catchM_def on_device_port_def
      modM_def simp del: append_Cons)

lemma failed_open_counts_as_open_witness:
  "\<exists>s' message. sio_do_open \<lparr>py_create = (\<lambda>_ _ _ _. returnM ()), py_set_dtr = (\<lambda>_. returnM ()),
      py_set_rts = (\<lambda>_. raiseM (OtherError ''SerialException'' ''gone'')), py_set_timeout = (\<lambda>_. returnM ()), py_write = (\<lambda>_. returnM None), py_flush = returnM (),
      py_read = (\<lambda>_. returnM []), py_in_waiting = (\<lambda>_. None), py_reset_input_buffer = returnM (), py_close = returnM ()\<rparr>
    \<lparr>sdc_port = ''COM1'', sdc_baudrate = 115200, sdc_autobaud_interval_ms = 50, sdc_post_autobaud_delay_ms = 100\<rparr>
    \<lparr>sio_port = (), sio_open = False\<rparr> = (Inl (IoDeviceError message), s')"
  using failed_open_counts_as_open [where s = "\<lparr>sio_port = (), sio_open = False\<rparr>" and e = "OtherError ''SerialException'' ''gone''"
      and ps = "\<lparr>py_create = (\<lambda>_ _ _ _. returnM ()), py_set_dtr = (\<lambda>_. returnM ()),
      py_set_rts = (\<lambda>_. raiseM (OtherError ''SerialException'' ''gone'')), py_set_timeout = (\<lambda>_. returnM ()), py_write = (\<lambda>_. returnM None), py_flush = returnM (),
      py_read = (\<lambda>_. returnM []), py_in_waiting = (\<lambda>_. None), py_reset_input_buffer = returnM (), py_close = returnM ()\<rparr>"
      and config = "\<lparr>sdc_port = ''COM1'', sdc_baudrate = 115200, sdc_autobaud_interval_ms = 50, sdc_post_autobaud_delay_ms = 100\<rparr>"]
  by (auto simp: is_exception_def simp del: append_Cons)

end
