(* ===== verification/Cli_Output.thy ===== *)
theory Cli_Output
  imports Op_Discipline
begin

text \<open>
  The outcome of a command of the formal CLI (\<open>cli/output.py\<close>): its exit code and the machine-readable
  envelope; and the interactive confirmation (\<open>cli/confirmation.py\<close>).  Only the text forms
  (\<open>render_human\<close>, the JSON syntax, the prompt) are left out.
\<close>

section \<open>Outcomes\<close>

datatype exit_code =
    EXIT_SUCCESS
  | EXIT_OPERATION_FAILURE
  | EXIT_CLI_USAGE_ERROR
  | EXIT_COMMUNICATION_FAILURE
  | EXIT_CANCELLED
  | EXIT_CONFIRMATION_REQUIRED
  | EXIT_USER_DECLINED
  | EXIT_INTERNAL_ERROR

fun exit_code_value :: "exit_code \<Rightarrow> int" where
  "exit_code_value EXIT_SUCCESS = 0"
| "exit_code_value EXIT_OPERATION_FAILURE = 1"
| "exit_code_value EXIT_CLI_USAGE_ERROR = 2"
| "exit_code_value EXIT_COMMUNICATION_FAILURE = 3"
| "exit_code_value EXIT_CANCELLED = 4"
| "exit_code_value EXIT_CONFIRMATION_REQUIRED = 5"
| "exit_code_value EXIT_USER_DECLINED = 6"
| "exit_code_value EXIT_INTERNAL_ERROR = 7"

record cli_error =
  ce_domain :: string
  ce_code :: string
  ce_message :: string
  ce_details :: "pydict option"

definition CliError :: "string \<Rightarrow> string \<Rightarrow> string \<Rightarrow> cli_error" where
  "CliError area code message =
     \<lparr>ce_domain = area, ce_code = code, ce_message = message, ce_details = None\<rparr>"

record command_outcome =
  co_command :: string
  co_result :: "pydict option"
  co_operation_result :: "operation_result option"
  co_error :: "cli_error option"
  co_exit_code :: "exit_code option"

text \<open>The three ways the code builds an outcome: an operation's result, a result of its own, an error.\<close>

definition outcome_of :: "string \<Rightarrow> operation_result \<Rightarrow> command_outcome" where
  "outcome_of command result =
     \<lparr>co_command = command, co_result = None, co_operation_result = Some result, co_error = None,
      co_exit_code = None\<rparr>"

definition outcome_result :: "string \<Rightarrow> pydict \<Rightarrow> command_outcome" where
  "outcome_result command result =
     \<lparr>co_command = command, co_result = Some result, co_operation_result = None, co_error = None,
      co_exit_code = None\<rparr>"

definition outcome_error :: "string \<Rightarrow> cli_error \<Rightarrow> exit_code \<Rightarrow> command_outcome" where
  "outcome_error command error code =
     \<lparr>co_command = command, co_result = None, co_operation_result = None, co_error = Some error,
      co_exit_code = Some code\<rparr>"

section \<open>Exit codes\<close>

definition operation_exit_code :: "operation_result \<Rightarrow> exit_code" where
  "operation_exit_code r =
     (if or_completion r \<in> {Some CANCELLED, Some COMPLETED_AFTER_CANCEL_REQUEST} then EXIT_CANCELLED
      else if or_ok r \<and> or_completion r = Some SUCCEEDED then EXIT_SUCCESS
      else if (case or_error r of None \<Rightarrow> False | Some e \<Rightarrow> ei_domain e = DOMAIN_COMMUNICATION)
      then EXIT_COMMUNICATION_FAILURE
      else EXIT_OPERATION_FAILURE)"

definition outcome_exit_code :: "command_outcome \<Rightarrow> exit_code" where
  "outcome_exit_code outcome =
     (case co_exit_code outcome of
        Some code \<Rightarrow> code
      | None \<Rightarrow>
          (case co_operation_result outcome of
             Some result \<Rightarrow> operation_exit_code result
           | None \<Rightarrow> if co_error outcome \<noteq> None then EXIT_INTERNAL_ERROR else EXIT_SUCCESS))"

section \<open>The envelope\<close>

text \<open>\<open>_plain\<close> and \<open>operation_result_to_dict\<close>: enumerations by their values, classes as dictionaries.\<close>

fun error_domain_value :: "error_domain \<Rightarrow> string" where
  "error_domain_value DOMAIN_OPERATION = ''operation''"
| "error_domain_value DOMAIN_COMMUNICATION = ''communication''"

fun completion_value :: "completion \<Rightarrow> string" where
  "completion_value SUCCEEDED = ''succeeded''"
| "completion_value FAILED = ''failed''"
| "completion_value CANCELLED = ''cancelled''"
| "completion_value COMPLETED_AFTER_CANCEL_REQUEST = ''completed_after_cancel_request''"

definition opt_val :: "('a \<Rightarrow> pyval) \<Rightarrow> 'a option \<Rightarrow> pyval" where
  "opt_val f v = (case v of None \<Rightarrow> PNone | Some x \<Rightarrow> f x)"

definition plain_error :: "error_info \<Rightarrow> pyval" where
  "plain_error e = PDict
     [(''code'', PStr (ei_code e)), (''message'', PStr (ei_message e)), (''stage'', PStr (ei_stage e)),
      (''recoverable'', PBool (ei_recoverable e)), (''details'', PDict (ei_details e)),
      (''domain'', PStr (error_domain_value (ei_domain e)))]"

definition plain_cancellation :: "cancellation_info \<Rightarrow> pyval" where
  "plain_cancellation c = PDict
     [(''stage'', PStr (ci_stage c)), (''current_words'', PInt (ci_current_words c)),
      (''total_words'', PInt (ci_total_words c)), (''protocol_state_clean'', PBool (ci_protocol_state_clean c)),
      (''outcome_uncertain'', PBool (ci_outcome_uncertain c)),
      (''connection_recovery_required'', PBool (ci_connection_recovery_required c)),
      (''partial_flash_programmed'', PBool (ci_partial_flash_programmed c)),
      (''erase_before_retry_required'', PBool (ci_erase_before_retry_required c)),
      (''service_attached'', opt_val PBool (ci_service_attached c)),
      (''recovery_action'', PStr (ci_recovery_action c))]"

definition operation_result_to_dict :: "operation_result \<Rightarrow> pydict" where
  "operation_result_to_dict r =
     [(''ok'', PBool (or_ok r)), (''operation'', PStr (or_operation r)), (''target'', PStr (or_target r)),
      (''stage'', PStr (or_stage r)), (''summary'', PDict (or_summary r)), (''details'', PDict (or_details r)),
      (''service'', opt_val PDict (or_service r)), (''warning'', opt_val PDict (or_warning r)),
      (''error'', opt_val plain_error (or_error r)),
      (''completion'', opt_val (\<lambda>c. PStr (completion_value c)) (or_completion r)),
      (''cancellation'', opt_val plain_cancellation (or_cancellation r))]"

definition simple_error :: "string \<Rightarrow> string \<Rightarrow> string \<Rightarrow> pydict" where
  "simple_error area code message =
     [(''domain'', PStr area), (''code'', PStr code), (''message'', PStr message)]"

definition envelope_error :: "command_outcome \<Rightarrow> pyval" where
  "envelope_error outcome =
     (case co_error outcome of
        Some e \<Rightarrow> PDict (simple_error (ce_domain e) (ce_code e) (ce_message e) @
          (case ce_details e of None \<Rightarrow> [] | Some d \<Rightarrow> [(''details'', PDict d)]))
      | None \<Rightarrow>
          (case Option.bind (co_operation_result outcome) or_error of
             Some e \<Rightarrow> plain_error e
           | None \<Rightarrow>
               if (case co_operation_result outcome of
                     None \<Rightarrow> False
                   | Some r \<Rightarrow> or_completion r \<in> {Some CANCELLED, Some COMPLETED_AFTER_CANCEL_REQUEST})
               then PDict (simple_error ''cli'' ''CANCELLED'' ''command cancelled cooperatively'')
               else PDict (simple_error ''internal'' ''INTERNAL_ERROR'' ''command failed without error details'')))"

definition json_envelope :: "command_outcome \<Rightarrow> pydict" where
  "json_envelope outcome =
     (let code = outcome_exit_code outcome;
          success = (code = EXIT_SUCCESS);
          result = (case co_result outcome of
            Some r \<Rightarrow> Some r
          | None \<Rightarrow> map_option operation_result_to_dict (co_operation_result outcome)) in
      [(''schema_version'', PInt 1), (''command'', PStr (co_command outcome)), (''success'', PBool success),
       (''exit_code'', PInt (exit_code_value code))] @
      (case result of None \<Rightarrow> [] | Some r \<Rightarrow> [(''result'', PDict r)]) @
      (if success then [] else [(''error'', envelope_error outcome)]))"

section \<open>Confirmation\<close>

datatype confirmation_decision = APPROVED | DECLINED | CONFIRMATION_REQUIRED

definition lower_char :: "char \<Rightarrow> char" where
  "lower_char c = (let n = of_char c :: int in if 65 \<le> n \<and> n \<le> 90 then char_of (n + 32) else c)"

definition strip_blank :: "string \<Rightarrow> string" where
  "strip_blank s =
     (let blank = (\<lambda>c. (of_char c :: int) \<in> {9, 10, 11, 12, 13, 28, 29, 30, 31, 32}) in
      rev (dropWhile blank (rev (dropWhile blank s))))"

text \<open>\<open>is_tty\<close> and \<open>line\<close>: what standard input is and the line it answers.\<close>

definition request_confirmation :: "bool \<Rightarrow> bool \<Rightarrow> string \<Rightarrow> confirmation_decision" where
  "request_confirmation assume_yes is_tty line =
     (if assume_yes then APPROVED
      else if \<not> is_tty then CONFIRMATION_REQUIRED
      else if map lower_char (strip_blank line) \<in> {''y'', ''yes''} then APPROVED
      else DECLINED)"

section \<open>Facts\<close>

lemma outcome_exit_simps [simp]:
  "outcome_exit_code (outcome_of command r) = operation_exit_code r"
  "outcome_exit_code (outcome_result command d) = EXIT_SUCCESS"
  "outcome_exit_code (outcome_error command e code) = code"
  by (simp_all add: outcome_exit_code_def outcome_of_def outcome_result_def outcome_error_def)

lemma exit_code_value_0: "exit_code_value code = 0 \<longleftrightarrow> code = EXIT_SUCCESS"
  by (cases code) simp_all

lemma exit_code_value_inject: "exit_code_value a = exit_code_value b \<longleftrightarrow> a = b"
  by (cases a; cases b) simp_all

lemma operation_success:
  "consistent r \<Longrightarrow> operation_exit_code r = EXIT_SUCCESS \<longleftrightarrow> or_completion r = Some SUCCEEDED"
  by (auto simp: operation_exit_code_def consistent_def completion_valid_def split: option.splits completion.splits)

end
