(* ===== verification/Cli_Runtime.thy ===== *)
theory Cli_Runtime
  imports Cli_Output Transport Op_Discovery Service_Image
begin

text \<open>
  The connection of the formal CLI (\<open>cli/runtime.py\<close>): one session at a time, discovered once, and let
  go of in every way a connection can end.

  The state of a session is the world of the operations.  \<open>rt_released\<close> lists the sessions the runtime has
  let go of, in the state they were left in; no code reads it, statements about cleaning up do.
\<close>

section \<open>Configuration\<close>

record cli_config =
  cg_transport :: string
  cg_port :: "string option"
  cg_baud :: int
  cg_timeout_ms :: "int option"

definition CliRuntimeConfig :: "cli_config \<Rightarrow> cli_config res" where
  "CliRuntimeConfig c =
     (if cg_transport c \<noteq> ''serial''
      then Inl (CliConfigurationError ''only the serial transport is supported'')
      else if cg_baud c \<le> 0 then Inl (CliConfigurationError ''baud must be a positive integer'')
      else if (case cg_timeout_ms c of None \<Rightarrow> False | Some t \<Rightarrow> t \<le> 0)
      then Inl (CliConfigurationError ''timeout-ms must be a positive integer'')
      else Inr c)"

definition require_port :: "cli_config \<Rightarrow> string res" where
  "require_port c =
     (case cg_port c of
        None \<Rightarrow> Inl (CliConfigurationError ''--port is required for command execution'')
      | Some port \<Rightarrow>
          if strip_blank port = []
          then Inl (CliConfigurationError ''--port is required for command execution'')
          else Inr port)"

definition serial_config :: "cli_config \<Rightarrow> serial_transport_config res" where
  "serial_config c = bindE (require_port c) (\<lambda>port. Inr (case cg_timeout_ms c of
       None \<Rightarrow> \<lparr>stc_port = port, stc_baudrate = cg_baud c, stc_tx_timeout_ms = 1000, stc_rx_timeout_ms = 1000,
         stc_autobaud_timeout_ms = 5000\<rparr>
     | Some t \<Rightarrow> \<lparr>stc_port = port, stc_baudrate = cg_baud c, stc_tx_timeout_ms = t, stc_rx_timeout_ms = t,
         stc_autobaud_timeout_ms = t\<rparr>))"

section \<open>The runtime\<close>

text \<open>
  What the runtime is given: the transport's methods, the transport factory, the cancellation source, the
  files by name (images as \<open>load_firmware_image\<close> reads them, map files as text) and the confirmation.
\<close>

record 't cli_env =
  ev_transport :: "'t byte_transport"
  ev_make :: "serial_transport_config \<Rightarrow> 't res"
  ev_token :: cancellation
  ev_load :: "string \<Rightarrow> (firmware_image \<times> string option) res"
  ev_map_text :: "string \<Rightarrow> string res"
  ev_confirm :: "pydict \<Rightarrow> confirmation_decision"

text \<open>\<open>rt_prompts\<close> are the calls of the confirmation, \<open>rt_stage\<close> the workflow stage of the progress renderer.\<close>

record 't cli_runtime =
  rt_session :: "'t world option"
  rt_connected :: bool
  rt_discovery_attempted :: bool
  rt_discovery_outcome :: "discovery_outcome option"
  rt_released :: "'t world list"
  rt_prompts :: "pydict list"
  rt_stage :: "(int \<times> int \<times> string) option"

definition CliRuntime :: "'t cli_runtime" where
  "CliRuntime =
     \<lparr>rt_session = None, rt_connected = False, rt_discovery_attempted = False, rt_discovery_outcome = None,
      rt_released = [], rt_prompts = [], rt_stage = None\<rparr>"

definition clear_connection_state :: "'t cli_runtime \<Rightarrow> 't cli_runtime" where
  "clear_connection_state r =
     r\<lparr>rt_session := None, rt_connected := False, rt_discovery_attempted := False,
       rt_discovery_outcome := None,
       rt_released := rt_released r @ (case rt_session r of None \<Rightarrow> [] | Some w \<Rightarrow> [w])\<rparr>"

definition UpgradeSession :: "'t \<Rightarrow> 't world" where
  "UpgradeSession transport = \<lparr>wd_client = BootProtocolClient transport, wd_events = [], wd_asked = 0\<rparr>"

definition on_session :: "('t world, 'a) sm \<Rightarrow> ('t cli_runtime, 'a) sm" where
  "on_session m r =
     (case rt_session r of
        None \<Rightarrow> (Inl (RuntimeError ''CLI session has not been created''), r)
      | Some w \<Rightarrow> (case m w of (x, w') \<Rightarrow> (x, r\<lparr>rt_session := Some w'\<rparr>)))"

definition lifecycle_error :: "exc \<Rightarrow> exc" where
  "lifecycle_error e = (if is_transport_error e then RuntimeCommunicationError (exc_msg e) else e)"

text \<open>The \<open>try\<close> block of \<open>connect\<close>.\<close>

definition create_session :: "'t cli_env \<Rightarrow> cli_config \<Rightarrow> ('t cli_runtime, transport_open_result) sm" where
  "create_session env config =
     bindM (liftM (bindE (serial_config config) (ev_make env))) (\<lambda>transport.
       thenM (modM (\<lambda>r. r\<lparr>rt_session := Some (UpgradeSession transport)\<rparr>))
         (on_session (on_boot_client (session_connect (ev_transport env) (Some (ev_token env))))))"

definition rt_connect :: "'t cli_env \<Rightarrow> cli_config \<Rightarrow> ('t cli_runtime, transport_open_result) sm" where
  "rt_connect env config =
     bindM (getM rt_connected) (\<lambda>connected.
     if connected then raiseM (RuntimeError ''CLI runtime is already connected'')
     else thenM (liftM (require_port config))
       (thenM (modM clear_connection_state)
       (bindM
         (catchM (create_session env config)
           (\<lambda>e. if is_exception e then thenM (modM clear_connection_state) (raiseM (lifecycle_error e)) else raiseM e))
         (\<lambda>result.
            thenM (case tor_status result of
                TRANSPORT_OPENED \<Rightarrow> modM (\<lambda>r. r\<lparr>rt_connected := True\<rparr>)
              | TRANSPORT_CANCELLED \<Rightarrow> modM clear_connection_state)
              (returnM result)))))"

text \<open>The session is cleared first and closed then.\<close>

definition rt_disconnect :: "'t cli_env \<Rightarrow> ('t cli_runtime, unit) sm" where
  "rt_disconnect env r =
     (case rt_session r of
        None \<Rightarrow> (Inr (), clear_connection_state r)
      | Some w \<Rightarrow>
          (case on_boot_client (session_disconnect (ev_transport env)) w of
             (x, w') \<Rightarrow> (case x of Inr _ \<Rightarrow> Inr () | Inl e \<Rightarrow> Inl (lifecycle_error e),
               clear_connection_state (r\<lparr>rt_session := Some w'\<rparr>))))"

text \<open>\<open>try: self.disconnect() except Exception: pass\<close>\<close>

definition disconnect_quiet :: "'t cli_env \<Rightarrow> ('t cli_runtime, unit) sm" where
  "disconnect_quiet env = catchM (rt_disconnect env) (\<lambda>e. if is_exception e then returnM () else raiseM e)"

definition rt_discover :: "'t cli_env \<Rightarrow> ('t cli_runtime, discovery_outcome) sm" where
  "rt_discover env =
     bindM (getM (\<lambda>r. (rt_connected r, rt_discovery_attempted r, rt_discovery_outcome r)))
       (\<lambda>(connected, attempted, known).
     if \<not> connected then raiseM (RuntimeError ''CLI runtime must be connected before discovery'')
     else if attempted then (case known of
         None \<Rightarrow> raiseM (RuntimeError ''CLI discovery completed without an outcome'')
       | Some outcome \<Rightarrow> returnM outcome)
     else thenM (modM (\<lambda>r. r\<lparr>rt_discovery_attempted := True\<rparr>))
       (bindM
         (catchM (on_session (discover_connected_target (ev_transport env)))
           (\<lambda>e. if is_exception e then thenM (disconnect_quiet env) (raiseM (lifecycle_error e)) else raiseM e))
         (\<lambda>outcome. thenM (modM (\<lambda>r. r\<lparr>rt_discovery_outcome := Some outcome\<rparr>))
           (thenM (if \<not> or_ok (do_result outcome) then rt_disconnect env else returnM ())
             (returnM outcome)))))"

definition rt_discovered :: "('t cli_runtime, discovered_target) sm" where
  "rt_discovered =
     bindM (getM (\<lambda>r. Option.bind (rt_discovery_outcome r) do_discovered)) (\<lambda>d. case d of
       None \<Rightarrow> raiseM (RuntimeError ''CLI target discovery has not succeeded'')
     | Some target \<Rightarrow> returnM target)"

section \<open>Contexts\<close>

definition operation_context :: "'t cli_env \<Rightarrow> cancellation option \<Rightarrow> target_profile \<Rightarrow> 't op_context" where
  "operation_context env token target =
     \<lparr>cx_transport = ev_transport env, cx_target = target, cx_progress = True, cx_cancellation = token\<rparr>"

definition flash_operation_context ::
  "'t cli_env \<Rightarrow> cancellation option \<Rightarrow> target_profile \<Rightarrow> prepared_service_image \<Rightarrow> 't flash_context" where
  "flash_operation_context env token target service =
     \<lparr>cx_transport = ev_transport env, cx_target = target, cx_progress = True, cx_cancellation = token,
      cx_service = service, cx_force_service_attach = False\<rparr>"

text \<open>\<open>_cancel_requested\<close>: the cancellation source is asked; the questions are counted with the session's.\<close>

definition cancel_requested :: "'t cli_env \<Rightarrow> ('t cli_runtime, bool) sm" where
  "cancel_requested env r =
     (case rt_session r of
        None \<Rightarrow> (Inr (ev_token env 0), r)
      | Some w \<Rightarrow> (Inr (ev_token env (wd_asked w)), r\<lparr>rt_session := Some (w\<lparr>wd_asked := Suc (wd_asked w)\<rparr>)\<rparr>))"

lemma op_cx_flash [simp]:
  "op_cx (flash_operation_context env token target service) = operation_context env token target"
  by (simp add: op_cx_def flash_operation_context_def operation_context_def)

end
