(* ===== verification/Cli_Commands.thy ===== *)
theory Cli_Commands
  imports Cli_Runtime Op_Memory
begin

text \<open>
  The command handlers of the formal CLI (\<open>cli/commands.py\<close>): the files are prepared, the user is asked where
  the command changes the target, and the operations run; a cancellation is looked for between the steps.

  Arrows in the shown texts are written as hyphens.  The arguments are those of the parser, which is left out.  \<open>observed\<close> says whether the caller passed a
  \<open>run_attempt_observer\<close>.
\<close>

record cli_args =
  ag_command :: string
  ag_flash_service_image :: string
  ag_flash_service_map :: string
  ag_image :: "string option"
  ag_all_app :: bool
  ag_sector_mask :: int
  ag_entry_point :: int
  ag_address :: int
  ag_words :: int
  ag_yes :: bool
  ag_no_run :: bool

type_synonym 't cli_handler = "('t cli_runtime, command_outcome) sm"

section \<open>Outcomes without an operation\<close>

definition cancelled_outcome :: "string \<Rightarrow> string \<Rightarrow> command_outcome" where
  "cancelled_outcome command message =
     outcome_error command (CliError ''cli'' ''CANCELLED'' message) EXIT_CANCELLED"

definition preparation_failure :: "string \<Rightarrow> exc \<Rightarrow> command_outcome" where
  "preparation_failure command e = outcome_error command
     ((CliError ''operation'' ''RESOURCE_PREPARATION_FAILED'' (exc_msg e))
        \<lparr>ce_details := Some [(''exception_type'', PStr (exc_class e))]\<rparr>) EXIT_OPERATION_FAILURE"

definition unsupported :: "string \<Rightarrow> string \<Rightarrow> command_outcome" where
  "unsupported command message =
     outcome_error command (CliError ''operation'' ''UNSUPPORTED_OPERATION'' message) EXIT_OPERATION_FAILURE"

text \<open>
  \<open>(OSError, ValueError, Hex2000Error)\<close>: the operating system's and the converter's errors are named by
  their class.
\<close>

definition is_preparation_error :: "exc \<Rightarrow> bool" where
  "is_preparation_error e \<longleftrightarrow> is_value_error e \<or>
     (case e of
        OtherError cls _ \<Rightarrow> cls \<in> {''OSError'', ''FileNotFoundError'', ''FileExistsError'', ''PermissionError'',
          ''IsADirectoryError'', ''NotADirectoryError'', ''InterruptedError'', ''TimeoutError'',
          ''Hex2000Error'', ''Hex2000NotFoundError'', ''Hex2000ConfigurationError''}
      | _ \<Rightarrow> False)"

text \<open>A preparation whose failure is the outcome.\<close>

definition preparing :: "string \<Rightarrow> 'a res \<Rightarrow> ('a \<Rightarrow> 't cli_handler) \<Rightarrow> 't cli_handler" where
  "preparing command prepared rest =
     (case prepared of
        Inr x \<Rightarrow> rest x
      | Inl e \<Rightarrow> if is_preparation_error e then returnM (preparation_failure command e) else raiseM e)"

definition unless_requested :: "'t cli_env \<Rightarrow> string \<Rightarrow> string \<Rightarrow> 't cli_handler \<Rightarrow> 't cli_handler" where
  "unless_requested env command message rest =
     bindM (cancel_requested env) (\<lambda>c. if c then returnM (cancelled_outcome command message) else rest)"

definition DEFAULT_HEADER_SYMBOL :: string where "DEFAULT_HEADER_SYMBOL = ''g_boot_flash_service_header''"

definition prepare_service :: "'t cli_env \<Rightarrow> cli_args \<Rightarrow> target_profile \<Rightarrow> prepared_service_image res" where
  "prepare_service env args target =
     prepare_service_image target (ev_load env (ag_flash_service_image args))
       (ev_map_text env (ag_flash_service_map args)) DEFAULT_HEADER_SYMBOL SERVICE_REQUIRED_CAPABILITIES"

definition prepare_app :: "'t cli_env \<Rightarrow> string \<Rightarrow> target_profile \<Rightarrow> prepared_flash_image res" where
  "prepare_app env path target = prepare_flash_app_image target (ev_load env path)"

definition prepare_ram :: "'t cli_env \<Rightarrow> string \<Rightarrow> target_profile \<Rightarrow> prepared_ram_image res" where
  "prepare_ram env path target = prepare_ram_app_image target (ev_load env path)"

text \<open>\<open>args.image\<close> of the commands whose parser requires it.\<close>

definition image_path :: "cli_args \<Rightarrow> string" where
  "image_path args = (case ag_image args of None \<Rightarrow> '''' | Some path \<Rightarrow> path)"

section \<open>Confirmation\<close>

definition confirmed :: "'t cli_env \<Rightarrow> cli_args \<Rightarrow> string \<Rightarrow> pydict \<Rightarrow> 't cli_handler \<Rightarrow> 't cli_handler" where
  "confirmed env args command details rest =
     (if ag_yes args then rest
      else thenM (modM (\<lambda>r. r\<lparr>rt_prompts := rt_prompts r @ [details]\<rparr>))
        (case ev_confirm env details of
           APPROVED \<Rightarrow> rest
         | CONFIRMATION_REQUIRED \<Rightarrow> returnM (outcome_error command
             (CliError ''cli'' ''CONFIRMATION_REQUIRED'' ''interactive confirmation is required; pass --yes'')
             EXIT_CONFIRMATION_REQUIRED)
         | DECLINED \<Rightarrow> returnM (outcome_error command
             (CliError ''cli'' ''USER_DECLINED'' ''user declined the operation'') EXIT_USER_DECLINED)))"

definition service_details :: "target_profile \<Rightarrow> cli_args \<Rightarrow> string \<Rightarrow> pydict" where
  "service_details target args command =
     [(''command'', PStr command), (''connected target'', PStr (tp_name target)),
      (''Flash Service image path'', PStr (ag_flash_service_image args)),
      (''Flash Service map path'', PStr (ag_flash_service_map args))]"

definition app_details :: "cli_args \<Rightarrow> prepared_flash_image \<Rightarrow> pydict" where
  "app_details args img =
     [(''App path'', PStr (image_path args)), (''entry point'', PInt (id_entry_point (pf_identity img))),
      (''image CRC'', PInt (id_image_crc32 (pf_identity img))),
      (''image size'', PInt (id_image_size_words (pf_identity img)))]"

section \<open>Running operations\<close>

text \<open>The operation's result is the outcome.\<close>

definition operate :: "'t cli_env \<Rightarrow> string \<Rightarrow> ('t op_context \<Rightarrow> ('t world, operation_result) sm) \<Rightarrow> 't cli_handler" where
  "operate env command operation =
     bindM rt_discovered (\<lambda>d.
     bindM (on_session (operation (operation_context env (Some (ev_token env)) (dt_target_profile d)))) (\<lambda>r.
     returnM (outcome_of command r)))"

definition operate_flash ::
  "'t cli_env \<Rightarrow> string \<Rightarrow> prepared_service_image \<Rightarrow> ('t flash_context \<Rightarrow> ('t world, operation_result) sm) \<Rightarrow> 't cli_handler" where
  "operate_flash env command service operation =
     bindM rt_discovered (\<lambda>d.
     bindM (on_session (operation
       (flash_operation_context env (Some (ev_token env)) (dt_target_profile d) service))) (\<lambda>r.
     returnM (outcome_of command r)))"

text \<open>The first steps of every command that needs the Flash service.\<close>

definition with_service_image ::
  "'t cli_env \<Rightarrow> cli_args \<Rightarrow> string \<Rightarrow> string \<Rightarrow> (target_profile \<Rightarrow> prepared_service_image \<Rightarrow> 't cli_handler) \<Rightarrow> 't cli_handler" where
  "with_service_image env args command first_message rest =
     unless_requested env command first_message
     (bindM rt_discovered (\<lambda>d.
      preparing command (prepare_service env args (dt_target_profile d)) (\<lambda>service.
      unless_requested env command ''cancelled after Flash Service preparation''
      (rest (dt_target_profile d) service))))"

definition with_app_image ::
  "'t cli_env \<Rightarrow> cli_args \<Rightarrow> string \<Rightarrow> target_profile \<Rightarrow> (prepared_flash_image \<Rightarrow> 't cli_handler) \<Rightarrow> 't cli_handler" where
  "with_app_image env args command target rest =
     preparing command (prepare_app env (image_path args) target) (\<lambda>img.
     unless_requested env command ''cancelled after Flash App preparation'' (rest img))"

section \<open>Status commands\<close>

definition opt_or_bug :: "string \<Rightarrow> 'a option \<Rightarrow> 'a res" where
  "opt_or_bug message v = (case v of None \<Rightarrow> Inl (RuntimeError message) | Some x \<Rightarrow> Inr x)"

definition effective_limits :: "'t boot_client \<Rightarrow> pydict res" where
  "effective_limits c =
     bindE (effective_max_payload_words c) (\<lambda>payload.
     bindE (effective_max_data_words c) (\<lambda>data_words.
     bindE (effective_max_write_data_words c) (\<lambda>write_data. Inr
       [(''effective_max_payload_words'', PInt payload), (''effective_max_data_words'', PInt data_words),
        (''effective_max_write_data_words'', PInt write_data)])))"

definition target_summary :: "discovered_target \<Rightarrow> 't boot_client \<Rightarrow> pydict res" where
  "target_summary d c =
     (if bc_device_info c \<noteq> Some (dt_device_info d)
      then Inl (RuntimeError ''discovery cache DeviceInfo does not match the discovered target'')
      else bindE (opt_or_bug ''discovery cache does not contain typed ProtocolInfo'' (bc_protocol_info c)) (\<lambda>p.
        bindE (effective_limits c) (\<lambda>limits. Inr
          [(''target_key'', PStr (dt_target_key d)), (''profile'', PStr (tp_name (dt_target_profile d))),
           (''device_info'', PDict (device_info_dict (dt_device_info d))),
           (''protocol_info'', PDict (protocol_info_dict p)), (''effective_limits'', PDict limits)])))"

definition session_client :: "('t cli_runtime, 't boot_client) sm" where
  "session_client = on_session (getM wd_client)"

definition handle_status :: "'t cli_env \<Rightarrow> 't cli_handler" where
  "handle_status env =
     bindM rt_discovered (\<lambda>d.
     bindM (on_session (op_get_metadata_summary
       (operation_context env (Some (ev_token env)) (dt_target_profile d)))) (\<lambda>result.
     if \<not> or_ok result then returnM (outcome_of ''status'' result)
     else bindM session_client (\<lambda>c.
       bindM (liftM (target_summary d c)) (\<lambda>summary.
       returnM ((outcome_of ''status'' result)\<lparr>co_result := Some
         [(''target'', PDict summary), (''metadata'', PDict (operation_result_to_dict result))]\<rparr>)))))"

definition handle_device_info :: "'t cli_handler" where
  "handle_device_info =
     bindM session_client (\<lambda>c.
     bindM (liftM (opt_or_bug ''discovery cache does not contain typed DeviceInfo'' (bc_device_info c))) (\<lambda>info.
     returnM (outcome_result ''device-info'' (device_info_dict info))))"

definition handle_protocol_info :: "'t cli_handler" where
  "handle_protocol_info =
     bindM session_client (\<lambda>c.
     bindM (liftM (opt_or_bug ''discovery cache does not contain typed ProtocolInfo'' (bc_protocol_info c))) (\<lambda>info.
     bindM (liftM (effective_limits c)) (\<lambda>limits.
     returnM (outcome_result ''protocol-info'' (protocol_info_dict info @ limits)))))"

definition handle_last_error :: "'t cli_env \<Rightarrow> 't cli_handler" where
  "handle_last_error env = operate env ''last-error'' op_get_last_error"

definition handle_metadata_status :: "'t cli_env \<Rightarrow> 't cli_handler" where
  "handle_metadata_status env = operate env ''metadata status'' op_get_metadata_summary"

definition handle_service_status :: "'t cli_env \<Rightarrow> 't cli_handler" where
  "handle_service_status env = operate env ''service status'' op_get_service_status"

definition handle_ping :: "'t cli_env \<Rightarrow> 't cli_handler" where
  "handle_ping env = operate env ''ping'' op_ping"

definition handle_memory_read :: "'t cli_env \<Rightarrow> cli_args \<Rightarrow> 't cli_handler" where
  "handle_memory_read env args =
     bindM (liftM (MemoryReadRequest (ag_address args) (ag_words args))) (\<lambda>request.
     operate env ''memory read'' (\<lambda>ctx. memory_read ctx request))"

section \<open>Metadata commands\<close>

definition handle_metadata_image_valid :: "'t cli_env \<Rightarrow> cli_args \<Rightarrow> 't cli_handler" where
  "handle_metadata_image_valid env args =
     (let command = ''metadata image-valid'' in
      with_service_image env args command ''cancelled before Flash Service preparation'' (\<lambda>target service.
      with_app_image env args command target (\<lambda>img.
      confirmed env args command
        (service_details target args command @ app_details args img @
         [(''warning'', PStr ''This publishes IMAGE_VALID without verifying Flash first. The caller is responsible for ensuring target Flash matches --image.'')])
      (unless_requested env command ''cancelled before metadata mutation''
      (operate_flash env command service (\<lambda>fctx. op_append_image_valid fctx img))))))"

definition handle_metadata_boot_attempt :: "'t cli_env \<Rightarrow> cli_args \<Rightarrow> 't cli_handler" where
  "handle_metadata_boot_attempt env args =
     (let command = ''metadata boot-attempt'' in
      with_service_image env args command ''cancelled before Flash Service preparation'' (\<lambda>target service.
      confirmed env args command
        (service_details target args command @
         [(''warning'', PStr ''This appends one BOOT_ATTEMPT for the current published IMAGE_VALID. It consumes an attempt slot. It does not RUN the application.'')])
      (unless_requested env command ''cancelled before metadata mutation''
      (operate_flash env command service op_append_boot_attempt))))"

definition handle_metadata_app_confirmed :: "'t cli_env \<Rightarrow> cli_args \<Rightarrow> 't cli_handler" where
  "handle_metadata_app_confirmed env args =
     (let command = ''metadata app-confirmed'' in
      with_service_image env args command ''cancelled before Flash Service preparation'' (\<lambda>target service.
      confirmed env args command
        (service_details target args command @
         [(''warning'', PStr ''This explicitly writes APP_CONFIRMED from the engineering CLI. It bypasses normal App self-confirmation. If the remaining boot conditions are satisfied, it may make the current image auto-boot eligible.'')])
      (unless_requested env command ''cancelled before metadata mutation''
      (operate_flash env command service op_append_app_confirmed))))"

section \<open>Starting an application\<close>

definition dict_int :: "pydict \<Rightarrow> string \<Rightarrow> int option" where
  "dict_int d key = (case map_of d key of Some (PInt n) \<Rightarrow> Some n | _ \<Rightarrow> None)"

definition run_admission :: "discovered_target \<Rightarrow> pydict \<Rightarrow> bool" where
  "run_admission d summary =
     (case (dict_int summary ''entry_point'', dict_int summary ''metadata_valid'', dict_int summary ''state'',
        dict_int summary ''image_size_words'', dict_int summary ''image_crc32'',
        dict_int summary ''target_device_id'', dict_int summary ''target_cpu_id'') of
        (Some entry_point, Some valid, Some state, Some size_words, Some crc, Some device_id, Some cpu_id) \<Rightarrow>
          valid \<noteq> 0 \<and> state = 1 \<and> entry_point \<noteq> 0 \<and> size_words \<noteq> 0 \<and> crc \<noteq> 0 \<and>
          device_id = di_device_id (dt_device_info d) \<and> cpu_id = di_cpu_id (dt_device_info d) \<and>
          entry_point mod 8 = 0 \<and>
          (case tm_flash (tp_memory_map (dt_target_profile d)) of
             None \<Rightarrow> False
           | Some flash \<Rightarrow> list_ex (\<lambda>r. range_contains r entry_point) (fl_app_ranges flash))
      | _ \<Rightarrow> False)"

definition run_details :: "target_profile \<Rightarrow> pydict \<Rightarrow> int \<Rightarrow> pydict" where
  "run_details target summary entry_point =
     [(''command'', PStr ''run''), (''connected target'', PStr (tp_name target)), (''entry point'', PInt entry_point),
      (''image CRC'', opt_int (dict_int summary ''image_crc32'')),
      (''image size'', opt_int (dict_int summary ''image_size_words'')),
      (''warning'', PStr ''Explicit RUN only. This does not write BOOT_ATTEMPT or APP_CONFIRMED. RUN acceptance does not prove application startup, health, or confirmation.'')]"

definition handle_run :: "'t cli_env \<Rightarrow> cli_args \<Rightarrow> bool \<Rightarrow> 't cli_handler" where
  "handle_run env args observed =
     bindM rt_discovered (\<lambda>d.
     let target = dt_target_profile d; ctx = operation_context env (Some (ev_token env)) target in
     bindM (on_session (op_get_metadata_summary ctx)) (\<lambda>metadata.
     if \<not> or_ok metadata then returnM (outcome_of ''run'' metadata)
     else if \<not> run_admission d (or_summary metadata)
     then returnM (outcome_error ''run''
       (CliError ''operation'' ''IMAGE_VALID_REQUIRED'' ''A valid IMAGE_VALID entry point is required'')
       EXIT_OPERATION_FAILURE)
     else unless_requested env ''run'' ''cancelled after metadata read''
       (case dict_int (or_summary metadata) ''entry_point'' of
          None \<Rightarrow> raiseM (KeyError ''entry_point'')
        | Some entry_point \<Rightarrow>
            confirmed env args ''run'' (run_details target (or_summary metadata) entry_point)
            (unless_requested env ''run'' ''cancelled before RUN''
            (bindM (liftM (RunRequest entry_point)) (\<lambda>request.
             operate env ''run'' (\<lambda>ctx. op_run_flash_app ctx request observed)))))))"

definition run_ram_admission :: "target_profile \<Rightarrow> int \<Rightarrow> command_outcome option" where
  "run_ram_admission target entry_point =
     (if tp_command_set target F_run_ram = None
      then Some (unsupported ''run-ram'' ''active target does not support RUN_RAM'')
      else (case tm_ram (tp_memory_map target) of
          None \<Rightarrow> Some (unsupported ''run-ram'' ''active target does not define a RAM layout'')
        | Some ram \<Rightarrow>
            if \<not> list_ex (\<lambda>r. range_contains r entry_point) (rl_ram_app_ranges ram)
            then Some (outcome_error ''run-ram''
              ((CliError ''operation'' ''INVALID_RAM_ENTRY_POINT''
                ''entry point is outside the active target RAM App ranges'')
                 \<lparr>ce_details := Some [(''entry_point'', PInt entry_point)]\<rparr>) EXIT_OPERATION_FAILURE)
            else None))"

definition handle_run_ram :: "'t cli_env \<Rightarrow> cli_args \<Rightarrow> bool \<Rightarrow> 't cli_handler" where
  "handle_run_ram env args observed =
     bindM rt_discovered (\<lambda>d.
     case run_ram_admission (dt_target_profile d) (ag_entry_point args) of
       Some failure \<Rightarrow> returnM failure
     | None \<Rightarrow>
         unless_requested env ''run-ram'' ''cancelled before RUN_RAM confirmation''
         (confirmed env args ''run-ram''
           [(''command'', PStr ''run-ram''), (''connected target'', PStr (tp_name (dt_target_profile d))),
            (''entry point'', PInt (ag_entry_point args)),
            (''warning'', PStr ''Explicit RUN_RAM only. This does not load RAM. This does not perform RAM_CHECK_CRC. This does not prove the RAM contents match any local image. RUN_RAM acceptance does not prove application startup or health.'')]
         (unless_requested env ''run-ram'' ''cancelled before RUN_RAM''
         (bindM (liftM (RunRequest (ag_entry_point args))) (\<lambda>request.
          operate env ''run-ram'' (\<lambda>ctx. op_run_ram_image ctx request observed))))))"

definition handle_ram ::
  "'t cli_env \<Rightarrow> cli_args \<Rightarrow> string \<Rightarrow> ('t op_context \<Rightarrow> prepared_ram_image \<Rightarrow> ('t world, operation_result) sm) \<Rightarrow>
     't cli_handler" where
  "handle_ram env args command operation =
     unless_requested env command ''cancelled before RAM image preparation''
     (bindM rt_discovered (\<lambda>d.
      preparing command (prepare_ram env (image_path args) (dt_target_profile d)) (\<lambda>img.
      unless_requested env command ''cancelled after RAM image preparation''
      (operate env command (\<lambda>ctx. operation ctx img)))))"

definition handle_ram_load :: "'t cli_env \<Rightarrow> cli_args \<Rightarrow> 't cli_handler" where
  "handle_ram_load env args = handle_ram env args ''ram load'' load_ram_image"

definition handle_ram_check_crc :: "'t cli_env \<Rightarrow> cli_args \<Rightarrow> 't cli_handler" where
  "handle_ram_check_crc env args = handle_ram env args ''ram check-crc'' op_check_ram_crc"

section \<open>Flash commands\<close>

definition handle_service_attach :: "'t cli_env \<Rightarrow> cli_args \<Rightarrow> 't cli_handler" where
  "handle_service_attach env args =
     with_service_image env args ''service attach'' ''cancelled before Flash Service preparation''
       (\<lambda>target service. operate_flash env ''service attach'' service attach_flash_service)"

text \<open>The end of every erase: the mask is shown, and the confirmed operation runs.\<close>

definition erase_confirmed ::
  "'t cli_env \<Rightarrow> cli_args \<Rightarrow> prepared_service_image \<Rightarrow> pydict \<Rightarrow> int \<Rightarrow>
     ('t flash_context \<Rightarrow> ('t world, operation_result) sm) \<Rightarrow> 't cli_handler" where
  "erase_confirmed env args service details sector_mask operation =
     confirmed env args ''erase'' (details @ [(''sector mask'', PInt sector_mask)])
     (unless_requested env ''erase'' ''cancelled before Flash mutation''
     (operate_flash env ''erase'' service operation))"

definition handle_erase :: "'t cli_env \<Rightarrow> cli_args \<Rightarrow> 't cli_handler" where
  "handle_erase env args =
     (let first = ''cancelled before Flash preparation''; command = ''erase'' in
      if ag_image args \<noteq> None then
        with_service_image env args command first (\<lambda>target service.
        with_app_image env args command target (\<lambda>img.
        erase_confirmed env args service (service_details target args command @ app_details args img)
          (pf_sector_mask img) (\<lambda>fctx. erase_flash_image_area fctx img)))
      else if ag_all_app args then
        unless_requested env command first
        (bindM rt_discovered (\<lambda>d.
         case tm_flash (tp_memory_map (dt_target_profile d)) of
           None \<Rightarrow> returnM (unsupported command ''active target does not define a Flash layout'')
         | Some flash \<Rightarrow>
             preparing command (prepare_service env args (dt_target_profile d)) (\<lambda>service.
             unless_requested env command ''cancelled after Flash Service preparation''
             (erase_confirmed env args service (service_details (dt_target_profile d) args command)
               (fl_allowed_erase_mask flash)
               (\<lambda>fctx. erase_sector_mask fctx (fl_allowed_erase_mask flash))))))
      else
        with_service_image env args command first (\<lambda>target service.
        erase_confirmed env args service (service_details target args command) (ag_sector_mask args)
          (\<lambda>fctx. erase_sector_mask fctx (ag_sector_mask args))))"

definition handle_program :: "'t cli_env \<Rightarrow> cli_args \<Rightarrow> 't cli_handler" where
  "handle_program env args =
     (let command = ''program'' in
      with_service_image env args command ''cancelled before Flash preparation'' (\<lambda>target service.
      with_app_image env args command target (\<lambda>img.
      confirmed env args command
        (service_details target args command @ app_details args img @ [(''semantics'', PStr ''PROGRAM only'')])
      (unless_requested env command ''cancelled before Flash mutation''
      (operate_flash env command service (\<lambda>fctx. program_flash_image fctx img))))))"

definition handle_verify :: "'t cli_env \<Rightarrow> cli_args \<Rightarrow> 't cli_handler" where
  "handle_verify env args =
     (let command = ''verify'' in
      with_service_image env args command ''cancelled before Flash preparation'' (\<lambda>target service.
      with_app_image env args command target (\<lambda>img.
      operate_flash env command service (\<lambda>fctx. verify_flash_image fctx img))))"

section \<open>The upgrade\<close>

definition set_workflow_stage :: "int \<Rightarrow> int \<Rightarrow> string \<Rightarrow> ('t cli_runtime, unit) sm" where
  "set_workflow_stage index count name = modM (\<lambda>r. r\<lparr>rt_stage := Some (index, count, name)\<rparr>)"

text \<open>The stages before the tail; \<open>Inl\<close> is an early return of the handler, \<open>Inr\<close> the last result.\<close>

fun upgrade_stages ::
  "'t cli_env \<Rightarrow> 't flash_context \<Rightarrow> int \<Rightarrow> (int \<times> string \<times> ('t flash_context \<Rightarrow> ('t world, operation_result) sm)) list \<Rightarrow>
     operation_result option \<Rightarrow> ('t cli_runtime, command_outcome + operation_result option) sm" where
  "upgrade_stages env fctx count [] last_result = returnM (Inr last_result)"
| "upgrade_stages env fctx count ((index, name, operation) # stages) last_result =
     thenM (set_workflow_stage index count name)
     (bindM (on_session (operation fctx)) (\<lambda>result.
      if or_completion result \<noteq> Some SUCCEEDED then returnM (Inl (outcome_of ''upgrade'' result))
      else bindM (cancel_requested env) (\<lambda>c.
        if c then returnM (Inl (cancelled_outcome ''upgrade'' (''cancelled after '' @ name)))
        else upgrade_stages env fctx count stages (Some result))))"

definition pre_tail_stages ::
  "prepared_flash_image \<Rightarrow> (int \<times> string \<times> ('t flash_context \<Rightarrow> ('t world, operation_result) sm)) list" where
  "pre_tail_stages img =
     [(1, ''ERASE'', \<lambda>fctx. erase_flash_image_area fctx img),
      (2, ''PROGRAM'', \<lambda>fctx. program_flash_image fctx img),
      (3, ''VERIFY'', \<lambda>fctx. verify_flash_image fctx img),
      (4, ''IMAGE_VALID'', \<lambda>fctx. op_append_image_valid fctx img)]"

text \<open>The commit-to-run tail: its contexts carry no cancellation.\<close>

definition upgrade_tail ::
  "'t cli_env \<Rightarrow> target_profile \<Rightarrow> prepared_service_image \<Rightarrow> prepared_flash_image \<Rightarrow> bool \<Rightarrow> 't cli_handler" where
  "upgrade_tail env target service img observed =
     thenM (set_workflow_stage 5 6 ''BOOT_ATTEMPT'')
     (bindM (on_session (op_append_boot_attempt (flash_operation_context env None target service))) (\<lambda>result.
      if or_completion result \<noteq> Some SUCCEEDED then returnM (outcome_of ''upgrade'' result)
      else thenM (set_workflow_stage 6 6 ''RUN'')
        (bindM (liftM (RunRequest (id_entry_point (pf_identity img)))) (\<lambda>request.
         bindM (on_session (op_run_flash_app (operation_context env None target) request observed)) (\<lambda>result.
         returnM (outcome_of ''upgrade'' result))))))"

definition upgrade_details :: "target_profile \<Rightarrow> cli_args \<Rightarrow> prepared_flash_image \<Rightarrow> pydict" where
  "upgrade_details target args img =
     service_details target args ''upgrade'' @ app_details args img @
     [(''workflow'', PStr (if ag_no_run args then ''ERASE - PROGRAM - VERIFY - IMAGE_VALID - STOP''
        else ''ERASE - PROGRAM - VERIFY - IMAGE_VALID - BOOT_ATTEMPT - RUN'')),
      (''warning'', PStr (if ag_no_run args
        then ''This rewrites the application Flash area. No BOOT_ATTEMPT will be written. The application will not be RUN. APP_CONFIRMED will not be written.''
        else ''This rewrites the application Flash area. After IMAGE_VALID, a final cancellation check is performed. If that check passes, BOOT_ATTEMPT - RUN becomes a non-cancellable commit-to-run tail. APP_CONFIRMED is not written by this workflow. RUN acceptance does not prove App health or confirmation.''))]"

definition upgrade_body :: "'t cli_env \<Rightarrow> cli_args \<Rightarrow> bool \<Rightarrow> 't cli_handler" where
  "upgrade_body env args observed =
     (let command = ''upgrade'' in
      with_service_image env args command ''cancelled before Flash Service preparation'' (\<lambda>target service.
      with_app_image env args command target (\<lambda>img.
      confirmed env args command (upgrade_details target args img)
      (unless_requested env command ''cancelled after upgrade confirmation''
      (bindM (upgrade_stages env (flash_operation_context env (Some (ev_token env)) target service)
          (if ag_no_run args then 4 else 6) (pre_tail_stages img) None) (\<lambda>stages. case stages of
         Inl outcome \<Rightarrow> returnM outcome
       | Inr last_result \<Rightarrow>
           if ag_no_run args
           then returnM \<lparr>co_command = command, co_result = None, co_operation_result = last_result,
             co_error = None, co_exit_code = None\<rparr>
           else upgrade_tail env target service img observed))))))"

text \<open>\<open>finally: _clear_workflow_stage(progress)\<close>\<close>

definition handle_upgrade :: "'t cli_env \<Rightarrow> cli_args \<Rightarrow> bool \<Rightarrow> 't cli_handler" where
  "handle_upgrade env args observed r =
     (case upgrade_body env args observed r of (x, r') \<Rightarrow> (x, r'\<lparr>rt_stage := None\<rparr>))"

section \<open>Dispatch\<close>

definition execute_command :: "'t cli_env \<Rightarrow> cli_args \<Rightarrow> bool \<Rightarrow> 't cli_handler" where
  "execute_command env args observed =
     (let command = ag_command args in
      if command = ''status'' then handle_status env
      else if command = ''device-info'' then handle_device_info
      else if command = ''protocol-info'' then handle_protocol_info
      else if command = ''last-error'' then handle_last_error env
      else if command = ''metadata status'' then handle_metadata_status env
      else if command = ''metadata image-valid'' then handle_metadata_image_valid env args
      else if command = ''metadata boot-attempt'' then handle_metadata_boot_attempt env args
      else if command = ''metadata app-confirmed'' then handle_metadata_app_confirmed env args
      else if command = ''service status'' then handle_service_status env
      else if command = ''service attach'' then handle_service_attach env args
      else if command = ''erase'' then handle_erase env args
      else if command = ''program'' then handle_program env args
      else if command = ''verify'' then handle_verify env args
      else if command = ''upgrade'' then handle_upgrade env args observed
      else if command = ''memory read'' then handle_memory_read env args
      else if command = ''ram load'' then handle_ram_load env args
      else if command = ''ram check-crc'' then handle_ram_check_crc env args
      else if command = ''run'' then handle_run env args observed
      else if command = ''run-ram'' then handle_run_ram env args observed
      else raiseM (RuntimeError ''unsupported CLI command''))"

end
