(* ===== verification/Cli_Main.thy ===== *)
theory Cli_Main
  imports Cli_Commands
begin

text \<open>
  One invocation of the formal CLI (\<open>cli/main.py\<close>) from the parsed arguments on: connect, discover, run the
  command, disconnect in any case, and turn every exception into an outcome with its exit code.
\<close>

definition usage_outcome :: "string \<Rightarrow> string \<Rightarrow> command_outcome" where
  "usage_outcome command message =
     outcome_error command (CliError ''cli'' ''CLI_USAGE_ERROR'' message) EXIT_CLI_USAGE_ERROR"

definition communication_outcome :: "string \<Rightarrow> string \<Rightarrow> command_outcome" where
  "communication_outcome command message = outcome_error command
     (CliError ''communication'' ''COMMUNICATION_FAILURE'' message) EXIT_COMMUNICATION_FAILURE"

definition internal_outcome :: "string \<Rightarrow> string \<Rightarrow> command_outcome" where
  "internal_outcome command message =
     outcome_error command (CliError ''internal'' ''INTERNAL_ERROR'' message) EXIT_INTERNAL_ERROR"

text \<open>
  \<open>RuntimeCommunicationError\<close> has a transport error as its cause; what else the transport raises has none.
\<close>

definition disconnect_outcome :: "string \<Rightarrow> exc \<Rightarrow> command_outcome" where
  "disconnect_outcome command e =
     (case (case e of RuntimeCommunicationError _ \<Rightarrow> Some DOMAIN_COMMUNICATION | _ \<Rightarrow> classify_exception_domain e) of
        Some DOMAIN_COMMUNICATION \<Rightarrow> communication_outcome command (''disconnect failed: '' @ exc_msg e)
      | Some DOMAIN_OPERATION \<Rightarrow> outcome_error command
          (CliError ''operation'' ''OPERATION_FAILURE'' (exc_msg e)) EXIT_OPERATION_FAILURE
      | None \<Rightarrow> internal_outcome command (''disconnect failed: '' @ exc_msg e))"

text \<open>The three \<open>except\<close> clauses around the command.\<close>

definition exception_outcome :: "string \<Rightarrow> exc \<Rightarrow> command_outcome" where
  "exception_outcome command e =
     (case e of
        RuntimeCommunicationError m \<Rightarrow> communication_outcome command m
      | CliConfigurationError m \<Rightarrow> usage_outcome command m
      | _ \<Rightarrow> internal_outcome command (exc_msg e))"

definition run_command :: "'t cli_env \<Rightarrow> cli_config \<Rightarrow> cli_args \<Rightarrow> 't cli_handler" where
  "run_command env config args =
     (let command = ag_command args in
      bindM (rt_connect env config) (\<lambda>opened.
      if tor_status opened = TRANSPORT_CANCELLED
      then returnM (cancelled_outcome command (''connection cancelled during '' @ tor_stage opened))
      else bindM (rt_discover env) (\<lambda>discovery.
        if \<not> or_ok (do_result discovery) then returnM (outcome_of command (do_result discovery))
        else unless_requested env command ''cancelled after target discovery''
          (execute_command env args False))))"

text \<open>The clauses catch every exception; \<open>Diverges\<close> stands for a call that never returns.\<close>

definition run_guarded :: "'t cli_env \<Rightarrow> cli_config \<Rightarrow> cli_args \<Rightarrow> 't cli_handler" where
  "run_guarded env config args =
     catchM (run_command env config args) (\<lambda>e.
       if is_exception e then returnM (exception_outcome (ag_command args) e) else raiseM e)"

text \<open>The \<open>finally\<close> block and what follows it.\<close>

definition run_and_disconnect :: "'t cli_env \<Rightarrow> cli_config \<Rightarrow> cli_args \<Rightarrow> 't cli_handler" where
  "run_and_disconnect env config args =
     bindM (run_guarded env config args) (\<lambda>outcome.
     bindM (catchM (thenM (rt_disconnect env) (returnM None))
         (\<lambda>e. if is_exception e then returnM (Some e) else raiseM e)) (\<lambda>cleanup_error.
     returnM (case cleanup_error of
         None \<Rightarrow> outcome
       | Some e \<Rightarrow>
           if outcome_exit_code outcome = EXIT_SUCCESS then disconnect_outcome (ag_command args) e
           else outcome)))"

definition validated_config :: "cli_config \<Rightarrow> cli_config res" where
  "validated_config config =
     bindE (CliRuntimeConfig config) (\<lambda>config. bindE (require_port config) (\<lambda>_. Inr config))"

text \<open>\<open>main\<close> after parsing, for every command but \<open>shell\<close>; a new runtime is created.\<close>

definition cli_main :: "'t cli_env \<Rightarrow> cli_config \<Rightarrow> cli_args \<Rightarrow> 't cli_handler" where
  "cli_main env config args =
     (case validated_config config of
        Inl e \<Rightarrow> returnM (usage_outcome (ag_command args) (exc_msg e))
      | Inr config \<Rightarrow> run_and_disconnect env config args)"

definition main_exit_code :: "'t cli_env \<Rightarrow> cli_config \<Rightarrow> cli_args \<Rightarrow> int res" where
  "main_exit_code env config args =
     bindE (fst (cli_main env config args CliRuntime)) (\<lambda>outcome. Inr (exit_code_value (outcome_exit_code outcome)))"

end
