(* ===== verification/Cli_Rules.thy ===== *)
theory Cli_Rules
  imports Cli_Main
begin

text \<open>
  What the command line keeps.  The locale \<open>handlers\<close> reduces an invariant of the runtime over every command
  to the operations, \<open>session_keeps\<close> an invariant of the sessions over a whole invocation to the lifecycle of the
  transport and the operations.  The parameter \<open>free\<close> says which operations keep the invariant: with the
  user's consent a command may use every operation, without it only those it never asks for.
\<close>

section \<open>Commands\<close>

text \<open>The commands that ask before they act, and those that only read the target's description.\<close>

definition asking_commands :: "string set" where
  "asking_commands = {''metadata image-valid'', ''metadata boot-attempt'', ''metadata app-confirmed'', ''erase'',
     ''program'', ''upgrade'', ''run'', ''run-ram''}"

definition reading_commands :: "string set" where
  "reading_commands = {''status'', ''device-info'', ''protocol-info'', ''metadata status''}"

definition consents :: "'t cli_env \<Rightarrow> cli_args \<Rightarrow> bool" where
  "consents env args \<longleftrightarrow> ag_yes args \<or> (\<exists>details. ev_confirm env details = APPROVED)"

text \<open>
  The operations that no command confirms - a service and a RAM image are loaded, Flash is compared, memory and
  status are read - and the starts of an application that are observed, or not.
\<close>

fun unconfirmed :: "operation \<Rightarrow> bool" where
  "unconfirmed (Verify_Image img) = True"
| "unconfirmed (Load_Ram_Image ram) = True"
| "unconfirmed (Check_Ram_Crc ram) = True"
| "unconfirmed (Read_Memory req) = True"
| "unconfirmed Attach_Service = True"
| "unconfirmed Read_Service_Status = True"
| "unconfirmed Read_Last_Error = True"
| "unconfirmed Read_Metadata_Summary = True"
| "unconfirmed Ping = True"
| "unconfirmed _ = False"

fun starts_as :: "bool \<Rightarrow> operation \<Rightarrow> bool" where
  "starts_as observed (Run_Flash_App entry_point seen) = (seen = observed)"
| "starts_as observed (Run_Ram_Image entry_point seen) = (seen = observed)"
| "starts_as observed _ = True"

text \<open>\<open>known\<close> are the targets a discovery can find.\<close>

locale handlers =
  fixes env :: "'t cli_env" and args :: cli_args and observed :: bool and free :: "operation \<Rightarrow> bool"
    and known :: "target_profile \<Rightarrow> bool" and I :: "'t cli_runtime \<Rightarrow> bool"
  assumes prompts: "I r \<Longrightarrow> I (r\<lparr>rt_prompts := ps\<rparr>)"
    and stage: "I r \<Longrightarrow> I (r\<lparr>rt_stage := st\<rparr>)"
    and asked: "I r \<Longrightarrow> I (snd (cancel_requested env r))"
    and client: "keeps_state I (session_client :: ('t cli_runtime, 't boot_client) sm)"
    and discovered: "I r \<Longrightarrow> rt_discovery_outcome r = Some outcome \<Longrightarrow> do_discovered outcome = Some d \<Longrightarrow>
      known (dt_target_profile d)"
    and status: "known target \<Longrightarrow>
      keeps_state I (on_session (op_get_metadata_summary (operation_context env token target)))"
    and operations: "free op \<Longrightarrow> known target \<Longrightarrow>
      keeps_state I (on_session (run_operation (flash_operation_context env token target service) op))"
    and consent: "consents env args \<Longrightarrow> starts_as observed op \<Longrightarrow> free op"
begin

lemma keeps_discovered: "keeps I rt_discovered (\<lambda>d. known (dt_target_profile d)) (\<lambda>_. True)"
  unfolding rt_discovered_def
proof (rule keeps_bind)
  show "keeps I (getM (\<lambda>r. Option.bind (rt_discovery_outcome r) do_discovered))
      (\<lambda>d. \<forall>target. d = Some target \<longrightarrow> known (dt_target_profile target)) (\<lambda>_. True)"
    by (rule keeps_get) (auto dest: discovered split: bind_splits)
qed (auto intro: keeps_raise keeps_return split: option.split)

lemma keeps_requested: "keeps_state I (cancel_requested env)"
  by (rule keepsI) (use asked in \<open>force split: sum.split\<close>)

lemma keeps_unless_requested: "keeps_state I rest \<Longrightarrow> keeps_state I (unless_requested env command message rest)"
  unfolding unless_requested_def
  by (rule keeps_state_bind [OF keeps_requested]) (simp add: keeps_state_simps)

lemma keeps_preparing: "(\<And>x. keeps_state I (rest x)) \<Longrightarrow> keeps_state I (preparing command prepared rest)"
  by (auto simp: preparing_def keeps_state_simps split: sum.split)

lemma keeps_confirmed:
  assumes "consents env args \<Longrightarrow> keeps_state I rest"
  shows "keeps_state I (confirmed env args command details rest)"
proof -
  have "keeps_state I (modM (\<lambda>r. r\<lparr>rt_prompts := rt_prompts r @ [details]\<rparr>))"
    by (rule keeps_mod) (simp_all add: prompts)
  then show ?thesis
    using assms
    by (auto simp: confirmed_def consents_def keeps_state_simps intro!: keeps_state_then
        split: confirmation_decision.split)
qed

lemma keeps_operate:
  assumes "\<And>target token. known target \<Longrightarrow> keeps_state I (on_session (operation (operation_context env token target)))"
  shows "keeps_state I (operate env command operation)"
  unfolding operate_def
  by (rule keeps_bind [OF keeps_discovered]) (intro keeps_state_bind assms keeps_state_simps)

lemma keeps_operate_flash:
  assumes "\<And>target token service. known target \<Longrightarrow>
    keeps_state I (on_session (operation (flash_operation_context env token target service)))"
  shows "keeps_state I (operate_flash env command service operation)"
  unfolding operate_flash_def
  by (rule keeps_bind [OF keeps_discovered]) (intro keeps_state_bind assms keeps_state_simps)

lemma keeps_with_service_image:
  assumes "\<And>target service. known target \<Longrightarrow> keeps_state I (rest target service)"
  shows "keeps_state I (with_service_image env args command message rest)"
  unfolding with_service_image_def
  by (rule keeps_unless_requested, rule keeps_bind [OF keeps_discovered])
    (intro keeps_preparing keeps_unless_requested assms)

lemma keeps_with_app_image:
  assumes "\<And>img. keeps_state I (rest img)"
  shows "keeps_state I (with_app_image env args command target rest)"
  unfolding with_app_image_def by (intro keeps_preparing keeps_unless_requested assms)

text \<open>The operations by name.\<close>

lemma free_flash:
  assumes "consents env args" "known target"
  shows "keeps_state I (on_session (erase_flash_image_area (flash_operation_context env token target service) img))"
    "keeps_state I (on_session (erase_sector_mask (flash_operation_context env token target service) k))"
    "keeps_state I (on_session (program_flash_image (flash_operation_context env token target service) img))"
    "keeps_state I (on_session (op_append_image_valid (flash_operation_context env token target service) img))"
    "keeps_state I (on_session (op_append_boot_attempt (flash_operation_context env token target service)))"
    "keeps_state I (on_session (op_append_app_confirmed (flash_operation_context env token target service)))"
  using operations [OF consent [OF assms(1)] assms(2), where token = token and service = service, of "Erase_Image_Area img"]
    operations [OF consent [OF assms(1)] assms(2), where token = token and service = service, of "Erase_Sector_Mask k"]
    operations [OF consent [OF assms(1)] assms(2), where token = token and service = service, of "Program_Image img"]
    operations [OF consent [OF assms(1)] assms(2), where token = token and service = service, of "Append_Image_Valid img"]
    operations [OF consent [OF assms(1)] assms(2), where token = token and service = service, of Append_Boot_Attempt]
    operations [OF consent [OF assms(1)] assms(2), where token = token and service = service, of Append_App_Confirmed]
  by simp_all

lemma free_runs:
  assumes "consents env args" "known target"
  shows "keeps_state I (on_session (op_run_flash_app (operation_context env token target) a observed))"
    "keeps_state I (on_session (op_run_ram_image (operation_context env token target) a observed))"
  using operations [OF consent [OF assms(1)] assms(2), where token = token and service = undefined, of "Run_Flash_App a observed"]
    operations [OF consent [OF assms(1)] assms(2), where token = token and service = undefined, of "Run_Ram_Image a observed"]
  by simp_all

abbreviation lenient :: bool where
  "lenient \<equiv> (\<forall>op. unconfirmed op \<longrightarrow> free op)"

lemma free_unconfirmed:
  assumes "consents env args \<or> lenient" "known target"
  shows "keeps_state I (on_session (verify_flash_image (flash_operation_context env token target service) img))"
    "keeps_state I (on_session (attach_flash_service (flash_operation_context env token target service)))"
    "keeps_state I (on_session (load_ram_image (operation_context env token target) ram))"
    "keeps_state I (on_session (op_check_ram_crc (operation_context env token target) ram))"
    "keeps_state I (on_session (memory_read (operation_context env token target) req))"
    "keeps_state I (on_session (op_get_service_status (operation_context env token target)))"
    "keeps_state I (on_session (op_get_last_error (operation_context env token target)))"
    "keeps_state I (on_session (op_ping (operation_context env token target)))"
proof -
  have "free op" if "unconfirmed op" for op
    using assms(1) that consent by (cases op) auto
  note op = operations [OF this assms(2), where token = token]
  show "keeps_state I (on_session (verify_flash_image (flash_operation_context env token target service) img))"
    "keeps_state I (on_session (attach_flash_service (flash_operation_context env token target service)))"
    using op [of "Verify_Image img" service] op [of Attach_Service service] by simp_all
  show "keeps_state I (on_session (load_ram_image (operation_context env token target) ram))"
    "keeps_state I (on_session (op_check_ram_crc (operation_context env token target) ram))"
    "keeps_state I (on_session (memory_read (operation_context env token target) req))"
    "keeps_state I (on_session (op_get_service_status (operation_context env token target)))"
    "keeps_state I (on_session (op_get_last_error (operation_context env token target)))"
    "keeps_state I (on_session (op_ping (operation_context env token target)))"
    using op [where service = undefined, of "Load_Ram_Image ram"] op [where service = undefined, of "Check_Ram_Crc ram"]
      op [where service = undefined, of "Read_Memory req"] op [where service = undefined, of Read_Service_Status]
      op [where service = undefined, of Read_Last_Error] op [where service = undefined, of Ping]
    by simp_all
qed

end


section \<open>The handlers\<close>

context handlers
begin

lemma keeps_stage: "keeps_state I (modM (\<lambda>r. r\<lparr>rt_stage := st\<rparr>))"
  by (rule keeps_mod) (simp_all add: stage)

lemma keeps_pure: "keeps_state I (bindM (liftM x) f)" if "\<And>y. keeps_state I (f y)"
  by (intro keeps_state_bind keeps_state_simps that)

text \<open>Reading the description of the target needs no consent.\<close>

lemma keeps_status: "keeps_state I (handle_status env)"
  unfolding handle_status_def
  by (rule keeps_bind [OF keeps_discovered])
    (intro keeps_state_bind status keeps_if client keeps_pure keeps_state_simps)

lemma keeps_metadata_status: "keeps_state I (handle_metadata_status env)"
  unfolding handle_metadata_status_def by (intro keeps_operate status)

lemma keeps_cached_infos: "keeps_state I handle_device_info" "keeps_state I handle_protocol_info"
  unfolding handle_device_info_def handle_protocol_info_def
  by (intro keeps_state_bind client keeps_pure keeps_state_simps)+

text \<open>The commands that ask.\<close>

lemma keeps_metadata:
  "keeps_state I (handle_metadata_image_valid env args)" "keeps_state I (handle_metadata_boot_attempt env args)"
  "keeps_state I (handle_metadata_app_confirmed env args)"
  unfolding handle_metadata_image_valid_def handle_metadata_boot_attempt_def handle_metadata_app_confirmed_def Let_def
  by (intro keeps_with_service_image keeps_with_app_image keeps_confirmed keeps_unless_requested
      keeps_operate_flash free_flash; assumption)+

lemma keeps_erase_confirmed:
  assumes "\<And>target token service. consents env args \<Longrightarrow> known target \<Longrightarrow>
    keeps_state I (on_session (operation (flash_operation_context env token target service)))"
  shows "keeps_state I (erase_confirmed env args service details k operation)"
  unfolding erase_confirmed_def
  by (intro keeps_confirmed keeps_unless_requested keeps_operate_flash assms)

lemma keeps_erase: "keeps_state I (handle_erase env args)"
proof -
  have all_app: "keeps_state I (bindM rt_discovered (\<lambda>d. case tm_flash (tp_memory_map (dt_target_profile d)) of
      None \<Rightarrow> returnM (f d)
    | Some flash \<Rightarrow> preparing command (prepared d) (\<lambda>service. unless_requested env command message
        (erase_confirmed env args service (details d) (fl_allowed_erase_mask flash)
          (\<lambda>fctx. erase_sector_mask fctx (fl_allowed_erase_mask flash))))))"
    for f command message details and prepared :: "discovered_target \<Rightarrow> prepared_service_image res"
    by (rule keeps_bind [OF keeps_discovered])
      (auto intro!: keeps_preparing keeps_unless_requested keeps_erase_confirmed free_flash
        simp: keeps_state_simps split: option.split)
  show ?thesis
    unfolding handle_erase_def Let_def
    by (intro keeps_if keeps_with_service_image keeps_with_app_image keeps_erase_confirmed free_flash
        keeps_unless_requested all_app)
qed

lemma keeps_program: "keeps_state I (handle_program env args)"
  unfolding handle_program_def Let_def
  by (intro keeps_with_service_image keeps_with_app_image keeps_confirmed keeps_unless_requested
      keeps_operate_flash free_flash)

lemma keeps_run: "keeps_state I (handle_run env args observed)"
proof -
  have start: "keeps_state I (confirmed env args ''run'' details (unless_requested env ''run'' message
      (bindM (liftM request) (\<lambda>request. operate env ''run'' (\<lambda>ctx. op_run_flash_app ctx request observed)))))"
    for details message request
    by (intro keeps_confirmed keeps_unless_requested keeps_pure keeps_operate free_runs)
  have go: "keeps_state I (case entry_point of None \<Rightarrow> raiseM e
      | Some entry_point \<Rightarrow> confirmed env args ''run'' (details entry_point) (unless_requested env ''run'' message
          (bindM (liftM (request entry_point)) (\<lambda>request.
            operate env ''run'' (\<lambda>ctx. op_run_flash_app ctx request observed)))))"
    for entry_point :: "int option" and e details message request
    by (cases entry_point) (auto intro: start keeps_state_simps)
  show ?thesis
    unfolding handle_run_def Let_def
    by (rule keeps_bind [OF keeps_discovered])
      (intro keeps_state_bind status keeps_if keeps_unless_requested go keeps_state_simps)
qed

lemma keeps_run_ram: "keeps_state I (handle_run_ram env args observed)"
proof -
  have start: "keeps_state I (unless_requested env command before (confirmed env args command details
      (unless_requested env command message (bindM (liftM request) (\<lambda>request.
        operate env command (\<lambda>ctx. op_run_ram_image ctx request observed))))))"
    for command before details message request
    by (intro keeps_confirmed keeps_unless_requested keeps_pure keeps_operate free_runs)
  show ?thesis
    unfolding handle_run_ram_def
    by (rule keeps_bind [OF keeps_discovered])
      (auto intro!: start keeps_state_simps split: option.split)
qed

lemma keeps_upgrade_stages:
  assumes "\<And>index name operation. (index, name, operation) \<in> set stages \<Longrightarrow> keeps_state I (on_session (operation fctx))"
  shows "keeps_state I (upgrade_stages env fctx n stages last_result)"
  using assms
proof (induction stages arbitrary: last_result)
  case (Cons st stages)
  obtain index name operation where st: "st = (index, name, operation)"
    by (cases st)
  show ?case
    unfolding st upgrade_stages.simps set_workflow_stage_def
    by (intro keeps_state_then keeps_stage keeps_state_bind keeps_if keeps_requested Cons keeps_state_simps)
      (use Cons.prems st in auto)
qed (simp add: keeps_state_simps)

lemma keeps_upgrade: "keeps_state I (handle_upgrade env args observed)"
proof -
  have stages: "keeps_state I (upgrade_stages env (flash_operation_context env token target service) n
      (pre_tail_stages img) None)" if "consents env args" "known target" for token target service n img
    using free_flash [OF that(1,2)] free_unconfirmed(1) [OF _ that(2)] that(1)
    by (intro keeps_upgrade_stages) (auto simp: pre_tail_stages_def)
  have tail: "keeps_state I (upgrade_tail env target service img observed)" if "consents env args" "known target"
    for target service img
    unfolding upgrade_tail_def set_workflow_stage_def
    by (intro keeps_state_then keeps_stage keeps_state_bind keeps_pure keeps_if free_flash free_runs that
        keeps_state_simps)
  have "keeps_state I (upgrade_body env args observed)"
    unfolding upgrade_body_def Let_def
    by (intro keeps_with_service_image keeps_with_app_image keeps_confirmed keeps_unless_requested
        keeps_state_bind stages) (auto intro: tail simp: keeps_state_simps split: sum.split)
  then show ?thesis
    unfolding handle_upgrade_def
    by (intro keepsI) (auto split: prod.splits sum.split intro: stage dest: keepsD(1))
qed

text \<open>Every command, if it asks, only reads the description of the target or has the user's consent.\<close>

lemma keeps_other:
  assumes "consents env args \<or> lenient"
  shows "keeps_state I (handle_last_error env)" "keeps_state I (handle_service_status env)"
    "keeps_state I (handle_service_attach env args)" "keeps_state I (handle_verify env args)"
    "keeps_state I (handle_memory_read env args)" "keeps_state I (handle_ram_load env args)"
    "keeps_state I (handle_ram_check_crc env args)"
  unfolding handle_last_error_def handle_service_status_def handle_service_attach_def handle_verify_def
    handle_memory_read_def handle_ram_load_def handle_ram_check_crc_def Let_def
       apply (intro keeps_operate free_unconfirmed assms; assumption)
      apply (intro keeps_operate free_unconfirmed assms; assumption)
     apply (intro keeps_with_service_image keeps_operate_flash free_unconfirmed assms; assumption)
    apply (intro keeps_with_service_image keeps_with_app_image keeps_operate_flash free_unconfirmed assms; assumption)
   apply (intro keeps_pure keeps_operate free_unconfirmed assms; assumption)
  unfolding handle_ram_def
  by (intro keeps_unless_requested keeps_bind [OF keeps_discovered] keeps_preparing keeps_operate free_unconfirmed assms;
      assumption)+

lemma keeps_execute:
  assumes "lenient \<or> ag_command args \<in> asking_commands \<union> reading_commands"
  shows "keeps_state I (execute_command env args observed)"
proof -
  note asking = keeps_metadata keeps_erase keeps_program keeps_run keeps_run_ram keeps_upgrade
  show ?thesis
  proof (cases lenient)
    case True
    then show ?thesis
      by (simp add: execute_command_def Let_def asking keeps_status keeps_metadata_status keeps_cached_infos
          keeps_other keeps_state_simps)
  next
    case False
    then show ?thesis
      using assms by (auto simp: execute_command_def asking_commands_def reading_commands_def asking keeps_status
          keeps_metadata_status keeps_cached_infos)
  qed
qed

end

section \<open>Sessions\<close>

text \<open>
  Invariants of the sessions of an invocation: what the lifecycle of the transport, the discovery and the
  permitted operations keep holds for the session in use and for every session that was let go of.
\<close>

definition sessions_keep :: "('t world \<Rightarrow> bool) \<Rightarrow> (target_profile \<Rightarrow> bool) \<Rightarrow> 't cli_runtime \<Rightarrow> bool" where
  "sessions_keep J known r \<longleftrightarrow>
     pred_option J (rt_session r) \<and> list_all J (rt_released r) \<and>
     (\<forall>outcome d. rt_discovery_outcome r = Some outcome \<longrightarrow> do_discovered outcome = Some d \<longrightarrow>
        known (dt_target_profile d))"

lemma sessions_keep_simps [simp]:
  "sessions_keep J known (r\<lparr>rt_prompts := ps\<rparr>) = sessions_keep J known r"
  "sessions_keep J known (r\<lparr>rt_stage := st\<rparr>) = sessions_keep J known r"
  "sessions_keep J known (r\<lparr>rt_connected := c\<rparr>) = sessions_keep J known r"
  "sessions_keep J known (r\<lparr>rt_discovery_attempted := c\<rparr>) = sessions_keep J known r"
  by (simp_all add: sessions_keep_def)

lemma sessions_keep_new: "sessions_keep J known CliRuntime"
  by (simp add: sessions_keep_def CliRuntime_def)

lemma sessions_keep_clear: "sessions_keep J known r \<Longrightarrow> sessions_keep J known (clear_connection_state r)"
  by (auto simp: sessions_keep_def clear_connection_state_def split: option.split)

lemma sessions_keep_session:
  "sessions_keep J known r \<Longrightarrow> J w \<Longrightarrow> sessions_keep J known (r\<lparr>rt_session := Some w\<rparr>)"
  by (simp add: sessions_keep_def)

locale session_keeps =
  fixes env :: "'t cli_env" and args :: cli_args and observed :: bool and free :: "operation \<Rightarrow> bool"
    and known :: "target_profile \<Rightarrow> bool" and J :: "'t world \<Rightarrow> bool"
  assumes made: "ev_make env transport_config = Inr t \<Longrightarrow> J (UpgradeSession t)"
    and questions: "J w \<Longrightarrow> J (w\<lparr>wd_asked := n\<rparr>)"
    and opened: "keeps_state J (on_boot_client (session_connect (ev_transport env) (Some (ev_token env))))"
    and closed: "keeps_state J (on_boot_client (session_disconnect (ev_transport env)))"
    and discovery: "keeps J (discover_connected_target (ev_transport env))
      (\<lambda>outcome. \<forall>d. do_discovered outcome = Some d \<longrightarrow> known (dt_target_profile d)) (\<lambda>_. True)"
    and summary: "known target \<Longrightarrow> keeps_state J (op_get_metadata_summary (operation_context env token target))"
    and operation: "free op \<Longrightarrow> known target \<Longrightarrow>
      keeps_state J (run_operation (flash_operation_context env token target service) op)"
    and consented: "consents env args \<Longrightarrow> starts_as observed op \<Longrightarrow> free op"
begin

abbreviation S :: "'t cli_runtime \<Rightarrow> bool" where "S \<equiv> sessions_keep J known"

lemma on_session_keeps:
  assumes "keeps J m Q E"
  shows "keeps S (on_session m) Q (\<lambda>_. True)"
proof (rule keepsI)
  fix r x r' assume r: "S r" "on_session m r = (x, r')"
  show "S r' \<and> (case x of Inl _ \<Rightarrow> True | Inr x \<Rightarrow> Q x)"
  proof (cases "rt_session r")
    case (Some w)
    then have "J w"
      using r(1) by (simp add: sessions_keep_def)
    then show ?thesis
      using r Some keepsD [OF assms, of w] sessions_keep_session [OF r(1)]
      by (auto simp: on_session_def split: prod.splits sum.splits)
  qed (use r in \<open>auto simp: on_session_def\<close>)
qed

lemma requested: "S r \<Longrightarrow> S (snd (cancel_requested env r))"
  by (auto simp: cancel_requested_def questions sessions_keep_session split: option.split)
    (auto simp: sessions_keep_def questions)

end

sublocale session_keeps \<subseteq> handlers env args observed free known "sessions_keep J known"
proof unfold_locales
  show "keeps_state S session_client"
    unfolding session_client_def by (rule keeps_state [OF on_session_keeps [OF keeps_state_simps(4)]])
  show "known (dt_target_profile d)"
    if "S r" "rt_discovery_outcome r = Some outcome" "do_discovered outcome = Some d" for r outcome d
    using that by (simp add: sessions_keep_def)
qed (auto intro: requested consented on_session_keeps [OF summary] on_session_keeps [OF operation])


section \<open>One invocation\<close>

context session_keeps
begin

lemma keeps_clear: "keeps_state S (modM clear_connection_state)"
  by (rule keeps_mod) (simp_all add: sessions_keep_clear)

lemma keeps_modify: "(\<And>r. S r \<Longrightarrow> S (f r)) \<Longrightarrow> keeps_state S (modM f)"
  by (rule keeps_mod) simp_all

lemma keeps_connect: "keeps_state S (rt_connect env config)"
proof -
  have make: "keeps S (liftM (bindE c (ev_make env))) (\<lambda>t. J (UpgradeSession t)) (\<lambda>_. True)" for c
    by (rule keeps_lift) (auto simp: bindE_Inr_iff intro: made)
  have create: "keeps_state S (create_session env config)"
    unfolding create_session_def
    by (rule keeps_bind [OF make])
      (intro keeps_state_then keeps_modify sessions_keep_session on_session_keeps [OF opened])
  show ?thesis
    unfolding rt_connect_def
    by (intro keeps_state_bind keeps_if keeps_state_then keeps_catch [where E' = "\<lambda>_. True"] create keeps_clear
        keeps_state_simps) (auto intro: keeps_clear keeps_modify split: transport_open_status.split)
qed

lemma keeps_disconnect: "keeps_state S (rt_disconnect env)"
proof (rule keepsI)
  fix r x r' assume r: "S r" "rt_disconnect env r = (x, r')"
  have J: "J w \<Longrightarrow> on_boot_client (session_disconnect (ev_transport env)) w = (y, w') \<Longrightarrow> J w'" for w y w'
    using keepsD(1) [OF closed] .
  show "S r' \<and> (case x of Inl _ \<Rightarrow> True | Inr _ \<Rightarrow> True)"
    using r J by (auto simp: rt_disconnect_def sessions_keep_clear sessions_keep_def [of J known r]
        split: option.splits prod.splits sum.split intro!: sessions_keep_clear sessions_keep_session)
qed

lemma keeps_discover: "keeps_state S (rt_discover env)"
proof -
  have quiet: "keeps_state S (disconnect_quiet env)"
    unfolding disconnect_quiet_def
    by (intro keeps_catch [where E' = "\<lambda>_. True"] keeps_disconnect keeps_if keeps_state_simps)
  have found: "keeps S (catchM (on_session (discover_connected_target (ev_transport env)))
      (\<lambda>e. if is_exception e then thenM (disconnect_quiet env) (raiseM (lifecycle_error e)) else raiseM e))
      (\<lambda>outcome. \<forall>d. do_discovered outcome = Some d \<longrightarrow> known (dt_target_profile d)) (\<lambda>_. True)"
    by (rule keeps_catch [OF on_session_keeps [OF discovery]])
      (intro keeps_if keeps_then quiet keeps_raise TrueI)
  have store: "keeps_state S (thenM (modM (\<lambda>r. r\<lparr>rt_discovery_outcome := Some outcome\<rparr>))
      (thenM (if \<not> or_ok (do_result outcome) then rt_disconnect env else returnM ()) (returnM outcome)))"
    if "\<forall>d. do_discovered outcome = Some d \<longrightarrow> known (dt_target_profile d)" for outcome
    by (intro keeps_state_then keeps_modify keeps_if keeps_disconnect keeps_state_simps)
      (use that in \<open>simp add: sessions_keep_def\<close>)
  show ?thesis
    unfolding rt_discover_def
    by (rule keeps_state_bind, rule keeps_state_simps)
      (auto intro!: keeps_state_then keeps_modify keeps_bind [OF found store] simp: keeps_state_simps
        split: option.split)
qed

lemma keeps_main:
  assumes "\<not> observed" "lenient \<or> ag_command args \<in> asking_commands \<union> reading_commands"
  shows "keeps_state S (cli_main env config args)"
proof -
  have execute: "keeps_state S (execute_command env args False)"
    using keeps_execute [OF assms(2)] assms(1) by simp
  have command: "keeps_state S (run_command env config args)" for config
    unfolding run_command_def Let_def
    by (intro keeps_state_bind keeps_connect keeps_if keeps_discover keeps_unless_requested
        execute keeps_state_simps)
  have guarded: "keeps_state S (run_guarded env config args)" for config
    unfolding run_guarded_def
    by (intro keeps_catch [OF command] keeps_if keeps_state_simps)
  have "keeps_state S (run_and_disconnect env config args)" for config
    unfolding run_and_disconnect_def
    by (intro keeps_state_bind guarded keeps_catch [where E' = "\<lambda>_. True"] keeps_state_then keeps_disconnect keeps_if
        keeps_state_simps)
  then show ?thesis
    by (simp add: cli_main_def keeps_state_simps split: sum.split)
qed

lemma main_sessions: "\<not> observed \<Longrightarrow> lenient \<or> ag_command args \<in> asking_commands \<union> reading_commands \<Longrightarrow>
    list_all J (rt_released (snd (cli_main env config args CliRuntime)))"
  using keepsD(1) [OF keeps_main sessions_keep_new surjective_pairing] by (simp add: sessions_keep_def)

end

end
