(* ===== verification/Cli_Safety.thy ===== *)
theory Cli_Safety
  imports Cli_Rules
begin

text \<open>
  What an invocation of the command line may write to the transport: on every target that a discovery can
  find the boot loader's sector is spared, and without the user's consent no request that changes the Flash or starts
  a program is sent.
\<close>

definition known_target :: "target_profile \<Rightarrow> bool" where
  "known_target target \<longleftrightarrow> target = CPU1_PROFILE \<or> target = CPU2_PROFILE"

section \<open>Discovery\<close>

lemma target_for_key: "target_profile_for_key key = Some target \<Longrightarrow> known_target target"
  by (auto simp: target_profile_for_key_def known_target_def split: if_splits)

lemma outcome_discovered: "TargetDiscoveryOutcome result d = Inr outcome \<Longrightarrow> do_discovered outcome = d"
  by (auto simp: TargetDiscoveryOutcome_def split: if_splits)

abbreviation finds_known :: "discovery_outcome \<Rightarrow> bool" where
  "finds_known outcome \<equiv> \<forall>d. do_discovered outcome = Some d \<longrightarrow> known_target (dt_target_profile d)"

lemma not_discovered_known: "not_discovered r = Inr outcome \<Longrightarrow> finds_known outcome"
  by (auto simp: not_discovered_def bindE_Inr_iff dest: outcome_discovered)

lemma discovered_profile: "DiscoveredTarget info target key = Inr d \<Longrightarrow> dt_target_profile d = target"
  by (auto simp: DiscoveredTarget_def split: if_splits)

lemma discover_limits_keeps:
  assumes "keeps_state J (op_get_protocol_info ctx)" "known_target target"
  shows "keeps J (discover_limits ctx info target key) finds_known (\<lambda>_. True)"
proof -
  have limits: "finds_known outcome"
    if "(case r of Inl e \<Rightarrow> if is_exception e then not_discovered (failure e) else Inl e
      | Inr summary \<Rightarrow> bindE (DiscoveredTarget info target key) (\<lambda>discovered.
          bindE (OperationResult (basic_result ctx True operation stage summary)) (\<lambda>ok.
          TargetDiscoveryOutcome ok (Some discovered)))) = Inr outcome"
    for r :: "pydict res" and failure operation stage outcome
    using that assms(2) outcome_discovered discovered_profile not_discovered_known
    by (fastforce simp: bindE_Inr_iff split: sum.splits if_splits)
  show ?thesis
    unfolding discover_limits_def
    apply (rule keeps_bind [OF assms(1)], rule keeps_if)
     apply (rule keeps_lift, auto dest: outcome_discovered)[1]
    apply (rule keeps_bind [OF keeps_state_simps(4)], rule keeps_lift)
     apply (erule limits, simp)
    done
qed

lemma discover_keeps:
  assumes "keeps_state J (op_get_device_info (discovery_context tr))"
    and "keeps_state J (op_get_protocol_info (discovery_context tr))"
  shows "keeps J (discover_connected_target tr) finds_known (\<lambda>_. True)"
  unfolding discover_connected_target_def Let_def
  apply (rule keeps_bind [OF assms(1)], rule keeps_if)
   apply (rule keeps_lift, auto dest: outcome_discovered)[1]
  apply (rule keeps_bind [OF keeps_state_simps(4)])
  apply (auto split: option.split intro!: keeps_raise keeps_if keeps_lift dest: not_discovered_known)
  apply (blast intro: discover_limits_keeps [OF assms(2)] target_for_key)
  done

section \<open>Targets\<close>

definition discovery_flash_context :: "'t byte_transport \<Rightarrow> 't flash_context" where
  "discovery_flash_context tr =
     \<lparr>cx_transport = tr, cx_target = DISCOVERY_PROFILE, cx_progress = False, cx_cancellation = None,
      cx_service = undefined, cx_force_service_attach = False\<rparr>"

lemma discovery_op_cx: "op_cx (discovery_flash_context tr) = discovery_context tr"
  by (simp add: op_cx_def discovery_flash_context_def discovery_context_def)

lemma discovery_commands: "DISCOVERY_COMMAND_SET field = Some cmd \<Longrightarrow>
    cmd \<in> {command_code CMD_GET_DEVICE_INFO, command_code CMD_GET_PROTOCOL_INFO} \<and> field \<noteq> F_erase"
  by (cases field) simp_all

lemma known_op_wire:
  assumes "known_target (cx_target fctx)" "wire_keeps (cx_transport fctx) spares_boot_sector P"
  shows "op_wire fctx spares_boot_sector P"
  using assms cpu1_op_wire
  by (auto simp: known_target_def) (unfold_locales, auto simp: CPU2_PROFILE_def)

lemma discovery_op_wire:
  assumes "wire_keeps tr allowed P" "\<And>cmd payload. cmd \<in> {command_code CMD_GET_DEVICE_INFO,
    command_code CMD_GET_PROTOCOL_INFO} \<Longrightarrow> allowed cmd payload"
  shows "op_wire (discovery_flash_context tr) allowed P"
  by unfold_locales
    (use assms in \<open>auto simp: discovery_flash_context_def DISCOVERY_PROFILE_def dest!: discovery_commands\<close>)

text \<open>The reads of a command that has not been confirmed.\<close>

definition only_reads :: "int \<Rightarrow> int list \<Rightarrow> bool" where
  "only_reads cmd payload \<longleftrightarrow> cmd \<in> {command_code CMD_GET_DEVICE_INFO, command_code CMD_GET_PROTOCOL_INFO,
     command_code CMD_GET_METADATA_SUMMARY}"

text \<open>The target with no other command than the summary's: reading the summary does not tell the difference.\<close>

definition summary_only :: "'t op_context \<Rightarrow> 't flash_context" where
  "summary_only ctx =
     \<lparr>cx_transport = cx_transport ctx,
      cx_target = (cx_target ctx)\<lparr>tp_command_set := (\<lambda>field. if field = F_get_metadata_summary
        then tp_command_set (cx_target ctx) field else None)\<rparr>,
      cx_progress = cx_progress ctx, cx_cancellation = cx_cancellation ctx,
      cx_service = undefined, cx_force_service_attach = False\<rparr>"

lemma summary_of_summary_only: "op_get_metadata_summary (op_cx (summary_only ctx)) = op_get_metadata_summary ctx"
proof -
  have name: "tp_name (cx_target (op_cx (summary_only ctx))) = tp_name (cx_target ctx)"
    by (simp add: op_cx_def summary_only_def)
  have "failure_result (op_cx (summary_only ctx)) operation stage e = failure_result ctx operation stage e"
    "ok_result (op_cx (summary_only ctx)) operation stage s d v = ok_result ctx operation stage s d v"
    for operation stage e s d v
    unfolding failure_result_def ok_result_def basic_result_def name by (rule refl)+
  moreover have "op_transact (op_cx (summary_only ctx)) F_get_metadata_summary payload observed =
      op_transact ctx F_get_metadata_summary payload observed" for payload observed
    by (simp add: op_transact_def op_cx_def summary_only_def require_command_def)
  ultimately show ?thesis
    by (simp add: op_get_metadata_summary_def guarded_def read_metadata_summary_def cong: if_cong)
qed

lemma summary_op_wire:
  assumes "wire_keeps (cx_transport ctx) only_reads P" "known_target (cx_target ctx)"
  shows "op_wire (summary_only ctx) only_reads P"
proof -
  have "CPU1_COMMAND_SET F_get_metadata_summary = Some (command_code CMD_GET_METADATA_SUMMARY)"
    by simp
  then show ?thesis
    using assms
    by unfold_locales (auto simp: summary_only_def known_target_def CPU1_PROFILE_def CPU2_PROFILE_def
        only_reads_def split: if_splits)
qed


section \<open>What is written\<close>

text \<open>A new transport has written nothing, and opening and closing it writes no frame.\<close>

definition quiet_lifecycle :: "'t cli_env \<Rightarrow> ('t \<Rightarrow> int list list) \<Rightarrow> bool" where
  "quiet_lifecycle env sent \<longleftrightarrow>
     (\<forall>config t. ev_make env config = Inr t \<longrightarrow> sent t = []) \<and>
     (\<forall>token t. sent (snd (bt_open (ev_transport env) token t)) = sent t) \<and>
     (\<forall>t. sent (snd (bt_close (ev_transport env) t)) = sent t)"

abbreviation wrote_only :: "(int \<Rightarrow> int list \<Rightarrow> bool) \<Rightarrow> ('t \<Rightarrow> int list list) \<Rightarrow> 't world \<Rightarrow> bool" where
  "wrote_only allowed sent \<equiv> wire_world (\<lambda>t. \<forall>data \<in> set (sent t). request_frame allowed data)"

lemma lifecycle_wrote:
  fixes env :: "'t cli_env"
  assumes "quiet_lifecycle env sent"
  shows "ev_make env config = Inr t \<Longrightarrow> wrote_only allowed sent (UpgradeSession t)"
    and "wrote_only allowed sent w \<Longrightarrow> wrote_only allowed sent (w\<lparr>wd_asked := n\<rparr>)"
    and "keeps_state (wrote_only allowed sent) (on_boot_client (session_connect (ev_transport env) token))"
    and "keeps_state (wrote_only allowed sent) (on_boot_client (session_disconnect (ev_transport env)))"
proof -
  note q = assms [unfolded quiet_lifecycle_def]
  show "wrote_only allowed sent (UpgradeSession t)" if "ev_make env config = Inr t"
    using q that by (simp add: wire_def UpgradeSession_def BootProtocolClient_def)
  show "wrote_only allowed sent w \<Longrightarrow> wrote_only allowed sent (w\<lparr>wd_asked := n\<rparr>)"
    by simp
  have run: "keeps_state (wrote_only allowed sent) (on_boot_client (on_transport m))"
    if "\<And>t. sent (snd (m t)) = sent t" for m :: "('t, 'a) sm"
    using that by (auto simp: keeps_def on_boot_client_def on_transport_def wire_def
        split: prod.splits sum.split) (metis snd_conv)+
  show "keeps_state (wrote_only allowed sent) (on_boot_client (session_disconnect (ev_transport env)))"
    unfolding session_disconnect_def by (rule run) (use q in simp)
  have "on_boot_client (session_connect (ev_transport env) token) =
      thenM (on_boot_client reset_connection_state) (on_boot_client (on_transport (bt_open (ev_transport env) token)))"
    by (rule ext) (simp add: session_connect_def on_boot_client_def thenM_def bindM_def reset_connection_state_def
        modM_def split: prod.split)
  moreover have "keeps_state (wrote_only allowed sent) (on_boot_client reset_connection_state)"
    by (simp add: keeps_def on_boot_client_def reset_connection_state_def modM_def wire_def)
  ultimately show "keeps_state (wrote_only allowed sent) (on_boot_client (session_connect (ev_transport env) token))"
    using q by (auto intro!: keeps_state_then run)
qed


section \<open>The properties\<close>

lemma discovery_wrote:
  assumes "logs tr sent" "\<And>cmd payload. cmd \<in> {command_code CMD_GET_DEVICE_INFO,
    command_code CMD_GET_PROTOCOL_INFO} \<Longrightarrow> allowed cmd payload"
  shows "keeps (wrote_only allowed sent) (discover_connected_target tr) finds_known (\<lambda>_. True)"
proof -
  have w: "op_wire (discovery_flash_context tr) allowed (\<lambda>t. \<forall>data \<in> set (sent t). request_frame allowed data)"
    by (rule discovery_op_wire [OF logs_request_frames [OF assms(1)] assms(2)])
  show ?thesis
    by (rule discover_keeps; rule keeps_state)
      (use op_wire.wire_infos [OF w] in \<open>simp_all add: discovery_op_cx\<close>)
qed

lemma discovery_spares: "cmd \<in> {command_code CMD_GET_DEVICE_INFO, command_code CMD_GET_PROTOCOL_INFO} \<Longrightarrow>
    spares_boot_sector cmd payload \<and> only_reads cmd payload"
  by (auto simp: spares_boot_sector_def only_reads_def)

lemma main_spares_boot_sector:
  fixes env :: "'t cli_env"
  assumes "logs (ev_transport env) sent" "quiet_lifecycle env sent"
  shows "session_keeps env args observed (\<lambda>_. True) known_target (wrote_only spares_boot_sector sent)"
proof -
  have w: "op_wire fctx spares_boot_sector (\<lambda>t. \<forall>data \<in> set (sent t). request_frame spares_boot_sector data)"
    if "cx_transport fctx = ev_transport env" "known_target (cx_target fctx)" for fctx :: "'t flash_context"
    using that logs_request_frames [OF assms(1)] by (intro known_op_wire) simp_all
  have op: "keeps_state (wrote_only spares_boot_sector sent)
      (run_operation (flash_operation_context env token target service) op)" if "known_target target"
    for token target service op
    by (rule keeps_state [OF op_wire.wire_run [OF w]])
      (use that in \<open>simp_all add: flash_operation_context_def\<close>)
  show ?thesis
  proof
    show "keeps_state (wrote_only spares_boot_sector sent)
        (op_get_metadata_summary (operation_context env token target))" if "known_target target" for target token
      using op [OF that, of token undefined Read_Metadata_Summary] by simp
  qed (use op discovery_spares in \<open>auto intro!: lifecycle_wrote [OF assms(2)] discovery_wrote [OF assms(1)]\<close>)
qed

lemma main_reads_only:
  fixes env :: "'t cli_env"
  assumes "logs (ev_transport env) sent" "quiet_lifecycle env sent" "\<not> consents env args"
  shows "session_keeps env args observed (\<lambda>_. False) known_target (wrote_only only_reads sent)"
proof -
  have op: "keeps_state (wrote_only only_reads sent) (op_get_metadata_summary (operation_context env token target))"
    if "known_target target" for target token
  proof -
    let ?ctx = "operation_context env token target"
    have "op_wire (summary_only ?ctx) only_reads (\<lambda>t. \<forall>data \<in> set (sent t). request_frame only_reads data)"
      by (rule summary_op_wire) (use that logs_request_frames [OF assms(1)] in \<open>simp_all add: operation_context_def\<close>)
    from op_wire.wire_summary [OF this] show ?thesis
      by (simp add: summary_of_summary_only keeps_state)
  qed
  show ?thesis
    by unfold_locales
      (use op discovery_spares assms(3) in \<open>auto intro!: lifecycle_wrote [OF assms(2)] discovery_wrote [OF assms(1)]\<close>)
qed


text \<open>
  C10.  The command line never erases the boot loader.  Whatever the command and its arguments, the files, the
  user's answers, the requests for cancellation and the answers of the target, every byte string that an
  invocation writes to its transport is a request frame, and an erase request among them names at least one
  sector, never the boot loader's, and only sectors that an application may use.
\<close>

theorem cli_never_erases_boot_sector:
  assumes "logs (ev_transport env) sent" "quiet_lifecycle env sent"
  shows "\<forall>w \<in> set (rt_released (snd (cli_main env config args CliRuntime))).
    \<forall>data \<in> set (sent (bc_transport (wd_client w))). harmless_frame data"
  using session_keeps.main_sessions [OF main_spares_boot_sector [OF assms, where args = args and observed = False]]
  by (simp add: list_all_iff wire_def harmless_request)

section \<open>Consent\<close>

text \<open>The commands that change the Flash, start a program or reset the CPU.\<close>

definition acting_commands :: "int set" where
  "acting_commands = command_code ` {CMD_ERASE, CMD_PROGRAM_BEGIN, CMD_PROGRAM_DATA, CMD_PROGRAM_END,
     CMD_METADATA_APPEND_RECORD, CMD_RUN, CMD_RUN_RAM, CMD_RESET}"

definition never_acts :: "int \<Rightarrow> int list \<Rightarrow> bool" where
  "never_acts cmd payload \<longleftrightarrow> cmd \<notin> acting_commands"

lemma CPU1_acts: "CPU1_COMMAND_SET field = Some cmd \<Longrightarrow> field \<notin> acting_fields \<Longrightarrow> cmd \<notin> acting_commands"
  by (cases field) (simp_all add: acting_commands_def acting_fields_def)

lemma known_op_client:
  assumes "known_target (cx_target fctx)" "wire_keeps (cx_transport fctx) never_acts P"
  shows "op_client fctx (\<lambda>_ _. False) (wire P)"
proof
  show "keeps_state (wire P) (bc_transact (cx_transport fctx) cmd payload ms observed)"
    if "tp_command_set (cx_target fctx) field = Some cmd" "field \<in> acting_fields \<Longrightarrow> False"
    for field cmd payload ms observed
  proof (rule bc_transact_wire [OF assms(2)])
    have "field \<notin> acting_fields"
      using that(2) by blast
    then show "never_acts cmd payload"
      using assms(1) that(1) CPU1_acts [of field cmd]
      by (auto simp: known_target_def never_acts_def CPU1_PROFILE_def CPU2_PROFILE_def)
  qed
qed

lemma unconfirmed_acts: "unconfirmed op \<Longrightarrow> acts may op"
  by (cases op) simp_all

lemma main_never_acts:
  fixes env :: "'t cli_env"
  assumes "logs (ev_transport env) sent" "quiet_lifecycle env sent" "\<not> consents env args"
  shows "session_keeps env args observed unconfirmed known_target (wrote_only never_acts sent)"
proof -
  have op: "keeps_state (wrote_only never_acts sent)
      (run_operation (flash_operation_context env token target service) op)" if "known_target target" "unconfirmed op"
    for token target service op
  proof -
    have "op_client (flash_operation_context env token target service) (\<lambda>_ _. False)
        (wire (\<lambda>t. \<forall>data \<in> set (sent t). request_frame never_acts data))"
      by (rule known_op_client)
        (use that logs_request_frames [OF assms(1)] in \<open>simp_all add: flash_operation_context_def\<close>)
    from op_client.sound_run_operation [OF this unconfirmed_acts [OF that(2)]] show ?thesis
      by (rule keeps_state)
  qed
  have reads: "never_acts cmd payload"
    if "cmd \<in> {command_code CMD_GET_DEVICE_INFO, command_code CMD_GET_PROTOCOL_INFO}" for cmd payload
    using that by (auto simp: never_acts_def acting_commands_def)
  show ?thesis
  proof
    show "keeps_state (wrote_only never_acts sent)
        (op_get_metadata_summary (operation_context env token target))" if "known_target target" for target token
      using op [OF that, of Read_Metadata_Summary token undefined] by simp
  qed (use op reads assms(3) in \<open>auto intro!: lifecycle_wrote [OF assms(2)] discovery_wrote [OF assms(1)]\<close>)
qed

text \<open>
  C8.  Nothing is erased, programmed, published, confirmed, started or reset without consent.  Unless
  \<open>--yes\<close> was given or the user approves, no invocation - whatever its command, with \<open>ram load\<close>,
  \<open>service attach\<close> and \<open>verify\<close>, which are not confirmed, among them - writes a request that erases or programs
  Flash, appends a metadata record, starts an application or resets the CPU.  The eight commands that are
  confirmed and the four that only describe the target write nothing but requests for the device information,
  the protocol information and the metadata summary, so that not even a service is loaded before the answer.
\<close>

theorem cli_acts_only_with_consent:
  assumes "\<not> consents env args" "logs (ev_transport env) sent" "quiet_lifecycle env sent"
  shows "\<forall>w \<in> set (rt_released (snd (cli_main env config args CliRuntime))).
    \<forall>data \<in> set (sent (bc_transport (wd_client w))). \<exists>request. encode_bytes request = Inr data \<and>
      fr_command request \<notin> command_code ` {CMD_ERASE, CMD_PROGRAM_BEGIN, CMD_PROGRAM_DATA, CMD_PROGRAM_END,
        CMD_METADATA_APPEND_RECORD, CMD_RUN, CMD_RUN_RAM, CMD_RESET} \<and>
      (ag_command args \<in> asking_commands \<union> reading_commands \<longrightarrow>
        fr_command request \<in> command_code ` {CMD_GET_DEVICE_INFO, CMD_GET_PROTOCOL_INFO, CMD_GET_METADATA_SUMMARY})"
proof (cases "ag_command args \<in> asking_commands \<union> reading_commands")
  case True
  have reads: "cmd \<notin> acting_commands \<and>
      cmd \<in> command_code ` {CMD_GET_DEVICE_INFO, CMD_GET_PROTOCOL_INFO, CMD_GET_METADATA_SUMMARY}"
    if "only_reads cmd p" for cmd p
    using that by (auto simp: only_reads_def acting_commands_def)
  have "list_all (wrote_only only_reads sent) (rt_released (snd (cli_main env config args CliRuntime)))"
    by (rule session_keeps.main_sessions [OF main_reads_only [OF assms(2,3,1), where observed = False]])
      (use True in simp_all)
  then show ?thesis
    unfolding acting_commands_def [symmetric] list_all_iff wire_def request_frame_def using reads by blast
next
  case False
  then show ?thesis
    using session_keeps.main_sessions [OF main_never_acts [OF assms(2,3,1), where observed = False], of config]
    unfolding acting_commands_def [symmetric]
    by (auto simp: list_all_iff wire_def request_frame_def never_acts_def)
qed

end
