(* ===== verification/Serial_Spec.thy ===== *)
theory Serial_Spec
  imports Transport Op_Rules
begin

text \<open>
  The lifecycle of the serial port: in whatever way opening ends, the port is left open exactly when the
  caller is told so.
\<close>

section \<open>What does not change the flag\<close>

abbreviation flag :: "bool \<Rightarrow> 'p serial_transport \<Rightarrow> bool" where
  "flag b \<equiv> \<lambda>s. sr_open s = b"

lemma flag_port: "keeps_state (flag b) (on_port m)"
  by (rule keepsI) (auto simp: on_port_def split: prod.splits sum.split)

lemma flag_asked: "keeps_state (flag b) (ask_serial_token token)"
  by (rule keepsI) (auto simp: ask_serial_token_def split: prod.splits sum.split)

lemma flag_wait: "keeps_state (flag b) (cancellable_wait token remaining)"
  by (induction remaining) (auto intro!: keeps_state_bind flag_asked simp: keeps_state_simps)

lemma flag_try: "keeps_state (flag b) (autobaud_try ps rx token ms)"
  unfolding autobaud_try_def
  by (rule keeps_catch [where E' = "\<lambda>_. True"])
    (auto intro!: keeps_state_bind keeps_state_then flag_port flag_asked keeps_if simp: keeps_state_simps split: exc.split)

lemma flag_autobaud: "keeps_state (flag b) (autobaud ps rx token remaining)"
proof (induction remaining)
  case (Cons ms remaining)
  then show ?case
    by (auto intro!: keeps_state_bind flag_asked flag_try keeps_if simp: keeps_state_simps split: option.split)
qed (auto intro!: keeps_state_bind flag_asked keeps_if simp: keeps_state_simps)

lemma flag_require: "keeps_state (flag b) serial_require_open"
  unfolding serial_require_open_def by (rule keeps_state_bind) (auto simp: keeps_state_simps)

lemma flag_finish: "keeps_state (flag b) (finish_open ps waits config token)"
  unfolding finish_open_def
  by (intro keeps_state_bind keeps_state_then keeps_if flag_wait flag_require flag_autobaud flag_asked keeps_state_simps)

lemma flag_io: "keeps_state (flag b) (serial_write_all ps data)" "keeps_state (flag b) (serial_read_some ps n)"
  unfolding serial_write_all_def serial_read_some_def wrap_errors_def
  by (intro keeps_state_bind keeps_state_then keeps_if flag_require flag_port keeps_catch [where E' = "\<lambda>_. True"]
      keeps_state_simps)+

section \<open>Closing and opening\<close>

text \<open>A port whose \<open>close\<close> does not raise.\<close>

definition closes :: "'p pyserial \<Rightarrow> bool" where
  "closes ps \<longleftrightarrow> (\<forall>p. fst (py_close ps p) = Inr ())"

lemma serial_close_open:
  assumes "sr_open s" "py_close ps (sr_port s) = (x, p)"
  shows "serial_close ps s = (case x of
      Inr _ \<Rightarrow> (Inr (), s\<lparr>sr_port := p, sr_open := False\<rparr>)
    | Inl e \<Rightarrow> (Inl (if is_exception e then TransportError (''failed to close serial port: '' @ exc_msg e) else e),
        s\<lparr>sr_port := p\<rparr>))"
  using assms
  by (simp add: serial_close_def thenM_def bindM_def wrap_errors_def catchM_def on_port_def
      del: append_Cons split: sum.split)

lemma serial_close_result:
  assumes "serial_close ps s = (Inr (), s')"
  shows "\<not> sr_open s'"
proof (cases "sr_open s")
  case True
  obtain x p where "py_close ps (sr_port s) = (x, p)"
    by (cases "py_close ps (sr_port s)")
  from serial_close_open [OF True this] assms show ?thesis
    by (auto split: sum.splits)
qed (use assms in \<open>simp add: serial_close_def bindM_def\<close>)

lemma serial_close_closes:
  assumes "closes ps" "serial_close ps s = (r, s')"
  shows "r = Inr ()" "\<not> sr_open s'"
proof -
  obtain x p where x: "py_close ps (sr_port s) = (x, p)"
    by (cases "py_close ps (sr_port s)")
  moreover have "fst (py_close ps (sr_port s)) = Inr ()"
    using assms(1) by (simp add: closes_def)
  ultimately show r: "r = Inr ()"
    using assms(2) serial_close_open [of s, OF _ x] by (cases "sr_open s") (simp_all add: serial_close_def bindM_def)
  then show "\<not> sr_open s'"
    using serial_close_result assms(2) by blast
qed

lemma cancel_open_eq:
  assumes "closes ps"
  shows "cancel_open ps stage s = (TransportOpenResult TRANSPORT_CANCELLED True stage, snd (serial_close ps s))"
  using serial_close_closes(1) [OF assms surjective_pairing, of s]
  by (cases "serial_close ps s") (simp add: cancel_open_def thenM_def bindM_def catchM_def del: append_Cons)

lemma cancel_open_closes:
  assumes "closes ps" "cancel_open ps stage s = (r, s')"
  shows "\<not> sr_open s'" "r = Inr result \<Longrightarrow> tor_status result = TRANSPORT_CANCELLED"
  using assms(2) serial_close_closes(2) [OF assms(1) surjective_pairing, of s]
  by (auto simp: cancel_open_eq [OF assms(1)] TransportOpenResult_def split: if_splits)

lemma open_settled_flag:
  assumes "closes ps" "open_settled ps waits config token s = (r, s')" "sr_open s"
  shows "r = Inr stage \<Longrightarrow> sr_open s'" "r = Inl e \<Longrightarrow> e = Diverges \<or> \<not> sr_open s'"
proof -
  define m where "m = thenM (on_port (py_set_dtr ps False)) (thenM (on_port (py_set_rts ps False))
    (finish_open ps waits config token))"
  have flag: "keeps_state (flag True) m"
    unfolding m_def by (intro keeps_state_then flag_port flag_finish)
  obtain x t where x: "m s = (x, t)" "sr_open t"
    using keepsD(1) [OF flag, of s] assms(3) by (cases "m s") auto
  obtain t' where t': "serial_close ps t = (Inr (), t')" "\<not> sr_open t'"
    using serial_close_closes [OF assms(1)] by (metis surjective_pairing)
  have "open_settled ps waits config token s = (case x of
      Inr stage \<Rightarrow> (Inr stage, t) | Inl e \<Rightarrow> (Inl e, if e = Diverges then t else t'))"
    unfolding open_settled_def m_def [symmetric]
    using x t'(1) by (simp add: catchM_def bindM_def thenM_def is_exception_def del: append_Cons split: sum.split)
  then show "r = Inr stage \<Longrightarrow> sr_open s'" "r = Inl e \<Longrightarrow> e = Diverges \<or> \<not> sr_open s'"
    using assms(2) x(2) t'(2) by (auto split: sum.splits if_splits)
qed

lemma ask_result:
  obtains c s' where "ask_serial_token token s = (Inr c, s')" "sr_open s' = sr_open s"
  by (cases "cancellation_requested token (sr_asked s)") (simp add: ask_serial_token_def)

lemma serial_open_cancelled:
  assumes "\<not> sr_open s" "ask_serial_token token s = (Inr True, s1)"
  shows "serial_open ps waits config token s =
    (TransportOpenResult TRANSPORT_CANCELLED True ''BEFORE_SERIAL_OPEN'', s1)"
  using assms by (simp add: serial_open_def bindM_def)

abbreviation create_port :: "'p pyserial \<Rightarrow> serial_transport_config \<Rightarrow> ('p serial_transport, unit) sm" where
  "create_port ps config \<equiv> on_port (py_create ps (stc_port config) (stc_baudrate config)
     (stc_rx_timeout_ms config) (stc_tx_timeout_ms config))"

lemma serial_open_not_created:
  assumes "\<not> sr_open s" "ask_serial_token token s = (Inr False, s1)" "create_port ps config s1 = (Inl e, s2)"
  shows "serial_open ps waits config token s = (Inl e, s2)"
  using assms by (simp add: serial_open_def bindM_def thenM_def)

lemma serial_open_created:
  assumes "\<not> sr_open s" "ask_serial_token token s = (Inr False, s1)" "create_port ps config s1 = (Inr (), s2)"
    and "ask_serial_token token (s2\<lparr>sr_open := True\<rparr>) = (Inr d, s3)"
  shows "serial_open ps waits config token s =
    (if d then cancel_open ps ''AFTER_SERIAL_OPEN''
     else bindM (open_settled ps waits config token) (\<lambda>stage. case stage of
       Some stage \<Rightarrow> cancel_open ps stage
     | None \<Rightarrow> liftM (TransportOpenResult TRANSPORT_OPENED False ''OPEN_COMPLETE''))) s3"
  using assms by (simp add: serial_open_def thenM_def bindM_def modM_def)

text \<open>The port is open exactly after \<open>OPENED\<close>.\<close>

lemma serial_open_flag:
  assumes "closes ps" "\<not> sr_open s" "serial_open ps waits config token s = (r, s')" "r \<noteq> Inl Diverges"
  shows "sr_open s' \<longleftrightarrow> (\<exists>result. r = Inr result \<and> tor_status result = TRANSPORT_OPENED)"
proof -
  note close = cancel_open_closes [OF assms(1)] and settled = open_settled_flag [OF assms(1)]
  obtain c s1 where s1: "ask_serial_token token s = (Inr c, s1)" "sr_open s1 = sr_open s"
    by (rule ask_result)
  obtain x s2 where x: "create_port ps config s1 = (x, s2)"
    by (cases "create_port ps config s1")
  have s2: "\<not> sr_open s2"
    using keepsD(1) [OF flag_port _ x, of False] s1(2) assms(2) by simp
  obtain d s3 where s3: "ask_serial_token token (s2\<lparr>sr_open := True\<rparr>) = (Inr d, s3)"
      "sr_open s3 = sr_open (s2\<lparr>sr_open := True\<rparr>)"
    by (rule ask_result)
  then have "sr_open s3"
    by simp
  obtain y s4 where y: "open_settled ps waits config token s3 = (y, s4)"
    by (cases "open_settled ps waits config token s3")
  show ?thesis
  proof (cases c)
    case True
    then show ?thesis
      using serial_open_cancelled [OF assms(2), of token s1] s1 assms(2,3) by (auto simp: TransportOpenResult_def)
  next
    case c: False
    show ?thesis
    proof (cases x)
      case (Inl e)
      then show ?thesis
        using serial_open_not_created [OF assms(2), of token s1 ps config e s2] s1(1) c x s2 assms(3) by auto
    next
      case (Inr u)
      have run: "(r, s') = (if d then cancel_open ps ''AFTER_SERIAL_OPEN''
          else bindM (open_settled ps waits config token) (\<lambda>stage. case stage of
            Some stage \<Rightarrow> cancel_open ps stage
          | None \<Rightarrow> liftM (TransportOpenResult TRANSPORT_OPENED False ''OPEN_COMPLETE''))) s3"
        unfolding assms(3) [symmetric]
        by (rule serial_open_created) (use assms(2) s1(1) c x Inr s3(1) in simp_all)
      show ?thesis
      proof (cases d)
        case True
        then show ?thesis
          using run close [of "''AFTER_SERIAL_OPEN''" s3 r s'] by auto
      next
        case d: False
        show ?thesis
        proof (cases y)
          case (Inl e)
          then have "r = Inl e" "s' = s4"
            using run d y by (simp_all add: bindM_Inl)
          then show ?thesis
            using settled(2) [OF y \<open>sr_open s3\<close> Inl] assms(4) by simp
        next
          case (Inr stage)
          then have "(r, s') = (case stage of Some stage \<Rightarrow> cancel_open ps stage
              | None \<Rightarrow> liftM (TransportOpenResult TRANSPORT_OPENED False ''OPEN_COMPLETE'')) s4"
            using run d y by (simp add: bindM_Inr)
          then show ?thesis
            using settled(1) [OF y \<open>sr_open s3\<close> Inr] close [of _ s4 r s']
            by (cases stage) (auto simp: TransportOpenResult_def)
        qed
      qed
    qed
  qed
qed

text \<open>
  C12.  Opening the serial port is all or nothing.  Unless a method of the port never returns, \<open>open\<close> of a
  closed transport over a port that can be closed leaves the port open exactly when it returns
  \<open>OPENED\<close>: after a cancellation at any stage, an autobaud timeout or any exception the port is closed again.
\<close>

theorem serial_open_all_or_nothing:
  assumes "closes ps" "\<not> sr_open s" "serial_open ps waits config token s = (r, s')" "r \<noteq> Inl Diverges"
  shows "sr_open s' \<longleftrightarrow> (\<exists>result. r = Inr result \<and> tor_status result = TRANSPORT_OPENED)"
  by (rule serial_open_flag [OF assms])

end
