(* ===== verification/Cli_Cleanup.thy ===== *)
theory Cli_Cleanup
  imports Cli_Rules Serial_Spec
begin

text \<open>
  What an invocation leaves behind: whatever happens between \<open>connect\<close> and the final \<open>disconnect\<close>, at most one
  session was created and its transport is closed when the invocation returns.
\<close>

section \<open>The contract of a transport\<close>

locale transport_lifecycle =
  fixes tr :: "'t byte_transport" and opened :: "'t \<Rightarrow> bool"
  assumes open_law: "\<not> opened t \<Longrightarrow> bt_open tr token t = (r, t') \<Longrightarrow> r \<noteq> Inl Diverges \<Longrightarrow>
      opened t' \<longleftrightarrow> (\<exists>result. r = Inr result \<and> tor_status result = TRANSPORT_OPENED)"
    and close_law: "bt_close tr t = (x, t') \<Longrightarrow> \<not> opened t'"

text \<open>The port with a \<open>close\<close> that does not raise; every port that \<open>closes\<close> is of this form.\<close>

definition closing_port :: "'p pyserial \<Rightarrow> 'p pyserial" where
  "closing_port ps = ps\<lparr>py_close := (\<lambda>p. (Inr (), snd (py_close ps p)))\<rparr>"

lemma closing_port_closes: "closes (closing_port ps)"
  by (simp add: closes_def closing_port_def)

lemma closing_port_id: "closes ps \<Longrightarrow> closing_port ps = ps"
  unfolding closing_port_def closes_def
  by (cases ps) (auto simp: fun_eq_iff prod_eq_iff)

interpretation serial_lifecycle: transport_lifecycle "serial_byte_transport (closing_port ps) waits config" sr_open
  for ps :: "'p pyserial" and waits config
  by unfold_locales
    (simp_all add: serial_byte_transport_def serial_open_flag [OF closing_port_closes]
      serial_close_closes [OF closing_port_closes])

section \<open>The runtime\<close>

locale cli_lifecycle = transport_lifecycle "ev_transport env" opened
  for env :: "'t cli_env" and opened +
  assumes made: "ev_make env transport_config = Inr t \<Longrightarrow> \<not> opened t"
begin

definition closed :: "'t world \<Rightarrow> bool" where
  "closed w \<longleftrightarrow> \<not> opened (bc_transport (wd_client w))"

definition idle :: "'t cli_runtime \<Rightarrow> bool" where
  "idle r \<longleftrightarrow> rt_session r = None \<and> length (rt_released r) \<le> 1 \<and> list_all closed (rt_released r)"

definition tidy :: "'t cli_runtime \<Rightarrow> bool" where
  "tidy r \<longleftrightarrow> (if rt_session r = None then idle r else rt_released r = [])"

lemma tidy_simps [simp]:
  "tidy (r\<lparr>rt_prompts := ps\<rparr>) = tidy r" "tidy (r\<lparr>rt_stage := st\<rparr>) = tidy r" "tidy (r\<lparr>rt_connected := c\<rparr>) = tidy r"
  "tidy (r\<lparr>rt_discovery_attempted := c\<rparr>) = tidy r" "tidy (r\<lparr>rt_discovery_outcome := out\<rparr>) = tidy r"
  by (simp_all add: tidy_def idle_def)

lemma tidy_session: "rt_session r \<noteq> None \<Longrightarrow> tidy (r\<lparr>rt_session := Some w\<rparr>) = tidy r"
  by (auto simp: tidy_def)

lemma keeps_tidy_session: "keeps_state tidy (on_session m)"
  by (rule keepsI) (auto simp: on_session_def tidy_session split: option.splits prod.splits sum.split)

lemma tidy_clear: "tidy r \<Longrightarrow> pred_option closed (rt_session r) \<Longrightarrow> idle (clear_connection_state r)"
  by (auto simp: tidy_def idle_def clear_connection_state_def split: option.splits if_splits)

lemma idle_tidy: "idle r \<Longrightarrow> tidy r"
  by (simp add: tidy_def idle_def)

text \<open>After a disconnection everything is closed, whether or not it raised.\<close>

lemma disconnect_idle:
  assumes "tidy r"
  shows "idle (snd (rt_disconnect env r))"
proof (cases "rt_session r")
  case (Some w)
  obtain x w' where w': "on_boot_client (session_disconnect (ev_transport env)) w = (x, w')"
    by (cases "on_boot_client (session_disconnect (ev_transport env)) w")
  then have "closed w'"
    using close_law by (auto simp: on_boot_client_def session_disconnect_def on_transport_def closed_def
        split: prod.splits)
  then have "idle (clear_connection_state (r\<lparr>rt_session := Some w'\<rparr>))"
    using assms Some by (intro tidy_clear) (simp_all add: tidy_session)
  then show ?thesis
    using Some w' by (simp add: rt_disconnect_def)
qed (use assms in \<open>simp add: rt_disconnect_def tidy_clear\<close>)

lemma keeps_disconnect: "keeps_state tidy (rt_disconnect env)"
  by (rule keepsI) (metis disconnect_idle idle_tidy snd_conv sum.case_eq_if)

lemma keeps_discover: "keeps_state tidy (rt_discover env)"
proof -
  have quiet: "keeps_state tidy (disconnect_quiet env)"
    unfolding disconnect_quiet_def
    by (intro keeps_catch [where E' = "\<lambda>_. True"] keeps_disconnect keeps_if keeps_state_simps)
  have modify: "keeps_state tidy (modM f)" if "\<And>r. tidy r \<Longrightarrow> tidy (f r)" for f
    by (rule keeps_mod) (simp_all add: that)
  show ?thesis
    unfolding rt_discover_def
    by (rule keeps_state_bind, rule keeps_state_simps)
      (auto intro!: keeps_state_then keeps_state_bind modify keeps_catch [where E' = "\<lambda>_. True"] keeps_tidy_session
        quiet keeps_disconnect keeps_if simp: keeps_state_simps split: option.split)
qed

end

sublocale cli_lifecycle \<subseteq> handlers env args observed "\<lambda>_. True" "\<lambda>_. True" tidy for args observed
proof unfold_locales
  show "tidy (snd (cancel_requested env r))" if "tidy r" for r
    using that by (auto simp: cancel_requested_def tidy_session split: option.split)
qed (simp_all add: keeps_tidy_session session_client_def)


section \<open>Connecting\<close>

context cli_lifecycle
begin

lemma connected_session:
  assumes "\<not> opened t" "on_boot_client (session_connect (ev_transport env) token) (UpgradeSession t) = (x, w)"
  shows "x = Inl Diverges \<or> (closed w \<longleftrightarrow> \<not> (\<exists>result. x = Inr result \<and> tor_status result = TRANSPORT_OPENED))"
proof -
  obtain y t' where y: "bt_open (ev_transport env) token t = (y, t')"
    by (cases "bt_open (ev_transport env) token t")
  then have "x = y" "bc_transport (wd_client w) = t'"
    using assms(2) by (auto simp: UpgradeSession_def BootProtocolClient_def on_boot_client_def session_connect_def
        thenM_def bindM_def reset_connection_state_def modM_def on_transport_def)
  then show ?thesis
    using open_law [OF assms(1) y] by (auto simp: closed_def)
qed

lemma create_session_result:
  assumes "rt_session r = None" "rt_released r = []" "create_session env config r = (x, r')"
  shows "(\<exists>e. x = Inl e \<and> r' = r) \<or>
    (\<exists>w. rt_session r' = Some w \<and> rt_released r' = [] \<and> (x = Inl Diverges \<or>
       (closed w \<longleftrightarrow> \<not> (\<exists>result. x = Inr result \<and> tor_status result = TRANSPORT_OPENED))))"
proof (cases "bindE (serial_config config) (ev_make env)")
  case (Inl e)
  then show ?thesis
    using assms(3) by (auto simp: create_session_def bindM_def)
next
  case (Inr t)
  then have t: "\<not> opened t"
    using made by (auto simp: bindE_Inr_iff)
  obtain y w where y: "on_boot_client (session_connect (ev_transport env) (Some (ev_token env))) (UpgradeSession t) = (y, w)"
    by (cases "on_boot_client (session_connect (ev_transport env) (Some (ev_token env))) (UpgradeSession t)")
  then have "x = y" "r' = r\<lparr>rt_session := Some w\<rparr>"
    using assms(3) Inr by (auto simp: create_session_def bindM_def thenM_def modM_def on_session_def)
  then show ?thesis
    using connected_session [OF t y] assms(2) by auto
qed

lemma clear_new: "rt_session r = None \<Longrightarrow> rt_released r = [] \<Longrightarrow>
    rt_session (clear_connection_state r) = None \<and> rt_released (clear_connection_state r) = []"
  by (simp add: clear_connection_state_def)

lemma tidy_new: "rt_session r = None \<Longrightarrow> rt_released r = [] \<Longrightarrow> tidy r"
  by (simp add: tidy_def idle_def)

lemma connect_tidy:
  assumes "rt_session r = None" "rt_released r = []"
  shows "tidy (snd (rt_connect env config r))"
proof -
  define r0 where "r0 = clear_connection_state r"
  have new: "rt_session r0 = None" "rt_released r0 = []"
    using clear_new [OF assms] by (simp_all add: r0_def)
  obtain x r' where x: "create_session env config r0 = (x, r')"
    by (cases "create_session env config r0")
  have released: "idle (clear_connection_state r')"
    if "x \<noteq> Inl Diverges" "\<not> (\<exists>result. x = Inr result \<and> tor_status result = TRANSPORT_OPENED)"
    using create_session_result [OF new x] new that
    by (auto simp: idle_def clear_connection_state_def)
  have kept: "tidy r'" if "rt_session r' \<noteq> None"
    using create_session_result [OF _ _ x] new that by (auto simp: tidy_def)
  define finish where "finish = bindM (catchM (create_session env config)
      (\<lambda>e. if is_exception e then thenM (modM clear_connection_state) (raiseM (lifecycle_error e)) else raiseM e))
    (\<lambda>result. thenM (case tor_status result of
        TRANSPORT_OPENED \<Rightarrow> modM (\<lambda>r. r\<lparr>rt_connected := True\<rparr>)
      | TRANSPORT_CANCELLED \<Rightarrow> modM clear_connection_state) (returnM result))"
  have finish: "tidy (snd (finish r0))"
  proof (cases x)
    case (Inl e)
    then show ?thesis
      using x released create_session_result [OF _ _ x] new
      by (cases "e = Diverges")
        (auto simp: finish_def bindM_def catchM_def thenM_def modM_def is_exception_def idle_tidy tidy_new intro: kept)
  next
    case (Inr result)
    then have "rt_session r' \<noteq> None"
      using create_session_result [OF _ _ x] new by auto
    then show ?thesis
      using x released kept Inr
      by (cases "tor_status result") (simp_all add: finish_def bindM_def catchM_def thenM_def modM_def idle_tidy)
  qed
  have "rt_connect env config r = finish r0" if "\<not> rt_connected r" "require_port config = Inr port" for port
    using that unfolding rt_connect_def thenM_def finish_def r0_def
    by (simp add: bindM_Inr modM_def)
  then show ?thesis
    using tidy_new [OF assms] finish
    by (cases "rt_connected r"; cases "require_port config") (simp_all add: rt_connect_def thenM_def bindM_def)
qed

end


section \<open>One invocation\<close>

context cli_lifecycle
begin

lemma guarded_tidy:
  assumes "rt_session r = None" "rt_released r = []"
  shows "tidy (snd (run_guarded env config args r))"
proof -
  obtain x r' where x: "rt_connect env config r = (x, r')"
    by (cases "rt_connect env config r")
  have r': "tidy r'"
    using connect_tidy [OF assms, of config] x by simp
  define rest where "rest = (\<lambda>opened :: transport_open_result. if tor_status opened = TRANSPORT_CANCELLED
      then returnM (cancelled_outcome (ag_command args) (''connection cancelled during '' @ tor_stage opened))
      else bindM (rt_discover env) (\<lambda>discovery.
        if \<not> or_ok (do_result discovery) then returnM (outcome_of (ag_command args) (do_result discovery))
        else unless_requested env (ag_command args) ''cancelled after target discovery''
          (execute_command env args False)))"
  have rest: "keeps_state tidy (rest opened)" for opened
    unfolding rest_def
    by (intro keeps_if keeps_state_bind keeps_discover keeps_unless_requested keeps_execute keeps_state_simps) simp
  have run: "run_command env config args = bindM (rt_connect env config) rest"
    by (simp add: run_command_def Let_def rest_def)
  have "tidy (snd (run_command env config args r))"
    using x r' keepsD(1) [OF rest r' surjective_pairing] unfolding run by (cases x) (simp_all add: bindM_Inl bindM_Inr)
  then show ?thesis
    by (cases "run_command env config args r") (simp add: run_guarded_def catchM_def split: sum.split)
qed

lemma main_idle:
  assumes "cli_main env config args CliRuntime = (Inr outcome, r)"
  shows "idle r"
proof -
  have new: "rt_session CliRuntime = None" "rt_released CliRuntime = []"
    by (simp_all add: CliRuntime_def)
  show ?thesis
  proof (cases "validated_config config")
    case (Inl e)
    then show ?thesis
      using assms by (auto simp: cli_main_def idle_def CliRuntime_def)
  next
    case (Inr config')
    obtain x r1 where x: "run_guarded env config' args CliRuntime = (x, r1)"
      by (cases "run_guarded env config' args CliRuntime")
    then have "tidy r1"
      using guarded_tidy [OF new, of config' args] by simp
    moreover obtain out where "x = Inr out"
      using assms Inr x by (cases x) (auto simp: cli_main_def run_and_disconnect_def bindM_def)
    ultimately show ?thesis
      using assms Inr x disconnect_idle [of r1]
      by (cases "rt_disconnect env r1")
        (auto simp: cli_main_def run_and_disconnect_def bindM_def catchM_def thenM_def split: sum.splits if_splits)
  qed
qed

end

text \<open>\<open>create_serial_transport\<close>\<close>

definition serial_env ::
  "'p pyserial \<Rightarrow> (int \<Rightarrow> int list) \<Rightarrow> serial_transport_config \<Rightarrow> 'p \<Rightarrow> 'p serial_transport cli_env \<Rightarrow>
     'p serial_transport cli_env" where
  "serial_env ps waits config port env =
     env\<lparr>ev_transport := serial_byte_transport ps waits config, ev_make := (\<lambda>c. SerialTransport c port)\<rparr>"

interpretation serial_cli: cli_lifecycle "serial_env (closing_port ps) waits config port env" sr_open
  for ps :: "'p pyserial" and waits config port env
  by (intro cli_lifecycle.intro cli_lifecycle_axioms.intro)
    (auto simp: serial_env_def SerialTransport_def serial_lifecycle.transport_lifecycle_axioms split: if_splits)

text \<open>
  C9.  The command line never leaves the serial port open.  Whatever the command, its files, the answers of
  the target and of the user, and whenever cancellation is requested: when an invocation returns, no session
  is in use, at most one was created, and if the port's \<open>close\<close> does not raise, its port is closed.
\<close>

theorem cli_closes_port:
  assumes "closes ps"
    and "cli_main (serial_env ps waits port_config port env) config args CliRuntime = (Inr outcome, r)"
  shows "rt_session r = None \<and> length (rt_released r) \<le> 1 \<and>
    (\<forall>w \<in> set (rt_released r). \<not> sr_open (bc_transport (wd_client w)))"
  using serial_cli.main_idle [of ps waits port_config port env config args outcome r] assms(2)
  by (simp add: closing_port_id [OF assms(1)] serial_cli.idle_def serial_cli.closed_def list_all_iff)


section \<open>A port that cannot be opened\<close>

lemma require_port_nonempty: "require_port config = Inr p \<Longrightarrow> p \<noteq> []"
  by (auto simp: require_port_def strip_blank_def split: option.splits if_splits)

lemma valid_serial_config:
  assumes "validated_config config = Inr config'"
  obtains c where "config' = config" "serial_config config = Inr c" "require_port config = Inr (stc_port c)"
    "SerialTransport c port = Inr \<lparr>sr_port = port, sr_open = False, sr_asked = 0\<rparr>"
proof -
  obtain p where p: "CliRuntimeConfig config = Inr config" "config' = config" "require_port config = Inr p"
    using assms by (auto simp: validated_config_def CliRuntimeConfig_def bindE_Inr_iff split: if_splits)
  then have positive: "0 < cg_baud config" "pred_option (\<lambda>t. 0 < t) (cg_timeout_ms config)"
    by (auto simp: CliRuntimeConfig_def split: if_splits option.splits)
  obtain c where c: "serial_config config = Inr c"
    using p(3) by (simp add: serial_config_def)
  moreover have "stc_port c = p"
    "SerialTransport c port = Inr \<lparr>sr_port = port, sr_open = False, sr_asked = 0\<rparr>"
    using c p(3) positive require_port_nonempty [OF p(3)]
    by (auto simp: serial_config_def SerialTransport_def split: option.splits)
  ultimately show thesis
    using that p by blast
qed

text \<open>
  C13.  A port that cannot be opened is reported as an internal error.  The constructor of the serial port is
  called outside of the \<open>try\<close> block of \<open>SerialTransport.open\<close>, so that its exception (a missing or busy port) is
  not turned into a \<open>TransportError\<close>: the invocation ends with exit code 7, \<open>INTERNAL_ERROR\<close>, although the codes
  have 3, \<open>COMMUNICATION_FAILURE\<close>, for failures of the transport's lifecycle.
\<close>

theorem unopenable_port_is_internal_error:
  assumes "validated_config config = Inr config"
    and "\<And>port baud rx tx p. fst (py_create ps port baud rx tx p) = Inl (OtherError cls message)"
    and "\<not> ev_token env 0"
  shows "main_exit_code (serial_env ps waits port_config port env) config args = Inr 7"
proof -
  let ?env = "serial_env ps waits port_config port env" and ?e = "OtherError cls message"
  define t where "t = \<lparr>sr_port = port, sr_open = False, sr_asked = 0\<rparr>"
  obtain c where c: "serial_config config = Inr c" "require_port config = Inr (stc_port c)" "SerialTransport c port = Inr t"
    using valid_serial_config [OF assms(1), where port = port] unfolding t_def by blast
  have asked: "ask_serial_token (Some (ev_token env)) t = (Inr False, t\<lparr>sr_asked := Suc 0\<rparr>)"
    using assms(3) by (simp add: ask_serial_token_def cancellation_requested_def t_def)
  obtain s2 where s2: "create_port ps port_config (t\<lparr>sr_asked := Suc 0\<rparr>) = (Inl ?e, s2)"
    using assms(2) by (cases "create_port ps port_config (t\<lparr>sr_asked := Suc 0\<rparr>)")
      (auto simp: on_port_def split: prod.splits, metis fst_conv)
  have opened: "bt_open (ev_transport ?env) (Some (ev_token ?env)) t = (Inl ?e, s2)"
    using serial_open_not_created [OF _ asked s2] by (simp add: serial_env_def serial_byte_transport_def t_def)
  have "fst (rt_connect ?env config CliRuntime) = Inl ?e" "rt_session (snd (rt_connect ?env config CliRuntime)) = None"
    using c opened
    by (auto simp: rt_connect_def create_session_def thenM_def bindM_def catchM_def modM_def on_session_def on_boot_client_def
        session_connect_def reset_connection_state_def on_transport_def UpgradeSession_def BootProtocolClient_def
        CliRuntime_def clear_connection_state_def serial_env_def is_exception_def lifecycle_error_def)
  then obtain r where r: "rt_connect ?env config CliRuntime = (Inl ?e, r)" "rt_session r = None"
    by (cases "rt_connect ?env config CliRuntime") auto
  have "run_guarded ?env config args CliRuntime = (Inr (internal_outcome (ag_command args) message), r)"
    using r(1) by (simp add: run_guarded_def run_command_def Let_def bindM_Inl catchM_def is_exception_def
        exception_outcome_def)
  then show ?thesis
    using r(2) assms(1)
    by (simp add: main_exit_code_def cli_main_def run_and_disconnect_def bindM_def catchM_def thenM_def
        rt_disconnect_def internal_outcome_def)
qed

lemma unopenable_port_is_internal_error_witness:
  "main_exit_code (serial_env \<lparr>py_create = (\<lambda>_ _ _ _. raiseM (OtherError ''SerialException'' ''no such port'')),
       py_set_dtr = (\<lambda>_. returnM ()), py_set_rts = (\<lambda>_. returnM ()), py_set_timeout = (\<lambda>_. returnM ()),
       py_write = (\<lambda>_. returnM None), py_flush = returnM (), py_read = (\<lambda>_. returnM []), py_in_waiting = (\<lambda>_. None),
       py_reset_input_buffer = returnM (), py_close = returnM ()\<rparr> (\<lambda>_. [])
     \<lparr>stc_port = ''COM1'', stc_baudrate = 9600, stc_tx_timeout_ms = 1000, stc_rx_timeout_ms = 1000,
      stc_autobaud_timeout_ms = 5000\<rparr> ()
     \<lparr>ev_transport = undefined, ev_make = undefined, ev_token = (\<lambda>_. False), ev_load = undefined,
      ev_map_text = undefined, ev_confirm = undefined\<rparr>)
    \<lparr>cg_transport = ''serial'', cg_port = Some ''COM1'', cg_baud = 9600, cg_timeout_ms = None\<rparr>
    \<lparr>ag_command = ''ping'', ag_flash_service_image = [], ag_flash_service_map = [], ag_image = None, ag_all_app = False,
     ag_sector_mask = 0, ag_entry_point = 0, ag_address = 0, ag_words = 0, ag_yes = False, ag_no_run = False\<rparr> = Inr 7"
  by (rule unopenable_port_is_internal_error)
    (simp_all add: validated_config_def CliRuntimeConfig_def require_port_def strip_blank_def)

end
