(* ===== verification/Cli_Serial.thy ===== *)
theory Cli_Serial
  imports Cli_Safety Cli_Cleanup
begin

text \<open>
  The command line over a serial port: a port that records the byte strings written to it, and what the
  statements about written frames become there.  The autobaud byte is no frame and is not recorded.
\<close>

section \<open>A port that records\<close>

definition on_recorded :: "('p, 'a) sm \<Rightarrow> ('p \<times> int list list, 'a) sm" where
  "on_recorded m s = (case m (fst s) of (r, p) \<Rightarrow> (r, p, snd s))"

definition recorded_write :: "'p pyserial \<Rightarrow> int list \<Rightarrow> ('p \<times> int list list, int option) sm" where
  "recorded_write ps data s =
     (case py_write ps data (fst s) of (r, p) \<Rightarrow> (r, p, if data = [65] then snd s else snd s @ [data]))"

definition recording_port :: "'p pyserial \<Rightarrow> ('p \<times> int list list) pyserial" where
  "recording_port ps =
     \<lparr>py_create = (\<lambda>port baud rx tx. on_recorded (py_create ps port baud rx tx)),
      py_set_dtr = (\<lambda>b. on_recorded (py_set_dtr ps b)), py_set_rts = (\<lambda>b. on_recorded (py_set_rts ps b)),
      py_set_timeout = (\<lambda>ms. on_recorded (py_set_timeout ps ms)), py_write = recorded_write ps,
      py_flush = on_recorded (py_flush ps), py_read = (\<lambda>n. on_recorded (py_read ps n)),
      py_in_waiting = (\<lambda>s. py_in_waiting ps (fst s)),
      py_reset_input_buffer = on_recorded (py_reset_input_buffer ps), py_close = on_recorded (py_close ps)\<rparr>"

definition frames_sent :: "('p \<times> int list list) serial_transport \<Rightarrow> int list list" where
  "frames_sent s = snd (sr_port s)"

lemma fst_on_recorded: "fst (on_recorded m s) = fst (m (fst s))"
  by (simp add: on_recorded_def split: prod.split)

lemma recording_closes: "closes ps \<Longrightarrow> closes (recording_port ps)"
  by (simp add: closes_def recording_port_def fst_on_recorded)

abbreviation sent_is :: "int list list \<Rightarrow> ('p \<times> int list list) serial_transport \<Rightarrow> bool" where
  "sent_is log s \<equiv> frames_sent s = log"

abbreviation log_is :: "int list list \<Rightarrow> 'p \<times> int list list \<Rightarrow> bool" where
  "log_is log p \<equiv> snd p = log"

lemma keeps_sent_port:
  assumes "keeps_state (log_is log) m"
  shows "keeps_state (sent_is log) (on_port m)"
proof (rule keepsI)
  fix s r s' assume s: "sent_is log s" "on_port m s = (r, s')"
  obtain q where "m (sr_port s) = (r, q)" "s' = s\<lparr>sr_port := q\<rparr>"
    using s(2) by (auto simp: on_port_def split: prod.splits)
  with keepsD(1) [OF assms _ this(1)] s(1) show "sent_is log s' \<and> (case r of Inl _ \<Rightarrow> True | Inr _ \<Rightarrow> True)"
    by (simp add: frames_sent_def split: sum.split)
qed

lemma keeps_recorded: "keeps_state (log_is log) (on_recorded m)"
  by (auto simp: keeps_def on_recorded_def split: prod.splits sum.split)

lemma keeps_autobaud_byte: "keeps_state (log_is log) (recorded_write ps [65])"
  by (auto simp: keeps_def recorded_write_def split: prod.splits sum.split)

lemma keeps_sent_ports:
  "keeps_state (sent_is log) (on_port (py_create (recording_port ps) port baud rx tx))"
  "keeps_state (sent_is log) (on_port (py_set_dtr (recording_port ps) b))"
  "keeps_state (sent_is log) (on_port (py_set_rts (recording_port ps) b))"
  "keeps_state (sent_is log) (on_port (py_read (recording_port ps) n))"
  "keeps_state (sent_is log) (on_port (py_close (recording_port ps)))"
  "keeps_state (sent_is log) (on_port (set_timeout (recording_port ps) ms))"
  "keeps_state (sent_is log) (on_port (autobaud_attempt (recording_port ps) ms))"
  unfolding set_timeout_def autobaud_attempt_def recording_port_def
  by (simp_all only: pyserial.simps)
    (intro keeps_sent_port keeps_state_then keeps_state_bind keeps_recorded keeps_autobaud_byte keeps_state_simps)+

lemma keeps_sent_flags:
  "keeps_state (sent_is log) (ask_serial_token token)" "keeps_state (sent_is log) (modM (\<lambda>s. s\<lparr>sr_open := b\<rparr>))"
  by (auto simp: keeps_def ask_serial_token_def frames_sent_def modM_def split: prod.splits)

lemmas keeps_sent = keeps_sent_ports keeps_sent_flags keeps_state_simps

section \<open>Opening, closing, reading and writing\<close>

lemma keeps_sent_read: "keeps_state (sent_is log) (serial_read_some (recording_port ps) n)"
  unfolding serial_read_some_def serial_require_open_def wrap_errors_def
  by (intro keeps_if keeps_catch [where E' = "\<lambda>_. True"] keeps_state_then keeps_state_bind keeps_sent)

lemma keeps_sent_close: "keeps_state (sent_is log) (serial_close (recording_port ps))"
  unfolding serial_close_def wrap_errors_def
  by (intro keeps_if keeps_catch [where E' = "\<lambda>_. True"] keeps_state_then keeps_state_bind keeps_sent)

lemma keeps_sent_wait: "keeps_state (sent_is log) (cancellable_wait token ws)"
  by (induction ws) (simp_all add: keeps_state_bind keeps_if keeps_sent)

lemma keeps_sent_autobaud: "keeps_state (sent_is log) (autobaud (recording_port ps) rx token ws)"
proof (induction ws)
  case (Cons remaining ws)
  have "keeps_state (sent_is log) (autobaud_try (recording_port ps) rx token ms)" for ms
    unfolding autobaud_try_def
    by (rule keeps_catch [where E' = "\<lambda>_. True"])
      (auto intro!: keeps_state_bind keeps_state_then keeps_if keeps_sent split: exc.split)
  then show ?case
    by (auto intro!: keeps_state_bind keeps_if keeps_sent Cons split: option.split)
qed (auto intro!: keeps_state_bind keeps_if keeps_sent)

lemma keeps_sent_open: "keeps_state (sent_is log) (serial_open (recording_port ps) waits config token)"
proof -
  have "keeps_state (sent_is log) (open_settled (recording_port ps) waits config token)"
    unfolding open_settled_def finish_open_def serial_require_open_def
    by (intro keeps_catch [where E' = "\<lambda>_. True"] keeps_state_bind keeps_state_then keeps_if keeps_sent keeps_sent_wait
        keeps_sent_autobaud keeps_sent_close)
  then show ?thesis
    unfolding serial_open_def cancel_open_def
    by (auto intro!: keeps_catch [where E' = "\<lambda>_. True"] keeps_state_bind keeps_state_then keeps_if keeps_sent
        keeps_sent_close split: option.split)
qed

lemma frames_sent_port: "frames_sent (snd (on_port m s)) = snd (snd (m (sr_port s)))"
  by (simp add: on_port_def frames_sent_def split: prod.split)

lemma sent_by_write:
  "frames_sent (snd (serial_write_all (recording_port ps) data s)) \<in> {frames_sent s, frames_sent s @ [data]}"
proof (cases "sr_open s")
  case True
  define m where "m = bindM (py_write (recording_port ps) data)
    (\<lambda>written. thenM (py_flush (recording_port ps)) (returnM written))"
  have "snd (snd (m p)) \<in> {snd p, snd p @ [data]}" for p
    by (auto simp: m_def recording_port_def recorded_write_def on_recorded_def bindM_def thenM_def
        split: prod.split sum.split)
  then have "frames_sent (snd (on_port m s)) \<in> {frames_sent s, frames_sent s @ [data]}"
    unfolding frames_sent_port by (simp add: frames_sent_def)
  moreover have "snd (wrap_errors TransportError message (on_port m) s) = snd (on_port m s)" for message
    by (auto simp: wrap_errors_def catchM_def split: prod.split sum.split)
  moreover have "snd (serial_write_all (recording_port ps) data s) =
      snd (wrap_errors TransportError ''serial write failed: '' (on_port m) s)"
    using True unfolding serial_write_all_def m_def [symmetric]
    by (auto simp: thenM_def bindM_def serial_require_open_def split: prod.split sum.split)
  ultimately show ?thesis
    by simp
qed (simp add: serial_write_all_def serial_require_open_def thenM_def bindM_def)

lemma recording_logs: "logs (serial_byte_transport (recording_port ps) waits config) frames_sent"
  unfolding logs_def
  using sent_by_write [of ps] keepsD(1) [OF keeps_sent_read [where ps = ps] refl surjective_pairing]
  by (simp add: serial_byte_transport_def)

lemma recording_quiet: "quiet_lifecycle (serial_env (recording_port ps) waits config (p, []) env) frames_sent"
  unfolding quiet_lifecycle_def
  using keepsD(1) [OF keeps_sent_open [where ps = ps] refl surjective_pairing]
    keepsD(1) [OF keeps_sent_close [where ps = ps] refl surjective_pairing]
  by (auto simp: serial_env_def serial_byte_transport_def SerialTransport_def frames_sent_def split: if_splits)

text \<open>On every serial port the sessions of an invocation have written nothing that harms the boot loader.\<close>

interpretation serial_frames: session_keeps "serial_env (recording_port ps) waits config (p, []) env" args observed "\<lambda>_. True" known_target
  "wrote_only spares_boot_sector frames_sent"
  for ps :: "'p pyserial" and waits config p env args observed
  using recording_quiet [of ps waits config p env] recording_logs [of ps waits config]
  by (intro main_spares_boot_sector) (simp_all add: serial_env_def)

end
