(* ===== verification/Cli_Upgrade.thy ===== *)
theory Cli_Upgrade
  imports Cli_Main
begin

text \<open>
  What the exit code 0 of \<open>upgrade\<close> stands for.
\<close>

section \<open>Inversion\<close>

text \<open>A handler's run that ends with the exit code 0.\<close>

definition exits_0 :: "'t cli_handler \<Rightarrow> 't cli_runtime \<Rightarrow> 't cli_runtime \<Rightarrow> bool" where
  "exits_0 m r t \<longleftrightarrow> (\<exists>outcome. m r = (Inr outcome, t) \<and> outcome_exit_code outcome = EXIT_SUCCESS)"

lemma exits_0_bind: "exits_0 (bindM m f) r t \<longleftrightarrow> (\<exists>x s. m r = (Inr x, s) \<and> exits_0 (f x) s t)"
  by (auto simp: exits_0_def bindM_Inr_iff)

lemma exits_0_then: "exits_0 (thenM m n) r t \<longleftrightarrow> (\<exists>x s. m r = (Inr x, s) \<and> exits_0 n s t)"
  by (simp add: thenM_def exits_0_bind)

lemma exits_0_return [simp]: "exits_0 (returnM outcome) r t \<longleftrightarrow> outcome_exit_code outcome = EXIT_SUCCESS \<and> t = r"
  by (auto simp: exits_0_def)

lemma exits_0_raise [simp]: "\<not> exits_0 (raiseM e) r t"
  by (simp add: exits_0_def)

lemma failures_exit [simp]:
  "outcome_exit_code (cancelled_outcome command message) = EXIT_CANCELLED"
  "outcome_exit_code (preparation_failure command e) = EXIT_OPERATION_FAILURE"
  by (simp_all add: cancelled_outcome_def preparation_failure_def)

lemma exits_0_unless: "exits_0 (unless_requested env command message rest) r t \<Longrightarrow>
    \<exists>s. cancel_requested env r = (Inr False, s) \<and> exits_0 rest s t"
  by (auto simp: unless_requested_def exits_0_bind split: if_splits)

lemma exits_0_preparing:
  "exits_0 (preparing command prepared rest) r t \<longleftrightarrow> (\<exists>x. prepared = Inr x \<and> exits_0 (rest x) r t)"
  by (auto simp: preparing_def split: sum.split)

lemma exits_0_confirmed:
  "exits_0 (confirmed env args command details rest) r t \<Longrightarrow>
     (ag_yes args \<or> ev_confirm env details = APPROVED) \<and> (\<exists>s. exits_0 rest s t)"
  by (auto simp: confirmed_def exits_0_then outcome_exit_simps split: if_splits confirmation_decision.splits)

section \<open>The stages\<close>

text \<open>
  Operations that succeed one after the other on a session, and the session after them; where the flag is set,
  no cancellation was requested after the operation.
\<close>

fun succeed_in_order ::
  "cancellation \<Rightarrow> (bool \<times> ('t world, operation_result) sm) list \<Rightarrow> 't world \<Rightarrow> 't world option" where
  "succeed_in_order token [] w = Some w"
| "succeed_in_order token ((asks, m) # ms) w =
     (case m w of
        (Inl _, _) \<Rightarrow> None
      | (Inr result, w') \<Rightarrow>
          if or_completion result \<noteq> Some SUCCEEDED \<or> asks \<and> token (wd_asked w') then None
          else succeed_in_order token ms (if asks then w'\<lparr>wd_asked := Suc (wd_asked w')\<rparr> else w'))"

text \<open>The six operations of an upgrade, in the order they must have.\<close>

definition upgrade_operations ::
  "'t cli_env \<Rightarrow> target_profile \<Rightarrow> prepared_service_image \<Rightarrow> prepared_flash_image \<Rightarrow>
     (bool \<times> ('t world, operation_result) sm) list" where
  "upgrade_operations env target service img =
     (let fctx = flash_operation_context env (Some (ev_token env)) target service in
      [(True, erase_flash_image_area fctx img), (True, program_flash_image fctx img),
       (True, verify_flash_image fctx img), (True, op_append_image_valid fctx img),
       (False, op_append_boot_attempt (flash_operation_context env None target service)),
       (False, op_run_flash_app (operation_context env None target) (id_entry_point (pf_identity img)) False)])"

lemma on_session_Inr:
  "on_session m r = (Inr x, r') \<longleftrightarrow> (\<exists>w w'. rt_session r = Some w \<and> m w = (Inr x, w') \<and> r' = r\<lparr>rt_session := Some w'\<rparr>)"
  by (auto simp: on_session_def split: option.splits prod.splits)

lemma cancel_requested_session:
  "rt_session r = Some w \<Longrightarrow>
     cancel_requested env r = (Inr (ev_token env (wd_asked w)), r\<lparr>rt_session := Some (w\<lparr>wd_asked := Suc (wd_asked w)\<rparr>)\<rparr>)"
  by (simp add: cancel_requested_def)

lemma upgrade_stages_Inr:
  assumes "upgrade_stages env fctx n stages last_result r = (Inr (Inr result), r')" "rt_session r = Some w"
  shows "\<exists>w'. rt_session r' = Some w' \<and>
    (\<forall>rest. succeed_in_order (ev_token env) (map (\<lambda>(_, _, operation). (True, operation fctx)) stages @ rest) w =
      succeed_in_order (ev_token env) rest w')"
  using assms
proof (induction stages arbitrary: last_result r w)
  case (Cons st stages)
  obtain index name operation where st: "st = (index, name, operation)"
    by (cases st)
  obtain x w1 where x: "operation fctx w = (Inr x, w1)" "or_completion x = Some SUCCEEDED" "\<not> ev_token env (wd_asked w1)"
    "upgrade_stages env fctx n stages (Some x)
      (r\<lparr>rt_stage := Some (index, n, name), rt_session := Some (w1\<lparr>wd_asked := Suc (wd_asked w1)\<rparr>)\<rparr>) = (Inr (Inr result), r')"
    using Cons.prems
    by (auto simp: st thenM_Inr_iff bindM_Inr_iff set_workflow_stage_def modM_def on_session_Inr
        cancel_requested_session split: if_splits)
  show ?case
    using Cons.IH [OF x(4)] x(1-3) by (simp add: st)
qed simp

lemma operation_exit_success: "operation_exit_code r = EXIT_SUCCESS \<Longrightarrow> or_completion r = Some SUCCEEDED \<and> or_ok r"
  by (auto simp: operation_exit_code_def split: if_splits)

lemma upgrade_tail_success:
  assumes "exits_0 (upgrade_tail env target service img False) r t" "rt_session r = Some w"
  shows "\<exists>w'. rt_session t = Some w' \<and> succeed_in_order (ev_token env)
    [(False, op_append_boot_attempt (flash_operation_context env None target service)),
     (False, op_run_flash_app (operation_context env None target) (id_entry_point (pf_identity img)) False)] w = Some w'"
proof -
  obtain x w1 where x: "op_append_boot_attempt (flash_operation_context env None target service) w = (Inr x, w1)"
    "exits_0 (if or_completion x \<noteq> Some SUCCEEDED then returnM (outcome_of ''upgrade'' x)
      else thenM (set_workflow_stage 6 6 ''RUN'')
        (bindM (liftM (RunRequest (id_entry_point (pf_identity img)))) (\<lambda>request.
         bindM (on_session (op_run_flash_app (operation_context env None target) request False)) (\<lambda>result.
         returnM (outcome_of ''upgrade'' result))))) (r\<lparr>rt_stage := Some (5, 6, ''BOOT_ATTEMPT''), rt_session := Some w1\<rparr>) t"
    using assms unfolding upgrade_tail_def
    by (auto simp: exits_0_then exits_0_bind set_workflow_stage_def modM_def on_session_Inr)
  then have "or_completion x = Some SUCCEEDED"
    using operation_exit_success by (auto split: if_splits)
  then show ?thesis
    using x operation_exit_success
    by (fastforce simp: exits_0_then exits_0_bind set_workflow_stage_def modM_def on_session_Inr RunRequest_def
        split: if_splits)
qed

section \<open>The whole invocation\<close>

definition upgraded :: "'t cli_env \<Rightarrow> cli_args \<Rightarrow> 't world \<Rightarrow> bool" where
  "upgraded env args w' \<longleftrightarrow>
     (\<exists>target service img w. prepare_service env args target = Inr service \<and>
        prepare_app env (image_path args) target = Inr img \<and>
        (ag_yes args \<or> ev_confirm env (upgrade_details target args img) = APPROVED) \<and>
        succeed_in_order (ev_token env) (upgrade_operations env target service img) w = Some w')"

lemma with_service_image_exits_0:
  assumes "exits_0 (with_service_image env args command message rest) r t"
  obtains target service s where "prepare_service env args target = Inr service" "exits_0 (rest target service) s t"
proof -
  from exits_0_unless [OF assms [unfolded with_service_image_def]]
  obtain r1 where "exits_0 (bindM rt_discovered (\<lambda>d. preparing command (prepare_service env args (dt_target_profile d)) (\<lambda>service.
      unless_requested env command ''cancelled after Flash Service preparation'' (rest (dt_target_profile d) service)))) r1 t"
    by blast
  then show thesis
    using exits_0_unless by (fastforce simp: exits_0_bind exits_0_preparing intro: that)
qed

lemma with_app_image_exits_0:
  assumes "exits_0 (with_app_image env args command target rest) r t"
  obtains img s where "prepare_app env (image_path args) target = Inr img" "exits_0 (rest img) s t"
  using assms that unfolding with_app_image_def exits_0_preparing by (blast dest: exits_0_unless)


lemma stages_session:
  assumes "upgrade_stages env fctx n (st # stages) last_result r = (Inr x, r')"
  obtains w where "rt_session r = Some w"
  using assms
  by (cases st) (auto simp: thenM_Inr_iff bindM_Inr_iff on_session_Inr set_workflow_stage_def modM_def)

lemma early_return:
  "upgrade_stages env fctx n stages last_result r = (Inr (Inl outcome), r') \<Longrightarrow>
     outcome_exit_code outcome \<noteq> EXIT_SUCCESS"
proof (induction stages arbitrary: last_result r)
  case (Cons st stages)
  obtain index name operation where st: "st = (index, name, operation)"
    by (cases st)
  obtain result s where s: "(if or_completion result \<noteq> Some SUCCEEDED then returnM (Inl (outcome_of ''upgrade'' result))
      else bindM (cancel_requested env) (\<lambda>c.
        if c then returnM (Inl (cancelled_outcome ''upgrade'' (''cancelled after '' @ name)))
        else upgrade_stages env fctx n stages (Some result))) s = (Inr (Inl outcome), r')"
    using Cons.prems unfolding st upgrade_stages.simps thenM_Inr_iff bindM_Inr_iff [of "on_session _"] by blast
  show ?case
  proof (cases "or_completion result = Some SUCCEEDED")
    case True
    then obtain c s' where "(if c then returnM (Inl (cancelled_outcome ''upgrade'' (''cancelled after '' @ name)))
        else upgrade_stages env fctx n stages (Some result)) s' = (Inr (Inl outcome), r')"
      using s by (auto simp only: simp_thms if_False bindM_Inr_iff)
    then show ?thesis
      using Cons.IH by (auto split: if_splits simp del: append_Cons)
  next
    case False
    then have "outcome = outcome_of ''upgrade'' result"
      using s by simp
    then show ?thesis
      using False operation_exit_success by auto
  qed
qed simp

lemma upgrade_body_success:
  assumes "exits_0 (upgrade_body env args False) r t" "\<not> ag_no_run args"
  shows "\<exists>w'. rt_session t = Some w' \<and> upgraded env args w'"
proof -
  define go where "go target service img = bindM (upgrade_stages env
      (flash_operation_context env (Some (ev_token env)) target service) 6 (pre_tail_stages img) None) (\<lambda>stages. case stages of
         Inl outcome \<Rightarrow> returnM outcome
       | Inr last_result \<Rightarrow> upgrade_tail env target service img False)" for target service img
  have body: "upgrade_body env args False = with_service_image env args ''upgrade'' ''cancelled before Flash Service preparation''
      (\<lambda>target service. with_app_image env args ''upgrade'' target (\<lambda>img.
        confirmed env args ''upgrade'' (upgrade_details target args img)
          (unless_requested env ''upgrade'' ''cancelled after upgrade confirmation'' (go target service img))))"
    unfolding upgrade_body_def Let_def go_def by (simp only: assms(2) if_False)
  obtain target service r1 where s: "prepare_service env args target = Inr service"
    "exits_0 (with_app_image env args ''upgrade'' target (\<lambda>img.
        confirmed env args ''upgrade'' (upgrade_details target args img)
          (unless_requested env ''upgrade'' ''cancelled after upgrade confirmation'' (go target service img)))) r1 t"
    by (rule with_service_image_exits_0 [OF assms(1) [unfolded body]])
  obtain img r2 where img: "prepare_app env (image_path args) target = Inr img"
    "exits_0 (confirmed env args ''upgrade'' (upgrade_details target args img)
      (unless_requested env ''upgrade'' ''cancelled after upgrade confirmation'' (go target service img))) r2 t"
    by (rule with_app_image_exits_0 [OF s(2)])
  obtain r3 where go: "ag_yes args \<or> ev_confirm env (upgrade_details target args img) = APPROVED"
    "exits_0 (go target service img) r3 t"
    using exits_0_confirmed [OF img(2)] exits_0_unless by metis
  obtain x r4 where x: "upgrade_stages env (flash_operation_context env (Some (ev_token env)) target service)
      6 (pre_tail_stages img) None r3 = (Inr x, r4)"
    "exits_0 (case x of Inl outcome \<Rightarrow> returnM outcome
      | Inr last_result \<Rightarrow> upgrade_tail env target service img False) r4 t"
    using go(2) unfolding go_def exits_0_bind by (elim exE conjE)
  obtain last_result where "x = Inr last_result"
  proof (cases x)
    case (Inl outcome)
    then have "upgrade_stages env (flash_operation_context env (Some (ev_token env)) target service) 6
        (pre_tail_stages img) None r3 = (Inr (Inl outcome), r4)"
      using x(1) by simp
    from early_return [OF this] show thesis
      using x(2) Inl by simp
  qed (rule that)
  with x have stages: "upgrade_stages env (flash_operation_context env (Some (ev_token env)) target service)
      6 (pre_tail_stages img) None r3 = (Inr (Inr last_result), r4)"
    "exits_0 (upgrade_tail env target service img False) r4 t"
    by simp_all
  obtain w where w: "rt_session r3 = Some w"
    using stages(1) unfolding pre_tail_stages_def by (rule stages_session)
  define tail where "tail =
    [(False, op_append_boot_attempt (flash_operation_context env None target service)),
     (False, op_run_flash_app (operation_context env None target) (id_entry_point (pf_identity img)) False)]"
  define first where "first = map (\<lambda>(_, _, operation). (True, operation
    (flash_operation_context env (Some (ev_token env)) target service))) (pre_tail_stages img)"
  obtain w1 where w1: "rt_session r4 = Some w1"
    "\<And>rest. succeed_in_order (ev_token env) (first @ rest) w = succeed_in_order (ev_token env) rest w1"
    using upgrade_stages_Inr [OF stages(1) w] unfolding first_def by blast
  obtain w' where w': "rt_session t = Some w'" "succeed_in_order (ev_token env) tail w1 = Some w'"
    using upgrade_tail_success [OF stages(2) w1(1)] unfolding tail_def by blast
  have "upgrade_operations env target service img = first @ tail"
    by (simp add: upgrade_operations_def first_def tail_def pre_tail_stages_def Let_def)
  then have "succeed_in_order (ev_token env) (upgrade_operations env target service img) w = Some w'"
    using w1(2) w'(2) by simp
  then show ?thesis
    using w'(1) s(1) img(1) go(1) unfolding upgraded_def by blast
qed

lemma exception_exit: "outcome_exit_code (exception_outcome command e) \<noteq> EXIT_SUCCESS"
  by (auto simp: exception_outcome_def communication_outcome_def usage_outcome_def internal_outcome_def split: exc.split)

lemma run_upgrade_success:
  assumes "exits_0 (run_command env config args) r t" "ag_command args = ''upgrade''" "\<not> ag_no_run args"
  shows "\<exists>w'. rt_session t = Some w' \<and> upgraded env args w'"
proof -
  have "\<exists>s. exits_0 (handle_upgrade env args False) s t"
    using assms(1,2) operation_exit_success
    by (auto simp: run_command_def Let_def exits_0_bind execute_command_def split: if_splits dest!: exits_0_unless)
  then obtain s where s: "exits_0 (handle_upgrade env args False) s t"
    by blast
  then obtain t' where "exits_0 (upgrade_body env args False) s t'" "t = t'\<lparr>rt_stage := None\<rparr>"
    by (cases "upgrade_body env args False s") (auto simp: exits_0_def handle_upgrade_def)
  then show ?thesis
    using upgrade_body_success [OF _ assms(3)] by force
qed

text \<open>
  The exit code 0 of \<open>upgrade\<close> means an upgrade.  If an invocation of \<open>upgrade\<close> without \<open>--no-run\<close> exits
  with 0, then both images had been prepared, the user had consented to exactly the shown upgrade, the six
  operations - erase, program, verify, IMAGE_VALID, BOOT_ATTEMPT, RUN - succeeded in this order on one session,
  no cancellation was requested between the first four, and that session was then disconnected without error.
\<close>

theorem upgrade_exit_0:
  assumes "cli_main env config args CliRuntime = (Inr outcome, r)" "outcome_exit_code outcome = EXIT_SUCCESS"
    and "ag_command args = ''upgrade''" "\<not> ag_no_run args"
  shows "\<exists>target service img w w' w''.
    prepare_service env args target = Inr service \<and> prepare_app env (image_path args) target = Inr img \<and>
    (ag_yes args \<or> ev_confirm env (upgrade_details target args img) = APPROVED) \<and>
    succeed_in_order (ev_token env) (upgrade_operations env target service img) w = Some w' \<and>
    on_boot_client (session_disconnect (ev_transport env)) w' = (Inr (), w'') \<and> last (rt_released r) = w''"
proof -
  obtain config' where c: "run_and_disconnect env config' args CliRuntime = (Inr outcome, r)"
    using assms(1,2) by (auto simp: cli_main_def usage_outcome_def split: sum.splits)
  then obtain out t cleanup where out: "run_guarded env config' args CliRuntime = (Inr out, t)"
    "catchM (thenM (rt_disconnect env) (returnM None))
       (\<lambda>e. if is_exception e then returnM (Some e) else raiseM e) t = (Inr cleanup, r)"
    "outcome = (case cleanup of None \<Rightarrow> out | Some e \<Rightarrow>
       if outcome_exit_code out = EXIT_SUCCESS then disconnect_outcome (ag_command args) e else out)"
    by (auto simp: run_and_disconnect_def bindM_Inr_iff)
  have "outcome_exit_code (disconnect_outcome command e) \<noteq> EXIT_SUCCESS" for command e
    by (auto simp: disconnect_outcome_def communication_outcome_def internal_outcome_def
        split: option.splits error_domain.splits exc.splits)
  then have ok: "cleanup = None" "outcome_exit_code out = EXIT_SUCCESS"
    using out(3) assms(2) by (auto split: option.splits if_splits)
  then have "exits_0 (run_command env config' args) CliRuntime t"
    using out(1) exception_exit
    by (auto simp: run_guarded_def catchM_def exits_0_def split: prod.splits sum.splits if_splits)
  then obtain w' where w': "rt_session t = Some w'" "upgraded env args w'"
    using run_upgrade_success [OF _ assms(3,4)] by blast
  obtain x w'' where x: "on_boot_client (session_disconnect (ev_transport env)) w' = (x, w'')"
    by (cases "on_boot_client (session_disconnect (ev_transport env)) w'")
  then have "x = Inr ()" "last (rt_released r) = w''"
    using out(2) ok(1) w'(1)
    by (auto simp: catchM_def thenM_def bindM_def rt_disconnect_def clear_connection_state_def
        split: sum.splits if_splits)
  then show ?thesis
    using w'(2) x unfolding upgraded_def by blast
qed

end
