(* ===== verification/Cli_Shell.thy ===== *)
theory Cli_Shell
  imports Cli_Main
begin

text \<open>
  The interactive shell of the formal CLI (\<open>cli/shell.py\<close>): a loop over commands on one runtime, with
  connections that come and go in generations, a retained pair of Flash Service paths, and the release of the
  connection once an application may have been started.

  A command is given as the parser leaves it; the texts of help and of the prompt are left out.  The
  cancellation source of a generation is the schedule of its token: \<open>tokens\<close> has one for every generation.
\<close>

datatype shell_command =
    Sh_Help
  | Sh_Service_Use string string
  | Sh_Connect
  | Sh_Disconnect
  | Sh_Reconnect
  | Sh_Ping
  | Sh_Target cli_args
  | Sh_Rejected string string

record 't shell =
  sh_runtime :: "'t cli_runtime"
  sh_connected :: bool
  sh_service_paths :: "(string \<times> string) option"
  sh_generation :: nat
  sh_outcomes :: "command_outcome list"

section \<open>Outcomes\<close>

definition SERVICE_COMMANDS :: "string list" where
  "SERVICE_COMMANDS =
     [''erase'', ''program'', ''verify'', ''metadata image-valid'', ''metadata boot-attempt'',
      ''metadata app-confirmed'', ''service attach'', ''upgrade'']"

definition not_connected :: "string \<Rightarrow> command_outcome" where
  "not_connected command = outcome_error command
     (CliError ''cli'' ''NOT_CONNECTED'' ''connect to a target before running this command'') EXIT_OPERATION_FAILURE"

definition service_required :: "string \<Rightarrow> command_outcome" where
  "service_required command = outcome_error command
     (CliError ''cli'' ''SERVICE_RESOURCE_REQUIRED''
       ''configure both Flash Service sources with service use before this command'') EXIT_CLI_USAGE_ERROR"

definition already_connected :: command_outcome where
  "already_connected = outcome_error ''connect''
     (CliError ''cli'' ''ALREADY_CONNECTED'' ''the shell is already connected'') EXIT_OPERATION_FAILURE"

definition disconnected_outcome :: command_outcome where
  "disconnected_outcome = outcome_result ''disconnect'' [(''state'', PStr ''disconnected'')]"

section \<open>Connections\<close>

definition discovered_or_disconnected ::
  "'t cli_env \<Rightarrow> string \<Rightarrow> discovery_outcome \<Rightarrow> ('t cli_runtime, bool \<times> command_outcome) sm" where
  "discovered_or_disconnected env command discovery =
     (if \<not> or_ok (do_result discovery)
      then thenM (disconnect_quiet env) (returnM (False, outcome_of command (do_result discovery)))
      else bindM (cancel_requested env) (\<lambda>c.
        if c then thenM (disconnect_quiet env)
          (returnM (False, cancelled_outcome command ''cancelled after target discovery''))
        else returnM (True, outcome_of command (do_result discovery))))"

definition connect_and_discover ::
  "'t cli_env \<Rightarrow> cli_config \<Rightarrow> string \<Rightarrow> ('t cli_runtime, bool \<times> command_outcome) sm" where
  "connect_and_discover env config command =
     catchM
       (bindM (rt_connect env config) (\<lambda>opened.
        if tor_status opened = TRANSPORT_CANCELLED
        then returnM (False, cancelled_outcome command (''connection cancelled during '' @ tor_stage opened))
        else bindM (rt_discover env) (discovered_or_disconnected env command)))
       (\<lambda>e. if is_exception e
          then thenM (disconnect_quiet env) (returnM (False, exception_outcome command e))
          else raiseM e)"

definition disconnect_command :: "'t cli_env \<Rightarrow> bool \<Rightarrow> ('t cli_runtime, bool \<times> command_outcome) sm" where
  "disconnect_command env connected =
     (if \<not> connected then returnM (False, disconnected_outcome)
      else catchM (thenM (rt_disconnect env) (returnM (False, disconnected_outcome)))
        (\<lambda>e. if is_exception e then returnM (False, exception_outcome ''disconnect'' e) else raiseM e))"

definition shell_reconnect ::
  "'t cli_env \<Rightarrow> cli_config \<Rightarrow> bool \<Rightarrow> ('t cli_runtime, bool \<times> command_outcome) sm" where
  "shell_reconnect env config connected =
     bindM
       (if \<not> connected then returnM None
        else catchM (thenM (rt_disconnect env) (returnM None))
          (\<lambda>e. if \<not> is_exception e then raiseM e
             else returnM (Some (case e of RuntimeCommunicationError m \<Rightarrow> communication_outcome ''reconnect'' m
               | _ \<Rightarrow> internal_outcome ''reconnect'' (exc_msg e)))))
       (\<lambda>failure. case failure of
          Some outcome \<Rightarrow> returnM (False, outcome)
        | None \<Rightarrow> connect_and_discover env config ''reconnect'')"

section \<open>Target commands\<close>

definition with_paths :: "(string \<times> string) option \<Rightarrow> cli_args \<Rightarrow> cli_args" where
  "with_paths paths args =
     (case paths of None \<Rightarrow> args
      | Some (img, map_path) \<Rightarrow>
          if ag_command args \<in> set SERVICE_COMMANDS
          then args\<lparr>ag_flash_service_image := img, ag_flash_service_map := map_path\<rparr> else args)"

definition target_command ::
  "'t cli_env \<Rightarrow> bool \<Rightarrow> (string \<times> string) option \<Rightarrow> cli_args \<Rightarrow> 't cli_handler" where
  "target_command env connected paths args =
     (if \<not> connected then returnM (not_connected (ag_command args))
      else if ag_command args \<in> set SERVICE_COMMANDS \<and> paths = None
      then returnM (service_required (ag_command args))
      else catchM (execute_command env (with_paths paths args) True)
        (\<lambda>e. if is_exception e then returnM (exception_outcome (ag_command args) e) else raiseM e))"

definition shell_ping :: "'t cli_env \<Rightarrow> bool \<Rightarrow> 't cli_handler" where
  "shell_ping env connected =
     (if \<not> connected then returnM (not_connected ''ping'')
      else catchM (handle_ping env)
        (\<lambda>e. if is_exception e then returnM (exception_outcome ''ping'' e) else raiseM e))"

text \<open>The number of attempts to start an application that the observer of the session has seen.\<close>

definition run_attempts :: "'t cli_runtime \<Rightarrow> nat" where
  "run_attempts r = (case rt_session r of None \<Rightarrow> 0 | Some w \<Rightarrow> length (bc_wire_attempts (wd_client w)))"

text \<open>A target command, and the release of the connection in the \<open>finally\<close> block if an attempt was made.\<close>

definition target_and_release ::
  "'t cli_env \<Rightarrow> bool \<Rightarrow> (string \<times> string) option \<Rightarrow> cli_args \<Rightarrow> ('t cli_runtime, bool \<times> command_outcome) sm" where
  "target_and_release env connected paths args r =
     (case target_command env connected paths args r of
        (Inl e, r') \<Rightarrow> (Inl e, r')
      | (Inr outcome, r') \<Rightarrow>
          if run_attempts r < run_attempts r'
          then thenM (disconnect_quiet env) (returnM (False, outcome)) r'
          else (Inr (connected, outcome), r'))"

section \<open>The loop\<close>

definition generation_env :: "'t cli_env \<Rightarrow> (nat \<Rightarrow> cancellation) \<Rightarrow> nat \<Rightarrow> 't cli_env" where
  "generation_env env tokens n = env\<lparr>ev_token := tokens n\<rparr>"

text \<open>Runs a step on the runtime that says whether the shell is connected afterwards, and shows the outcome.\<close>

definition on_runtime :: "('t cli_runtime, bool \<times> command_outcome) sm \<Rightarrow> ('t shell, unit) sm" where
  "on_runtime m s =
     (case m (sh_runtime s) of
        (Inl e, r) \<Rightarrow> (Inl e, s\<lparr>sh_runtime := r\<rparr>)
      | (Inr (connected, outcome), r) \<Rightarrow>
          (Inr (), s\<lparr>sh_runtime := r, sh_connected := connected, sh_outcomes := sh_outcomes s @ [outcome]\<rparr>))"

definition shell_step ::
  "'t cli_env \<Rightarrow> cli_config \<Rightarrow> (nat \<Rightarrow> cancellation) \<Rightarrow> shell_command \<Rightarrow> ('t shell, unit) sm" where
  "shell_step env config tokens command s =
     (let here = generation_env env tokens (sh_generation s);
          next_s = s\<lparr>sh_generation := Suc (sh_generation s)\<rparr>;
          fresh = generation_env env tokens (Suc (sh_generation s));
          connected = sh_connected s;
          stay = (\<lambda>m. bindM m (\<lambda>outcome. returnM (connected, outcome))) in
      case command of
        Sh_Help \<Rightarrow> on_runtime (stay (returnM (outcome_result ''help'' []))) s
      | Sh_Rejected name message \<Rightarrow> on_runtime (stay (returnM (usage_outcome name message))) s
      | Sh_Service_Use img map_path \<Rightarrow>
          on_runtime (stay (returnM (outcome_result ''service use''
            [(''flash_service_image'', PStr img), (''flash_service_map'', PStr map_path)])))
            (s\<lparr>sh_service_paths := Some (img, map_path)\<rparr>)
      | Sh_Connect \<Rightarrow>
          if connected then on_runtime (stay (returnM already_connected)) s
          else on_runtime (connect_and_discover fresh config ''connect'') next_s
      | Sh_Disconnect \<Rightarrow> on_runtime (disconnect_command here connected) s
      | Sh_Reconnect \<Rightarrow> on_runtime (shell_reconnect fresh config connected) next_s
      | Sh_Ping \<Rightarrow> on_runtime (stay (shell_ping here connected)) s
      | Sh_Target args \<Rightarrow> on_runtime (target_and_release here connected (sh_service_paths s) args) s)"

definition new_shell :: "(string \<times> string) option \<Rightarrow> 't shell" where
  "new_shell paths =
     \<lparr>sh_runtime = CliRuntime, sh_connected = False, sh_service_paths = paths, sh_generation = 0,
      sh_outcomes = []\<rparr>"

text \<open>The first connection is shown only when it has failed.\<close>

definition shell_start :: "'t cli_env \<Rightarrow> cli_config \<Rightarrow> (nat \<Rightarrow> cancellation) \<Rightarrow> ('t shell, unit) sm" where
  "shell_start env config tokens s =
     (case on_runtime (connect_and_discover (generation_env env tokens 0) config ''connect'') s of
        (x, s') \<Rightarrow> (x, if sh_outcomes s' \<noteq> [] \<and> outcome_exit_code (last (sh_outcomes s')) = EXIT_SUCCESS
          then s'\<lparr>sh_outcomes := butlast (sh_outcomes s')\<rparr> else s'))"

text \<open>The shell up to the prompt after the given commands.\<close>

definition shell_session ::
  "'t cli_env \<Rightarrow> cli_config \<Rightarrow> (nat \<Rightarrow> cancellation) \<Rightarrow> shell_command list \<Rightarrow> ('t shell, unit) sm" where
  "shell_session env config tokens commands =
     thenM (shell_start env config tokens) (forM commands (shell_step env config tokens))"

text \<open>The \<open>finally\<close> block, after \<open>exit\<close>, \<open>quit\<close> or the end of the input.\<close>

definition shell_end :: "'t cli_env \<Rightarrow> ('t shell, unit) sm" where
  "shell_end env s =
     (if \<not> sh_connected s then (Inr (), s)
      else (case disconnect_quiet env (sh_runtime s) of (x, r) \<Rightarrow> (x, s\<lparr>sh_runtime := r\<rparr>)))"

definition run_shell ::
  "'t cli_env \<Rightarrow> cli_config \<Rightarrow> (nat \<Rightarrow> cancellation) \<Rightarrow> shell_command list \<Rightarrow> ('t shell, exit_code) sm" where
  "run_shell env config tokens commands =
     thenM (shell_session env config tokens commands) (thenM (shell_end env) (returnM EXIT_SUCCESS))"

end
