(* ===== verification/Cli_Shell_Safety.thy ===== *)
theory Cli_Shell_Safety
  imports Cli_Shell Cli_Safety
begin

text \<open>
  The shell after any sequence of commands: it is connected exactly when it has a session, and on that session
  no request that starts an application was ever written.
\<close>

section \<open>Exchanges that are not observed\<close>

abbreviation attempts :: "int list \<Rightarrow> 't boot_client \<Rightarrow> bool" where
  "attempts cmds \<equiv> \<lambda>c. bc_wire_attempts c = cmds"

lemma attempts_transport: "keeps_state (attempts cmds) (on_transport m)"
  by (rule keepsI) (auto simp: on_transport_def split: prod.splits sum.split)

lemma attempts_read: "keeps_state (attempts cmds) (bc_read_frame tr ms m)"
  by (rule keepsI) (auto simp: bc_read_frame_def split: prod.splits sum.split)

lemma cached_attempts: "cached cmd payload c = Inr c' \<Longrightarrow> bc_wire_attempts c' = bc_wire_attempts c"
  by (auto simp: cached_def as_decode_error_def bindE_def split: sum.splits if_splits)

lemma attempts_cache: "keeps_state (attempts cmds) (cache_capability cmd words)"
  by (rule keepsI) (auto simp: cache_capability_def cached_attempts split: sum.splits)

lemma attempts_exchange: "keeps_state (attempts cmds) (transact_exchange tr cmd timeout False m made)"
  unfolding transact_exchange_def
  by (cases made)
    (auto intro!: keeps_state_then keeps_state_bind attempts_transport attempts_cache keeps_state_simps
      keeps_catch [OF attempts_read] keeps_mod)

lemma attempts_transact: "keeps_state (attempts cmds) (bc_transact tr cmd payload timeout False)"
  unfolding bc_transact_parts
  by (intro keeps_state_bind keeps_state_simps attempts_exchange)

abbreviation nothing_started :: "'t world \<Rightarrow> bool" where
  "nothing_started \<equiv> \<lambda>w. bc_wire_attempts (wd_client w) = []"

lemma started_client: "keeps_state (attempts []) m \<Longrightarrow> keeps_state nothing_started (on_boot_client m)"
  by (auto simp: keeps_def on_boot_client_def split: prod.split sum.split)

lemma started_transact: "keeps_state nothing_started (op_transact ctx field payload False)"
  unfolding op_transact_def by (intro keeps_state_bind keeps_state_simps started_client attempts_transact)

lemma started_reads:
  "keeps_state nothing_started (op_get_device_info ctx)" "keeps_state nothing_started (op_get_protocol_info ctx)"
  "keeps_state nothing_started (op_ping ctx)"
  unfolding op_get_device_info_def op_get_protocol_info_def op_ping_def simple_operation_def guarded_def
  by (intro keeps_catch [where E' = "\<lambda>_. True"] keeps_state_then keeps_state_bind keeps_if started_transact
      keeps_state_simps)+

lemma started_discovery: "keeps nothing_started (discover_connected_target tr) finds_known (\<lambda>_. True)"
  by (intro discover_keeps started_reads)

section \<open>Connected or not\<close>

text \<open>\<open>at_rest c r\<close>: the runtime of a shell at its prompt, connected or not.\<close>

definition at_rest :: "bool \<Rightarrow> 't cli_runtime \<Rightarrow> bool" where
  "at_rest c r \<longleftrightarrow> (if c then rt_connected r \<and> (\<exists>w. rt_session r = Some w \<and> nothing_started w)
     else rt_session r = None \<and> \<not> rt_connected r)"

lemma at_rest_clear: "at_rest False (clear_connection_state r)"
  by (simp add: at_rest_def clear_connection_state_def)

lemma at_rest_disconnect: "at_rest False (snd (rt_disconnect env r))"
  by (auto simp: rt_disconnect_def at_rest_clear split: option.split prod.split)

lemma at_rest_quiet: "disconnect_quiet env r = (x, r') \<Longrightarrow> at_rest False r'"
  using at_rest_disconnect [of env r]
  by (auto simp: disconnect_quiet_def catchM_def split: prod.splits sum.splits if_splits)

text \<open>What a step may change while the connection stays.\<close>

abbreviation stays :: "'t cli_runtime \<Rightarrow> bool" where
  "stays \<equiv> \<lambda>r. rt_connected r \<and> rt_session r \<noteq> None"

lemma stays_session: "keeps_state stays (on_session m)"
  by (rule keepsI) (auto simp: on_session_def split: option.splits prod.splits sum.split)

lemma stays_handlers: "handlers env args True (\<lambda>_. True) (\<lambda>_. True) stays"
  by unfold_locales
    (simp_all only: stays_session session_client_def, auto simp: cancel_requested_def split: option.split)

lemma at_rest_session:
  assumes "keeps_state nothing_started m" "at_rest True r" "on_session m r = (x, r')"
  shows "at_rest True r'"
proof -
  obtain w where w: "rt_session r = Some w" "nothing_started w" "rt_connected r"
    using assms(2) by (auto simp: at_rest_def)
  obtain y w' where m: "m w = (y, w')"
    by (cases "m w")
  then have "nothing_started w'"
    using keepsD(1) [OF assms(1) w(2)] by blast
  then show ?thesis
    using w m assms(3) by (auto simp: on_session_def at_rest_def)
qed

lemma at_rest_requested: "at_rest True r \<Longrightarrow> cancel_requested env r = (x, r') \<Longrightarrow> at_rest True r'"
  by (auto simp: at_rest_def cancel_requested_def)

section \<open>Connecting\<close>

lemma connect_rest:
  assumes "at_rest False r" "rt_connect env config r = (Inr opened, r')"
  shows "at_rest (tor_status opened = TRANSPORT_OPENED) r'" "\<not> rt_discovery_attempted r'"
proof -
  have started: "keeps_state nothing_started (on_boot_client (session_connect (ev_transport env) token))" for token
    unfolding session_connect_def reset_connection_state_def
    by (intro started_client keeps_state_then attempts_transport keeps_mod) simp_all
  have new: "nothing_started (UpgradeSession t)" for t :: 'a
    by (simp add: UpgradeSession_def BootProtocolClient_def)
  obtain x r2 where x: "catchM (create_session env config) (\<lambda>e. if is_exception e
        then thenM (modM clear_connection_state) (raiseM (lifecycle_error e)) else raiseM e) (clear_connection_state r)
      = (Inr x, r2)"
    and r2: "thenM (case tor_status x of
        TRANSPORT_OPENED \<Rightarrow> modM (\<lambda>r. r\<lparr>rt_connected := True\<rparr>)
      | TRANSPORT_CANCELLED \<Rightarrow> modM clear_connection_state) (returnM x) r2 = (Inr opened, r')"
    using assms(2) unfolding rt_connect_def thenM_def
    by (auto simp: bindM_Inr_iff modM_def split: if_splits)
  have "create_session env config (clear_connection_state r) = (Inr x, r2)"
    using x by (auto simp: catchM_def thenM_def bindM_def split: prod.splits sum.splits if_splits)
  then obtain t where "on_session (on_boot_client (session_connect (ev_transport env) (Some (ev_token env))))
      ((clear_connection_state r)\<lparr>rt_session := Some (UpgradeSession t)\<rparr>) = (Inr x, r2)"
    unfolding create_session_def thenM_def by (auto simp: bindM_Inr_iff modM_def)
  then obtain w where w: "rt_session r2 = Some w" "nothing_started w" "\<not> rt_discovery_attempted r2"
    using keepsD(1) [OF started new] by (auto simp: on_session_def clear_connection_state_def split: prod.splits)
  show "at_rest (tor_status opened = TRANSPORT_OPENED) r'" "\<not> rt_discovery_attempted r'"
    using r2 w by (cases "tor_status x"; auto simp: thenM_def bindM_def modM_def at_rest_def clear_connection_state_def)+
qed

lemma discover_rest:
  assumes "at_rest True r" "\<not> rt_discovery_attempted r" "rt_discover env r = (Inr outcome, r')"
  shows "at_rest (or_ok (do_result outcome)) r'"
proof -
  obtain r2 where r2: "catchM (on_session (discover_connected_target (ev_transport env)))
      (\<lambda>e. if is_exception e then thenM (disconnect_quiet env) (raiseM (lifecycle_error e)) else raiseM e)
      (r\<lparr>rt_discovery_attempted := True\<rparr>) = (Inr outcome, r2)"
    and r': "thenM (if \<not> or_ok (do_result outcome) then rt_disconnect env else returnM ()) (returnM outcome)
      (r2\<lparr>rt_discovery_outcome := Some outcome\<rparr>) = (Inr outcome, r')"
    using assms unfolding rt_discover_def thenM_def
    by (auto simp: bindM_Inr_iff modM_def at_rest_def)
  have "on_session (discover_connected_target (ev_transport env)) (r\<lparr>rt_discovery_attempted := True\<rparr>) = (Inr outcome, r2)"
    using r2 by (auto simp: catchM_def thenM_def bindM_def split: prod.splits sum.splits if_splits)
  moreover have "at_rest True (r\<lparr>rt_discovery_attempted := True\<rparr>)"
    using assms(1) by (simp add: at_rest_def)
  ultimately have "at_rest True r2"
    using at_rest_session [OF keeps_state [OF started_discovery]] by blast
  then have "at_rest True (r2\<lparr>rt_discovery_outcome := Some outcome\<rparr>)"
    by (simp add: at_rest_def)
  then show ?thesis
    using r' at_rest_disconnect [of env "r2\<lparr>rt_discovery_outcome := Some outcome\<rparr>"]
    by (auto simp: thenM_Inr_iff split: if_splits)
qed

lemma discovered_rest:
  assumes "at_rest (or_ok (do_result discovery)) r" "discovered_or_disconnected env command discovery r = (Inr (c, out), r')"
  shows "at_rest c r'"
proof (cases "or_ok (do_result discovery)")
  case True
  obtain asked r1 where r1: "cancel_requested env r = (Inr asked, r1)"
    by (cases "rt_session r") (simp_all add: cancel_requested_def)
  then have "at_rest True r1"
    using at_rest_requested assms(1) True by simp
  then show ?thesis
    using assms(2) True r1 at_rest_quiet by (auto simp: discovered_or_disconnected_def bindM_Inr_iff thenM_Inr_iff split: if_splits)
next
  case False
  then show ?thesis
    using assms(2) at_rest_quiet by (auto simp: discovered_or_disconnected_def thenM_Inr_iff)
qed

lemma connect_and_discover_rest:
  assumes "at_rest False r" "connect_and_discover env config command r = (Inr (c, out), r')"
  shows "at_rest c r'"
proof -
  define m where "m = bindM (rt_connect env config) (\<lambda>opened.
        if tor_status opened = TRANSPORT_CANCELLED
        then returnM (False, cancelled_outcome command (''connection cancelled during '' @ tor_stage opened))
        else bindM (rt_discover env) (discovered_or_disconnected env command))"
  obtain x r1 where x: "m r = (x, r1)"
    by (cases "m r")
  have m: "catchM m (\<lambda>e. if is_exception e then thenM (disconnect_quiet env) (returnM (False, exception_outcome command e))
      else raiseM e) r = (Inr (c, out), r')"
    using assms(2) unfolding connect_and_discover_def m_def .
  show ?thesis
  proof (cases x)
    case (Inl e)
    then have "thenM (disconnect_quiet env) (returnM (False, exception_outcome command e)) r1 = (Inr (c, out), r')"
      using m x by (simp add: catchM_def split: if_splits)
    then show ?thesis
      using at_rest_quiet by (auto simp: thenM_Inr_iff)
  next
    case (Inr y)
    then have "m r = (Inr (c, out), r')"
      using m x by (simp add: catchM_def)
    then obtain opened r2 where r2: "rt_connect env config r = (Inr opened, r2)"
      "(if tor_status opened = TRANSPORT_CANCELLED
        then returnM (False, cancelled_outcome command (''connection cancelled during '' @ tor_stage opened))
        else bindM (rt_discover env) (discovered_or_disconnected env command)) r2 = (Inr (c, out), r')"
      unfolding m_def by (auto simp only: bindM_Inr_iff)
    note rest = connect_rest [OF assms(1) r2(1)]
    show ?thesis
    proof (cases "tor_status opened")
      case TRANSPORT_CANCELLED
      then show ?thesis
        using r2(2) rest(1) by simp
    next
      case TRANSPORT_OPENED
      then obtain discovery r3 where "rt_discover env r2 = (Inr discovery, r3)"
        "discovered_or_disconnected env command discovery r3 = (Inr (c, out), r')"
        using r2(2) by (auto simp: bindM_Inr_iff)
      then show ?thesis
        using discovered_rest discover_rest rest TRANSPORT_OPENED by (metis (full_types))
    qed
  qed
qed

section \<open>Steps\<close>

lemma disconnect_command_rest:
  assumes "at_rest connected r" "disconnect_command env connected r = (Inr (c, out), r')"
  shows "at_rest c r'"
  using assms at_rest_disconnect [of env r]
  by (auto simp: disconnect_command_def catchM_def thenM_def bindM_def split: if_splits prod.splits sum.splits)

lemma reconnect_rest:
  assumes "at_rest connected r" "shell_reconnect env config connected r = (Inr (c, out), r')"
  shows "at_rest c r'"
proof -
  obtain failure r1 where r1: "(if \<not> connected then returnM None
        else catchM (thenM (rt_disconnect env) (returnM None))
          (\<lambda>e. if \<not> is_exception e then raiseM e
             else returnM (Some (case e of RuntimeCommunicationError m \<Rightarrow> communication_outcome ''reconnect'' m
               | _ \<Rightarrow> internal_outcome ''reconnect'' (exc_msg e))))) r = (Inr failure, r1)"
    "(case failure of Some outcome \<Rightarrow> returnM (False, outcome)
        | None \<Rightarrow> connect_and_discover env config ''reconnect'') r1 = (Inr (c, out), r')"
    using assms(2) unfolding shell_reconnect_def bindM_Inr_iff by blast
  have "at_rest False r1"
    using r1(1) assms(1) at_rest_disconnect [of env r]
    by (auto simp: catchM_def thenM_def bindM_def split: if_splits prod.splits sum.splits)
  then show ?thesis
    using r1(2) connect_and_discover_rest by (cases failure) auto
qed

lemma ping_rest:
  assumes "at_rest connected r" "shell_ping env connected r = (Inr out, r')"
  shows "at_rest connected r'"
proof (cases connected)
  case True
  have "keeps_state (at_rest True) (on_session (op_ping ctx))" for ctx
    by (rule keepsI) (use at_rest_session [OF started_reads(3)] in \<open>auto split: sum.split\<close>)
  then have "keeps_state (at_rest True) (handle_ping env)"
    unfolding handle_ping_def operate_def rt_discovered_def
    by (intro keeps_state_bind) (auto simp: keeps_state_simps split: option.split)
  then have "at_rest True (snd (handle_ping env r))"
    using assms(1) True by (simp add: keeps_def)
  then show ?thesis
    using assms True by (auto simp: shell_ping_def catchM_def split: prod.splits sum.splits if_splits)
qed (use assms in \<open>simp add: shell_ping_def\<close>)

lemma target_rest:
  assumes "at_rest connected r" "target_and_release env connected paths args r = (Inr (c, out), r')"
  shows "at_rest c r'"
proof -
  obtain outcome r1 where r1: "target_command env connected paths args r = (Inr outcome, r1)"
    "(if run_attempts r < run_attempts r1 then thenM (disconnect_quiet env) (returnM (False, outcome)) r1
      else (Inr (connected, outcome), r1)) = (Inr (c, out), r')"
    using assms(2) by (auto simp: target_and_release_def split: prod.splits sum.splits)
  show ?thesis
  proof (cases "run_attempts r < run_attempts r1")
    case True
    then show ?thesis
      using r1(2) at_rest_quiet by (auto simp: thenM_Inr_iff)
  next
    case False
    then have same: "c = connected" "r' = r1"
      using r1(2) by simp_all
    have idle: "run_attempts r = 0"
      using assms(1) by (auto simp: run_attempts_def at_rest_def split: if_splits)
    show ?thesis
    proof (cases "connected \<and> (ag_command args \<in> set SERVICE_COMMANDS \<longrightarrow> paths \<noteq> None)")
      case True
      have "keeps_state stays (execute_command env (with_paths paths args) True)"
        by (rule handlers.keeps_execute [OF stays_handlers]) simp
      then have "stays (snd (execute_command env (with_paths paths args) True r))"
        using assms(1) True by (auto simp: keeps_def at_rest_def)
      then have "stays r1"
        using r1(1) True by (auto simp: target_command_def catchM_def split: prod.splits sum.splits if_splits)
      then show ?thesis
        using same idle True False by (auto simp: at_rest_def run_attempts_def)
    next
      case False
      then have "r1 = r"
        using r1(1) by (auto simp: target_command_def split: if_splits)
      then show ?thesis
        using same assms(1) by simp
    qed
  qed
qed

abbreviation shell_at_rest :: "'t shell \<Rightarrow> bool" where
  "shell_at_rest s \<equiv> at_rest (sh_connected s) (sh_runtime s)"

lemma on_runtime_rest:
  assumes "\<And>c out r. m (sh_runtime s) = (Inr (c, out), r) \<Longrightarrow> at_rest c r" "on_runtime m s = (Inr u, s')"
  shows "shell_at_rest s'"
  using assms by (auto simp: on_runtime_def split: prod.splits sum.splits)

lemma step_rest:
  assumes "shell_at_rest s" "shell_step env config tokens command s = (Inr u, s')"
  shows "shell_at_rest s'"
proof -
  have stay: "at_rest c r'" if "bindM (returnM x) (\<lambda>outcome. returnM (sh_connected s, outcome)) (sh_runtime s) = (Inr (c, out), r')"
    for x c out r'
    using that assms(1) by (simp add: bindM_def)
  show ?thesis
  proof (cases command)
    case Sh_Help
    then show ?thesis
      using assms(2) by (auto simp: shell_step_def Let_def elim!: on_runtime_rest [rotated] dest: stay)
  next
    case (Sh_Service_Use img map_path)
    then show ?thesis
      using assms by (auto simp: shell_step_def Let_def on_runtime_def bindM_def)
  next
    case Sh_Connect
    then show ?thesis
      using assms stay connect_and_discover_rest
      by (auto simp: shell_step_def Let_def elim!: on_runtime_rest [rotated] split: if_splits)
  next
    case Sh_Disconnect
    then show ?thesis
      using assms disconnect_command_rest by (auto simp: shell_step_def Let_def elim!: on_runtime_rest [rotated])
  next
    case Sh_Reconnect
    then show ?thesis
      using assms reconnect_rest by (auto simp: shell_step_def Let_def elim!: on_runtime_rest [rotated])
  next
    case Sh_Ping
    then show ?thesis
      using assms ping_rest by (auto simp: shell_step_def Let_def bindM_Inr_iff elim!: on_runtime_rest [rotated])
  next
    case (Sh_Target args)
    then show ?thesis
      using assms target_rest by (auto simp: shell_step_def Let_def elim!: on_runtime_rest [rotated])
  next
    case (Sh_Rejected name message)
    then show ?thesis
      using assms(2) by (auto simp: shell_step_def Let_def elim!: on_runtime_rest [rotated] dest: stay)
  qed
qed

section \<open>The first connection\<close>

lemma start_rest:
  assumes "shell_at_rest s" "\<not> sh_connected s" "shell_start env config tokens s = (Inr u, s')"
  shows "shell_at_rest s'"
proof -
  obtain s1 where s1: "on_runtime (connect_and_discover (generation_env env tokens 0) config ''connect'') s = (Inr u, s1)"
    "sh_connected s' = sh_connected s1" "sh_runtime s' = sh_runtime s1"
    using assms(3) by (auto simp: shell_start_def split: prod.splits if_splits)
  then show ?thesis
    using assms(1,2) connect_and_discover_rest by (auto elim!: on_runtime_rest [rotated])
qed

lemma new_shell_rest: "shell_at_rest (new_shell paths)" "\<not> sh_connected (new_shell paths)"
  by (simp_all add: new_shell_def at_rest_def CliRuntime_def)

section \<open>What is written before a start\<close>

text \<open>As long as no start was observed, nothing but the permitted requests is on the wire.\<close>

definition never_starts :: "int \<Rightarrow> int list \<Rightarrow> bool" where
  "never_starts cmd payload \<longleftrightarrow> cmd \<notin> {command_code CMD_RUN, command_code CMD_RUN_RAM}"

definition unstarted :: "('t \<Rightarrow> bool) \<Rightarrow> 't boot_client \<Rightarrow> bool" where
  "unstarted P c \<longleftrightarrow> (bc_wire_attempts c = [] \<longrightarrow> wire P c)"

lemma unstarted_quiet:
  assumes "\<And>cmds. keeps_state (attempts cmds) m" "keeps_state (wire P) m"
  shows "keeps_state (unstarted P) m"
proof (rule keepsI)
  fix c x c' assume c: "unstarted P c" "m c = (x, c')"
  have "bc_wire_attempts c' = bc_wire_attempts c"
    using keepsD(1) [OF assms(1) refl c(2)] .
  then show "unstarted P c' \<and> (case x of Inl _ \<Rightarrow> True | Inr _ \<Rightarrow> True)"
    using c keepsD(1) [OF assms(2) _ c(2)] by (auto simp: unstarted_def split: sum.split)
qed

lemma observed_exchange:
  "bc_wire_attempts (snd (transact_exchange tr cmd timeout True m made c)) = bc_wire_attempts c @ [cmd]"
proof -
  let ?c = "c\<lparr>bc_wire_attempts := bc_wire_attempts c @ [cmd]\<rparr>"
  have "transact_exchange tr cmd timeout True m made c = transact_exchange tr cmd timeout False m made ?c"
    by (simp add: transact_exchange_def thenM_def bindM_def modM_def returnM_def split: prod.split)
  moreover have "attempts (bc_wire_attempts ?c) (snd (transact_exchange tr cmd timeout False m made ?c))"
    using keepsD(1) [OF attempts_exchange refl surjective_pairing] .
  ultimately show ?thesis
    by simp
qed

lemma unstarted_transact:
  assumes "wire_keeps tr allowed P" "observed \<or> allowed cmd payload"
  shows "keeps_state (unstarted P) (bc_transact tr cmd payload ms observed)"
proof (cases observed)
  case True
  have "keeps_state (unstarted P) (transact_exchange tr cmd ms True m made)" for m made
  proof (rule keepsI)
    fix c x c' assume "transact_exchange tr cmd ms True m made c = (x, c')"
    then show "unstarted P c' \<and> (case x of Inl _ \<Rightarrow> True | Inr _ \<Rightarrow> True)"
      using observed_exchange [of tr cmd ms m made c] by (simp add: unstarted_def split: sum.split)
  qed
  then show ?thesis
    unfolding bc_transact_parts using True by (auto intro!: keeps_state_bind keeps_state_simps)
next
  case False
  then show ?thesis
    using assms attempts_transact [of _ tr cmd payload ms] bc_transact_wire [OF assms(1), of cmd payload ms False]
    by (auto intro!: unstarted_quiet)
qed

abbreviation may_start :: "command_field \<Rightarrow> bool \<Rightarrow> bool" where
  "may_start field observed \<equiv> observed \<or> field \<noteq> F_run \<and> field \<noteq> F_run_ram"

lemma CPU1_starts: "CPU1_COMMAND_SET field = Some cmd \<Longrightarrow> field \<noteq> F_run \<Longrightarrow> field \<noteq> F_run_ram \<Longrightarrow> never_starts cmd payload"
  by (cases field) (simp_all add: never_starts_def)

lemma known_unstarted:
  assumes "known_target (cx_target fctx)" "wire_keeps (cx_transport fctx) never_starts P"
  shows "op_client fctx may_start (unstarted P)"
proof
  show "keeps_state (unstarted P) (bc_transact (cx_transport fctx) cmd payload ms observed)"
    if "tp_command_set (cx_target fctx) field = Some cmd" "field \<in> acting_fields \<Longrightarrow> may_start field observed"
    for field cmd payload ms observed
  proof (rule unstarted_transact [OF assms(2)])
    have "CPU1_COMMAND_SET field = Some cmd"
      using assms(1) that(1) by (auto simp: known_target_def CPU1_PROFILE_def CPU2_PROFILE_def)
    moreover have "may_start field observed"
      using that(2) by (auto simp: acting_fields_def)
    ultimately show "observed \<or> never_starts cmd payload"
      using CPU1_starts by blast
  qed
qed

lemma discovery_unstarted:
  assumes "wire_keeps tr never_starts P"
  shows "op_client (discovery_flash_context tr) may_start (unstarted P)"
proof
  show "keeps_state (unstarted P) (bc_transact (cx_transport (discovery_flash_context tr)) cmd payload ms observed)"
    if "tp_command_set (cx_target (discovery_flash_context tr)) field = Some cmd" for field cmd payload ms observed
  proof -
    have "never_starts cmd payload"
      using that by (auto simp: discovery_flash_context_def DISCOVERY_PROFILE_def never_starts_def dest!: discovery_commands)
    then show ?thesis
      using unstarted_transact [OF assms, of observed cmd payload] by (simp add: discovery_flash_context_def)
  qed
qed

abbreviation unstarted_world :: "('t \<Rightarrow> int list list) \<Rightarrow> 't world \<Rightarrow> bool" where
  "unstarted_world sent \<equiv> \<lambda>w. unstarted (\<lambda>t. \<forall>data \<in> set (sent t). request_frame never_starts data) (wd_client w)"

lemma unstarted_client: "keeps_state (unstarted P) m \<Longrightarrow> keeps_state (\<lambda>w. unstarted P (wd_client w)) (on_boot_client m)"
  by (auto simp: keeps_def on_boot_client_def split: prod.split sum.split)

lemma observed_acts: "starts_as True op \<Longrightarrow> acts may_start op"
  by (cases op) simp_all

lemma shell_unstarted:
  fixes env :: "'t cli_env"
  assumes "logs (ev_transport env) sent" "quiet_lifecycle env sent"
  shows "session_keeps env args True (starts_as True) known_target (unstarted_world sent)"
proof -
  let ?P = "\<lambda>t. \<forall>data \<in> set (sent t). request_frame never_starts data"
  note frames = logs_request_frames [OF assms(1), of never_starts]
  have op: "keeps_state (unstarted_world sent)
      (run_operation (flash_operation_context env token target service) op)" if "known_target target" "starts_as True op"
    for token target service op
  proof -
    have "op_client (flash_operation_context env token target service) may_start (unstarted ?P)"
      by (rule known_unstarted) (use that frames in \<open>simp_all add: flash_operation_context_def\<close>)
    from op_client.sound_run_operation [OF this observed_acts [OF that(2)]] show ?thesis
      by (rule keeps_state)
  qed
  note discovery = discovery_unstarted [OF frames]
  have transport: "keeps_state (unstarted ?P) (on_transport m)" if "\<And>t. sent (snd (m t)) = sent t" for m :: "('t, 'a) sm"
    by (rule unstarted_quiet [OF attempts_transport], rule keepsI)
      (use that in \<open>auto simp: on_transport_def wire_def split: prod.splits sum.split\<close>, metis snd_conv)
  have reset: "keeps_state (unstarted ?P) reset_connection_state"
    by (simp add: keeps_def reset_connection_state_def modM_def unstarted_def)
  note q = assms(2) [unfolded quiet_lifecycle_def]
  show ?thesis
  proof
    show "unstarted_world sent (UpgradeSession t)" if "ev_make env config = Inr t" for config t
      using q that by (simp add: unstarted_def wire_def UpgradeSession_def BootProtocolClient_def)
    show "keeps_state (unstarted_world sent) (on_boot_client (session_connect (ev_transport env) (Some (ev_token env))))"
      unfolding session_connect_def by (intro unstarted_client keeps_state_then reset transport) (use q in simp)
    show "keeps_state (unstarted_world sent) (on_boot_client (session_disconnect (ev_transport env)))"
      unfolding session_disconnect_def by (intro unstarted_client transport) (use q in simp)
    show "keeps (unstarted_world sent) (discover_connected_target (ev_transport env)) finds_known (\<lambda>_. True)"
      by (rule discover_keeps; rule keeps_state)
        (use op_client.sound_device_info [OF discovery] op_client.sound_protocol_info [OF discovery] in
          \<open>simp_all add: discovery_op_cx\<close>)
    show "keeps_state (unstarted_world sent) (op_get_metadata_summary (operation_context env token target))"
      if "known_target target" for target token
      using op [OF that, of Read_Metadata_Summary token undefined] by simp
  qed (use op in auto)
qed

section \<open>The shell keeps what its sessions keep\<close>

context session_keeps
begin

lemma keeps_quiet: "keeps_state S (disconnect_quiet env)"
  unfolding disconnect_quiet_def
  by (intro keeps_catch [where E' = "\<lambda>_. True"] keeps_disconnect keeps_if keeps_state_simps)

lemma keeps_connect_and_discover: "keeps_state S (connect_and_discover env config command)"
proof -
  have "keeps_state S (discovered_or_disconnected env command discovery)" for discovery
    unfolding discovered_or_disconnected_def
    by (intro keeps_if keeps_state_then keeps_quiet keeps_state_bind keeps_requested keeps_state_simps)
  then show ?thesis
    unfolding connect_and_discover_def
    by (intro keeps_catch [where E' = "\<lambda>_. True"] keeps_state_bind keeps_connect keeps_if keeps_discover
        keeps_state_then keeps_quiet keeps_state_simps)
qed

lemma keeps_disconnect_command: "keeps_state S (disconnect_command env connected)"
  unfolding disconnect_command_def
  by (intro keeps_if keeps_catch [where E' = "\<lambda>_. True"] keeps_state_then keeps_disconnect keeps_state_simps)

lemma keeps_reconnect: "keeps_state S (shell_reconnect env config connected)"
proof -
  have "keeps_state S (case failure of Some outcome \<Rightarrow> returnM (False, outcome)
      | None \<Rightarrow> connect_and_discover env config command)" for failure command
    by (cases failure) (simp_all add: keeps_connect_and_discover keeps_state_simps)
  then show ?thesis
    unfolding shell_reconnect_def
    by (intro keeps_state_bind keeps_if keeps_catch [where E' = "\<lambda>_. True"] keeps_state_then keeps_disconnect
        keeps_state_simps)
qed

lemma keeps_ping:
  assumes lenient
  shows "keeps_state S (shell_ping env connected)"
  unfolding shell_ping_def handle_ping_def
  by (intro keeps_if keeps_catch [where E' = "\<lambda>_. True"] keeps_operate free_unconfirmed keeps_state_simps)
    (use assms in auto)

lemma keeps_target:
  assumes observed lenient "with_paths paths command = args"
  shows "keeps_state S (target_and_release env connected paths command)"
proof (rule keepsI)
  fix r x r' assume r: "S r" "target_and_release env connected paths command r = (x, r')"
  have "keeps_state S (execute_command env args True)"
    using keeps_execute assms(1,2) by auto
  then have target: "keeps_state S (target_command env connected paths command)"
    unfolding target_command_def assms(3)
    by (intro keeps_if keeps_catch [where E' = "\<lambda>_. True"] keeps_state_simps)
  have quiet: "keeps_state S (thenM (disconnect_quiet env) (returnM (False, outcome)))" for outcome :: command_outcome
    by (intro keeps_state_then keeps_quiet keeps_state_simps)
  show "S r' \<and> (case x of Inl _ \<Rightarrow> True | Inr _ \<Rightarrow> True)"
    using r keepsD(1) [OF target r(1)] keepsD(1) [OF quiet]
    by (auto simp: target_and_release_def split: prod.splits sum.splits if_splits)
qed

end

lemma on_runtime_keeps:
  assumes "keeps_state S m" "S (sh_runtime s)" "on_runtime m s = (x, s')"
  shows "S (sh_runtime s')"
  using assms keepsD(1) [OF assms(1,2)] by (auto simp: on_runtime_def split: prod.splits sum.splits)

text \<open>Every step keeps an invariant that the sessions keep whatever the token of the generation.\<close>

lemma step_keeps:
  assumes "\<And>token args. session_keeps (env\<lparr>ev_token := token\<rparr>) args True free known J"
    and "\<forall>op. unconfirmed op \<longrightarrow> free op"
    and "sessions_keep J known (sh_runtime s)" "shell_step env config tokens command s = (x, s')"
  shows "sessions_keep J known (sh_runtime s')"
proof -
  note sess = assms(1) [of "tokens n" for n, folded generation_env_def]
  have stay: "keeps_state (sessions_keep J known) (bindM m (\<lambda>outcome. returnM (connected, outcome)))"
    if "keeps_state (sessions_keep J known) m" for m and connected :: bool
    by (intro keeps_state_bind keeps_state_simps that)
  note rules = on_runtime_keeps [of "sessions_keep J known"] stay keeps_state_simps
    session_keeps.keeps_connect_and_discover [OF sess] session_keeps.keeps_disconnect_command [OF sess]
    session_keeps.keeps_reconnect [OF sess] session_keeps.keeps_ping [OF sess assms(2)]
    session_keeps.keeps_target [OF sess TrueI assms(2) refl]
  show ?thesis
    using assms(3,4)
    by (cases command; auto simp: shell_step_def Let_def split: if_splits elim!: on_runtime_keeps [rotated 2] intro!: rules(2-))
qed

lemma session_keeps_all:
  assumes "\<And>token args. session_keeps (env\<lparr>ev_token := token\<rparr>) args True free known J"
    and "\<forall>op. unconfirmed op \<longrightarrow> free op"
    and "shell_session env config tokens commands (new_shell paths) = (Inr (), s)"
  shows "sessions_keep J known (sh_runtime s)"
proof -
  obtain s1 where s1: "shell_start env config tokens (new_shell paths) = (Inr (), s1)"
    "forM commands (shell_step env config tokens) s1 = (Inr (), s)"
    using assms(3) by (auto simp: shell_session_def thenM_Inr_iff)
  obtain s2 where s2: "on_runtime (connect_and_discover (generation_env env tokens 0) config ''connect'') (new_shell paths) =
      (Inr (), s2)" "sh_runtime s1 = sh_runtime s2"
    using s1(1) by (auto simp: shell_start_def split: prod.splits if_splits)
  have "sessions_keep J known (sh_runtime (new_shell paths))"
    by (simp add: new_shell_def sessions_keep_new)
  then have "sessions_keep J known (sh_runtime s1)"
    using on_runtime_keeps [OF session_keeps.keeps_connect_and_discover
        [OF assms(1) [of "tokens 0", folded generation_env_def]] _ s2(1)] s2(2) by simp
  then show ?thesis
    by (rule forM_invariant [where P = "\<lambda>s. sessions_keep J known (sh_runtime s)", OF _ s1(2)])
      (rule step_keeps [OF assms(1,2)])
qed

section \<open>The property\<close>

text \<open>
  C11.  The shell never uses a connection on which an application may have been started.  Whatever commands
  were given, whatever the target answered and whenever cancellation was requested: at the next prompt the
  shell shows itself connected exactly when the runtime has a connected session, and every byte string written
  on that session is a request other than RUN and RUN_RAM.
\<close>

theorem shell_drops_started_connection:
  assumes "logs (ev_transport env) sent" "quiet_lifecycle env sent"
    and "shell_session env config tokens commands (new_shell paths) = (Inr (), s)"
  shows "(case rt_session (sh_runtime s) of
      None \<Rightarrow> \<not> sh_connected s \<and> \<not> rt_connected (sh_runtime s)
    | Some w \<Rightarrow> sh_connected s \<and> rt_connected (sh_runtime s) \<and> bc_wire_attempts (wd_client w) = [] \<and>
        (\<forall>data \<in> set (sent (bc_transport (wd_client w))). \<exists>request. encode_bytes request = Inr data \<and>
           fr_command request \<notin> {command_code CMD_RUN, command_code CMD_RUN_RAM}))"
proof -
  obtain s1 where s1: "shell_start env config tokens (new_shell paths) = (Inr (), s1)"
    "forM commands (shell_step env config tokens) s1 = (Inr (), s)"
    using assms(3) by (auto simp: shell_session_def thenM_Inr_iff)
  have "shell_at_rest s1"
    by (rule start_rest [OF new_shell_rest s1(1)])
  then have rest: "shell_at_rest s"
    by (rule forM_invariant [where P = shell_at_rest, OF _ s1(2)]) (rule step_rest)
  have "logs (ev_transport (env\<lparr>ev_token := token\<rparr>)) sent" "quiet_lifecycle (env\<lparr>ev_token := token\<rparr>) sent" for token
    using assms(1,2) by (simp_all add: quiet_lifecycle_def)
  then have "session_keeps (env\<lparr>ev_token := token\<rparr>) args True (starts_as True) known_target (unstarted_world sent)"
    for token args
    by (rule shell_unstarted)
  moreover have "starts_as True op" if "unconfirmed op" for op
    using that by (cases op) simp_all
  ultimately have "sessions_keep (unstarted_world sent) known_target (sh_runtime s)"
    using session_keeps_all [OF _ _ assms(3)] by blast
  then show ?thesis
    using rest by (auto simp: at_rest_def sessions_keep_def unstarted_def wire_def request_frame_def never_starts_def
        split: if_splits option.split)
qed

end
