(* ===== verification/Cli_Example.thy ===== *)
theory Cli_Example
  imports Cli_Serial Cli_Upgrade Cli_Shell_Safety Op_Example Service_Spec
begin

text \<open>
  A serial port at whose other end a target answers every request with success, on which the statements about
  the command line are applied.
\<close>

section \<open>The port\<close>

text \<open>
  The state: the bytes that wait to be read, with the frames written.  The autobaud byte is echoed;
  \<open>ans\<close> gives the payload of the answer to each command.
\<close>

type_synonym line = "int list \<times> int list list"

definition agreeing :: "(int \<Rightarrow> int list) \<Rightarrow> frame \<Rightarrow> frame" where
  "agreeing ans f = f\<lparr>fr_packet_type := packet_type_code PKT_RESPONSE, fr_payload := ans (fr_command f)\<rparr>"

definition answering_port :: "(int \<Rightarrow> int list) \<Rightarrow> int list pyserial" where
  "answering_port ans =
     \<lparr>py_create = (\<lambda>_ _ _ _. returnM ()), py_set_dtr = (\<lambda>_. returnM ()), py_set_rts = (\<lambda>_. returnM ()),
      py_set_timeout = (\<lambda>_. returnM ()),
      py_write = (\<lambda>data _. (Inr None, if data = [65] then [65]
        else (case decode_frame (words_of_bytes data) 0xFFFF of
          Inl e \<Rightarrow> [] | Inr f \<Rightarrow> le_bytes (frame_words (agreeing ans f))))),
      py_flush = returnM (), py_read = (\<lambda>n pending. (Inr pending, [])),
      py_in_waiting = (\<lambda>pending. Some (int (length pending))), py_reset_input_buffer = returnM (),
      py_close = returnM ()\<rparr>"

abbreviation agreeing_port :: "(int \<Rightarrow> int list) \<Rightarrow> line pyserial" where
  "agreeing_port ans \<equiv> recording_port (answering_port ans)"

lemmas agreeing_port_def = recording_port_def answering_port_def on_recorded_def recorded_write_def

lemma agreeing_closes: "closes (agreeing_port ans)"
  by (simp add: closes_def agreeing_port_def)

abbreviation one_look :: "int \<Rightarrow> int list" where "one_look \<equiv> \<lambda>_. [1]"

abbreviation agreeing_transport :: "(int \<Rightarrow> int list) \<Rightarrow> serial_transport_config \<Rightarrow> line serial_transport byte_transport" where
  "agreeing_transport ans config \<equiv> serial_byte_transport (agreeing_port ans) one_look config"

lemma agreeing_write:
  assumes "sr_open s" "sr_port s = (pending, log)" "data \<noteq> [65]"
  shows "bt_write_all (agreeing_transport ans config) data s = (Inr (), s\<lparr>sr_port := (case decode_frame (words_of_bytes data) 0xFFFF of
      Inl e \<Rightarrow> [] | Inr f \<Rightarrow> le_bytes (frame_words (agreeing ans f)), log @ [data])\<rparr>)"
  using assms
  by (simp add: serial_byte_transport_def serial_write_all_def serial_require_open_def thenM_def bindM_def wrap_errors_def
      catchM_def on_port_def agreeing_port_def)

lemma agreeing_read:
  assumes "sr_open s" "sr_port s = (pending, log)"
  shows "bt_read_some (agreeing_transport ans config) 4096 s = (Inr pending, s\<lparr>sr_port := ([], log)\<rparr>)"
  using assms
  by (simp add: serial_byte_transport_def serial_read_some_def serial_require_open_def thenM_def bindM_def wrap_errors_def
      catchM_def on_port_def agreeing_port_def)

lemma agreeing_polls: "bt_polls (agreeing_transport ans config) ms = 1"
  by (simp add: serial_byte_transport_def)

lemma flag_wire_keeps: "wire_keeps (serial_byte_transport ps waits config) (\<lambda>_ _. True) sr_open"
  unfolding wire_keeps_def serial_byte_transport_def
  using flag_io [of True ps] by (auto simp: keeps_def)

section \<open>Transactions\<close>

definition answers_ok :: "(int \<Rightarrow> int list) \<Rightarrow> bool" where
  "answers_ok ans \<longleftrightarrow> (\<forall>cmd. words16 (ans cmd) \<and> length (ans cmd) \<le> 25)"

lemma agreeing_transact:
  assumes "sr_open (bc_transport c)" "payload_limit c cmd = Inr m" "int (length payload) \<le> m" "m \<le> 0xFFFF"
    and "u16 (bc_sequence c)" "u16 cmd" "words16 payload" "bc_buffer c = []" "words16 (ans cmd)"
    and "int (length (ans cmd)) \<le> m" "0 < command_timeout cmd timeout"
  shows "\<exists>c'. bc_transact (agreeing_transport ans config) cmd payload timeout observed c =
      (bindE (cached cmd (ans cmd) c) (\<lambda>_. Inr (ans cmd)), c') \<and>
    u16 (bc_sequence c') \<and> bc_buffer c' = [] \<and> sr_open (bc_transport c') \<and>
    (bc_device_info c', bc_protocol_info c') = (case cached cmd (ans cmd) c of
       Inl _ \<Rightarrow> (bc_device_info c, bc_protocol_info c) | Inr d \<Rightarrow> (bc_device_info d, bc_protocol_info d))"
proof -
  let ?tr = "agreeing_transport ans config" and ?req = "client_request (bc_sequence c) cmd payload"
  let ?r = "agreeing ans ?req"
  obtain log pending where port: "sr_port (bc_transport c) = (pending, log)"
    by (cases "sr_port (bc_transport c)")
  have wf: "frame_wf ?req"
    by (rule client_request_wf) (use assms in auto)
  have answer: "fr_payload ?r = ans cmd" "echoes ?req ?r" "reply_result ?r = Inr (ans cmd)" "frame_wf ?r"
    using wf assms(4,9,10) by (simp_all add: agreeing_def client_request_def echoes_def reply_result_def frame_wf_def u_simps)
  define t where "t = (bc_transport c)\<lparr>sr_port := (le_bytes (frame_words ?r), log @ [le_bytes (frame_words ?req)])\<rparr>"
  have "le_bytes (frame_words ?req) \<noteq> [65]"
    using arg_cong [of _ _ length] le_bytes_frame_magic [of ?req] by (force simp: magic_bytes_def)
  then have written: "bt_write_all ?tr (le_bytes (frame_words ?req)) (bc_transport c) = (Inr (), t)"
    using agreeing_write [OF assms(1) port] decode_encode [OF wf, where m = "0xFFFF"] words16_frame_words [OF wf] assms(3,4)
    by (simp add: words_of_le_bytes client_request_def t_def)
  have t: "sr_open t" "sr_port t = (le_bytes (frame_words ?r), log @ [le_bytes (frame_words ?req)])"
    using assms(1) by (simp_all add: t_def)
  have looks: "reads (bt_read_some ?tr 4096) (bt_polls ?tr ms) t = map Inr [le_bytes (frame_words ?r)]" for ms
    using agreeing_read [OF t] by (simp add: agreeing_polls)
  obtain c' where c': "bc_transact ?tr cmd payload timeout observed c = (answered cmd ?r c, c')"
    "bc_sequence c' = succ_sequence (bc_sequence c)" "bc_buffer c' = []"
    "(bc_device_info c', bc_protocol_info c') = cached_after cmd ?r c"
    using transaction_answered [OF assms(2,3) _ assms(5-8) written assms(11) looks, where noise = "[]" and r = ?r] answer
      assms(3,4,10) by auto
  have "wire sr_open c'"
    using keepsD(1) [OF bc_transact_wire [OF flag_wire_keeps] _ c'(1)] assms(1) by (simp add: wire_def)
  then show ?thesis
    using c' answer(3) succ_sequence_range [OF assms(5)] by (auto simp: answered_def cached_after_def wire_def)
qed


section \<open>The serial port\<close>

definition bench_config :: serial_transport_config where
  "bench_config =
     \<lparr>stc_port = ''COM1'', stc_baudrate = 9600, stc_tx_timeout_ms = 1000, stc_rx_timeout_ms = 1000,
      stc_autobaud_timeout_ms = 5000\<rparr>"

definition bench :: "(int \<Rightarrow> int list) \<Rightarrow> cancellation \<Rightarrow> line serial_transport cli_env" where
  "bench ans token = serial_env (agreeing_port ans) one_look bench_config ([], [])
     \<lparr>ev_transport = agreeing_transport ans bench_config,
      ev_make = (\<lambda>_. Inl (ValueError '''')), ev_token = token, ev_load = (\<lambda>_. Inr (example_image, None)),
      ev_map_text = (\<lambda>_. Inr ''''), ev_confirm = (\<lambda>_. DECLINED)\<rparr>"

definition bench_cli :: cli_config where
  "bench_cli = \<lparr>cg_transport = ''serial'', cg_port = Some ''COM1'', cg_baud = 9600, cg_timeout_ms = None\<rparr>"

definition bench_args :: "string \<Rightarrow> cli_args" where
  "bench_args command =
     \<lparr>ag_command = command, ag_flash_service_image = ''service.txt'', ag_flash_service_map = ''service.map'',
      ag_image = Some ''app.txt'', ag_all_app = False, ag_sector_mask = 2, ag_entry_point = 0x082400,
      ag_address = 0x082400, ag_words = 8, ag_yes = False, ag_no_run = False\<rparr>"

text \<open>The port opens with an echo at the first attempt; answered with yes, the fourth question closes it again.\<close>

abbreviation closed_port :: "line serial_transport" where
  "closed_port \<equiv> \<lparr>sr_port = ([], []), sr_open = False, sr_asked = 0\<rparr>"

lemmas open_run = serial_open_def open_settled_def finish_open_def cancel_open_def serial_close_def serial_require_open_def
  autobaud_try_def autobaud_attempt_def set_timeout_def wrap_errors_def catchM_def thenM_def bindM_def modM_def on_port_def
  ask_serial_token_def cancellation_requested_def TransportOpenResult_def agreeing_port_def

lemma bench_opens:
  "\<exists>n. serial_open (agreeing_port ans) one_look config (Some (\<lambda>_. False)) closed_port =
     (Inr \<lparr>tor_status = TRANSPORT_OPENED, tor_resource_released = False, tor_stage = ''OPEN_COMPLETE''\<rparr>,
      \<lparr>sr_port = ([], []), sr_open = True, sr_asked = n\<rparr>)"
  by (simp add: open_run)

lemma bench_cancels:
  "serial_open (agreeing_port ans) one_look config (Some (\<lambda>n. n = 3)) closed_port =
     (Inr \<lparr>tor_status = TRANSPORT_CANCELLED, tor_resource_released = True, tor_stage = ''OPEN_SETTLE''\<rparr>,
      \<lparr>sr_port = ([], []), sr_open = False, sr_asked = 4\<rparr>)"
  by (simp add: open_run)

lemma serial_open_all_or_nothing_witness:
  "sr_open (snd (serial_open (agreeing_port (\<lambda>_. [])) one_look bench_config (Some (\<lambda>_. False)) closed_port)) \<and>
   \<not> sr_open (snd (serial_open (agreeing_port (\<lambda>_. [])) one_look bench_config (Some (\<lambda>n. n = 3)) closed_port))"
proof -
  obtain n where n: "serial_open (agreeing_port (\<lambda>_. [])) one_look bench_config (Some (\<lambda>_. False)) closed_port =
     (Inr \<lparr>tor_status = TRANSPORT_OPENED, tor_resource_released = False, tor_stage = ''OPEN_COMPLETE''\<rparr>,
      \<lparr>sr_port = ([], []), sr_open = True, sr_asked = n\<rparr>)"
    using bench_opens by blast
  show ?thesis
    using serial_open_all_or_nothing [OF agreeing_closes _ n] serial_open_all_or_nothing [OF agreeing_closes _ bench_cancels]
      n bench_cancels by simp
qed


section \<open>Invocations\<close>

lemma bench_simps:
  "ev_transport (bench ans token) = agreeing_transport ans bench_config" "ev_token (bench ans token) = token"
  "ev_make (bench ans token) c = SerialTransport c ([], [])" "ev_confirm (bench ans token) details = DECLINED"
  by (simp_all add: bench_def serial_env_def)

lemma bench_valid: "validated_config bench_cli = Inr bench_cli" "require_port bench_cli = Inr ''COM1''"
  "serial_config bench_cli = Inr bench_config" "SerialTransport bench_config ([], []) = Inr closed_port"
  by (simp_all add: validated_config_def CliRuntimeConfig_def require_port_def serial_config_def strip_blank_def bench_cli_def
      bench_config_def SerialTransport_def)

lemma cli_never_erases_boot_sector_witness:
  "list_all (list_all harmless_frame) (map (\<lambda>w. frames_sent (bc_transport (wd_client w)))
     (rt_released (snd (cli_main (bench (\<lambda>_. []) (\<lambda>_. False)) bench_cli (bench_args ''erase'') CliRuntime))))"
  using cli_never_erases_boot_sector [of "bench (\<lambda>_. []) (\<lambda>_. False)" frames_sent bench_cli "bench_args ''erase''"]
    recording_logs [of "answering_port (\<lambda>_. [])" one_look bench_config]
  by (simp add: bench_simps list_all_iff) (simp add: bench_def recording_quiet)

lemma cli_acts_only_with_consent_witness:
  "list_all (list_all (\<lambda>data. \<exists>request. encode_bytes request = Inr data \<and>
      fr_command request \<in> command_code ` {CMD_GET_DEVICE_INFO, CMD_GET_PROTOCOL_INFO, CMD_GET_METADATA_SUMMARY})) (map (\<lambda>w. frames_sent (bc_transport (wd_client w)))
     (rt_released (snd (cli_main (bench (\<lambda>_. []) (\<lambda>_. False)) bench_cli (bench_args ''erase'') CliRuntime))))"
proof -
  have "\<not> consents (bench (\<lambda>_. []) (\<lambda>_. False)) (bench_args ''erase'')" "ag_command (bench_args ''erase'') \<in> asking_commands"
    by (simp_all add: consents_def bench_def serial_env_def bench_args_def asking_commands_def)
  moreover have "logs (ev_transport (bench (\<lambda>_. []) (\<lambda>_. False))) frames_sent" "quiet_lifecycle (bench (\<lambda>_. []) (\<lambda>_. False)) frames_sent"
    using recording_logs [of "answering_port (\<lambda>_. [])" one_look bench_config]
    by (simp_all add: bench_simps) (simp add: bench_def recording_quiet)
  ultimately show ?thesis
    using cli_acts_only_with_consent by (fastforce simp: list_all_iff)
qed

text \<open>The third question is answered with yes while the port settles.\<close>

definition cancelled_session :: "line serial_transport world" where
  "cancelled_session = UpgradeSession \<lparr>sr_port = ([], []), sr_open = False, sr_asked = 4\<rparr>"

lemma bench_connect_cancelled:
  "rt_connect (bench ans (\<lambda>n. n = 3)) bench_cli CliRuntime =
     (Inr \<lparr>tor_status = TRANSPORT_CANCELLED, tor_resource_released = True, tor_stage = ''OPEN_SETTLE''\<rparr>,
      CliRuntime\<lparr>rt_released := [cancelled_session]\<rparr>)"
  by (simp add: rt_connect_def create_session_def thenM_def bindM_def modM_def catchM_def on_session_def on_boot_client_def
      session_connect_def reset_connection_state_def on_transport_def bench_simps bench_valid bench_cancels
      serial_byte_transport_def CliRuntime_def clear_connection_state_def UpgradeSession_def BootProtocolClient_def
      cancelled_session_def)

lemma new_runtime: "rt_session CliRuntime = None" "rt_released CliRuntime = []" "\<not> rt_connected CliRuntime"
  "clear_connection_state CliRuntime = CliRuntime"
  by (simp_all add: CliRuntime_def clear_connection_state_def)

lemma bench_main_cancelled:
  "cli_main (bench ans (\<lambda>n. n = 3)) bench_cli args CliRuntime =
     (Inr (cancelled_outcome (ag_command args) ''connection cancelled during OPEN_SETTLE''),
      CliRuntime\<lparr>rt_released := [cancelled_session]\<rparr>)"
  by (simp add: cli_main_def bench_valid run_and_disconnect_def run_guarded_def run_command_def Let_def bindM_def catchM_def
      thenM_def bench_connect_cancelled rt_disconnect_def clear_connection_state_def new_runtime)
    (simp add: CliRuntime_def)

lemma cli_closes_port_witness:
  "list_all (\<lambda>w. \<not> sr_open (bc_transport (wd_client w)))
     (rt_released (snd (cli_main (bench (\<lambda>_. []) (\<lambda>n. n = 3)) bench_cli (bench_args ''upgrade'') CliRuntime)))"
  using cli_closes_port [OF agreeing_closes bench_main_cancelled [unfolded bench_def]]
  by (simp add: bench_main_cancelled list_all_iff)

section \<open>A shell that stays connected\<close>

text \<open>The target describes itself: CPU1 with payloads of 256 words.\<close>

definition describing :: "int \<Rightarrow> int list" where
  "describing cmd =
     (if cmd = command_code CMD_GET_DEVICE_INFO then [14205, 1, 0, 1, 0, 1, 1087, 0, 256, 248, 2, 1, 0, 0, 0, 0]
      else if cmd = command_code CMD_GET_PROTOCOL_INFO
      then [PROTOCOL_VERSION, PROTOCOL_VERSION, PROTOCOL_VERSION, HEADER_WORDS, CRC_TYPE_CCITT_FALSE, ENDIAN_LITTLE, 256, 0]
      else [])"

lemma describing_parse:
  "device_info_from_words (describing (command_code CMD_GET_DEVICE_INFO)) = Inr default_device_info"
  "protocol_info_from_words (describing (command_code CMD_GET_PROTOCOL_INFO)) = Inr example_protocol_info"
  by code_simp+

lemma describing_small: "words16 (describing cmd)" "length (describing cmd) \<le> 16"
  by (simp_all add: describing_def u_simps PROTOCOL_VERSION_def HEADER_WORDS_def CRC_TYPE_CCITT_FALSE_def ENDIAN_LITTLE_def)

text \<open>The client of the discovery: an open port and nothing pending.\<close>

definition ready :: "device_info option \<Rightarrow> protocol_info option \<Rightarrow> line serial_transport world \<Rightarrow> bool" where
  "ready d p w \<longleftrightarrow> sr_open (bc_transport (wd_client w)) \<and> bc_device_info (wd_client w) = d \<and>
     bc_protocol_info (wd_client w) = p \<and> u16 (bc_sequence (wd_client w)) \<and> bc_buffer (wd_client w) = []"

lemma telling_transact:
  assumes "ready d p w" "DISCOVERY_COMMAND_SET field = Some cmd" "payload_limit (wd_client w) cmd = Inr m" "16 \<le> m" "m \<le> 0xFFFF"
    and "cached cmd (describing cmd) (wd_client w) = Inr c" "bc_device_info c = d'" "bc_protocol_info c = p'"
  shows "\<exists>w'. op_transact (discovery_context (agreeing_transport describing bench_config)) field [] False w =
    (Inr (describing cmd), w') \<and> ready d' p' w'"
proof -
  let ?c = "wd_client w" and ?t = "Option.bind (Command_of cmd) DEFAULT_COMMAND_TIMEOUT_MS"
  have cmd: "u16 cmd" "0 < command_timeout cmd ?t"
    using discovery_commands [OF assms(2)] by (auto simp: u_simps command_timeout_def Command_of_def all_commands_def)
  obtain c' where c': "bc_transact (agreeing_transport describing bench_config) cmd [] ?t False ?c = (Inr (describing cmd), c')"
    "u16 (bc_sequence c')" "bc_buffer c' = []" "sr_open (bc_transport c')" "bc_device_info c' = d'" "bc_protocol_info c' = p'"
    using agreeing_transact [where c = ?c and cmd = cmd and m = m and ans = describing and config = bench_config
        and payload = "[]" and timeout = ?t and observed = False] assms(1,3-8) cmd describing_small [of cmd]
    by (auto simp: ready_def)
  have "op_transact (discovery_context (agreeing_transport describing bench_config)) field [] False w =
      (Inr (describing cmd), w\<lparr>wd_client := c'\<rparr>)"
    using assms(2) c'(1)
    by (simp add: op_transact_def discovery_context_def DISCOVERY_PROFILE_def require_command_def on_boot_client_def)
  then show ?thesis
    using c' by (simp add: ready_def)
qed

abbreviation bench_context :: "line serial_transport op_context" where
  "bench_context \<equiv> discovery_context (agreeing_transport describing bench_config)"

lemma bootstrap_words: "BOOTSTRAP_MAX_PAYLOAD_WORDS = 16"
  by (simp add: BOOTSTRAP_MAX_PAYLOAD_WORDS_def DEVICE_INFO_WORDS_def PROTOCOL_INFO_WORDS_def ERROR_DETAIL_WORDS_def)

lemma success_result: "\<exists>r. OperationResult (basic_result ctx True operation stage summary) = Inr r \<and> or_ok r"
  by (simp add: OperationResult_def basic_result_def completion_valid_def Let_def del: append_Cons)

lemma plain_result: "\<exists>r. ok_result ctx operation stage summary [] None = Inr r \<and> or_ok r"
  by (simp add: ok_result_def OperationResult_def basic_result_def completion_valid_def Let_def del: append_Cons)

lemma told_device_info:
  assumes "ready None None w"
  shows "\<exists>w' r. op_get_device_info bench_context w = (Inr r, w') \<and> or_ok r \<and> ready (Some default_device_info) None w'"
proof -
  let ?cmd = "command_code CMD_GET_DEVICE_INFO"
  have limit: "payload_limit (wd_client w) ?cmd = Inr 16"
    using assms by (simp add: payload_limit_def ready_def BOOTSTRAP_COMMANDS_def bootstrap_words)
  have cached: "cached ?cmd (describing ?cmd) (wd_client w) = Inr ((wd_client w)\<lparr>bc_device_info := Some default_device_info\<rparr>)"
    using assms describing_parse(1) by (simp add: cached_def as_decode_error_def bindE_def ready_def)
  obtain w' where w': "op_transact bench_context F_get_device_info [] False w = (Inr (describing ?cmd), w')"
    "ready (Some default_device_info) None w'"
    using telling_transact [OF assms _ limit _ _ cached, of F_get_device_info] assms by (auto simp: ready_def)
  obtain r where "ok_result bench_context ''get_device_info'' ''GET_DEVICE_INFO'' (device_info_dict default_device_info) [] None = Inr r"
    "or_ok r"
    using plain_result by blast
  then show ?thesis
    using w' by (simp add: op_get_device_info_def catchM_def thenM_def bindM_def ready_def)
qed

lemma told_protocol_info:
  assumes "ready (Some default_device_info) None w"
  shows "\<exists>w' r. op_get_protocol_info bench_context w = (Inr r, w') \<and> or_ok r \<and>
    ready (Some default_device_info) (Some example_protocol_info) w'"
proof -
  let ?cmd = "command_code CMD_GET_PROTOCOL_INFO"
  have limit: "payload_limit (wd_client w) ?cmd = Inr 16"
    using assms by (simp add: payload_limit_def ready_def BOOTSTRAP_COMMANDS_def bootstrap_words default_device_info_def)
  have cached: "cached ?cmd (describing ?cmd) (wd_client w) = Inr ((wd_client w)\<lparr>bc_protocol_info := Some example_protocol_info\<rparr>)"
    using assms describing_parse(2)
    by (simp add: cached_def as_decode_error_def bindE_def ready_def default_device_info_def example_protocol_info_def)
  obtain w' where w': "op_transact bench_context F_get_protocol_info [] False w = (Inr (describing ?cmd), w')"
    "ready (Some default_device_info) (Some example_protocol_info) w'"
    using telling_transact [OF assms _ limit _ _ cached, of F_get_protocol_info] assms by (auto simp: ready_def)
  obtain r where "ok_result bench_context ''get_protocol_info'' ''GET_PROTOCOL_INFO'' (protocol_info_dict example_protocol_info) [] None = Inr r"
    "or_ok r"
    using plain_result by blast
  then show ?thesis
    using w' by (simp add: op_get_protocol_info_def guarded_def catchM_def thenM_def bindM_def ready_def)
qed

lemma told_discovery:
  assumes "ready None None w"
  shows "\<exists>w' outcome. discover_connected_target (agreeing_transport describing bench_config) w = (Inr outcome, w') \<and>
    or_ok (do_result outcome)"
proof -
  obtain w1 r1 where w1: "op_get_device_info bench_context w = (Inr r1, w1)" "or_ok r1" "ready (Some default_device_info) None w1"
    using told_device_info [OF assms] by blast
  obtain w2 r2 where w2: "op_get_protocol_info bench_context w1 = (Inr r2, w2)" "or_ok r2"
    "ready (Some default_device_info) (Some example_protocol_info) w2"
    using told_protocol_info [OF w1(3)] by blast
  have info: "di_cpu_id default_device_info = 1" "di_device_id default_device_info = device_id_code DEV_F28377D"
    by (simp_all add: default_device_info_def)
  have limits: "effective_max_payload_words (wd_client w2) = Inr 256" "effective_max_data_words (wd_client w2) = Inr 248"
    "effective_max_write_data_words (wd_client w2) = Inr 248"
    using w2(3)
    by (simp_all add: ready_def effective_max_payload_words_def effective_max_data_words_def
        effective_max_write_data_words_def default_device_info_def example_protocol_info_def
        WRITE_DATA_ALIGNMENT_WORDS_def Let_def)
  obtain summary where summary: "discovery_summary (wd_client w2) default_device_info ''cpu1'' = Inr summary"
    using w2(3) limits by (simp add: discovery_summary_def ready_def bindE_def)
  obtain ok where ok: "OperationResult (basic_result bench_context True ''discover_connected_target'' ''RESOLVE_TARGET'' summary) = Inr ok"
    "or_ok ok"
    using success_result by blast
  have profile: "target_profile_for_key ''cpu1'' = Some CPU1_PROFILE" "cpu_key 1 = ''cpu1''" "tp_cpu_id CPU1_PROFILE = 1"
    by (simp add: target_profile_for_key_def, code_simp, simp add: CPU1_PROFILE_def)
  have "discover_limits bench_context default_device_info CPU1_PROFILE ''cpu1'' w1 =
      (Inr \<lparr>do_result = ok, do_discovered = Some \<lparr>dt_device_info = default_device_info,
         dt_target_profile = CPU1_PROFILE, dt_target_key = ''cpu1''\<rparr>\<rparr>, w2)"
    using w2(1,2) summary ok
    by (simp add: discover_limits_def bindM_def DiscoveredTarget_def TargetDiscoveryOutcome_def info profile)
  then show ?thesis
    using w1 ok(2)
    by (simp add: discover_connected_target_def Let_def bindM_def ready_def info profile)
qed

lemma bench_connects:
  "\<exists>w r. rt_connect (bench describing (\<lambda>_. False)) bench_cli CliRuntime =
     (Inr \<lparr>tor_status = TRANSPORT_OPENED, tor_resource_released = False, tor_stage = ''OPEN_COMPLETE''\<rparr>, r) \<and>
   rt_session r = Some w \<and> ready None None w \<and> rt_connected r \<and> \<not> rt_discovery_attempted r"
proof -
  obtain n where n: "serial_open (agreeing_port describing) one_look bench_config (Some (\<lambda>_. False)) closed_port =
     (Inr \<lparr>tor_status = TRANSPORT_OPENED, tor_resource_released = False, tor_stage = ''OPEN_COMPLETE''\<rparr>,
      \<lparr>sr_port = ([], []), sr_open = True, sr_asked = n\<rparr>)"
    using bench_opens by blast
  show ?thesis
    by (simp add: rt_connect_def create_session_def thenM_def bindM_def modM_def catchM_def on_session_def on_boot_client_def
        session_connect_def reset_connection_state_def on_transport_def bench_simps bench_valid n
        serial_byte_transport_def CliRuntime_def clear_connection_state_def UpgradeSession_def BootProtocolClient_def
        ready_def u_simps)
qed

lemma bench_stays_connected:
  "\<exists>r w outcome. connect_and_discover (bench describing (\<lambda>_. False)) bench_cli command CliRuntime = (Inr (True, outcome), r) \<and>
     rt_session r = Some w"
proof -
  let ?env = "bench describing (\<lambda>_. False)"
  obtain w r where r: "rt_connect ?env bench_cli CliRuntime =
     (Inr \<lparr>tor_status = TRANSPORT_OPENED, tor_resource_released = False, tor_stage = ''OPEN_COMPLETE''\<rparr>, r)"
    "rt_session r = Some w" "ready None None w" "rt_connected r" "\<not> rt_discovery_attempted r"
    using bench_connects by blast
  obtain w' discovery where d: "discover_connected_target (agreeing_transport describing bench_config) w = (Inr discovery, w')"
    "or_ok (do_result discovery)"
    using told_discovery [OF r(3)] by blast
  show ?thesis
    using r d
    by (simp add: connect_and_discover_def catchM_def bindM_def rt_discover_def thenM_def modM_def on_session_def bench_simps
        discovered_or_disconnected_def cancel_requested_def)
qed

lemma shell_drops_started_connection_witness:
  "\<exists>s w. shell_session (bench describing (\<lambda>_. False)) bench_cli (\<lambda>_ _. False) [Sh_Help] (new_shell None) = (Inr (), s) \<and>
     rt_session (sh_runtime s) = Some w \<and> sh_connected s \<and>
     list_all (\<lambda>data. \<exists>request. encode_bytes request = Inr data \<and>
       fr_command request \<notin> {command_code CMD_RUN, command_code CMD_RUN_RAM}) (frames_sent (bc_transport (wd_client w)))"
proof -
  have env: "generation_env (bench ans token) tokens n = bench ans (tokens n)" for ans token tokens n
    by (simp add: generation_env_def bench_def serial_env_def)
  obtain r w outcome where r: "connect_and_discover (bench describing (\<lambda>_. False)) bench_cli ''connect'' CliRuntime =
      (Inr (True, outcome), r)" "rt_session r = Some w"
    using bench_stays_connected by blast
  obtain s where s: "shell_session (bench describing (\<lambda>_. False)) bench_cli (\<lambda>_ _. False) [Sh_Help] (new_shell None) =
      (Inr (), s)" "rt_session (sh_runtime s) = Some w"
    using r by (simp add: shell_session_def thenM_def bindM_def shell_start_def env on_runtime_def new_shell_def shell_step_def
        Let_def)
  then show ?thesis
    using shell_drops_started_connection [OF _ _ s(1), of frames_sent]
      recording_logs [of "answering_port describing" one_look bench_config]
    by (simp add: bench_simps list_all_iff) (simp add: bench_def recording_quiet)
qed

end
