(* ===== verification/Spec2Isabelle.thy ===== *)
theory Spec2Isabelle
  imports Upgrade_Example Frame_Reader Op_Discovery Op_Memory Op_Example Runtime_Example Service_Spec Serial_Io Cli_Example
begin

text \<open>
  This development models the host side of the TMS320F28377D boot loader upgrade tool under
  \<open>src/pc/src/bootloader_upgrade_tool\<close> and the device simulator its tests run against.  Paths below are
  relative to that directory.

  \<^bold>\<open>The program.\<close>  A host sends request frames over a serial line to a boot loader and reads response frames.
  There are two stacks over the same wire.  The older one is \<open>core/client.py\<close> (one request, one response, on an
  IO device) with \<open>core/workflow.py\<close> (erase, program, verify, record, run).  The newer one is
  \<open>protocol/boot_protocol_client.py\<close> (capabilities, limits, one transaction, on a byte transport) with
  \<open>session/\<close>, \<open>operations/\<close> (every operation with cancellation and a result that says what to do next),
  \<open>images/\<close> and \<open>targets/\<close>, used by the command line in \<open>cli/\<close> and by the front end, whose state is the
  event-driven kernel \<open>gui/runtime_v2_*.py\<close>.  The boot loader itself is C and assembly outside the modelled
  language; its place is taken by \<open>simulator/core.py\<close>, which answers the same frames.

  \<^bold>\<open>How it is modelled.\<close>  A Python integer is an \<open>int\<close>, with every range check of the code; a class is a record,
  an enumeration a datatype; a method that changes an object and may raise is a function of type \<open>('s, 'a) sm\<close>
  from the state to a result or exception and the new state (\<open>Prelude\<close>), so a state change made before an
  exception is kept, as in Python.  Exceptions are one datatype with the class tests of the \<open>except\<close> clauses.
  Third-party parts and the outside world are arguments: the IO device, the byte transport and the serial
  port are records of functions on their own state, a cancellation token is the sequence of its answers, the
  files are functions from names to contents.  Time is the number of looks a waiting loop takes before
  its deadline, an argument everywhere, so the statements hold for every clock and every loop ends after the
  looks its clock grants.

  \<^bold>\<open>Protocol and codec.\<close>  \<open>Constants\<close> (\<open>protocol/constants.py\<close>, \<open>command_timeouts.py\<close>), \<open>Crc\<close> (\<open>protocol/crc.py\<close>,
  \<open>firmware/crc32.py\<close>), \<open>Frame\<close> (\<open>protocol/frame.py\<close>), \<open>Wire_Models\<close> (\<open>protocol/models.py\<close>): encoding and decoding
  are inverse, the decoder accepts nothing but encodings, and damage to one word is found.  \<open>Resync\<close> and
  \<open>Frame_Reader\<close> (\<open>protocol/resync.py\<close>, \<open>frame_reader.py\<close>) read frames from a stream cut into arbitrary pieces.

  \<^bold>\<open>Images.\<close>  \<open>Firmware\<close> (\<open>firmware/models.py\<close>, validation and \<open>flash_layout.py\<close>), \<open>Packets\<close> (cutting an image into
  data packets, \<open>core/workflow.py\<close>) with \<open>Upgrade_Image\<close> (padding of linker images), \<open>Targets\<close> and \<open>Images\<close>
  (\<open>targets/\<close>, \<open>images/\<close>: admission and identity), \<open>Sci8\<close> (\<open>firmware/hex2000.py\<close>: the boot table and its printed
  form), \<open>Service_Image\<close> and \<open>Service_Spec\<close> (\<open>firmware/ti_map.py\<close>, \<open>service_image.py\<close>,
  \<open>images/service_image.py\<close>: patching as an update of the image's memory).

  \<^bold>\<open>The simulated device.\<close>  \<open>Sim_State\<close>, \<open>Sim_Flash\<close>, \<open>Sim_Metadata\<close>, \<open>Sim_Ram\<close>, \<open>Sim_Core\<close> are \<open>simulator/core.py\<close>, one
  definition per handler.  \<open>Sim_Invariant\<close>, \<open>Sim_Summary\<close>, \<open>Sim_Frame_Rules\<close>, \<open>Sim_Effects\<close> hold its invariant and
  what the handlers do; \<open>Sim_Transact\<close>, \<open>Sim_Safety\<close>, \<open>Sim_Gates\<close>, \<open>Sim_Boot\<close> the properties of its reachable states:
  every request is answered, Flash changes only as the rules allow, boot attempts are bounded.

  \<^bold>\<open>The workflow stack.\<close>  \<open>Io_Device\<close> (\<open>io/base.py\<close>), \<open>Client\<close> (\<open>core/client.py\<close>), \<open>Sim_Device\<close>
  (\<open>io/simulator_device.py\<close>), \<open>Workflow\<close> (\<open>core/workflow.py\<close>).  \<open>Client_Spec\<close> states the client's contract as the locale
  \<open>request_device\<close>, interpreted on the simulator adapter in \<open>Sim_Device\<close>, which also refines a client call to one
  call of the simulator.  \<open>Upgrade_Steps\<close> (locale \<open>transfer_phase\<close>, interpreted for programming and verifying),
  \<open>Upgrade\<close>, \<open>Installation\<close>, \<open>Application_Start\<close> prove the upgrade end to end, \<open>Workflow_Safety\<close> that a failed one
  never starts an application.

  \<^bold>\<open>The operation stack.\<close>  \<open>Transport\<close>, \<open>Boot_Client\<close>, \<open>Boot_Spec\<close>; \<open>Op_Results\<close> (results, the cancellable transfer),
  \<open>Op_Service\<close>, \<open>Op_Flash\<close>, \<open>Op_Metadata\<close>, \<open>Op_Status\<close>, \<open>Op_Memory\<close> (with the RAM operations), \<open>Op_Discovery\<close> are the files of
  \<open>operations/\<close>.  \<open>Op_Rules\<close>, \<open>Op_Wire\<close> (locale \<open>op_client\<close>: an invariant
  of the client that the permitted exchanges keep is kept by every operation that needs no others), \<open>Op_Discipline\<close>
  (locale \<open>op_wire\<close>: the same for a property of the transport), \<open>Op_Transfer\<close>, \<open>Op_Read\<close> and \<open>Metadata_Gates\<close> prove
  what every operation guarantees on every transport, and the transfers in detail.

  \<^bold>\<open>The front end's state.\<close>  \<open>Runtime_State\<close>, \<open>Runtime_Events\<close>, \<open>Runtime_Policies\<close> are \<open>gui/runtime_v2_models.py\<close>,
  \<open>runtime_v2_events.py\<close>, \<open>runtime_v2_policies.py\<close> and \<open>runtime_v2_transition.py\<close>; \<open>Runtime_Spec\<close> describes the state after
  an event directly, \<open>Runtime_Run\<close> proves that the dispatcher with its fourteen policies computes it, and
  \<open>Runtime_Evidence\<close> the invariants of all reachable states and histories of events (evidence belongs to the active
  connection, fresh data to a read that arrived on it).

  \<^bold>\<open>The serial line and the command line.\<close>  \<open>Transport\<close> (\<open>transport/base.py\<close>, \<open>serial_transport.py\<close>) and \<open>Serial_Io\<close>
  (\<open>io/serial_device.py\<close>) put the serial port under the two stacks; \<open>Serial_Spec\<close> proves that opening is all or
  nothing.  \<open>Cli_Output\<close> (\<open>cli/output.py\<close>, \<open>confirmation.py\<close>), \<open>Cli_Runtime\<close> (\<open>runtime.py\<close>), \<open>Cli_Commands\<close>
  (\<open>commands.py\<close>), \<open>Cli_Main\<close> (\<open>main.py\<close>) and \<open>Cli_Shell\<close> (\<open>shell.py\<close>) are the command line from the parsed
  arguments to the exit code.  \<open>Cli_Rules\<close> (locales \<open>handlers\<close> and \<open>session_keeps\<close>) reduces an
  invariant over every command to the lifecycle, the discovery and the operations.  On them rest \<open>Cli_Safety\<close> (no
  erase of the boot loader, without consent no change of the Flash and no start), \<open>Cli_Cleanup\<close> (locales \<open>transport_lifecycle\<close> and
  \<open>cli_lifecycle\<close>: no port stays open, interpreted on the serial transport), \<open>Cli_Serial\<close> (\<open>session_keeps\<close>
  interpreted on a port that records what is written), \<open>Cli_Upgrade\<close> (what exit code 0 of \<open>upgrade\<close> means) and
  \<open>Cli_Shell_Safety\<close> (no RUN or RUN_RAM request was written on the connection that the shell keeps).

  The \<open>_Example\<close> theories hold the concrete runs at which the properties are applied.

  \<^bold>\<open>Bounds and fuel.\<close>  No recursion of the model uses fuel except the reading loops, whose number of looks at the
  clock is the argument described above.  \<open>_prepare_ram_packets\<close> does not end for a packet size of zero; there the
  model returns the exception \<open>Diverges\<close>, which no \<open>except\<close> clause catches, and a theorem says so.

  \<^bold>\<open>Not modelled.\<close>  Numbers formatted into messages, log and text output; locks and threads (every statement is
  about one sequence of calls); the argument parsers, the terminal texts and the progress display of \<open>cli/\<close>; running \<open>hex2000\<close>, finding files and the
  operating system; the Qt widgets, pages, bindings and the worker threads of \<open>gui/runtime_backend.py\<close>,
  which call the modelled operations; persistence of settings; \<open>firmware/cmd_memory.py\<close> (a generator used at
  development time) and the build and icon tools; the C and assembly sources.
\<close>

end
